(* ===== verification/Prelude.thy ===== *)
theory Prelude
  imports Main "HOL-Library.Word"
begin

text \<open>
  The vocabulary every component shares: the machine integers of the source, the result
  monad that models \<open>Result<T, E>\<close> with its \<open>?\<close> operator, the checked and saturating
  operations of Rust's unsigned integers, and little-endian byte strings.

  Collections: \<open>res_inv\<close> inverts a successful (or failed) chain of \<open>?\<close> steps,
  \<open>arith_ops\<close> reads the checked operations as arithmetic on \<open>nat\<close>.
\<close>

unbundle bit_operations_syntax

named_theorems res_inv \<open>inversion of result-valued computations\<close>
named_theorems arith_ops \<open>checked word operations as natural-number arithmetic\<close>

section \<open>Machine types\<close>

type_synonym u8 = "8 word"
type_synonym u16 = "16 word"
type_synonym u32 = "32 word"
type_synonym u64 = "64 word"
type_synonym u128 = "128 word"

text \<open>An \<open>i64\<close> is its 64 bits, read by \<open>sint\<close>.\<close>

type_synonym i64 = "64 word"

text \<open>Byte slices, \<open>Vec<u8>\<close> and the fixed arrays \<open>[u8; N]\<close> are lists of bytes.\<close>

type_synonym bytes = "u8 list"

definition str_bytes :: "string \<Rightarrow> bytes" where
  "str_bytes s = map of_char s"

lemma length_str_bytes [simp]: "length (str_bytes s) = length s"
  by (simp add: str_bytes_def)

lemma of_char_u8_inj: "(of_char c :: u8) = of_char d \<longleftrightarrow> c = d"
proof
  assume "(of_char c :: u8) = of_char d"
  then have "(word_of_nat (of_char c) :: u8) = word_of_nat (of_char d)"
    by (simp add: of_nat_of_char)
  then have "take_bit 8 (of_char c :: nat) = take_bit 8 (of_char d)"
    by (simp add: word_of_nat_eq_iff)
  then show "c = d"
    by (simp add: take_bit_eq_mod)
qed simp

lemma str_bytes_inj [simp]: "str_bytes s = str_bytes t \<longleftrightarrow> s = t"
proof
  assume "str_bytes s = str_bytes t"
  then show "s = t"
    unfolding str_bytes_def
    by (intro map_injective [of "of_char :: char \<Rightarrow> u8"]) (auto intro: injI simp: of_char_u8_inj)
qed simp

section \<open>Results\<close>

text \<open>
  \<open>Result<T, E>\<close> is a sum with the error on the left. \<open>res_bind m f\<close> is
  \<open>let x = m?; f(x)\<close>; \<open>require c e\<close> is \<open>if !c { return Err(e) }\<close>.
\<close>

definition res_bind :: "'e + 'a \<Rightarrow> ('a \<Rightarrow> 'e + 'b) \<Rightarrow> 'e + 'b" where
  "res_bind m f = (case m of Inl e \<Rightarrow> Inl e | Inr x \<Rightarrow> f x)"

definition require :: "bool \<Rightarrow> 'e \<Rightarrow> 'e + unit" where
  "require c e = (if c then Inr () else Inl e)"

definition ok_or :: "'a option \<Rightarrow> 'e \<Rightarrow> 'e + 'a" where
  "ok_or opt e = (case opt of None \<Rightarrow> Inl e | Some x \<Rightarrow> Inr x)"

lemma res_bind_simps [simp]:
  "res_bind (Inr x) f = f x"
  "res_bind (Inl e) f = Inl e"
  by (simp_all add: res_bind_def)

lemma require_simps [simp]:
  "require True e = Inr ()"
  "require False e = Inl e"
  by (simp_all add: require_def)

lemma ok_or_simps [simp]:
  "ok_or None e = Inl e"
  "ok_or (Some x) e = Inr x"
  by (simp_all add: ok_or_def)

lemma res_bind_Inr [res_inv]: "res_bind m f = Inr y \<longleftrightarrow> (\<exists>x. m = Inr x \<and> f x = Inr y)"
  by (cases m) auto

lemma res_bind_Inl [res_inv]:
  "res_bind m f = Inl e \<longleftrightarrow> m = Inl e \<or> (\<exists>x. m = Inr x \<and> f x = Inl e)"
  by (cases m) auto

lemma require_Inr [res_inv]: "require c e = Inr u \<longleftrightarrow> c"
  by (simp add: require_def)

lemma require_Inl [res_inv]: "require c e = Inl e' \<longleftrightarrow> \<not> c \<and> e' = e"
  by (auto simp: require_def)

lemma ok_or_Inr [res_inv]: "ok_or opt e = Inr x \<longleftrightarrow> opt = Some x"
  by (cases opt) auto

lemma ok_or_Inl [res_inv]: "ok_or opt e = Inl e' \<longleftrightarrow> opt = None \<and> e' = e"
  by (cases opt) auto

lemma res_bind_cong [fundef_cong]:
  "m = m' \<Longrightarrow> (\<And>x. m' = Inr x \<Longrightarrow> f x = g x) \<Longrightarrow> res_bind m f = res_bind m' g"
  by (cases m') auto

section \<open>Checked and saturating operations\<close>

definition checked_add :: "'a::len word \<Rightarrow> 'a word \<Rightarrow> 'a word option" where
  "checked_add a b = (if unat a + unat b < 2 ^ LENGTH('a) then Some (a + b) else None)"

definition checked_sub :: "'a::len word \<Rightarrow> 'a word \<Rightarrow> 'a word option" where
  "checked_sub a b = (if unat b \<le> unat a then Some (a - b) else None)"

definition checked_div :: "'a::len word \<Rightarrow> 'a word \<Rightarrow> 'a word option" where
  "checked_div a b = (if b = 0 then None else Some (a div b))"

definition saturating_add :: "'a::len word \<Rightarrow> 'a word \<Rightarrow> 'a word" where
  "saturating_add a b = (if unat a + unat b < 2 ^ LENGTH('a) then a + b else - 1)"

definition saturating_sub :: "'a::len word \<Rightarrow> 'a word \<Rightarrow> 'a word" where
  "saturating_sub a b = (if unat b \<le> unat a then a - b else 0)"

definition abs_diff :: "'a::len word \<Rightarrow> 'a word \<Rightarrow> 'a word" where
  "abs_diff a b = (if unat b \<le> unat a then a - b else b - a)"

lemma unat_less_len: "unat w < 2 ^ LENGTH('a)"
  for w :: "'a::len word"
  by (rule unsigned_less)

lemma unat_add_fits: "unat a + unat b < 2 ^ LENGTH('a) \<Longrightarrow> unat (a + b) = unat a + unat b"
  for a b :: "'a::len word"
  by (simp add: unat_word_ariths)

lemma unat_sub_fits: "unat b \<le> unat a \<Longrightarrow> unat (a - b) = unat a - unat b"
  for a b :: "'a::len word"
  by (simp add: unat_sub word_le_nat_alt)

lemma unat_minus_one_word': "unat (- 1 :: 'a::len word) = 2 ^ LENGTH('a) - 1"
  by (simp add: unsigned_minus_1_eq_mask mask_eq_exp_minus_1)

lemma checked_add_Some [arith_ops]:
  "checked_add a b = Some c \<longleftrightarrow> unat a + unat b < 2 ^ LENGTH('a) \<and> unat c = unat a + unat b"
  for a b c :: "'a::len word"
  using unat_add_fits [of a b]
  by (auto simp: checked_add_def simp flip: unat_add_fits intro: word_unat_eq_iff [THEN iffD2])

lemma checked_add_None [arith_ops]:
  "checked_add a b = None \<longleftrightarrow> 2 ^ LENGTH('a) \<le> unat a + unat b"
  for a b :: "'a::len word"
  by (auto simp: checked_add_def)

lemma checked_sub_Some [arith_ops]:
  "checked_sub a b = Some c \<longleftrightarrow> unat b \<le> unat a \<and> unat c = unat a - unat b"
  for a b c :: "'a::len word"
  using unat_sub_fits [of b a]
  by (auto simp: checked_sub_def intro: word_unat_eq_iff [THEN iffD2])

lemma checked_sub_None [arith_ops]:
  "checked_sub a b = None \<longleftrightarrow> unat a < unat b"
  for a b :: "'a::len word"
  by (auto simp: checked_sub_def)

lemma unat_saturating_add [arith_ops]:
  "unat (saturating_add a b) = min (unat a + unat b) (2 ^ LENGTH('a) - 1)"
  for a b :: "'a::len word"
  by (auto simp: saturating_add_def unat_add_fits unat_minus_one_word' min_def)

lemma unat_saturating_sub [arith_ops]:
  "unat (saturating_sub a b) = unat a - unat b"
  for a b :: "'a::len word"
  by (simp add: saturating_sub_def unat_sub_fits)

lemma unat_abs_diff [arith_ops]:
  "int (unat (abs_diff a b)) = \<bar>int (unat a) - int (unat b)\<bar>"
  for a b :: "'a::len word"
proof (cases "unat b \<le> unat a")
  case True
  then show ?thesis
    by (simp add: abs_diff_def unat_sub_fits of_nat_diff del: of_nat_unat)
next
  case False
  then have "unat a \<le> unat b" by simp
  with False show ?thesis
    by (simp add: abs_diff_def unat_sub_fits of_nat_diff del: of_nat_unat)
qed

section \<open>Little-endian byte strings\<close>

text \<open>\<open>to_le_bytes\<close> and \<open>from_le_bytes\<close> of Rust's unsigned integers.\<close>

primrec le_bytes :: "nat \<Rightarrow> nat \<Rightarrow> bytes" where
  "le_bytes 0 v = []"
| "le_bytes (Suc n) v = word_of_nat (v mod 256) # le_bytes n (v div 256)"

primrec le_val :: "bytes \<Rightarrow> nat" where
  "le_val [] = 0"
| "le_val (b # bs) = unat b + 256 * le_val bs"

lemma length_le_bytes [simp]: "length (le_bytes n v) = n"
  by (induction n arbitrary: v) auto

lemma unat_u8_less: "unat (b :: u8) < 256"
  using unsigned_less [of b] by simp

lemma le_val_bound: "le_val bs < 256 ^ length bs"
proof (induction bs)
  case (Cons b bs)
  then show ?case using unat_u8_less [of b] by simp
qed simp

lemma le_val_le_bytes: "le_val (le_bytes n v) = v mod 256 ^ n"
proof (induction n arbitrary: v)
  case (Suc n)
  have "unat (word_of_nat (v mod 256) :: u8) = v mod 256"
    by (simp add: unat_of_nat take_bit_nat_eq_self_iff)
  with Suc show ?case by (simp add: mod_mult2_eq)
qed simp

lemma le_bytes_le_val: "le_bytes (length bs) (le_val bs) = bs"
proof (induction bs)
  case (Cons b bs)
  have "(unat b + 256 * le_val bs) mod 256 = unat b"
    and "(unat b + 256 * le_val bs) div 256 = le_val bs"
    using unat_u8_less [of b] by simp_all
  with Cons show ?case by simp
qed simp

lemma le_val_inj: "length xs = length ys \<Longrightarrow> le_val xs = le_val ys \<Longrightarrow> xs = ys"
  by (metis le_bytes_le_val)

lemma le_val_append: "le_val (xs @ ys) = le_val xs + 256 ^ length xs * le_val ys"
  by (induction xs) (auto simp: algebra_simps)

lemma le_val_replicate_0 [simp]: "le_val (replicate n 0) = 0"
  by (induction n) auto

lemma le_val_eq_0: "le_val bs = 0 \<longleftrightarrow> (\<forall>b \<in> set bs. b = 0)"
  by (induction bs) (auto simp: unat_eq_0)

definition to_le_bytes :: "nat \<Rightarrow> 'a::len word \<Rightarrow> bytes" where
  "to_le_bytes n w = le_bytes n (unat w)"

definition from_le_bytes :: "bytes \<Rightarrow> 'a::len word" where
  "from_le_bytes bs = word_of_nat (le_val bs)"

lemma length_to_le_bytes [simp]: "length (to_le_bytes n w) = n"
  by (simp add: to_le_bytes_def)

lemma from_to_le_bytes: "LENGTH('a) = 8 * n \<Longrightarrow> from_le_bytes (to_le_bytes n w) = w"
  for w :: "'a::len word"
proof -
  assume len: "LENGTH('a) = 8 * n"
  have "unat w < 256 ^ n"
    using unat_less_len [of w] by (simp add: len power_mult)
  then show ?thesis
    by (simp add: from_le_bytes_def to_le_bytes_def le_val_le_bytes)
qed

lemma to_from_le_bytes:
  "LENGTH('a) = 8 * n \<Longrightarrow> length bs = n \<Longrightarrow> to_le_bytes n (from_le_bytes bs :: 'a::len word) = bs"
proof -
  assume len: "LENGTH('a) = 8 * n" and n: "length bs = n"
  have "le_val bs < 2 ^ LENGTH('a)"
    using le_val_bound [of bs] by (simp add: len n power_mult)
  then have "unat (from_le_bytes bs :: 'a word) = le_val bs"
    by (simp add: from_le_bytes_def unsigned_of_nat take_bit_nat_eq_self)
  then show ?thesis
    using le_bytes_le_val [of bs] by (simp add: to_le_bytes_def n)
qed

section \<open>Lists\<close>

text \<open>\<open>bytes.get(..n).zip(bytes.get(n..))\<close>: both slices, or nothing when \<open>n\<close> is out of range.\<close>

definition split_checked :: "nat \<Rightarrow> 'a list \<Rightarrow> ('a list \<times> 'a list) option" where
  "split_checked n xs = (if n \<le> length xs then Some (take n xs, drop n xs) else None)"

lemma split_checked_Some:
  "split_checked n xs = Some (a, b) \<longleftrightarrow> xs = a @ b \<and> length a = n"
  by (auto simp: split_checked_def)

lemma split_checked_append [simp]: "length a = n \<Longrightarrow> split_checked n (a @ b) = Some (a, b)"
  by (simp add: split_checked_def)

lemma sum_list_map_nth: "sum_list (map f xs) = (\<Sum>i<length xs. f (xs ! i))"
  by (simp add: sum_list_sum_nth atLeast0LessThan)

end
