(* ===== verification/Std_Ints.thy ===== *)
theory Std_Ints
  imports Prelude
begin

text \<open>
  The two integer types of \<open>crates/solana-axelar-std\<close>: \<open>U128\<close>, a \<open>u128\<close> kept as its sixteen
  little-endian bytes so that an account can hold it at eight-byte alignment, and \<open>U256\<close>,
  four little-endian \<open>u64\<close> limbs. The lemmas read both as natural numbers.
\<close>

section \<open>\<open>U128\<close> (\<open>u128.rs\<close>)\<close>

datatype U128 = U128 (u128_bytes: bytes)

text \<open>The Rust type holds an array of sixteen bytes.\<close>

definition u128_wf :: "U128 \<Rightarrow> bool" where
  "u128_wf x \<longleftrightarrow> length (u128_bytes x) = 16"

definition u128_zero :: U128 where
  "u128_zero = U128 (replicate 16 0)"

definition u128_max :: U128 where
  "u128_max = U128 (replicate 16 255)"

definition u128_new :: "u128 \<Rightarrow> U128" where
  "u128_new v = U128 (to_le_bytes 16 v)"

definition u128_get :: "U128 \<Rightarrow> u128" where
  "u128_get x = from_le_bytes (u128_bytes x)"

definition u128_checked_add :: "U128 \<Rightarrow> U128 \<Rightarrow> U128 option" where
  "u128_checked_add a b = map_option u128_new (checked_add (u128_get a) (u128_get b))"

definition u128_saturating_add :: "U128 \<Rightarrow> U128 \<Rightarrow> U128" where
  "u128_saturating_add a b = u128_new (saturating_add (u128_get a) (u128_get b))"

definition u128_saturating_add_u128 :: "U128 \<Rightarrow> u128 \<Rightarrow> U128" where
  "u128_saturating_add_u128 a b = u128_new (saturating_add (u128_get a) b)"

definition u128_checked_sub :: "U128 \<Rightarrow> U128 \<Rightarrow> U128 option" where
  "u128_checked_sub a b = map_option u128_new (checked_sub (u128_get a) (u128_get b))"

definition u128_saturating_sub :: "U128 \<Rightarrow> U128 \<Rightarrow> U128" where
  "u128_saturating_sub a b = u128_new (saturating_sub (u128_get a) (u128_get b))"

definition u128_from_u64 :: "u64 \<Rightarrow> U128" where
  "u128_from_u64 v = u128_new (ucast v)"

text \<open>
  \<open>#[derive(PartialOrd, Ord)]\<close> on the byte array: lexicographic from the first, least
  significant byte.
\<close>

fun bytes_less :: "bytes \<Rightarrow> bytes \<Rightarrow> bool" where
  "bytes_less [] [] = False"
| "bytes_less [] (y # ys) = True"
| "bytes_less (x # xs) [] = False"
| "bytes_less (x # xs) (y # ys) = (x < y \<or> (x = y \<and> bytes_less xs ys))"

definition u128_derived_less :: "U128 \<Rightarrow> U128 \<Rightarrow> bool" where
  "u128_derived_less a b = bytes_less (u128_bytes a) (u128_bytes b)"

lemma u128_wf_new [simp]: "u128_wf (u128_new v)"
  by (simp add: u128_wf_def u128_new_def)

lemma u128_wf_max [simp]: "u128_wf u128_max"
  by (simp add: u128_wf_def u128_max_def)

lemma u128_wf_zero [simp]: "u128_wf u128_zero"
  by (simp add: u128_wf_def u128_zero_def)

lemma u128_get_new [simp]: "u128_get (u128_new v) = v"
  by (simp add: u128_get_def u128_new_def from_to_le_bytes)

lemma u128_new_get: "u128_wf x \<Longrightarrow> u128_new (u128_get x) = x"
  by (cases x) (simp add: u128_wf_def u128_get_def u128_new_def to_from_le_bytes)

lemma u128_get_inj: "u128_wf x \<Longrightarrow> u128_wf y \<Longrightarrow> u128_get x = u128_get y \<longleftrightarrow> x = y"
  by (metis u128_new_get)

lemma u128_get_zero [simp]: "u128_get u128_zero = 0"
  by (simp add: u128_get_def u128_zero_def from_le_bytes_def)

lemma le_val_replicate_255: "le_val (replicate n 255) = 256 ^ n - 1"
proof (induction n)
  case (Suc n)
  have "(1::nat) \<le> 256 ^ n" by simp
  with Suc show ?case by (simp add: diff_mult_distrib2)
qed simp

lemma u128_get_max [simp]: "u128_get u128_max = - 1"
proof -
  have "word_of_nat (256 ^ 16 - 1) = (- 1 :: u128)" by simp
  then show ?thesis
    by (simp add: u128_get_def u128_max_def from_le_bytes_def le_val_replicate_255)
qed

lemma u128_new_eq_max: "u128_new v = u128_max \<longleftrightarrow> v = - 1"
  by (metis u128_get_max u128_get_new u128_new_get u128_wf_max)

section \<open>\<open>U256\<close> (\<open>u256.rs\<close>)\<close>

text \<open>The four limbs \<open>value: [u64; 4]\<close>, least significant first.\<close>

datatype U256 = U256 u64 u64 u64 u64

definition u256_zero :: U256 where
  "u256_zero = U256 0 0 0 0"

definition u256_one :: U256 where
  "u256_one = U256 1 0 0 0"

text \<open>
  The source hands its limbs to \<open>bnum\<close>, whose \<open>U256\<close> is the integer they spell
  (\<open>from_digits\<close>) and whose checked operations are those of that integer. \<open>u256_val\<close> is the
  integer, \<open>u256_of_val\<close> the limbs of an integer below \<open>2 ^ 256\<close>.
\<close>

fun u256_val :: "U256 \<Rightarrow> nat" where
  "u256_val (U256 a b c d) = unat a + 2 ^ 64 * (unat b + 2 ^ 64 * (unat c + 2 ^ 64 * unat d))"

definition u256_of_val :: "nat \<Rightarrow> U256" where
  "u256_of_val n =
     U256 (word_of_nat (n mod 2 ^ 64)) (word_of_nat (n div 2 ^ 64 mod 2 ^ 64))
       (word_of_nat (n div 2 ^ 64 div 2 ^ 64 mod 2 ^ 64))
       (word_of_nat (n div 2 ^ 64 div 2 ^ 64 div 2 ^ 64))"

definition u256_from_u64 :: "u64 \<Rightarrow> U256" where
  "u256_from_u64 i = U256 i 0 0 0"

definition u256_checked_add :: "U256 \<Rightarrow> U256 \<Rightarrow> U256 option" where
  "u256_checked_add a b =
     (if u256_val a + u256_val b < 2 ^ 256 then Some (u256_of_val (u256_val a + u256_val b))
      else None)"

definition u256_checked_sub :: "U256 \<Rightarrow> U256 \<Rightarrow> U256 option" where
  "u256_checked_sub a b =
     (if u256_val b \<le> u256_val a then Some (u256_of_val (u256_val a - u256_val b)) else None)"

text \<open>\<open>bytemuck::cast\<close> between 32 bytes and four limbs, on a little-endian machine.\<close>

definition u256_from_le_bytes :: "bytes \<Rightarrow> U256" where
  "u256_from_le_bytes bs =
     U256 (from_le_bytes (take 8 bs)) (from_le_bytes (take 8 (drop 8 bs)))
       (from_le_bytes (take 8 (drop 16 bs))) (from_le_bytes (take 8 (drop 24 bs)))"

fun u256_to_le_bytes :: "U256 \<Rightarrow> bytes" where
  "u256_to_le_bytes (U256 a b c d) =
     to_le_bytes 8 a @ to_le_bytes 8 b @ to_le_bytes 8 c @ to_le_bytes 8 d"

lemma unat_u64_less: "unat (w :: u64) < 18446744073709551616"
  using unat_less_len [of w] by simp

lemma u256_val_bound: "u256_val x < 2 ^ 256"
proof (cases x)
  case (U256 a b c d)
  then show ?thesis
    using unat_u64_less [of a] unat_u64_less [of b] unat_u64_less [of c] unat_u64_less [of d]
    by simp
qed

lemma u256_val_of_val:
  assumes n: "n < 2 ^ 256"
  shows "u256_val (u256_of_val n) = n"
proof -
  define p :: nat where "p = 2 ^ 64"
  have u: "unat (word_of_nat (m mod p) :: u64) = m mod p" for m
    by (simp add: p_def unsigned_of_nat take_bit_eq_mod)
  have "n < p * (p * (p * p))"
    using n by (simp add: p_def)
  then have "n div p div p div p < p"
    by (simp add: p_def less_mult_imp_div_less)
  then have top: "unat (word_of_nat (n div p div p div p) :: u64) = n div p div p div p"
    using u [of "n div p div p div p"] by simp
  have rep: "u256_of_val n = U256 (word_of_nat (n mod p)) (word_of_nat (n div p mod p))
      (word_of_nat (n div p div p mod p)) (word_of_nat (n div p div p div p))"
    unfolding u256_of_val_def p_def ..
  have "u256_val (u256_of_val n) = n mod p + p * (n div p mod p + p * (n div p div p mod p
      + p * (n div p div p div p)))"
    unfolding rep u256_val.simps u top unfolding p_def ..
  also have "\<dots> = n"
    by (simp only: mod_mult_div_eq)
  finally show ?thesis .
qed

lemma digit_unique:
  fixes p r r' m m' :: nat
  assumes eq: "r + p * m = r' + p * m'" and r: "r < p" and r': "r' < p"
  shows "r = r'" and "m = m'"
proof -
  have "(r + p * m) mod p = r" and "(r' + p * m') mod p = r'"
    using r r' by simp_all
  with eq show "r = r'" by simp
  have "(r + p * m) div p = m" and "(r' + p * m') div p = m'"
    using r r' by simp_all
  with eq show "m = m'" by simp
qed

lemma u256_val_inj: "u256_val x = u256_val y \<longleftrightarrow> x = y"
proof
  assume eq: "u256_val x = u256_val y"
  obtain a b c d where x: "x = U256 a b c d" by (cases x)
  obtain a' b' c' d' where y: "y = U256 a' b' c' d'" by (cases y)
  have lt: "unat w < 2 ^ 64" for w :: u64
    using unat_less_len [of w] by simp
  note eq1 = eq [unfolded x y u256_val.simps]
  note eq2 = digit_unique(2) [OF eq1 lt lt]
  note eq3 = digit_unique(2) [OF eq2 lt lt]
  show "x = y"
    using digit_unique(1) [OF eq1 lt lt] digit_unique(1) [OF eq2 lt lt]
      digit_unique [OF eq3 lt lt]
    by (simp add: x y word_unat_eq_iff)
qed simp

lemma u256_val_from_u64 [simp]: "u256_val (u256_from_u64 i) = unat i"
  by (simp add: u256_from_u64_def)

lemma u256_val_one [simp]: "u256_val u256_one = 1"
  by (simp add: u256_one_def)

lemma u256_checked_add_Some [arith_ops]:
  "u256_checked_add a b = Some c \<longleftrightarrow>
     u256_val a + u256_val b < 2 ^ 256 \<and> u256_val c = u256_val a + u256_val b"
  by (auto simp: u256_checked_add_def u256_val_of_val simp flip: u256_val_inj)

lemma u256_checked_add_None [arith_ops]:
  "u256_checked_add a b = None \<longleftrightarrow> 2 ^ 256 \<le> u256_val a + u256_val b"
  by (auto simp: u256_checked_add_def)

lemma u256_checked_sub_Some [arith_ops]:
  "u256_checked_sub a b = Some c \<longleftrightarrow>
     u256_val b \<le> u256_val a \<and> u256_val c = u256_val a - u256_val b"
proof -
  have "u256_val a - u256_val b < 2 ^ 256"
    using u256_val_bound [of a] by simp
  then show ?thesis
    by (auto simp: u256_checked_sub_def u256_val_of_val simp flip: u256_val_inj)
qed

lemma u256_checked_sub_None [arith_ops]:
  "u256_checked_sub a b = None \<longleftrightarrow> u256_val a < u256_val b"
  by (auto simp: u256_checked_sub_def)

text \<open>\<open>From<u8>\<close>, \<open>From<u64>\<close>, \<open>From<usize>\<close> and \<open>From<u128>\<close>; a \<open>usize\<close> has 64 bits.\<close>

definition u256_of_u8 :: "u8 \<Rightarrow> U256" where
  "u256_of_u8 value = u256_of_val (unat value)"

definition u256_of_u64 :: "u64 \<Rightarrow> U256" where
  "u256_of_u64 value = u256_of_val (unat value)"

definition u256_of_usize :: "u64 \<Rightarrow> U256" where
  "u256_of_usize value = u256_of_val (unat value)"

definition u256_of_u128 :: "u128 \<Rightarrow> U256" where
  "u256_of_u128 value = u256_of_val (unat value)"

text \<open>A conversion keeps the value, and the constant function agrees with the one from \<open>u64\<close>.\<close>

lemma u256_of_word_val:
  "u256_val (u256_of_u8 a) = unat a" "u256_val (u256_of_u64 b) = unat b" "u256_val (u256_of_usize c) = unat c"
  "u256_val (u256_of_u128 d) = unat d"
proof -
  have "unat a < 2 ^ 256" "unat b < 2 ^ 256" "unat c < 2 ^ 256" "unat d < 2 ^ 256"
    using unat_less_len [of a] unat_less_len [of b] unat_less_len [of c] unat_less_len [of d] by simp_all
  then show "u256_val (u256_of_u8 a) = unat a" "u256_val (u256_of_u64 b) = unat b" "u256_val (u256_of_usize c) = unat c"
      "u256_val (u256_of_u128 d) = unat d"
    by (simp_all only: u256_of_u8_def u256_of_u64_def u256_of_usize_def u256_of_u128_def u256_val_of_val)
qed

lemma u256_of_u64_const: "u256_of_u64 i = u256_from_u64 i"
  by (simp add: u256_of_word_val flip: u256_val_inj)

text \<open>\<open>impl Ord for U256\<close> compares the integers.\<close>

definition u256_le :: "U256 \<Rightarrow> U256 \<Rightarrow> bool" where
  "u256_le a b \<longleftrightarrow> u256_val a \<le> u256_val b"

instantiation U256 :: linorder
begin

definition less_eq_U256 :: "U256 \<Rightarrow> U256 \<Rightarrow> bool" where
  "less_eq_U256 a b \<longleftrightarrow> u256_le a b"

definition less_U256 :: "U256 \<Rightarrow> U256 \<Rightarrow> bool" where
  "less_U256 a b \<longleftrightarrow> u256_val a < u256_val b"

instance
  by standard (auto simp: less_eq_U256_def u256_le_def less_U256_def u256_val_inj)

end

lemma u256_to_le_bytes_val: "le_val (u256_to_le_bytes x) = u256_val x"
proof (cases x)
  case (U256 a b c d)
  have "le_val (to_le_bytes 8 w) = unat w" for w :: u64
    using unat_u64_less [of w] by (simp add: to_le_bytes_def le_val_le_bytes)
  with U256 show ?thesis by (simp add: le_val_append algebra_simps)
qed

lemma length_u256_to_le_bytes [simp]: "length (u256_to_le_bytes x) = 32"
  by (cases x) simp

lemma u256_from_to_le_bytes: "u256_from_le_bytes (u256_to_le_bytes x) = x"
  by (cases x) (simp add: u256_from_le_bytes_def from_to_le_bytes)

lemma u256_to_from_le_bytes: "length bs = 32 \<Longrightarrow> u256_to_le_bytes (u256_from_le_bytes bs) = bs"
proof -
  assume len: "length bs = 32"
  have "take 8 bs @ take 8 (drop 8 bs) @ take 8 (drop 16 bs) @ take 8 (drop 24 bs) = bs"
    using len by (simp add: take_add [symmetric] flip: append_assoc)
  with len show ?thesis
    by (simp add: u256_from_le_bytes_def to_from_le_bytes)
qed

end
