(* ===== verification/Std_Types.thy ===== *)
theory Std_Types
  imports Std_Ints
begin

text \<open>
  The data of \<open>crates/solana-axelar-std\<close>: messages (\<open>message.rs\<close>), verifier sets
  (\<open>verifier_set.rs\<close>) and the execute data a relayer submits (\<open>execute_data.rs\<close>). Hashes,
  keys and signatures are byte strings.
\<close>

type_synonym pubkey = bytes
type_synonym hash = bytes
type_synonym secp_pubkey = bytes
type_synonym ecdsa_signature = bytes

section \<open>Messages\<close>

record CrossChainId =
  chain :: string
  cc_id_id :: string

record Message =
  cc_id :: CrossChainId
  source_address :: string
  destination_chain :: string
  destination_address :: string
  payload_hash :: hash

record MessageLeaf =
  ml_message :: Message
  ml_position :: u16
  ml_set_size :: u16
  ml_domain_separator :: hash

record MerklizedMessage =
  mm_leaf :: MessageLeaf
  mm_proof :: bytes

section \<open>Verifier sets\<close>

text \<open>
  \<open>signers: BTreeMap<PublicKey, u128>\<close> is the list of its entries in ascending key order; the
  order on \<open>PublicKey\<close> is the derived, lexicographic one.
\<close>

record VerifierSet =
  vs_nonce :: u64
  vs_signers :: "(secp_pubkey \<times> u128) list"
  vs_quorum :: u128

definition verifier_set_wf :: "VerifierSet \<Rightarrow> bool" where
  "verifier_set_wf vs = sorted_wrt bytes_less (map fst (vs_signers vs))"

record VerifierSetLeaf =
  vl_nonce :: u64
  vl_quorum :: u128
  vl_signer_pubkey :: secp_pubkey
  vl_signer_weight :: u128
  vl_position :: u16
  vl_set_size :: u16
  vl_domain_separator :: hash

datatype PayloadType = ApproveMessages | RotateSigners

text \<open>\<open>impl From<PayloadType> for u8\<close>.\<close>

fun payload_type_byte :: "PayloadType \<Rightarrow> u8" where
  "payload_type_byte ApproveMessages = 0"
| "payload_type_byte RotateSigners = 1"

lemma payload_type_byte_inj [simp]: "payload_type_byte p = payload_type_byte q \<longleftrightarrow> p = q"
  by (cases p; cases q) auto

record SigningVerifierSetInfo =
  vi_signature :: ecdsa_signature
  vi_leaf :: VerifierSetLeaf
  vi_merkle_proof :: bytes
  vi_payload_type :: PayloadType

section \<open>Execute data\<close>

datatype Payload = Messages "Message list" | NewVerifierSet VerifierSet

datatype MerklizedPayload =
    VerifierSetRotation hash
  | NewMessages "MerklizedMessage list"

record ExecuteData =
  ed_signing_verifier_set_merkle_root :: hash
  ed_signing_verifier_set_leaves :: "SigningVerifierSetInfo list"
  ed_payload_merkle_root :: hash
  ed_payload_items :: MerklizedPayload

lemma bytes_less_irrefl [simp]: "\<not> bytes_less xs xs"
  by (induction xs) auto

lemma bytes_less_trans: "bytes_less xs ys \<Longrightarrow> bytes_less ys zs \<Longrightarrow> bytes_less xs zs"
  by (induction xs ys arbitrary: zs rule: bytes_less.induct; case_tac zs)
    (auto intro: less_trans)

text \<open>The keys of a well-formed verifier set are pairwise distinct.\<close>

lemma verifier_set_wf_distinct:
  assumes "verifier_set_wf vs"
  shows "distinct (map fst (vs_signers vs))"
proof -
  have "sorted_wrt bytes_less ks \<Longrightarrow> distinct ks" for ks
    by (induction ks) auto
  with assms show ?thesis by (simp add: verifier_set_wf_def)
qed

end
