(* ===== verification/Errors.thy ===== *)
theory Errors
  imports Prelude
begin

text \<open>
  The error enums of the programs, with the constructors in the order of the source
  (\<open>errors.rs\<close> of each program), and the error type of an instruction. A constructor is
  written with its enum in front, as in the source (\<open>GatewayError.InvalidMerkleProof\<close>), since
  several enums share constructor names.

  A failing cross-program call aborts the transaction with the callee's error, so one error
  type serves all programs.
\<close>

datatype GatewayError =
    VerifierSetTooOld
  | EpochCalculationOverflow
  | InvalidDomainSeparator
  | SignatureVerificationFailed
  | InvalidMerkleProof
  | SlotIsOutOfBounds
  | SlotAlreadyVerified
  | InvalidDigitalSignature
  | LeafNodeNotPartOfMerkleRoot
  | InvalidVerificationSessionPDA
  | SigningSessionNotValid
  | InvalidDestinationAddress
  | InvalidVerifierSetTrackerPDA
  | MessageNotApproved
  | InvalidMessageHash
  | InvalidSigningPDA
  | ProofNotSignedByLatestVerifierSet
  | RotationCooldownNotDone
  | DuplicateVerifierSetRotation
  | InvalidVerifierSetTrackerProvided
  | InvalidUpgradeAuthority
  | InvalidLoaderContent
  | InvalidLoaderState
  | InvalidOperatorOrAuthorityAccount
  | CallerNotSigner
  | UnsupportedSignatureScheme
  | InvalidSigningPDABump
  | InvalidTimestamp
  | InvalidEncodingScheme
  | BorshSerializeError
  | BorshDeserializeError
  | PayloadAbiError

datatype ExecutableError =
    InvalidPayloadHash
  | InvalidAccounts

datatype ItsError =
    Paused
  | InvalidAmount
  | InvalidArgument
  | InvalidInstructionData
  | InvalidMetaplexDataAccount
  | MinterNotProvided
  | MinterRolesNotProvided
  | MinterRolesPdaBumpNotProvided
  | OperatorNotProvided
  | OperatorRolesPdaNotProvided
  | InvalidAccountData
  | UntrustedSourceChain
  | UntrustedDestinationChain
  | TrustedChainAlreadySet
  | TrustedChainNotSet
  | InvalidSourceAddress
  | InvalidDestinationChain
  | InvalidDestinationAddress
  | InvalidDestinationAddressAccount
  | InterchainTransferExecutePdaMissing
  | ZeroSupplyToken
  | TokenManagerMintExtensionMismatch
  | CallerNotUserAccount
  | InvalidTokenMint
  | TokenMintTokenManagerMissmatch
  | AccountNotProvided
  | InconsistentSourceIdAndPdaSeeds
  | ArithmeticOverflow
  | MissingRequiredSignature
  | NotEnoughAccountKeys
  | InvalidTokenManagerType
  | SerializationError
  | InvalidDestinationTokenAuthority
  | MissingMinterRole
  | MissingOperatorRole
  | MissingFlowLimiterRole
  | FlowLimitExceeded

datatype GovernanceError =
    InvalidUpgradeAuthority
  | InvalidArgument
  | NotOperator
  | ArithmeticOverflow
  | UnauthorizedChain
  | UnauthorizedAddress
  | InvalidInstructionData
  | ProposalNotReady
  | InvalidTargetProgram
  | TargetAccountNotFound
  | MissingNativeValueReceiver
  | InvalidNativeValue
  | UnauthorizedOperator
  | MissingRequiredSignature
  | GovernanceConfigMissing

text \<open>\<open>ErrorCode\<close> of the operators program.\<close>

datatype ErrorCode =
    UnauthorizedOwner
  | SameOwner

text \<open>\<open>EncodingError\<close> of \<open>solana-axelar-std\<close>; the payload of \<open>IoError\<close> is dropped.\<close>

datatype EncodingError =
    CannotMerklizeEmptyVerifierSet
  | CannotMerklizeEmptyMessageSet
  | SetSizeTooLarge
  | IoError

text \<open>
  The variants of the platform's \<open>ProgramError\<close> and of Anchor's \<open>ErrorCode\<close> that the
  instructions return, directly or through an account constraint.
\<close>

datatype ProgramError =
    InvalidArgument
  | InvalidInstructionData
  | InvalidAccountData
  | InsufficientFunds
  | ArithmeticOverflow
  | NotEnoughAccountKeys
  | AccountAlreadyInUse
  | ExternalFailure

datatype AnchorError =
    ConstraintMut
  | ConstraintSigner
  | ConstraintSeeds
  | ConstraintAddress
  | ConstraintAssociated
  | ConstraintTokenMint
  | ConstraintTokenOwner
  | ConstraintMintMintAuthority
  | ConstraintMintTokenProgram
  | ConstraintDuplicateMutableAccount
  | AccountNotSigner
  | AccountNotInitialized
  | AccountDiscriminatorMismatch
  | InvalidProgramId

datatype error =
    GatewayE GatewayError
  | ExecutableE ExecutableError
  | ItsE ItsError
  | GovernanceE GovernanceError
  | OperatorsE ErrorCode
  | ProgramE ProgramError
  | AnchorE AnchorError
  | Panic string

type_synonym 'a result = "error + 'a"

text \<open>\<open>From<ExecutableError> for Error\<close>: the custom codes an executable program returns.\<close>

fun executable_error_code :: "ExecutableError \<Rightarrow> nat" where
  "executable_error_code ExecutableError.InvalidPayloadHash = 7000"
| "executable_error_code ExecutableError.InvalidAccounts = 7001"

end
