(* ===== verification/Platform.thy ===== *)
theory Platform
  imports Std_Types Errors
begin

text \<open>
  What the programs take from outside the repository, as parameters: the hash and signature
  syscalls, the Merkle tree crate, the derived digest encodings, program-derived addresses and
  the programs' identifiers. Then the account checks an Anchor \<open>#[derive(Accounts)]\<close> attribute
  stands for, over a typed account map.
\<close>

section \<open>Parameters\<close>

text \<open>
  \<open>rs_merkle\<close> is generic in a hasher; the repository supplies one (\<open>hasher.rs\<close>).
\<close>

record merkle_hasher =
  mh_hash :: "bytes \<Rightarrow> hash"
  mh_concat_and_hash :: "hash \<Rightarrow> hash option \<Rightarrow> hash"

record env =
  keccak :: "bytes \<Rightarrow> hash"
  secp256k1_recover :: "hash \<Rightarrow> u8 \<Rightarrow> bytes \<Rightarrow> bytes option"
  parse_compressed_serialize :: "secp_pubkey \<Rightarrow> bytes option"
  merkle_tree_root :: "merkle_hasher \<Rightarrow> hash list \<Rightarrow> hash option"
  merkle_tree_proof :: "merkle_hasher \<Rightarrow> hash list \<Rightarrow> nat list \<Rightarrow> bytes"
  merkle_proof_from_bytes :: "bytes \<Rightarrow> hash list option"
  merkle_proof_verify :: "merkle_hasher \<Rightarrow> hash list \<Rightarrow> hash \<Rightarrow> nat list \<Rightarrow> hash list \<Rightarrow> nat \<Rightarrow> bool"
  digest_message :: "Message \<Rightarrow> bytes"
  digest_message_leaf :: "MessageLeaf \<Rightarrow> bytes"
  digest_verifier_set_leaf :: "VerifierSetLeaf \<Rightarrow> bytes"
  borsh_execute_data :: "ExecuteData \<Rightarrow> bytes option"
  create_program_address :: "bytes list \<Rightarrow> pubkey \<Rightarrow> pubkey option"
  try_find_program_address :: "bytes list \<Rightarrow> pubkey \<Rightarrow> (pubkey \<times> u8) option"
  pubkey_from_str :: "string \<Rightarrow> pubkey option"
  gateway_id :: pubkey
  gas_service_id :: pubkey
  its_id :: pubkey
  governance_id :: pubkey
  operators_id :: pubkey
  memo_id :: pubkey
  loader_upgradeable_id :: pubkey
  system_program_id :: pubkey

text \<open>\<open>hashv\<close> hashes the concatenation of its slices.\<close>

definition hashv :: "env \<Rightarrow> bytes list \<Rightarrow> hash" where
  "hashv env vals = keccak env (concat vals)"

text \<open>\<open>find_program_address\<close> panics where \<open>try_find_program_address\<close> finds nothing.\<close>

definition find_program_address :: "env \<Rightarrow> bytes list \<Rightarrow> pubkey \<Rightarrow> (pubkey \<times> u8) result" where
  "find_program_address env seeds pid =
     ok_or (try_find_program_address env seeds pid)
       (Panic ''Unable to find a viable program address bump seed'')"

text \<open>
  The documented relation of the two address functions: the bump found is the one that makes
  the address.
\<close>

definition pda_law :: "env \<Rightarrow> bool" where
  "pda_law env \<longleftrightarrow> (\<forall>seeds pid k b. try_find_program_address env seeds pid = Some (k, b) \<longrightarrow>
     create_program_address env (seeds @ [[b]]) pid = Some k)"

lemma pda_lawD:
  "pda_law env \<Longrightarrow> try_find_program_address env seeds pid = Some (k, b) \<Longrightarrow>
     create_program_address env (seeds @ [[b]]) pid = Some k"
  by (simp add: pda_law_def)

section \<open>Accounts and their constraints\<close>

text \<open>An account as an instruction receives it: \<open>AccountInfo\<close> without its data.\<close>

record account_info =
  ai_key :: pubkey
  ai_signer :: bool
  ai_writable :: bool

definition acc :: "pubkey \<Rightarrow> account_info" where
  "acc k = \<lparr>ai_key = k, ai_signer = False, ai_writable = False\<rparr>"

definition acc_mut :: "pubkey \<Rightarrow> account_info" where
  "acc_mut k = \<lparr>ai_key = k, ai_signer = False, ai_writable = True\<rparr>"

definition acc_signer :: "pubkey \<Rightarrow> account_info" where
  "acc_signer k = \<lparr>ai_key = k, ai_signer = True, ai_writable = False\<rparr>"

definition acc_signer_mut :: "pubkey \<Rightarrow> account_info" where
  "acc_signer_mut k = \<lparr>ai_key = k, ai_signer = True, ai_writable = True\<rparr>"

lemmas acc_defs = acc_def acc_mut_def acc_signer_def acc_signer_mut_def

definition check_signer :: "account_info \<Rightarrow> unit result" where
  "check_signer a = require (ai_signer a) (AnchorE AccountNotSigner)"

definition check_mut :: "account_info \<Rightarrow> unit result" where
  "check_mut a = require (ai_writable a) (AnchorE ConstraintMut)"

text \<open>\<open>seeds = [...], bump = b\<close>: the address is the one these seeds and this bump make.\<close>

definition check_seeds :: "env \<Rightarrow> bytes list \<Rightarrow> u8 \<Rightarrow> pubkey \<Rightarrow> pubkey \<Rightarrow> unit result" where
  "check_seeds env seeds b pid k =
     require (create_program_address env (seeds @ [[b]]) pid = Some k) (AnchorE ConstraintSeeds)"

text \<open>\<open>seeds = [...], bump\<close>: the address is the canonical one; the canonical bump results.\<close>

definition check_seeds_canonical :: "env \<Rightarrow> bytes list \<Rightarrow> pubkey \<Rightarrow> pubkey \<Rightarrow> u8 result" where
  "check_seeds_canonical env seeds pid k =
     res_bind (find_program_address env seeds pid) (\<lambda>(k', b).
     res_bind (require (k = k') (AnchorE ConstraintSeeds)) (\<lambda>_. Inr b))"

lemma check_signer_Inr [res_inv]: "check_signer a = Inr u \<longleftrightarrow> ai_signer a"
  by (simp add: check_signer_def res_inv)

lemma check_mut_Inr [res_inv]: "check_mut a = Inr u \<longleftrightarrow> ai_writable a"
  by (simp add: check_mut_def res_inv)

lemma check_seeds_Inr [res_inv]:
  "check_seeds env seeds b pid k = Inr u \<longleftrightarrow> create_program_address env (seeds @ [[b]]) pid = Some k"
  by (simp add: check_seeds_def res_inv)

lemma check_seeds_canonical_Inr [res_inv]:
  "check_seeds_canonical env seeds pid k = Inr b \<longleftrightarrow> try_find_program_address env seeds pid = Some (k, b)"
  by (auto simp: check_seeds_canonical_def find_program_address_def res_inv)

text \<open>
  What an instruction reads of the ledger outside its own accounts: the clock, and the upgrade
  authority recorded in a program's \<open>ProgramData\<close> account (absent, or set to none).
\<close>

record ledger_view =
  unix_timestamp :: i64
  program_data_authority :: "pubkey \<Rightarrow> pubkey option option"

text \<open>\<open>i64::try_into::<u64>()\<close>.\<close>

definition u64_of_i64 :: "i64 \<Rightarrow> error \<Rightarrow> u64 result" where
  "u64_of_i64 t e = (if sint t < 0 then Inl e else Inr t)"

lemma u64_of_i64_Inr [res_inv]: "u64_of_i64 t e = Inr u \<longleftrightarrow> 0 \<le> sint t \<and> u = t"
  by (auto simp: u64_of_i64_def)

definition check_program :: "account_info \<Rightarrow> pubkey \<Rightarrow> unit result" where
  "check_program a pid = require (ai_key a = pid) (AnchorE InvalidProgramId)"

lemma check_program_Inr [res_inv]: "check_program a pid = Inr u \<longleftrightarrow> ai_key a = pid"
  by (simp add: check_program_def res_inv)

text \<open>
  The \<open>program_data\<close> account of a program: the loader's PDA for the program's address.
\<close>

definition load_program_data :: "env \<Rightarrow> ledger_view \<Rightarrow> pubkey \<Rightarrow> pubkey \<Rightarrow> pubkey option result" where
  "load_program_data env view pid k =
     res_bind (check_seeds_canonical env [pid] (loader_upgradeable_id env) k) (\<lambda>_.
     ok_or (program_data_authority view k) (AnchorE AccountNotInitialized))"

section \<open>The typed account map\<close>

text \<open>
  The accounts a program owns, by address. \<open>'a\<close> is the sum of the program's account types,
  the alternatives playing the discriminators; \<open>prj\<close> selects one of them.
\<close>

type_synonym 'a accounts = "pubkey \<Rightarrow> 'a option"

definition load_acc :: "('a \<Rightarrow> 'd option) \<Rightarrow> 'a accounts \<Rightarrow> pubkey \<Rightarrow> 'd result" where
  "load_acc prj m k = (case m k of
     None \<Rightarrow> Inl (AnchorE AccountNotInitialized)
   | Some a \<Rightarrow> ok_or (prj a) (AnchorE AccountDiscriminatorMismatch))"

text \<open>\<open>init\<close> allocates at an address that holds no account yet.\<close>

definition check_vacant :: "'a accounts \<Rightarrow> pubkey \<Rightarrow> unit result" where
  "check_vacant m k = require (m k = None) (ProgramE AccountAlreadyInUse)"

lemma check_vacant_Inr [res_inv]: "check_vacant m k = Inr u \<longleftrightarrow> m k = None"
  by (simp add: check_vacant_def res_inv)

text \<open>
  What a program relies on for each of its account types: the projection reads back exactly
  what the injection wrote. The lemmas are the account-map reasoning every instruction needs.
\<close>

locale account_kind =
  fixes inj :: "'d \<Rightarrow> 'a" and prj :: "'a \<Rightarrow> 'd option"
  assumes prj_inj: "prj (inj d) = Some d"
    and inj_prj: "prj a = Some d \<Longrightarrow> a = inj d"
begin

lemma load_Inr: "load_acc prj m k = Inr d \<longleftrightarrow> m k = Some (inj d)"
  using inj_prj prj_inj by (auto simp: load_acc_def res_inv split: option.splits)

lemma load_put_same: "load_acc prj (m(k \<mapsto> inj d)) k = Inr d"
  by (simp add: load_Inr)

lemma load_put_other: "k' \<noteq> k \<Longrightarrow> load_acc prj (m(k \<mapsto> a)) k' = load_acc prj m k'"
  by (simp add: load_acc_def)

lemma load_vacant: "m k = None \<Longrightarrow> load_acc prj m k = Inl (AnchorE AccountNotInitialized)"
  by (simp add: load_acc_def)

lemma inj_eq: "inj d = inj d' \<longleftrightarrow> d = d'"
  by (metis option.inject prj_inj)

end

text \<open>A step relation that keeps an invariant keeps it along every run.\<close>

inductive runs :: "('s \<Rightarrow> 's \<Rightarrow> bool) \<Rightarrow> 's \<Rightarrow> 's \<Rightarrow> bool" for step where
  runs_refl: "runs step s s"
| runs_step: "runs step s t \<Longrightarrow> step t u \<Longrightarrow> runs step s u"

lemma runs_one: "step s t \<Longrightarrow> runs step s t"
  by (meson runs.intros)

lemma runs_trans: "runs step t u \<Longrightarrow> runs step s t \<Longrightarrow> runs step s u"
  by (induction rule: runs.induct) (auto intro: runs.intros)

locale step_invariant =
  fixes step :: "'s \<Rightarrow> 's \<Rightarrow> bool" and Inv :: "'s \<Rightarrow> bool"
  assumes step_keeps: "Inv s \<Longrightarrow> step s t \<Longrightarrow> Inv t"
begin

lemma runs_keep: "runs step s t \<Longrightarrow> Inv s \<Longrightarrow> Inv t"
  by (induction rule: runs.induct) (auto intro: step_keeps)

end

text \<open>A relation between states that every step extends and that composes holds along every run.\<close>

locale step_monotone =
  fixes step :: "'s \<Rightarrow> 's \<Rightarrow> bool" and le :: "'s \<Rightarrow> 's \<Rightarrow> bool"
  assumes le_refl: "le s s"
    and le_trans: "le s t \<Longrightarrow> le t u \<Longrightarrow> le s u"
    and step_le: "step s t \<Longrightarrow> le s t"
begin

lemma runs_le: "runs step s t \<Longrightarrow> le s t"
  by (induction rule: runs.induct) (auto intro: le_refl le_trans step_le)

end

end
