(* ===== verification/Std_Encoding.thy ===== *)
theory Std_Encoding
  imports Platform
begin

text \<open>
  \<open>crates/solana-axelar-std\<close>: the hasher handed to the Merkle tree crate, leaf hashes, the
  leaves of messages and verifier sets, the digest a verifier signs, and \<open>encode\<close>, which turns
  a verifier set, its signatures and a payload into the execute data a relayer submits.
\<close>

section \<open>Hashing (\<open>hasher.rs\<close>, \<open>message.rs\<close>)\<close>

definition Hasher_hash :: "env \<Rightarrow> bytes \<Rightarrow> hash" where
  "Hasher_hash env data = keccak env data"

definition concat_and_hash :: "env \<Rightarrow> hash \<Rightarrow> hash option \<Rightarrow> hash" where
  "concat_and_hash env left right =
     keccak env ([1] @ left @ (case right of Some r \<Rightarrow> r | None \<Rightarrow> left))"

definition Hasher :: "env \<Rightarrow> merkle_hasher" where
  "Hasher env = \<lparr>mh_hash = Hasher_hash env, mh_concat_and_hash = concat_and_hash env\<rparr>"

text \<open>\<open>LeafHash::hash\<close> for its three implementors.\<close>

definition message_hash :: "env \<Rightarrow> Message \<Rightarrow> hash" where
  "message_hash env m = keccak env (digest_message env m)"

definition message_leaf_hash :: "env \<Rightarrow> MessageLeaf \<Rightarrow> hash" where
  "message_leaf_hash env l = keccak env (digest_message_leaf env l)"

definition verifier_set_leaf_hash :: "env \<Rightarrow> VerifierSetLeaf \<Rightarrow> hash" where
  "verifier_set_leaf_hash env l = keccak env (digest_verifier_set_leaf env l)"

definition command_id_preimage :: "Message \<Rightarrow> bytes" where
  "command_id_preimage m = concat [str_bytes (chain (cc_id m)), str_bytes ''-'', str_bytes (cc_id_id (cc_id m))]"

definition command_id :: "env \<Rightarrow> Message \<Rightarrow> hash" where
  "command_id env m =
     hashv env [str_bytes (chain (cc_id m)), str_bytes ''-'', str_bytes (cc_id_id (cc_id m))]"

text \<open>\<open>b"\xffsolana offchain"\<close>.\<close>

definition SOLANA_OFFCHAIN_PREFIX :: bytes where
  "SOLANA_OFFCHAIN_PREFIX = 255 # str_bytes ''solana offchain''"

definition prefixed_message_hash_payload_type :: "env \<Rightarrow> PayloadType \<Rightarrow> hash \<Rightarrow> hash" where
  "prefixed_message_hash_payload_type env pt message =
     hashv env [SOLANA_OFFCHAIN_PREFIX, [payload_type_byte pt], message]"

section \<open>Leaves and trees\<close>

text \<open>\<open>len().try_into()\<close> to \<open>u16\<close>.\<close>

definition u16_of_len :: "nat \<Rightarrow> (EncodingError + u16)" where
  "u16_of_len n = (if n < 65536 then Inr (word_of_nat n) else Inl SetSizeTooLarge)"

definition message_merkle_tree_leaves :: "Message list \<Rightarrow> hash \<Rightarrow> EncodingError + MessageLeaf list" where
  "message_merkle_tree_leaves messages domain_separator =
     res_bind (u16_of_len (length messages)) (\<lambda>set_size.
     Inr (map (\<lambda>(position, message).
            \<lparr>ml_message = message, ml_position = word_of_nat position, ml_set_size = set_size,
             ml_domain_separator = domain_separator\<rparr>)
          (zip [0..<length messages] messages)))"

definition verifier_set_merkle_tree_leaves :: "VerifierSet \<Rightarrow> hash \<Rightarrow> EncodingError + VerifierSetLeaf list" where
  "verifier_set_merkle_tree_leaves vs domain_separator =
     res_bind (u16_of_len (length (vs_signers vs))) (\<lambda>set_size.
     Inr (map (\<lambda>(position, (signer_pubkey, signer_weight)).
            \<lparr>vl_nonce = vs_nonce vs, vl_quorum = vs_quorum vs, vl_signer_pubkey = signer_pubkey,
             vl_signer_weight = signer_weight, vl_position = word_of_nat position,
             vl_set_size = set_size, vl_domain_separator = domain_separator\<rparr>)
          (zip [0..<length (vs_signers vs)] (vs_signers vs))))"

text \<open>
  \<open>merkle_tree\<close> hashes each leaf's digest encoding and builds the tree; a tree is given by its
  leaf hashes.
\<close>

definition merkle_tree :: "merkle_hasher \<Rightarrow> bytes list \<Rightarrow> hash list" where
  "merkle_tree h leaves = map (mh_hash h) leaves"

definition verifier_set_hash :: "env \<Rightarrow> merkle_hasher \<Rightarrow> VerifierSet \<Rightarrow> hash \<Rightarrow> EncodingError + hash" where
  "verifier_set_hash env h vs domain_separator =
     res_bind (verifier_set_merkle_tree_leaves vs domain_separator) (\<lambda>leaves.
     ok_or (merkle_tree_root env h (merkle_tree h (map (digest_verifier_set_leaf env) leaves)))
       CannotMerklizeEmptyVerifierSet)"

definition hash_payload_internal ::
    "env \<Rightarrow> merkle_hasher \<Rightarrow> Payload \<Rightarrow> hash \<Rightarrow> EncodingError + (hash \<times> MerklizedPayload)" where
  "hash_payload_internal env h payload domain_separator = (case payload of
     Messages messages \<Rightarrow>
       res_bind (message_merkle_tree_leaves messages domain_separator) (\<lambda>leaves.
       let tree = merkle_tree h (map (digest_message_leaf env) leaves) in
       res_bind (ok_or (merkle_tree_root env h tree) CannotMerklizeEmptyMessageSet) (\<lambda>root.
       Inr (root, NewMessages (map (\<lambda>leaf.
          \<lparr>mm_leaf = leaf, mm_proof = merkle_tree_proof env h tree [unat (ml_position leaf)]\<rparr>)
          leaves))))
   | NewVerifierSet verifier_set \<Rightarrow>
       res_bind (verifier_set_hash env h verifier_set domain_separator) (\<lambda>root.
       Inr (root, VerifierSetRotation root)))"

definition hash_payload :: "env \<Rightarrow> merkle_hasher \<Rightarrow> hash \<Rightarrow> Payload \<Rightarrow> EncodingError + hash" where
  "hash_payload env h domain_separator payload =
     res_bind (hash_payload_internal env h payload domain_separator) (\<lambda>(root, _). Inr root)"

fun payload_type_of :: "Payload \<Rightarrow> PayloadType" where
  "payload_type_of (Messages _) = ApproveMessages"
| "payload_type_of (NewVerifierSet _) = RotateSigners"

text \<open>
  \<open>encode\<close> up to its serialization. \<open>signers_with_signatures\<close> is the map of the signatures
  collected; a verifier without one contributes no entry. The capacity \<open>estimate_size\<close> reserves
  for the buffer has no effect on the bytes written and is not modelled.
\<close>

definition encode_execute_data ::
    "env \<Rightarrow> VerifierSet \<Rightarrow> (secp_pubkey \<Rightarrow> ecdsa_signature option) \<Rightarrow> hash \<Rightarrow> Payload \<Rightarrow>
     EncodingError + ExecuteData" where
  "encode_execute_data env signing_verifier_set signers_with_signatures domain_separator payload =
     res_bind (verifier_set_merkle_tree_leaves signing_verifier_set domain_separator) (\<lambda>leaves.
     let tree = merkle_tree (Hasher env) (map (digest_verifier_set_leaf env) leaves) in
     res_bind (ok_or (merkle_tree_root env (Hasher env) tree) CannotMerklizeEmptyVerifierSet) (\<lambda>signing_root.
     let infos = List.map_filter (\<lambda>leaf.
         case signers_with_signatures (vl_signer_pubkey leaf) of
           Some signature \<Rightarrow> Some
             \<lparr>vi_signature = signature, vi_leaf = leaf,
              vi_merkle_proof = merkle_tree_proof env (Hasher env) tree [unat (vl_position leaf)],
              vi_payload_type = payload_type_of payload\<rparr>
         | None \<Rightarrow> None) leaves in
     res_bind (hash_payload_internal env (Hasher env) payload domain_separator)
       (\<lambda>(payload_root, payload_items).
     Inr \<lparr>ed_signing_verifier_set_merkle_root = signing_root,
          ed_signing_verifier_set_leaves = infos,
          ed_payload_merkle_root = payload_root,
          ed_payload_items = payload_items\<rparr>)))"

definition encode_payload ::
    "env \<Rightarrow> VerifierSet \<Rightarrow> (secp_pubkey \<Rightarrow> ecdsa_signature option) \<Rightarrow> hash \<Rightarrow> Payload \<Rightarrow>
     EncodingError + bytes" where
  "encode_payload env signing_verifier_set signers_with_signatures domain_separator payload =
     res_bind (encode_execute_data env signing_verifier_set signers_with_signatures
                 domain_separator payload) (\<lambda>execute_data.
     ok_or (borsh_execute_data env execute_data) IoError)"

section \<open>Leaves\<close>

lemma u16_of_len_Inr [res_inv]: "u16_of_len n = Inr w \<longleftrightarrow> n < 65536 \<and> w = word_of_nat n"
  by (auto simp: u16_of_len_def)

lemma unat_u16_of_nat: "n < 65536 \<Longrightarrow> unat (word_of_nat n :: u16) = n"
  by (simp add: unsigned_of_nat take_bit_nat_eq_self)

lemma message_leaves_nth:
  assumes "message_merkle_tree_leaves ms ds = Inr ls"
  shows "length ls = length ms" and "length ms < 65536"
    and "i < length ms \<Longrightarrow> ls ! i = \<lparr>ml_message = ms ! i, ml_position = word_of_nat i,
      ml_set_size = word_of_nat (length ms), ml_domain_separator = ds\<rparr>"
  using assms by (auto simp: message_merkle_tree_leaves_def res_inv)

lemma verifier_set_leaves_nth:
  assumes "verifier_set_merkle_tree_leaves vs ds = Inr ls"
  shows "length ls = length (vs_signers vs)" and "length (vs_signers vs) < 65536"
    and "i < length (vs_signers vs) \<Longrightarrow> ls ! i = \<lparr>vl_nonce = vs_nonce vs, vl_quorum = vs_quorum vs,
      vl_signer_pubkey = fst (vs_signers vs ! i), vl_signer_weight = snd (vs_signers vs ! i),
      vl_position = word_of_nat i, vl_set_size = word_of_nat (length (vs_signers vs)),
      vl_domain_separator = ds\<rparr>"
  using assms by (auto simp: verifier_set_merkle_tree_leaves_def res_inv split: prod.splits)

lemma message_leaf_position:
  assumes "message_merkle_tree_leaves ms ds = Inr ls" and "i < length ms"
  shows "unat (ml_position (ls ! i)) = i" and "unat (ml_set_size (ls ! i)) = length ms"
  using message_leaves_nth [OF assms(1)] assms(2) by (simp_all add: unat_u16_of_nat)

lemma verifier_set_leaf_position:
  assumes "verifier_set_merkle_tree_leaves vs ds = Inr ls" and "i < length (vs_signers vs)"
  shows "unat (vl_position (ls ! i)) = i"
    and "unat (vl_set_size (ls ! i)) = length (vs_signers vs)"
  using verifier_set_leaves_nth [OF assms(1)] assms(2) by (simp_all add: unat_u16_of_nat)

lemma verifier_set_leaves_weights:
  assumes "verifier_set_merkle_tree_leaves vs ds = Inr ls"
  shows "map (\<lambda>l. (vl_signer_pubkey l, vl_signer_weight l)) ls = vs_signers vs"
  using verifier_set_leaves_nth [OF assms] by (intro nth_equalityI) auto

lemma verifier_set_leaves_positions:
  assumes "verifier_set_merkle_tree_leaves vs ds = Inr ls"
  shows "map (\<lambda>l. unat (vl_position l)) ls = [0..<length ls]"
  using verifier_set_leaves_nth [OF assms] verifier_set_leaf_position [OF assms]
  by (intro nth_equalityI) auto

section \<open>The law of the Merkle tree crate\<close>

text \<open>
  The documented behaviour of \<open>rs_merkle\<close>: the proof of one leaf, taken from a tree that has a
  root, parses back and verifies against this root, index and leaf count.
\<close>

definition merkle_law :: "env \<Rightarrow> bool" where
  "merkle_law env \<longleftrightarrow> (\<forall>tree root i. merkle_tree_root env (Hasher env) tree = Some root \<and> i < length tree \<longrightarrow>
     (\<exists>p. merkle_proof_from_bytes env (merkle_tree_proof env (Hasher env) tree [i]) = Some p \<and>
          merkle_proof_verify env (Hasher env) p root [i] [tree ! i] (length tree)))"

lemma merkle_lawD:
  "merkle_law env \<Longrightarrow> merkle_tree_root env (Hasher env) tree = Some root \<Longrightarrow> i < length tree \<Longrightarrow>
     \<exists>p. merkle_proof_from_bytes env (merkle_tree_proof env (Hasher env) tree [i]) = Some p \<and>
       merkle_proof_verify env (Hasher env) p root [i] [tree ! i] (length tree)"
  unfolding merkle_law_def by blast

lemma merkle_tree_nth:
  "i < length xs \<Longrightarrow> merkle_tree (Hasher env) xs ! i = keccak env (xs ! i)"
  by (simp add: merkle_tree_def Hasher_def Hasher_hash_def)

lemma length_merkle_tree [simp]: "length (merkle_tree h xs) = length xs"
  by (simp add: merkle_tree_def)

end
