(* ===== verification/Gateway_State.thy ===== *)
theory Gateway_State
  imports Std_Encoding
begin

text \<open>
  The accounts of the gateway (\<open>programs/solana-axelar-gateway/src/state\<close>): the configuration
  and its epochs, verifier set trackers, incoming messages, and the signature verification
  session with its bit field of used slots and accumulated threshold.
\<close>

section \<open>Configuration and trackers (\<open>config.rs\<close>, \<open>verifier_set_tracker.rs\<close>)\<close>

record GatewayConfig =
  current_epoch :: U256
  previous_verifier_set_retention :: U256
  minimum_rotation_delay :: u64
  last_rotation_timestamp :: u64
  gc_operator :: pubkey
  domain_separator :: hash
  gc_bump :: u8

definition GATEWAY_SEED :: bytes where
  "GATEWAY_SEED = str_bytes ''gateway''"

definition gateway_config_seeds :: "bytes list" where
  "gateway_config_seeds = [GATEWAY_SEED]"

definition assert_valid_epoch :: "GatewayConfig \<Rightarrow> U256 \<Rightarrow> unit result" where
  "assert_valid_epoch config epoch =
     res_bind (ok_or (u256_checked_sub (current_epoch config) epoch)
                (GatewayE EpochCalculationOverflow)) (\<lambda>elapsed.
     require (\<not> previous_verifier_set_retention config \<le> elapsed) (GatewayE VerifierSetTooOld))"

record VerifierSetTracker =
  vt_bump :: u8
  vt_epoch :: U256
  vt_verifier_set_hash :: hash

definition tracker_seeds :: "hash \<Rightarrow> bytes list" where
  "tracker_seeds vsh = [str_bytes ''ver-set-tracker'', vsh]"

section \<open>Incoming messages (\<open>incoming_message.rs\<close>)\<close>

datatype MessageStatus = MessageStatus u8

definition status_approved :: MessageStatus where
  "status_approved = MessageStatus 0"

definition status_executed :: MessageStatus where
  "status_executed = MessageStatus 1"

fun is_approved :: "MessageStatus \<Rightarrow> bool" where
  "is_approved (MessageStatus s) = (s = 0)"

fun is_executed :: "MessageStatus \<Rightarrow> bool" where
  "is_executed (MessageStatus s) = (s \<noteq> 0)"

record IncomingMessage =
  im_bump :: u8
  signing_pda_bump :: u8
  im_status :: MessageStatus
  im_message_hash :: hash
  im_payload_hash :: hash

definition incoming_message_seeds :: "hash \<Rightarrow> bytes list" where
  "incoming_message_seeds cid = [str_bytes ''incoming message'', cid]"

lemma status_simps [simp]:
  "is_approved status_approved" "\<not> is_approved status_executed"
  "is_executed s = (\<not> is_approved s)"
  by (cases s; simp add: status_approved_def status_executed_def)+

section \<open>Signing addresses (\<open>validate_message_signer.rs\<close>, \<open>call_contract_signer.rs\<close>)\<close>

definition validate_message_seeds :: "hash \<Rightarrow> bytes list" where
  "validate_message_seeds cid = [str_bytes ''gtw-validate-msg'', cid]"

definition ValidateMessageSigner_find_pda :: "env \<Rightarrow> hash \<Rightarrow> pubkey \<Rightarrow> (pubkey \<times> u8) result" where
  "ValidateMessageSigner_find_pda env cid pid =
     find_program_address env (validate_message_seeds cid) pid"

definition ValidateMessageSigner_create_pda :: "env \<Rightarrow> hash \<Rightarrow> u8 \<Rightarrow> pubkey \<Rightarrow> pubkey result" where
  "ValidateMessageSigner_create_pda env cid b pid =
     ok_or (create_program_address env [str_bytes ''gtw-validate-msg'', cid, [b]] pid)
       (GatewayE InvalidSigningPDABump)"

definition CALL_CONTRACT_SEED :: bytes where
  "CALL_CONTRACT_SEED = str_bytes ''gtw-call-contract''"

definition CallContractSigner_find_pda :: "env \<Rightarrow> pubkey \<Rightarrow> (pubkey \<times> u8) result" where
  "CallContractSigner_find_pda env pid = find_program_address env [CALL_CONTRACT_SEED] pid"

definition CallContractSigner_create_pda :: "env \<Rightarrow> u8 \<Rightarrow> pubkey \<Rightarrow> pubkey result" where
  "CallContractSigner_create_pda env b pid =
     ok_or (create_program_address env [CALL_CONTRACT_SEED, [b]] pid)
       (GatewayE InvalidSigningPDABump)"

section \<open>The verification session (\<open>verification_session.rs\<close>)\<close>

record SignatureVerification =
  accumulated_threshold :: U128
  signature_slots :: bytes
  signing_verifier_set_hash :: hash

record SignatureVerificationSessionData =
  signature_verification :: SignatureVerification
  sd_bump :: u8

definition default_signature_verification :: SignatureVerification where
  "default_signature_verification =
     \<lparr>accumulated_threshold = u128_zero, signature_slots = replicate 32 0,
      signing_verifier_set_hash = replicate 32 0\<rparr>"

definition session_new :: "SignatureVerification \<Rightarrow> u8 \<Rightarrow> SignatureVerificationSessionData" where
  "session_new sv bump = \<lparr>signature_verification = sv, sd_bump = bump\<rparr>"

definition session_seeds :: "hash \<Rightarrow> PayloadType \<Rightarrow> hash \<Rightarrow> bytes list" where
  "session_seeds payload_merkle_root payload_type vsh =
     [str_bytes ''gtw-sig-verif'', payload_merkle_root, [payload_type_byte payload_type], vsh]"

definition is_valid :: "SignatureVerificationSessionData \<Rightarrow> bool" where
  "is_valid session = (accumulated_threshold (signature_verification session) = u128_max)"

text \<open>\<open>view_bits::<Lsb0>()\<close>: bit \<open>p\<close> of the slice is bit \<open>p mod 8\<close> of byte \<open>p div 8\<close>.\<close>

definition slot_get :: "bytes \<Rightarrow> nat \<Rightarrow> bool option" where
  "slot_get slots p = (if p < 8 * length slots then Some (bit (slots ! (p div 8)) (p mod 8)) else None)"

definition slot_commit :: "bytes \<Rightarrow> nat \<Rightarrow> bytes" where
  "slot_commit slots p = slots[p div 8 := set_bit (p mod 8) (slots ! (p div 8))]"

definition check_slot_is_done :: "SignatureVerificationSessionData \<Rightarrow> VerifierSetLeaf \<Rightarrow> unit result" where
  "check_slot_is_done session leaf =
     (case slot_get (signature_slots (signature_verification session)) (unat (vl_position leaf)) of
        None \<Rightarrow> Inl (GatewayE SlotIsOutOfBounds)
      | Some slot \<Rightarrow> if slot then Inl (GatewayE SlotAlreadyVerified) else Inr ())"

definition mark_slot_done ::
    "SignatureVerificationSessionData \<Rightarrow> VerifierSetLeaf \<Rightarrow> SignatureVerificationSessionData result" where
  "mark_slot_done session leaf =
     (let sv = signature_verification session; p = unat (vl_position leaf) in
      case slot_get (signature_slots sv) p of
        None \<Rightarrow> Inl (GatewayE SlotIsOutOfBounds)
      | Some slot \<Rightarrow> if slot then Inl (GatewayE SlotAlreadyVerified)
          else Inr (session\<lparr>signature_verification :=
                 sv\<lparr>signature_slots := slot_commit (signature_slots sv) p\<rparr>\<rparr>))"

definition accumulate_threshold ::
    "SignatureVerificationSessionData \<Rightarrow> VerifierSetLeaf \<Rightarrow> SignatureVerificationSessionData" where
  "accumulate_threshold session leaf =
     (let sv = signature_verification session;
          t = u128_saturating_add (accumulated_threshold sv) (u128_new (vl_signer_weight leaf));
          t' = (if vl_quorum leaf \<le> u128_get t then u128_max else t)
      in session\<lparr>signature_verification := sv\<lparr>accumulated_threshold := t'\<rparr>\<rparr>)"

definition verify_verifier_set :: "SignatureVerificationSessionData \<Rightarrow> hash \<Rightarrow> unit result" where
  "verify_verifier_set session expected_hash =
     require (signing_verifier_set_hash (signature_verification session) = expected_hash)
       (GatewayE InvalidDigitalSignature)"

text \<open>
  The signature is \<open>r || s || recovery id\<close>, 65 bytes. \<open>parse_compressed_serialize\<close> is the
  65-byte uncompressed form of a compressed key; the source unwraps it and drops its tag byte.
\<close>

definition verify_ecdsa_signature ::
    "env \<Rightarrow> secp_pubkey \<Rightarrow> ecdsa_signature \<Rightarrow> PayloadType \<Rightarrow> hash \<Rightarrow> bool result" where
  "verify_ecdsa_signature env pubkey signature payload_type message =
     (let hashed_message = prefixed_message_hash_payload_type env payload_type message in
      case secp256k1_recover env hashed_message (last signature) (butlast signature) of
        None \<Rightarrow> Inr False
      | Some recovered \<Rightarrow>
          (case parse_compressed_serialize env pubkey of
             None \<Rightarrow> Inl (Panic ''called `Result::unwrap()` on an `Err` value'')
           | Some full \<Rightarrow> Inr (recovered = tl full)))"

definition process_signature ::
    "env \<Rightarrow> SignatureVerificationSessionData \<Rightarrow> hash \<Rightarrow> hash \<Rightarrow> SigningVerifierSetInfo \<Rightarrow>
     SignatureVerificationSessionData result" where
  "process_signature env session payload_merkle_root verifier_set_merkle_root info =
     res_bind (check_slot_is_done session (vi_leaf info)) (\<lambda>_.
     res_bind (ok_or (merkle_proof_from_bytes env (vi_merkle_proof info))
                (GatewayE InvalidMerkleProof)) (\<lambda>merkle_proof.
     let leaf_hash = verifier_set_leaf_hash env (vi_leaf info) in
     res_bind (require (merkle_proof_verify env (Hasher env) merkle_proof verifier_set_merkle_root
                  [unat (vl_position (vi_leaf info))] [leaf_hash] (unat (vl_set_size (vi_leaf info))))
                (GatewayE InvalidMerkleProof)) (\<lambda>_.
     res_bind (verify_ecdsa_signature env (vl_signer_pubkey (vi_leaf info)) (vi_signature info)
                 (vi_payload_type info) payload_merkle_root) (\<lambda>verified.
     res_bind (require verified (GatewayE SignatureVerificationFailed)) (\<lambda>_.
     res_bind (mark_slot_done (accumulate_threshold session (vi_leaf info)) (vi_leaf info)) (\<lambda>session'.
     res_bind (verify_verifier_set session' verifier_set_merkle_root) (\<lambda>_.
     Inr session')))))))"

end
