(* ===== verification/Gateway_Session.thy ===== *)
theory Gateway_Session
  imports Gateway_State
begin

text \<open>
  What a verification session establishes: which slots it has used, that every signature it
  counted is a signature of the payload root by the verifier of a distinct leaf of the set, and
  that it is valid exactly when the counted weights reached a quorum.
\<close>

section \<open>The bit field\<close>

definition slot_set :: "bytes \<Rightarrow> nat set" where
  "slot_set slots = {p. slot_get slots p = Some True}"

lemma slot_get_Some_False: "slot_get slots p = Some False \<longleftrightarrow> p < 8 * length slots \<and> p \<notin> slot_set slots"
  by (auto simp: slot_get_def slot_set_def)

lemma slot_get_None: "slot_get slots p = None \<longleftrightarrow> 8 * length slots \<le> p"
  by (auto simp: slot_get_def)

lemma length_slot_commit [simp]: "length (slot_commit slots p) = length slots"
  by (simp add: slot_commit_def)

lemma slot_index_less: "p < 8 * length slots \<Longrightarrow> p div 8 < length slots"
  by (simp add: less_mult_imp_div_less mult.commute)

lemma slot_get_commit:
  assumes "p < 8 * length slots"
  shows "slot_get (slot_commit slots p) q = (if q = p then Some True else slot_get slots q)"
proof -
  have p: "p div 8 < length slots" "p mod 8 < 8"
    using assms by (simp_all add: slot_index_less)
  have bits: "bit (set_bit m w) n = (m = n \<and> n < 8 \<or> bit w n)" if "n < 8" for m n and w :: u8
    using that by (auto simp: bit_set_bit_iff)
  have "q = p" if "q div 8 = p div 8" "q mod 8 = p mod 8"
    using that by (metis mult_div_mod_eq)
  then show ?thesis
    using p by (auto simp: slot_get_def slot_commit_def nth_list_update bits assms)
qed

lemma slot_set_commit:
  "p < 8 * length slots \<Longrightarrow> slot_set (slot_commit slots p) = insert p (slot_set slots)"
  by (auto simp: slot_set_def slot_get_commit split: if_splits)

lemma slot_set_zero [simp]: "slot_set (replicate n 0) = {}"
  by (auto simp: slot_set_def slot_get_def slot_index_less split: if_splits)

section \<open>One signature\<close>

abbreviation session_slots :: "SignatureVerificationSessionData \<Rightarrow> bytes" where
  "session_slots s \<equiv> signature_slots (signature_verification s)"

abbreviation session_hash :: "SignatureVerificationSessionData \<Rightarrow> hash" where
  "session_hash s \<equiv> signing_verifier_set_hash (signature_verification s)"

abbreviation session_threshold :: "SignatureVerificationSessionData \<Rightarrow> nat" where
  "session_threshold s \<equiv> unat (u128_get (accumulated_threshold (signature_verification s)))"

abbreviation info_position :: "SigningVerifierSetInfo \<Rightarrow> nat" where
  "info_position i \<equiv> unat (vl_position (vi_leaf i))"

abbreviation info_weight :: "SigningVerifierSetInfo \<Rightarrow> nat" where
  "info_weight i \<equiv> unat (vl_signer_weight (vi_leaf i))"

abbreviation info_quorum :: "SigningVerifierSetInfo \<Rightarrow> nat" where
  "info_quorum i \<equiv> unat (vl_quorum (vi_leaf i))"

text \<open>
  The contract of one accepted signature, free of session state: the leaf belongs to the
  verifier set with this root, and the key of the leaf signed the payload root for the payload
  type.
\<close>

definition leaf_in_set :: "env \<Rightarrow> hash \<Rightarrow> SigningVerifierSetInfo \<Rightarrow> bool" where
  "leaf_in_set env vsr i \<longleftrightarrow> (case merkle_proof_from_bytes env (vi_merkle_proof i) of
     None \<Rightarrow> False
   | Some p \<Rightarrow> merkle_proof_verify env (Hasher env) p vsr [info_position i]
       [verifier_set_leaf_hash env (vi_leaf i)] (unat (vl_set_size (vi_leaf i))))"

definition signed_by :: "env \<Rightarrow> secp_pubkey \<Rightarrow> ecdsa_signature \<Rightarrow> PayloadType \<Rightarrow> hash \<Rightarrow> bool" where
  "signed_by env pk sig pt root \<longleftrightarrow>
     (\<exists>full. parse_compressed_serialize env pk = Some full \<and>
        secp256k1_recover env (prefixed_message_hash_payload_type env pt root) (last sig) (butlast sig)
          = Some (tl full))"

definition signature_accepted :: "env \<Rightarrow> hash \<Rightarrow> hash \<Rightarrow> SigningVerifierSetInfo \<Rightarrow> bool" where
  "signature_accepted env root vsr i \<longleftrightarrow> leaf_in_set env vsr i \<and>
     signed_by env (vl_signer_pubkey (vi_leaf i)) (vi_signature i) (vi_payload_type i) root"

lemma verify_ecdsa_signature_True:
  "verify_ecdsa_signature env pk sig pt root = Inr True \<longleftrightarrow> signed_by env pk sig pt root"
  by (auto simp: verify_ecdsa_signature_def signed_by_def Let_def split: option.splits)

lemma check_slot_is_done_Inr [res_inv]:
  "check_slot_is_done s l = Inr u \<longleftrightarrow>
     unat (vl_position l) < 8 * length (session_slots s) \<and>
     unat (vl_position l) \<notin> slot_set (session_slots s)"
  using slot_get_Some_False [of "session_slots s" "unat (vl_position l)"]
  by (auto simp: check_slot_is_done_def split: option.splits if_splits)

lemma accumulate_threshold_parts [simp]:
  "session_slots (accumulate_threshold s l) = session_slots s"
  "session_hash (accumulate_threshold s l) = session_hash s"
  "sd_bump (accumulate_threshold s l) = sd_bump s"
  by (simp_all add: accumulate_threshold_def Let_def)

definition slot_marked :: "SignatureVerificationSessionData \<Rightarrow> nat \<Rightarrow> SignatureVerificationSessionData" where
  "slot_marked s p = s\<lparr>signature_verification :=
     (signature_verification s)\<lparr>signature_slots := slot_commit (session_slots s) p\<rparr>\<rparr>"

lemma slot_marked_parts [simp]:
  "session_slots (slot_marked s p) = slot_commit (session_slots s) p"
  "session_hash (slot_marked s p) = session_hash s"
  "accumulated_threshold (signature_verification (slot_marked s p)) =
     accumulated_threshold (signature_verification s)"
  "sd_bump (slot_marked s p) = sd_bump s"
  by (simp_all add: slot_marked_def)

lemma mark_slot_done_Inr [res_inv]:
  "mark_slot_done s l = Inr s' \<longleftrightarrow>
     unat (vl_position l) < 8 * length (session_slots s) \<and>
     unat (vl_position l) \<notin> slot_set (session_slots s) \<and> s' = slot_marked s (unat (vl_position l))"
  using slot_get_Some_False [of "session_slots s" "unat (vl_position l)"]
  by (auto simp: mark_slot_done_def slot_marked_def Let_def split: option.splits if_splits)

lemma verify_verifier_set_Inr [res_inv]:
  "verify_verifier_set s h = Inr u \<longleftrightarrow> session_hash s = h"
  by (simp add: verify_verifier_set_def res_inv)

lemma process_signature_Inr:
  "process_signature env s root vsr i = Inr s' \<longleftrightarrow>
     info_position i < 8 * length (session_slots s) \<and> info_position i \<notin> slot_set (session_slots s) \<and>
     signature_accepted env root vsr i \<and> session_hash s = vsr \<and>
     s' = slot_marked (accumulate_threshold s (vi_leaf i)) (info_position i)"
  by (auto simp: process_signature_def Let_def res_inv signature_accepted_def leaf_in_set_def
      simp flip: verify_ecdsa_signature_True split: option.splits)

section \<open>The accumulated threshold\<close>

abbreviation session_max :: nat where
  "session_max \<equiv> 2 ^ 128 - 1"

definition threshold_wf :: "SignatureVerificationSessionData \<Rightarrow> bool" where
  "threshold_wf s \<longleftrightarrow> u128_wf (accumulated_threshold (signature_verification s))"

lemma session_threshold_le: "session_threshold s \<le> session_max"
  using unat_less_len [of "u128_get (accumulated_threshold (signature_verification s))"]
  by simp

lemma is_valid_threshold: "threshold_wf s \<Longrightarrow> is_valid s \<longleftrightarrow> session_threshold s = session_max"
  using u128_get_inj [of "accumulated_threshold (signature_verification s)" u128_max]
    unat_minus_one_word' [where 'a = 128]
  by (auto simp: is_valid_def threshold_wf_def word_unat_eq_iff)

lemma threshold_wf_accumulate [simp]: "threshold_wf (accumulate_threshold s l)"
  by (simp add: threshold_wf_def accumulate_threshold_def u128_saturating_add_def Let_def)

lemma threshold_wf_marked [simp]: "threshold_wf (slot_marked s p) = threshold_wf s"
  by (simp add: threshold_wf_def)

lemma is_valid_marked [simp]: "is_valid (slot_marked s p) = is_valid s"
  by (simp add: is_valid_def)

lemma session_threshold_accumulate:
  "session_threshold (accumulate_threshold s l) =
     (if unat (vl_quorum l) \<le> session_threshold s + unat (vl_signer_weight l) then session_max
      else session_threshold s + unat (vl_signer_weight l))"
proof -
  have q: "unat (vl_quorum l) \<le> session_max"
    using unat_less_len [of "vl_quorum l"] by simp
  define t where "t = saturating_add (u128_get (accumulated_threshold (signature_verification s)))
      (vl_signer_weight l)"
  have t: "unat t = min (session_threshold s + unat (vl_signer_weight l)) session_max"
    using unat_saturating_add [of "u128_get (accumulated_threshold (signature_verification s))"
        "vl_signer_weight l"] by (simp add: t_def)
  have m: "unat (- 1 :: u128) = session_max"
    using unat_minus_one_word' [where 'a = 128] by simp
  have "session_threshold (accumulate_threshold s l) =
      (if unat (vl_quorum l) \<le> unat t then session_max else unat t)"
    using m by (simp add: accumulate_threshold_def u128_saturating_add_def Let_def t_def
        word_le_nat_alt)
  then show ?thesis
    unfolding t using q by (simp only: min_def split: if_splits) auto
qed

section \<open>A run of signatures\<close>

fun process_signatures ::
    "env \<Rightarrow> hash \<Rightarrow> hash \<Rightarrow> SignatureVerificationSessionData \<Rightarrow> SigningVerifierSetInfo list \<Rightarrow>
     SignatureVerificationSessionData result" where
  "process_signatures env root vsr s [] = Inr s"
| "process_signatures env root vsr s (i # is) =
     res_bind (process_signature env s root vsr i) (\<lambda>s'. process_signatures env root vsr s' is)"

lemma process_signatures_append:
  "process_signatures env root vsr s (xs @ ys) =
     res_bind (process_signatures env root vsr s xs) (\<lambda>s'. process_signatures env root vsr s' ys)"
  by (induction xs arbitrary: s) (auto simp: res_bind_def split: sum.splits)

text \<open>The weights of the signatures counted so far reach the quorum some signature names.\<close>

definition quorum_reached :: "nat \<Rightarrow> SigningVerifierSetInfo list \<Rightarrow> bool" where
  "quorum_reached t infos \<longleftrightarrow> (\<exists>pre i post. infos = pre @ i # post \<and>
     info_quorum i \<le> t + sum_list (map info_weight (pre @ [i])))"

lemma quorum_reached_Nil [simp]: "\<not> quorum_reached t []"
  by (simp add: quorum_reached_def)

lemma quorum_reached_Cons:
  "quorum_reached t (i # is) \<longleftrightarrow>
     info_quorum i \<le> t + info_weight i \<or> quorum_reached (t + info_weight i) is"
    (is "?lhs \<longleftrightarrow> ?now \<or> ?later")
proof
  assume ?lhs
  then obtain pre j post where *: "i # is = pre @ j # post"
      "info_quorum j \<le> t + sum_list (map info_weight (pre @ [j]))"
    by (auto simp: quorum_reached_def)
  show "?now \<or> ?later"
  proof (cases pre)
    case Nil
    with * show ?thesis by simp
  next
    case (Cons k pre')
    with * show ?thesis unfolding quorum_reached_def by (auto simp: add.assoc)
  qed
next
  assume "?now \<or> ?later"
  then show ?lhs
  proof
    assume ?now
    then show ?lhs unfolding quorum_reached_def
      by (intro exI [of _ "[]"] exI [of _ i] exI [of _ "is"]) simp
  next
    assume ?later
    then obtain pre j post where "is = pre @ j # post"
        "info_quorum j \<le> t + info_weight i + sum_list (map info_weight (pre @ [j]))"
      by (auto simp: quorum_reached_def)
    then show ?lhs unfolding quorum_reached_def
      by (intro exI [of _ "i # pre"] exI [of _ j] exI [of _ post]) (simp add: add.assoc)
  qed
qed

lemma is_valid_step:
  assumes "threshold_wf s" and "process_signature env s root vsr i = Inr s'"
  shows "is_valid s' \<longleftrightarrow> is_valid s \<or> info_quorum i \<le> session_threshold s + info_weight i"
    and "\<not> is_valid s' \<Longrightarrow> session_threshold s' = session_threshold s + info_weight i"
proof -
  have s': "s' = slot_marked (accumulate_threshold s (vi_leaf i)) (info_position i)"
    using assms(2) by (simp add: process_signature_Inr)
  have q: "info_quorum i \<le> session_max"
    using unat_less_len [of "vl_quorum (vi_leaf i)"] by simp
  have wf': "threshold_wf s'" by (simp add: s')
  have t': "session_threshold s' =
      (if info_quorum i \<le> session_threshold s + info_weight i then session_max
       else session_threshold s + info_weight i)"
    by (simp only: s' slot_marked_parts session_threshold_accumulate)
  show "is_valid s' \<longleftrightarrow> is_valid s \<or> info_quorum i \<le> session_threshold s + info_weight i"
    unfolding is_valid_threshold [OF wf'] is_valid_threshold [OF assms(1)] t'
    using q by auto
  show "session_threshold s' = session_threshold s + info_weight i" if "\<not> is_valid s'"
    using that unfolding is_valid_threshold [OF wf'] t' by auto
qed

lemma is_valid_run:
  assumes "process_signatures env root vsr s infos = Inr s'" and "threshold_wf s"
  shows "is_valid s' \<longleftrightarrow> is_valid s \<or> quorum_reached (session_threshold s) infos"
  using assms
proof (induction infos arbitrary: s)
  case (Cons i infos)
  then obtain s1 where s1: "process_signature env s root vsr i = Inr s1"
    and rest: "process_signatures env root vsr s1 infos = Inr s'"
    by (auto simp: res_inv)
  have wf1: "threshold_wf s1"
    using s1 by (auto simp: process_signature_Inr)
  note IH = Cons.IH [OF rest wf1] and step = is_valid_step [OF Cons.prems(2) s1]
  show ?case
    using IH step by (cases "is_valid s1") (auto simp: quorum_reached_Cons)
qed simp

text \<open>Every signature of a run was accepted, in a slot of its own, for the session's set.\<close>

lemma process_signature_facts:
  assumes "process_signature env s root vsr i = Inr s'"
  shows "slot_set (session_slots s') = insert (info_position i) (slot_set (session_slots s))"
    and "info_position i \<notin> slot_set (session_slots s)"
    and "signature_accepted env root vsr i" and "session_hash s = vsr" and "session_hash s' = vsr"
    and "length (session_slots s') = length (session_slots s)" and "sd_bump s' = sd_bump s"
    and "threshold_wf s'"
  using assms by (auto simp: process_signature_Inr slot_set_commit)

lemma process_signatures_slots:
  "process_signatures env root vsr s infos = Inr s' \<Longrightarrow>
     slot_set (session_slots s') = info_position ` set infos \<union> slot_set (session_slots s) \<and>
     distinct (map info_position infos) \<and>
     info_position ` set infos \<inter> slot_set (session_slots s) = {}"
proof (induction infos arbitrary: s)
  case (Cons i infos)
  then obtain s1 where s1: "process_signature env s root vsr i = Inr s1"
    and rest: "process_signatures env root vsr s1 infos = Inr s'"
    by (auto simp: res_inv)
  note facts = process_signature_facts(1,2) [OF s1]
  from Cons.IH [OF rest] facts show ?case
    unfolding facts(1) by (simp add: image_iff)
qed simp

lemma process_signatures_run:
  "process_signatures env root vsr s infos = Inr s' \<Longrightarrow>
     (\<forall>i \<in> set infos. signature_accepted env root vsr i) \<and>
     length (session_slots s') = length (session_slots s) \<and> session_hash s' = session_hash s \<and>
     sd_bump s' = sd_bump s \<and> (infos \<noteq> [] \<longrightarrow> session_hash s = vsr) \<and>
     (threshold_wf s \<longrightarrow> threshold_wf s')"
proof (induction infos arbitrary: s)
  case (Cons i infos)
  then obtain s1 where s1: "process_signature env s root vsr i = Inr s1"
    and rest: "process_signatures env root vsr s1 infos = Inr s'"
    by (auto simp: res_inv)
  from Cons.IH [OF rest] process_signature_facts(3-8) [OF s1] show ?case
    by auto
qed simp

text \<open>Conversely, accepted signatures in distinct free slots go through.\<close>

lemma process_signatures_ok:
  assumes "\<forall>i \<in> set infos. signature_accepted env root vsr i"
    and "\<forall>i \<in> set infos. info_position i < 8 * length (session_slots s)"
    and "distinct (map info_position infos)"
    and "\<forall>i \<in> set infos. info_position i \<notin> slot_set (session_slots s)"
    and "session_hash s = vsr"
  shows "\<exists>s'. process_signatures env root vsr s infos = Inr s'"
  using assms
proof (induction infos arbitrary: s)
  case (Cons i infos)
  define s1 where "s1 = slot_marked (accumulate_threshold s (vi_leaf i)) (info_position i)"
  have "signature_accepted env root vsr i" "info_position i < 8 * length (session_slots s)"
    and "info_position i \<notin> slot_set (session_slots s)"
    using Cons.prems(1,2,4) by (meson list.set_intros(1))+
  then have s1: "process_signature env s root vsr i = Inr s1"
    unfolding process_signature_Inr s1_def using Cons.prems(5) by blast
  note facts = process_signature_facts [OF s1]
  have "\<exists>s'. process_signatures env root vsr s1 infos = Inr s'"
  proof (rule Cons.IH)
    show "\<forall>j \<in> set infos. signature_accepted env root vsr j"
      using Cons.prems(1) by (meson list.set_intros(2))
    show "\<forall>j \<in> set infos. info_position j < 8 * length (session_slots s1)"
      unfolding facts(6) using Cons.prems(2) by (meson list.set_intros(2))
    show "distinct (map info_position infos)"
      using Cons.prems(3) by simp
    have "info_position i \<notin> info_position ` set infos"
      using Cons.prems(3) by simp
    then show "\<forall>j \<in> set infos. info_position j \<notin> slot_set (session_slots s1)"
      unfolding facts(1) using Cons.prems(4) by (metis imageI insertE list.set_intros(2))
    show "session_hash s1 = vsr" by (rule facts(5))
  qed
  with s1 show ?case by simp
qed simp

text \<open>Where all leaves name one quorum, the whole run decides.\<close>

lemma quorum_reached_uniform:
  assumes "\<forall>i \<in> set infos. info_quorum i = q"
  shows "quorum_reached t infos \<longleftrightarrow> infos \<noteq> [] \<and> q \<le> t + sum_list (map info_weight infos)"
  using assms
proof (induction infos arbitrary: t)
  case (Cons i infos)
  have IH: "quorum_reached (t + info_weight i) infos \<longleftrightarrow>
      infos \<noteq> [] \<and> q \<le> t + info_weight i + sum_list (map info_weight infos)"
    using Cons.prems by (intro Cons.IH) (meson list.set_intros(2))
  have q: "info_quorum i = q"
    using Cons.prems by (meson list.set_intros(1))
  have "sum_list (map info_weight (i # infos)) = info_weight i + sum_list (map info_weight infos)"
    by (simp only: list.map sum_list.Cons)
  then show ?case
    unfolding quorum_reached_Cons IH q by (cases infos) (simp_all only: list.map sum_list.Nil, auto)
qed simp

end
