(* ===== verification/Gateway.thy ===== *)
theory Gateway
  imports Gateway_Session
begin

text \<open>
  The instructions of the gateway (\<open>programs/solana-axelar-gateway/src/instructions\<close>), one
  definition per instruction: the account constraints of its \<open>#[derive(Accounts)]\<close> struct in
  the order of the fields, then the handler. An error leaves the state as it was, since the
  transaction aborts. \<open>gateway_step\<close> is one successful instruction of any kind.
\<close>

section \<open>State and events\<close>

datatype gateway_account =
    ConfigAcc GatewayConfig
  | TrackerAcc VerifierSetTracker
  | SessionAcc SignatureVerificationSessionData
  | MessageAcc IncomingMessage

fun config_of :: "gateway_account \<Rightarrow> GatewayConfig option" where
  "config_of (ConfigAcc c) = Some c"
| "config_of _ = None"

fun tracker_of :: "gateway_account \<Rightarrow> VerifierSetTracker option" where
  "tracker_of (TrackerAcc t) = Some t"
| "tracker_of _ = None"

fun session_of :: "gateway_account \<Rightarrow> SignatureVerificationSessionData option" where
  "session_of (SessionAcc s) = Some s"
| "session_of _ = None"

fun message_of :: "gateway_account \<Rightarrow> IncomingMessage option" where
  "message_of (MessageAcc m) = Some m"
| "message_of _ = None"

text \<open>\<open>events.rs\<close>, fields in the order of the source.\<close>

datatype gateway_event =
    MessageApprovedEvent hash string hash string string string string
  | MessageExecutedEvent hash pubkey hash string string string string
  | VerifierSetRotatedEvent U256 hash
  | CallContractEvent pubkey hash string string bytes
  | OperatorshipTransferredEvent pubkey

record gateway_state =
  gw_accounts :: "gateway_account accounts"
  gw_events :: "gateway_event list"

definition gateway_empty :: gateway_state where
  "gateway_empty = \<lparr>gw_accounts = Map.empty, gw_events = []\<rparr>"

definition put_gw :: "pubkey \<Rightarrow> gateway_account \<Rightarrow> gateway_state \<Rightarrow> gateway_state" where
  "put_gw k a st = st\<lparr>gw_accounts := (gw_accounts st)(k \<mapsto> a)\<rparr>"

definition emit_gw :: "gateway_event \<Rightarrow> gateway_state \<Rightarrow> gateway_state" where
  "emit_gw e st = st\<lparr>gw_events := gw_events st @ [e]\<rparr>"

lemma gw_state_simps [simp]:
  "gw_accounts (put_gw k a st) = (gw_accounts st)(k \<mapsto> a)"
  "gw_events (put_gw k a st) = gw_events st"
  "gw_accounts (emit_gw e st) = gw_accounts st"
  "gw_events (emit_gw e st) = gw_events st @ [e]"
  by (simp_all add: put_gw_def emit_gw_def)

interpretation gcfg: account_kind ConfigAcc config_of
  by unfold_locales (auto elim: config_of.elims)

interpretation gtrk: account_kind TrackerAcc tracker_of
  by unfold_locales (auto elim: tracker_of.elims)

interpretation gses: account_kind SessionAcc session_of
  by unfold_locales (auto elim: session_of.elims)

interpretation gmsg: account_kind MessageAcc message_of
  by unfold_locales (auto elim: message_of.elims)

section \<open>\<open>initialize_config.rs\<close>\<close>

record InitializeConfigParams =
  icp_domain_separator :: hash
  icp_initial_verifier_set_hash :: hash
  icp_initial_verifier_set_pda :: pubkey
  icp_minimum_rotation_delay :: u64
  icp_operator :: pubkey
  icp_previous_verifier_retention :: U256

record InitializeConfig =
  ic_payer :: account_info
  ic_upgrade_authority :: account_info
  ic_program_data :: account_info
  ic_gateway_root_pda :: account_info
  ic_system_program :: account_info
  ic_verifier_set_tracker_pda :: account_info

definition initialize_config ::
    "env \<Rightarrow> ledger_view \<Rightarrow> InitializeConfig \<Rightarrow> InitializeConfigParams \<Rightarrow> gateway_state \<Rightarrow>
     gateway_state result" where
  "initialize_config env view a params st =
     (let root = ai_key (ic_gateway_root_pda a); trk = ai_key (ic_verifier_set_tracker_pda a) in
     res_bind (check_signer (ic_payer a)) (\<lambda>_.
     res_bind (check_mut (ic_payer a)) (\<lambda>_.
     res_bind (check_signer (ic_upgrade_authority a)) (\<lambda>_.
     res_bind (load_program_data env view (gateway_id env) (ai_key (ic_program_data a))) (\<lambda>authority.
     res_bind (require (authority = Some (ai_key (ic_upgrade_authority a)))
                (GatewayE GatewayError.InvalidUpgradeAuthority)) (\<lambda>_.
     res_bind (check_seeds_canonical env gateway_config_seeds (gateway_id env) root) (\<lambda>root_bump.
     res_bind (check_vacant (gw_accounts st) root) (\<lambda>_.
     res_bind (check_program (ic_system_program a) (system_program_id env)) (\<lambda>_.
     res_bind (check_seeds_canonical env (tracker_seeds (icp_initial_verifier_set_hash params))
                (gateway_id env) trk) (\<lambda>trk_bump.
     res_bind (require (trk \<noteq> root) (ProgramE AccountAlreadyInUse)) (\<lambda>_.
     res_bind (check_vacant (gw_accounts st) trk) (\<lambda>_.
     res_bind (u64_of_i64 (unix_timestamp view) (GatewayE InvalidTimestamp)) (\<lambda>now.
     Inr (put_gw trk (TrackerAcc
            \<lparr>vt_bump = trk_bump, vt_epoch = u256_from_u64 1,
             vt_verifier_set_hash = icp_initial_verifier_set_hash params\<rparr>)
          (put_gw root (ConfigAcc
            \<lparr>current_epoch = u256_from_u64 1,
             previous_verifier_set_retention = icp_previous_verifier_retention params,
             minimum_rotation_delay = icp_minimum_rotation_delay params,
             last_rotation_timestamp = now,
             gc_operator = icp_operator params,
             domain_separator = icp_domain_separator params,
             gc_bump = root_bump\<rparr>) st)))))))))))))))"

section \<open>\<open>initialize_payload_verification_session.rs\<close>\<close>

record InitializePayloadVerificationSession =
  ips_payer :: account_info
  ips_gateway_root_pda :: account_info
  ips_verification_session_account :: account_info
  ips_verifier_set_tracker_pda :: account_info
  ips_system_program :: account_info

text \<open>\<open>seeds = [...], bump = gateway_root_pda.load()?.bump\<close>, shared by the instructions.\<close>

definition load_gateway_config :: "env \<Rightarrow> gateway_state \<Rightarrow> pubkey \<Rightarrow> GatewayConfig result" where
  "load_gateway_config env st k =
     res_bind (load_acc config_of (gw_accounts st) k) (\<lambda>config.
     res_bind (check_seeds env gateway_config_seeds (gc_bump config) (gateway_id env) k) (\<lambda>_.
     Inr config))"

definition initialize_payload_verification_session ::
    "env \<Rightarrow> InitializePayloadVerificationSession \<Rightarrow> hash \<Rightarrow> PayloadType \<Rightarrow> gateway_state \<Rightarrow>
     gateway_state result" where
  "initialize_payload_verification_session env a merkle_root payload_type st =
     (let session = ai_key (ips_verification_session_account a);
          trk = ai_key (ips_verifier_set_tracker_pda a) in
     res_bind (check_signer (ips_payer a)) (\<lambda>_.
     res_bind (check_mut (ips_payer a)) (\<lambda>_.
     res_bind (load_gateway_config env st (ai_key (ips_gateway_root_pda a))) (\<lambda>config.
     res_bind (load_acc tracker_of (gw_accounts st) trk) (\<lambda>tracker.
     res_bind (check_seeds_canonical env
                (session_seeds merkle_root payload_type (vt_verifier_set_hash tracker))
                (gateway_id env) session) (\<lambda>session_bump.
     res_bind (check_vacant (gw_accounts st) session) (\<lambda>_.
     res_bind (check_seeds_canonical env (tracker_seeds (vt_verifier_set_hash tracker))
                (gateway_id env) trk) (\<lambda>_.
     res_bind (require (assert_valid_epoch config (vt_epoch tracker) = Inr ())
                (GatewayE VerifierSetTooOld)) (\<lambda>_.
     res_bind (check_program (ips_system_program a) (system_program_id env)) (\<lambda>_.
     Inr (put_gw session (SessionAcc (session_new
            (default_signature_verification\<lparr>signing_verifier_set_hash := vt_verifier_set_hash tracker\<rparr>)
            session_bump)) st)))))))))))"

section \<open>\<open>verify_signature.rs\<close>\<close>

record VerifySignature =
  vs_gateway_root_pda :: account_info
  vs_verification_session_account :: account_info
  vs_verifier_set_tracker_pda :: account_info

definition verify_signature ::
    "env \<Rightarrow> VerifySignature \<Rightarrow> hash \<Rightarrow> SigningVerifierSetInfo \<Rightarrow> gateway_state \<Rightarrow> gateway_state result" where
  "verify_signature env a payload_merkle_root verifier_info st =
     (let ses = ai_key (vs_verification_session_account a);
          trk = ai_key (vs_verifier_set_tracker_pda a) in
     res_bind (load_gateway_config env st (ai_key (vs_gateway_root_pda a))) (\<lambda>config.
     res_bind (require (domain_separator config = vl_domain_separator (vi_leaf verifier_info))
                (GatewayE InvalidDomainSeparator)) (\<lambda>_.
     res_bind (load_acc tracker_of (gw_accounts st) trk) (\<lambda>tracker.
     res_bind (require (assert_valid_epoch config (vt_epoch tracker) = Inr ())
                (GatewayE VerifierSetTooOld)) (\<lambda>_.
     res_bind (check_mut (vs_verification_session_account a)) (\<lambda>_.
     res_bind (load_acc session_of (gw_accounts st) ses) (\<lambda>session.
     res_bind (check_seeds env (session_seeds payload_merkle_root (vi_payload_type verifier_info)
                (session_hash session)) (sd_bump session) (gateway_id env) ses) (\<lambda>_.
     res_bind (check_seeds_canonical env (tracker_seeds (vt_verifier_set_hash tracker))
                (gateway_id env) trk) (\<lambda>_.
     res_bind (process_signature env session payload_merkle_root (vt_verifier_set_hash tracker)
                verifier_info) (\<lambda>session'.
     Inr (put_gw ses (SessionAcc session') st)))))))))))"

section \<open>\<open>approve_message.rs\<close>\<close>

record ApproveMessage =
  am_gateway_root_pda :: account_info
  am_funder :: account_info
  am_verification_session_account :: account_info
  am_incoming_message_pda :: account_info
  am_system_program :: account_info

text \<open>A destination that is no address gets bump 0: the message can never be validated.\<close>

definition destination_signing_bump :: "env \<Rightarrow> Message \<Rightarrow> u8 result" where
  "destination_signing_bump env m =
     (case pubkey_from_str env (destination_address m) of
        Some dest \<Rightarrow> res_bind (ValidateMessageSigner_find_pda env (command_id env m) dest)
                       (\<lambda>(_, bump). Inr bump)
      | None \<Rightarrow> Inr 0)"

definition approve_message ::
    "env \<Rightarrow> ApproveMessage \<Rightarrow> MerklizedMessage \<Rightarrow> hash \<Rightarrow> gateway_state \<Rightarrow> gateway_state result" where
  "approve_message env a mm payload_merkle_root st =
     (let ses = ai_key (am_verification_session_account a);
          incoming = ai_key (am_incoming_message_pda a);
          leaf = mm_leaf mm; message = ml_message leaf; cid = command_id env message in
     res_bind (load_gateway_config env st (ai_key (am_gateway_root_pda a))) (\<lambda>config.
     res_bind (check_signer (am_funder a)) (\<lambda>_.
     res_bind (check_mut (am_funder a)) (\<lambda>_.
     res_bind (load_acc session_of (gw_accounts st) ses) (\<lambda>session.
     res_bind (check_seeds env (session_seeds payload_merkle_root ApproveMessages
                (session_hash session)) (sd_bump session) (gateway_id env) ses) (\<lambda>_.
     res_bind (require (is_valid session) (GatewayE SigningSessionNotValid)) (\<lambda>_.
     res_bind (check_seeds_canonical env (incoming_message_seeds cid) (gateway_id env) incoming) (\<lambda>im_bump.
     res_bind (check_vacant (gw_accounts st) incoming) (\<lambda>_.
     res_bind (check_program (am_system_program a) (system_program_id env)) (\<lambda>_.
     res_bind (require (ml_domain_separator leaf = domain_separator config)
                (GatewayE InvalidDomainSeparator)) (\<lambda>_.
     res_bind (ok_or (merkle_proof_from_bytes env (mm_proof mm)) (GatewayE InvalidMerkleProof)) (\<lambda>proof.
     res_bind (require (merkle_proof_verify env (Hasher env) proof payload_merkle_root
                  [unat (ml_position leaf)] [message_leaf_hash env leaf] (unat (ml_set_size leaf)))
                (GatewayE LeafNodeNotPartOfMerkleRoot)) (\<lambda>_.
     res_bind (destination_signing_bump env message) (\<lambda>bump.
     Inr (emit_gw (MessageApprovedEvent cid (destination_address message) (payload_hash message)
              (chain (cc_id message)) (cc_id_id (cc_id message)) (source_address message)
              (destination_chain message))
          (put_gw incoming (MessageAcc
            \<lparr>im_bump = im_bump, signing_pda_bump = bump, im_status = status_approved,
             im_message_hash = message_hash env message,
             im_payload_hash = payload_hash message\<rparr>) st))))))))))))))))"

section \<open>\<open>validate_message.rs\<close>\<close>

record ValidateMessage =
  vm_incoming_message_pda :: account_info
  vm_caller :: account_info
  vm_gateway_root_pda :: account_info

definition validate_caller_pda :: "env \<Rightarrow> pubkey \<Rightarrow> Message \<Rightarrow> IncomingMessage \<Rightarrow> bool result" where
  "validate_caller_pda env caller message incoming =
     res_bind (ok_or (pubkey_from_str env (destination_address message))
                (GatewayE GatewayError.InvalidDestinationAddress)) (\<lambda>dest.
     res_bind (ValidateMessageSigner_create_pda env (command_id env message)
                (signing_pda_bump incoming) dest) (\<lambda>expected.
     Inr (caller = expected)))"

definition validate_message ::
    "env \<Rightarrow> ValidateMessage \<Rightarrow> Message \<Rightarrow> gateway_state \<Rightarrow> gateway_state result" where
  "validate_message env a message st =
     (let incoming = ai_key (vm_incoming_message_pda a); cid = command_id env message in
     res_bind (check_mut (vm_incoming_message_pda a)) (\<lambda>_.
     res_bind (load_acc message_of (gw_accounts st) incoming) (\<lambda>im.
     res_bind (check_seeds env (incoming_message_seeds cid) (im_bump im) (gateway_id env) incoming) (\<lambda>_.
     res_bind (require (is_approved (im_status im)) (GatewayE MessageNotApproved)) (\<lambda>_.
     res_bind (require (im_message_hash im = message_hash env message)
                (GatewayE InvalidMessageHash)) (\<lambda>_.
     res_bind (check_signer (vm_caller a)) (\<lambda>_.
     res_bind (validate_caller_pda env (ai_key (vm_caller a)) message im) (\<lambda>ok.
     res_bind (require ok (GatewayE InvalidSigningPDA)) (\<lambda>_.
     res_bind (load_gateway_config env st (ai_key (vm_gateway_root_pda a))) (\<lambda>_.
     res_bind (ok_or (pubkey_from_str env (destination_address message))
                (GatewayE GatewayError.InvalidDestinationAddress)) (\<lambda>dest.
     Inr (emit_gw (MessageExecutedEvent cid dest (payload_hash message) (chain (cc_id message))
              (cc_id_id (cc_id message)) (source_address message) (destination_chain message))
          (put_gw incoming (MessageAcc (im\<lparr>im_status := status_executed\<rparr>)) st)))))))))))))"

section \<open>\<open>rotate_signers.rs\<close>\<close>

record RotateSigners =
  rs_gateway_root_pda :: account_info
  rs_verification_session_account :: account_info
  rs_verifier_set_tracker_pda :: account_info
  rs_new_verifier_set_tracker :: account_info
  rs_payer :: account_info
  rs_system_program :: account_info
  rs_operator :: "account_info option"

text \<open>\<open>checked_sub(..).expect(..)\<close> panics when the clock is behind the last rotation.\<close>

definition enough_time_till_next_rotation :: "u64 \<Rightarrow> GatewayConfig \<Rightarrow> bool result" where
  "enough_time_till_next_rotation current_time config =
     res_bind (ok_or (checked_sub current_time (last_rotation_timestamp config))
        (Panic ''Current time minus rotate signers last successful operation time should not underflow''))
       (\<lambda>secs_since_last_rotation.
     Inr (minimum_rotation_delay config \<le> secs_since_last_rotation))"

definition enforce_rotation_delay :: "account_info option \<Rightarrow> GatewayConfig \<Rightarrow> bool" where
  "enforce_rotation_delay operator config =
     (case operator of
        None \<Rightarrow> True
      | Some op \<Rightarrow> \<not> (ai_key op = gc_operator config \<and> ai_signer op))"

definition rotate_signers ::
    "env \<Rightarrow> ledger_view \<Rightarrow> RotateSigners \<Rightarrow> hash \<Rightarrow> gateway_state \<Rightarrow> gateway_state result" where
  "rotate_signers env view a new_root st =
     (let root = ai_key (rs_gateway_root_pda a); ses = ai_key (rs_verification_session_account a);
          trk = ai_key (rs_verifier_set_tracker_pda a);
          new_trk = ai_key (rs_new_verifier_set_tracker a) in
     res_bind (check_mut (rs_gateway_root_pda a)) (\<lambda>_.
     res_bind (load_gateway_config env st root) (\<lambda>config.
     res_bind (load_acc session_of (gw_accounts st) ses) (\<lambda>session.
     res_bind (check_seeds env (session_seeds new_root RotateSigners (session_hash session))
                (sd_bump session) (gateway_id env) ses) (\<lambda>_.
     res_bind (require (is_valid session) (GatewayE SigningSessionNotValid)) (\<lambda>_.
     res_bind (load_acc tracker_of (gw_accounts st) trk) (\<lambda>tracker.
     res_bind (check_seeds env (tracker_seeds (session_hash session)) (vt_bump tracker)
                (gateway_id env) trk) (\<lambda>_.
     res_bind (require (vt_verifier_set_hash tracker = session_hash session)
                (GatewayE InvalidVerifierSetTrackerProvided)) (\<lambda>_.
     res_bind (require (vt_verifier_set_hash tracker \<noteq> new_root)
                (GatewayE DuplicateVerifierSetRotation)) (\<lambda>_.
     res_bind (check_seeds_canonical env (tracker_seeds new_root) (gateway_id env) new_trk) (\<lambda>new_bump.
     res_bind (check_vacant (gw_accounts st) new_trk) (\<lambda>_.
     res_bind (check_signer (rs_payer a)) (\<lambda>_.
     res_bind (check_mut (rs_payer a)) (\<lambda>_.
     res_bind (check_program (rs_system_program a) (system_program_id env)) (\<lambda>_.
     res_bind (case rs_operator a of None \<Rightarrow> Inr () | Some op \<Rightarrow> check_signer op) (\<lambda>_.
     res_bind (assert_valid_epoch config (vt_epoch tracker)) (\<lambda>_.
     let enforce = enforce_rotation_delay (rs_operator a) config;
         is_latest = (current_epoch config = vt_epoch tracker) in
     res_bind (require (\<not> (enforce \<and> \<not> is_latest))
                (GatewayE ProofNotSignedByLatestVerifierSet)) (\<lambda>_.
     res_bind (u64_of_i64 (unix_timestamp view) (ProgramE ProgramError.ArithmeticOverflow)) (\<lambda>current_time.
     res_bind (if enforce then enough_time_till_next_rotation current_time config else Inr True) (\<lambda>enough.
     res_bind (require enough (GatewayE RotationCooldownNotDone)) (\<lambda>_.
     res_bind (ok_or (u256_checked_add (current_epoch config) u256_one)
                (GatewayE EpochCalculationOverflow)) (\<lambda>new_epoch.
     Inr (emit_gw (VerifierSetRotatedEvent new_epoch new_root)
          (put_gw new_trk (TrackerAcc
             \<lparr>vt_bump = new_bump, vt_epoch = new_epoch, vt_verifier_set_hash = new_root\<rparr>)
          (put_gw root (ConfigAcc (config\<lparr>last_rotation_timestamp := current_time,
             current_epoch := new_epoch\<rparr>)) st)))))))))))))))))))))))))"

section \<open>\<open>call_contract.rs\<close>\<close>

record CallContract =
  cc_caller :: account_info
  cc_signing_pda :: "account_info option"
  cc_gateway_root_pda :: account_info

definition call_contract ::
    "env \<Rightarrow> CallContract \<Rightarrow> string \<Rightarrow> string \<Rightarrow> bytes \<Rightarrow> u8 \<Rightarrow> gateway_state \<Rightarrow> gateway_state result" where
  "call_contract env a dest_chain dest_address payload signing_bump st =
     res_bind (case cc_signing_pda a of None \<Rightarrow> Inr () | Some pda \<Rightarrow> check_signer pda) (\<lambda>_.
     res_bind (load_gateway_config env st (ai_key (cc_gateway_root_pda a))) (\<lambda>_.
     res_bind (if ai_signer (cc_caller a) then Inr ()
       else res_bind (CallContractSigner_create_pda env signing_bump (ai_key (cc_caller a))) (\<lambda>expected.
            res_bind (ok_or (cc_signing_pda a) (GatewayE InvalidSigningPDA)) (\<lambda>pda.
            require (ai_key pda = expected) (GatewayE InvalidSigningPDA)))) (\<lambda>_.
     Inr (emit_gw (CallContractEvent (ai_key (cc_caller a)) (keccak env payload) dest_chain
           dest_address payload) st))))"

section \<open>\<open>transfer_operatorship.rs\<close>\<close>

record TransferOperatorship =
  to_gateway_root_pda :: account_info
  to_operator_or_upgrade_authority :: account_info
  to_program_data :: account_info
  to_new_operator :: account_info

definition transfer_operatorship ::
    "env \<Rightarrow> ledger_view \<Rightarrow> TransferOperatorship \<Rightarrow> gateway_state \<Rightarrow> gateway_state result" where
  "transfer_operatorship env view a st =
     (let root = ai_key (to_gateway_root_pda a);
          who = ai_key (to_operator_or_upgrade_authority a) in
     res_bind (check_mut (to_gateway_root_pda a)) (\<lambda>_.
     res_bind (load_gateway_config env st root) (\<lambda>config.
     res_bind (check_signer (to_operator_or_upgrade_authority a)) (\<lambda>_.
     res_bind (load_program_data env view (gateway_id env) (ai_key (to_program_data a))) (\<lambda>authority.
     res_bind (require (gc_operator config = who \<or> authority = Some who)
                (GatewayE InvalidOperatorOrAuthorityAccount)) (\<lambda>_.
     res_bind (require (ai_key (to_new_operator a) \<noteq> gc_operator config)
                (ProgramE ProgramError.InvalidInstructionData)) (\<lambda>_.
     Inr (emit_gw (OperatorshipTransferredEvent (ai_key (to_new_operator a)))
          (put_gw root (ConfigAcc (config\<lparr>gc_operator := ai_key (to_new_operator a)\<rparr>)) st)))))))))"

section \<open>The program as a step relation\<close>

text \<open>
  The instruction data, as \<open>lib.rs\<close> dispatches it; the roots are \<open>[u8; 32]\<close> in the source.
\<close>

datatype gateway_instruction =
    CallContractIx CallContract string string bytes u8
  | InitializeConfigIx InitializeConfig InitializeConfigParams
  | InitializePayloadVerificationSessionIx InitializePayloadVerificationSession hash PayloadType
  | VerifySignatureIx VerifySignature hash SigningVerifierSetInfo
  | ApproveMessageIx ApproveMessage MerklizedMessage hash
  | ValidateMessageIx ValidateMessage Message
  | RotateSignersIx RotateSigners hash
  | TransferOperatorshipIx TransferOperatorship

fun gateway_entry ::
    "env \<Rightarrow> ledger_view \<Rightarrow> gateway_instruction \<Rightarrow> gateway_state \<Rightarrow> gateway_state result" where
  "gateway_entry env view (CallContractIx a dc da p b) st = call_contract env a dc da p b st"
| "gateway_entry env view (InitializeConfigIx a params) st = initialize_config env view a params st"
| "gateway_entry env view (InitializePayloadVerificationSessionIx a root pt) st =
     initialize_payload_verification_session env a root pt st"
| "gateway_entry env view (VerifySignatureIx a root i) st = verify_signature env a root i st"
| "gateway_entry env view (ApproveMessageIx a mm root) st = approve_message env a mm root st"
| "gateway_entry env view (ValidateMessageIx a m) st = validate_message env a m st"
| "gateway_entry env view (RotateSignersIx a root) st = rotate_signers env view a root st"
| "gateway_entry env view (TransferOperatorshipIx a) st = transfer_operatorship env view a st"

text \<open>The array lengths the instruction decoder guarantees.\<close>

fun gateway_ix_wf :: "gateway_instruction \<Rightarrow> bool" where
  "gateway_ix_wf (InitializeConfigIx a params) = (length (icp_initial_verifier_set_hash params) = 32)"
| "gateway_ix_wf (InitializePayloadVerificationSessionIx a root pt) = (length root = 32)"
| "gateway_ix_wf (VerifySignatureIx a root i) = (length root = 32)"
| "gateway_ix_wf (ApproveMessageIx a mm root) = (length root = 32)"
| "gateway_ix_wf (RotateSignersIx a root) = (length root = 32)"
| "gateway_ix_wf _ = True"

inductive gateway_step :: "env \<Rightarrow> gateway_state \<Rightarrow> gateway_state \<Rightarrow> bool" for env where
  gateway_ix: "gateway_ix_wf ix \<Longrightarrow> gateway_entry env view ix st = Inr st' \<Longrightarrow> gateway_step env st st'"

inductive_cases gateway_stepE: "gateway_step env st st'"

abbreviation gateway_reachable :: "env \<Rightarrow> gateway_state \<Rightarrow> bool" where
  "gateway_reachable env st \<equiv> runs (gateway_step env) gateway_empty st"

end
