(* ===== verification/Gateway_Inv.thy ===== *)
theory Gateway_Inv
  imports Gateway
begin

text \<open>
  The invariants of the gateway's accounts and event log, and what they give: who may approve,
  execute and rotate, and that nothing happens twice. First each instruction is inverted once;
  the invariants are then conjuncts over accounts and events, kept by every instruction.
\<close>

section \<open>Inversion of the instructions\<close>

lemmas gw_load = gcfg.load_Inr gtrk.load_Inr gses.load_Inr gmsg.load_Inr

lemma load_gateway_config_Inr [res_inv]:
  "load_gateway_config env st k = Inr c \<longleftrightarrow> gw_accounts st k = Some (ConfigAcc c) \<and>
     create_program_address env (gateway_config_seeds @ [[gc_bump c]]) (gateway_id env) = Some k"
  by (auto simp: load_gateway_config_def res_inv gw_load)

lemma load_program_data_Inr [res_inv]:
  "load_program_data env view pid k = Inr authority \<longleftrightarrow>
     (\<exists>b. try_find_program_address env [pid] (loader_upgradeable_id env) = Some (k, b)) \<and>
     program_data_authority view k = Some authority"
  by (auto simp: load_program_data_def res_inv)

lemma assert_valid_epoch_Inr:
  "assert_valid_epoch c e = Inr u \<longleftrightarrow> u256_val e \<le> u256_val (current_epoch c) \<and>
     u256_val (current_epoch c) - u256_val e < u256_val (previous_verifier_set_retention c)"
  using u256_val_bound [of "current_epoch c"]
  by (auto simp: assert_valid_epoch_def res_inv u256_checked_sub_def less_eq_U256_def u256_le_def u256_val_of_val)

lemma initialize_configE:
  assumes "initialize_config env view a params st = Inr st'"
  obtains root trk root_bump trk_bump b where
    "root = ai_key (ic_gateway_root_pda a)" "trk = ai_key (ic_verifier_set_tracker_pda a)"
    "try_find_program_address env [gateway_id env] (loader_upgradeable_id env)
       = Some (ai_key (ic_program_data a), b)"
    "program_data_authority view (ai_key (ic_program_data a)) = Some (Some (ai_key (ic_upgrade_authority a)))"
    "ai_signer (ic_upgrade_authority a)"
    "try_find_program_address env gateway_config_seeds (gateway_id env) = Some (root, root_bump)"
    "gw_accounts st root = None"
    "try_find_program_address env (tracker_seeds (icp_initial_verifier_set_hash params)) (gateway_id env)
       = Some (trk, trk_bump)"
    "trk \<noteq> root" "gw_accounts st trk = None" "0 \<le> sint (unix_timestamp view)"
    "st' = put_gw trk (TrackerAcc
            \<lparr>vt_bump = trk_bump, vt_epoch = u256_from_u64 1,
             vt_verifier_set_hash = icp_initial_verifier_set_hash params\<rparr>)
          (put_gw root (ConfigAcc
            \<lparr>current_epoch = u256_from_u64 1,
             previous_verifier_set_retention = icp_previous_verifier_retention params,
             minimum_rotation_delay = icp_minimum_rotation_delay params,
             last_rotation_timestamp = unix_timestamp view, gc_operator = icp_operator params,
             domain_separator = icp_domain_separator params, gc_bump = root_bump\<rparr>) st)"
  using assms that by (auto simp: initialize_config_def Let_def res_inv)

lemma initialize_sessionE:
  assumes "initialize_payload_verification_session env a root pt st = Inr st'"
  obtains ses rk kt config tracker b b' where
    "ses = ai_key (ips_verification_session_account a)"
    "gw_accounts st rk = Some (ConfigAcc config)"
    "gw_accounts st kt = Some (TrackerAcc tracker)"
    "try_find_program_address env (session_seeds root pt (vt_verifier_set_hash tracker)) (gateway_id env)
       = Some (ses, b)"
    "gw_accounts st ses = None"
    "try_find_program_address env (tracker_seeds (vt_verifier_set_hash tracker)) (gateway_id env)
       = Some (kt, b')"
    "assert_valid_epoch config (vt_epoch tracker) = Inr ()"
    "st' = put_gw ses (SessionAcc (session_new
        (default_signature_verification\<lparr>signing_verifier_set_hash := vt_verifier_set_hash tracker\<rparr>) b)) st"
  using assms that
  by (auto simp: initialize_payload_verification_session_def Let_def res_inv gw_load)

lemma verify_signatureE:
  assumes "verify_signature env a root i st = Inr st'"
  obtains rk ses kt config session tracker session' b where
    "rk = ai_key (vs_gateway_root_pda a)" "ses = ai_key (vs_verification_session_account a)"
    "kt = ai_key (vs_verifier_set_tracker_pda a)"
    "gw_accounts st rk = Some (ConfigAcc config)"
    "domain_separator config = vl_domain_separator (vi_leaf i)"
    "gw_accounts st kt = Some (TrackerAcc tracker)"
    "assert_valid_epoch config (vt_epoch tracker) = Inr ()"
    "gw_accounts st ses = Some (SessionAcc session)"
    "create_program_address env (session_seeds root (vi_payload_type i) (session_hash session)
       @ [[sd_bump session]]) (gateway_id env) = Some ses"
    "try_find_program_address env (tracker_seeds (vt_verifier_set_hash tracker)) (gateway_id env) = Some (kt, b)"
    "process_signature env session root (vt_verifier_set_hash tracker) i = Inr session'"
    "st' = put_gw ses (SessionAcc session') st"
  using assms that by (auto simp: verify_signature_def Let_def res_inv gw_load)

lemma approve_messageE:
  assumes "approve_message env a mm root st = Inr st'"
  obtains rk ses k config session b p sb where
    "ses = ai_key (am_verification_session_account a)" "k = ai_key (am_incoming_message_pda a)"
    "gw_accounts st rk = Some (ConfigAcc config)"
    "gw_accounts st ses = Some (SessionAcc session)"
    "create_program_address env (session_seeds root ApproveMessages (session_hash session)
       @ [[sd_bump session]]) (gateway_id env) = Some ses"
    "is_valid session"
    "try_find_program_address env (incoming_message_seeds (command_id env (ml_message (mm_leaf mm))))
       (gateway_id env) = Some (k, b)"
    "gw_accounts st k = None"
    "ml_domain_separator (mm_leaf mm) = domain_separator config"
    "merkle_proof_from_bytes env (mm_proof mm) = Some p"
    "merkle_proof_verify env (Hasher env) p root [unat (ml_position (mm_leaf mm))]
       [message_leaf_hash env (mm_leaf mm)] (unat (ml_set_size (mm_leaf mm)))"
    "destination_signing_bump env (ml_message (mm_leaf mm)) = Inr sb"
    "st' = emit_gw (MessageApprovedEvent (command_id env (ml_message (mm_leaf mm)))
              (destination_address (ml_message (mm_leaf mm))) (payload_hash (ml_message (mm_leaf mm)))
              (chain (cc_id (ml_message (mm_leaf mm)))) (cc_id_id (cc_id (ml_message (mm_leaf mm))))
              (source_address (ml_message (mm_leaf mm))) (destination_chain (ml_message (mm_leaf mm))))
          (put_gw k (MessageAcc
            \<lparr>im_bump = b, signing_pda_bump = sb, im_status = status_approved,
             im_message_hash = message_hash env (ml_message (mm_leaf mm)),
             im_payload_hash = payload_hash (ml_message (mm_leaf mm))\<rparr>) st)"
  using assms that by (auto simp: approve_message_def Let_def res_inv gw_load)

lemma validate_messageE:
  assumes "validate_message env a m st = Inr st'"
  obtains k im dest where
    "k = ai_key (vm_incoming_message_pda a)"
    "gw_accounts st k = Some (MessageAcc im)"
    "create_program_address env (incoming_message_seeds (command_id env m) @ [[im_bump im]])
       (gateway_id env) = Some k"
    "is_approved (im_status im)" "im_message_hash im = message_hash env m"
    "ai_signer (vm_caller a)" "pubkey_from_str env (destination_address m) = Some dest"
    "create_program_address env [str_bytes ''gtw-validate-msg'', command_id env m, [signing_pda_bump im]] dest
       = Some (ai_key (vm_caller a))"
    "st' = emit_gw (MessageExecutedEvent (command_id env m) dest (payload_hash m) (chain (cc_id m))
              (cc_id_id (cc_id m)) (source_address m) (destination_chain m))
          (put_gw k (MessageAcc (im\<lparr>im_status := status_executed\<rparr>)) st)"
  using assms that
  by (auto simp: validate_message_def validate_caller_pda_def ValidateMessageSigner_create_pda_def
      Let_def res_inv gw_load)

lemma rotate_signersE:
  assumes "rotate_signers env view a new_root st = Inr st'"
  obtains root ses kt nk config session tracker new_bump new_epoch where
    "root = ai_key (rs_gateway_root_pda a)" "ses = ai_key (rs_verification_session_account a)"
    "kt = ai_key (rs_verifier_set_tracker_pda a)" "nk = ai_key (rs_new_verifier_set_tracker a)"
    "gw_accounts st root = Some (ConfigAcc config)"
    "gw_accounts st ses = Some (SessionAcc session)"
    "create_program_address env (session_seeds new_root RotateSigners (session_hash session)
       @ [[sd_bump session]]) (gateway_id env) = Some ses"
    "is_valid session"
    "gw_accounts st kt = Some (TrackerAcc tracker)"
    "vt_verifier_set_hash tracker = session_hash session" "vt_verifier_set_hash tracker \<noteq> new_root"
    "create_program_address env (tracker_seeds (session_hash session) @ [[vt_bump tracker]]) (gateway_id env) = Some kt"
    "try_find_program_address env (tracker_seeds new_root) (gateway_id env) = Some (nk, new_bump)"
    "gw_accounts st nk = None"
    "assert_valid_epoch config (vt_epoch tracker) = Inr ()"
    "enforce_rotation_delay (rs_operator a) config \<Longrightarrow> current_epoch config = vt_epoch tracker"
    "enforce_rotation_delay (rs_operator a) config \<Longrightarrow>
       enough_time_till_next_rotation (unix_timestamp view) config = Inr True"
    "0 \<le> sint (unix_timestamp view)"
    "u256_checked_add (current_epoch config) u256_one = Some new_epoch"
    "st' = emit_gw (VerifierSetRotatedEvent new_epoch new_root)
          (put_gw nk (TrackerAcc
             \<lparr>vt_bump = new_bump, vt_epoch = new_epoch, vt_verifier_set_hash = new_root\<rparr>)
          (put_gw root (ConfigAcc (config\<lparr>last_rotation_timestamp := unix_timestamp view,
             current_epoch := new_epoch\<rparr>)) st))"
  using assms unfolding rotate_signers_def Let_def
  apply (simp only: res_inv gw_load sum.inject)
  apply (elim exE conjE)
  apply (rule that [OF refl refl refl refl])
                apply assumption+
     apply (auto simp: res_inv split: if_splits)
  done

lemma call_contractE:
  assumes "call_contract env a dc da p b st = Inr st'"
  obtains "ai_signer (cc_caller a) \<or>
      (\<exists>pda. cc_signing_pda a = Some pda \<and> ai_signer pda \<and>
         create_program_address env [CALL_CONTRACT_SEED, [b]] (ai_key (cc_caller a)) = Some (ai_key pda))"
    "st' = emit_gw (CallContractEvent (ai_key (cc_caller a)) (keccak env p) dc da p) st"
  using assms that
  by (auto simp: call_contract_def CallContractSigner_create_pda_def res_inv split: if_splits option.splits)

lemma transfer_operatorshipE:
  assumes "transfer_operatorship env view a st = Inr st'"
  obtains root config b where
    "root = ai_key (to_gateway_root_pda a)" "gw_accounts st root = Some (ConfigAcc config)"
    "ai_signer (to_operator_or_upgrade_authority a)"
    "try_find_program_address env [gateway_id env] (loader_upgradeable_id env)
       = Some (ai_key (to_program_data a), b)"
    "gc_operator config = ai_key (to_operator_or_upgrade_authority a) \<or>
     program_data_authority view (ai_key (to_program_data a))
       = Some (Some (ai_key (to_operator_or_upgrade_authority a)))"
    "ai_key (to_new_operator a) \<noteq> gc_operator config"
    "st' = emit_gw (OperatorshipTransferredEvent (ai_key (to_new_operator a)))
          (put_gw root (ConfigAcc (config\<lparr>gc_operator := ai_key (to_new_operator a)\<rparr>)) st)"
  using assms that by (auto simp: transfer_operatorship_def Let_def res_inv gw_load)

section \<open>Invariants of the accounts\<close>

text \<open>
  Two seed lists that make the same address have the same concatenation: the documented
  collision resistance of program-derived addresses.
\<close>

definition pda_inj :: "env \<Rightarrow> bool" where
  "pda_inj env \<longleftrightarrow> (\<forall>s s' pid k. create_program_address env s pid = Some k \<longrightarrow>
     create_program_address env s' pid = Some k \<longrightarrow> concat s = concat s')"

lemma pda_injD:
  "pda_inj env \<Longrightarrow> create_program_address env s pid = Some k \<Longrightarrow>
     create_program_address env s' pid = Some k \<Longrightarrow> concat s = concat s'"
  unfolding pda_inj_def by blast

abbreviation config_at :: "gateway_state \<Rightarrow> pubkey \<Rightarrow> GatewayConfig \<Rightarrow> bool" where
  "config_at st k c \<equiv> gw_accounts st k = Some (ConfigAcc c)"

abbreviation tracker_at :: "gateway_state \<Rightarrow> pubkey \<Rightarrow> VerifierSetTracker \<Rightarrow> bool" where
  "tracker_at st k t \<equiv> gw_accounts st k = Some (TrackerAcc t)"

abbreviation session_at :: "gateway_state \<Rightarrow> pubkey \<Rightarrow> SignatureVerificationSessionData \<Rightarrow> bool" where
  "session_at st k s \<equiv> gw_accounts st k = Some (SessionAcc s)"

abbreviation message_at :: "gateway_state \<Rightarrow> pubkey \<Rightarrow> IncomingMessage \<Rightarrow> bool" where
  "message_at st k m \<equiv> gw_accounts st k = Some (MessageAcc m)"

definition config_inv :: "env \<Rightarrow> gateway_state \<Rightarrow> bool" where
  "config_inv env st \<longleftrightarrow> (\<forall>k c. config_at st k c \<longrightarrow>
     try_find_program_address env gateway_config_seeds (gateway_id env) = Some (k, gc_bump c))"

lemma config_inv_unique:
  "config_inv env st \<Longrightarrow> config_at st k c \<Longrightarrow> config_at st k' c' \<Longrightarrow> k' = k \<and> c' = c"
  unfolding config_inv_def
  by (metis gateway_account.inject(1) option.inject prod.inject)

lemma gateway_step_cases [consumes 1, case_names call init session verify approve validate rotate transfer]:
  assumes "gateway_step env st st'"
    and "\<And>a dc da p b. call_contract env a dc da p b st = Inr st' \<Longrightarrow> P"
    and "\<And>view a params. length (icp_initial_verifier_set_hash params) = 32 \<Longrightarrow>
           initialize_config env view a params st = Inr st' \<Longrightarrow> P"
    and "\<And>a root pt. length root = 32 \<Longrightarrow>
           initialize_payload_verification_session env a root pt st = Inr st' \<Longrightarrow> P"
    and "\<And>a root i. length root = 32 \<Longrightarrow> verify_signature env a root i st = Inr st' \<Longrightarrow> P"
    and "\<And>a mm root. length root = 32 \<Longrightarrow> approve_message env a mm root st = Inr st' \<Longrightarrow> P"
    and "\<And>a m. validate_message env a m st = Inr st' \<Longrightarrow> P"
    and "\<And>view a root. length root = 32 \<Longrightarrow> rotate_signers env view a root st = Inr st' \<Longrightarrow> P"
    and "\<And>view a. transfer_operatorship env view a st = Inr st' \<Longrightarrow> P"
  shows P
  using assms(1)
proof (rule gateway_stepE)
  fix ix view
  assume wf: "gateway_ix_wf ix" and "gateway_entry env view ix st = Inr st'"
  with assms(2-) show P by (cases ix) auto
qed

lemmas gateway_elims = call_contractE initialize_configE initialize_sessionE verify_signatureE
  approve_messageE validate_messageE rotate_signersE transfer_operatorshipE

lemma config_invD:
  "config_inv env st \<Longrightarrow> config_at st k c \<Longrightarrow>
     try_find_program_address env gateway_config_seeds (gateway_id env) = Some (k, gc_bump c)"
  by (simp add: config_inv_def)

lemma config_inv_emit [simp]: "config_inv env (emit_gw e st) = config_inv env st"
  by (simp add: config_inv_def)

lemma config_inv_put:
  "config_inv env st \<Longrightarrow> (\<And>c. a = ConfigAcc c \<Longrightarrow>
       try_find_program_address env gateway_config_seeds (gateway_id env) = Some (k, gc_bump c)) \<Longrightarrow>
     config_inv env (put_gw k a st)"
  by (auto simp: config_inv_def split: if_splits)

lemma config_inv_step:
  assumes "config_inv env st" and "gateway_step env st st'"
  shows "config_inv env st'"
  using assms(2) assms(1)
  by (cases rule: gateway_step_cases)
    (auto elim!: gateway_elims intro!: config_inv_put simp: config_invD)

interpretation gw_config: step_invariant "gateway_step env" "config_inv env" for env
  by unfold_locales (rule config_inv_step)

section \<open>Trackers and epochs\<close>

text \<open>
  Trackers stand at their canonical address, their epochs are the numbers from 1 to the current
  epoch, and each epoch has one tracker.
\<close>

definition tracker_inv :: "env \<Rightarrow> gateway_state \<Rightarrow> bool" where
  "tracker_inv env st \<longleftrightarrow>
     (\<forall>k t. tracker_at st k t \<longrightarrow> length (vt_verifier_set_hash t) = 32 \<and>
        try_find_program_address env (tracker_seeds (vt_verifier_set_hash t)) (gateway_id env) = Some (k, vt_bump t)) \<and>
     (\<forall>k t. tracker_at st k t \<longrightarrow> (\<exists>ck c. config_at st ck c \<and>
        1 \<le> u256_val (vt_epoch t) \<and> u256_val (vt_epoch t) \<le> u256_val (current_epoch c))) \<and>
     (\<forall>k t k' t'. tracker_at st k t \<longrightarrow> tracker_at st k' t' \<longrightarrow> vt_epoch t = vt_epoch t' \<longrightarrow> k = k') \<and>
     (\<forall>ck c e. config_at st ck c \<longrightarrow> 1 \<le> e \<longrightarrow> e \<le> u256_val (current_epoch c) \<longrightarrow>
        (\<exists>k t. tracker_at st k t \<and> u256_val (vt_epoch t) = e))"

lemma tracker_invD:
  assumes "tracker_inv env st"
  shows "tracker_at st k t \<Longrightarrow> length (vt_verifier_set_hash t) = 32"
    and "tracker_at st k t \<Longrightarrow> try_find_program_address env (tracker_seeds (vt_verifier_set_hash t))
      (gateway_id env) = Some (k, vt_bump t)"
    and "tracker_at st k t \<Longrightarrow> \<exists>ck c. config_at st ck c \<and>
      1 \<le> u256_val (vt_epoch t) \<and> u256_val (vt_epoch t) \<le> u256_val (current_epoch c)"
    and "tracker_at st k t \<Longrightarrow> tracker_at st k' t' \<Longrightarrow> vt_epoch t = vt_epoch t' \<Longrightarrow> k = k'"
    and "config_at st ck c \<Longrightarrow> 1 \<le> e \<Longrightarrow> e \<le> u256_val (current_epoch c) \<Longrightarrow>
      \<exists>k t. tracker_at st k t \<and> u256_val (vt_epoch t) = e"
  using assms unfolding tracker_inv_def by blast+

text \<open>A step that changes neither trackers nor the current epoch of the configuration.\<close>

lemma tracker_inv_frame:
  assumes "tracker_inv env st"
    and "\<And>k t. tracker_at st' k t \<longleftrightarrow> tracker_at st k t"
    and "\<And>k c. config_at st k c \<Longrightarrow> \<exists>c'. config_at st' k c' \<and> current_epoch c' = current_epoch c"
    and "\<And>k c'. config_at st' k c' \<Longrightarrow> \<exists>c. config_at st k c \<and> current_epoch c' = current_epoch c"
  shows "tracker_inv env st'"
  unfolding tracker_inv_def assms(2)
proof (intro conjI allI impI)
  fix k t assume t: "tracker_at st k t"
  show "length (vt_verifier_set_hash t) = 32"
    and "try_find_program_address env (tracker_seeds (vt_verifier_set_hash t)) (gateway_id env) = Some (k, vt_bump t)"
    using tracker_invD [OF assms(1)] t by blast+
  show "\<exists>ck c. config_at st' ck c \<and> 1 \<le> u256_val (vt_epoch t) \<and> u256_val (vt_epoch t) \<le> u256_val (current_epoch c)"
    using tracker_invD(3) [OF assms(1) t] assms(3) by metis
  show "k = k'" if "tracker_at st k' t'" "vt_epoch t = vt_epoch t'" for k' t'
    using tracker_invD(4) [OF assms(1) t] that by blast
next
  fix ck c e assume "config_at st' ck c" "1 \<le> e" "e \<le> u256_val (current_epoch c)"
  then show "\<exists>k t. tracker_at st k t \<and> u256_val (vt_epoch t) = e"
    using tracker_invD(5) [OF assms(1)] assms(4) by metis
qed

lemma tracker_inv_rotate:
  assumes inv: "tracker_inv env st" "config_inv env st" and c: "config_at st root c"
    and nk: "gw_accounts st nk = None"
    and find: "try_find_program_address env (tracker_seeds h) (gateway_id env) = Some (nk, b)"
    and len: "length h = 32" and add: "u256_checked_add (current_epoch c) u256_one = Some e"
    and epoch: "current_epoch c' = e"
  shows "tracker_inv env (put_gw nk (TrackerAcc \<lparr>vt_bump = b, vt_epoch = e, vt_verifier_set_hash = h\<rparr>)
    (put_gw root (ConfigAcc c') st))" (is "tracker_inv env ?st")
proof -
  have e: "u256_val e = Suc (u256_val (current_epoch c))"
    using add by (simp add: arith_ops)
  have ne: "nk \<noteq> root" using c nk by auto
  have tr: "tracker_at ?st k t \<longleftrightarrow> (if k = nk then t = \<lparr>vt_bump = b, vt_epoch = e, vt_verifier_set_hash = h\<rparr>
      else tracker_at st k t)" for k t
    using c ne by auto
  have only: "k \<noteq> root \<Longrightarrow> \<not> config_at st k d" for k d
    using config_inv_unique [OF inv(2) c] by blast
  have cf: "config_at ?st k d \<longleftrightarrow> k = root \<and> d = c'" for k d
    using ne only [of k d] by (cases "k = nk"; cases "k = root") auto
  have le: "u256_val (vt_epoch t) \<le> u256_val (current_epoch c) \<and> 1 \<le> u256_val (vt_epoch t)"
    if "tracker_at st k t" for k t
    using tracker_invD(3) [OF inv(1) that] config_inv_unique [OF inv(2) c] by blast
  show ?thesis
    unfolding tracker_inv_def tr cf
  proof (intro conjI allI impI)
    fix k t assume t: "if k = nk then t = \<lparr>vt_bump = b, vt_epoch = e, vt_verifier_set_hash = h\<rparr> else tracker_at st k t"
    then show "length (vt_verifier_set_hash t) = 32"
      and "try_find_program_address env (tracker_seeds (vt_verifier_set_hash t)) (gateway_id env) = Some (k, vt_bump t)"
      using tracker_invD(1,2) [OF inv(1)] len find by (auto split: if_splits)
    show "\<exists>ck d. (ck = root \<and> d = c') \<and> 1 \<le> u256_val (vt_epoch t) \<and>
        u256_val (vt_epoch t) \<le> u256_val (current_epoch d)"
    proof (cases "k = nk")
      case True
      with t e epoch show ?thesis by simp
    next
      case False
      with t have "tracker_at st k t" by simp
      from le [OF this] e epoch show ?thesis by simp
    qed
    fix k' t'
    assume t': "if k' = nk then t' = \<lparr>vt_bump = b, vt_epoch = e, vt_verifier_set_hash = h\<rparr> else tracker_at st k' t'"
      and eq: "vt_epoch t = vt_epoch t'"
    have "u256_val (vt_epoch t) \<le> u256_val (current_epoch c) \<longleftrightarrow> k \<noteq> nk"
      and "u256_val (vt_epoch t') \<le> u256_val (current_epoch c) \<longleftrightarrow> k' \<noteq> nk"
      using t t' le e by (auto split: if_splits)
    with eq have same: "k = nk \<longleftrightarrow> k' = nk" by simp
    show "k = k'"
    proof (cases "k = nk")
      case True
      with same show ?thesis by simp
    next
      case False
      with same t t' have "tracker_at st k t" "tracker_at st k' t'" by simp_all
      then show ?thesis using eq by (rule tracker_invD(4) [OF inv(1)])
    qed
  next
    fix ck d n assume "ck = root \<and> d = c'" "1 \<le> n" "n \<le> u256_val (current_epoch d)"
    then have "n = u256_val e \<or> n \<le> u256_val (current_epoch c)"
      using e epoch by auto
    then show "\<exists>k t. (if k = nk then t = \<lparr>vt_bump = b, vt_epoch = e, vt_verifier_set_hash = h\<rparr> else tracker_at st k t)
        \<and> u256_val (vt_epoch t) = n"
    proof
      assume "n = u256_val e"
      then show ?thesis
        by (intro exI [of _ nk] exI [of _ "\<lparr>vt_bump = b, vt_epoch = e, vt_verifier_set_hash = h\<rparr>"]) simp
    next
      assume "n \<le> u256_val (current_epoch c)"
      then obtain k t where "tracker_at st k t" "u256_val (vt_epoch t) = n"
        using tracker_invD(5) [OF inv(1) c \<open>1 \<le> n\<close>] by blast
      moreover from this nk have "k \<noteq> nk" by auto
      ultimately show ?thesis by auto
    qed
  qed
qed

lemma tracker_inv_init:
  assumes inv: "tracker_inv env st" "config_inv env st"
    and root: "try_find_program_address env gateway_config_seeds (gateway_id env) = Some (root, rb)"
    and vac: "gw_accounts st root = None"
    and find: "try_find_program_address env (tracker_seeds (vt_verifier_set_hash t)) (gateway_id env)
      = Some (k, vt_bump t)"
    and len: "length (vt_verifier_set_hash t) = 32" and ne: "k \<noteq> root"
    and e: "vt_epoch t = u256_from_u64 1" "current_epoch c = u256_from_u64 1"
  shows "tracker_inv env (put_gw k (TrackerAcc t) (put_gw root (ConfigAcc c) st))" (is "tracker_inv env ?st")
proof -
  have none: "\<not> config_at st ck d" for ck d
    using config_invD [OF inv(2), of ck d] root vac by auto
  then have none': "\<not> tracker_at st k' t'" for k' t'
    using tracker_invD(3) [OF inv(1)] by blast
  have tr: "tracker_at ?st k' t' \<longleftrightarrow> k' = k \<and> t' = t" for k' t'
    using ne none' by auto
  have cf: "config_at ?st k' d \<longleftrightarrow> k' = root \<and> d = c" for k' d
    using ne none by auto
  show ?thesis
    unfolding tracker_inv_def tr cf using find len e
    by (auto intro!: exI [of _ k] exI [of _ t])
qed

lemma tracker_inv_emit [simp]: "tracker_inv env (emit_gw e st) = tracker_inv env st"
  by (simp add: tracker_inv_def)

definition gateway_inv :: "env \<Rightarrow> gateway_state \<Rightarrow> bool" where
  "gateway_inv env st \<longleftrightarrow> config_inv env st \<and> tracker_inv env st"

lemma tracker_inv_step:
  assumes "gateway_inv env st" and "gateway_step env st st'"
  shows "tracker_inv env st'"
proof -
  have inv: "config_inv env st" "tracker_inv env st"
    using assms(1) by (simp_all add: gateway_inv_def)
  show ?thesis
    using assms(2)
  proof (cases rule: gateway_step_cases)
    case (call a dc da p b)
    then show ?thesis using inv by (auto elim!: call_contractE)
  next
    case (init view a params)
    then show ?thesis using inv by (auto elim!: initialize_configE intro!: tracker_inv_init)
  next
    case (session a root pt)
    then show ?thesis using inv(2)
      by (elim initialize_sessionE) (erule tracker_inv_frame; auto split: if_splits)
  next
    case (verify a root i)
    then show ?thesis using inv(2)
      by (elim verify_signatureE) (erule tracker_inv_frame; auto split: if_splits)
  next
    case (approve a mm root)
    then show ?thesis using inv(2)
      by (elim approve_messageE) (erule tracker_inv_frame; auto split: if_splits)
  next
    case (validate a m)
    then show ?thesis using inv(2)
      by (elim validate_messageE) (erule tracker_inv_frame; auto split: if_splits)
  next
    case (rotate view a root)
    then show ?thesis using inv by (auto elim!: rotate_signersE intro!: tracker_inv_rotate)
  next
    case (transfer view a)
    then show ?thesis using inv(2)
      by (elim transfer_operatorshipE) (erule tracker_inv_frame; auto split: if_splits)
  qed
qed

interpretation gw_inv: step_invariant "gateway_step env" "gateway_inv env" for env
proof
  show "gateway_inv env st'" if "gateway_inv env st" "gateway_step env st st'" for st st'
    using that tracker_inv_step [OF that] config_inv_step [of env st st'] by (simp add: gateway_inv_def)
qed

lemma gateway_inv_empty: "gateway_inv env gateway_empty"
  by (simp add: gateway_inv_def config_inv_def tracker_inv_def gateway_empty_def)

lemma gateway_inv_reachable: "gateway_reachable env st \<Longrightarrow> gateway_inv env st"
  by (rule gw_inv.runs_keep [OF _ gateway_inv_empty])

section \<open>Sessions\<close>

text \<open>
  \<open>quorum_signed\<close>: distinct leaves of the verifier set with root \<open>h\<close> signed the payload root for
  this payload type and domain, and their weights reach the quorum.
\<close>

definition infos_for :: "env \<Rightarrow> hash \<Rightarrow> PayloadType \<Rightarrow> hash \<Rightarrow> hash \<Rightarrow> SigningVerifierSetInfo list \<Rightarrow> bool" where
  "infos_for env root pt ds h infos \<longleftrightarrow> distinct (map info_position infos) \<and>
     (\<forall>i \<in> set infos. signature_accepted env root h i \<and> vi_payload_type i = pt \<and>
        vl_domain_separator (vi_leaf i) = ds)"

definition quorum_signed :: "env \<Rightarrow> hash \<Rightarrow> PayloadType \<Rightarrow> hash \<Rightarrow> hash \<Rightarrow> bool" where
  "quorum_signed env root pt ds h \<longleftrightarrow> (\<exists>infos. infos_for env root pt ds h infos \<and> quorum_reached 0 infos)"

definition session_fresh :: "hash \<Rightarrow> u8 \<Rightarrow> SignatureVerificationSessionData" where
  "session_fresh h b = session_new (default_signature_verification\<lparr>signing_verifier_set_hash := h\<rparr>) b"

lemma session_fresh_parts [simp]:
  "session_slots (session_fresh h b) = replicate 32 0" "session_hash (session_fresh h b) = h"
  "sd_bump (session_fresh h b) = b" "session_threshold (session_fresh h b) = 0"
  "threshold_wf (session_fresh h b)" "\<not> is_valid (session_fresh h b)"
proof -
  show wf: "threshold_wf (session_fresh h b)"
    and t: "session_threshold (session_fresh h b) = 0"
    by (simp_all add: session_fresh_def session_new_def default_signature_verification_def threshold_wf_def)
  show "\<not> is_valid (session_fresh h b)"
    using is_valid_threshold [OF wf] t by simp
qed (simp_all add: session_fresh_def session_new_def default_signature_verification_def)

text \<open>How a session account came about: a fresh session, then accepted signatures over one root.\<close>

definition session_history ::
    "env \<Rightarrow> gateway_state \<Rightarrow> pubkey \<Rightarrow> SignatureVerificationSessionData \<Rightarrow> hash \<Rightarrow> PayloadType \<Rightarrow>
     SigningVerifierSetInfo list \<Rightarrow> bool" where
  "session_history env st k s root pt infos \<longleftrightarrow> length root = 32 \<and>
     try_find_program_address env (session_seeds root pt (session_hash s)) (gateway_id env) = Some (k, sd_bump s) \<and>
     process_signatures env root (session_hash s) (session_fresh (session_hash s) (sd_bump s)) infos = Inr s \<and>
     (\<exists>kt t. tracker_at st kt t \<and> vt_verifier_set_hash t = session_hash s) \<and>
     (\<exists>ck c. config_at st ck c \<and>
        (\<forall>i \<in> set infos. vi_payload_type i = pt \<and> vl_domain_separator (vi_leaf i) = domain_separator c))"

definition session_inv :: "env \<Rightarrow> gateway_state \<Rightarrow> bool" where
  "session_inv env st \<longleftrightarrow> (\<forall>k s. session_at st k s \<longrightarrow> (\<exists>root pt infos. session_history env st k s root pt infos))"

text \<open>What every step keeps: trackers, the domain separator, and the events so far.\<close>

definition gateway_le :: "gateway_state \<Rightarrow> gateway_state \<Rightarrow> bool" where
  "gateway_le st st' \<longleftrightarrow>
     (\<forall>k t. tracker_at st k t \<longrightarrow> tracker_at st' k t) \<and>
     (\<forall>k c. config_at st k c \<longrightarrow> (\<exists>c'. config_at st' k c' \<and> domain_separator c' = domain_separator c \<and>
        u256_val (current_epoch c) \<le> u256_val (current_epoch c'))) \<and>
     (\<forall>k m. message_at st k m \<longrightarrow> (\<exists>m'. message_at st' k m' \<and> (m' = m \<or> m' = m\<lparr>im_status := status_executed\<rparr>))) \<and>
     (\<exists>evs. gw_events st' = gw_events st @ evs)"

lemma gateway_le_refl: "gateway_le st st"
  by (auto simp: gateway_le_def)

lemma gateway_le_trans:
  assumes "gateway_le s t" and "gateway_le t u"
  shows "gateway_le s u"
  unfolding gateway_le_def
proof (intro conjI allI impI)
  fix k
  show "tracker_at s k a \<Longrightarrow> tracker_at u k a" for a
    using assms unfolding gateway_le_def by blast
  show "config_at s k c \<Longrightarrow> \<exists>c'. config_at u k c' \<and> domain_separator c' = domain_separator c \<and>
        u256_val (current_epoch c) \<le> u256_val (current_epoch c')" for c
  proof -
    assume "config_at s k c"
    then obtain c1 where c1: "config_at t k c1" "domain_separator c1 = domain_separator c"
        "u256_val (current_epoch c) \<le> u256_val (current_epoch c1)"
      using assms(1) unfolding gateway_le_def by blast
    then obtain c2 where "config_at u k c2" "domain_separator c2 = domain_separator c1"
        "u256_val (current_epoch c1) \<le> u256_val (current_epoch c2)"
      using assms(2) unfolding gateway_le_def by blast
    with c1 show ?thesis by auto
  qed
  show "message_at s k m \<Longrightarrow> \<exists>m'. message_at u k m' \<and> (m' = m \<or> m' = m\<lparr>im_status := status_executed\<rparr>)" for m
  proof -
    assume "message_at s k m"
    then obtain m1 where m1: "message_at t k m1" "m1 = m \<or> m1 = m\<lparr>im_status := status_executed\<rparr>"
      using assms(1) unfolding gateway_le_def by blast
    then obtain m2 where "message_at u k m2" "m2 = m1 \<or> m2 = m1\<lparr>im_status := status_executed\<rparr>"
      using assms(2) unfolding gateway_le_def by blast
    with m1(2) show ?thesis by auto
  qed
  show "\<exists>evs. gw_events u = gw_events s @ evs"
    using assms unfolding gateway_le_def by (metis append_assoc)
qed

lemma gateway_le_emit: "gateway_le st st' \<Longrightarrow> gateway_le st (emit_gw e st')"
  by (auto simp: gateway_le_def)

lemma gateway_le_put_new: "gateway_le st st' \<Longrightarrow> gw_accounts st k = None \<Longrightarrow> gateway_le st (put_gw k a st')"
  by (auto simp: gateway_le_def)

lemma gateway_le_put_config:
  "config_at st k c \<Longrightarrow> domain_separator c' = domain_separator c \<Longrightarrow>
     u256_val (current_epoch c) \<le> u256_val (current_epoch c') \<Longrightarrow> gateway_le st (put_gw k (ConfigAcc c') st)"
  by (auto simp: gateway_le_def)

lemma gateway_le_put_session: "session_at st k s \<Longrightarrow> gateway_le st (put_gw k (SessionAcc s') st)"
  by (auto simp: gateway_le_def)

lemma gateway_le_put_message:
  "message_at st k m \<Longrightarrow> gateway_le st (put_gw k (MessageAcc (m\<lparr>im_status := status_executed\<rparr>)) st)"
  by (auto simp: gateway_le_def)

lemma gateway_step_le:
  assumes "gateway_step env st st'"
  shows "gateway_le st st'"
  using assms
proof (cases rule: gateway_step_cases)
  case (call a dc da p b)
  then show ?thesis by (auto elim!: call_contractE intro!: gateway_le_emit gateway_le_refl)
next
  case (init view a params)
  then show ?thesis by (auto elim!: initialize_configE intro!: gateway_le_put_new gateway_le_refl)
next
  case (session a root pt)
  then show ?thesis by (auto elim!: initialize_sessionE intro!: gateway_le_put_new gateway_le_refl)
next
  case (verify a root i)
  then show ?thesis by (auto elim!: verify_signatureE intro!: gateway_le_put_session)
next
  case (approve a mm root)
  then show ?thesis
    by (auto elim!: approve_messageE intro!: gateway_le_emit gateway_le_put_new gateway_le_refl)
next
  case (validate a m)
  then show ?thesis by (auto elim!: validate_messageE intro!: gateway_le_emit gateway_le_put_message)
next
  case (rotate view a root)
  then show ?thesis
    by (elim rotate_signersE)
      (simp, rule gateway_le_emit, rule gateway_le_put_new, erule gateway_le_put_config;
        simp add: arith_ops)
next
  case (transfer view a)
  then show ?thesis
    by (auto elim!: transfer_operatorshipE intro!: gateway_le_emit gateway_le_put_config)
qed

interpretation gw_mono: step_monotone "gateway_step env" gateway_le for env
  by unfold_locales (blast intro: gateway_le_refl gateway_le_trans gateway_step_le)+

lemma gateway_leD:
  assumes "gateway_le st st'"
  shows "tracker_at st k t \<Longrightarrow> tracker_at st' k t"
    and "config_at st k c \<Longrightarrow> \<exists>c'. config_at st' k c' \<and> domain_separator c' = domain_separator c \<and>
        u256_val (current_epoch c) \<le> u256_val (current_epoch c')"
    and "message_at st k m \<Longrightarrow>
      \<exists>m'. message_at st' k m' \<and> (m' = m \<or> m' = m\<lparr>im_status := status_executed\<rparr>)"
    and "\<exists>evs. gw_events st' = gw_events st @ evs"
  using assms unfolding gateway_le_def by blast+

lemma session_history_le:
  assumes "session_history env st k s root pt infos" and "gateway_le st st'"
  shows "session_history env st' k s root pt infos"
proof -
  from assms(1) obtain ck c kt t where "config_at st ck c"
      "\<forall>i \<in> set infos. vi_payload_type i = pt \<and> vl_domain_separator (vi_leaf i) = domain_separator c"
      "tracker_at st kt t" "vt_verifier_set_hash t = session_hash s"
    unfolding session_history_def by blast
  moreover obtain c' where "config_at st' ck c'" "domain_separator c' = domain_separator c"
    using gateway_leD(2) [OF assms(2) \<open>config_at st ck c\<close>] by blast
  moreover have "tracker_at st' kt t"
    using gateway_leD(1) [OF assms(2)] \<open>tracker_at st kt t\<close> by blast
  ultimately show ?thesis
    using assms(1) unfolding session_history_def by (intro conjI) (blast, blast, blast, blast, metis)
qed

lemma session_inv_frame:
  assumes "session_inv env st" and "gateway_le st st'"
    and "\<And>k s. session_at st' k s \<Longrightarrow>
      session_at st k s \<or> (\<exists>root pt infos. session_history env st' k s root pt infos)"
  shows "session_inv env st'"
  unfolding session_inv_def
proof (intro allI impI)
  fix k s assume "session_at st' k s"
  from assms(3) [OF this] show "\<exists>root pt infos. session_history env st' k s root pt infos"
    using assms(1) session_history_le [OF _ assms(2)] unfolding session_inv_def by blast
qed

text \<open>The seeds of a session determine the payload root and type.\<close>

lemma session_seeds_unique:
  assumes law: "pda_law env" "pda_inj env"
    and find: "try_find_program_address env (session_seeds root pt h) pid = Some (k, b)"
    and create: "create_program_address env (session_seeds root' pt' h @ [[b]]) pid = Some k"
    and len: "length root = 32" "length root' = 32"
  shows "root' = root \<and> pt' = pt"
proof -
  have "concat (session_seeds root' pt' h @ [[b]]) = concat (session_seeds root pt h @ [[b]])"
    by (rule pda_injD [OF law(2) create pda_lawD [OF law(1) find]])
  then have "root' @ payload_type_byte pt' # h @ [b] = root @ payload_type_byte pt # h @ [b]"
    by (simp add: session_seeds_def)
  then show ?thesis
    using len by (simp add: append_eq_append_conv)
qed

lemma session_history_extend:
  assumes law: "pda_law env" "pda_inj env"
    and h: "session_history env st k s root pt infos"
    and create: "create_program_address env (session_seeds root' (vi_payload_type i) (session_hash s)
       @ [[sd_bump s]]) (gateway_id env) = Some k"
    and len: "length root' = 32" and cfg: "config_inv env st" "config_at st ck c"
    and ds: "domain_separator c = vl_domain_separator (vi_leaf i)"
    and p: "process_signature env s root' h' i = Inr s'"
  shows "session_history env st k s' root pt (infos @ [i])"
proof -
  have same: "root' = root" "vi_payload_type i = pt"
    using session_seeds_unique [OF law _ create] h len unfolding session_history_def by blast+
  have sh: "session_hash s' = session_hash s" "sd_bump s' = sd_bump s" "h' = session_hash s"
    using process_signature_facts [OF p] by simp_all
  have "process_signatures env root (session_hash s) (session_fresh (session_hash s) (sd_bump s)) (infos @ [i]) = Inr s'"
    using h p unfolding session_history_def by (simp add: process_signatures_append same sh)
  moreover have "\<forall>j \<in> set (infos @ [i]). vi_payload_type j = pt \<and>
      vl_domain_separator (vi_leaf j) = domain_separator c"
  proof -
    obtain ck' c' where c': "config_at st ck' c'"
        "\<forall>j \<in> set infos. vi_payload_type j = pt \<and> vl_domain_separator (vi_leaf j) = domain_separator c'"
      using h unfolding session_history_def by blast
    then have "c' = c" using config_inv_unique [OF cfg] by blast
    with c' same ds show ?thesis by auto
  qed
  ultimately show ?thesis
    using h cfg(2) unfolding session_history_def sh by (intro conjI) blast+
qed

lemma session_inv_step:
  assumes law: "pda_law env" "pda_inj env" and inv: "gateway_inv env st" "session_inv env st"
    and step: "gateway_step env st st'"
  shows "session_inv env st'"
proof -
  have le: "gateway_le st st'" using step by (rule gateway_step_le)
  have cfg: "config_inv env st" using inv(1) by (simp add: gateway_inv_def)
  show ?thesis
    using step
  proof (cases rule: gateway_step_cases)
    case (call a dc da p b)
    then show ?thesis by (intro session_inv_frame [OF inv(2) le]) (auto elim!: call_contractE)
  next
    case (init view a params)
    then show ?thesis
      by (intro session_inv_frame [OF inv(2) le]) (auto elim!: initialize_configE split: if_splits)
  next
    case (session a root pt)
    from session(2) show ?thesis
    proof (rule initialize_sessionE)
      fix ses rk kt config tracker b b'
      assume rk: "config_at st rk config" and kt: "tracker_at st kt tracker"
        and find: "try_find_program_address env (session_seeds root pt (vt_verifier_set_hash tracker))
          (gateway_id env) = Some (ses, b)"
        and st': "st' = put_gw ses (SessionAcc (session_new (default_signature_verification
          \<lparr>signing_verifier_set_hash := vt_verifier_set_hash tracker\<rparr>) b)) st"
      let ?s = "session_fresh (vt_verifier_set_hash tracker) b"
      have "session_history env st ses ?s root pt []"
        using rk kt find session by (auto simp: session_history_def)
      from session_history_le [OF this le] show ?thesis
        by (intro session_inv_frame [OF inv(2) le])
          (auto simp: st' session_fresh_def split: if_splits)
    qed
  next
    case (verify a root i)
    from verify(2) show ?thesis
    proof (rule verify_signatureE)
      fix rk ses kt config session tracker session' b
      assume rk: "config_at st rk config" "domain_separator config = vl_domain_separator (vi_leaf i)"
        and ses: "session_at st ses session"
        and create: "create_program_address env (session_seeds root (vi_payload_type i) (session_hash session)
          @ [[sd_bump session]]) (gateway_id env) = Some ses"
        and p: "process_signature env session root (vt_verifier_set_hash tracker) i = Inr session'"
        and st': "st' = put_gw ses (SessionAcc session') st"
      obtain root0 pt infos where "session_history env st ses session root0 pt infos"
        using inv(2) ses unfolding session_inv_def by blast
      from session_history_extend [OF law this create _ cfg rk p]
      have "session_history env st ses session' root0 pt (infos @ [i])"
        using verify by blast
      from session_history_le [OF this le] show ?thesis
        by (intro session_inv_frame [OF inv(2) le]) (auto simp: st' split: if_splits)
    qed
  next
    case (approve a mm root)
    then show ?thesis
      by (intro session_inv_frame [OF inv(2) le]) (auto elim!: approve_messageE split: if_splits)
  next
    case (validate a m)
    then show ?thesis
      by (intro session_inv_frame [OF inv(2) le]) (auto elim!: validate_messageE split: if_splits)
  next
    case (rotate view a root)
    then show ?thesis
      by (intro session_inv_frame [OF inv(2) le]) (auto elim!: rotate_signersE split: if_splits)
  next
    case (transfer view a)
    then show ?thesis
      by (intro session_inv_frame [OF inv(2) le]) (auto elim!: transfer_operatorshipE split: if_splits)
  qed
qed

text \<open>A valid session is a quorum of its verifier set over its payload root.\<close>

lemma session_valid_quorum:
  assumes "session_history env st k s root pt infos" and "is_valid s"
    and "config_inv env st" and "config_at st ck c"
  shows "quorum_signed env root pt (domain_separator c) (session_hash s)"
proof -
  from assms(1) obtain ck' c' where
      run: "process_signatures env root (session_hash s) (session_fresh (session_hash s) (sd_bump s)) infos = Inr s"
    and c': "config_at st ck' c'"
    and ds': "\<forall>i \<in> set infos. vi_payload_type i = pt \<and> vl_domain_separator (vi_leaf i) = domain_separator c'"
    unfolding session_history_def by blast
  have "c' = c" using config_inv_unique [OF assms(3,4) c'] by blast
  with ds' have ds: "\<forall>i \<in> set infos. vi_payload_type i = pt \<and>
      vl_domain_separator (vi_leaf i) = domain_separator c" by simp
  have "quorum_reached 0 infos"
    using is_valid_run [OF run] assms(2) by simp
  moreover have "infos_for env root pt (domain_separator c) (session_hash s) infos"
    using process_signatures_slots [OF run] process_signatures_run [OF run] ds
    by (simp add: infos_for_def)
  ultimately show ?thesis unfolding quorum_signed_def by blast
qed

lemma session_valid_create_quorum:
  assumes law: "pda_law env" "pda_inj env" and inv: "gateway_inv env st" "session_inv env st"
    and s: "session_at st k s" "is_valid s"
    and create: "create_program_address env (session_seeds root pt (session_hash s) @ [[sd_bump s]])
       (gateway_id env) = Some k" "length root = 32"
    and c: "config_at st ck c"
  shows "quorum_signed env root pt (domain_separator c) (session_hash s)"
    and "\<exists>kt t. tracker_at st kt t \<and> vt_verifier_set_hash t = session_hash s"
proof -
  obtain root0 pt0 infos where h: "session_history env st k s root0 pt0 infos"
    using inv(2) s(1) unfolding session_inv_def by blast
  then have "root = root0 \<and> pt = pt0"
    using session_seeds_unique [OF law _ create(1) _ create(2)] unfolding session_history_def by blast
  then show "quorum_signed env root pt (domain_separator c) (session_hash s)"
    using session_valid_quorum [OF h s(2) _ c] inv(1) by (simp add: gateway_inv_def)
  show "\<exists>kt t. tracker_at st kt t \<and> vt_verifier_set_hash t = session_hash s"
    using h unfolding session_history_def by blast
qed

end
