(* ===== verification/Gateway_Events.thy ===== *)
theory Gateway_Events
  imports Gateway_Inv
begin

text \<open>
  The event log of the gateway against its accounts: an approval or a rotation stands on a
  quorum of a registered verifier set, an execution on an earlier approval, and each command id
  is approved once and executed once.
\<close>

section \<open>Events of messages\<close>

definition approved_event :: "env \<Rightarrow> Message \<Rightarrow> gateway_event" where
  "approved_event env m = MessageApprovedEvent (command_id env m) (destination_address m)
     (payload_hash m) (chain (cc_id m)) (cc_id_id (cc_id m)) (source_address m) (destination_chain m)"

definition executed_event :: "env \<Rightarrow> Message \<Rightarrow> pubkey \<Rightarrow> gateway_event" where
  "executed_event env m dest = MessageExecutedEvent (command_id env m) dest (payload_hash m)
     (chain (cc_id m)) (cc_id_id (cc_id m)) (source_address m) (destination_chain m)"

lemma approved_event_inj [simp]: "approved_event env m = approved_event env m' \<longleftrightarrow> m = m'"
  by (cases m; cases m'; cases "cc_id m"; cases "cc_id m'") (auto simp: approved_event_def)

fun approved_id :: "gateway_event \<Rightarrow> hash option" where
  "approved_id (MessageApprovedEvent cid _ _ _ _ _ _) = Some cid"
| "approved_id _ = None"

fun executed_id :: "gateway_event \<Rightarrow> hash option" where
  "executed_id (MessageExecutedEvent cid _ _ _ _ _ _) = Some cid"
| "executed_id _ = None"

definition approved_ids :: "gateway_event list \<Rightarrow> hash list" where
  "approved_ids evs = List.map_filter approved_id evs"

definition executed_ids :: "gateway_event list \<Rightarrow> hash list" where
  "executed_ids evs = List.map_filter executed_id evs"

lemma map_filter_snoc:
  "List.map_filter f (xs @ [x]) = List.map_filter f xs @ (case f x of None \<Rightarrow> [] | Some y \<Rightarrow> [y])"
  by (induction xs) (auto simp: map_filter_simps split: option.splits)

lemma ids_Nil [simp]: "approved_ids [] = []" "executed_ids [] = []"
  by (simp_all add: approved_ids_def executed_ids_def map_filter_simps)

lemma ids_snoc [simp]:
  "approved_ids (evs @ [e]) = approved_ids evs @ (case approved_id e of None \<Rightarrow> [] | Some y \<Rightarrow> [y])"
  "executed_ids (evs @ [e]) = executed_ids evs @ (case executed_id e of None \<Rightarrow> [] | Some y \<Rightarrow> [y])"
  by (simp_all add: approved_ids_def executed_ids_def map_filter_snoc)

lemma event_id_simps [simp]:
  "approved_id (approved_event env m) = Some (command_id env m)"
  "executed_id (approved_event env m) = None"
  "approved_id (executed_event env m d) = None"
  "executed_id (executed_event env m d) = Some (command_id env m)"
  by (simp_all add: approved_event_def executed_event_def)

section \<open>What an approval and a rotation stand on\<close>

definition message_authorised :: "env \<Rightarrow> gateway_state \<Rightarrow> Message \<Rightarrow> bool" where
  "message_authorised env st m \<longleftrightarrow> (\<exists>(mm :: MerklizedMessage) root h p ck c kt t.
     ml_message (mm_leaf mm) = m \<and> config_at st ck c \<and>
     ml_domain_separator (mm_leaf mm) = domain_separator c \<and>
     merkle_proof_from_bytes env (mm_proof mm) = Some p \<and>
     merkle_proof_verify env (Hasher env) p root [unat (ml_position (mm_leaf mm))]
       [message_leaf_hash env (mm_leaf mm)] (unat (ml_set_size (mm_leaf mm))) \<and>
     quorum_signed env root ApproveMessages (domain_separator c) h \<and>
     tracker_at st kt t \<and> vt_verifier_set_hash t = h)"

definition rotation_authorised :: "env \<Rightarrow> gateway_state \<Rightarrow> U256 \<Rightarrow> hash \<Rightarrow> bool" where
  "rotation_authorised env st e root \<longleftrightarrow> (\<exists>ck c kt t nk nt.
     config_at st ck c \<and> tracker_at st kt t \<and>
     quorum_signed env root RotateSigners (domain_separator c) (vt_verifier_set_hash t) \<and>
     u256_val (vt_epoch t) < u256_val e \<and>
     tracker_at st nk nt \<and> vt_verifier_set_hash nt = root \<and> vt_epoch nt = e)"

lemma message_authorised_le:
  assumes "message_authorised env st m" and "gateway_le st st'"
  shows "message_authorised env st' m"
proof -
  from assms(1) obtain mm :: MerklizedMessage and root h p ck c kt t where *: "ml_message (mm_leaf mm) = m"
     "ml_domain_separator (mm_leaf mm) = domain_separator c"
     "merkle_proof_from_bytes env (mm_proof mm) = Some p"
     "merkle_proof_verify env (Hasher env) p root [unat (ml_position (mm_leaf mm))]
       [message_leaf_hash env (mm_leaf mm)] (unat (ml_set_size (mm_leaf mm)))"
     "quorum_signed env root ApproveMessages (domain_separator c) h"
     "vt_verifier_set_hash t = h" and c: "config_at st ck c" and t: "tracker_at st kt t"
    unfolding message_authorised_def by blast
  obtain c' where "config_at st' ck c'" "domain_separator c' = domain_separator c"
    using gateway_leD(2) [OF assms(2) c] by blast
  with * gateway_leD(1) [OF assms(2) t] show ?thesis
    unfolding message_authorised_def by metis
qed

lemma rotation_authorised_le:
  assumes "rotation_authorised env st e root" and "gateway_le st st'"
  shows "rotation_authorised env st' e root"
proof -
  from assms(1) obtain ck c kt t nk nt where c: "config_at st ck c" and t: "tracker_at st kt t"
    and nt: "tracker_at st nk nt" and *: "vt_verifier_set_hash nt = root" "vt_epoch nt = e"
     "quorum_signed env root RotateSigners (domain_separator c) (vt_verifier_set_hash t)"
     "u256_val (vt_epoch t) < u256_val e"
    unfolding rotation_authorised_def by blast
  obtain c' where "config_at st' ck c'" "domain_separator c' = domain_separator c"
    using gateway_leD(2) [OF assms(2) c] by blast
  with * gateway_leD(1) [OF assms(2) t] gateway_leD(1) [OF assms(2) nt] show ?thesis
    unfolding rotation_authorised_def by metis
qed

definition authorised_inv :: "env \<Rightarrow> gateway_state \<Rightarrow> bool" where
  "authorised_inv env st \<longleftrightarrow>
     (\<forall>m. approved_event env m \<in> set (gw_events st) \<longrightarrow> message_authorised env st m) \<and>
     (\<forall>e root. VerifierSetRotatedEvent e root \<in> set (gw_events st) \<longrightarrow> rotation_authorised env st e root)"

lemma authorised_inv_frame:
  assumes "authorised_inv env st" and "gateway_le st st'"
    and "\<And>m. approved_event env m \<in> set (gw_events st') \<Longrightarrow>
      approved_event env m \<in> set (gw_events st) \<or> message_authorised env st' m"
    and "\<And>e root. VerifierSetRotatedEvent e root \<in> set (gw_events st') \<Longrightarrow>
      VerifierSetRotatedEvent e root \<in> set (gw_events st) \<or> rotation_authorised env st' e root"
  shows "authorised_inv env st'"
  using assms message_authorised_le [OF _ assms(2)] rotation_authorised_le [OF _ assms(2)]
  unfolding authorised_inv_def by blast

lemma event_neq [simp]:
  "approved_event env m \<noteq> executed_event env' m' d" "approved_event env m \<noteq> CallContractEvent a b c f g"
  "approved_event env m \<noteq> VerifierSetRotatedEvent e r" "approved_event env m \<noteq> OperatorshipTransferredEvent o'"
  "VerifierSetRotatedEvent e r \<noteq> approved_event env m" "executed_event env' m' d \<noteq> approved_event env m"
  "VerifierSetRotatedEvent e r \<noteq> executed_event env' m' d" "executed_event env' m' d \<noteq> VerifierSetRotatedEvent e r"
  by (simp_all add: approved_event_def executed_event_def)

definition gateway_auth_inv :: "env \<Rightarrow> gateway_state \<Rightarrow> bool" where
  "gateway_auth_inv env st \<longleftrightarrow> gateway_inv env st \<and> session_inv env st \<and> authorised_inv env st"

lemma authorised_inv_approve:
  assumes law: "pda_law env" "pda_inj env" and inv: "gateway_inv env st" "session_inv env st" "authorised_inv env st"
    and len: "length root = 32" and step: "approve_message env a mm root st = Inr st'"
    and le: "gateway_le st st'"
  shows "authorised_inv env st'"
  using step
proof (rule approve_messageE)
  fix rk ses k c s b p sb
  assume c: "config_at st rk c" and s: "session_at st ses s" "is_valid s"
    and create: "create_program_address env (session_seeds root ApproveMessages (session_hash s)
       @ [[sd_bump s]]) (gateway_id env) = Some ses"
    and leaf: "ml_domain_separator (mm_leaf mm) = domain_separator c"
      "merkle_proof_from_bytes env (mm_proof mm) = Some p"
      "merkle_proof_verify env (Hasher env) p root [unat (ml_position (mm_leaf mm))]
       [message_leaf_hash env (mm_leaf mm)] (unat (ml_set_size (mm_leaf mm)))"
    and st': "st' = emit_gw (MessageApprovedEvent (command_id env (ml_message (mm_leaf mm)))
              (destination_address (ml_message (mm_leaf mm))) (payload_hash (ml_message (mm_leaf mm)))
              (chain (cc_id (ml_message (mm_leaf mm)))) (cc_id_id (cc_id (ml_message (mm_leaf mm))))
              (source_address (ml_message (mm_leaf mm))) (destination_chain (ml_message (mm_leaf mm))))
          (put_gw k (MessageAcc
            \<lparr>im_bump = b, signing_pda_bump = sb, im_status = status_approved,
             im_message_hash = message_hash env (ml_message (mm_leaf mm)),
             im_payload_hash = payload_hash (ml_message (mm_leaf mm))\<rparr>) st)"
  note q = session_valid_create_quorum [OF law inv(1,2) s create len c]
  obtain kt t where "tracker_at st kt t" "vt_verifier_set_hash t = session_hash s"
    using q(2) by blast
  then have "message_authorised env st (ml_message (mm_leaf mm))"
    using q(1) c leaf unfolding message_authorised_def by blast
  from message_authorised_le [OF this le]
  have auth: "message_authorised env st' (ml_message (mm_leaf mm))" .
  have evs: "gw_events st' = gw_events st @ [approved_event env (ml_message (mm_leaf mm))]"
    by (simp add: st' approved_event_def)
  show ?thesis
    using auth by (intro authorised_inv_frame [OF inv(3) le]) (auto simp: evs)
qed

lemma authorised_inv_rotate:
  assumes law: "pda_law env" "pda_inj env" and inv: "gateway_inv env st" "session_inv env st" "authorised_inv env st"
    and len: "length root = 32" and step: "rotate_signers env view a root st = Inr st'"
    and le: "gateway_le st st'"
  shows "authorised_inv env st'"
  using step
proof (rule rotate_signersE)
  fix ck ses kt nk c s t new_bump new_epoch
  assume c: "config_at st ck c" and s: "session_at st ses s" "is_valid s"
    and create: "create_program_address env (session_seeds root RotateSigners (session_hash s)
       @ [[sd_bump s]]) (gateway_id env) = Some ses"
    and t: "tracker_at st kt t" "vt_verifier_set_hash t = session_hash s"
    and add: "u256_checked_add (current_epoch c) u256_one = Some new_epoch"
    and st': "st' = emit_gw (VerifierSetRotatedEvent new_epoch root)
          (put_gw nk (TrackerAcc
             \<lparr>vt_bump = new_bump, vt_epoch = new_epoch, vt_verifier_set_hash = root\<rparr>)
          (put_gw ck (ConfigAcc (c\<lparr>last_rotation_timestamp := unix_timestamp view,
             current_epoch := new_epoch\<rparr>)) st))"
    and vacant: "gw_accounts st nk = None"
  have ne: "ck \<noteq> nk" using c vacant by auto
  have q: "quorum_signed env root RotateSigners (domain_separator c) (vt_verifier_set_hash t)"
    using session_valid_create_quorum(1) [OF law inv(1,2) s create len c] t(2) by simp
  have "u256_val (vt_epoch t) \<le> u256_val (current_epoch c)"
    using inv(1) tracker_invD(3) [OF _ t(1)] config_inv_unique [OF _ c] unfolding gateway_inv_def by blast
  then have lt: "u256_val (vt_epoch t) < u256_val new_epoch"
    using add by (simp add: arith_ops)
  have "tracker_at st' kt t" using gateway_leD(1) [OF le t(1)] .
  moreover have "config_at st' ck (c\<lparr>last_rotation_timestamp := unix_timestamp view, current_epoch := new_epoch\<rparr>)"
    and "tracker_at st' nk \<lparr>vt_bump = new_bump, vt_epoch = new_epoch, vt_verifier_set_hash = root\<rparr>"
    using ne by (simp_all add: st')
  ultimately have auth: "rotation_authorised env st' new_epoch root"
    using q lt unfolding rotation_authorised_def by fastforce
  have evs: "gw_events st' = gw_events st @ [VerifierSetRotatedEvent new_epoch root]"
    by (simp add: st')
  show ?thesis
    using auth by (intro authorised_inv_frame [OF inv(3) le]) (auto simp: evs)
qed

lemma gateway_auth_inv_step:
  assumes law: "pda_law env" "pda_inj env" and inv: "gateway_auth_inv env st"
    and step: "gateway_step env st st'"
  shows "gateway_auth_inv env st'"
proof -
  have i: "gateway_inv env st" "session_inv env st" "authorised_inv env st"
    using inv by (simp_all add: gateway_auth_inv_def)
  have le: "gateway_le st st'" using step by (rule gateway_step_le)
  have "authorised_inv env st'"
    using step
  proof (cases rule: gateway_step_cases)
    case (call a dc da p b)
    then show ?thesis by (intro authorised_inv_frame [OF i(3) le]) (auto elim!: call_contractE)
  next
    case (init view a params)
    then show ?thesis by (intro authorised_inv_frame [OF i(3) le]) (auto elim!: initialize_configE)
  next
    case (session a root pt)
    then show ?thesis by (intro authorised_inv_frame [OF i(3) le]) (auto elim!: initialize_sessionE)
  next
    case (verify a root i')
    then show ?thesis by (intro authorised_inv_frame [OF i(3) le]) (auto elim!: verify_signatureE)
  next
    case (approve a mm root)
    then show ?thesis by (rule authorised_inv_approve [OF law i _ _ le])
  next
    case (validate a m)
    then show ?thesis
      by (intro authorised_inv_frame [OF i(3) le])
        (auto elim!: validate_messageE simp: approved_event_def)
  next
    case (rotate view a root)
    then show ?thesis by (rule authorised_inv_rotate [OF law i _ _ le])
  next
    case (transfer view a)
    then show ?thesis by (intro authorised_inv_frame [OF i(3) le]) (auto elim!: transfer_operatorshipE)
  qed
  then show ?thesis
    using gw_inv.step_keeps [OF i(1) step] session_inv_step [OF law i(1,2) step]
    by (simp add: gateway_auth_inv_def)
qed

lemma gateway_auth_inv_empty: "gateway_auth_inv env gateway_empty"
  using gateway_inv_empty [of env]
  by (simp add: gateway_auth_inv_def session_inv_def authorised_inv_def gateway_empty_def)

section \<open>Message accounts and the log\<close>

definition message_origin :: "env \<Rightarrow> gateway_state \<Rightarrow> pubkey \<Rightarrow> IncomingMessage \<Rightarrow> Message \<Rightarrow> bool" where
  "message_origin env st k im m \<longleftrightarrow>
     try_find_program_address env (incoming_message_seeds (command_id env m)) (gateway_id env) = Some (k, im_bump im) \<and>
     im_message_hash im = message_hash env m \<and> im_payload_hash im = payload_hash m \<and>
     destination_signing_bump env m = Inr (signing_pda_bump im) \<and>
     approved_event env m \<in> set (gw_events st)"

definition message_inv :: "env \<Rightarrow> gateway_state \<Rightarrow> bool" where
  "message_inv env st \<longleftrightarrow> (\<forall>k im. message_at st k im \<longrightarrow> (\<exists>m. message_origin env st k im m))"

text \<open>Each command id is approved at most once and executed at most once.\<close>

definition once_inv :: "env \<Rightarrow> gateway_state \<Rightarrow> bool" where
  "once_inv env st \<longleftrightarrow> distinct (approved_ids (gw_events st)) \<and> distinct (executed_ids (gw_events st)) \<and>
     (\<forall>cid \<in> set (approved_ids (gw_events st)). \<exists>k b im.
        try_find_program_address env (incoming_message_seeds cid) (gateway_id env) = Some (k, b) \<and>
        message_at st k im) \<and>
     (\<forall>cid \<in> set (executed_ids (gw_events st)). \<exists>k b im.
        try_find_program_address env (incoming_message_seeds cid) (gateway_id env) = Some (k, b) \<and>
        message_at st k im \<and> \<not> is_approved (im_status im))"

text \<open>
  An execution follows an approval of a message with the same hash and command id, and names
  the program its message is addressed to.
\<close>

definition execution_of :: "env \<Rightarrow> gateway_event set \<Rightarrow> gateway_event \<Rightarrow> bool" where
  "execution_of env before e \<longleftrightarrow> (\<exists>m dest m'. e = executed_event env m dest \<and>
     pubkey_from_str env (destination_address m) = Some dest \<and> approved_event env m' \<in> before \<and>
     message_hash env m' = message_hash env m \<and> command_id env m' = command_id env m)"

definition executed_after_approved :: "env \<Rightarrow> gateway_event list \<Rightarrow> bool" where
  "executed_after_approved env evs \<longleftrightarrow> (\<forall>xs e ys. evs = xs @ e # ys \<longrightarrow> executed_id e \<noteq> None \<longrightarrow>
     execution_of env (set xs) e)"

lemma executed_after_approved_snoc:
  assumes "executed_after_approved env evs"
    and "executed_id e \<noteq> None \<Longrightarrow> execution_of env (set evs) e"
  shows "executed_after_approved env (evs @ [e])"
  unfolding executed_after_approved_def
proof (intro allI impI)
  fix xs e' ys assume eq: "evs @ [e] = xs @ e' # ys" and ex: "executed_id e' \<noteq> None"
  show "execution_of env (set xs) e'"
  proof (cases ys rule: rev_cases)
    case Nil
    with eq have "xs = evs" "e' = e" by simp_all
    with assms(2) ex show ?thesis by blast
  next
    case (snoc ys' y)
    with eq have "evs @ [e] = (xs @ e' # ys') @ [y]" by simp
    then have "evs = xs @ e' # ys'" by (simp only: append1_eq_conv)
    with assms(1) ex show ?thesis unfolding executed_after_approved_def by blast
  qed
qed

lemma message_inv_frame:
  assumes "message_inv env st" and "gateway_le st st'"
    and "\<And>k im. message_at st' k im \<Longrightarrow> message_at st k im \<or> (\<exists>m. message_origin env st' k im m)"
  shows "message_inv env st'"
  unfolding message_inv_def
proof (intro allI impI)
  fix k im assume "message_at st' k im"
  from assms(3) [OF this] show "\<exists>m. message_origin env st' k im m"
  proof
    assume "message_at st k im"
    then obtain m where "message_origin env st k im m"
      using assms(1) unfolding message_inv_def by blast
    moreover obtain evs where "gw_events st' = gw_events st @ evs"
      using gateway_leD(4) [OF assms(2)] by blast
    ultimately have "message_origin env st' k im m" by (simp add: message_origin_def)
    then show ?thesis by blast
  qed
qed

lemma once_inv_frame:
  assumes "once_inv env st" and "gateway_le st st'"
    and "gw_events st' = gw_events st \<or>
      (\<exists>e. gw_events st' = gw_events st @ [e] \<and> approved_id e = None \<and> executed_id e = None)"
  shows "once_inv env st'"
proof -
  have ids: "approved_ids (gw_events st') = approved_ids (gw_events st)"
    "executed_ids (gw_events st') = executed_ids (gw_events st)"
    using assms(3) by auto
  have keep: "\<exists>im'. message_at st' k im' \<and> (is_approved (im_status im') \<longrightarrow> is_approved (im_status im))"
    if "message_at st k im" for k im
    using gateway_leD(3) [OF assms(2) that] by auto
  show ?thesis
    using assms(1) unfolding once_inv_def ids by (meson keep)
qed

text \<open>
  The account \<open>validate_message\<close> names is the one approved under this command id, whatever
  bump it stores.
\<close>

lemma incoming_seeds_unique:
  assumes law: "pda_law env" "pda_inj env"
    and find: "try_find_program_address env (incoming_message_seeds cid) pid = Some (k, b)"
    and create: "create_program_address env (incoming_message_seeds cid' @ [[b']]) pid = Some k"
  shows "cid' = cid \<and> b' = b"
proof -
  have "concat (incoming_message_seeds cid' @ [[b']]) = concat (incoming_message_seeds cid @ [[b]])"
    by (rule pda_injD [OF law(2) create pda_lawD [OF law(1) find]])
  then show ?thesis by (simp add: incoming_message_seeds_def)
qed

lemma approve_message_log:
  assumes inv: "message_inv env st" "once_inv env st"
    and step: "approve_message env a mm root st = Inr st'" and le: "gateway_le st st'"
  shows "message_inv env st' \<and> once_inv env st'"
  using step
proof (rule approve_messageE)
  fix rk ses k c s b p sb
  let ?m = "ml_message (mm_leaf mm)"
  assume find: "try_find_program_address env (incoming_message_seeds (command_id env ?m))
       (gateway_id env) = Some (k, b)"
    and vacant: "gw_accounts st k = None"
    and sb: "destination_signing_bump env ?m = Inr sb"
    and st': "st' = emit_gw (MessageApprovedEvent (command_id env ?m) (destination_address ?m)
              (payload_hash ?m) (chain (cc_id ?m)) (cc_id_id (cc_id ?m))
              (source_address ?m) (destination_chain ?m))
          (put_gw k (MessageAcc
            \<lparr>im_bump = b, signing_pda_bump = sb, im_status = status_approved,
             im_message_hash = message_hash env ?m, im_payload_hash = payload_hash ?m\<rparr>) st)"
  have evs: "gw_events st' = gw_events st @ [approved_event env ?m]"
    by (simp add: st' approved_event_def)
  have at: "message_at st' k \<lparr>im_bump = b, signing_pda_bump = sb, im_status = status_approved,
      im_message_hash = message_hash env ?m, im_payload_hash = payload_hash ?m\<rparr>"
    by (simp add: st')
  have other: "message_at st' k' im \<Longrightarrow> k' \<noteq> k \<Longrightarrow> message_at st k' im" for k' im
    by (simp add: st')
  have "message_inv env st'"
  proof (rule message_inv_frame [OF inv(1) le])
    fix k' im assume im: "message_at st' k' im"
    show "message_at st k' im \<or> (\<exists>m. message_origin env st' k' im m)"
    proof (cases "k' = k")
      case True
      with im at have "message_origin env st' k' im ?m"
        using find sb by (auto simp: message_origin_def evs)
      then show ?thesis by blast
    next
      case False
      with other im show ?thesis by blast
    qed
  qed
  moreover have "once_inv env st'"
  proof -
    have new: "command_id env ?m \<notin> set (approved_ids (gw_events st))"
      using inv(2) find vacant unfolding once_inv_def by fastforce
    have keep: "message_at st k' im \<Longrightarrow> message_at st' k' im" for k' im
      using vacant by (cases "k' = k") (auto simp: st')
    from inv(2) keep at find new show ?thesis
      unfolding once_inv_def evs by simp blast
  qed
  ultimately show ?thesis by blast
qed

lemma validate_message_log:
  assumes law: "pda_law env" "pda_inj env" and inv: "message_inv env st" "once_inv env st"
    and step: "validate_message env a m st = Inr st'" and le: "gateway_le st st'"
  shows "message_inv env st' \<and> once_inv env st' \<and>
    (\<exists>e. gw_events st' = gw_events st @ [e] \<and> execution_of env (set (gw_events st)) e)"
  using step
proof (rule validate_messageE)
  fix k im dest
  assume im: "message_at st k im"
    and create: "create_program_address env (incoming_message_seeds (command_id env m) @ [[im_bump im]])
       (gateway_id env) = Some k"
    and ok: "is_approved (im_status im)" and hash: "im_message_hash im = message_hash env m"
    and dest: "pubkey_from_str env (destination_address m) = Some dest"
    and st': "st' = emit_gw (MessageExecutedEvent (command_id env m) dest (payload_hash m) (chain (cc_id m))
              (cc_id_id (cc_id m)) (source_address m) (destination_chain m))
          (put_gw k (MessageAcc (im\<lparr>im_status := status_executed\<rparr>)) st)"
  obtain m' where org: "message_origin env st k im m'"
    using inv(1) im unfolding message_inv_def by blast
  then have find': "try_find_program_address env (incoming_message_seeds (command_id env m')) (gateway_id env)
      = Some (k, im_bump im)"
    by (simp add: message_origin_def)
  have cid: "command_id env m = command_id env m'"
    using incoming_seeds_unique [OF law find' create] by blast
  have evs: "gw_events st' = gw_events st @ [executed_event env m dest]"
    by (simp add: st' executed_event_def)
  have at: "message_at st' k (im\<lparr>im_status := status_executed\<rparr>)"
    by (simp add: st')
  have other: "message_at st' k' im' \<Longrightarrow> k' \<noteq> k \<Longrightarrow> message_at st k' im'" for k' im'
    by (simp add: st')
  have "message_inv env st'"
  proof (rule message_inv_frame [OF inv(1) le])
    fix k' im' assume im': "message_at st' k' im'"
    show "message_at st k' im' \<or> (\<exists>m. message_origin env st' k' im' m)"
    proof (cases "k' = k")
      case True
      with im' at org have "message_origin env st' k' im' m'"
        by (auto simp: message_origin_def evs)
      then show ?thesis by blast
    next
      case False
      with other im' show ?thesis by blast
    qed
  qed
  moreover have "once_inv env st'"
  proof -
    have new: "command_id env m \<notin> set (executed_ids (gw_events st))"
      using inv(2) find' cid im ok unfolding once_inv_def by fastforce
    have keep: "message_at st k' im' \<Longrightarrow> \<exists>im2. message_at st' k' im2 \<and>
        (\<not> is_approved (im_status im') \<longrightarrow> \<not> is_approved (im_status im2))" for k' im'
      using gateway_leD(3) [OF le, of k' im'] by auto
    have done_m: "\<exists>k b im. try_find_program_address env (incoming_message_seeds (command_id env m)) (gateway_id env)
        = Some (k, b) \<and> message_at st' k im \<and> \<not> is_approved (im_status im)"
      using find' cid at by fastforce
    from inv(2) have d: "distinct (approved_ids (gw_events st))" "distinct (executed_ids (gw_events st))"
      and a: "\<forall>cid \<in> set (approved_ids (gw_events st)). \<exists>k b im.
        try_find_program_address env (incoming_message_seeds cid) (gateway_id env) = Some (k, b) \<and> message_at st k im"
      and x: "\<forall>cid \<in> set (executed_ids (gw_events st)). \<exists>k b im.
        try_find_program_address env (incoming_message_seeds cid) (gateway_id env) = Some (k, b) \<and>
        message_at st k im \<and> \<not> is_approved (im_status im)"
      unfolding once_inv_def by blast+
    have a': "\<forall>cid \<in> set (approved_ids (gw_events st)). \<exists>k b im.
        try_find_program_address env (incoming_message_seeds cid) (gateway_id env) = Some (k, b) \<and> message_at st' k im"
      using a keep by meson
    have x': "\<forall>cid \<in> set (executed_ids (gw_events st)). \<exists>k b im.
        try_find_program_address env (incoming_message_seeds cid) (gateway_id env) = Some (k, b) \<and>
        message_at st' k im \<and> \<not> is_approved (im_status im)"
      using x keep by meson
    show ?thesis
      unfolding once_inv_def evs using d new a' x' done_m by simp
  qed
  moreover have "execution_of env (set (gw_events st)) (executed_event env m dest)"
    using org hash dest cid unfolding execution_of_def message_origin_def by metis
  ultimately show ?thesis using evs by blast
qed

definition gateway_full_inv :: "env \<Rightarrow> gateway_state \<Rightarrow> bool" where
  "gateway_full_inv env st \<longleftrightarrow> gateway_auth_inv env st \<and> message_inv env st \<and> once_inv env st \<and>
     executed_after_approved env (gw_events st)"

lemma quiet_step:
  assumes "message_inv env st" "once_inv env st" "executed_after_approved env (gw_events st)"
    and le: "gateway_le st st'"
    and "\<And>k im. message_at st' k im \<Longrightarrow> message_at st k im"
    and evs: "gw_events st' = gw_events st \<or> (\<exists>e. gw_events st' = gw_events st @ [e] \<and>
      approved_id e = None \<and> executed_id e = None)"
  shows "message_inv env st' \<and> once_inv env st' \<and> executed_after_approved env (gw_events st')"
proof (intro conjI)
  show "message_inv env st'" by (rule message_inv_frame [OF assms(1) le]) (use assms(5) in blast)
  show "once_inv env st'" by (rule once_inv_frame [OF assms(2) le evs])
  show "executed_after_approved env (gw_events st')"
    using evs assms(3) by (auto intro: executed_after_approved_snoc)
qed

lemma gateway_log_step:
  assumes law: "pda_law env" "pda_inj env"
    and inv: "message_inv env st" "once_inv env st" "executed_after_approved env (gw_events st)"
    and step: "gateway_step env st st'"
  shows "message_inv env st' \<and> once_inv env st' \<and> executed_after_approved env (gw_events st')"
proof -
  have le: "gateway_le st st'" using step by (rule gateway_step_le)
  show ?thesis
    using step
  proof (cases rule: gateway_step_cases)
    case (call a dc da p b)
    then show ?thesis by (intro quiet_step [OF inv le]) (auto elim!: call_contractE)
  next
    case (init view a params)
    then show ?thesis
      by (intro quiet_step [OF inv le]) (auto elim!: initialize_configE split: if_splits)
  next
    case (session a root pt)
    then show ?thesis
      by (intro quiet_step [OF inv le]) (auto elim!: initialize_sessionE split: if_splits)
  next
    case (verify a root i)
    then show ?thesis
      by (intro quiet_step [OF inv le]) (auto elim!: verify_signatureE split: if_splits)
  next
    case (approve a mm root)
    have "gw_events st' = gw_events st @ [approved_event env (ml_message (mm_leaf mm))]"
      using approve(2) by (auto elim!: approve_messageE simp: approved_event_def)
    then show ?thesis
      using approve_message_log [OF inv(1,2) approve(2) le] inv(3)
      by (auto intro: executed_after_approved_snoc)
  next
    case (validate a m)
    from validate_message_log [OF law inv(1,2) this le] executed_after_approved_snoc [OF inv(3)]
    show ?thesis by metis
  next
    case (rotate view a root)
    then show ?thesis
      by (intro quiet_step [OF inv le]) (auto elim!: rotate_signersE split: if_splits)
  next
    case (transfer view a)
    then show ?thesis
      by (intro quiet_step [OF inv le]) (auto elim!: transfer_operatorshipE split: if_splits)
  qed
qed

lemma gateway_full_inv_step:
  assumes "pda_law env" "pda_inj env" "gateway_full_inv env st" "gateway_step env st st'"
  shows "gateway_full_inv env st'"
  using assms gateway_auth_inv_step [of env st st'] gateway_log_step [of env st st']
  by (simp add: gateway_full_inv_def)

lemma gateway_full_inv_empty: "gateway_full_inv env gateway_empty"
  using gateway_auth_inv_empty [of env]
  by (simp add: gateway_full_inv_def gateway_empty_def message_inv_def once_inv_def
      executed_after_approved_def)

text \<open>With the address laws as part of the invariant, it is one of the step invariants.\<close>

interpretation gw_full: step_invariant "gateway_step env"
    "\<lambda>st. pda_law env \<and> pda_inj env \<longrightarrow> gateway_full_inv env st" for env
  by unfold_locales (blast intro: gateway_full_inv_step)

lemma gateway_full_inv_reachable:
  "pda_law env \<Longrightarrow> pda_inj env \<Longrightarrow> gateway_reachable env st \<Longrightarrow> gateway_full_inv env st"
  using gw_full.runs_keep [of env gateway_empty st] gateway_full_inv_empty [of env] by blast

section \<open>Consuming an approved message\<close>

text \<open>
  The program an approved message names can consume it: its signing address exists, and the gateway
  accepts it as the caller.
\<close>

lemma approved_message_validates:
  assumes law: "pda_law env" and inv: "gateway_full_inv env st" and org: "message_origin env st k im m"
    and at: "message_at st k im" "is_approved (im_status im)" "config_at st ck c"
    and dest: "pubkey_from_str env (destination_address m) = Some dest"
  obtains caller where "try_find_program_address env (validate_message_seeds (command_id env m)) dest
      = Some (caller, signing_pda_bump im)"
    and "load_gateway_config env st ck = Inr c"
    and "validate_message env \<lparr>vm_incoming_message_pda = acc_mut k, vm_caller = acc_signer caller,
          vm_gateway_root_pda = acc ck\<rparr> m st =
        Inr (emit_gw (executed_event env m dest) (put_gw k (MessageAcc (im\<lparr>im_status := status_executed\<rparr>)) st))"
proof -
  have find: "try_find_program_address env (incoming_message_seeds (command_id env m)) (gateway_id env) = Some (k, im_bump im)"
    and hash: "im_message_hash im = message_hash env m" and bump: "destination_signing_bump env m = Inr (signing_pda_bump im)"
    using org by (simp_all add: message_origin_def)
  have cfg: "create_program_address env (gateway_config_seeds @ [[gc_bump c]]) (gateway_id env) = Some ck"
    using inv at(3) pda_lawD [OF law] config_invD
    unfolding gateway_full_inv_def gateway_auth_inv_def gateway_inv_def by blast
  obtain caller where caller: "try_find_program_address env (validate_message_seeds (command_id env m)) dest
      = Some (caller, signing_pda_bump im)"
    using bump dest
    by (auto simp: destination_signing_bump_def ValidateMessageSigner_find_pda_def find_program_address_def res_inv)
  have "create_program_address env [str_bytes ''gtw-validate-msg'', command_id env m, [signing_pda_bump im]] dest = Some caller"
    using pda_lawD [OF law caller] by (simp add: validate_message_seeds_def)
  moreover have load: "load_acc message_of (gw_accounts st) k = Inr im" "load_gateway_config env st ck = Inr c"
    using at cfg by (simp_all add: gw_load load_gateway_config_Inr)
  ultimately show thesis
    using pda_lawD [OF law find] hash dest at(2)
    by (intro that [OF caller load(2)])
      (simp add: validate_message_def validate_caller_pda_def ValidateMessageSigner_create_pda_def
        check_mut_def check_signer_def check_seeds_def acc_defs executed_event_def)
qed

end
