(* ===== verification/Gateway_Demo.thy ===== *)
theory Gateway_Demo
  imports Gateway_Events
begin

text \<open>
  One concrete instance of the parameters and one run of the gateway on it: initialization, a
  session, one signature, an approval and its execution. The witnesses of the gateway's
  properties are read off this run.
\<close>

section \<open>A concrete environment\<close>

text \<open>The digest of a message writes its fields one after another, each with a terminator.\<close>

definition message_code :: "Message \<Rightarrow> bytes" where
  "message_code m =
     (let put = (\<lambda>s. concat (map (\<lambda>b. [1, b]) s) @ [0])
      in put (str_bytes (chain (cc_id m))) @ put (str_bytes (cc_id_id (cc_id m))) @
         put (str_bytes (source_address m)) @ put (str_bytes (destination_chain m)) @
         put (str_bytes (destination_address m)) @ put (payload_hash m))"

lemma framed_inj:
  "concat (map (\<lambda>b. [1, b :: u8]) s) @ 0 # r = concat (map (\<lambda>b. [1, b]) s') @ 0 # r' \<Longrightarrow> s = s' \<and> r = r'"
proof (induction s arbitrary: s')
  case Nil
  then show ?case by (cases s') auto
next
  case (Cons b s)
  then show ?case by (cases s') auto
qed

lemma message_code_inj: "message_code m = message_code m' \<Longrightarrow> m = m'"
proof -
  assume eq: "message_code m = message_code m'"
  note e1 = framed_inj [OF eq [unfolded message_code_def Let_def append.assoc append.simps]]
  note e2 = framed_inj [OF conjunct2 [OF e1]]
  note e3 = framed_inj [OF conjunct2 [OF e2]]
  note e4 = framed_inj [OF conjunct2 [OF e3]]
  note e5 = framed_inj [OF conjunct2 [OF e4]]
  note e6 = framed_inj [OF conjunct2 [OF e5]]
  show "m = m'"
    using e1 e2 e3 e4 e5 e6 by (cases m; cases m'; cases "cc_id m"; cases "cc_id m'") auto
qed

text \<open>
  Hashing is the identity, an address is its seeds followed by the program, the bump found is
  always 255, and a signature is its own signer's key.
\<close>

definition demo_env :: env where
  "demo_env =
     \<lparr>keccak = (\<lambda>x. x),
      secp256k1_recover = (\<lambda>_ _ sig. Some sig),
      parse_compressed_serialize = (\<lambda>pk. Some (4 # pk)),
      merkle_tree_root = (\<lambda>_ leaves. if leaves = [] then None else Some (concat leaves)),
      merkle_tree_proof = (\<lambda>_ _ _. []),
      merkle_proof_from_bytes = (\<lambda>bs. if bs = [] then Some [] else None),
      merkle_proof_verify = (\<lambda>_ _ _ _ _ _. True),
      digest_message = message_code,
      digest_message_leaf = (\<lambda>_. [2]),
      digest_verifier_set_leaf = (\<lambda>_. [3]),
      borsh_execute_data = (\<lambda>_. Some []),
      create_program_address = (\<lambda>seeds pid. Some (concat seeds @ pid)),
      try_find_program_address = (\<lambda>seeds pid. Some (concat seeds @ [255] @ pid, 255)),
      pubkey_from_str = (\<lambda>s. Some (str_bytes s)),
      gateway_id = [1], gas_service_id = [2], its_id = [3], governance_id = replicate 32 4, operators_id = [5],
      memo_id = [6], loader_upgradeable_id = [7], system_program_id = [8]\<rparr>"

lemma demo_pda_law: "pda_law demo_env"
  by (simp add: pda_law_def demo_env_def)

lemma demo_pda_inj: "pda_inj demo_env"
  by (simp add: pda_inj_def demo_env_def)

definition demo_view :: ledger_view where
  "demo_view = \<lparr>unix_timestamp = 1000,
     program_data_authority = (\<lambda>k. if k = [1, 255, 7] then Some (Some [9]) else None)\<rparr>"

definition demo_root_key :: pubkey where
  "demo_root_key = str_bytes ''gateway'' @ [255, 1]"

definition demo_set :: hash where
  "demo_set = replicate 32 11"

definition demo_set_key :: pubkey where
  "demo_set_key = str_bytes ''ver-set-tracker'' @ demo_set @ [255, 1]"

definition demo_config :: GatewayConfig where
  "demo_config = \<lparr>current_epoch = u256_from_u64 1, previous_verifier_set_retention = u256_from_u64 4,
     minimum_rotation_delay = 60, last_rotation_timestamp = 1000, gc_operator = [10],
     domain_separator = [12], gc_bump = 255\<rparr>"

definition demo_tracker :: VerifierSetTracker where
  "demo_tracker = \<lparr>vt_bump = 255, vt_epoch = u256_from_u64 1, vt_verifier_set_hash = demo_set\<rparr>"

definition demo_init :: InitializeConfig where
  "demo_init = \<lparr>ic_payer = acc_signer_mut [20], ic_upgrade_authority = acc_signer [9],
     ic_program_data = acc [1, 255, 7], ic_gateway_root_pda = acc_mut demo_root_key,
     ic_system_program = acc [8], ic_verifier_set_tracker_pda = acc_mut demo_set_key\<rparr>"

definition demo_params :: InitializeConfigParams where
  "demo_params = \<lparr>icp_domain_separator = [12], icp_initial_verifier_set_hash = demo_set,
     icp_initial_verifier_set_pda = demo_set_key, icp_minimum_rotation_delay = 60, icp_operator = [10],
     icp_previous_verifier_retention = u256_from_u64 4\<rparr>"

definition demo_st1 :: gateway_state where
  "demo_st1 = put_gw demo_set_key (TrackerAcc demo_tracker)
     (put_gw demo_root_key (ConfigAcc demo_config) gateway_empty)"

lemmas demo_env_simps = demo_env_def demo_view_def find_program_address_def check_seeds_canonical_def
  check_signer_def check_mut_def check_program_def check_vacant_def load_program_data_def acc_defs
  u64_of_i64_def

lemma demo_keys_neq [simp]: "demo_set_key \<noteq> demo_root_key" "demo_root_key \<noteq> demo_set_key"
  by (simp_all add: demo_set_key_def demo_root_key_def str_bytes_def of_char_u8_inj)

lemma demo_init_ok: "initialize_config demo_env demo_view demo_init demo_params gateway_empty = Inr demo_st1"
  by (simp add: initialize_config_def demo_env_simps demo_init_def demo_params_def demo_st1_def
      demo_config_def demo_tracker_def gateway_empty_def
      demo_root_key_def demo_set_key_def gateway_config_seeds_def tracker_seeds_def GATEWAY_SEED_def
      str_bytes_def of_char_u8_inj)

lemma demo_hash_inj: "inj (message_hash demo_env)"
  by (rule injI) (simp add: message_hash_def demo_env_def message_code_inj)

section \<open>A session and its signature\<close>

definition demo_payload_root :: hash where
  "demo_payload_root = replicate 32 13"

definition demo_session_key :: pubkey where
  "demo_session_key = str_bytes ''gtw-sig-verif'' @ demo_payload_root @ [0] @ demo_set @ [255, 1]"

definition demo_session_accs :: InitializePayloadVerificationSession where
  "demo_session_accs = \<lparr>ips_payer = acc_signer_mut [20], ips_gateway_root_pda = acc demo_root_key,
     ips_verification_session_account = acc_mut demo_session_key,
     ips_verifier_set_tracker_pda = acc demo_set_key, ips_system_program = acc [8]\<rparr>"

definition demo_st2 :: gateway_state where
  "demo_st2 = put_gw demo_session_key (SessionAcc (session_fresh demo_set 255)) demo_st1"

definition demo_info :: SigningVerifierSetInfo where
  "demo_info = \<lparr>vi_signature = [30, 0],
     vi_leaf = \<lparr>vl_nonce = 0, vl_quorum = 5, vl_signer_pubkey = [30], vl_signer_weight = 7,
       vl_position = 3, vl_set_size = 4, vl_domain_separator = [12]\<rparr>,
     vi_merkle_proof = [], vi_payload_type = ApproveMessages\<rparr>"

definition demo_session :: SignatureVerificationSessionData where
  "demo_session = slot_marked (accumulate_threshold (session_fresh demo_set 255) (vi_leaf demo_info)) 3"

definition demo_st3 :: gateway_state where
  "demo_st3 = put_gw demo_session_key (SessionAcc demo_session) demo_st2"

lemma demo_session_key_neq [simp]:
  "demo_session_key \<noteq> demo_root_key" "demo_session_key \<noteq> demo_set_key"
  "demo_root_key \<noteq> demo_session_key" "demo_set_key \<noteq> demo_session_key"
  by (simp_all add: demo_session_key_def demo_set_key_def demo_root_key_def str_bytes_def of_char_u8_inj)

lemma demo_config_load [simp]:
  "gw_accounts st demo_root_key = Some (ConfigAcc c) \<Longrightarrow> gc_bump c = 255 \<Longrightarrow>
     load_gateway_config demo_env st demo_root_key = Inr c"
  by (simp add: load_gateway_config_def gw_load check_seeds_def demo_env_def load_acc_def
      demo_root_key_def gateway_config_seeds_def GATEWAY_SEED_def)

lemma demo_st1_accounts [simp]:
  "gw_accounts demo_st1 demo_root_key = Some (ConfigAcc demo_config)"
  "gw_accounts demo_st1 demo_set_key = Some (TrackerAcc demo_tracker)"
  "gw_accounts demo_st1 demo_session_key = None"
  by (simp_all add: demo_st1_def gateway_empty_def)

lemma demo_epoch_ok [simp]: "assert_valid_epoch demo_config (vt_epoch demo_tracker) = Inr ()"
  by (simp add: assert_valid_epoch_Inr demo_config_def demo_tracker_def)

lemma demo_fields [simp]:
  "gc_bump demo_config = 255" "vt_verifier_set_hash demo_tracker = demo_set"
  "domain_separator demo_config = [12]" "vt_bump demo_tracker = 255"
  by (simp_all add: demo_config_def demo_tracker_def)

lemma demo_session_ok:
  "initialize_payload_verification_session demo_env demo_session_accs demo_payload_root ApproveMessages demo_st1
     = Inr demo_st2"
proof -
  have "load_acc tracker_of (gw_accounts demo_st1) demo_set_key = Inr demo_tracker"
    by (simp add: gw_load)
  moreover have "check_seeds_canonical demo_env (session_seeds demo_payload_root ApproveMessages demo_set)
      (gateway_id demo_env) demo_session_key = Inr 255"
    "check_seeds_canonical demo_env (tracker_seeds demo_set) (gateway_id demo_env) demo_set_key = Inr 255"
    by (simp_all add: demo_env_simps session_seeds_def demo_session_key_def tracker_seeds_def demo_set_key_def)
  moreover have "system_program_id demo_env = [8]" by (simp add: demo_env_def)
  ultimately show ?thesis
    by (simp add: initialize_payload_verification_session_def demo_session_accs_def acc_defs check_signer_def
        check_mut_def check_program_def check_vacant_def demo_st2_def session_fresh_def)
qed

lemma demo_signature_accepted: "signature_accepted demo_env demo_payload_root demo_set demo_info"
  by (simp add: signature_accepted_def leaf_in_set_def signed_by_def demo_env_def demo_info_def)

lemma demo_process:
  "process_signature demo_env (session_fresh demo_set 255) demo_payload_root demo_set demo_info = Inr demo_session"
  using demo_signature_accepted by (simp add: process_signature_Inr demo_info_def demo_session_def)

lemma demo_session_parts [simp]:
  "session_hash demo_session = demo_set" "sd_bump demo_session = 255"
  using process_signature_facts [OF demo_process] by simp_all

lemma demo_session_valid [simp]: "is_valid demo_session"
  using is_valid_step(1) [OF _ demo_process] by (simp add: demo_info_def)

definition demo_verify_accs :: VerifySignature where
  "demo_verify_accs = \<lparr>vs_gateway_root_pda = acc demo_root_key,
     vs_verification_session_account = acc_mut demo_session_key,
     vs_verifier_set_tracker_pda = acc demo_set_key\<rparr>"

lemma demo_st2_accounts [simp]:
  "gw_accounts demo_st2 demo_root_key = Some (ConfigAcc demo_config)"
  "gw_accounts demo_st2 demo_set_key = Some (TrackerAcc demo_tracker)"
  "gw_accounts demo_st2 demo_session_key = Some (SessionAcc (session_fresh demo_set 255))"
  by (simp_all add: demo_st2_def)

lemma demo_verify_ok:
  "verify_signature demo_env demo_verify_accs demo_payload_root demo_info demo_st2 = Inr demo_st3"
proof -
  have "load_acc tracker_of (gw_accounts demo_st2) demo_set_key = Inr demo_tracker"
    "load_acc session_of (gw_accounts demo_st2) demo_session_key = Inr (session_fresh demo_set 255)"
    by (simp_all add: gw_load)
  moreover have "check_seeds demo_env (session_seeds demo_payload_root ApproveMessages demo_set) 255
      (gateway_id demo_env) demo_session_key = Inr ()"
    "check_seeds_canonical demo_env (tracker_seeds demo_set) (gateway_id demo_env) demo_set_key = Inr 255"
    by (simp_all add: demo_env_simps check_seeds_def session_seeds_def demo_session_key_def tracker_seeds_def
        demo_set_key_def)
  moreover have "vi_payload_type demo_info = ApproveMessages" "vl_domain_separator (vi_leaf demo_info) = [12]"
    by (simp_all add: demo_info_def)
  ultimately show ?thesis
    by (simp add: verify_signature_def demo_verify_accs_def acc_defs check_mut_def demo_process demo_st3_def)
qed

section \<open>An approval and its execution\<close>

definition demo_message :: Message where
  "demo_message = \<lparr>cc_id = \<lparr>chain = ''ethereum'', cc_id_id = ''0x1''\<rparr>, source_address = ''0xabc'',
     destination_chain = ''solana'', destination_address = ''D'', payload_hash = [0, 3, 0, 0, 0, 1, 2, 3, 0, 0, 0, 0]\<rparr>"

definition demo_merklized :: MerklizedMessage where
  "demo_merklized = \<lparr>mm_leaf = \<lparr>ml_message = demo_message, ml_position = 0, ml_set_size = 1,
     ml_domain_separator = [12]\<rparr>, mm_proof = []\<rparr>"

definition demo_cid :: hash where
  "demo_cid = str_bytes ''ethereum-0x1''"

definition demo_message_key :: pubkey where
  "demo_message_key = str_bytes ''incoming message'' @ demo_cid @ [255, 1]"

definition demo_incoming :: IncomingMessage where
  "demo_incoming = \<lparr>im_bump = 255, signing_pda_bump = 255, im_status = status_approved,
     im_message_hash = message_code demo_message, im_payload_hash = [0, 3, 0, 0, 0, 1, 2, 3, 0, 0, 0, 0]\<rparr>"

definition demo_approve_accs :: ApproveMessage where
  "demo_approve_accs = \<lparr>am_gateway_root_pda = acc demo_root_key, am_funder = acc_signer_mut [20],
     am_verification_session_account = acc demo_session_key, am_incoming_message_pda = acc_mut demo_message_key,
     am_system_program = acc [8]\<rparr>"

definition demo_st4 :: gateway_state where
  "demo_st4 = emit_gw (approved_event demo_env demo_message)
     (put_gw demo_message_key (MessageAcc demo_incoming) demo_st3)"

lemma demo_cid [simp]: "command_id demo_env demo_message = demo_cid"
  by (simp add: command_id_def hashv_def demo_env_def demo_message_def demo_cid_def str_bytes_def)

lemma demo_message_key_neq [simp]:
  "demo_message_key \<noteq> demo_root_key" "demo_message_key \<noteq> demo_set_key" "demo_message_key \<noteq> demo_session_key"
  "demo_root_key \<noteq> demo_message_key" "demo_set_key \<noteq> demo_message_key" "demo_session_key \<noteq> demo_message_key"
  by (simp_all add: demo_message_key_def demo_session_key_def demo_set_key_def demo_root_key_def str_bytes_def
      of_char_u8_inj)

lemma demo_st3_accounts [simp]:
  "gw_accounts demo_st3 demo_root_key = Some (ConfigAcc demo_config)"
  "gw_accounts demo_st3 demo_set_key = Some (TrackerAcc demo_tracker)"
  "gw_accounts demo_st3 demo_session_key = Some (SessionAcc demo_session)"
  "gw_accounts demo_st3 demo_message_key = None"
  by (simp_all add: demo_st3_def demo_st2_def demo_st1_def gateway_empty_def)

lemma demo_approve_ok:
  "approve_message demo_env demo_approve_accs demo_merklized demo_payload_root demo_st3 = Inr demo_st4"
proof -
  have "load_acc session_of (gw_accounts demo_st3) demo_session_key = Inr demo_session"
    by (simp add: gw_load)
  moreover have "check_seeds demo_env (session_seeds demo_payload_root ApproveMessages demo_set) 255
      (gateway_id demo_env) demo_session_key = Inr ()"
    "check_seeds_canonical demo_env (incoming_message_seeds demo_cid) (gateway_id demo_env) demo_message_key = Inr 255"
    by (simp_all add: demo_env_simps check_seeds_def session_seeds_def demo_session_key_def
        incoming_message_seeds_def demo_message_key_def)
  moreover have "destination_signing_bump demo_env demo_message = Inr 255"
    by (simp add: destination_signing_bump_def ValidateMessageSigner_find_pda_def find_program_address_def
        demo_env_def)
  moreover have "system_program_id demo_env = [8]" "merkle_proof_from_bytes demo_env [] = Some []"
    "merkle_proof_verify demo_env h p r i l n" "message_hash demo_env demo_message = message_code demo_message"
    "payload_hash demo_message = [0, 3, 0, 0, 0, 1, 2, 3, 0, 0, 0, 0]" for h p r i l n
    by (simp_all add: demo_env_def message_hash_def) (simp add: demo_message_def)
  ultimately show ?thesis
    by (simp add: approve_message_def demo_approve_accs_def demo_merklized_def acc_defs check_mut_def
        check_signer_def check_vacant_def check_program_def demo_st4_def demo_incoming_def approved_event_def)
qed

definition demo_caller :: pubkey where
  "demo_caller = str_bytes ''gtw-validate-msg'' @ demo_cid @ [255] @ str_bytes ''D''"

definition demo_validate_accs :: ValidateMessage where
  "demo_validate_accs = \<lparr>vm_incoming_message_pda = acc_mut demo_message_key, vm_caller = acc_signer demo_caller,
     vm_gateway_root_pda = acc demo_root_key\<rparr>"

definition demo_st5 :: gateway_state where
  "demo_st5 = emit_gw (executed_event demo_env demo_message (str_bytes ''D''))
     (put_gw demo_message_key (MessageAcc (demo_incoming\<lparr>im_status := status_executed\<rparr>)) demo_st4)"

lemma demo_validate_ok:
  "validate_message demo_env demo_validate_accs demo_message demo_st4 = Inr demo_st5"
proof -
  have acc4: "gw_accounts demo_st4 demo_root_key = Some (ConfigAcc demo_config)"
    "load_acc message_of (gw_accounts demo_st4) demo_message_key = Inr demo_incoming"
    by (simp_all add: gw_load demo_st4_def)
  moreover have "check_seeds demo_env (incoming_message_seeds demo_cid) 255 (gateway_id demo_env) demo_message_key = Inr ()"
    by (simp add: demo_env_def check_seeds_def incoming_message_seeds_def demo_message_key_def)
  moreover have "pubkey_from_str demo_env (destination_address demo_message) = Some (str_bytes ''D'')"
    "message_hash demo_env demo_message = message_code demo_message"
    "im_message_hash demo_incoming = message_code demo_message" "im_bump demo_incoming = 255"
    "signing_pda_bump demo_incoming = 255" "im_status demo_incoming = status_approved"
    by (simp_all add: demo_env_def message_hash_def demo_incoming_def) (simp add: demo_message_def)
  moreover have "ValidateMessageSigner_create_pda demo_env demo_cid 255 (str_bytes ''D'') = Inr demo_caller"
    by (simp add: ValidateMessageSigner_create_pda_def demo_env_def demo_caller_def)
  ultimately show ?thesis
    by (simp add: validate_message_def validate_caller_pda_def demo_validate_accs_def acc_defs check_mut_def
        check_signer_def demo_st5_def executed_event_def)
qed

lemma demo_lengths [simp]: "length demo_set = 32" "length demo_payload_root = 32"
  by (simp_all add: demo_set_def demo_payload_root_def)

lemma demo_steps:
  "gateway_step demo_env gateway_empty demo_st1" "gateway_step demo_env demo_st1 demo_st2"
  "gateway_step demo_env demo_st2 demo_st3" "gateway_step demo_env demo_st3 demo_st4"
  "gateway_step demo_env demo_st4 demo_st5"
proof -
  have "gateway_ix_wf (InitializeConfigIx demo_init demo_params)" by (simp add: demo_params_def)
  then show "gateway_step demo_env gateway_empty demo_st1"
    by (rule gateway_ix [where view = demo_view]) (simp add: demo_init_ok)
  have "gateway_ix_wf (InitializePayloadVerificationSessionIx demo_session_accs demo_payload_root ApproveMessages)"
    by simp
  then show "gateway_step demo_env demo_st1 demo_st2"
    by (rule gateway_ix) (simp add: demo_session_ok)
  have "gateway_ix_wf (VerifySignatureIx demo_verify_accs demo_payload_root demo_info)" by simp
  then show "gateway_step demo_env demo_st2 demo_st3"
    by (rule gateway_ix) (simp add: demo_verify_ok)
  have "gateway_ix_wf (ApproveMessageIx demo_approve_accs demo_merklized demo_payload_root)" by simp
  then show "gateway_step demo_env demo_st3 demo_st4"
    by (rule gateway_ix) (simp add: demo_approve_ok)
  have "gateway_ix_wf (ValidateMessageIx demo_validate_accs demo_message)" by simp
  then show "gateway_step demo_env demo_st4 demo_st5"
    by (rule gateway_ix) (simp add: demo_validate_ok)
qed

lemma demo_reachable:
  "gateway_reachable demo_env demo_st1" "gateway_reachable demo_env demo_st3"
  "gateway_reachable demo_env demo_st4" "gateway_reachable demo_env demo_st5"
  by (meson demo_steps runs.intros)+

lemma demo_st5_events:
  "gw_events demo_st5 = [approved_event demo_env demo_message, executed_event demo_env demo_message (str_bytes ''D'')]"
  by (simp add: demo_st5_def demo_st4_def demo_st3_def demo_st2_def demo_st1_def gateway_empty_def)

section \<open>A rotation\<close>

text \<open>From the initialized gateway: a session for the new set's root, signed, then the rotation.\<close>

definition demo_new_set :: hash where
  "demo_new_set = replicate 32 14"

definition demo_rot_key :: pubkey where
  "demo_rot_key = str_bytes ''gtw-sig-verif'' @ demo_new_set @ [1] @ demo_set @ [255, 1]"

definition demo_new_key :: pubkey where
  "demo_new_key = str_bytes ''ver-set-tracker'' @ demo_new_set @ [255, 1]"

definition demo_rot_info :: SigningVerifierSetInfo where
  "demo_rot_info = demo_info\<lparr>vi_payload_type := RotateSigners\<rparr>"

definition demo_st6 :: gateway_state where
  "demo_st6 = put_gw demo_rot_key (SessionAcc (session_fresh demo_set 255)) demo_st1"

definition demo_st7 :: gateway_state where
  "demo_st7 = put_gw demo_rot_key (SessionAcc demo_session) demo_st6"

definition demo_epoch2 :: U256 where
  "demo_epoch2 = u256_of_val 2"

definition demo_view2 :: ledger_view where
  "demo_view2 = demo_view\<lparr>unix_timestamp := 1060\<rparr>"

definition demo_st8 :: gateway_state where
  "demo_st8 = emit_gw (VerifierSetRotatedEvent demo_epoch2 demo_new_set)
     (put_gw demo_new_key (TrackerAcc \<lparr>vt_bump = 255, vt_epoch = demo_epoch2, vt_verifier_set_hash = demo_new_set\<rparr>)
     (put_gw demo_root_key (ConfigAcc (demo_config\<lparr>last_rotation_timestamp := 1060, current_epoch := demo_epoch2\<rparr>))
       demo_st7))"

lemma demo_rot_keys_neq [simp]:
  "demo_rot_key \<noteq> demo_root_key" "demo_rot_key \<noteq> demo_set_key" "demo_root_key \<noteq> demo_rot_key"
  "demo_set_key \<noteq> demo_rot_key" "demo_new_key \<noteq> demo_root_key" "demo_new_key \<noteq> demo_set_key"
  "demo_new_key \<noteq> demo_rot_key" "demo_rot_key \<noteq> demo_new_key" "demo_root_key \<noteq> demo_new_key"
  by (simp_all add: demo_rot_key_def demo_new_key_def demo_set_key_def demo_root_key_def str_bytes_def
      of_char_u8_inj demo_set_def demo_new_set_def)

lemma demo_rot_accounts [simp]:
  "gw_accounts demo_st1 demo_rot_key = None"
  "gw_accounts demo_st6 demo_root_key = Some (ConfigAcc demo_config)"
  "gw_accounts demo_st6 demo_set_key = Some (TrackerAcc demo_tracker)"
  "gw_accounts demo_st6 demo_rot_key = Some (SessionAcc (session_fresh demo_set 255))"
  "gw_accounts demo_st7 demo_root_key = Some (ConfigAcc demo_config)"
  "gw_accounts demo_st7 demo_set_key = Some (TrackerAcc demo_tracker)"
  "gw_accounts demo_st7 demo_rot_key = Some (SessionAcc demo_session)"
  "gw_accounts demo_st7 demo_new_key = None"
  by (simp_all add: demo_st7_def demo_st6_def demo_st1_def gateway_empty_def)

lemma demo_rot_seeds [simp]:
  "check_seeds_canonical demo_env (session_seeds demo_new_set RotateSigners demo_set) (gateway_id demo_env)
     demo_rot_key = Inr 255"
  "check_seeds demo_env (session_seeds demo_new_set RotateSigners demo_set) 255 (gateway_id demo_env)
     demo_rot_key = Inr ()"
  "check_seeds_canonical demo_env (tracker_seeds demo_set) (gateway_id demo_env) demo_set_key = Inr 255"
  "check_seeds demo_env (tracker_seeds demo_set) 255 (gateway_id demo_env) demo_set_key = Inr ()"
  "check_seeds_canonical demo_env (tracker_seeds demo_new_set) (gateway_id demo_env) demo_new_key = Inr 255"
  by (simp_all add: demo_env_simps check_seeds_def session_seeds_def demo_rot_key_def tracker_seeds_def
      demo_set_key_def demo_new_key_def)

lemma demo_rot_session_ok:
  "initialize_payload_verification_session demo_env
     (demo_session_accs\<lparr>ips_verification_session_account := acc_mut demo_rot_key\<rparr>) demo_new_set RotateSigners demo_st1
     = Inr demo_st6"
proof -
  have "load_acc tracker_of (gw_accounts demo_st1) demo_set_key = Inr demo_tracker"
    by (simp add: gw_load)
  moreover have "system_program_id demo_env = [8]" by (simp add: demo_env_def)
  ultimately show ?thesis
    by (simp add: initialize_payload_verification_session_def demo_session_accs_def acc_defs check_signer_def
        check_mut_def check_program_def check_vacant_def demo_st6_def session_fresh_def)
qed

lemma demo_rot_process:
  "process_signature demo_env (session_fresh demo_set 255) demo_new_set demo_set demo_rot_info = Inr demo_session"
proof -
  have "signature_accepted demo_env demo_new_set demo_set demo_rot_info"
    by (simp add: signature_accepted_def leaf_in_set_def signed_by_def demo_env_def demo_info_def demo_rot_info_def)
  then show ?thesis by (simp add: process_signature_Inr demo_info_def demo_rot_info_def demo_session_def)
qed

lemma demo_rot_verify_ok:
  "verify_signature demo_env (demo_verify_accs\<lparr>vs_verification_session_account := acc_mut demo_rot_key\<rparr>)
     demo_new_set demo_rot_info demo_st6 = Inr demo_st7"
proof -
  have "load_acc tracker_of (gw_accounts demo_st6) demo_set_key = Inr demo_tracker"
    "load_acc session_of (gw_accounts demo_st6) demo_rot_key = Inr (session_fresh demo_set 255)"
    by (simp_all add: gw_load)
  moreover have "vi_payload_type demo_rot_info = RotateSigners" "vl_domain_separator (vi_leaf demo_rot_info) = [12]"
    by (simp_all add: demo_rot_info_def demo_info_def)
  ultimately show ?thesis
    by (simp add: verify_signature_def demo_verify_accs_def acc_defs check_mut_def demo_rot_process demo_st7_def)
qed

definition demo_rotate_accs :: RotateSigners where
  "demo_rotate_accs = \<lparr>rs_gateway_root_pda = acc_mut demo_root_key, rs_verification_session_account = acc demo_rot_key,
     rs_verifier_set_tracker_pda = acc demo_set_key, rs_new_verifier_set_tracker = acc_mut demo_new_key,
     rs_payer = acc_signer_mut [20], rs_system_program = acc [8], rs_operator = None\<rparr>"

lemma demo_rotate_ok: "rotate_signers demo_env demo_view2 demo_rotate_accs demo_new_set demo_st7 = Inr demo_st8"
proof -
  have "load_acc tracker_of (gw_accounts demo_st7) demo_set_key = Inr demo_tracker"
    "load_acc session_of (gw_accounts demo_st7) demo_rot_key = Inr demo_session"
    by (simp_all add: gw_load)
  moreover have "demo_set \<noteq> demo_new_set" by (simp add: demo_set_def demo_new_set_def)
  moreover have "u256_checked_add (current_epoch demo_config) u256_one = Some demo_epoch2"
  proof -
    have "u256_val (current_epoch demo_config) + u256_val u256_one = 2" by (simp add: demo_config_def)
    then show ?thesis unfolding u256_checked_add_def demo_epoch2_def by (simp only:) simp
  qed
  moreover have "current_epoch demo_config = vt_epoch demo_tracker"
    by (simp add: demo_config_def demo_tracker_def)
  moreover have "enough_time_till_next_rotation 1060 demo_config = Inr True"
    by (simp add: enough_time_till_next_rotation_def checked_sub_def demo_config_def)
  moreover have "system_program_id demo_env = [8]" by (simp add: demo_env_def)
  ultimately show ?thesis
    by (simp add: rotate_signers_def demo_rotate_accs_def acc_defs check_mut_def check_signer_def check_program_def
        check_vacant_def u64_of_i64_def demo_view2_def demo_view_def demo_st8_def enforce_rotation_delay_def)
qed

lemma demo_reachable_rotated: "gateway_reachable demo_env demo_st8"
proof -
  have len: "length demo_new_set = 32" by (simp add: demo_new_set_def)
  have "gateway_step demo_env demo_st1 demo_st6"
    by (rule gateway_ix [where view = demo_view and ix = "InitializePayloadVerificationSessionIx
          (demo_session_accs\<lparr>ips_verification_session_account := acc_mut demo_rot_key\<rparr>) demo_new_set RotateSigners"])
      (simp_all add: len demo_rot_session_ok)
  moreover have "gateway_step demo_env demo_st6 demo_st7"
    by (rule gateway_ix [where view = demo_view and ix = "VerifySignatureIx
          (demo_verify_accs\<lparr>vs_verification_session_account := acc_mut demo_rot_key\<rparr>) demo_new_set demo_rot_info"])
      (simp_all add: len demo_rot_verify_ok)
  moreover have "gateway_step demo_env demo_st7 demo_st8"
    by (rule gateway_ix [where view = demo_view2 and ix = "RotateSignersIx demo_rotate_accs demo_new_set"])
      (simp_all add: len demo_rotate_ok)
  ultimately show ?thesis
    using demo_reachable(1) by (meson runs.intros)
qed

end
