(* ===== verification/Gateway_Props.thy ===== *)
theory Gateway_Props
  imports Gateway_Demo
begin

text \<open>
  The properties of the gateway, each with a witness on the concrete run of \<open>Gateway_Demo\<close>.
\<close>

section \<open>Messages\<close>

text \<open>
  C1. Replay protection: along any run of the gateway, each command id is executed at most once,
  and approved at most once.
\<close>

theorem gateway_executes_once:
  assumes "pda_law env" and "pda_inj env" and "gateway_reachable env st"
  shows "distinct (executed_ids (gw_events st)) \<and> distinct (approved_ids (gw_events st))"
  using gateway_full_inv_reachable [OF assms] by (simp add: gateway_full_inv_def once_inv_def)

theorem gateway_executes_once_witness:
  "executed_ids (gw_events demo_st5) = [demo_cid] \<and> distinct (executed_ids (gw_events demo_st5)) \<and>
   distinct (approved_ids (gw_events demo_st5))"
proof -
  have "executed_ids ([] @ [approved_event demo_env demo_message]
      @ [executed_event demo_env demo_message (str_bytes ''D'')]) = [demo_cid]"
    by (simp only: ids_snoc ids_Nil append.assoc [symmetric] event_id_simps) simp
  then show ?thesis
    using gateway_executes_once [OF demo_pda_law demo_pda_inj demo_reachable(4)]
    by (simp add: demo_st5_events)
qed

text \<open>
  Every execution in the log follows an approval of the same message, and hands it to the
  program its destination address names. (Message hashes are assumed collision free.)
\<close>

theorem gateway_execution_follows_approval:
  assumes "pda_law env" and "pda_inj env" and "inj (message_hash env)"
    and "gateway_reachable env st" and "gw_events st = xs @ e # ys" and "executed_id e \<noteq> None"
  shows "\<exists>m dest. e = executed_event env m dest \<and> approved_event env m \<in> set xs \<and>
    pubkey_from_str env (destination_address m) = Some dest"
proof -
  have "execution_of env (set xs) e"
    using gateway_full_inv_reachable [OF assms(1,2,4)] assms(5,6)
    unfolding gateway_full_inv_def executed_after_approved_def by blast
  then show ?thesis
    unfolding execution_of_def using injD [OF assms(3)] by metis
qed

theorem gateway_execution_follows_approval_witness:
  "\<exists>m dest. executed_event demo_env demo_message (str_bytes ''D'') = executed_event demo_env m dest \<and>
     approved_event demo_env m \<in> set [approved_event demo_env demo_message] \<and>
     pubkey_from_str demo_env (destination_address m) = Some dest"
  by (rule gateway_execution_follows_approval [OF demo_pda_law demo_pda_inj demo_hash_inj demo_reachable(4)])
    (simp_all add: demo_st5_events)

text \<open>
  C2. Every approved message was a leaf of a payload tree whose root verifiers of a registered
  set signed for message approval, in distinct slots, with weights reaching the quorum, all
  under the gateway's domain separator.
\<close>

theorem gateway_approval_authorised:
  assumes "pda_law env" and "pda_inj env" and "gateway_reachable env st"
    and "approved_event env m \<in> set (gw_events st)"
  shows "\<exists>(mm :: MerklizedMessage) root p ck c kt t infos. ml_message (mm_leaf mm) = m \<and> config_at st ck c \<and>
     ml_domain_separator (mm_leaf mm) = domain_separator c \<and>
     merkle_proof_from_bytes env (mm_proof mm) = Some p \<and>
     merkle_proof_verify env (Hasher env) p root [unat (ml_position (mm_leaf mm))]
       [message_leaf_hash env (mm_leaf mm)] (unat (ml_set_size (mm_leaf mm))) \<and>
     tracker_at st kt t \<and> distinct (map info_position infos) \<and> quorum_reached 0 infos \<and>
     (\<forall>i \<in> set infos. leaf_in_set env (vt_verifier_set_hash t) i \<and>
        signed_by env (vl_signer_pubkey (vi_leaf i)) (vi_signature i) ApproveMessages root \<and>
        vl_domain_separator (vi_leaf i) = domain_separator c)"
proof -
  have "message_authorised env st m"
    using gateway_full_inv_reachable [OF assms(1-3)] assms(4)
    unfolding gateway_full_inv_def gateway_auth_inv_def authorised_inv_def by blast
  then show ?thesis
    unfolding message_authorised_def quorum_signed_def infos_for_def signature_accepted_def by metis
qed

theorem gateway_approval_authorised_witness:
  "\<exists>(mm :: MerklizedMessage) root p ck c kt t infos. ml_message (mm_leaf mm) = demo_message \<and> config_at demo_st5 ck c \<and>
     ml_domain_separator (mm_leaf mm) = domain_separator c \<and>
     merkle_proof_from_bytes demo_env (mm_proof mm) = Some p \<and>
     merkle_proof_verify demo_env (Hasher demo_env) p root [unat (ml_position (mm_leaf mm))]
       [message_leaf_hash demo_env (mm_leaf mm)] (unat (ml_set_size (mm_leaf mm))) \<and>
     tracker_at demo_st5 kt t \<and> distinct (map info_position infos) \<and> quorum_reached 0 infos \<and>
     (\<forall>i \<in> set infos. leaf_in_set demo_env (vt_verifier_set_hash t) i \<and>
        signed_by demo_env (vl_signer_pubkey (vi_leaf i)) (vi_signature i) ApproveMessages root \<and>
        vl_domain_separator (vi_leaf i) = domain_separator c)"
  by (rule gateway_approval_authorised [OF demo_pda_law demo_pda_inj demo_reachable(4)])
    (simp add: demo_st5_events)

text \<open>
  An approved message whose destination is an address can be executed by the signing
  address of that program: \<open>validate_message\<close> succeeds, emits the execution and marks the
  account executed.
\<close>

theorem approved_message_executable:
  assumes "pda_law env" and "pda_inj env" and "gateway_reachable env st"
    and "message_at st k im" and "is_approved (im_status im)" and "config_at st ck c"
  shows "\<exists>m. approved_event env m \<in> set (gw_events st) \<and>
    (\<forall>dest. pubkey_from_str env (destination_address m) = Some dest \<longrightarrow>
      (\<exists>caller b. try_find_program_address env (validate_message_seeds (command_id env m)) dest = Some (caller, b) \<and>
        validate_message env \<lparr>vm_incoming_message_pda = acc_mut k, vm_caller = acc_signer caller,
          vm_gateway_root_pda = acc ck\<rparr> m st =
        Inr (emit_gw (executed_event env m dest)
              (put_gw k (MessageAcc (im\<lparr>im_status := status_executed\<rparr>)) st))))"
proof -
  have inv: "gateway_full_inv env st"
    by (rule gateway_full_inv_reachable [OF assms(1-3)])
  then obtain m where org: "message_origin env st k im m"
    using assms(4) unfolding gateway_full_inv_def message_inv_def by blast
  have ev: "approved_event env m \<in> set (gw_events st)" using org by (simp add: message_origin_def)
  have run: "\<exists>caller b. try_find_program_address env (validate_message_seeds (command_id env m)) dest = Some (caller, b) \<and>
        validate_message env \<lparr>vm_incoming_message_pda = acc_mut k, vm_caller = acc_signer caller,
          vm_gateway_root_pda = acc ck\<rparr> m st =
        Inr (emit_gw (executed_event env m dest)
              (put_gw k (MessageAcc (im\<lparr>im_status := status_executed\<rparr>)) st))"
    if dest: "pubkey_from_str env (destination_address m) = Some dest" for dest
    by (rule approved_message_validates [OF assms(1) inv org assms(4-6) dest]) blast
  from ev run show ?thesis by blast
qed

theorem approved_message_executable_witness:
  "\<exists>m. approved_event demo_env m \<in> set (gw_events demo_st4) \<and>
    (\<forall>dest. pubkey_from_str demo_env (destination_address m) = Some dest \<longrightarrow>
      (\<exists>caller b. try_find_program_address demo_env (validate_message_seeds (command_id demo_env m)) dest = Some (caller, b) \<and>
        validate_message demo_env \<lparr>vm_incoming_message_pda = acc_mut demo_message_key, vm_caller = acc_signer caller,
          vm_gateway_root_pda = acc demo_root_key\<rparr> m demo_st4 =
        Inr (emit_gw (executed_event demo_env m dest)
              (put_gw demo_message_key (MessageAcc (demo_incoming\<lparr>im_status := status_executed\<rparr>)) demo_st4))))"
  by (rule approved_message_executable [OF demo_pda_law demo_pda_inj demo_reachable(3)])
    (simp_all add: demo_st4_def demo_incoming_def)

section \<open>Sessions\<close>

text \<open>
  C4. Whatever signatures are submitted to a fresh session, it is valid exactly when the weights
  of the accepted ones reach a quorum; and each accepted signature has a slot of its own, a leaf
  in the session's verifier set and a signature of the payload root.
\<close>

theorem session_valid_iff_quorum:
  assumes "process_signatures env root vsr (session_fresh h b) infos = Inr s"
  shows "(is_valid s \<longleftrightarrow> quorum_reached 0 infos) \<and> distinct (map info_position infos) \<and>
    slot_set (session_slots s) = info_position ` set infos \<and>
    (\<forall>i \<in> set infos. signature_accepted env root vsr i) \<and> (infos \<noteq> [] \<longrightarrow> vsr = h)"
  using is_valid_run [OF assms] process_signatures_slots [OF assms] process_signatures_run [OF assms]
  by auto

theorem session_valid_iff_quorum_witness:
  "is_valid demo_session \<and> quorum_reached 0 [demo_info] \<and> slot_set (session_slots demo_session) = {3}"
proof -
  have "process_signatures demo_env demo_payload_root demo_set (session_fresh demo_set 255) [demo_info]
      = Inr demo_session"
    by (simp add: demo_process)
  from session_valid_iff_quorum [OF this] show ?thesis by (simp add: demo_info_def)
qed

lemma map_filter_case:
  "List.map_filter (\<lambda>l. case f l of Some y \<Rightarrow> Some (g l y) | None \<Rightarrow> None) ls =
     map (\<lambda>l. g l (the (f l))) (filter (\<lambda>l. f l \<noteq> None) ls)"
  by (induction ls) (auto simp: map_filter_simps split: option.splits)

text \<open>The infos \<open>encode\<close> writes, one per signed leaf, and what they satisfy.\<close>

definition signed_leaves ::
    "(secp_pubkey \<Rightarrow> ecdsa_signature option) \<Rightarrow> VerifierSetLeaf list \<Rightarrow> VerifierSetLeaf list" where
  "signed_leaves sigs ls = filter (\<lambda>l. sigs (vl_signer_pubkey l) \<noteq> None) ls"

lemma encode_execute_dataE:
  assumes "encode_execute_data env vs sigs ds payload = Inr ed"
  obtains ls tree where "verifier_set_merkle_tree_leaves vs ds = Inr ls"
    "tree = merkle_tree (Hasher env) (map (digest_verifier_set_leaf env) ls)"
    "merkle_tree_root env (Hasher env) tree = Some (ed_signing_verifier_set_merkle_root ed)"
    "ed_signing_verifier_set_leaves ed = map (\<lambda>l.
       \<lparr>vi_signature = the (sigs (vl_signer_pubkey l)), vi_leaf = l,
        vi_merkle_proof = merkle_tree_proof env (Hasher env) tree [unat (vl_position l)],
        vi_payload_type = payload_type_of payload\<rparr>) (signed_leaves sigs ls)"
  using assms that
  by (auto simp: encode_execute_data_def Let_def res_inv map_filter_case signed_leaves_def)

lemma verifier_leaf_in_set:
  assumes law: "merkle_law env" and ls: "verifier_set_merkle_tree_leaves vs ds = Inr ls"
    and tree: "tree = merkle_tree (Hasher env) (map (digest_verifier_set_leaf env) ls)"
    and root: "merkle_tree_root env (Hasher env) tree = Some r"
    and i: "vi_leaf i \<in> set ls"
    and proof_: "vi_merkle_proof i = merkle_tree_proof env (Hasher env) tree [info_position i]"
  shows "leaf_in_set env r i" and "info_position i < length (vs_signers vs)"
    and "vl_quorum (vi_leaf i) = vs_quorum vs"
    and "(vl_signer_pubkey (vi_leaf i), vl_signer_weight (vi_leaf i)) \<in> set (vs_signers vs)"
proof -
  obtain n where n: "n < length ls" "vi_leaf i = ls ! n"
    using i by (metis in_set_conv_nth)
  note len = verifier_set_leaves_nth(1) [OF ls]
  have n': "n < length (vs_signers vs)" using n(1) len by simp
  have pos: "info_position i = n" "unat (vl_set_size (vi_leaf i)) = length tree"
    using verifier_set_leaf_position [OF ls n'] n(2) len by (simp_all add: tree)
  then show "info_position i < length (vs_signers vs)" using n' by simp
  show "vl_quorum (vi_leaf i) = vs_quorum vs"
    and "(vl_signer_pubkey (vi_leaf i), vl_signer_weight (vi_leaf i)) \<in> set (vs_signers vs)"
    using verifier_set_leaves_nth(3) [OF ls n'] n(2) n' by simp_all
  have nt: "n < length tree" using n(1) by (simp add: tree)
  obtain p where "merkle_proof_from_bytes env (merkle_tree_proof env (Hasher env) tree [n]) = Some p"
    and "merkle_proof_verify env (Hasher env) p r [n] [tree ! n] (length tree)"
    using merkle_lawD [OF law root nt] by blast
  moreover have "tree ! n = verifier_set_leaf_hash env (vi_leaf i)"
    using n by (simp add: tree merkle_tree_nth verifier_set_leaf_hash_def)
  ultimately show "leaf_in_set env r i"
    by (simp add: leaf_in_set_def proof_ pos)
qed

lemma signed_leaves_weight:
  assumes "verifier_set_merkle_tree_leaves vs ds = Inr ls"
  shows "sum_list (map (\<lambda>l. unat (vl_signer_weight l)) (signed_leaves sigs ls)) =
      (\<Sum>(pk, w) \<leftarrow> filter (\<lambda>(pk, w). sigs pk \<noteq> None) (vs_signers vs). unat w)"
    and "signed_leaves sigs ls \<noteq> [] \<longleftrightarrow> (\<exists>(pk, w) \<in> set (vs_signers vs). sigs pk \<noteq> None)"
  unfolding verifier_set_leaves_weights [OF assms, symmetric]
  by (auto simp: signed_leaves_def filter_map o_def filter_empty_conv)

text \<open>
  C24. From verifier set to valid session: the execute data a relayer encodes is accepted by a
  session for it, signature by signature, and the session is then valid exactly when the
  weights of the verifiers who signed reach the quorum (for sets within the 256 slots).
\<close>

theorem encoded_execute_data_validates:
  assumes "merkle_law env" and "encode_execute_data env vs sigs ds payload = Inr ed"
    and "length (vs_signers vs) \<le> 256"
    and signed: "\<And>pk w sig. (pk, w) \<in> set (vs_signers vs) \<Longrightarrow> sigs pk = Some sig \<Longrightarrow>
      signed_by env pk sig (payload_type_of payload) (ed_payload_merkle_root ed)"
  shows "\<exists>s. process_signatures env (ed_payload_merkle_root ed) (ed_signing_verifier_set_merkle_root ed)
      (session_fresh (ed_signing_verifier_set_merkle_root ed) b) (ed_signing_verifier_set_leaves ed) = Inr s \<and>
    (is_valid s \<longleftrightarrow> (\<exists>(pk, w) \<in> set (vs_signers vs). sigs pk \<noteq> None) \<and>
      unat (vs_quorum vs) \<le> (\<Sum>(pk, w) \<leftarrow> filter (\<lambda>(pk, w). sigs pk \<noteq> None) (vs_signers vs). unat w))"
  using assms(2)
proof (rule encode_execute_dataE)
  fix ls tree
  let ?infos = "ed_signing_verifier_set_leaves ed" and ?r = "ed_signing_verifier_set_merkle_root ed"
  assume ls: "verifier_set_merkle_tree_leaves vs ds = Inr ls"
    and tree: "tree = merkle_tree (Hasher env) (map (digest_verifier_set_leaf env) ls)"
    and root: "merkle_tree_root env (Hasher env) tree = Some ?r"
    and infos: "?infos = map (\<lambda>l.
       \<lparr>vi_signature = the (sigs (vl_signer_pubkey l)), vi_leaf = l,
        vi_merkle_proof = merkle_tree_proof env (Hasher env) tree [unat (vl_position l)],
        vi_payload_type = payload_type_of payload\<rparr>) (signed_leaves sigs ls)"
  have facts: "leaf_in_set env ?r i" "info_position i < 256" "info_quorum i = unat (vs_quorum vs)"
    "signature_accepted env (ed_payload_merkle_root ed) ?r i" if i: "i \<in> set ?infos" for i
  proof -
    have leaf: "vi_leaf i \<in> set ls" "sigs (vl_signer_pubkey (vi_leaf i)) = Some (vi_signature i)"
      "vi_payload_type i = payload_type_of payload"
      "vi_merkle_proof i = merkle_tree_proof env (Hasher env) tree [info_position i]"
      using i by (auto simp: infos signed_leaves_def)
    note f = verifier_leaf_in_set [OF assms(1) ls tree root leaf(1,4)]
    from f(1-3) assms(3) show "leaf_in_set env ?r i" "info_position i < 256" "info_quorum i = unat (vs_quorum vs)"
      by simp_all
    then show "signature_accepted env (ed_payload_merkle_root ed) ?r i"
      using signed [OF f(4) leaf(2)] leaf(3) by (simp add: signature_accepted_def)
  qed
  have "map info_position ?infos = map (\<lambda>l. unat (vl_position l)) (signed_leaves sigs ls)"
    by (simp add: infos o_def)
  then have dist: "distinct (map info_position ?infos)"
    using verifier_set_leaves_positions [OF ls] by (simp add: signed_leaves_def distinct_map_filter)
  obtain s where s: "process_signatures env (ed_payload_merkle_root ed) ?r (session_fresh ?r b) ?infos = Inr s"
    using process_signatures_ok [of ?infos env "ed_payload_merkle_root ed" ?r "session_fresh ?r b"] facts dist
    by auto
  have "is_valid s \<longleftrightarrow> ?infos \<noteq> [] \<and> unat (vs_quorum vs) \<le> sum_list (map info_weight ?infos)"
    using is_valid_run [OF s] quorum_reached_uniform [of ?infos "unat (vs_quorum vs)" 0] facts(3) by simp
  moreover have "map info_weight ?infos = map (\<lambda>l. unat (vl_signer_weight l)) (signed_leaves sigs ls)"
    and "?infos \<noteq> [] \<longleftrightarrow> signed_leaves sigs ls \<noteq> []"
    by (simp_all add: infos o_def)
  ultimately show ?thesis
    using s signed_leaves_weight [OF ls] by (simp add: o_def)
qed

definition demo_verifier_set :: VerifierSet where
  "demo_verifier_set = \<lparr>vs_nonce = 1, vs_signers = [([30], 7), ([31], 2)], vs_quorum = 5\<rparr>"

definition demo_sigs :: "secp_pubkey \<Rightarrow> ecdsa_signature option" where
  "demo_sigs pk = (if pk = [30] then Some [30, 0] else None)"

lemma demo_merkle_law: "merkle_law demo_env"
  by (simp add: merkle_law_def demo_env_def)

theorem encoded_execute_data_validates_witness:
  "\<exists>ed s. encode_execute_data demo_env demo_verifier_set demo_sigs [12] (Messages [demo_message]) = Inr ed \<and>
     process_signatures demo_env (ed_payload_merkle_root ed) (ed_signing_verifier_set_merkle_root ed)
      (session_fresh (ed_signing_verifier_set_merkle_root ed) 255) (ed_signing_verifier_set_leaves ed) = Inr s \<and>
     is_valid s"
proof -
  obtain ed where ed: "encode_execute_data demo_env demo_verifier_set demo_sigs [12] (Messages [demo_message]) = Inr ed"
    by (auto simp: encode_execute_data_def verifier_set_merkle_tree_leaves_def message_merkle_tree_leaves_def
        hash_payload_internal_def u16_of_len_def merkle_tree_def demo_env_def demo_verifier_set_def Let_def)
  have signed: "signed_by demo_env pk sig (payload_type_of (Messages [demo_message])) (ed_payload_merkle_root ed)"
    if "(pk, w) \<in> set (vs_signers demo_verifier_set)" "demo_sigs pk = Some sig" for pk w sig
    using that by (auto simp: demo_sigs_def signed_by_def demo_env_def split: if_splits)
  have "length (vs_signers demo_verifier_set) \<le> 256" by (simp add: demo_verifier_set_def)
  from encoded_execute_data_validates [OF demo_merkle_law ed this signed, where b = 255] ed
  show ?thesis by (auto simp: demo_verifier_set_def demo_sigs_def)
qed

text \<open>
  A signature made for one payload type is never a signature for the other: with a collision
  free hash, the digests verifiers sign determine both the payload type and the root.
\<close>

theorem signed_digest_separates_payload_types:
  assumes "inj (keccak env)"
    and "prefixed_message_hash_payload_type env pt root = prefixed_message_hash_payload_type env pt' root'"
  shows "pt = pt' \<and> root = root'"
  using injD [OF assms(1), of "concat [SOLANA_OFFCHAIN_PREFIX, [payload_type_byte pt], root]"
      "concat [SOLANA_OFFCHAIN_PREFIX, [payload_type_byte pt'], root']"] assms(2)
  by (simp add: prefixed_message_hash_payload_type_def hashv_def)

theorem signed_digest_separates_payload_types_witness:
  "prefixed_message_hash_payload_type demo_env ApproveMessages [1] \<noteq>
   prefixed_message_hash_payload_type demo_env RotateSigners [1]"
proof -
  have "inj (keccak demo_env)" by (simp add: demo_env_def inj_def)
  from signed_digest_separates_payload_types [OF this, of ApproveMessages "[1]" RotateSigners "[1]"]
  show ?thesis by auto
qed

section \<open>Verifier set rotation\<close>

text \<open>
  C21. Every rotation in the log was signed, for rotation, by a quorum of a set registered before
  the new one, and installed the new set under the epoch it announces.
\<close>

theorem gateway_rotation_authorised:
  assumes "pda_law env" and "pda_inj env" and "gateway_reachable env st"
    and "VerifierSetRotatedEvent e root \<in> set (gw_events st)"
  shows "\<exists>ck c kt t nk nt. config_at st ck c \<and> tracker_at st kt t \<and>
     quorum_signed env root RotateSigners (domain_separator c) (vt_verifier_set_hash t) \<and>
     u256_val (vt_epoch t) < u256_val e \<and>
     tracker_at st nk nt \<and> vt_verifier_set_hash nt = root \<and> vt_epoch nt = e"
  using gateway_full_inv_reachable [OF assms(1-3)] assms(4)
  unfolding gateway_full_inv_def gateway_auth_inv_def authorised_inv_def rotation_authorised_def by blast

theorem gateway_rotation_authorised_witness:
  "\<exists>ck c kt t nk nt. config_at demo_st8 ck c \<and> tracker_at demo_st8 kt t \<and>
     quorum_signed demo_env demo_new_set RotateSigners (domain_separator c) (vt_verifier_set_hash t) \<and>
     u256_val (vt_epoch t) < u256_val demo_epoch2 \<and>
     tracker_at demo_st8 nk nt \<and> vt_verifier_set_hash nt = demo_new_set \<and> vt_epoch nt = demo_epoch2"
  by (rule gateway_rotation_authorised [OF demo_pda_law demo_pda_inj demo_reachable_rotated])
    (simp add: demo_st8_def)

text \<open>
  C25. Epochs: in every reachable state the trackers carry the epochs from 1 to the current one,
  one tracker each, and distinct trackers hold distinct verifier sets.
\<close>

theorem gateway_epochs_bijective:
  assumes "gateway_reachable env st" and "config_at st ck c"
  shows "bij_betw (\<lambda>k. u256_val (vt_epoch (the (tracker_of (the (gw_accounts st k))))))
      {k. \<exists>t. tracker_at st k t} {1 .. u256_val (current_epoch c)} \<and>
    (\<forall>k t k' t'. tracker_at st k t \<longrightarrow> tracker_at st k' t' \<longrightarrow>
       vt_verifier_set_hash t = vt_verifier_set_hash t' \<longrightarrow> k = k')"
proof -
  have inv: "tracker_inv env st" "config_inv env st"
    using gateway_inv_reachable [OF assms(1)] by (simp_all add: gateway_inv_def)
  let ?ep = "\<lambda>k. u256_val (vt_epoch (the (tracker_of (the (gw_accounts st k)))))"
  have "inj_on ?ep {k. \<exists>t. tracker_at st k t}"
  proof (rule inj_onI)
    fix k k' assume "k \<in> {k. \<exists>t. tracker_at st k t}" "k' \<in> {k. \<exists>t. tracker_at st k t}" and eq: "?ep k = ?ep k'"
    then obtain t t' where t: "tracker_at st k t" "tracker_at st k' t'" by blast
    with eq have "vt_epoch t = vt_epoch t'" by (simp add: u256_val_inj)
    then show "k = k'" by (rule tracker_invD(4) [OF inv(1) t])
  qed
  moreover have "?ep ` {k. \<exists>t. tracker_at st k t} = {1 .. u256_val (current_epoch c)}"
  proof
    show "?ep ` {k. \<exists>t. tracker_at st k t} \<subseteq> {1 .. u256_val (current_epoch c)}"
    proof
      fix n assume "n \<in> ?ep ` {k. \<exists>t. tracker_at st k t}"
      then obtain k t where t: "tracker_at st k t" and n: "n = ?ep k" by blast
      obtain ck' c' where "config_at st ck' c'"
          "1 \<le> u256_val (vt_epoch t) \<and> u256_val (vt_epoch t) \<le> u256_val (current_epoch c')"
        using tracker_invD(3) [OF inv(1) t] by blast
      with config_inv_unique [OF inv(2) assms(2)] t n
      show "n \<in> {1 .. u256_val (current_epoch c)}" by fastforce
    qed
    show "{1 .. u256_val (current_epoch c)} \<subseteq> ?ep ` {k. \<exists>t. tracker_at st k t}"
    proof
      fix n assume "n \<in> {1 .. u256_val (current_epoch c)}"
      then obtain k t where "tracker_at st k t" "u256_val (vt_epoch t) = n"
        using tracker_invD(5) [OF inv(1) assms(2), of n] by auto
      then show "n \<in> ?ep ` {k. \<exists>t. tracker_at st k t}" by (intro image_eqI [of _ _ k]) auto
    qed
  qed
  ultimately have "bij_betw ?ep {k. \<exists>t. tracker_at st k t} {1 .. u256_val (current_epoch c)}"
    by (simp add: bij_betw_def)
  moreover have "k = k'" if "tracker_at st k t" "tracker_at st k' t'"
      "vt_verifier_set_hash t = vt_verifier_set_hash t'" for k t k' t'
    using tracker_invD(2) [OF inv(1) that(1)] tracker_invD(2) [OF inv(1) that(2)] that(3) by simp
  ultimately show ?thesis by blast
qed

theorem gateway_epochs_bijective_witness:
  "bij_betw (\<lambda>k. u256_val (vt_epoch (the (tracker_of (the (gw_accounts demo_st1 k))))))
     {k. \<exists>t. tracker_at demo_st1 k t} {1 .. u256_val (current_epoch demo_config)}"
  using gateway_epochs_bijective [OF demo_reachable(1), of demo_root_key demo_config] by simp

text \<open>
  C22. A rotation that succeeds rests on a session that reached its quorum for the rotation to exactly the
  new set, and the tracker passed is that of the set which signed the session, at the address of that
  set, still within the retention and other than the new one. Without the operator's
  signature that set is the latest one and the rotation comes at least the minimum delay after the last
  one. In every case the epoch grows by one, the clock is recorded, the new set is registered with the new epoch, and
  nothing else changes.
\<close>

theorem rotate_signers_delay:
  assumes "rotate_signers env view a root st = Inr st'"
  shows "\<exists>c c' s t b.
    (let ck = ai_key (rs_gateway_root_pda a); sk = ai_key (rs_verification_session_account a);
         kt = ai_key (rs_verifier_set_tracker_pda a); nk = ai_key (rs_new_verifier_set_tracker a) in
    config_at st ck c \<and> session_at st sk s \<and> is_valid s \<and>
    create_program_address env (session_seeds root RotateSigners (session_hash s) @ [[sd_bump s]]) (gateway_id env) = Some sk \<and>
    tracker_at st kt t \<and> vt_verifier_set_hash t = session_hash s \<and> session_hash s \<noteq> root \<and>
    create_program_address env (tracker_seeds (session_hash s) @ [[vt_bump t]]) (gateway_id env) = Some kt \<and>
    u256_val (vt_epoch t) \<le> u256_val (current_epoch c) \<and>
    u256_val (current_epoch c) < u256_val (vt_epoch t) + u256_val (previous_verifier_set_retention c) \<and>
    ((\<forall>op. rs_operator a = Some op \<longrightarrow> ai_key op \<noteq> gc_operator c \<or> \<not> ai_signer op) \<longrightarrow>
       vt_epoch t = current_epoch c \<and>
       unat (last_rotation_timestamp c) + unat (minimum_rotation_delay c) \<le> unat (unix_timestamp view)) \<and>
    u256_val (current_epoch c') = u256_val (current_epoch c) + 1 \<and>
    c' = c\<lparr>last_rotation_timestamp := unix_timestamp view, current_epoch := current_epoch c'\<rparr> \<and>
    config_at st' ck c' \<and> try_find_program_address env (tracker_seeds root) (gateway_id env) = Some (nk, b) \<and>
    gw_accounts st nk = None \<and>
    gw_accounts st' = (gw_accounts st)(ck \<mapsto> ConfigAcc c',
      nk \<mapsto> TrackerAcc \<lparr>vt_bump = b, vt_epoch = current_epoch c', vt_verifier_set_hash = root\<rparr>) \<and>
    gw_events st' = gw_events st @ [VerifierSetRotatedEvent (current_epoch c') root])"
  using assms
proof (rule rotate_signersE)
  fix ck sk kt nk c s t nb e
  assume keys: "ck = ai_key (rs_gateway_root_pda a)" "sk = ai_key (rs_verification_session_account a)"
      "kt = ai_key (rs_verifier_set_tracker_pda a)" "nk = ai_key (rs_new_verifier_set_tracker a)"
    and c: "config_at st ck c" and s: "session_at st sk s" "is_valid s"
      "create_program_address env (session_seeds root RotateSigners (session_hash s) @ [[sd_bump s]]) (gateway_id env) = Some sk"
    and t: "tracker_at st kt t" "vt_verifier_set_hash t = session_hash s" "vt_verifier_set_hash t \<noteq> root"
      "create_program_address env (tracker_seeds (session_hash s) @ [[vt_bump t]]) (gateway_id env) = Some kt"
    and nk: "try_find_program_address env (tracker_seeds root) (gateway_id env) = Some (nk, nb)" "gw_accounts st nk = None"
    and valid: "assert_valid_epoch c (vt_epoch t) = Inr ()"
    and latest: "enforce_rotation_delay (rs_operator a) c \<Longrightarrow> current_epoch c = vt_epoch t"
    and enough: "enforce_rotation_delay (rs_operator a) c \<Longrightarrow>
       enough_time_till_next_rotation (unix_timestamp view) c = Inr True"
    and add: "u256_checked_add (current_epoch c) u256_one = Some e"
    and st': "st' = emit_gw (VerifierSetRotatedEvent e root)
          (put_gw nk (TrackerAcc \<lparr>vt_bump = nb, vt_epoch = e, vt_verifier_set_hash = root\<rparr>)
          (put_gw ck (ConfigAcc (c\<lparr>last_rotation_timestamp := unix_timestamp view, current_epoch := e\<rparr>)) st))"
  have delay: "unat (last_rotation_timestamp c) + unat (minimum_rotation_delay c) \<le> unat (unix_timestamp view)"
    if "enforce_rotation_delay (rs_operator a) c"
    using enough [OF that]
    by (auto simp: enough_time_till_next_rotation_def res_inv arith_ops word_le_nat_alt)
  have "enforce_rotation_delay (rs_operator a) c"
    if "\<forall>op. rs_operator a = Some op \<longrightarrow> ai_key op \<noteq> gc_operator c \<or> \<not> ai_signer op"
    using that by (auto simp: enforce_rotation_delay_def split: option.splits)
  moreover have "u256_val e = u256_val (current_epoch c) + 1"
    using add by (simp add: arith_ops)
  moreover have "config_at st' ck (c\<lparr>last_rotation_timestamp := unix_timestamp view, current_epoch := e\<rparr>)"
    using c nk by (auto simp: st')
  moreover have "u256_val (vt_epoch t) \<le> u256_val (current_epoch c)"
    "u256_val (current_epoch c) < u256_val (vt_epoch t) + u256_val (previous_verifier_set_retention c)"
    using valid by (auto simp: assert_valid_epoch_Inr)
  ultimately show ?thesis
    using c s t nk delay latest unfolding keys [symmetric] Let_def
    by (intro exI [of _ c] exI [of _ "c\<lparr>last_rotation_timestamp := unix_timestamp view, current_epoch := e\<rparr>"]
        exI [of _ s] exI [of _ t] exI [of _ nb]) (auto simp: st')
qed

theorem rotate_signers_delay_witness:
  "\<exists>c'. config_at demo_st8 demo_root_key c' \<and> u256_val (current_epoch c') = 2"
  using rotate_signers_delay [OF demo_rotate_ok]
  by (auto simp: Let_def demo_rotate_accs_def acc_defs demo_config_def)

text \<open>
  A verifier set is usable exactly while fewer than \<open>retention\<close> rotations have happened since
  it was installed; a set of a future epoch is refused with an overflow error.
\<close>

theorem assert_valid_epoch_spec:
  "assert_valid_epoch c e =
     (if u256_val (current_epoch c) < u256_val e then Inl (GatewayE EpochCalculationOverflow)
      else if u256_val (current_epoch c) < u256_val e + u256_val (previous_verifier_set_retention c) then Inr ()
      else Inl (GatewayE VerifierSetTooOld))"
proof -
  have "u256_val (current_epoch c) - u256_val e < 2 ^ 256"
    using u256_val_bound [of "current_epoch c"] by (rule order.strict_trans1 [rotated]) simp
  then have v: "u256_val (u256_of_val (u256_val (current_epoch c) - u256_val e)) = u256_val (current_epoch c) - u256_val e"
    by (rule u256_val_of_val)
  show ?thesis
    by (auto simp: assert_valid_epoch_def u256_checked_sub_def less_eq_U256_def u256_le_def v require_def)
qed

section \<open>Configuration and calls\<close>

text \<open>
  The gateway is initialized by the program's upgrade authority only, and once: in every
  reachable state that has a configuration, a further initialization fails.
\<close>

theorem initialize_config_once:
  assumes "gateway_reachable env st" and "initialize_config env view a params st = Inr st'"
  shows "(\<forall>k c. \<not> config_at st k c) \<and> ai_signer (ic_upgrade_authority a) \<and>
    (\<exists>k b. try_find_program_address env [gateway_id env] (loader_upgradeable_id env) = Some (k, b) \<and>
       program_data_authority view k = Some (Some (ai_key (ic_upgrade_authority a)))) \<and>
    (\<exists>k c. config_at st' k c \<and> gc_operator c = icp_operator params \<and>
       domain_separator c = icp_domain_separator params \<and> current_epoch c = u256_from_u64 1)"
  using assms(2)
proof (rule initialize_configE)
  fix root trk rb tb b
  assume find: "try_find_program_address env gateway_config_seeds (gateway_id env) = Some (root, rb)"
    and vacant: "gw_accounts st root = None"
    and pd: "try_find_program_address env [gateway_id env] (loader_upgradeable_id env) = Some (ai_key (ic_program_data a), b)"
      "program_data_authority view (ai_key (ic_program_data a)) = Some (Some (ai_key (ic_upgrade_authority a)))"
      "ai_signer (ic_upgrade_authority a)"
    and ne: "trk \<noteq> root"
    and st': "st' = put_gw trk (TrackerAcc
            \<lparr>vt_bump = tb, vt_epoch = u256_from_u64 1, vt_verifier_set_hash = icp_initial_verifier_set_hash params\<rparr>)
          (put_gw root (ConfigAcc
            \<lparr>current_epoch = u256_from_u64 1, previous_verifier_set_retention = icp_previous_verifier_retention params,
             minimum_rotation_delay = icp_minimum_rotation_delay params,
             last_rotation_timestamp = unix_timestamp view, gc_operator = icp_operator params,
             domain_separator = icp_domain_separator params, gc_bump = rb\<rparr>) st)"
  have none: "\<not> config_at st k c" for k c
    using gateway_inv_reachable [OF assms(1)] config_invD [of env st k c] find vacant
    by (auto simp: gateway_inv_def)
  have "\<exists>c. config_at st' root c \<and> gc_operator c = icp_operator params \<and>
       domain_separator c = icp_domain_separator params \<and> current_epoch c = u256_from_u64 1"
    using ne by (simp add: st')
  with none pd show ?thesis by blast
qed

theorem initialize_config_once_witness:
  "\<exists>k c. config_at demo_st1 k c \<and> gc_operator c = [10] \<and> domain_separator c = [12] \<and> current_epoch c = u256_from_u64 1"
  using initialize_config_once [OF runs_refl demo_init_ok] by (simp add: demo_params_def)

text \<open>
  Operatorship moves only by the signature of the current operator or of the upgrade
  authority, to a different key; the event names the new operator.
\<close>

theorem transfer_operatorship_authorised:
  assumes "transfer_operatorship env view a st = Inr st'"
  shows "\<exists>c. config_at st (ai_key (to_gateway_root_pda a)) c \<and> ai_signer (to_operator_or_upgrade_authority a) \<and>
    (ai_key (to_operator_or_upgrade_authority a) = gc_operator c \<or>
     program_data_authority view (ai_key (to_program_data a)) =
       Some (Some (ai_key (to_operator_or_upgrade_authority a)))) \<and>
    ai_key (to_new_operator a) \<noteq> gc_operator c \<and>
    config_at st' (ai_key (to_gateway_root_pda a)) (c\<lparr>gc_operator := ai_key (to_new_operator a)\<rparr>) \<and>
    gw_events st' = gw_events st @ [OperatorshipTransferredEvent (ai_key (to_new_operator a))]"
  using assms by (auto elim!: transfer_operatorshipE)

theorem transfer_operatorship_authorised_witness:
  "\<exists>st'. transfer_operatorship demo_env demo_view
       \<lparr>to_gateway_root_pda = acc_mut demo_root_key, to_operator_or_upgrade_authority = acc_signer [10],
        to_program_data = acc [1, 255, 7], to_new_operator = acc [99]\<rparr> demo_st1 = Inr st' \<and>
     config_at st' demo_root_key (demo_config\<lparr>gc_operator := [99]\<rparr>)"
proof -
  let ?a = "\<lparr>to_gateway_root_pda = acc_mut demo_root_key, to_operator_or_upgrade_authority = acc_signer [10],
        to_program_data = acc [1, 255, 7], to_new_operator = acc [99]\<rparr>"
  have "load_program_data demo_env demo_view (gateway_id demo_env) [1, 255, 7] = Inr (Some [9])"
    by (simp add: demo_env_simps)
  then obtain st' where st': "transfer_operatorship demo_env demo_view ?a demo_st1 = Inr st'"
    by (simp add: transfer_operatorship_def acc_defs check_mut_def check_signer_def) (simp add: demo_config_def)
  from transfer_operatorship_authorised [OF this] st' show ?thesis
    by (auto simp: acc_defs)
qed

text \<open>
  The sender of a recorded contract call signed it: directly, or through the call-contract
  address that only the sending program can sign for; the payload is recorded with its hash.
\<close>

theorem call_contract_sender_authentic:
  assumes "call_contract env a dest_chain dest_address payload bump st = Inr st'"
  shows "(ai_signer (cc_caller a) \<or>
      (\<exists>pda. cc_signing_pda a = Some pda \<and> ai_signer pda \<and>
         create_program_address env [CALL_CONTRACT_SEED, [bump]] (ai_key (cc_caller a)) = Some (ai_key pda))) \<and>
    gw_accounts st' = gw_accounts st \<and>
    gw_events st' = gw_events st @
      [CallContractEvent (ai_key (cc_caller a)) (keccak env payload) dest_chain dest_address payload]"
  using assms by (auto elim!: call_contractE)

theorem call_contract_sender_authentic_witness:
  "\<exists>st'. call_contract demo_env \<lparr>cc_caller = acc [50],
       cc_signing_pda = Some (acc_signer (CALL_CONTRACT_SEED @ [255, 50])), cc_gateway_root_pda = acc demo_root_key\<rparr>
       ''ethereum'' ''0x1'' [1, 2] 255 demo_st1 = Inr st' \<and>
     gw_events st' = [CallContractEvent [50] [1, 2] ''ethereum'' ''0x1'' [1, 2]]"
proof -
  let ?a = "\<lparr>cc_caller = acc [50], cc_signing_pda = Some (acc_signer (CALL_CONTRACT_SEED @ [255, 50])),
    cc_gateway_root_pda = acc demo_root_key\<rparr>"
  have "CallContractSigner_create_pda demo_env 255 [50] = Inr (CALL_CONTRACT_SEED @ [255, 50])"
    by (simp add: CallContractSigner_create_pda_def demo_env_def)
  then obtain st' where st': "call_contract demo_env ?a ''ethereum'' ''0x1'' [1, 2] 255 demo_st1 = Inr st'"
    by (simp add: call_contract_def acc_defs check_signer_def)
  moreover have "gw_events demo_st1 = []" by (simp add: demo_st1_def gateway_empty_def)
  ultimately show ?thesis
    using call_contract_sender_authentic [OF st'] by (simp add: acc_defs demo_env_def)
qed

end
