(* ===== verification/Payload.thy ===== *)
theory Payload
  imports Platform
begin

text \<open>
  The payload a destination program receives (\<open>programs/solana-axelar-gateway/src/payload\<close>): the
  account representation and its conversions, the Borsh form with its hand-written decoder that
  borrows the payload bytes, the ABI form with its hand-written extraction, and the scheme byte
  in front.
\<close>

section \<open>Accounts (\<open>accounts.rs\<close>)\<close>

record SolanaAccountRepr =
  sar_pubkey :: pubkey
  sar_is_signer :: bool
  sar_is_writable :: bool

text \<open>
  \<open>AccountInfo\<close> and \<open>AccountMeta\<close> carry the same three fields, so one conversion stands for
  \<open>From<&AccountInfo>\<close>, \<open>From<&AccountMeta>\<close> and \<open>From<AccountMeta>\<close>.
\<close>

definition repr_of_account :: "account_info \<Rightarrow> SolanaAccountRepr" where
  "repr_of_account a = \<lparr>sar_pubkey = ai_key a, sar_is_signer = ai_signer a, sar_is_writable = ai_writable a\<rparr>"

definition meta_of_repr :: "SolanaAccountRepr \<Rightarrow> account_info" where
  "meta_of_repr r = \<lparr>ai_key = sar_pubkey r, ai_signer = sar_is_signer r, ai_writable = sar_is_writable r\<rparr>"

definition repr_eq_account :: "SolanaAccountRepr \<Rightarrow> account_info \<Rightarrow> bool" where
  "repr_eq_account r a \<longleftrightarrow>
     sar_pubkey r = ai_key a \<and> sar_is_signer r = ai_signer a \<and> sar_is_writable r = ai_writable a"

lemma repr_meta_inverse [simp]:
  "repr_of_account (meta_of_repr r) = r" "meta_of_repr (repr_of_account a) = a"
  by (simp_all add: repr_of_account_def meta_of_repr_def)

lemma repr_eq_account_iff: "repr_eq_account r a \<longleftrightarrow> r = repr_of_account a"
  by (cases r) (auto simp: repr_eq_account_def repr_of_account_def)

section \<open>Codecs\<close>

text \<open>
  A self-delimiting codec: decoding an encoding in front of anything gives the value and the
  rest, and what decodes was encoded.
\<close>

locale codec =
  fixes enc :: "'x \<Rightarrow> bytes" and dec :: "bytes \<Rightarrow> ('x \<times> bytes) option" and ok :: "'x \<Rightarrow> bool"
  assumes dec_enc: "ok x \<Longrightarrow> dec (enc x @ rest) = Some (x, rest)"
    and dec_sound: "dec bs = Some (x, rest) \<Longrightarrow> bs = enc x @ rest \<and> ok x"
begin

lemma enc_inj: "ok x \<Longrightarrow> ok y \<Longrightarrow> enc x @ r = enc y @ r' \<Longrightarrow> x = y \<and> r = r'"
  by (metis Pair_inject dec_enc option.inject)

lemma dec_iff: "dec bs = Some (x, rest) \<longleftrightarrow> ok x \<and> bs = enc x @ rest"
  using dec_enc dec_sound by blast

end

section \<open>Borsh (\<open>borsh.rs\<close>)\<close>

text \<open>\<open>impl AnchorSerialize for SolanaAccountRepr\<close>: the key, then one byte of flags.\<close>

definition u8_of_bool :: "bool \<Rightarrow> u8" where
  "u8_of_bool b = (if b then 1 else 0)"

definition repr_serialize :: "SolanaAccountRepr \<Rightarrow> bytes" where
  "repr_serialize r =
     sar_pubkey r @ [u8_of_bool (sar_is_signer r) OR push_bit 1 (u8_of_bool (sar_is_writable r))]"

text \<open>\<open>read_exact\<close> fails when fewer bytes are left.\<close>

definition repr_deserialize :: "bytes \<Rightarrow> (SolanaAccountRepr \<times> bytes) option" where
  "repr_deserialize bs =
     (case split_checked 32 bs of
        None \<Rightarrow> None
      | Some (key, bs') \<Rightarrow>
          (case bs' of
             [] \<Rightarrow> None
           | flags # rest \<Rightarrow>
               if 3 < flags then None
               else Some (\<lparr>sar_pubkey = key, sar_is_signer = (flags AND 1 = 1),
                           sar_is_writable = (drop_bit 1 flags = 1)\<rparr>, rest)))"

definition repr_ok :: "SolanaAccountRepr \<Rightarrow> bool" where
  "repr_ok r \<longleftrightarrow> length (sar_pubkey r) = 32"

lemma flags_cases: "flags \<le> 3 \<Longrightarrow> flags = 0 \<or> flags = 1 \<or> flags = 2 \<or> flags = (3 :: u8)"
proof -
  assume "flags \<le> 3"
  then have "unat flags \<le> 3" by (simp add: word_le_nat_alt)
  then have "unat flags = 0 \<or> unat flags = 1 \<or> unat flags = 2 \<or> unat flags = 3" by linarith
  then show ?thesis by (auto simp: word_unat_eq_iff)
qed

lemma repr_dec_enc: "repr_ok r \<Longrightarrow> repr_deserialize (repr_serialize r @ rest) = Some (r, rest)"
  by (cases r) (auto simp: repr_deserialize_def repr_serialize_def repr_ok_def u8_of_bool_def)

lemma repr_dec_sound: "repr_deserialize bs = Some (r, rest) \<Longrightarrow> bs = repr_serialize r @ rest \<and> repr_ok r"
proof -
  assume dec: "repr_deserialize bs = Some (r, rest)"
  then obtain key flags where bs: "bs = key @ flags # rest" "length key = 32" and le: "flags \<le> 3"
    and r: "r = \<lparr>sar_pubkey = key, sar_is_signer = (flags AND 1 = 1), sar_is_writable = (drop_bit 1 flags = 1)\<rparr>"
    by (auto simp: repr_deserialize_def split_checked_Some not_less split: option.splits list.splits if_splits)
  from flags_cases [OF le] have "u8_of_bool (flags AND 1 = 1) OR push_bit 1 (u8_of_bool (drop_bit 1 flags = 1)) = flags"
    by (auto simp: u8_of_bool_def)
  with bs r show ?thesis by (simp add: repr_serialize_def repr_ok_def)
qed

interpretation repr: codec repr_serialize repr_deserialize repr_ok
  by unfold_locales (simp_all add: repr_dec_enc repr_dec_sound)

text \<open>
  What the payload module takes from the Borsh and ABI crates, as parameters: writing a byte
  slice, writing and reading a vector of a given element codec, and the ABI form of the
  \<open>SolanaGatewayPayload\<close> struct with its decoder to tokens.
\<close>

record payload_lib =
  borsh_write_slice :: "bytes \<Rightarrow> bytes option"
  borsh_write_vec :: "(SolanaAccountRepr \<Rightarrow> bytes) \<Rightarrow> SolanaAccountRepr list \<Rightarrow> bytes option"
  borsh_vec_try_from_slice ::
    "(bytes \<Rightarrow> (SolanaAccountRepr \<times> bytes) option) \<Rightarrow> bytes \<Rightarrow> SolanaAccountRepr list option"
  abi_encode_params :: "bytes \<Rightarrow> SolanaAccountRepr list \<Rightarrow> bytes"
  abi_decode_sequence :: "bytes \<Rightarrow> (bytes \<times> (bytes \<times> bytes \<times> bytes) list) option"

datatype EncodingScheme = Borsh | AbiEncoding

text \<open>\<open>#[derive(FromPrimitive, ToPrimitive)]\<close>.\<close>

fun scheme_to_u8 :: "EncodingScheme \<Rightarrow> u8" where
  "scheme_to_u8 Borsh = 0"
| "scheme_to_u8 AbiEncoding = 1"

definition scheme_from_u8 :: "u8 \<Rightarrow> EncodingScheme option" where
  "scheme_from_u8 b = (if b = 0 then Some Borsh else if b = 1 then Some AbiEncoding else None)"

record AxelarMessagePayload =
  payload_without_accounts :: bytes
  solana_accounts :: "SolanaAccountRepr list"
  encoding_scheme :: EncodingScheme

definition axelar_payload_new ::
    "('t \<Rightarrow> SolanaAccountRepr) \<Rightarrow> bytes \<Rightarrow> 't list \<Rightarrow> EncodingScheme \<Rightarrow> AxelarMessagePayload" where
  "axelar_payload_new into payload accounts scheme =
     \<lparr>payload_without_accounts = payload, solana_accounts = map into accounts, encoding_scheme = scheme\<rparr>"

definition account_meta :: "AxelarMessagePayload \<Rightarrow> account_info list" where
  "account_meta p = map meta_of_repr (solana_accounts p)"

definition encoding_scheme_prefixed_array :: "AxelarMessagePayload \<Rightarrow> bytes" where
  "encoding_scheme_prefixed_array p = [scheme_to_u8 (encoding_scheme p)]"

definition encode_borsh :: "payload_lib \<Rightarrow> AxelarMessagePayload \<Rightarrow> bytes result" where
  "encode_borsh lib p =
     res_bind (ok_or (borsh_write_slice lib (payload_without_accounts p)) (GatewayE BorshSerializeError)) (\<lambda>a.
     res_bind (ok_or (borsh_write_vec lib repr_serialize (solana_accounts p)) (GatewayE BorshSerializeError)) (\<lambda>b.
     Inr (encoding_scheme_prefixed_array p @ a @ b)))"

text \<open>
  The length is a little-endian \<open>u32\<close> in the first four bytes; the payload is the slice of that
  length after it, and the accounts are whatever follows.
\<close>

definition decode_borsh :: "payload_lib \<Rightarrow> bytes \<Rightarrow> (bytes \<times> SolanaAccountRepr list) result" where
  "decode_borsh lib raw =
     res_bind (ok_or (split_checked 4 raw) (GatewayE BorshDeserializeError)) (\<lambda>(len_bytes, bs).
     res_bind (ok_or (split_checked (unat (from_le_bytes len_bytes :: u32)) bs)
                (GatewayE BorshDeserializeError)) (\<lambda>(payload_slice, accounts_slice).
     res_bind (ok_or (borsh_vec_try_from_slice lib repr_deserialize accounts_slice)
                (GatewayE BorshDeserializeError)) (\<lambda>accounts.
     Inr (payload_slice, accounts))))"

section \<open>ABI (\<open>abi.rs\<close>)\<close>

definition encode_abi_encoding :: "payload_lib \<Rightarrow> AxelarMessagePayload \<Rightarrow> bytes result" where
  "encode_abi_encoding lib p =
     Inr (encoding_scheme_prefixed_array p @
          abi_encode_params lib (payload_without_accounts p) (solana_accounts p))"

text \<open>A 32-byte word, big endian.\<close>

definition be_val :: "bytes \<Rightarrow> nat" where
  "be_val bs = le_val (rev bs)"

fun abi_accounts :: "(bytes \<times> bytes \<times> bytes) list \<Rightarrow> SolanaAccountRepr list result" where
  "abi_accounts [] = Inr []"
| "abi_accounts ((pubkey, signer, writable) # ws) =
     (if 1 < be_val signer then Inl (GatewayE PayloadAbiError)
      else if 1 < be_val writable then Inl (GatewayE PayloadAbiError)
      else res_bind (abi_accounts ws) (\<lambda>rest.
        Inr (\<lparr>sar_pubkey = pubkey, sar_is_signer = (be_val signer = 1),
              sar_is_writable = (be_val writable = 1)\<rparr> # rest)))"

definition extract_payload_slice_and_solana_accounts ::
    "payload_lib \<Rightarrow> bytes \<Rightarrow> (bytes \<times> SolanaAccountRepr list) result" where
  "extract_payload_slice_and_solana_accounts lib data =
     res_bind (ok_or (abi_decode_sequence lib data) (GatewayE PayloadAbiError)) (\<lambda>(payload, words).
     res_bind (abi_accounts words) (\<lambda>accounts. Inr (payload, accounts)))"

section \<open>Encoding and decoding (\<open>encoding.rs\<close>, \<open>mod.rs\<close>)\<close>

definition payload_encode :: "payload_lib \<Rightarrow> AxelarMessagePayload \<Rightarrow> bytes result" where
  "payload_encode lib p = (case encoding_scheme p of
     Borsh \<Rightarrow> encode_borsh lib p
   | AbiEncoding \<Rightarrow> encode_abi_encoding lib p)"

definition payload_decode :: "payload_lib \<Rightarrow> bytes \<Rightarrow> AxelarMessagePayload result" where
  "payload_decode lib data = (case data of
     [] \<Rightarrow> Inl (GatewayE InvalidEncodingScheme)
   | b # bs \<Rightarrow>
       res_bind (ok_or (scheme_from_u8 b) (GatewayE InvalidEncodingScheme)) (\<lambda>scheme.
       res_bind (case scheme of Borsh \<Rightarrow> decode_borsh lib bs
                 | AbiEncoding \<Rightarrow> extract_payload_slice_and_solana_accounts lib bs) (\<lambda>(payload, accounts).
       Inr (axelar_payload_new id payload accounts scheme))))"

definition payload_hash_of :: "env \<Rightarrow> payload_lib \<Rightarrow> AxelarMessagePayload \<Rightarrow> hash result" where
  "payload_hash_of env lib p = res_bind (payload_encode lib p) (\<lambda>bs. Inr (keccak env bs))"

section \<open>Laws of the libraries and the round trip\<close>

definition bool_word :: "bool \<Rightarrow> bytes" where
  "bool_word b = replicate 31 0 @ [u8_of_bool b]"

text \<open>
  The documented format: Borsh writes a slice as its little-endian \<open>u32\<close> length and its bytes,
  and reads back a vector it wrote, for whatever element reader undoes the element writer on the
  elements of that vector; the ABI decoder returns the payload and three words per account.
\<close>

definition payload_lib_law :: "payload_lib \<Rightarrow> bool" where
  "payload_lib_law lib \<longleftrightarrow>
     (\<forall>bs out. borsh_write_slice lib bs = Some out \<longrightarrow> length bs < 2 ^ 32 \<and>
        out = to_le_bytes 4 (word_of_nat (length bs) :: u32) @ bs) \<and>
     (\<forall>ser de xs out. (\<forall>x \<in> set xs. \<forall>rest. de (ser x @ rest) = Some (x, rest)) \<longrightarrow>
        borsh_write_vec lib ser xs = Some out \<longrightarrow> borsh_vec_try_from_slice lib de out = Some xs) \<and>
     (\<forall>p xs. (\<forall>x \<in> set xs. repr_ok x) \<longrightarrow> abi_decode_sequence lib (abi_encode_params lib p xs) =
        Some (p, map (\<lambda>x. (sar_pubkey x, bool_word (sar_is_signer x), bool_word (sar_is_writable x))) xs))"

lemma be_val_bool_word [simp]: "be_val (bool_word b) = (if b then 1 else 0)"
  by (simp add: be_val_def bool_word_def u8_of_bool_def del: replicate.simps)

lemma abi_accounts_words:
  "abi_accounts (map (\<lambda>x. (sar_pubkey x, bool_word (sar_is_signer x), bool_word (sar_is_writable x))) xs) = Inr xs"
  by (induction xs) auto

lemma scheme_round_trip [simp]: "scheme_from_u8 (scheme_to_u8 s) = Some s"
  by (cases s) (simp_all add: scheme_from_u8_def)

definition payload_ok :: "AxelarMessagePayload \<Rightarrow> bool" where
  "payload_ok p \<longleftrightarrow> (\<forall>x \<in> set (solana_accounts p). repr_ok x)"

lemma decode_borsh_frame:
  assumes "n < 2 ^ 32" and "length p = n"
  shows "decode_borsh lib (to_le_bytes 4 (word_of_nat n :: u32) @ p @ rest) =
    res_bind (ok_or (borsh_vec_try_from_slice lib repr_deserialize rest) (GatewayE BorshDeserializeError))
      (\<lambda>accounts. Inr (p, accounts))"
proof -
  have "unat (from_le_bytes (to_le_bytes 4 (word_of_nat n :: u32)) :: u32) = n"
    using assms(1) by (simp add: from_to_le_bytes unsigned_of_nat take_bit_nat_eq_self)
  then show ?thesis using assms(2) by (simp add: decode_borsh_def)
qed

text \<open>
  C35. Round trip of the payload, in both schemes: what \<open>encode\<close> produces \<open>decode\<close> reads back,
  accounts and scheme included.
\<close>

theorem payload_decode_encode:
  assumes law: "payload_lib_law lib" and ok: "payload_ok p" and enc: "payload_encode lib p = Inr bs"
  shows "payload_decode lib bs = Inr p"
proof (cases "encoding_scheme p")
  case Borsh
  then obtain a b where a: "borsh_write_slice lib (payload_without_accounts p) = Some a"
    and b: "borsh_write_vec lib repr_serialize (solana_accounts p) = Some b" and bs: "bs = 0 # a @ b"
    using enc by (auto simp: payload_encode_def encode_borsh_def encoding_scheme_prefixed_array_def res_inv)
  have "length (payload_without_accounts p) < 2 ^ 32"
    and a': "a = to_le_bytes 4 (word_of_nat (length (payload_without_accounts p)) :: u32) @ payload_without_accounts p"
    using law a unfolding payload_lib_law_def by blast+
  moreover have "\<forall>x \<in> set (solana_accounts p). \<forall>rest. repr_deserialize (repr_serialize x @ rest) = Some (x, rest)"
    using ok repr.dec_enc by (simp add: payload_ok_def)
  then have "borsh_vec_try_from_slice lib repr_deserialize b = Some (solana_accounts p)"
    using law b unfolding payload_lib_law_def by blast
  ultimately have "decode_borsh lib (a @ b) = Inr (payload_without_accounts p, solana_accounts p)"
    using decode_borsh_frame [of "length (payload_without_accounts p)" "payload_without_accounts p" lib b] by simp
  then show ?thesis
    using Borsh by (cases p) (simp add: payload_decode_def bs scheme_from_u8_def axelar_payload_new_def)
next
  case AbiEncoding
  then have bs: "bs = 1 # abi_encode_params lib (payload_without_accounts p) (solana_accounts p)"
    using enc by (simp add: payload_encode_def encode_abi_encoding_def encoding_scheme_prefixed_array_def)
  have "abi_decode_sequence lib (abi_encode_params lib (payload_without_accounts p) (solana_accounts p)) =
      Some (payload_without_accounts p, map (\<lambda>x. (sar_pubkey x, bool_word (sar_is_signer x),
        bool_word (sar_is_writable x))) (solana_accounts p))"
    using law ok unfolding payload_lib_law_def payload_ok_def by blast
  then show ?thesis
    using AbiEncoding by (cases p) (simp add: payload_decode_def bs scheme_from_u8_def axelar_payload_new_def
        extract_payload_slice_and_solana_accounts_def abi_accounts_words)
qed

text \<open>A concrete instance of the libraries, in Borsh's format; the ABI words are framed bytes.\<close>

fun read_elems :: "('a list \<Rightarrow> ('x \<times> 'a list) option) \<Rightarrow> nat \<Rightarrow> 'a list \<Rightarrow> ('x list \<times> 'a list) option" where
  "read_elems de 0 bs = Some ([], bs)"
| "read_elems de (Suc n) bs = (case de bs of None \<Rightarrow> None | Some (x, rest) \<Rightarrow>
     (case read_elems de n rest of None \<Rightarrow> None | Some (xs, rest') \<Rightarrow> Some (x # xs, rest')))"

fun unframe :: "bytes \<Rightarrow> bytes \<times> bytes" where
  "unframe (b # c # bs) = (if b = 1 then (let (p, r) = unframe bs in (c # p, r)) else ([], c # bs))"
| "unframe [b] = ([], [])"
| "unframe [] = ([], [])"

definition demo_lib :: payload_lib where
  "demo_lib =
     \<lparr>borsh_write_slice = (\<lambda>bs. if length bs < 2 ^ 32
        then Some (to_le_bytes 4 (word_of_nat (length bs) :: u32) @ bs) else None),
      borsh_write_vec = (\<lambda>ser xs. if length xs < 2 ^ 32
        then Some (to_le_bytes 4 (word_of_nat (length xs) :: u32) @ concat (map ser xs)) else None),
      borsh_vec_try_from_slice = (\<lambda>de bs. case split_checked 4 bs of None \<Rightarrow> None
        | Some (n, r) \<Rightarrow> (case read_elems de (unat (from_le_bytes n :: u32)) r of
            Some (xs, []) \<Rightarrow> Some xs | _ \<Rightarrow> None)),
      abi_encode_params = (\<lambda>p xs. concat (map (\<lambda>b. [1, b]) p) @ [0] @ concat (map repr_serialize xs)),
      abi_decode_sequence = (\<lambda>bs. let (p, r) = unframe bs in
        case read_elems repr_deserialize (length r div 33) r of
          Some (xs, []) \<Rightarrow> Some (p, map (\<lambda>x. (sar_pubkey x, bool_word (sar_is_signer x),
            bool_word (sar_is_writable x))) xs)
        | _ \<Rightarrow> None)\<rparr>"

lemma read_elems_concat:
  "\<forall>x \<in> set xs. \<forall>rest. de (ser x @ rest) = Some (x, rest) \<Longrightarrow>
     read_elems de (length xs) (concat (map ser xs)) = Some (xs, [])"
  by (induction xs) auto

lemma unframe_frames: "unframe (concat (map (\<lambda>b. [1, b]) p) @ 0 # r) = (p, r)"
  by (induction p) (auto, cases r, auto)

lemma length_serialized: "\<forall>x \<in> set xs. repr_ok x \<Longrightarrow> length (concat (map repr_serialize xs)) = 33 * length xs"
  by (induction xs) (auto simp: repr_serialize_def repr_ok_def)

lemma demo_lib_law: "payload_lib_law demo_lib"
proof -
  have "unat (from_le_bytes (to_le_bytes 4 (word_of_nat n :: u32)) :: u32) = n" if "n < 2 ^ 32" for n
    using that by (simp add: from_to_le_bytes unsigned_of_nat take_bit_nat_eq_self)
  then show ?thesis
    unfolding payload_lib_law_def
    by (auto simp: demo_lib_def read_elems_concat repr_dec_enc unframe_frames length_serialized Let_def split: if_splits)
qed

definition demo_payload :: AxelarMessagePayload where
  "demo_payload = \<lparr>payload_without_accounts = [1, 2, 3],
     solana_accounts = [\<lparr>sar_pubkey = replicate 32 9, sar_is_signer = True, sar_is_writable = False\<rparr>],
     encoding_scheme = Borsh\<rparr>"

theorem payload_decode_encode_witness:
  "\<exists>bs. payload_encode demo_lib demo_payload = Inr bs \<and> payload_decode demo_lib bs = Inr demo_payload"
proof -
  obtain bs where bs: "payload_encode demo_lib demo_payload = Inr bs"
    by (simp add: payload_encode_def encode_borsh_def demo_payload_def demo_lib_def)
  have "payload_ok demo_payload" by (simp add: payload_ok_def repr_ok_def demo_payload_def)
  from payload_decode_encode [OF demo_lib_law this bs] bs show ?thesis by blast
qed

text \<open>
  The account form is canonical: a byte string decodes to an account exactly when it starts
  with the 33 bytes that account serializes to, so no two byte strings spell one account.
\<close>

theorem account_repr_canonical:
  "repr_deserialize bs = Some (r, rest) \<longleftrightarrow> length (sar_pubkey r) = 32 \<and> bs = repr_serialize r @ rest"
  using repr.dec_iff [of bs r rest] by (simp add: repr_ok_def)

text \<open>
  The zero-copy Borsh decoder returns exactly the slice that the length in front names, and
  the accounts that the rest encodes, or an error.
\<close>

theorem decode_borsh_spec:
  "decode_borsh lib raw = Inr (p, accs) \<longleftrightarrow>
     (\<exists>rest. length p < 2 ^ 32 \<and> raw = to_le_bytes 4 (word_of_nat (length p) :: u32) @ p @ rest \<and>
        borsh_vec_try_from_slice lib repr_deserialize rest = Some accs)"
proof
  assume "decode_borsh lib raw = Inr (p, accs)"
  then obtain lb rest where raw: "raw = lb @ p @ rest" "length lb = 4"
      and len: "length p = unat (from_le_bytes lb :: u32)"
      and accs: "borsh_vec_try_from_slice lib repr_deserialize rest = Some accs"
    by (auto simp: decode_borsh_def res_inv split_checked_Some)
  have "to_le_bytes 4 (from_le_bytes lb :: u32) = lb"
    using raw(2) by (simp add: to_from_le_bytes)
  moreover have "length p < 2 ^ 32"
    using unat_less_len [of "from_le_bytes lb :: u32"] by (simp add: len)
  ultimately show "\<exists>rest. length p < 2 ^ 32 \<and> raw = to_le_bytes 4 (word_of_nat (length p) :: u32) @ p @ rest \<and>
        borsh_vec_try_from_slice lib repr_deserialize rest = Some accs"
    using raw accs by (auto simp: len)
next
  assume "\<exists>rest. length p < 2 ^ 32 \<and> raw = to_le_bytes 4 (word_of_nat (length p) :: u32) @ p @ rest \<and>
        borsh_vec_try_from_slice lib repr_deserialize rest = Some accs"
  then show "decode_borsh lib raw = Inr (p, accs)"
    using decode_borsh_frame [of "length p" p lib] by auto
qed

end
