(* ===== verification/Executable.thy ===== *)
theory Executable
  imports Gateway_Events Payload
begin

text \<open>
  The receiving side of a cross-chain call (\<open>programs/solana-axelar-gateway/src/executable.rs\<close>):
  the accounts every executable program takes, the validation of a message against its payload,
  the cross-program call that consumes it at the gateway, and the relayer's instruction builder.
\<close>

section \<open>Accounts\<close>

record AxelarExecuteAccounts =
  ae_incoming_message_pda :: account_info
  ae_signing_pda :: account_info
  ae_gateway_root_pda :: account_info
  ae_event_authority :: account_info
  ae_axelar_gateway_program :: account_info

definition EXECUTE_IX_DISC :: bytes where
  "EXECUTE_IX_DISC = [130, 221, 242, 154, 13, 193, 189, 29]"

definition EXECUTE_PROGRAM_ACCOUNTS_START_INDEX :: nat where
  "EXECUTE_PROGRAM_ACCOUNTS_START_INDEX = 5"

text \<open>
  The constraints the \<open>executable_accounts!\<close> macro generates; \<open>self\<close> is the program it is
  expanded in. The address of the event authority is left to the gateway.
\<close>

definition check_execute_accounts ::
    "env \<Rightarrow> pubkey \<Rightarrow> AxelarExecuteAccounts \<Rightarrow> Message \<Rightarrow> gateway_state \<Rightarrow> unit result" where
  "check_execute_accounts env self a message gw =
     (let cid = command_id env message; incoming = ai_key (ae_incoming_message_pda a) in
     res_bind (check_mut (ae_incoming_message_pda a)) (\<lambda>_.
     res_bind (load_acc message_of (gw_accounts gw) incoming) (\<lambda>im.
     res_bind (check_seeds env (incoming_message_seeds cid) (im_bump im) (gateway_id env) incoming) (\<lambda>_.
     res_bind (check_seeds env (validate_message_seeds cid) (signing_pda_bump im) self
                 (ai_key (ae_signing_pda a))) (\<lambda>_.
     res_bind (load_gateway_config env gw (ai_key (ae_gateway_root_pda a))) (\<lambda>_.
     check_program (ae_axelar_gateway_program a) (gateway_id env)))))))"

text \<open>
  \<open>invoke_signed\<close>: an account counts as a signer of the call when it signed the transaction or is
  the address the caller's program derives from the signer seeds.
\<close>

definition grant_signer :: "env \<Rightarrow> pubkey \<Rightarrow> bytes list \<Rightarrow> account_info \<Rightarrow> account_info" where
  "grant_signer env self seeds a =
     a\<lparr>ai_signer := ai_signer a \<or> create_program_address env seeds self = Some (ai_key a)\<rparr>"

text \<open>
  \<open>invoke_signed\<close>: every account of the instruction must be among those passed, signers must have
  signed or be derived by the caller from the signer seeds, writable accounts must be writable.
\<close>

fun invoke_check :: "env \<Rightarrow> pubkey \<Rightarrow> bytes list \<Rightarrow> account_info list \<Rightarrow> account_info list \<Rightarrow> unit result" where
  "invoke_check env self seeds infos [] = Inr ()"
| "invoke_check env self seeds infos (m # ms) =
     (case find (\<lambda>i. ai_key i = ai_key m) infos of
        None \<Rightarrow> Inl (ProgramE ProgramError.NotEnoughAccountKeys)
      | Some i \<Rightarrow>
          res_bind (require (ai_signer m \<longrightarrow> ai_signer (grant_signer env self seeds i)) (ProgramE ExternalFailure)) (\<lambda>_.
          res_bind (require (ai_writable m \<longrightarrow> ai_writable i) (ProgramE ExternalFailure)) (\<lambda>_.
          invoke_check env self seeds infos ms)))"

text \<open>
  What the callee sees of an account: the runtime merges the flags of all metas with its key.
\<close>

definition merged :: "account_info list \<Rightarrow> account_info \<Rightarrow> account_info" where
  "merged metas a =
     \<lparr>ai_key = ai_key a, ai_signer = (\<exists>m \<in> set metas. ai_key m = ai_key a \<and> ai_signer m),
      ai_writable = (\<exists>m \<in> set metas. ai_key m = ai_key a \<and> ai_writable m)\<rparr>"

definition validate_message_raw ::
    "env \<Rightarrow> pubkey \<Rightarrow> AxelarExecuteAccounts \<Rightarrow> Message \<Rightarrow> bytes \<Rightarrow> gateway_state \<Rightarrow> gateway_state result" where
  "validate_message_raw env self a message payload gw =
     (let cid = command_id env message in
     res_bind (require (keccak env payload = payload_hash message) (ExecutableE InvalidPayloadHash)) (\<lambda>_.
     res_bind (load_acc message_of (gw_accounts gw) (ai_key (ae_incoming_message_pda a))) (\<lambda>im.
     validate_message env
       \<lparr>vm_incoming_message_pda = ae_incoming_message_pda a,
        vm_caller = grant_signer env self
          [str_bytes ''gtw-validate-msg'', cid, [signing_pda_bump im]] (ae_signing_pda a),
        vm_gateway_root_pda = ae_gateway_root_pda a\<rparr> message gw)))"

text \<open>
  \<open>metas\<close> is \<open>accounts.to_account_metas(None)\<close> of the outer struct: its first five entries are the
  ones above, the rest the program's own. \<open>split_off\<close> panics beyond the end of the vector.
\<close>

definition executable_validate_message ::
    "env \<Rightarrow> payload_lib \<Rightarrow> pubkey \<Rightarrow> AxelarExecuteAccounts \<Rightarrow> account_info list \<Rightarrow> Message \<Rightarrow> bytes \<Rightarrow>
     EncodingScheme \<Rightarrow> gateway_state \<Rightarrow> gateway_state result" where
  "executable_validate_message env lib self a metas message payload_wo scheme gw =
     res_bind (ok_or (split_checked EXECUTE_PROGRAM_ACCOUNTS_START_INDEX metas) (Panic ''split_off'')) (\<lambda>(_, own).
     res_bind (payload_encode lib (axelar_payload_new repr_of_account payload_wo own scheme)) (\<lambda>encoded.
     validate_message_raw env self a message encoded gw))"

section \<open>The relayer's instruction\<close>

record AxelarExecuteInstruction =
  ei_message :: Message
  ei_payload_without_accounts :: bytes
  ei_encoding_scheme :: EncodingScheme

record relayer_accounts =
  ra_incoming_message_pda :: pubkey
  ra_signing_pda :: pubkey
  ra_gateway_root_pda :: pubkey
  ra_event_authority :: pubkey
  ra_axelar_gateway_program :: pubkey

definition relayer_account_metas :: "relayer_accounts \<Rightarrow> account_info list" where
  "relayer_account_metas a =
     [acc_mut (ra_incoming_message_pda a), acc (ra_signing_pda a), acc (ra_gateway_root_pda a),
      acc (ra_event_authority a), acc (ra_axelar_gateway_program a)]"

definition create_execute_instruction ::
    "Message \<Rightarrow> AxelarMessagePayload \<Rightarrow> relayer_accounts \<Rightarrow> AxelarExecuteInstruction \<times> account_info list" where
  "create_execute_instruction message p execute_accounts =
     (\<lparr>ei_message = message, ei_payload_without_accounts = payload_without_accounts p,
       ei_encoding_scheme = encoding_scheme p\<rparr>,
      relayer_account_metas execute_accounts @ account_meta p)"

section \<open>What a successful validation means\<close>

lemma validate_message_rawE:
  assumes "validate_message_raw env self a message payload gw = Inr gw'"
  obtains im where "keccak env payload = payload_hash message"
    "message_at gw (ai_key (ae_incoming_message_pda a)) im"
    "validate_message env
       \<lparr>vm_incoming_message_pda = ae_incoming_message_pda a,
        vm_caller = grant_signer env self
          [str_bytes ''gtw-validate-msg'', command_id env message, [signing_pda_bump im]] (ae_signing_pda a),
        vm_gateway_root_pda = ae_gateway_root_pda a\<rparr> message gw = Inr gw'"
  using assms that by (auto simp: validate_message_raw_def Let_def res_inv gw_load)

text \<open>
  The contract of a message consumer, as the receiving programs use it: a successful consumption
  is one \<open>validate_message\<close> step of the gateway that turns an approved message into an executed one.
\<close>

definition consumes :: "env \<Rightarrow> Message \<Rightarrow> gateway_state \<Rightarrow> gateway_state \<Rightarrow> bool" where
  "consumes env m gw gw' \<longleftrightarrow> (\<exists>k im dest.
     message_at gw k im \<and> is_approved (im_status im) \<and> im_message_hash im = message_hash env m \<and>
     pubkey_from_str env (destination_address m) = Some dest \<and>
     message_at gw' k (im\<lparr>im_status := status_executed\<rparr>) \<and>
     gw_events gw' = gw_events gw @ [executed_event env m dest])"

lemma validate_message_consumes:
  assumes "validate_message env a m gw = Inr gw'"
  shows "consumes env m gw gw'" and "gateway_step env gw gw'"
proof -
  show "consumes env m gw gw'"
    using assms unfolding consumes_def
    by (elim validate_messageE) (auto simp: executed_event_def)
  show "gateway_step env gw gw'"
    by (rule gateway_ix [where ix = "ValidateMessageIx a m"]) (simp_all add: assms)
qed

text \<open>
  A program that receives messages: each success of its handler consumed the message it was
  given, in one step of the gateway. What it inherits: it never handles a command id twice, and
  only messages that were approved.
\<close>

locale message_consumer =
  fixes env :: env
    and handle :: "'args \<Rightarrow> Message \<Rightarrow> gateway_state \<Rightarrow> gateway_state result"
  assumes handle_step: "handle args m gw = Inr gw' \<Longrightarrow> gateway_step env gw gw'"
    and handle_consumes: "handle args m gw = Inr gw' \<Longrightarrow> consumes env m gw gw'"
begin

lemma handled_once:
  assumes "pda_law env" and "pda_inj env" and "gateway_reachable env gw"
    and "handle args m gw = Inr gw'" and "runs (gateway_step env) gw' gw2"
  shows "handle args' m gw2 = Inr gw3 \<Longrightarrow> False"
proof -
  assume again: "handle args' m gw2 = Inr gw3"
  have r1: "gateway_reachable env gw'"
    using assms(3) handle_step [OF assms(4)] by (rule runs_step)
  have r2: "gateway_reachable env gw2"
    using runs_trans [OF assms(5) r1] .
  have r3: "gateway_reachable env gw3"
    using r2 handle_step [OF again] by (rule runs_step)
  obtain dest where e1: "gw_events gw' = gw_events gw @ [executed_event env m dest]"
    using handle_consumes [OF assms(4)] unfolding consumes_def by blast
  obtain evs where e2: "gw_events gw2 = gw_events gw' @ evs"
    using gateway_leD(4) [OF gw_mono.runs_le [OF assms(5)]] by blast
  obtain dest' where e3: "gw_events gw3 = gw_events gw2 @ [executed_event env m dest']"
    using handle_consumes [OF again] unfolding consumes_def by blast
  have "distinct (executed_ids (gw_events gw3))"
    using gateway_full_inv_reachable [OF assms(1,2) r3]
    by (simp add: gateway_full_inv_def once_inv_def)
  moreover have "command_id env m \<in> set (executed_ids (gw_events gw2))"
    unfolding e2 e1 by (simp add: executed_ids_def map_filter_def)
  ultimately show False by (simp add: e3)
qed

lemma handled_approved:
  assumes "pda_law env" and "pda_inj env" and "gateway_reachable env gw"
    and "handle args m gw = Inr gw'" and "inj (message_hash env)"
  shows "approved_event env m \<in> set (gw_events gw)"
proof -
  obtain k im where im: "message_at gw k im" "im_message_hash im = message_hash env m"
    using handle_consumes [OF assms(4)] unfolding consumes_def by blast
  obtain m' where "message_origin env gw k im m'"
    using gateway_full_inv_reachable [OF assms(1-3)] im(1)
    unfolding gateway_full_inv_def message_inv_def by blast
  then show ?thesis
    using im(2) injD [OF assms(5)] unfolding message_origin_def by metis
qed

end

lemma validate_message_raw_consumes:
  assumes "validate_message_raw env self a m payload gw = Inr gw'"
  shows "gateway_step env gw gw'" and "consumes env m gw gw'"
  using assms by (auto elim!: validate_message_rawE dest: validate_message_consumes)

interpretation raw: message_consumer env "\<lambda>(self, a, payload) m gw. validate_message_raw env self a m payload gw"
  for env
  by unfold_locales (auto dest: validate_message_raw_consumes)

text \<open>
  The address a program can sign for and the gateway expects agree only when the program is the
  destination: addresses also determine the program.
\<close>

definition pda_program_inj :: "env \<Rightarrow> bool" where
  "pda_program_inj env \<longleftrightarrow> (\<forall>s pid pid' k. create_program_address env s pid = Some k \<longrightarrow>
     create_program_address env s pid' = Some k \<longrightarrow> pid = pid')"

text \<open>
  The seeds constraint on the signing address is what binds the destination: without it, a program
  could call another one with its own signing address, signed, and have it accept a message meant
  for the caller.
\<close>

lemma validate_message_raw_destination:
  assumes chk: "check_execute_accounts env self a m gw = Inr ()"
    and v: "validate_message_raw env self a m payload gw = Inr gw'" and inj: "pda_program_inj env"
  shows "pubkey_from_str env (destination_address m) = Some self \<and> keccak env payload = payload_hash m"
  using v
proof (rule validate_message_rawE)
  fix im
  assume h: "keccak env payload = payload_hash m"
    and im: "message_at gw (ai_key (ae_incoming_message_pda a)) im"
    and v: "validate_message env
       \<lparr>vm_incoming_message_pda = ae_incoming_message_pda a,
        vm_caller = grant_signer env self
          [str_bytes ''gtw-validate-msg'', command_id env m, [signing_pda_bump im]] (ae_signing_pda a),
        vm_gateway_root_pda = ae_gateway_root_pda a\<rparr> m gw = Inr gw'"
  from v have "\<exists>dest. pubkey_from_str env (destination_address m) = Some dest \<and>
      create_program_address env [str_bytes ''gtw-validate-msg'', command_id env m, [signing_pda_bump im]] dest
        = Some (ai_key (ae_signing_pda a))"
    using im by (elim validate_messageE) (auto simp: grant_signer_def)
  moreover have "create_program_address env [str_bytes ''gtw-validate-msg'', command_id env m, [signing_pda_bump im]] self
      = Some (ai_key (ae_signing_pda a))"
    using chk im by (auto simp: check_execute_accounts_def Let_def res_inv gw_load check_seeds_def validate_message_seeds_def)
  ultimately show ?thesis
    using inj h unfolding pda_program_inj_def by metis
qed

section \<open>Calls with distinct accounts\<close>

lemma find_inj:
  "inj_on ai_key (set infos) \<Longrightarrow> i \<in> set infos \<Longrightarrow> find (\<lambda>j. ai_key j = ai_key i) infos = Some i"
proof (induction infos)
  case (Cons j js)
  then show ?case by (cases "j = i") (auto simp: inj_on_def)
qed simp

lemma invoke_check_ok:
  assumes "inj_on ai_key (set infos)"
    and "\<forall>m \<in> set metas. \<exists>i \<in> set infos. ai_key i = ai_key m \<and> (ai_writable m \<longrightarrow> ai_writable i) \<and>
      (ai_signer m \<longrightarrow> ai_signer (grant_signer env self seeds i))"
  shows "invoke_check env self seeds infos metas = Inr ()"
  using assms(2)
proof (induction metas)
  case (Cons m ms)
  then obtain i where i: "i \<in> set infos" "ai_key i = ai_key m" "ai_writable m \<longrightarrow> ai_writable i"
    "ai_signer m \<longrightarrow> ai_signer (grant_signer env self seeds i)" by auto
  from find_inj [OF assms(1) i(1)] i Cons show ?case by (simp add: require_def)
qed simp

section \<open>An approved message is accepted\<close>

text \<open>The accounts a relayer passes for the approved message at \<open>k\<close>: none of them signs.\<close>

definition approved_execute :: "env \<Rightarrow> pubkey \<Rightarrow> pubkey \<Rightarrow> pubkey \<Rightarrow> pubkey \<Rightarrow> AxelarExecuteAccounts" where
  "approved_execute env signing root ea k =
     \<lparr>ae_incoming_message_pda = acc_mut k, ae_signing_pda = acc signing, ae_gateway_root_pda = acc root,
      ae_event_authority = acc ea, ae_axelar_gateway_program = acc (gateway_id env)\<rparr>"

lemma approved_execute_accepted:
  assumes law: "pda_law env" and full: "gateway_full_inv env gw" and org: "message_origin env gw k im m"
    and at: "message_at gw k im" "is_approved (im_status im)" and cfg: "config_at gw root c"
    and dest: "pubkey_from_str env (destination_address m) = Some self" and hash: "keccak env payload = payload_hash m"
  obtains signing where "try_find_program_address env (validate_message_seeds (command_id env m)) self
      = Some (signing, signing_pda_bump im)"
    and "check_execute_accounts env self (approved_execute env signing root ea k) m gw = Inr ()"
    and "validate_message_raw env self (approved_execute env signing root ea k) m payload gw =
      Inr (emit_gw (executed_event env m self) (put_gw k (MessageAcc (im\<lparr>im_status := status_executed\<rparr>)) gw))"
proof -
  obtain signing where find: "try_find_program_address env (validate_message_seeds (command_id env m)) self
      = Some (signing, signing_pda_bump im)"
    and load: "load_gateway_config env gw root = Inr c"
    and val: "validate_message env \<lparr>vm_incoming_message_pda = acc_mut k, vm_caller = acc_signer signing,
          vm_gateway_root_pda = acc root\<rparr> m gw =
        Inr (emit_gw (executed_event env m self) (put_gw k (MessageAcc (im\<lparr>im_status := status_executed\<rparr>)) gw))"
    by (rule approved_message_validates [OF law full org at cfg dest])
  note sign = pda_lawD [OF law find]
  have incoming: "create_program_address env (incoming_message_seeds (command_id env m) @ [[im_bump im]]) (gateway_id env) = Some k"
    using org pda_lawD [OF law] by (simp add: message_origin_def)
  have msg: "load_acc message_of (gw_accounts gw) k = Inr im" using at(1) by (simp add: gw_load)
  have "grant_signer env self [str_bytes ''gtw-validate-msg'', command_id env m, [signing_pda_bump im]] (acc signing) = acc_signer signing"
    using sign by (simp add: grant_signer_def validate_message_seeds_def acc_defs)
  moreover have "ai_key (acc_mut k) = k" by (simp add: acc_defs)
  ultimately have "validate_message_raw env self (approved_execute env signing root ea k) m payload gw =
      Inr (emit_gw (executed_event env m self) (put_gw k (MessageAcc (im\<lparr>im_status := status_executed\<rparr>)) gw))"
    using msg val hash by (simp add: validate_message_raw_def Let_def approved_execute_def require_def)
  moreover have "check_execute_accounts env self (approved_execute env signing root ea k) m gw = Inr ()"
    using msg incoming sign load
    by (simp add: check_execute_accounts_def Let_def approved_execute_def check_mut_def check_seeds_def check_program_def acc_defs)
  ultimately show thesis by (intro that [OF find])
qed

end
