(* ===== verification/Executable_Props.thy ===== *)
theory Executable_Props
  imports Executable Gateway_Demo
begin

text \<open>The properties of the receiving side, with witnesses on the gateway's concrete run.\<close>

text \<open>
  What a relayer builds, the program undoes: on the accounts and data of
  \<open>create_execute_instruction\<close>, validation hashes exactly the encoding of the payload the
  instruction was built from.
\<close>

theorem relayer_instruction_reconstructs_payload:
  "(let (ix, metas) = create_execute_instruction m p ra in
    executable_validate_message env lib self a metas (ei_message ix) (ei_payload_without_accounts ix)
      (ei_encoding_scheme ix) gw) =
   res_bind (payload_encode lib p) (\<lambda>encoded. validate_message_raw env self a m encoded gw)"
proof -
  have "map (repr_of_account \<circ> meta_of_repr) xs = xs" for xs
    by (induction xs) auto
  moreover have "split_checked 5 (relayer_account_metas ra @ account_meta p) =
      Some (relayer_account_metas ra, account_meta p)"
    by (rule split_checked_append) (simp add: relayer_account_metas_def)
  ultimately show ?thesis
    by (cases p) (simp add: create_execute_instruction_def executable_validate_message_def Let_def account_meta_def
        EXECUTE_PROGRAM_ACCOUNTS_START_INDEX_def axelar_payload_new_def)
qed

text \<open>
  C36. A program that accepts a message accepts what Axelar approved for it: when the constraints of the
  accounts and the validation both pass, the message is addressed to this program, was approved before,
  and its payload hash is the hash of the payload rebuilt from the bytes and the accounts the program
  was called with. Whoever calls, with whatever accounts and signers: a program that signs for its own
  signing address cannot have another one accept a message meant for the caller.
\<close>

theorem executable_validate_authentic:
  assumes "pda_law env" and "pda_inj env" and "pda_program_inj env" and "inj (message_hash env)"
    and "gateway_reachable env gw" and accounts: "check_execute_accounts env self a m gw = Inr ()"
    and ok: "executable_validate_message env lib self a metas m payload scheme gw = Inr gw'"
  shows "approved_event env m \<in> set (gw_events gw) \<and>
    pubkey_from_str env (destination_address m) = Some self \<and>
    payload_hash_of env lib (axelar_payload_new repr_of_account payload (drop 5 metas) scheme) = Inr (payload_hash m)"
proof -
  from ok obtain encoded where e: "payload_encode lib (axelar_payload_new repr_of_account payload (drop 5 metas) scheme)
      = Inr encoded" and v: "validate_message_raw env self a m encoded gw = Inr gw'"
    by (auto simp: executable_validate_message_def EXECUTE_PROGRAM_ACCOUNTS_START_INDEX_def res_inv split_checked_Some)
  have "approved_event env m \<in> set (gw_events gw)"
    using raw.handled_approved [where args = "(self, a, encoded)", OF assms(1,2,5) _ assms(4)] v by simp
  with validate_message_raw_destination [OF accounts v assms(3)] e show ?thesis
    by (simp add: payload_hash_of_def)
qed

text \<open>
  A message is handled once: after a program validated it, no program validates it again,
  whatever happens at the gateway in between.
\<close>

theorem executable_validate_once:
  assumes "pda_law env" and "pda_inj env" and "gateway_reachable env gw"
    and "validate_message_raw env self a m payload gw = Inr gw1" and "runs (gateway_step env) gw1 gw2"
  shows "\<exists>e. validate_message_raw env self' a' m payload' gw2 = Inl e"
proof (cases "validate_message_raw env self' a' m payload' gw2")
  case (Inr gw3)
  then show ?thesis
    using raw.handled_once [where args = "(self, a, payload)" and args' = "(self', a', payload')",
        OF assms(1-3) _ assms(5)] assms(4) by simp
qed blast

definition demo_execute :: AxelarExecuteAccounts where
  "demo_execute = \<lparr>ae_incoming_message_pda = acc_mut demo_message_key, ae_signing_pda = acc demo_caller,
     ae_gateway_root_pda = acc demo_root_key, ae_event_authority = acc [], ae_axelar_gateway_program = acc [1]\<rparr>"

definition demo_metas :: "account_info list" where
  "demo_metas = [acc_mut demo_message_key, acc demo_caller, acc demo_root_key, acc [], acc [1]]"

lemma demo_raw_ok:
  "validate_message_raw demo_env (str_bytes ''D'') demo_execute demo_message
     [0, 3, 0, 0, 0, 1, 2, 3, 0, 0, 0, 0] demo_st4 = Inr demo_st5"
proof -
  have "load_acc message_of (gw_accounts demo_st4) demo_message_key = Inr demo_incoming"
    by (simp add: gw_load demo_st4_def)
  moreover have "create_program_address demo_env [str_bytes ''gtw-validate-msg'', demo_cid, [255]] (str_bytes ''D'')
      = Some demo_caller" "keccak demo_env bs = bs" for bs
    by (simp_all add: demo_env_def demo_caller_def)
  moreover have "signing_pda_bump demo_incoming = 255"
    "payload_hash demo_message = [0, 3, 0, 0, 0, 1, 2, 3, 0, 0, 0, 0]"
    by (simp_all add: demo_incoming_def demo_message_def)
  ultimately show ?thesis
    using demo_validate_ok
    by (simp add: validate_message_raw_def demo_execute_def grant_signer_def demo_validate_accs_def acc_defs)
qed

lemma demo_accounts_ok: "check_execute_accounts demo_env (str_bytes ''D'') demo_execute demo_message demo_st4 = Inr ()"
proof -
  have "load_acc message_of (gw_accounts demo_st4) demo_message_key = Inr demo_incoming"
    "gw_accounts demo_st4 demo_root_key = Some (ConfigAcc demo_config)"
    by (simp_all add: gw_load demo_st4_def)
  moreover have "create_program_address demo_env seeds pid = Some (concat seeds @ pid)" "gateway_id demo_env = [1]"
    "im_bump demo_incoming = 255" "signing_pda_bump demo_incoming = 255" for seeds pid
    by (simp_all add: demo_env_def demo_incoming_def)
  ultimately show ?thesis
    by (simp add: check_execute_accounts_def Let_def demo_execute_def check_mut_def check_seeds_def check_program_def acc_defs
        incoming_message_seeds_def validate_message_seeds_def demo_message_key_def demo_caller_def)
qed

lemma demo_executable_ok:
  "executable_validate_message demo_env demo_lib (str_bytes ''D'') demo_execute demo_metas demo_message [1, 2, 3]
     Borsh demo_st4 = Inr demo_st5"
proof -
  have le4: "le_bytes 4 v = [word_of_nat (v mod 256), word_of_nat (v div 256 mod 256),
      word_of_nat (v div 256 div 256 mod 256), word_of_nat (v div 256 div 256 div 256 mod 256)]" for v
  proof -
    have "(4 :: nat) = Suc (Suc (Suc (Suc 0)))" by simp
    then show ?thesis by (simp only: le_bytes.simps)
  qed
  have "payload_encode demo_lib (axelar_payload_new repr_of_account [1, 2, 3] [] Borsh)
      = Inr [0, 3, 0, 0, 0, 1, 2, 3, 0, 0, 0, 0]"
    by (simp add: payload_encode_def encode_borsh_def axelar_payload_new_def demo_lib_def
        encoding_scheme_prefixed_array_def to_le_bytes_def le4)
  moreover have "split_checked 5 demo_metas = Some (demo_metas, [])"
    by (simp add: split_checked_def demo_metas_def)
  ultimately show ?thesis
    using demo_raw_ok by (simp add: executable_validate_message_def EXECUTE_PROGRAM_ACCOUNTS_START_INDEX_def)
qed

theorem executable_validate_authentic_witness:
  "approved_event demo_env demo_message \<in> set (gw_events demo_st4) \<and>
   pubkey_from_str demo_env (destination_address demo_message) = Some (str_bytes ''D'') \<and>
   payload_hash_of demo_env demo_lib (axelar_payload_new repr_of_account [1, 2, 3] (drop 5 demo_metas) Borsh)
     = Inr (payload_hash demo_message)"
proof (rule executable_validate_authentic [OF demo_pda_law demo_pda_inj _ demo_hash_inj demo_reachable(3) demo_accounts_ok
      demo_executable_ok])
  show "pda_program_inj demo_env" by (simp add: pda_program_inj_def demo_env_def)
qed

theorem executable_validate_once_witness:
  "\<exists>e. validate_message_raw demo_env (str_bytes ''D'') demo_execute demo_message
     [0, 3, 0, 0, 0, 1, 2, 3, 0, 0, 0, 0] demo_st5 = Inl e"
  by (rule executable_validate_once [OF demo_pda_law demo_pda_inj demo_reachable(3) demo_raw_ok runs_refl])

end
