(* ===== verification/Operators.thy ===== *)
theory Operators
  imports Platform
begin

text \<open>
  The operator registry (\<open>programs/solana-axelar-operators\<close>): an owner adds and removes operator
  accounts, a counter keeps their number. The gas service accepts whoever holds such an account.
\<close>

section \<open>State\<close>

record OperatorRegistry =
  or_owner :: pubkey
  operator_count :: u64
  or_bump :: u8

record OperatorAccount =
  oa_bump :: u8

datatype operators_account = RegistryAcc OperatorRegistry | OperatorAcc OperatorAccount

fun registry_of :: "operators_account \<Rightarrow> OperatorRegistry option" where
  "registry_of (RegistryAcc r) = Some r"
| "registry_of _ = None"

fun operator_of :: "operators_account \<Rightarrow> OperatorAccount option" where
  "operator_of (OperatorAcc a) = Some a"
| "operator_of _ = None"

interpretation oreg: account_kind RegistryAcc registry_of
  by unfold_locales (auto elim: registry_of.elims)

interpretation oacc: account_kind OperatorAcc operator_of
  by unfold_locales (auto elim: operator_of.elims)

datatype operators_event = OwnershipTransferred pubkey pubkey

record operators_state =
  op_accounts :: "operators_account accounts"
  op_events :: "operators_event list"

definition operators_empty :: operators_state where
  "operators_empty = \<lparr>op_accounts = Map.empty, op_events = []\<rparr>"

definition registry_seeds :: "bytes list" where
  "registry_seeds = [str_bytes ''operator_registry'']"

definition operator_seeds :: "pubkey \<Rightarrow> bytes list" where
  "operator_seeds operator = [str_bytes ''operator'', operator]"

section \<open>Instructions\<close>

text \<open>
  \<open>address = registry.owner\<close> with a signer, and \<open>seeds = [...], bump = registry.bump\<close>: the checks
  every owner instruction shares.
\<close>

definition load_registry :: "env \<Rightarrow> operators_state \<Rightarrow> account_info \<Rightarrow> OperatorRegistry result" where
  "load_registry env st a =
     res_bind (check_mut a) (\<lambda>_.
     res_bind (load_acc registry_of (op_accounts st) (ai_key a)) (\<lambda>r.
     res_bind (check_seeds env registry_seeds (or_bump r) (operators_id env) (ai_key a)) (\<lambda>_. Inr r)))"

definition check_owner :: "account_info \<Rightarrow> OperatorRegistry \<Rightarrow> unit result" where
  "check_owner owner r =
     res_bind (check_signer owner) (\<lambda>_.
     res_bind (check_mut owner) (\<lambda>_.
     require (ai_key owner = or_owner r) (OperatorsE UnauthorizedOwner)))"

record operators_Initialize =
  oi_payer :: account_info
  oi_owner :: account_info
  oi_registry :: account_info
  oi_system_program :: account_info

definition operators_initialize :: "env \<Rightarrow> operators_Initialize \<Rightarrow> operators_state \<Rightarrow> operators_state result" where
  "operators_initialize env a st =
     res_bind (check_signer (oi_payer a)) (\<lambda>_.
     res_bind (check_mut (oi_payer a)) (\<lambda>_.
     res_bind (check_signer (oi_owner a)) (\<lambda>_.
     res_bind (check_seeds_canonical env registry_seeds (operators_id env) (ai_key (oi_registry a))) (\<lambda>bump.
     res_bind (check_vacant (op_accounts st) (ai_key (oi_registry a))) (\<lambda>_.
     res_bind (check_program (oi_system_program a) (system_program_id env)) (\<lambda>_.
     Inr (st\<lparr>op_accounts := (op_accounts st)(ai_key (oi_registry a) \<mapsto>
       RegistryAcc \<lparr>or_owner = ai_key (oi_owner a), operator_count = 0, or_bump = bump\<rparr>)\<rparr>)))))))"

record AddOperator =
  ao_owner :: account_info
  ao_operator_to_add :: account_info
  ao_registry :: account_info
  ao_operator_account :: account_info
  ao_system_program :: account_info

definition add_operator :: "env \<Rightarrow> AddOperator \<Rightarrow> operators_state \<Rightarrow> operators_state result" where
  "add_operator env a st =
     (let rk = ai_key (ao_registry a); ok = ai_key (ao_operator_account a) in
     res_bind (load_registry env st (ao_registry a)) (\<lambda>r.
     res_bind (check_owner (ao_owner a) r) (\<lambda>_.
     res_bind (check_seeds_canonical env (operator_seeds (ai_key (ao_operator_to_add a))) (operators_id env) ok) (\<lambda>bump.
     res_bind (check_vacant (op_accounts st) ok) (\<lambda>_.
     res_bind (check_program (ao_system_program a) (system_program_id env)) (\<lambda>_.
     res_bind (ok_or (checked_add (operator_count r) 1) (ProgramE ProgramError.ArithmeticOverflow)) (\<lambda>n.
     Inr (st\<lparr>op_accounts := (op_accounts st)(ok \<mapsto> OperatorAcc \<lparr>oa_bump = bump\<rparr>,
       rk \<mapsto> RegistryAcc (r\<lparr>operator_count := n\<rparr>))\<rparr>))))))))"

record RemoveOperator =
  ro_owner :: account_info
  ro_operator_to_remove :: account_info
  ro_registry :: account_info
  ro_operator_account :: account_info

text \<open>\<open>close = owner\<close> removes the account.\<close>

definition remove_operator :: "env \<Rightarrow> RemoveOperator \<Rightarrow> operators_state \<Rightarrow> operators_state result" where
  "remove_operator env a st =
     (let rk = ai_key (ro_registry a); ok = ai_key (ro_operator_account a) in
     res_bind (load_registry env st (ro_registry a)) (\<lambda>r.
     res_bind (check_owner (ro_owner a) r) (\<lambda>_.
     res_bind (check_mut (ro_operator_account a)) (\<lambda>_.
     res_bind (load_acc operator_of (op_accounts st) ok) (\<lambda>oa.
     res_bind (check_seeds env (operator_seeds (ai_key (ro_operator_to_remove a))) (oa_bump oa) (operators_id env) ok) (\<lambda>_.
     res_bind (ok_or (checked_sub (operator_count r) 1) (ProgramE ProgramError.InvalidAccountData)) (\<lambda>n.
     Inr (st\<lparr>op_accounts := ((op_accounts st)(rk \<mapsto> RegistryAcc (r\<lparr>operator_count := n\<rparr>)))(ok := None)\<rparr>))))))))"

record TransferOwner =
  tw_owner :: account_info
  tw_new_owner :: account_info
  tw_registry :: account_info

definition transfer_owner :: "env \<Rightarrow> TransferOwner \<Rightarrow> operators_state \<Rightarrow> operators_state result" where
  "transfer_owner env a st =
     res_bind (load_registry env st (tw_registry a)) (\<lambda>r.
     res_bind (check_owner (tw_owner a) r) (\<lambda>_.
     res_bind (require (ai_key (tw_new_owner a) \<noteq> or_owner r) (OperatorsE SameOwner)) (\<lambda>_.
     Inr (st\<lparr>op_accounts := (op_accounts st)(ai_key (tw_registry a) \<mapsto>
            RegistryAcc (r\<lparr>or_owner := ai_key (tw_new_owner a)\<rparr>)),
          op_events := op_events st @ [OwnershipTransferred (ai_key (tw_owner a)) (ai_key (tw_new_owner a))]\<rparr>))))"

datatype operators_instruction =
    OperatorsInitializeIx operators_Initialize
  | AddOperatorIx AddOperator
  | RemoveOperatorIx RemoveOperator
  | TransferOwnerIx TransferOwner

fun operators_entry :: "env \<Rightarrow> operators_instruction \<Rightarrow> operators_state \<Rightarrow> operators_state result" where
  "operators_entry env (OperatorsInitializeIx a) st = operators_initialize env a st"
| "operators_entry env (AddOperatorIx a) st = add_operator env a st"
| "operators_entry env (RemoveOperatorIx a) st = remove_operator env a st"
| "operators_entry env (TransferOwnerIx a) st = transfer_owner env a st"

inductive operators_step :: "env \<Rightarrow> operators_state \<Rightarrow> operators_state \<Rightarrow> bool" for env where
  operators_ix: "operators_entry env ix st = Inr st' \<Longrightarrow> operators_step env st st'"

inductive_cases operators_stepE: "operators_step env st st'"

abbreviation operators_reachable :: "env \<Rightarrow> operators_state \<Rightarrow> bool" where
  "operators_reachable env st \<equiv> runs (operators_step env) operators_empty st"

section \<open>The counter\<close>

abbreviation registry_at :: "operators_state \<Rightarrow> pubkey \<Rightarrow> OperatorRegistry \<Rightarrow> bool" where
  "registry_at st k r \<equiv> op_accounts st k = Some (RegistryAcc r)"

definition operator_keys :: "operators_account accounts \<Rightarrow> pubkey set" where
  "operator_keys m = {k. \<exists>a. m k = Some (OperatorAcc a)}"

definition operators_inv :: "env \<Rightarrow> operators_state \<Rightarrow> bool" where
  "operators_inv env st \<longleftrightarrow> finite (operator_keys (op_accounts st)) \<and>
     (\<forall>k r. registry_at st k r \<longrightarrow> unat (operator_count r) = card (operator_keys (op_accounts st)) \<and>
        try_find_program_address env registry_seeds (operators_id env) = Some (k, or_bump r)) \<and>
     (\<forall>k a. op_accounts st k = Some (OperatorAcc a) \<longrightarrow>
        (\<exists>op. try_find_program_address env (operator_seeds op) (operators_id env) = Some (k, oa_bump a))) \<and>
     (operator_keys (op_accounts st) \<noteq> {} \<longrightarrow> (\<exists>k r. registry_at st k r))"

lemma operators_invD:
  assumes "operators_inv env st"
  shows "finite (operator_keys (op_accounts st))"
    and "registry_at st k r \<Longrightarrow> unat (operator_count r) = card (operator_keys (op_accounts st))"
    and "registry_at st k r \<Longrightarrow> try_find_program_address env registry_seeds (operators_id env) = Some (k, or_bump r)"
    and "op_accounts st k = Some (OperatorAcc a) \<Longrightarrow>
        \<exists>op. try_find_program_address env (operator_seeds op) (operators_id env) = Some (k, oa_bump a)"
    and "operator_keys (op_accounts st) \<noteq> {} \<Longrightarrow> \<exists>k r. registry_at st k r"
  using assms unfolding operators_inv_def by blast+

lemma registry_unique:
  assumes "operators_inv env st" and "registry_at st k r" and "registry_at st k' r'"
  shows "k' = k"
proof -
  have "Some (k', or_bump r') = Some (k, or_bump r)"
    using operators_invD(3) [OF assms(1,3)] operators_invD(3) [OF assms(1,2)] by (rule trans [OF sym])
  then show ?thesis by simp
qed

lemma load_registry_Inr [res_inv]:
  "load_registry env st a = Inr r \<longleftrightarrow> ai_writable a \<and> registry_at st (ai_key a) r \<and>
     create_program_address env (registry_seeds @ [[or_bump r]]) (operators_id env) = Some (ai_key a)"
  by (auto simp: load_registry_def res_inv oreg.load_Inr)

lemma check_owner_Inr [res_inv]:
  "check_owner owner r = Inr u \<longleftrightarrow> ai_signer owner \<and> ai_writable owner \<and> ai_key owner = or_owner r"
  by (auto simp: check_owner_def res_inv)

text \<open>A registry update that keeps the bump, with operator accounts changed to \<open>ks\<close>.\<close>

lemma operators_inv_update:
  assumes inv: "operators_inv env st" and r: "registry_at st rk r"
    and acc: "\<And>k r2. op_accounts st' k = Some (RegistryAcc r2) \<longleftrightarrow> k = rk \<and> r2 = r'"
    and bump: "or_bump r' = or_bump r"
    and count: "unat (operator_count r') = card (operator_keys (op_accounts st'))"
    and fin: "finite (operator_keys (op_accounts st'))"
    and ops: "\<And>k a. op_accounts st' k = Some (OperatorAcc a) \<Longrightarrow> op_accounts st k = Some (OperatorAcc a) \<or>
      (\<exists>op. try_find_program_address env (operator_seeds op) (operators_id env) = Some (k, oa_bump a))"
  shows "operators_inv env st'"
  unfolding operators_inv_def
proof (intro conjI allI impI)
  fix k r2 assume "registry_at st' k r2"
  then have "k = rk" "r2 = r'" using acc by blast+
  then show "unat (operator_count r2) = card (operator_keys (op_accounts st'))"
    and "try_find_program_address env registry_seeds (operators_id env) = Some (k, or_bump r2)"
    using count bump operators_invD(3) [OF inv r] by simp_all
next
  fix k a assume "op_accounts st' k = Some (OperatorAcc a)"
  from ops [OF this] show "\<exists>op. try_find_program_address env (operator_seeds op) (operators_id env) = Some (k, oa_bump a)"
    using operators_invD(4) [OF inv] by blast
next
  show "\<exists>k r. registry_at st' k r" using acc by blast
qed (rule fin)

lemma operators_inv_add:
  assumes inv: "operators_inv env st" and ok: "add_operator env a st = Inr st'"
  shows "operators_inv env st'"
proof -
  let ?rk = "ai_key (ao_registry a)" and ?ok = "ai_key (ao_operator_account a)"
  obtain r b n where r: "registry_at st ?rk r" and vac: "op_accounts st ?ok = None"
    and find: "try_find_program_address env (operator_seeds (ai_key (ao_operator_to_add a))) (operators_id env) = Some (?ok, b)"
    and n: "unat n = unat (operator_count r) + 1"
    and st': "st' = st\<lparr>op_accounts := (op_accounts st)(?ok \<mapsto> OperatorAcc \<lparr>oa_bump = b\<rparr>,
       ?rk \<mapsto> RegistryAcc (r\<lparr>operator_count := n\<rparr>))\<rparr>"
    using ok by (auto simp: add_operator_def Let_def res_inv arith_ops)
  have ne: "?ok \<noteq> ?rk" using r vac by auto
  have other: "k \<noteq> ?rk \<Longrightarrow> \<not> registry_at st k r2" for k r2
    using registry_unique [OF inv r] by blast
  have keys: "operator_keys (op_accounts st') = insert ?ok (operator_keys (op_accounts st))"
    using r ne by (auto simp: st' operator_keys_def)
  have new: "?ok \<notin> operator_keys (op_accounts st)" using vac by (simp add: operator_keys_def)
  have acc: "op_accounts st' k = Some (RegistryAcc r2) \<longleftrightarrow> k = ?rk \<and> r2 = r\<lparr>operator_count := n\<rparr>" for k r2
    using ne other [of k r2] by (cases "k = ?rk"; cases "k = ?ok") (auto simp: st')
  show ?thesis
  proof (rule operators_inv_update [OF inv r acc])
    show "unat (operator_count (r\<lparr>operator_count := n\<rparr>)) = card (operator_keys (op_accounts st'))"
      using n operators_invD(1) [OF inv] operators_invD(2) [OF inv r] new by (simp add: keys)
    show "finite (operator_keys (op_accounts st'))" using operators_invD(1) [OF inv] by (simp add: keys)
    show "op_accounts st k = Some (OperatorAcc oa) \<or>
        (\<exists>op. try_find_program_address env (operator_seeds op) (operators_id env) = Some (k, oa_bump oa))"
      if "op_accounts st' k = Some (OperatorAcc oa)" for k oa
      using that find by (auto simp: st' split: if_splits)
  qed simp
qed

lemma operators_inv_remove:
  assumes inv: "operators_inv env st" and ok: "remove_operator env a st = Inr st'"
  shows "operators_inv env st'"
proof -
  let ?rk = "ai_key (ro_registry a)" and ?ok = "ai_key (ro_operator_account a)"
  obtain r oa n where r: "registry_at st ?rk r" and oa: "op_accounts st ?ok = Some (OperatorAcc oa)"
    and n: "1 \<le> unat (operator_count r)" "unat n = unat (operator_count r) - 1"
    and st': "st' = st\<lparr>op_accounts := ((op_accounts st)(?rk \<mapsto> RegistryAcc (r\<lparr>operator_count := n\<rparr>)))(?ok := None)\<rparr>"
    using ok by (auto simp: remove_operator_def Let_def res_inv arith_ops oacc.load_Inr)
  have ne: "?ok \<noteq> ?rk" using r oa by auto
  have other: "k \<noteq> ?rk \<Longrightarrow> \<not> registry_at st k r2" for k r2
    using registry_unique [OF inv r] by blast
  have keys: "operator_keys (op_accounts st') = operator_keys (op_accounts st) - {?ok}"
    using r ne by (auto simp: st' operator_keys_def)
  have old: "?ok \<in> operator_keys (op_accounts st)" using oa by (simp add: operator_keys_def)
  have acc: "op_accounts st' k = Some (RegistryAcc r2) \<longleftrightarrow> k = ?rk \<and> r2 = r\<lparr>operator_count := n\<rparr>" for k r2
    using ne other [of k r2] by (cases "k = ?rk"; cases "k = ?ok") (auto simp: st')
  show ?thesis
  proof (rule operators_inv_update [OF inv r acc])
    show "unat (operator_count (r\<lparr>operator_count := n\<rparr>)) = card (operator_keys (op_accounts st'))"
      using n operators_invD(1) [OF inv] operators_invD(2) [OF inv r] old by (simp add: keys)
    show "finite (operator_keys (op_accounts st'))" using operators_invD(1) [OF inv] by (simp add: keys)
    show "op_accounts st k = Some (OperatorAcc oa') \<or>
        (\<exists>op. try_find_program_address env (operator_seeds op) (operators_id env) = Some (k, oa_bump oa'))"
      if "op_accounts st' k = Some (OperatorAcc oa')" for k oa'
      using that by (auto simp: st' split: if_splits)
  qed simp
qed

lemma operators_inv_transfer:
  assumes inv: "operators_inv env st" and ok: "transfer_owner env a st = Inr st'"
  shows "operators_inv env st'"
proof -
  let ?rk = "ai_key (tw_registry a)"
  obtain r where r: "registry_at st ?rk r"
    and st': "op_accounts st' = (op_accounts st)(?rk \<mapsto> RegistryAcc (r\<lparr>or_owner := ai_key (tw_new_owner a)\<rparr>))"
    using ok by (auto simp: transfer_owner_def res_inv)
  have other: "k \<noteq> ?rk \<Longrightarrow> \<not> registry_at st k r2" for k r2
    using registry_unique [OF inv r] by blast
  have keys: "operator_keys (op_accounts st') = operator_keys (op_accounts st)"
    using r by (auto simp: st' operator_keys_def)
  have acc: "op_accounts st' k = Some (RegistryAcc r2) \<longleftrightarrow> k = ?rk \<and> r2 = r\<lparr>or_owner := ai_key (tw_new_owner a)\<rparr>" for k r2
    using other [of k r2] by (cases "k = ?rk") (auto simp: st')
  show ?thesis
  proof (rule operators_inv_update [OF inv r acc])
    show "op_accounts st k = Some (OperatorAcc oa) \<or>
        (\<exists>op. try_find_program_address env (operator_seeds op) (operators_id env) = Some (k, oa_bump oa))"
      if "op_accounts st' k = Some (OperatorAcc oa)" for k oa
      using that by (auto simp: st' split: if_splits)
  qed (use operators_invD(1) [OF inv] operators_invD(2) [OF inv r] in \<open>simp_all add: keys\<close>)
qed

lemma operators_inv_initialize:
  assumes inv: "operators_inv env st" and ok: "operators_initialize env a st = Inr st'"
  shows "operators_inv env st'"
proof -
  let ?rk = "ai_key (oi_registry a)"
  obtain b where find: "try_find_program_address env registry_seeds (operators_id env) = Some (?rk, b)"
    and vac: "op_accounts st ?rk = None"
    and st': "op_accounts st' = (op_accounts st)(?rk \<mapsto>
      RegistryAcc \<lparr>or_owner = ai_key (oi_owner a), operator_count = 0, or_bump = b\<rparr>)"
    using ok by (auto simp: operators_initialize_def res_inv)
  have none: "\<not> registry_at st k r" for k r
    using operators_invD(3) [OF inv, of k r] find vac by auto
  then have empty: "operator_keys (op_accounts st) = {}"
    using operators_invD(5) [OF inv] by blast
  then have empty': "operator_keys (op_accounts st') = {}"
    by (auto simp: st' operator_keys_def)
  show ?thesis
    unfolding operators_inv_def empty' using find none empty empty'
    by (auto simp: st' operator_keys_def split: if_splits)
qed

lemma operators_inv_step: "operators_inv env st \<Longrightarrow> operators_step env st st' \<Longrightarrow> operators_inv env st'"
proof (erule operators_stepE)
  fix ix assume inv: "operators_inv env st" and ok: "operators_entry env ix st = Inr st'"
  then show "operators_inv env st'"
    by (cases ix) (auto intro: operators_inv_add operators_inv_remove operators_inv_transfer operators_inv_initialize)
qed

interpretation ops_inv: step_invariant "operators_step env" "operators_inv env" for env
  by unfold_locales (rule operators_inv_step)

lemma operators_inv_reachable: "operators_reachable env st \<Longrightarrow> operators_inv env st"
  by (erule ops_inv.runs_keep) (simp add: operators_inv_def operators_empty_def operator_keys_def)

text \<open>
  C37. The registry's counter is the number of operator accounts in every reachable state, so
  removing an operator never underflows it.
\<close>

theorem operator_count_exact:
  assumes "operators_reachable env st" and "registry_at st k r"
  shows "unat (operator_count r) = card {op. \<exists>a. op_accounts st op = Some (OperatorAcc a)}"
  using operators_invD(2) [OF operators_inv_reachable [OF assms(1)] assms(2)]
  by (simp add: operator_keys_def)

text \<open>
  Only the owner changes the set of operators: an instruction after which an operator account
  has appeared or disappeared was signed by the owner the registry held before it.
\<close>

theorem operators_changed_by_owner:
  assumes "operators_entry env ix st = Inr st'"
    and "{k. \<exists>a. op_accounts st' k = Some (OperatorAcc a)} \<noteq> {k. \<exists>a. op_accounts st k = Some (OperatorAcc a)}"
  shows "\<exists>k r. registry_at st k r \<and> (case ix of
      AddOperatorIx a \<Rightarrow> ai_signer (ao_owner a) \<and> ai_key (ao_owner a) = or_owner r
    | RemoveOperatorIx a \<Rightarrow> ai_signer (ro_owner a) \<and> ai_key (ro_owner a) = or_owner r
    | _ \<Rightarrow> False)"
proof (cases ix)
  case (OperatorsInitializeIx a)
  with assms show ?thesis
    by (auto simp: operators_initialize_def res_inv split: if_splits)
next
  case (AddOperatorIx a)
  with assms(1) show ?thesis
    by (auto simp: add_operator_def Let_def res_inv)
next
  case (RemoveOperatorIx a)
  with assms(1) show ?thesis
    by (auto simp: remove_operator_def Let_def res_inv)
next
  case (TransferOwnerIx a)
  with assms show ?thesis
    by (auto simp: transfer_owner_def res_inv split: if_splits)
qed

end
