(* ===== verification/Operators_Props.thy ===== *)
theory Operators_Props
  imports Operators Gateway_Demo
begin

text \<open>A concrete run of the operator registry, and the witnesses of its properties.\<close>

definition demo_registry_key :: pubkey where
  "demo_registry_key = str_bytes ''operator_registry'' @ [255, 5]"

definition demo_operator_key :: pubkey where
  "demo_operator_key = str_bytes ''operator'' @ [41, 255, 5]"

definition demo_registry_init :: operators_Initialize where
  "demo_registry_init = \<lparr>oi_payer = acc_signer_mut [20], oi_owner = acc_signer [40],
     oi_registry = acc_mut demo_registry_key, oi_system_program = acc [8]\<rparr>"

definition demo_add_operator :: AddOperator where
  "demo_add_operator = \<lparr>ao_owner = acc_signer_mut [40], ao_operator_to_add = acc [41],
     ao_registry = acc_mut demo_registry_key, ao_operator_account = acc_mut demo_operator_key,
     ao_system_program = acc [8]\<rparr>"

definition demo_ops1 :: operators_state where
  "demo_ops1 = operators_empty\<lparr>op_accounts := [demo_registry_key \<mapsto>
     RegistryAcc \<lparr>or_owner = [40], operator_count = 0, or_bump = 255\<rparr>]\<rparr>"

definition demo_ops2 :: operators_state where
  "demo_ops2 = operators_empty\<lparr>op_accounts := [demo_registry_key \<mapsto>
       RegistryAcc \<lparr>or_owner = [40], operator_count = 1, or_bump = 255\<rparr>,
     demo_operator_key \<mapsto> OperatorAcc \<lparr>oa_bump = 255\<rparr>]\<rparr>"

lemma demo_ops_keys [simp]: "demo_registry_key \<noteq> demo_operator_key" "demo_operator_key \<noteq> demo_registry_key"
  by (simp_all add: demo_registry_key_def demo_operator_key_def str_bytes_def of_char_u8_inj)

lemma demo_ops_seeds [simp]:
  "check_seeds demo_env registry_seeds 255 (operators_id demo_env) demo_registry_key = Inr ()"
  "check_seeds_canonical demo_env registry_seeds (operators_id demo_env) demo_registry_key = Inr 255"
  "check_seeds demo_env (operator_seeds [41]) 255 (operators_id demo_env) demo_operator_key = Inr ()"
  "check_seeds_canonical demo_env (operator_seeds [41]) (operators_id demo_env) demo_operator_key = Inr 255"
  by (simp_all add: demo_env_simps check_seeds_def registry_seeds_def operator_seeds_def demo_registry_key_def
      demo_operator_key_def)

lemma demo_ops_init_ok: "operators_initialize demo_env demo_registry_init operators_empty = Inr demo_ops1"
proof -
  have "system_program_id demo_env = [8]" by (simp add: demo_env_def)
  then show ?thesis
    by (simp add: operators_initialize_def demo_registry_init_def acc_defs check_signer_def check_mut_def
        check_vacant_def check_program_def demo_ops1_def operators_empty_def)
qed

lemma demo_add_ok: "add_operator demo_env demo_add_operator demo_ops1 = Inr demo_ops2"
proof -
  have "system_program_id demo_env = [8]" by (simp add: demo_env_def)
  then show ?thesis
    by (simp add: add_operator_def Let_def load_registry_def load_acc_def demo_add_operator_def acc_defs
        check_signer_def check_mut_def check_vacant_def check_program_def check_owner_def demo_ops1_def
        demo_ops2_def operators_empty_def checked_add_def fun_upd_twist [OF demo_ops_keys(1)])
qed

lemma demo_ops_reachable: "operators_reachable demo_env demo_ops2"
proof -
  have "operators_step demo_env operators_empty demo_ops1"
    by (rule operators_ix [where ix = "OperatorsInitializeIx demo_registry_init"]) (simp add: demo_ops_init_ok)
  moreover have "operators_step demo_env demo_ops1 demo_ops2"
    by (rule operators_ix [where ix = "AddOperatorIx demo_add_operator"]) (simp add: demo_add_ok)
  ultimately show ?thesis by (meson runs.intros)
qed

theorem operator_count_exact_witness:
  "unat (1 :: u64) = card {op. \<exists>a. op_accounts demo_ops2 op = Some (OperatorAcc a)}"
proof -
  have "registry_at demo_ops2 demo_registry_key \<lparr>or_owner = [40], operator_count = 1, or_bump = 255\<rparr>"
    by (simp add: demo_ops2_def)
  from operator_count_exact [OF demo_ops_reachable this] show ?thesis by simp
qed

theorem operators_changed_by_owner_witness:
  "\<exists>k r. registry_at demo_ops1 k r \<and> ai_signer (ao_owner demo_add_operator) \<and>
     ai_key (ao_owner demo_add_operator) = or_owner r"
proof -
  have "operators_entry demo_env (AddOperatorIx demo_add_operator) demo_ops1 = Inr demo_ops2"
    by (simp add: demo_add_ok)
  moreover have "demo_operator_key \<in> {k. \<exists>a. op_accounts demo_ops2 k = Some (OperatorAcc a)}"
    "demo_operator_key \<notin> {k. \<exists>a. op_accounts demo_ops1 k = Some (OperatorAcc a)}"
    by (simp_all add: demo_ops1_def demo_ops2_def)
  then have "{k. \<exists>a. op_accounts demo_ops2 k = Some (OperatorAcc a)} \<noteq> {k. \<exists>a. op_accounts demo_ops1 k = Some (OperatorAcc a)}"
    by blast
  ultimately show ?thesis
    using operators_changed_by_owner [of demo_env "AddOperatorIx demo_add_operator" demo_ops1 demo_ops2] by simp
qed

end
