(* ===== verification/Lamports.thy ===== *)
theory Lamports
  imports Platform
begin

text \<open>
  The native balances some programs move: the \<open>transfer_lamports_anchor!\<close> macro of
  \<open>solana-axelar-std/src/program_utils.rs\<close>, the closing of an account, and the system program and
  rent rules they rely on, which are parameters.
\<close>

type_synonym balances = "pubkey \<Rightarrow> u64"

text \<open>
  \<open>sys_create payer key space\<close> is the account creation behind \<open>init\<close>, which funds the new
  account from the payer.
\<close>

record system_lib =
  sys_transfer :: "pubkey \<Rightarrow> pubkey \<Rightarrow> u64 \<Rightarrow> balances \<Rightarrow> balances option"
  sys_create :: "pubkey \<Rightarrow> pubkey \<Rightarrow> nat \<Rightarrow> balances \<Rightarrow> balances option"
  rent_is_exempt :: "u64 \<Rightarrow> nat \<Rightarrow> bool"

text \<open>\<open>transfer_lamports_anchor!(from, to, amount)\<close>: the check, then \<open>sub_lamports\<close> and \<open>add_lamports\<close>.\<close>

definition transfer_lamports :: "pubkey \<Rightarrow> pubkey \<Rightarrow> u64 \<Rightarrow> balances \<Rightarrow> balances result" where
  "transfer_lamports from to amount L =
     res_bind (require (\<not> L from < amount) (ProgramE InsufficientFunds)) (\<lambda>_.
     res_bind (ok_or (checked_sub (L from) amount) (ProgramE ProgramError.ArithmeticOverflow)) (\<lambda>f.
     let L1 = L(from := f) in
     res_bind (ok_or (checked_add (L1 to) amount) (ProgramE ProgramError.ArithmeticOverflow)) (\<lambda>t.
     Inr (L1(to := t)))))"

text \<open>The lamports of a closed account go to its destination.\<close>

definition close_lamports :: "pubkey \<Rightarrow> pubkey \<Rightarrow> balances \<Rightarrow> balances result" where
  "close_lamports k dest L =
     res_bind (ok_or (checked_add (L dest) (L k)) (Panic ''lamports overflow'')) (\<lambda>t.
     Inr (L(dest := t, k := 0)))"

text \<open>
  The meaning of a transfer, of an account to itself included: what leaves \<open>from\<close> arrives at
  \<open>to\<close> and no other balance changes.
\<close>

definition moved :: "pubkey \<Rightarrow> pubkey \<Rightarrow> u64 \<Rightarrow> balances \<Rightarrow> balances \<Rightarrow> bool" where
  "moved from to amount L L' \<longleftrightarrow> (\<forall>k. unat (L' k) + (if k = from then unat amount else 0) =
     unat (L k) + (if k = to then unat amount else 0))"

lemma movedD:
  "moved a b amount L L' \<Longrightarrow> unat (L' k) + (if k = a then unat amount else 0) =
     unat (L k) + (if k = b then unat amount else 0)"
  by (simp add: moved_def)

definition sys_transfer_law :: "system_lib \<Rightarrow> bool" where
  "sys_transfer_law lib \<longleftrightarrow>
     (\<forall>from to n L L'. sys_transfer lib from to n L = Some L' \<longrightarrow> moved from to n L L')"

text \<open>A way to move lamports: the contract the programs' own transfers and the system's share.\<close>

locale lamport_mover =
  fixes move :: "pubkey \<Rightarrow> pubkey \<Rightarrow> u64 \<Rightarrow> balances \<Rightarrow> balances result"
  assumes move_moved: "move a b n L = Inr L' \<Longrightarrow> moved a b n L L'"
begin

lemma move_covered: "move a b n L = Inr L' \<Longrightarrow> a \<noteq> b \<Longrightarrow> unat n \<le> unat (L a)"
  using movedD [OF move_moved, of a b n L L' a] by simp

lemma move_other: "move a b n L = Inr L' \<Longrightarrow> k \<noteq> a \<Longrightarrow> k \<noteq> b \<Longrightarrow> L' k = L k"
  using movedD [OF move_moved, of a b n L L' k] by (simp add: word_unat_eq_iff)

lemma move_self: "move k k n L = Inr L' \<Longrightarrow> L' = L"
proof (rule ext)
  fix x assume "move k k n L = Inr L'"
  then show "L' x = L x"
    using movedD [OF move_moved, of k k n L L' x] by (simp add: word_unat_eq_iff split: if_splits)
qed

end

lemma transfer_lamports_moved: "transfer_lamports a b n L = Inr L' \<Longrightarrow> moved a b n L L'"
proof -
  assume "transfer_lamports a b n L = Inr L'"
  then obtain f t where le: "unat n \<le> unat (L a)" and f: "unat f = unat (L a) - unat n"
    and t: "unat t = unat ((L(a := f)) b) + unat n" and L': "L' = L(a := f, b := t)"
    unfolding transfer_lamports_def Let_def res_inv arith_ops by blast
  show ?thesis
    unfolding moved_def
  proof
    fix k show "unat (L' k) + (if k = a then unat n else 0) = unat (L k) + (if k = b then unat n else 0)"
      using le f t by (cases "k = a"; cases "k = b") (auto simp: L')
  qed
qed

interpretation own: lamport_mover transfer_lamports
  by unfold_locales (rule transfer_lamports_moved)

definition system_move :: "system_lib \<Rightarrow> pubkey \<Rightarrow> pubkey \<Rightarrow> u64 \<Rightarrow> balances \<Rightarrow> balances result" where
  "system_move lib from to n L = ok_or (sys_transfer lib from to n L) (ProgramE ExternalFailure)"

lemma system_move_moved: "sys_transfer_law lib \<Longrightarrow> system_move lib a b n L = Inr L' \<Longrightarrow> moved a b n L L'"
  by (auto simp: system_move_def sys_transfer_law_def res_inv)

text \<open>What a transfer needs is exactly covered funds and room at the receiver.\<close>

lemma transfer_lamports_ok:
  assumes "unat n \<le> unat (L from)" and "from \<noteq> to \<Longrightarrow> unat (L to) + unat n < 2 ^ 64"
  shows "\<exists>L'. transfer_lamports from to n L = Inr L'"
proof -
  obtain f where f: "checked_sub (L from) n = Some f" and fv: "unat f = unat (L from) - unat n"
    using assms(1) by (cases "checked_sub (L from) n") (auto simp: arith_ops)
  have "unat ((L(from := f)) to) + unat n < 2 ^ 64"
    using assms fv unat_less_len [of "L from"] by auto
  then obtain t where "checked_add ((L(from := f)) to) n = Some t"
    by (cases "checked_add ((L(from := f)) to) n") (simp_all add: arith_ops)
  then show ?thesis
    using assms(1) f by (simp add: transfer_lamports_def Let_def word_less_nat_alt not_less)
qed

text \<open>A concrete system: transfers as above, new accounts funded with ten lamports, which are exempt.\<close>

definition demo_sys :: system_lib where
  "demo_sys = \<lparr>sys_transfer = (\<lambda>f t n L. (case transfer_lamports f t n L of Inl _ \<Rightarrow> None | Inr L' \<Rightarrow> Some L')),
     sys_create = (\<lambda>p k space L. Some (L(k := 10))), rent_is_exempt = (\<lambda>b n. 10 \<le> b)\<rparr>"

lemma demo_sys_law: "sys_transfer_law demo_sys"
  by (auto simp: sys_transfer_law_def demo_sys_def transfer_lamports_moved split: sum.splits)

definition demo_balances :: balances where
  "demo_balances = (\<lambda>_. 100)"

end
