(* ===== verification/Gas_Service.thy ===== *)
theory Gas_Service
  imports Operators Lamports
begin

text \<open>
  The gas service (\<open>programs/solana-axelar-gas-service\<close>): users pay and add native gas into a
  treasury account, registered operators collect and refund it.
\<close>

section \<open>State\<close>

record Treasury =
  tr_bump :: u8

definition treasury_seeds :: "bytes list" where
  "treasury_seeds = [str_bytes ''gas-service'']"

text \<open>\<open>Treasury::INIT_SPACE + Treasury::DISCRIMINATOR.len()\<close>.\<close>

definition TREASURY_SPACE :: nat where
  "TREASURY_SPACE = 1 + 8"

datatype gas_event =
    GasPaidEvent pubkey string string hash u64 pubkey
  | GasAddedEvent pubkey string u64 pubkey
  | GasRefundedEvent pubkey string u64
  | GasCollectedEvent pubkey u64

record gas_state =
  gs_treasuries :: "Treasury accounts"
  gs_balances :: balances
  gs_events :: "gas_event list"

definition emit_gas :: "gas_event \<Rightarrow> gas_state \<Rightarrow> gas_state" where
  "emit_gas e st = st\<lparr>gs_events := gs_events st @ [e]\<rparr>"

lemma emit_gas_sel [simp]:
  "gs_treasuries (emit_gas e st) = gs_treasuries st"
  "gs_balances (emit_gas e st) = gs_balances st"
  "gs_events (emit_gas e st) = gs_events st @ [e]"
  by (simp_all add: emit_gas_def)

section \<open>Instructions\<close>

text \<open>
  \<open>operator_pda: Account<OperatorAccount>\<close>, owned by the operators program, at the address of the
  signing operator.
\<close>

definition check_operator :: "env \<Rightarrow> operators_state \<Rightarrow> account_info \<Rightarrow> account_info \<Rightarrow> unit result" where
  "check_operator env ops operator operator_pda =
     res_bind (check_signer operator) (\<lambda>_.
     res_bind (load_acc operator_of (op_accounts ops) (ai_key operator_pda)) (\<lambda>oa.
     check_seeds env (operator_seeds (ai_key operator)) (oa_bump oa) (operators_id env) (ai_key operator_pda)))"

definition load_treasury :: "env \<Rightarrow> gas_state \<Rightarrow> account_info \<Rightarrow> Treasury result" where
  "load_treasury env st a =
     res_bind (check_mut a) (\<lambda>_.
     res_bind (load_acc Some (gs_treasuries st) (ai_key a)) (\<lambda>t.
     res_bind (check_seeds env treasury_seeds (tr_bump t) (gas_service_id env) (ai_key a)) (\<lambda>_. Inr t)))"

record gas_Initialize =
  gi_payer :: account_info
  gi_operator :: account_info
  gi_operator_pda :: account_info
  gi_system_program :: account_info
  gi_treasury :: account_info

definition gas_initialize ::
    "env \<Rightarrow> system_lib \<Rightarrow> operators_state \<Rightarrow> gas_Initialize \<Rightarrow> gas_state \<Rightarrow> gas_state result" where
  "gas_initialize env lib ops a st =
     (let k = ai_key (gi_treasury a) in
     res_bind (check_signer (gi_payer a)) (\<lambda>_.
     res_bind (check_mut (gi_payer a)) (\<lambda>_.
     res_bind (check_operator env ops (gi_operator a) (gi_operator_pda a)) (\<lambda>_.
     res_bind (check_program (gi_system_program a) (system_program_id env)) (\<lambda>_.
     res_bind (check_seeds_canonical env treasury_seeds (gas_service_id env) k) (\<lambda>bump.
     res_bind (check_vacant (gs_treasuries st) k) (\<lambda>_.
     res_bind (ok_or (sys_create lib (ai_key (gi_payer a)) k TREASURY_SPACE (gs_balances st))
                (ProgramE ExternalFailure)) (\<lambda>L.
     Inr (st\<lparr>gs_treasuries := (gs_treasuries st)(k \<mapsto> \<lparr>tr_bump = bump\<rparr>), gs_balances := L\<rparr>)))))))))"

record PayGas =
  pg_sender :: account_info
  pg_treasury :: account_info
  pg_system_program :: account_info

text \<open>The accounts of \<open>PayGas\<close> and \<open>AddGas\<close> and the transfer both handlers make.\<close>

definition deposit :: "env \<Rightarrow> system_lib \<Rightarrow> PayGas \<Rightarrow> u64 \<Rightarrow> gas_state \<Rightarrow> gas_state result" where
  "deposit env lib a amount st =
     res_bind (check_signer (pg_sender a)) (\<lambda>_.
     res_bind (check_mut (pg_sender a)) (\<lambda>_.
     res_bind (load_treasury env st (pg_treasury a)) (\<lambda>_.
     res_bind (check_program (pg_system_program a) (system_program_id env)) (\<lambda>_.
     res_bind (require (amount \<noteq> 0) (ProgramE ProgramError.InvalidInstructionData)) (\<lambda>_.
     res_bind (system_move lib (ai_key (pg_sender a)) (ai_key (pg_treasury a)) amount (gs_balances st)) (\<lambda>L.
     Inr (st\<lparr>gs_balances := L\<rparr>)))))))"

definition pay_gas ::
    "env \<Rightarrow> system_lib \<Rightarrow> PayGas \<Rightarrow> string \<Rightarrow> string \<Rightarrow> hash \<Rightarrow> u64 \<Rightarrow> pubkey \<Rightarrow> gas_state \<Rightarrow> gas_state result" where
  "pay_gas env lib a dest_chain dest_address p_hash amount refund_address st =
     res_bind (deposit env lib a amount st) (\<lambda>st1.
     Inr (emit_gas (GasPaidEvent (ai_key (pg_sender a)) dest_chain dest_address p_hash amount refund_address) st1))"

definition add_gas ::
    "env \<Rightarrow> system_lib \<Rightarrow> PayGas \<Rightarrow> string \<Rightarrow> u64 \<Rightarrow> pubkey \<Rightarrow> gas_state \<Rightarrow> gas_state result" where
  "add_gas env lib a message_id amount refund_address st =
     res_bind (deposit env lib a amount st) (\<lambda>st1.
     Inr (emit_gas (GasAddedEvent (ai_key (pg_sender a)) message_id amount refund_address) st1))"

record CollectFees =
  cf_operator :: account_info
  cf_operator_pda :: account_info
  cf_treasury :: account_info
  cf_receiver :: account_info

text \<open>
  The accounts of \<open>CollectFees\<close> and \<open>RefundFees\<close> (the latter lists the receiver before the
  treasury) and the transfer both handlers make.
\<close>

definition withdraw_gas ::
    "env \<Rightarrow> system_lib \<Rightarrow> operators_state \<Rightarrow> CollectFees \<Rightarrow> u64 \<Rightarrow> gas_state \<Rightarrow> gas_state result" where
  "withdraw_gas env lib ops a amount st =
     (let k = ai_key (cf_treasury a) in
     res_bind (check_operator env ops (cf_operator a) (cf_operator_pda a)) (\<lambda>_.
     res_bind (load_treasury env st (cf_treasury a)) (\<lambda>_.
     res_bind (check_mut (cf_receiver a)) (\<lambda>_.
     res_bind (require (amount \<noteq> 0) (ProgramE ProgramError.InvalidInstructionData)) (\<lambda>_.
     res_bind (transfer_lamports k (ai_key (cf_receiver a)) amount (gs_balances st)) (\<lambda>L.
     res_bind (require (rent_is_exempt lib (L k) TREASURY_SPACE) (ProgramE ProgramError.InvalidAccountData)) (\<lambda>_.
     Inr (st\<lparr>gs_balances := L\<rparr>))))))))"

definition collect_native_fees ::
    "env \<Rightarrow> system_lib \<Rightarrow> operators_state \<Rightarrow> CollectFees \<Rightarrow> u64 \<Rightarrow> gas_state \<Rightarrow> gas_state result" where
  "collect_native_fees env lib ops a amount st =
     res_bind (withdraw_gas env lib ops a amount st) (\<lambda>st1.
     Inr (emit_gas (GasCollectedEvent (ai_key (cf_receiver a)) amount) st1))"

definition refund_native_fees ::
    "env \<Rightarrow> system_lib \<Rightarrow> operators_state \<Rightarrow> CollectFees \<Rightarrow> string \<Rightarrow> u64 \<Rightarrow> gas_state \<Rightarrow> gas_state result" where
  "refund_native_fees env lib ops a message_id amount st =
     res_bind (withdraw_gas env lib ops a amount st) (\<lambda>st1.
     Inr (emit_gas (GasRefundedEvent (ai_key (cf_receiver a)) message_id amount) st1))"

datatype gas_instruction =
    GasInitializeIx gas_Initialize
  | PayGasIx PayGas string string hash u64 pubkey
  | AddGasIx PayGas string u64 pubkey
  | CollectFeesIx CollectFees u64
  | RefundFeesIx CollectFees string u64

fun gas_entry :: "env \<Rightarrow> system_lib \<Rightarrow> operators_state \<Rightarrow> gas_instruction \<Rightarrow> gas_state \<Rightarrow> gas_state result" where
  "gas_entry env lib ops (GasInitializeIx a) st = gas_initialize env lib ops a st"
| "gas_entry env lib ops (PayGasIx a dc da ph n r) st = pay_gas env lib a dc da ph n r st"
| "gas_entry env lib ops (AddGasIx a mid n r) st = add_gas env lib a mid n r st"
| "gas_entry env lib ops (CollectFeesIx a n) st = collect_native_fees env lib ops a n st"
| "gas_entry env lib ops (RefundFeesIx a mid n) st = refund_native_fees env lib ops a mid n st"

text \<open>
  One step: an instruction, under whatever operators are registered then, or other programs
  moving balances; only the gas service debits its own account.
\<close>

inductive gas_step :: "env \<Rightarrow> system_lib \<Rightarrow> gas_state \<Rightarrow> gas_state \<Rightarrow> bool" for env lib where
  gas_ix: "gas_entry env lib ops ix st = Inr st' \<Longrightarrow> gas_step env lib st st'"
| gas_other: "(\<And>k. gs_treasuries st k \<noteq> None \<Longrightarrow> unat (gs_balances st k) \<le> unat (L k)) \<Longrightarrow>
    gas_step env lib st (st\<lparr>gs_balances := L\<rparr>)"

inductive_cases gas_stepE: "gas_step env lib st st'"

definition gas_empty :: "balances \<Rightarrow> gas_state" where
  "gas_empty L = \<lparr>gs_treasuries = Map.empty, gs_balances = L, gs_events = []\<rparr>"

section \<open>What the instructions do\<close>

lemma check_operator_Inr [res_inv]:
  "check_operator env ops o1 p = Inr u \<longleftrightarrow> ai_signer o1 \<and> (\<exists>oa. op_accounts ops (ai_key p) = Some (OperatorAcc oa) \<and>
     create_program_address env (operator_seeds (ai_key o1) @ [[oa_bump oa]]) (operators_id env) = Some (ai_key p))"
  by (auto simp: check_operator_def res_inv oacc.load_Inr)

lemma load_treasury_Inr [res_inv]:
  "load_treasury env st a = Inr t \<longleftrightarrow> ai_writable a \<and> gs_treasuries st (ai_key a) = Some t \<and>
     create_program_address env (treasury_seeds @ [[tr_bump t]]) (gas_service_id env) = Some (ai_key a)"
  by (auto simp: load_treasury_def res_inv load_acc_def split: option.splits)

lemma deposit_Inr [res_inv]:
  "deposit env lib a n st = Inr st' \<longleftrightarrow> ai_signer (pg_sender a) \<and> ai_writable (pg_sender a) \<and>
     (\<exists>t. load_treasury env st (pg_treasury a) = Inr t) \<and> ai_key (pg_system_program a) = system_program_id env \<and>
     n \<noteq> 0 \<and> (\<exists>L. system_move lib (ai_key (pg_sender a)) (ai_key (pg_treasury a)) n (gs_balances st) = Inr L \<and>
       st' = st\<lparr>gs_balances := L\<rparr>)"
  unfolding deposit_def res_bind_Inr check_signer_Inr check_mut_Inr check_program_Inr require_Inr by auto

lemma withdraw_gas_Inr [res_inv]:
  "withdraw_gas env lib ops a n st = Inr st' \<longleftrightarrow> check_operator env ops (cf_operator a) (cf_operator_pda a) = Inr () \<and>
     (\<exists>t. load_treasury env st (cf_treasury a) = Inr t) \<and> ai_writable (cf_receiver a) \<and> n \<noteq> 0 \<and>
     (\<exists>L. transfer_lamports (ai_key (cf_treasury a)) (ai_key (cf_receiver a)) n (gs_balances st) = Inr L \<and>
       rent_is_exempt lib (L (ai_key (cf_treasury a))) TREASURY_SPACE \<and> st' = st\<lparr>gs_balances := L\<rparr>)"
  unfolding withdraw_gas_def Let_def res_bind_Inr check_mut_Inr require_Inr by auto

text \<open>Every treasury is the one canonical account, and stays.\<close>

definition gas_inv :: "env \<Rightarrow> gas_state \<Rightarrow> bool" where
  "gas_inv env st \<longleftrightarrow> (\<forall>k t. gs_treasuries st k = Some t \<longrightarrow>
     try_find_program_address env treasury_seeds (gas_service_id env) = Some (k, tr_bump t))"

lemma gas_inv_unique:
  assumes "gas_inv env st" and "gs_treasuries st k = Some t" and "gs_treasuries st k' = Some t'"
  shows "k' = k"
proof -
  have "Some (k', tr_bump t') = Some (k, tr_bump t)"
    using assms unfolding gas_inv_def by metis
  then show ?thesis by simp
qed

lemma gas_entry_same:
  assumes "gas_entry env lib ops ix st = Inr st'" and "\<And>a. ix \<noteq> GasInitializeIx a"
  shows "gs_treasuries st' = gs_treasuries st"
  using assms by (cases ix) (auto simp: pay_gas_def add_gas_def collect_native_fees_def refund_native_fees_def
      res_bind_Inr deposit_Inr withdraw_gas_Inr)

lemma gas_initialize_treasuries:
  assumes "gas_initialize env lib ops a st = Inr st'"
  shows "\<exists>k b. try_find_program_address env treasury_seeds (gas_service_id env) = Some (k, b) \<and>
    gs_treasuries st k = None \<and> gs_treasuries st' = (gs_treasuries st)(k \<mapsto> \<lparr>tr_bump = b\<rparr>)"
  using assms by (auto simp: gas_initialize_def Let_def res_inv)

lemma gas_entry_treasuries:
  assumes "gas_entry env lib ops ix st = Inr st'" and "gs_treasuries st k = Some t"
  shows "gs_treasuries st' k = Some t"
proof (cases "\<exists>a. ix = GasInitializeIx a")
  case True
  then show ?thesis using assms by (auto dest!: gas_initialize_treasuries)
next
  case False
  then show ?thesis using gas_entry_same [OF assms(1)] assms(2) by simp
qed

lemma gas_inv_step: "gas_inv env st \<Longrightarrow> gas_step env lib st st' \<Longrightarrow> gas_inv env st'"
proof (erule gas_stepE)
  fix ops ix assume inv: "gas_inv env st" and ok: "gas_entry env lib ops ix st = Inr st'"
  show "gas_inv env st'"
  proof (cases "\<exists>a. ix = GasInitializeIx a")
    case True
    then show ?thesis
      using ok inv by (auto simp: gas_inv_def dest!: gas_initialize_treasuries split: if_splits)
  next
    case False
    then show ?thesis using gas_entry_same [OF ok] inv by (simp add: gas_inv_def)
  qed
qed (simp add: gas_inv_def)

interpretation gas_run: step_invariant "gas_step env lib" "gas_inv env" for env lib
  by unfold_locales (rule gas_inv_step)

section \<open>Accounting\<close>

text \<open>
  What the log says went into and out of the account \<open>k\<close>; a payment of an account to itself is
  neither.
\<close>

fun paid_in :: "pubkey \<Rightarrow> gas_event \<Rightarrow> nat" where
  "paid_in k (GasPaidEvent s _ _ _ n _) = (if s = k then 0 else unat n)"
| "paid_in k (GasAddedEvent s _ n _) = (if s = k then 0 else unat n)"
| "paid_in k _ = 0"

fun paid_out :: "pubkey \<Rightarrow> gas_event \<Rightarrow> nat" where
  "paid_out k (GasRefundedEvent r _ n) = (if r = k then 0 else unat n)"
| "paid_out k (GasCollectedEvent r n) = (if r = k then 0 else unat n)"
| "paid_out k _ = 0"

abbreviation total :: "(gas_event \<Rightarrow> nat) \<Rightarrow> gas_event list \<Rightarrow> nat" where
  "total f evs \<equiv> sum_list (map f evs)"

text \<open>
  \<open>gas_le k st st'\<close>: the log grew, the treasury \<open>k\<close> stayed, and its balance covers what the log
  added.
\<close>

definition gas_le :: "env \<Rightarrow> pubkey \<Rightarrow> gas_state \<Rightarrow> gas_state \<Rightarrow> bool" where
  "gas_le env k st st' \<longleftrightarrow> (gas_inv env st \<and> gs_treasuries st k \<noteq> None \<longrightarrow>
     gas_inv env st' \<and> gs_treasuries st' k \<noteq> None \<and> (\<exists>evs. gs_events st' = gs_events st @ evs \<and>
       unat (gs_balances st k) + total (paid_in k) evs \<le> unat (gs_balances st' k) + total (paid_out k) evs))"

lemma gas_le_trans: "gas_le env k st st' \<Longrightarrow> gas_le env k st' st'' \<Longrightarrow> gas_le env k st st''"
  unfolding gas_le_def by (force simp: add_ac)

text \<open>One instruction balances exactly.\<close>

lemma gas_entry_exact:
  assumes law: "sys_transfer_law lib" and inv: "gas_inv env st" and t: "gs_treasuries st k = Some t"
    and ok: "gas_entry env lib ops ix st = Inr st'"
  shows "\<exists>evs. gs_events st' = gs_events st @ evs \<and>
    unat (gs_balances st k) + total (paid_in k) evs = unat (gs_balances st' k) + total (paid_out k) evs"
proof -
  have same: "k' = k" if "load_treasury env st a = Inr t'" "ai_key a = k'" for a t' k'
    using that gas_inv_unique [OF inv t] by (auto simp: res_inv)
  have sys: "moved a b n L L'" if "system_move lib a b n L = Inr L'" for a b n L L'
    using system_move_moved [OF law that] .
  show ?thesis
  proof (cases ix)
    case (GasInitializeIx a)
    with ok obtain b where find: "try_find_program_address env treasury_seeds (gas_service_id env) = Some (ai_key (gi_treasury a), b)"
      and vac: "gs_treasuries st (ai_key (gi_treasury a)) = None"
      by (auto simp: gas_initialize_def Let_def res_inv)
    have "Some (k, tr_bump t) = Some (ai_key (gi_treasury a), b)"
      using inv t find unfolding gas_inv_def by metis
    with vac t show ?thesis by simp
  next
    case (PayGasIx a dc da ph n r)
    with ok obtain L t' where t': "load_treasury env st (pg_treasury a) = Inr t'"
      and mv: "system_move lib (ai_key (pg_sender a)) (ai_key (pg_treasury a)) n (gs_balances st) = Inr L"
      and st': "st' = emit_gas (GasPaidEvent (ai_key (pg_sender a)) dc da ph n r) (st\<lparr>gs_balances := L\<rparr>)"
      by (auto simp: pay_gas_def res_bind_Inr deposit_Inr)
    then show ?thesis
      using movedD [OF sys [OF mv], of k] same [OF t' refl] by (auto split: if_splits)
  next
    case (AddGasIx a mid n r)
    with ok obtain L t' where t': "load_treasury env st (pg_treasury a) = Inr t'"
      and mv: "system_move lib (ai_key (pg_sender a)) (ai_key (pg_treasury a)) n (gs_balances st) = Inr L"
      and st': "st' = emit_gas (GasAddedEvent (ai_key (pg_sender a)) mid n r) (st\<lparr>gs_balances := L\<rparr>)"
      by (auto simp: add_gas_def res_bind_Inr deposit_Inr)
    then show ?thesis
      using movedD [OF sys [OF mv], of k] same [OF t' refl] by (auto split: if_splits)
  next
    case (CollectFeesIx a n)
    with ok obtain L t' where t': "load_treasury env st (cf_treasury a) = Inr t'"
      and mv: "transfer_lamports (ai_key (cf_treasury a)) (ai_key (cf_receiver a)) n (gs_balances st) = Inr L"
      and st': "st' = emit_gas (GasCollectedEvent (ai_key (cf_receiver a)) n) (st\<lparr>gs_balances := L\<rparr>)"
      by (auto simp: collect_native_fees_def res_bind_Inr withdraw_gas_Inr)
    then show ?thesis
      using movedD [OF own.move_moved [OF mv], of k] same [OF t' refl] by (auto split: if_splits)
  next
    case (RefundFeesIx a mid n)
    with ok obtain L t' where t': "load_treasury env st (cf_treasury a) = Inr t'"
      and mv: "transfer_lamports (ai_key (cf_treasury a)) (ai_key (cf_receiver a)) n (gs_balances st) = Inr L"
      and st': "st' = emit_gas (GasRefundedEvent (ai_key (cf_receiver a)) mid n) (st\<lparr>gs_balances := L\<rparr>)"
      by (auto simp: refund_native_fees_def res_bind_Inr withdraw_gas_Inr)
    then show ?thesis
      using movedD [OF own.move_moved [OF mv], of k] same [OF t' refl] by (auto split: if_splits)
  qed
qed

lemma gas_step_le:
  assumes law: "sys_transfer_law lib" and step: "gas_step env lib st st'"
  shows "gas_le env k st st'"
  unfolding gas_le_def
proof (intro impI conjI)
  assume a: "gas_inv env st \<and> gs_treasuries st k \<noteq> None"
  then obtain t where t: "gs_treasuries st k = Some t" by auto
  show "gas_inv env st'" using a step by (blast intro: gas_inv_step)
  show "gs_treasuries st' k \<noteq> None"
    using step t by (auto elim!: gas_stepE dest: gas_entry_treasuries)
  show "\<exists>evs. gs_events st' = gs_events st @ evs \<and>
       unat (gs_balances st k) + total (paid_in k) evs \<le> unat (gs_balances st' k) + total (paid_out k) evs"
    using step
  proof cases
    case (gas_ix ops ix)
    then show ?thesis using gas_entry_exact [OF law _ t] a by (metis order_refl)
  next
    case (gas_other L)
    then show ?thesis using t by simp
  qed
qed

lemma gas_runs_le:
  assumes law: "sys_transfer_law lib" and r: "runs (gas_step env lib) st st'"
  shows "gas_le env k st st'"
proof -
  have "step_monotone (gas_step env lib) (gas_le env k)"
  proof
    show "gas_le env k s s" for s by (simp add: gas_le_def)
    show "gas_le env k s u" if "gas_le env k s t" "gas_le env k t u" for s t u
      using that by (rule gas_le_trans)
    show "gas_le env k s t" if "gas_step env lib s t" for s t
      using law that by (rule gas_step_le)
  qed
  then show ?thesis using r by (rule step_monotone.runs_le)
qed

end
