(* ===== verification/Gas_Props.thy ===== *)
theory Gas_Props
  imports Gas_Service Operators_Props
begin

text \<open>The properties of the gas service, with a concrete run for their witnesses.\<close>

text \<open>
  C33. Accounting of the treasury: over any run, with any other program paying into it in between,
  the treasury's balance covers what it held at the start plus what the log says was paid in,
  minus what the log says was collected or refunded.
\<close>

theorem treasury_accounting:
  assumes "sys_transfer_law lib" and "runs (gas_step env lib) (gas_empty L) st"
    and "gs_treasuries st k \<noteq> None" and "runs (gas_step env lib) st st'"
  shows "\<exists>evs. gs_events st' = gs_events st @ evs \<and>
    unat (gs_balances st k) + sum_list (map (paid_in k) evs)
      \<le> unat (gs_balances st' k) + sum_list (map (paid_out k) evs)"
proof -
  have "gas_inv env st"
    using gas_run.runs_keep [OF assms(2)] by (simp add: gas_inv_def gas_empty_def)
  then show ?thesis
    using gas_runs_le [OF assms(1,4), of k] assms(3) unfolding gas_le_def by blast
qed

text \<open>
  Every instruction balances exactly: the treasury gains the payments of the log entries the
  instruction wrote and loses its withdrawals, to the lamport.
\<close>

theorem gas_instruction_balances:
  assumes "sys_transfer_law lib" and "runs (gas_step env lib) (gas_empty L) st"
    and "gs_treasuries st k = Some t" and "gas_entry env lib ops ix st = Inr st'"
  shows "\<exists>evs. gs_events st' = gs_events st @ evs \<and>
    unat (gs_balances st k) + sum_list (map (paid_in k) evs)
      = unat (gs_balances st' k) + sum_list (map (paid_out k) evs)"
proof -
  have "gas_inv env st"
    using gas_run.runs_keep [OF assms(2)] by (simp add: gas_inv_def gas_empty_def)
  then show ?thesis by (rule gas_entry_exact [OF assms(1) _ assms(3,4)])
qed

text \<open>
  C38. Money leaves the treasury only for a registered operator who signs, and never below the
  rent-exempt minimum: an instruction after which the treasury holds less is a collection or
  refund by the holder of an operator account, and the treasury stays rent exempt.
\<close>

theorem treasury_debit_authorised:
  assumes law: "sys_transfer_law lib" and inv: "runs (gas_step env lib) (gas_empty L) st"
    and t: "gs_treasuries st k = Some t" and ok: "gas_entry env lib ops ix st = Inr st'"
    and less: "gs_balances st' k < gs_balances st k"
  shows "rent_is_exempt lib (gs_balances st' k) TREASURY_SPACE \<and>
    (\<exists>a. (\<exists>n. ix = CollectFeesIx a n) \<or> (\<exists>mid n. ix = RefundFeesIx a mid n)) \<and>
    (\<forall>a. (\<exists>n. ix = CollectFeesIx a n) \<or> (\<exists>mid n. ix = RefundFeesIx a mid n) \<longrightarrow>
      ai_signer (cf_operator a) \<and> (\<exists>oa. op_accounts ops (ai_key (cf_operator_pda a)) = Some (OperatorAcc oa) \<and>
        create_program_address env (operator_seeds (ai_key (cf_operator a)) @ [[oa_bump oa]]) (operators_id env)
          = Some (ai_key (cf_operator_pda a))))"
proof -
  have g: "gas_inv env st"
    using gas_run.runs_keep [OF inv] by (simp add: gas_inv_def gas_empty_def)
  obtain evs where e: "gs_events st' = gs_events st @ evs" and
    b: "unat (gs_balances st k) + total (paid_in k) evs = unat (gs_balances st' k) + total (paid_out k) evs"
    using gas_entry_exact [OF law g t ok] by blast
  have out: "total (paid_out k) evs \<noteq> 0" using b less unfolding word_less_nat_alt by linarith
  have wd: ?thesis if "withdraw_gas env lib ops a n st = Inr st1" "gs_balances st' = gs_balances st1"
      "(\<exists>n. ix = CollectFeesIx a n) \<or> (\<exists>mid n. ix = RefundFeesIx a mid n)" for a n st1
  proof -
    have "ai_key (cf_treasury a) = k"
      using that(1) gas_inv_unique [OF g t] by (auto simp: res_inv)
    then show ?thesis using that by (auto simp: withdraw_gas_Inr check_operator_Inr)
  qed
  show ?thesis
  proof (cases ix)
    case (CollectFeesIx a n)
    with ok show ?thesis using wd by (auto simp: collect_native_fees_def res_bind_Inr)
  next
    case (RefundFeesIx a mid n)
    with ok show ?thesis using wd by (auto simp: refund_native_fees_def res_bind_Inr)
  qed (use ok e out in \<open>auto simp: gas_initialize_def pay_gas_def add_gas_def res_bind_Inr deposit_Inr Let_def\<close>)
qed

text \<open>
  A withdrawal is refused for exactly one of its reasons: with a registered operator, a
  writable receiver and the canonical treasury, collecting fails with the instruction-data error
  for zero, with insufficient funds when the treasury holds less, and with the account-data error
  when it would fall below the rent-exempt minimum.
\<close>

theorem collect_fees_errors:
  assumes "check_operator env ops (cf_operator a) (cf_operator_pda a) = Inr ()"
    and "load_treasury env st (cf_treasury a) = Inr t" and "ai_writable (cf_receiver a)"
    and ne: "ai_key (cf_receiver a) \<noteq> ai_key (cf_treasury a)"
    and room: "unat (gs_balances st (ai_key (cf_receiver a))) + unat n < 2 ^ 64"
  defines "bal \<equiv> gs_balances st (ai_key (cf_treasury a))"
  shows "(case collect_native_fees env lib ops a n st of
      Inl e \<Rightarrow> e = (if n = 0 then ProgramE ProgramError.InvalidInstructionData
                    else if bal < n then ProgramE InsufficientFunds
                    else ProgramE ProgramError.InvalidAccountData)
        \<and> (n = 0 \<or> bal < n \<or> \<not> rent_is_exempt lib (bal - n) TREASURY_SPACE)
    | Inr _ \<Rightarrow> n \<noteq> 0 \<and> n \<le> bal \<and> rent_is_exempt lib (bal - n) TREASURY_SPACE)"
proof -
  let ?k = "ai_key (cf_treasury a)" and ?r = "ai_key (cf_receiver a)"
  have tl: "transfer_lamports ?k ?r n (gs_balances st) =
      (if bal < n then Inl (ProgramE InsufficientFunds)
       else Inr ((gs_balances st)(?k := bal - n, ?r := gs_balances st ?r + n)))"
  proof (cases "bal < n")
    case False
    then have "checked_sub bal n = Some (bal - n)" by (simp add: checked_sub_def word_less_nat_alt)
    moreover have "checked_add (gs_balances st ?r) n = Some (gs_balances st ?r + n)"
      using room by (simp add: checked_add_def)
    ultimately show ?thesis
      using False ne unfolding transfer_lamports_def Let_def bal_def [symmetric] by simp
  qed (simp add: transfer_lamports_def bal_def)
  consider "n = 0" | "n \<noteq> 0" "bal < n" | "n \<noteq> 0" "\<not> bal < n" by blast
  then show ?thesis
    using assms(1-3) ne tl
    by cases (auto simp: collect_native_fees_def withdraw_gas_def Let_def check_mut_def require_def not_less)
qed

section \<open>A concrete run\<close>

definition demo_treasury_key :: pubkey where
  "demo_treasury_key = str_bytes ''gas-service'' @ [255, 2]"

definition demo_gas_init :: gas_Initialize where
  "demo_gas_init = \<lparr>gi_payer = acc_signer_mut [20], gi_operator = acc_signer [41],
     gi_operator_pda = acc demo_operator_key, gi_system_program = acc [8], gi_treasury = acc_mut demo_treasury_key\<rparr>"

definition demo_gas1 :: gas_state where
  "demo_gas1 = (gas_empty demo_balances)\<lparr>gs_treasuries := [demo_treasury_key \<mapsto> \<lparr>tr_bump = 255\<rparr>],
     gs_balances := demo_balances(demo_treasury_key := 10)\<rparr>"

definition demo_pay :: PayGas where
  "demo_pay = \<lparr>pg_sender = acc_signer_mut [50], pg_treasury = acc_mut demo_treasury_key, pg_system_program = acc [8]\<rparr>"

definition demo_gas2 :: gas_state where
  "demo_gas2 = emit_gas (GasAddedEvent [50] ''m'' 7 [50])
     (demo_gas1\<lparr>gs_balances := demo_balances(demo_treasury_key := 17, [50] := 93)\<rparr>)"

definition demo_collect :: CollectFees where
  "demo_collect = \<lparr>cf_operator = acc_signer [41], cf_operator_pda = acc demo_operator_key,
     cf_treasury = acc_mut demo_treasury_key, cf_receiver = acc_mut [60]\<rparr>"

definition demo_gas3 :: gas_state where
  "demo_gas3 = emit_gas (GasCollectedEvent [60] 5)
     (demo_gas2\<lparr>gs_balances := demo_balances(demo_treasury_key := 12, [50] := 93, [60] := 105)\<rparr>)"

lemma demo_gas_keys [simp]:
  "demo_treasury_key \<noteq> [x]" "[x] \<noteq> demo_treasury_key"
  by (auto simp: demo_treasury_key_def dest: arg_cong [where f = length])

lemma demo_gas_seeds [simp]:
  "check_seeds demo_env treasury_seeds 255 (gas_service_id demo_env) demo_treasury_key = Inr ()"
  "check_seeds_canonical demo_env treasury_seeds (gas_service_id demo_env) demo_treasury_key = Inr 255"
  "check_operator demo_env demo_ops2 (acc_signer [41]) (acc demo_operator_key) = Inr ()"
  "system_program_id demo_env = [8]"
  by (simp_all add: demo_env_simps check_seeds_def treasury_seeds_def demo_treasury_key_def check_operator_Inr
      demo_ops2_def acc_defs operator_seeds_def demo_operator_key_def)

lemma demo_gas_init_ok: "gas_initialize demo_env demo_sys demo_ops2 demo_gas_init (gas_empty demo_balances) = Inr demo_gas1"
  by (simp add: gas_initialize_def Let_def demo_gas_init_def check_signer_def check_mut_def check_program_def
      check_vacant_def demo_sys_def demo_gas1_def gas_empty_def) (simp_all add: acc_defs)

lemma demo_gas_load [simp]:
  "gs_treasuries st demo_treasury_key = Some \<lparr>tr_bump = 255\<rparr> \<Longrightarrow>
     load_treasury demo_env st (acc_mut demo_treasury_key) = Inr \<lparr>tr_bump = 255\<rparr>"
  by (simp add: load_treasury_def check_mut_def load_acc_def acc_defs)

lemma demo_pay_ok: "add_gas demo_env demo_sys demo_pay ''m'' 7 [50] demo_gas1 = Inr demo_gas2"
proof -
  have "system_move demo_sys [50] demo_treasury_key 7 (demo_balances(demo_treasury_key := 10)) =
      Inr (demo_balances(demo_treasury_key := 17, [50] := 93))"
    by (auto simp: system_move_def demo_sys_def transfer_lamports_def Let_def demo_balances_def checked_sub_def
        checked_add_def fun_upd_def)
  then show ?thesis
    by (simp add: add_gas_def deposit_def demo_pay_def check_signer_def check_mut_def check_program_def
        demo_gas1_def demo_gas2_def) (simp_all add: acc_defs)
qed

lemma demo_collect_ok: "collect_native_fees demo_env demo_sys demo_ops2 demo_collect 5 demo_gas2 = Inr demo_gas3"
proof -
  have "transfer_lamports demo_treasury_key [60] 5 (demo_balances(demo_treasury_key := 17, [50] := 93)) =
      Inr (demo_balances(demo_treasury_key := 12, [50] := 93, [60] := 105))"
    by (auto simp: transfer_lamports_def Let_def demo_balances_def checked_sub_def checked_add_def fun_upd_def)
  moreover have "gs_treasuries demo_gas2 demo_treasury_key = Some \<lparr>tr_bump = 255\<rparr>"
    "gs_balances demo_gas2 = demo_balances(demo_treasury_key := 17, [50] := 93)"
    by (simp_all add: demo_gas2_def demo_gas1_def)
  ultimately show ?thesis
    by (simp add: collect_native_fees_def withdraw_gas_def Let_def demo_collect_def check_mut_def demo_gas3_def
        demo_sys_def) (simp_all add: acc_defs)
qed

lemma demo_gas_steps:
  "gas_step demo_env demo_sys (gas_empty demo_balances) demo_gas1"
  "gas_step demo_env demo_sys demo_gas1 demo_gas2" "gas_step demo_env demo_sys demo_gas2 demo_gas3"
  by (rule gas_ix [where ops = demo_ops2 and ix = "GasInitializeIx demo_gas_init"], simp add: demo_gas_init_ok,
      rule gas_ix [where ops = demo_ops2 and ix = "AddGasIx demo_pay ''m'' 7 [50]"], simp add: demo_pay_ok,
      rule gas_ix [where ops = demo_ops2 and ix = "CollectFeesIx demo_collect 5"], simp add: demo_collect_ok)

lemma demo_gas_runs:
  "runs (gas_step demo_env demo_sys) (gas_empty demo_balances) demo_gas1"
  "runs (gas_step demo_env demo_sys) (gas_empty demo_balances) demo_gas2"
  "runs (gas_step demo_env demo_sys) demo_gas1 demo_gas3"
  by (meson demo_gas_steps runs.intros)+

lemma demo_gas_values [simp]:
  "gs_treasuries demo_gas1 demo_treasury_key = Some \<lparr>tr_bump = 255\<rparr>"
  "gs_treasuries demo_gas2 demo_treasury_key = Some \<lparr>tr_bump = 255\<rparr>"
  "gs_balances demo_gas1 demo_treasury_key = 10" "gs_balances demo_gas2 demo_treasury_key = 17"
  "gs_balances demo_gas3 demo_treasury_key = 12" "gs_balances demo_gas2 [60] = 100"
  by (simp_all add: demo_gas1_def demo_gas2_def demo_gas3_def demo_balances_def)

theorem treasury_accounting_witness:
  "\<exists>evs. gs_events demo_gas3 = gs_events demo_gas1 @ evs \<and>
    unat (10 :: u64) + sum_list (map (paid_in demo_treasury_key) evs)
      \<le> unat (12 :: u64) + sum_list (map (paid_out demo_treasury_key) evs)"
  using treasury_accounting [OF demo_sys_law demo_gas_runs(1) _ demo_gas_runs(3), of demo_treasury_key] by simp

theorem gas_instruction_balances_witness:
  "\<exists>evs. gs_events demo_gas3 = gs_events demo_gas2 @ evs \<and>
    unat (17 :: u64) + sum_list (map (paid_in demo_treasury_key) evs)
      = unat (12 :: u64) + sum_list (map (paid_out demo_treasury_key) evs)"
proof -
  have "gas_entry demo_env demo_sys demo_ops2 (CollectFeesIx demo_collect 5) demo_gas2 = Inr demo_gas3"
    by (simp add: demo_collect_ok)
  from gas_instruction_balances [OF demo_sys_law demo_gas_runs(2) demo_gas_values(2) this] show ?thesis by simp
qed

theorem treasury_debit_authorised_witness:
  "rent_is_exempt demo_sys 12 TREASURY_SPACE \<and> ai_signer (cf_operator demo_collect)"
proof -
  have "gas_entry demo_env demo_sys demo_ops2 (CollectFeesIx demo_collect 5) demo_gas2 = Inr demo_gas3"
    by (simp add: demo_collect_ok)
  from treasury_debit_authorised [OF demo_sys_law demo_gas_runs(2) demo_gas_values(2) this] show ?thesis by simp
qed

theorem collect_fees_errors_witness:
  "(case collect_native_fees demo_env demo_sys demo_ops2 demo_collect 8 demo_gas2 of
      Inl e \<Rightarrow> e = ProgramE ProgramError.InvalidAccountData | Inr _ \<Rightarrow> False)"
proof -
  note c = collect_fees_errors [of demo_env demo_ops2 demo_collect demo_gas2 "\<lparr>tr_bump = 255\<rparr>" 8 demo_sys]
  have "check_operator demo_env demo_ops2 (cf_operator demo_collect) (cf_operator_pda demo_collect) = Inr ()"
    "load_treasury demo_env demo_gas2 (cf_treasury demo_collect) = Inr \<lparr>tr_bump = 255\<rparr>"
    by (simp_all add: demo_collect_def)
  moreover have "ai_writable (cf_receiver demo_collect)" "ai_key (cf_receiver demo_collect) = [60]"
    "ai_key (cf_treasury demo_collect) = demo_treasury_key"
    by (simp_all add: demo_collect_def acc_defs)
  ultimately show ?thesis
    using c by (simp add: demo_sys_def split: sum.splits)
qed

end
