(* ===== verification/Governance_State.thy ===== *)
theory Governance_State
  imports Executable Lamports
begin

text \<open>
  The governance program's data (\<open>programs/solana-axelar-governance/src/state\<close>): the configuration
  with its delay bounds, the proposals and the hash that names them, and the decoding of a
  governance command (\<open>payload_conversions.rs\<close>, \<open>crates/governance-gmp\<close>).
\<close>

section \<open>Configuration\<close>

definition VALID_PROPOSAL_DELAY_MIN :: u32 where
  "VALID_PROPOSAL_DELAY_MIN = 3600"

definition VALID_PROPOSAL_DELAY_MAX :: u32 where
  "VALID_PROPOSAL_DELAY_MAX = 86400"

record GovernanceConfig =
  gvc_bump :: u8
  chain_hash :: hash
  address_hash :: hash
  minimum_proposal_eta_delay :: u32
  gvc_operator :: pubkey

record GovernanceConfigInit =
  gci_chain_hash :: hash
  gci_address_hash :: hash
  gci_minimum_proposal_eta_delay :: u32
  gci_operator :: pubkey

record GovernanceConfigUpdate =
  gcu_chain_hash :: "hash option"
  gcu_address_hash :: "hash option"
  gcu_minimum_proposal_eta_delay :: "u32 option"

definition GOVERNANCE_CONFIG_SPACE :: nat where
  "GOVERNANCE_CONFIG_SPACE = (1 + 32 + 32 + 4 + 32) + 8"

definition governance_seeds :: "bytes list" where
  "governance_seeds = [str_bytes ''governance'']"

definition validate_config :: "GovernanceConfig \<Rightarrow> unit result" where
  "validate_config c =
     require (VALID_PROPOSAL_DELAY_MIN \<le> minimum_proposal_eta_delay c \<and>
              minimum_proposal_eta_delay c \<le> VALID_PROPOSAL_DELAY_MAX) (GovernanceE GovernanceError.InvalidArgument)"

definition config_update :: "GovernanceConfig \<Rightarrow> GovernanceConfigUpdate \<Rightarrow> GovernanceConfig result" where
  "config_update c u =
     (let c1 = (case gcu_chain_hash u of None \<Rightarrow> c | Some h \<Rightarrow> c\<lparr>chain_hash := h\<rparr>);
          c2 = (case gcu_address_hash u of None \<Rightarrow> c1 | Some h \<Rightarrow> c1\<lparr>address_hash := h\<rparr>);
          c3 = (case gcu_minimum_proposal_eta_delay u of None \<Rightarrow> c2 | Some d \<Rightarrow> c2\<lparr>minimum_proposal_eta_delay := d\<rparr>)
      in res_bind (validate_config c3) (\<lambda>_. Inr c3))"

abbreviation delay_ok :: "GovernanceConfig \<Rightarrow> bool" where
  "delay_ok c \<equiv> 3600 \<le> unat (minimum_proposal_eta_delay c) \<and> unat (minimum_proposal_eta_delay c) \<le> 86400"

lemma validate_config_Inr [res_inv]: "validate_config c = Inr u \<longleftrightarrow> delay_ok c"
  by (simp add: validate_config_def res_inv VALID_PROPOSAL_DELAY_MIN_def VALID_PROPOSAL_DELAY_MAX_def word_le_nat_alt)

section \<open>Proposals\<close>

record ExecutableProposal =
  ep_eta :: u64
  ep_bump :: u8
  ep_managed_bump :: u8

text \<open>An account without fields.\<close>

datatype OperatorProposal = OperatorProposal

record SolanaAccountMetadata =
  sm_pubkey :: pubkey
  sm_is_signer :: bool
  sm_is_writable :: bool

record ExecuteProposalCallData =
  solana_accounts_metadata :: "SolanaAccountMetadata list"
  solana_native_value_receiver_account :: "SolanaAccountMetadata option"
  proposal_call_data :: bytes

record ExecuteProposalData =
  target_address :: pubkey
  proposal_call :: ExecuteProposalCallData
  proposal_native_value :: bytes

definition proposal_seeds :: "hash \<Rightarrow> bytes list" where
  "proposal_seeds h = [str_bytes ''proposal'', h]"

definition operator_proposal_seeds :: "hash \<Rightarrow> bytes list" where
  "operator_proposal_seeds h = [str_bytes ''operator-managed-proposal'', h]"

definition PROPOSAL_SPACE :: nat where
  "PROPOSAL_SPACE = 8 + (8 + 1 + 1)"

definition OPERATOR_PROPOSAL_SPACE :: nat where
  "OPERATOR_PROPOSAL_SPACE = 8 + 0"

section \<open>The command of a governance message\<close>

text \<open>The \<open>sol!\<close> macro adds the invalid value; 256-bit integers are the ABI's.\<close>

datatype GovernanceCommand =
    ScheduleTimeLockProposal
  | CancelTimeLockProposal
  | ApproveOperatorProposalCommand
  | CancelOperatorApproval
  | InvalidGovernanceCommand

record GovernanceCommandPayload =
  gcp_command :: GovernanceCommand
  gcp_target :: bytes
  gcp_call_data :: bytes
  gcp_native_value :: "256 word"
  gcp_eta :: "256 word"

text \<open>
  Parameters: the derived Borsh forms and the ABI decoder.
\<close>

record governance_lib =
  borsh_metadata_vec :: "SolanaAccountMetadata list \<Rightarrow> bytes option"
  borsh_metadata_opt :: "SolanaAccountMetadata option \<Rightarrow> bytes option"
  abi_decode_command :: "bytes \<Rightarrow> GovernanceCommandPayload option"
  call_data_try_from_slice :: "bytes \<Rightarrow> ExecuteProposalCallData option"

definition calculate_hash ::
    "env \<Rightarrow> governance_lib \<Rightarrow> pubkey \<Rightarrow> ExecuteProposalCallData \<Rightarrow> bytes \<Rightarrow> hash result" where
  "calculate_hash env lib target call_data native_value =
     res_bind (ok_or (borsh_metadata_vec lib (solana_accounts_metadata call_data))
                (Panic ''Solana accounts serialization failed'')) (\<lambda>sol_accounts_ser.
     res_bind (ok_or (borsh_metadata_opt lib (solana_native_value_receiver_account call_data))
                (Panic ''Solana native value receiver account serialization failed'')) (\<lambda>native_value_ser.
     Inr (hashv env [target, sol_accounts_ser, native_value_ser, proposal_call_data call_data, native_value])))"

definition hash_from_data :: "env \<Rightarrow> governance_lib \<Rightarrow> ExecuteProposalData \<Rightarrow> hash result" where
  "hash_from_data env lib data =
     calculate_hash env lib (target_address data) (proposal_call data) (proposal_native_value data)"

definition decode_payload :: "governance_lib \<Rightarrow> bytes \<Rightarrow> GovernanceCommandPayload result" where
  "decode_payload lib raw = ok_or (abi_decode_command lib raw) (ProgramE ProgramError.InvalidArgument)"

definition decode_payload_target :: "bytes \<Rightarrow> pubkey result" where
  "decode_payload_target bs = res_bind (require (length bs = 32) (ProgramE ProgramError.InvalidArgument)) (\<lambda>_. Inr bs)"

definition decode_payload_call_data :: "governance_lib \<Rightarrow> bytes \<Rightarrow> ExecuteProposalCallData result" where
  "decode_payload_call_data lib bs = ok_or (call_data_try_from_slice lib bs) (ProgramE ProgramError.InvalidArgument)"

definition calculate_gmp_context ::
    "env \<Rightarrow> governance_lib \<Rightarrow> bytes \<Rightarrow> (GovernanceCommandPayload \<times> pubkey \<times> ExecuteProposalCallData \<times> hash) result" where
  "calculate_gmp_context env lib payload =
     res_bind (decode_payload lib payload) (\<lambda>cmd.
     res_bind (decode_payload_target (gcp_target cmd)) (\<lambda>target.
     res_bind (decode_payload_call_data lib (gcp_call_data cmd)) (\<lambda>call_data.
     res_bind (calculate_hash env lib target call_data (to_le_bytes 32 (gcp_native_value cmd))) (\<lambda>h.
     Inr (cmd, target, call_data, h)))))"

definition extract_proposal_data :: "GovernanceCommandPayload \<Rightarrow> (u64 \<times> bytes \<times> bytes \<times> bytes) result" where
  "extract_proposal_data cmd =
     res_bind (require (unat (gcp_eta cmd) < 2 ^ 64) (GovernanceE GovernanceError.InvalidInstructionData)) (\<lambda>_.
     Inr (ucast (gcp_eta cmd), to_le_bytes 32 (gcp_native_value cmd), gcp_call_data cmd, gcp_target cmd))"

definition ensure_authorized_gmp_command :: "env \<Rightarrow> GovernanceConfig \<Rightarrow> Message \<Rightarrow> unit result" where
  "ensure_authorized_gmp_command env config m =
     res_bind (require (hashv env [str_bytes (source_address m)] = address_hash config)
                (GovernanceE UnauthorizedAddress)) (\<lambda>_.
     require (hashv env [str_bytes (chain (cc_id m))] = chain_hash config) (GovernanceE UnauthorizedChain))"

section \<open>The minimum delay\<close>

text \<open>\<open>clock.unix_timestamp as u64\<close> keeps the bits.\<close>

definition at_least_default_eta_delay :: "ledger_view \<Rightarrow> u64 \<Rightarrow> u32 \<Rightarrow> u64 result" where
  "at_least_default_eta_delay view proposal_time min_eta_delay =
     (let now = unix_timestamp view in
     res_bind (ok_or (checked_add now (ucast min_eta_delay)) (GovernanceE GovernanceError.ArithmeticOverflow))
       (\<lambda>minimum_proposal_eta.
     Inr (if proposal_time < minimum_proposal_eta then minimum_proposal_eta else proposal_time)))"

lemma unat_ucast_u32 [simp]: "unat (ucast (d :: u32) :: u64) = unat d"
proof -
  have "unat d < 2 ^ 64" using unat_less_len [of d] by simp
  then show ?thesis by (simp add: unsigned_ucast_eq take_bit_nat_eq_self)
qed

lemma at_least_default_eta_delay_spec:
  "at_least_default_eta_delay view t d =
     (if 2 ^ 64 \<le> unat (unix_timestamp view) + unat d then Inl (GovernanceE GovernanceError.ArithmeticOverflow)
      else Inr (max t (unix_timestamp view + ucast d)))"
  by (auto simp: at_least_default_eta_delay_def checked_add_def Let_def max_def)

lemma at_least_default_eta_delay_bound:
  "at_least_default_eta_delay view t d = Inr e \<Longrightarrow>
     unat (unix_timestamp view) + unat d \<le> unat e \<and> unat t \<le> unat e \<and> (e = t \<or> unat e = unat (unix_timestamp view) + unat d)"
  by (auto simp: at_least_default_eta_delay_def Let_def res_inv arith_ops word_less_nat_alt)

section \<open>Native values\<close>

text \<open>\<open>checked_from_u256_le_bytes_to_u64\<close>: the upper 24 bytes must be zero.\<close>

definition checked_from_u256_le_bytes_to_u64 :: "bytes \<Rightarrow> u64 result" where
  "checked_from_u256_le_bytes_to_u64 bs =
     res_bind (require (\<forall>b \<in> set (take 24 (drop 8 bs)). b = 0) (GovernanceE InvalidNativeValue)) (\<lambda>_.
     Inr (from_le_bytes (take 8 bs)))"

lemma le_val_split: "n \<le> length bs \<Longrightarrow> le_val bs = le_val (take n bs) + 256 ^ n * le_val (drop n bs)"
  using le_val_append [of "take n bs" "drop n bs"] by simp

lemma unat_from_le_bytes: "(256 :: nat) ^ length bs \<le> 2 ^ LENGTH('a) \<Longrightarrow> unat (from_le_bytes bs :: 'a::len word) = le_val bs"
  using le_val_bound [of bs] by (simp add: from_le_bytes_def unsigned_of_nat take_bit_nat_eq_self)

lemma checked_from_u256_spec:
  assumes len: "length bs = 32"
  shows "checked_from_u256_le_bytes_to_u64 bs =
    (if le_val bs < 2 ^ 64 then Inr (word_of_nat (le_val bs)) else Inl (GovernanceE InvalidNativeValue))"
proof -
  have split: "le_val bs = le_val (take 8 bs) + 256 ^ 8 * le_val (drop 8 bs)"
    using le_val_split [of 8 bs] len by simp
  have low: "le_val (take 8 bs) < 256 ^ 8"
    using le_val_bound [of "take 8 bs"] len by simp
  have upper: "(\<forall>b \<in> set (take 24 (drop 8 bs)). b = 0) \<longleftrightarrow> le_val (drop 8 bs) = 0"
    using len by (simp add: le_val_eq_0)
  show ?thesis
  proof (cases "le_val (drop 8 bs) = 0")
    case True
    then have "le_val bs = le_val (take 8 bs)" using split by simp
    then show ?thesis
      using True low upper by (simp add: checked_from_u256_le_bytes_to_u64_def from_le_bytes_def)
  next
    case False
    then have "(256 :: nat) ^ 8 * 1 \<le> 256 ^ 8 * le_val (drop 8 bs)" by (intro mult_le_mono2) simp
    then have "\<not> le_val bs < 2 ^ 64" using split by simp
    then show ?thesis
      using False upper by (simp add: checked_from_u256_le_bytes_to_u64_def require_def)
  qed
qed

text \<open>Any 256-bit value of a command reaches the program as the bytes it is checked on.\<close>

lemma le_val_to_le_bytes_256: "le_val (to_le_bytes 32 (v :: 256 word)) = unat v"
proof -
  have "unat v < 256 ^ 32" using unat_less_len [of v] by simp
  then show ?thesis by (simp add: to_le_bytes_def le_val_le_bytes)
qed

end
