(* ===== verification/Governance.thy ===== *)
theory Governance
  imports Governance_State
begin

text \<open>
  The governance program's state and the instructions that make no calls
  (\<open>programs/solana-axelar-governance/src/instructions\<close>): initialization, the changes of the
  configuration and its operator, the withdrawal of tokens, and the four instructions that schedule
  and cancel timelock proposals and approve and cancel operator proposals. The execution of proposals and the
  handling of messages, which make calls, are in \<open>Governance_Exec\<close>.
\<close>

section \<open>State\<close>

datatype governance_account =
    GovConfigAcc GovernanceConfig
  | ProposalAcc ExecutableProposal
  | OperatorProposalAcc OperatorProposal

fun gov_config_of :: "governance_account \<Rightarrow> GovernanceConfig option" where
  "gov_config_of (GovConfigAcc c) = Some c"
| "gov_config_of _ = None"

fun proposal_of :: "governance_account \<Rightarrow> ExecutableProposal option" where
  "proposal_of (ProposalAcc p) = Some p"
| "proposal_of _ = None"

fun operator_proposal_of :: "governance_account \<Rightarrow> OperatorProposal option" where
  "operator_proposal_of (OperatorProposalAcc p) = Some p"
| "operator_proposal_of _ = None"

interpretation gcfg: account_kind GovConfigAcc gov_config_of
  by unfold_locales (auto elim: gov_config_of.elims)

interpretation gprop: account_kind ProposalAcc proposal_of
  by unfold_locales (auto elim: proposal_of.elims)

interpretation goprop: account_kind OperatorProposalAcc operator_proposal_of
  by unfold_locales (auto elim: operator_proposal_of.elims)

lemmas gov_load = gcfg.load_Inr gprop.load_Inr goprop.load_Inr

datatype governance_event =
    ProposalScheduled hash bytes bytes bytes u64
  | OperatorProposalApproved hash bytes bytes bytes
  | OperatorProposalCancelled hash bytes bytes bytes
  | ProposalCancelled hash bytes bytes bytes u64
  | ProposalExecuted hash bytes bytes bytes u64
  | OperatorProposalExecuted hash bytes bytes bytes
  | OperatorshipTransferredEvent bytes bytes

record gov_state =
  gv_accounts :: "governance_account accounts"
  gv_balances :: balances
  gv_gateway :: gateway_state
  gv_events :: "governance_event list"

definition gov_empty :: "balances \<Rightarrow> gov_state" where
  "gov_empty L = \<lparr>gv_accounts = Map.empty, gv_balances = L, gv_gateway = gateway_empty, gv_events = []\<rparr>"

definition put_gov :: "pubkey \<Rightarrow> governance_account \<Rightarrow> gov_state \<Rightarrow> gov_state" where
  "put_gov k a st = st\<lparr>gv_accounts := (gv_accounts st)(k \<mapsto> a)\<rparr>"

definition emit_gov :: "governance_event \<Rightarrow> gov_state \<Rightarrow> gov_state" where
  "emit_gov e st = st\<lparr>gv_events := gv_events st @ [e]\<rparr>"

definition set_balances :: "balances \<Rightarrow> gov_state \<Rightarrow> gov_state" where
  "set_balances L st = st\<lparr>gv_balances := L\<rparr>"

text \<open>\<open>close = dest\<close>, done when the instruction ends.\<close>

definition close_gov :: "pubkey \<Rightarrow> pubkey \<Rightarrow> gov_state \<Rightarrow> gov_state result" where
  "close_gov k dest st =
     res_bind (close_lamports k dest (gv_balances st)) (\<lambda>L.
     Inr (st\<lparr>gv_accounts := (gv_accounts st)(k := None), gv_balances := L\<rparr>))"

lemma gov_sel [simp]:
  "gv_accounts (put_gov k a st) = (gv_accounts st)(k \<mapsto> a)" "gv_balances (put_gov k a st) = gv_balances st"
  "gv_gateway (put_gov k a st) = gv_gateway st" "gv_events (put_gov k a st) = gv_events st"
  "gv_accounts (emit_gov e st) = gv_accounts st" "gv_balances (emit_gov e st) = gv_balances st"
  "gv_gateway (emit_gov e st) = gv_gateway st" "gv_events (emit_gov e st) = gv_events st @ [e]"
  "gv_accounts (set_balances L st) = gv_accounts st" "gv_balances (set_balances L st) = L"
  "gv_gateway (set_balances L st) = gv_gateway st" "gv_events (set_balances L st) = gv_events st"
  by (simp_all add: put_gov_def emit_gov_def set_balances_def)

lemma close_gov_Inr [res_inv]:
  "close_gov k dest st = Inr st' \<longleftrightarrow> (\<exists>L. close_lamports k dest (gv_balances st) = Inr L \<and>
     st' = st\<lparr>gv_accounts := (gv_accounts st)(k := None), gv_balances := L\<rparr>)"
  by (auto simp: close_gov_def res_inv)

section \<open>Shared account checks\<close>

definition load_governance :: "env \<Rightarrow> gov_state \<Rightarrow> account_info \<Rightarrow> GovernanceConfig result" where
  "load_governance env st a =
     res_bind (load_acc gov_config_of (gv_accounts st) (ai_key a)) (\<lambda>c.
     res_bind (check_seeds env governance_seeds (gvc_bump c) (governance_id env) (ai_key a)) (\<lambda>_. Inr c))"

definition check_constraint_signer :: "account_info \<Rightarrow> unit result" where
  "check_constraint_signer a = require (ai_signer a) (AnchorE ConstraintSigner)"

definition load_proposal :: "env \<Rightarrow> gov_state \<Rightarrow> hash \<Rightarrow> account_info \<Rightarrow> ExecutableProposal result" where
  "load_proposal env st h a =
     res_bind (load_acc proposal_of (gv_accounts st) (ai_key a)) (\<lambda>p.
     res_bind (check_seeds env (proposal_seeds h) (ep_bump p) (governance_id env) (ai_key a)) (\<lambda>_. Inr p))"

lemma load_governance_Inr [res_inv]:
  "load_governance env st a = Inr c \<longleftrightarrow> gv_accounts st (ai_key a) = Some (GovConfigAcc c) \<and>
     create_program_address env (governance_seeds @ [[gvc_bump c]]) (governance_id env) = Some (ai_key a)"
  by (auto simp: load_governance_def res_inv gov_load)

lemma check_constraint_signer_Inr [res_inv]: "check_constraint_signer a = Inr u \<longleftrightarrow> ai_signer a"
  by (simp add: check_constraint_signer_def res_inv)

lemma load_proposal_Inr [res_inv]:
  "load_proposal env st h a = Inr p \<longleftrightarrow> gv_accounts st (ai_key a) = Some (ProposalAcc p) \<and>
     create_program_address env (proposal_seeds h @ [[ep_bump p]]) (governance_id env) = Some (ai_key a)"
  by (auto simp: load_proposal_def res_inv gov_load)

section \<open>Configuration instructions\<close>

record gov_InitializeConfig =
  gn_payer :: account_info
  gn_upgrade_authority :: account_info
  gn_program_data :: account_info
  gn_governance_config :: account_info
  gn_system_program :: account_info

definition gov_initialize_config ::
    "env \<Rightarrow> system_lib \<Rightarrow> ledger_view \<Rightarrow> gov_InitializeConfig \<Rightarrow> GovernanceConfigInit \<Rightarrow> gov_state \<Rightarrow> gov_state result" where
  "gov_initialize_config env sys view a params st =
     (let k = ai_key (gn_governance_config a) in
     res_bind (check_signer (gn_payer a)) (\<lambda>_.
     res_bind (check_mut (gn_payer a)) (\<lambda>_.
     res_bind (check_signer (gn_upgrade_authority a)) (\<lambda>_.
     res_bind (load_program_data env view (governance_id env) (ai_key (gn_program_data a))) (\<lambda>auth.
     res_bind (require (auth = Some (ai_key (gn_upgrade_authority a)))
                (GovernanceE GovernanceError.InvalidUpgradeAuthority)) (\<lambda>_.
     res_bind (check_seeds_canonical env governance_seeds (governance_id env) k) (\<lambda>bump.
     res_bind (check_vacant (gv_accounts st) k) (\<lambda>_.
     res_bind (ok_or (sys_create sys (ai_key (gn_payer a)) k GOVERNANCE_CONFIG_SPACE (gv_balances st))
                (ProgramE ExternalFailure)) (\<lambda>L.
     res_bind (check_program (gn_system_program a) (system_program_id env)) (\<lambda>_.
     let config = \<lparr>gvc_bump = bump, chain_hash = gci_chain_hash params, address_hash = gci_address_hash params,
                    minimum_proposal_eta_delay = gci_minimum_proposal_eta_delay params,
                    gvc_operator = gci_operator params\<rparr> in
     res_bind (validate_config config) (\<lambda>_.
     Inr (put_gov k (GovConfigAcc config) (set_balances L st)))))))))))))"

record gov_UpdateConfig =
  uc_operator :: account_info
  uc_governance_config :: account_info

definition gov_update_config ::
    "env \<Rightarrow> gov_UpdateConfig \<Rightarrow> GovernanceConfigUpdate \<Rightarrow> gov_state \<Rightarrow> gov_state result" where
  "gov_update_config env a params st =
     (let k = ai_key (uc_governance_config a) in
     res_bind (check_signer (uc_operator a)) (\<lambda>_.
     res_bind (check_mut (uc_operator a)) (\<lambda>_.
     res_bind (load_acc gov_config_of (gv_accounts st) k) (\<lambda>config.
     res_bind (require (gvc_operator config = ai_key (uc_operator a)) (GovernanceE NotOperator)) (\<lambda>_.
     res_bind (check_mut (uc_governance_config a)) (\<lambda>_.
     res_bind (check_seeds_canonical env governance_seeds (governance_id env) k) (\<lambda>_.
     res_bind (config_update config params) (\<lambda>config'.
     Inr (put_gov k (GovConfigAcc config') st)))))))))"

record gov_TransferOperatorship =
  gt_system_program :: account_info
  gt_operator_account :: "account_info option"
  gt_governance_config :: account_info

definition gov_transfer_operatorship ::
    "env \<Rightarrow> gov_TransferOperatorship \<Rightarrow> pubkey \<Rightarrow> gov_state \<Rightarrow> gov_state result" where
  "gov_transfer_operatorship env a new_operator st =
     (let k = ai_key (gt_governance_config a) in
     res_bind (check_program (gt_system_program a) (system_program_id env)) (\<lambda>_.
     res_bind (load_acc gov_config_of (gv_accounts st) k) (\<lambda>config.
     res_bind (case gt_operator_account a of None \<Rightarrow> Inr ()
               | Some op \<Rightarrow> res_bind (check_signer op) (\<lambda>_.
                   require (ai_key op = gvc_operator config) (GovernanceE GovernanceError.MissingRequiredSignature))) (\<lambda>_.
     res_bind (check_mut (gt_governance_config a)) (\<lambda>_.
     res_bind (check_seeds env governance_seeds (gvc_bump config) (governance_id env) k) (\<lambda>_.
     res_bind (require (gt_operator_account a \<noteq> None \<or> ai_signer (gt_governance_config a))
                (GovernanceE GovernanceError.MissingRequiredSignature)) (\<lambda>_.
     Inr (emit_gov (OperatorshipTransferredEvent (gvc_operator config) new_operator)
       (put_gov k (GovConfigAcc (config\<lparr>gvc_operator := new_operator\<rparr>)) st)))))))))"

record WithdrawTokens =
  wt_system_program :: account_info
  wt_governance_config :: account_info
  wt_receiver :: account_info

definition withdraw_tokens :: "env \<Rightarrow> system_lib \<Rightarrow> WithdrawTokens \<Rightarrow> u64 \<Rightarrow> gov_state \<Rightarrow> gov_state result" where
  "withdraw_tokens env sys a amount st =
     (let k = ai_key (wt_governance_config a) in
     res_bind (check_program (wt_system_program a) (system_program_id env)) (\<lambda>_.
     res_bind (check_mut (wt_governance_config a)) (\<lambda>_.
     res_bind (check_constraint_signer (wt_governance_config a)) (\<lambda>_.
     res_bind (load_governance env st (wt_governance_config a)) (\<lambda>_.
     res_bind (check_mut (wt_receiver a)) (\<lambda>_.
     res_bind (transfer_lamports k (ai_key (wt_receiver a)) amount (gv_balances st)) (\<lambda>L.
     res_bind (require (rent_is_exempt sys (L k) GOVERNANCE_CONFIG_SPACE) (ProgramE ProgramError.InvalidAccountData)) (\<lambda>_.
     Inr (set_balances L st)))))))))"

section \<open>Proposal instructions, signed by the configuration account\<close>

record ScheduleTimelock =
  sc_system_program :: account_info
  sc_governance_config :: account_info
  sc_payer :: account_info
  sc_proposal_pda :: account_info

definition schedule_timelock_proposal ::
    "env \<Rightarrow> system_lib \<Rightarrow> ledger_view \<Rightarrow> ScheduleTimelock \<Rightarrow> hash \<Rightarrow> u64 \<Rightarrow> bytes \<Rightarrow> bytes \<Rightarrow> bytes \<Rightarrow>
     gov_state \<Rightarrow> gov_state result" where
  "schedule_timelock_proposal env sys view a h eta native_value target call_data st =
     (let k = ai_key (sc_proposal_pda a) in
     res_bind (check_program (sc_system_program a) (system_program_id env)) (\<lambda>_.
     res_bind (check_constraint_signer (sc_governance_config a)) (\<lambda>_.
     res_bind (load_governance env st (sc_governance_config a)) (\<lambda>config.
     res_bind (check_signer (sc_payer a)) (\<lambda>_.
     res_bind (check_mut (sc_payer a)) (\<lambda>_.
     res_bind (check_seeds_canonical env (proposal_seeds h) (governance_id env) k) (\<lambda>bump.
     res_bind (check_vacant (gv_accounts st) k) (\<lambda>_.
     res_bind (ok_or (sys_create sys (ai_key (sc_payer a)) k PROPOSAL_SPACE (gv_balances st)) (ProgramE ExternalFailure)) (\<lambda>L.
     res_bind (find_program_address env (operator_proposal_seeds h) (governance_id env)) (\<lambda>(_, managed_bump).
     res_bind (at_least_default_eta_delay view eta (minimum_proposal_eta_delay config)) (\<lambda>final_eta.
     Inr (emit_gov (ProposalScheduled h target call_data native_value final_eta)
       (put_gov k (ProposalAcc \<lparr>ep_eta = final_eta, ep_bump = bump, ep_managed_bump = managed_bump\<rparr>)
         (set_balances L st))))))))))))))"

record CancelTimelock =
  ct_governance_config :: account_info
  ct_proposal_pda :: account_info

definition cancel_timelock_proposal ::
    "env \<Rightarrow> CancelTimelock \<Rightarrow> hash \<Rightarrow> u64 \<Rightarrow> bytes \<Rightarrow> bytes \<Rightarrow> bytes \<Rightarrow> gov_state \<Rightarrow> gov_state result" where
  "cancel_timelock_proposal env a h eta native_value target call_data st =
     res_bind (check_mut (ct_governance_config a)) (\<lambda>_.
     res_bind (check_constraint_signer (ct_governance_config a)) (\<lambda>_.
     res_bind (load_governance env st (ct_governance_config a)) (\<lambda>config.
     res_bind (check_mut (ct_proposal_pda a)) (\<lambda>_.
     res_bind (load_proposal env st h (ct_proposal_pda a)) (\<lambda>p.
     res_bind (require (eta = ep_eta p) (GovernanceE GovernanceError.InvalidArgument)) (\<lambda>_.
     close_gov (ai_key (ct_proposal_pda a)) (ai_key (ct_governance_config a))
       (emit_gov (ProposalCancelled h target call_data native_value eta) st)))))))"

record ApproveOperatorProposal =
  aop_system_program :: account_info
  aop_payer :: account_info
  aop_governance_config :: account_info
  aop_proposal_pda :: account_info
  aop_operator_proposal_pda :: account_info

definition approve_operator_proposal ::
    "env \<Rightarrow> system_lib \<Rightarrow> ApproveOperatorProposal \<Rightarrow> hash \<Rightarrow> bytes \<Rightarrow> bytes \<Rightarrow> bytes \<Rightarrow> gov_state \<Rightarrow> gov_state result" where
  "approve_operator_proposal env sys a h native_value target call_data st =
     (let k = ai_key (aop_operator_proposal_pda a) in
     res_bind (check_program (aop_system_program a) (system_program_id env)) (\<lambda>_.
     res_bind (check_signer (aop_payer a)) (\<lambda>_.
     res_bind (check_mut (aop_payer a)) (\<lambda>_.
     res_bind (check_constraint_signer (aop_governance_config a)) (\<lambda>_.
     res_bind (load_governance env st (aop_governance_config a)) (\<lambda>_.
     res_bind (load_proposal env st h (aop_proposal_pda a)) (\<lambda>p.
     res_bind (check_seeds_canonical env (operator_proposal_seeds h) (governance_id env) k) (\<lambda>bump.
     res_bind (check_vacant (gv_accounts st) k) (\<lambda>_.
     res_bind (ok_or (sys_create sys (ai_key (aop_payer a)) k OPERATOR_PROPOSAL_SPACE (gv_balances st))
                (ProgramE ExternalFailure)) (\<lambda>L.
     res_bind (require (ep_managed_bump p = bump) (GovernanceE GovernanceError.InvalidArgument)) (\<lambda>_.
     Inr (emit_gov (OperatorProposalApproved h target call_data native_value)
       (put_gov k (OperatorProposalAcc OperatorProposal) (set_balances L st))))))))))))))"

record CancelOperatorProposal =
  co_governance_config :: account_info
  co_proposal_pda :: account_info
  co_operator_proposal_pda :: account_info

definition cancel_operator_proposal ::
    "env \<Rightarrow> CancelOperatorProposal \<Rightarrow> hash \<Rightarrow> bytes \<Rightarrow> bytes \<Rightarrow> bytes \<Rightarrow> gov_state \<Rightarrow> gov_state result" where
  "cancel_operator_proposal env a h native_value target call_data st =
     (let k = ai_key (co_operator_proposal_pda a) in
     res_bind (check_mut (co_governance_config a)) (\<lambda>_.
     res_bind (check_constraint_signer (co_governance_config a)) (\<lambda>_.
     res_bind (load_governance env st (co_governance_config a)) (\<lambda>_.
     res_bind (load_proposal env st h (co_proposal_pda a)) (\<lambda>p.
     res_bind (check_mut (co_operator_proposal_pda a)) (\<lambda>_.
     res_bind (load_acc operator_proposal_of (gv_accounts st) k) (\<lambda>_.
     res_bind (check_seeds env (operator_proposal_seeds h) (ep_managed_bump p) (governance_id env) k) (\<lambda>_.
     close_gov k (ai_key (co_governance_config a))
       (emit_gov (OperatorProposalCancelled h target call_data native_value) st)))))))))"

end
