(* ===== verification/Governance_Exec.thy ===== *)
theory Governance_Exec
  imports Governance
begin

text \<open>
  The execution of proposals and the handling of governance messages. Both make cross-program
  calls; a call to the governance program itself runs one of its instructions again, to the
  depth the runtime allows.
\<close>

section \<open>Cross-program calls\<close>

type_synonym gov_cpi = "pubkey \<Rightarrow> account_info list \<Rightarrow> bytes \<Rightarrow> gov_state \<Rightarrow> gov_state result"

section \<open>Executing a proposal\<close>

definition get_account_metadata :: "ExecuteProposalData \<Rightarrow> account_info list" where
  "get_account_metadata data =
     map (\<lambda>m. if sm_is_writable m \<and> sm_is_signer m then acc_signer_mut (sm_pubkey m)
              else if sm_is_writable m then acc_mut (sm_pubkey m)
              else if sm_is_signer m then acc_signer (sm_pubkey m)
              else acc (sm_pubkey m))
       (solana_accounts_metadata (proposal_call data))"

definition check_target_program_presence :: "account_info list \<Rightarrow> pubkey \<Rightarrow> unit result" where
  "check_target_program_presence remaining target =
     require (\<exists>a \<in> set remaining. ai_key a = target) (GovernanceE InvalidTargetProgram)"

definition check_governance_config_presence ::
    "pubkey \<Rightarrow> account_info list \<Rightarrow> SolanaAccountMetadata list \<Rightarrow> unit result" where
  "check_governance_config_presence k remaining metas =
     res_bind (require (\<exists>a \<in> set remaining. ai_key a = k) (GovernanceE GovernanceConfigMissing)) (\<lambda>_.
     require (\<exists>m \<in> set metas. sm_pubkey m = k) (GovernanceE GovernanceConfigMissing))"

definition manual_lamport_transfer ::
    "ExecuteProposalData \<Rightarrow> account_info list \<Rightarrow> u64 \<Rightarrow> pubkey \<Rightarrow> gov_state \<Rightarrow> gov_state result" where
  "manual_lamport_transfer data remaining n config_key st =
     res_bind (ok_or (solana_native_value_receiver_account (proposal_call data))
                (GovernanceE MissingNativeValueReceiver)) (\<lambda>receiver.
     res_bind (ok_or (find (\<lambda>a. ai_key a = sm_pubkey receiver) remaining) (GovernanceE TargetAccountNotFound)) (\<lambda>target.
     res_bind (transfer_lamports config_key (ai_key target) n (gv_balances st)) (\<lambda>L.
     Inr (set_balances L st))))"

definition execute_proposal_cpi ::
    "env \<Rightarrow> gov_cpi \<Rightarrow> ExecuteProposalData \<Rightarrow> account_info list \<Rightarrow> pubkey \<Rightarrow> u8 \<Rightarrow> gov_state \<Rightarrow> gov_state result" where
  "execute_proposal_cpi env cpi data remaining config_key bump st =
     res_bind (checked_from_u256_le_bytes_to_u64 (proposal_native_value data)) (\<lambda>n.
     res_bind (if 0 < n then manual_lamport_transfer data remaining n config_key st else Inr st) (\<lambda>st1.
     let metas = get_account_metadata data in
     res_bind (invoke_check env (governance_id env) (governance_seeds @ [[bump]]) remaining metas) (\<lambda>_.
     cpi (target_address data) metas (proposal_call_data (proposal_call data)) st1)))"

record ExecuteProposal =
  xp_system_program :: account_info
  xp_governance_config :: account_info
  xp_proposal_pda :: account_info

text \<open>
  When a handler ends, Anchor writes each mutable typed account back from the copy loaded before
  the handler ran: the configuration gets back the data it had before the call.
\<close>

definition execute_proposal ::
    "env \<Rightarrow> governance_lib \<Rightarrow> gov_cpi \<Rightarrow> ledger_view \<Rightarrow> ExecuteProposal \<Rightarrow> account_info list \<Rightarrow> ExecuteProposalData \<Rightarrow>
     gov_state \<Rightarrow> gov_state result" where
  "execute_proposal env lib cpi view a remaining data st =
     (let ck = ai_key (xp_governance_config a); pk = ai_key (xp_proposal_pda a) in
     res_bind (check_program (xp_system_program a) (system_program_id env)) (\<lambda>_.
     res_bind (check_mut (xp_governance_config a)) (\<lambda>_.
     res_bind (load_governance env st (xp_governance_config a)) (\<lambda>config.
     res_bind (check_mut (xp_proposal_pda a)) (\<lambda>_.
     res_bind (hash_from_data env lib data) (\<lambda>h.
     res_bind (load_proposal env st h (xp_proposal_pda a)) (\<lambda>p.
     res_bind (u64_of_i64 (unix_timestamp view) (Panic ''timestamp invalid'')) (\<lambda>timestamp.
     res_bind (require (ep_eta p \<le> timestamp) (GovernanceE ProposalNotReady)) (\<lambda>_.
     res_bind (check_governance_config_presence ck remaining (solana_accounts_metadata (proposal_call data))) (\<lambda>_.
     res_bind (check_target_program_presence remaining (target_address data)) (\<lambda>_.
     res_bind (execute_proposal_cpi env cpi data remaining ck (gvc_bump config) st) (\<lambda>st1.
     res_bind (calculate_hash env lib (target_address data) (proposal_call data) (proposal_native_value data)) (\<lambda>h'.
     close_gov pk ck
       (put_gov ck (GovConfigAcc config)
       (emit_gov (ProposalExecuted h' (target_address data) (proposal_call_data (proposal_call data))
                    (proposal_native_value data) (ep_eta p)) st1)))))))))))))))"

record ExecuteOperatorProposal =
  xo_system_program :: account_info
  xo_governance_config :: account_info
  xo_proposal_pda :: account_info
  xo_operator :: account_info
  xo_operator_pda_marker_account :: account_info

definition execute_operator_proposal ::
    "env \<Rightarrow> governance_lib \<Rightarrow> gov_cpi \<Rightarrow> ExecuteOperatorProposal \<Rightarrow> account_info list \<Rightarrow> ExecuteProposalData \<Rightarrow>
     gov_state \<Rightarrow> gov_state result" where
  "execute_operator_proposal env lib cpi a remaining data st =
     (let ck = ai_key (xo_governance_config a); pk = ai_key (xo_proposal_pda a);
          mk = ai_key (xo_operator_pda_marker_account a) in
     res_bind (check_program (xo_system_program a) (system_program_id env)) (\<lambda>_.
     res_bind (check_mut (xo_governance_config a)) (\<lambda>_.
     res_bind (load_governance env st (xo_governance_config a)) (\<lambda>config.
     res_bind (check_mut (xo_proposal_pda a)) (\<lambda>_.
     res_bind (hash_from_data env lib data) (\<lambda>h.
     res_bind (load_proposal env st h (xo_proposal_pda a)) (\<lambda>p.
     res_bind (check_signer (xo_operator a)) (\<lambda>_.
     res_bind (require (ai_key (xo_operator a) = gvc_operator config) (GovernanceE UnauthorizedOperator)) (\<lambda>_.
     res_bind (check_mut (xo_operator_pda_marker_account a)) (\<lambda>_.
     res_bind (load_acc operator_proposal_of (gv_accounts st) mk) (\<lambda>_.
     res_bind (check_seeds_canonical env (operator_proposal_seeds h) (governance_id env) mk) (\<lambda>_.
     res_bind (check_governance_config_presence ck remaining (solana_accounts_metadata (proposal_call data))) (\<lambda>_.
     res_bind (check_target_program_presence remaining (target_address data)) (\<lambda>_.
     res_bind (execute_proposal_cpi env cpi data remaining ck (gvc_bump config) st) (\<lambda>st1.
     res_bind (calculate_hash env lib (target_address data) (proposal_call data) (proposal_native_value data)) (\<lambda>h'.
     res_bind (close_gov pk ck
       (put_gov ck (GovConfigAcc config)
       (emit_gov (OperatorProposalExecuted h' (target_address data) (proposal_call_data (proposal_call data))
                    (proposal_native_value data)) st1))) (\<lambda>st2.
     close_gov mk ck st2)))))))))))))))))"

section \<open>Handling a governance message\<close>

record gov_Execute =
  ge_executable :: AxelarExecuteAccounts
  ge_system_program :: account_info
  ge_payer :: account_info
  ge_governance_config :: account_info
  ge_proposal_pda :: account_info
  ge_operator_proposal_pda :: account_info
  ge_axelar_governance_program :: account_info

datatype governance_instruction =
    GovInitializeConfigIx gov_InitializeConfig GovernanceConfigInit
  | GovUpdateConfigIx gov_UpdateConfig GovernanceConfigUpdate
  | GovExecuteIx gov_Execute Message bytes
  | ScheduleTimelockIx ScheduleTimelock hash u64 bytes bytes bytes
  | CancelTimelockIx CancelTimelock hash u64 bytes bytes bytes
  | ApproveOperatorIx ApproveOperatorProposal hash bytes bytes bytes
  | CancelOperatorIx CancelOperatorProposal hash bytes bytes bytes
  | ExecuteTimelockIx ExecuteProposal "account_info list" ExecuteProposalData
  | ExecuteOperatorIx ExecuteOperatorProposal "account_info list" ExecuteProposalData
  | GovTransferOperatorshipIx gov_TransferOperatorship pubkey
  | WithdrawTokensIx WithdrawTokens u64

text \<open>
  The instruction the program sends itself. Its accounts carry the flags of the callee's account
  struct; the configuration account is granted as signer by its seeds.
\<close>

definition gmp_instruction ::
    "env \<Rightarrow> gov_Execute \<Rightarrow> u8 \<Rightarrow> GovernanceCommandPayload \<Rightarrow> hash \<Rightarrow> governance_instruction result" where
  "gmp_instruction env a bump cmd h =
     (let signed = grant_signer env (governance_id env) (governance_seeds @ [[bump]]);
          ck = ai_key (ge_governance_config a); pk = ai_key (ge_proposal_pda a);
          ok = ai_key (ge_operator_proposal_pda a) in
     case gcp_command cmd of
       ScheduleTimeLockProposal \<Rightarrow>
         res_bind (extract_proposal_data cmd) (\<lambda>(eta, native_value, call_data, target).
         Inr (ScheduleTimelockIx \<lparr>sc_system_program = acc (ai_key (ge_system_program a)),
                sc_governance_config = signed (acc ck), sc_payer = acc_signer_mut (ai_key (ge_payer a)),
                sc_proposal_pda = acc_mut pk\<rparr> h eta native_value target call_data))
     | CancelTimeLockProposal \<Rightarrow>
         res_bind (extract_proposal_data cmd) (\<lambda>(eta, native_value, call_data, target).
         Inr (CancelTimelockIx \<lparr>ct_governance_config = signed (acc_mut ck), ct_proposal_pda = acc_mut pk\<rparr>
                h eta native_value target call_data))
     | ApproveOperatorProposalCommand \<Rightarrow>
         res_bind (extract_proposal_data cmd) (\<lambda>(_, native_value, call_data, target).
         Inr (ApproveOperatorIx \<lparr>aop_system_program = acc (ai_key (ge_system_program a)),
                aop_payer = acc_signer_mut (ai_key (ge_payer a)), aop_governance_config = signed (acc ck),
                aop_proposal_pda = acc pk, aop_operator_proposal_pda = acc_mut ok\<rparr>
                h native_value target call_data))
     | CancelOperatorApproval \<Rightarrow>
         res_bind (extract_proposal_data cmd) (\<lambda>(_, native_value, call_data, target).
         Inr (CancelOperatorIx \<lparr>co_governance_config = signed (acc_mut ck), co_proposal_pda = acc pk,
                co_operator_proposal_pda = acc_mut ok\<rparr> h native_value target call_data))
     | InvalidGovernanceCommand \<Rightarrow> Inl (GovernanceE GovernanceError.InvalidInstructionData))"

definition gov_execute ::
    "env \<Rightarrow> governance_lib \<Rightarrow> (governance_instruction \<Rightarrow> gov_state \<Rightarrow> gov_state result) \<Rightarrow> gov_Execute \<Rightarrow> Message \<Rightarrow>
     bytes \<Rightarrow> gov_state \<Rightarrow> gov_state result" where
  "gov_execute env lib self_call a message payload st =
     (let ck = ai_key (ge_governance_config a) in
     res_bind (check_execute_accounts env (governance_id env) (ge_executable a) message (gv_gateway st)) (\<lambda>_.
     res_bind (check_program (ge_system_program a) (system_program_id env)) (\<lambda>_.
     res_bind (check_signer (ge_payer a)) (\<lambda>_.
     res_bind (check_mut (ge_payer a)) (\<lambda>_.
     res_bind (check_mut (ge_governance_config a)) (\<lambda>_.
     res_bind (load_governance env st (ge_governance_config a)) (\<lambda>config.
     res_bind (check_mut (ge_proposal_pda a)) (\<lambda>_.
     res_bind (check_mut (ge_operator_proposal_pda a)) (\<lambda>_.
     res_bind (check_program (ge_axelar_governance_program a) (governance_id env)) (\<lambda>_.
     res_bind (ensure_authorized_gmp_command env config message) (\<lambda>_.
     res_bind (validate_message_raw env (governance_id env) (ge_executable a) message payload (gv_gateway st)) (\<lambda>gw.
     res_bind (calculate_gmp_context env lib payload) (\<lambda>(cmd, _, _, h).
     res_bind (gmp_instruction env a (gvc_bump config) cmd h) (\<lambda>ix.
     res_bind (self_call ix (st\<lparr>gv_gateway := gw\<rparr>)) (\<lambda>st1.
     Inr (put_gov ck (GovConfigAcc config) st1))))))))))))))))"

section \<open>Dispatch\<close>

text \<open>
  Parameters: the generated instruction decoder, and what other programs do when called. They own
  none of the program's accounts; they may move balances and act at the gateway.
\<close>

record gov_runtime =
  decode_ix :: "account_info list \<Rightarrow> bytes \<Rightarrow> governance_instruction option"
  external_call :: "pubkey \<Rightarrow> account_info list \<Rightarrow> bytes \<Rightarrow> balances \<times> gateway_state \<Rightarrow> (balances \<times> gateway_state) option"

definition gov_dispatch ::
    "env \<Rightarrow> gov_runtime \<Rightarrow> (governance_instruction \<Rightarrow> gov_state \<Rightarrow> gov_state result) \<Rightarrow> gov_cpi" where
  "gov_dispatch env rt self_call pid metas data st =
     (if pid = governance_id env then
        res_bind (ok_or (decode_ix rt metas data) (ProgramE ProgramError.InvalidInstructionData)) (\<lambda>ix. self_call ix st)
      else
        res_bind (ok_or (external_call rt pid metas data (gv_balances st, gv_gateway st)) (ProgramE ExternalFailure))
          (\<lambda>(L, gw). Inr (st\<lparr>gv_balances := L, gv_gateway := gw\<rparr>)))"

text \<open>The first argument is the call depth left; the runtime starts at five.\<close>

fun gov_entry ::
    "nat \<Rightarrow> env \<Rightarrow> governance_lib \<Rightarrow> system_lib \<Rightarrow> gov_runtime \<Rightarrow> ledger_view \<Rightarrow> governance_instruction \<Rightarrow> gov_state \<Rightarrow>
     gov_state result" where
  "gov_entry 0 env lib sys rt view ix st = Inl (ProgramE ExternalFailure)"
| "gov_entry (Suc d) env lib sys rt view ix st =
     (let self_call = gov_entry d env lib sys rt view; cpi = gov_dispatch env rt self_call in
     case ix of
       GovInitializeConfigIx a params \<Rightarrow> gov_initialize_config env sys view a params st
     | GovUpdateConfigIx a params \<Rightarrow> gov_update_config env a params st
     | GovExecuteIx a m payload \<Rightarrow> gov_execute env lib self_call a m payload st
     | ScheduleTimelockIx a h eta nv tg cd \<Rightarrow> schedule_timelock_proposal env sys view a h eta nv tg cd st
     | CancelTimelockIx a h eta nv tg cd \<Rightarrow> cancel_timelock_proposal env a h eta nv tg cd st
     | ApproveOperatorIx a h nv tg cd \<Rightarrow> approve_operator_proposal env sys a h nv tg cd st
     | CancelOperatorIx a h nv tg cd \<Rightarrow> cancel_operator_proposal env a h nv tg cd st
     | ExecuteTimelockIx a r data \<Rightarrow> execute_proposal env lib cpi view a r data st
     | ExecuteOperatorIx a r data \<Rightarrow> execute_operator_proposal env lib cpi a r data st
     | GovTransferOperatorshipIx a new \<Rightarrow> gov_transfer_operatorship env a new st
     | WithdrawTokensIx a n \<Rightarrow> withdraw_tokens env sys a n st)"

definition MAX_INSTRUCTION_DEPTH :: nat where
  "MAX_INSTRUCTION_DEPTH = 5"

text \<open>
  One step: a transaction's instruction, whose signers are no addresses of this program; a step of
  the gateway; or other programs moving balances.
\<close>

definition gov_signer :: "governance_instruction \<Rightarrow> account_info list" where
  "gov_signer ix = (case ix of
     ScheduleTimelockIx a _ _ _ _ _ \<Rightarrow> [sc_governance_config a]
   | CancelTimelockIx a _ _ _ _ _ \<Rightarrow> [ct_governance_config a]
   | ApproveOperatorIx a _ _ _ _ \<Rightarrow> [aop_governance_config a]
   | CancelOperatorIx a _ _ _ _ \<Rightarrow> [co_governance_config a]
   | GovTransferOperatorshipIx a _ \<Rightarrow> [gt_governance_config a]
   | WithdrawTokensIx a _ \<Rightarrow> [wt_governance_config a]
   | _ \<Rightarrow> [])"

definition no_pda_signer :: "env \<Rightarrow> governance_instruction \<Rightarrow> bool" where
  "no_pda_signer env ix \<longleftrightarrow> (\<forall>a \<in> set (gov_signer ix). ai_signer a \<longrightarrow>
     (\<forall>seeds. create_program_address env seeds (governance_id env) \<noteq> Some (ai_key a)))"

inductive gov_step ::
    "env \<Rightarrow> governance_lib \<Rightarrow> system_lib \<Rightarrow> gov_runtime \<Rightarrow> gov_state \<Rightarrow> gov_state \<Rightarrow> bool" for env lib sys rt where
  gov_ix: "no_pda_signer env ix \<Longrightarrow> gov_entry MAX_INSTRUCTION_DEPTH env lib sys rt view ix st = Inr st' \<Longrightarrow>
    gov_step env lib sys rt st st'"
| gov_gateway: "gateway_step env (gv_gateway st) gw \<Longrightarrow> gov_step env lib sys rt st (st\<lparr>gv_gateway := gw\<rparr>)"
| gov_other: "gov_step env lib sys rt st (st\<lparr>gv_balances := L\<rparr>)"

inductive_cases gov_stepE: "gov_step env lib sys rt st st'"

abbreviation gov_reachable :: "env \<Rightarrow> governance_lib \<Rightarrow> system_lib \<Rightarrow> gov_runtime \<Rightarrow> gov_state \<Rightarrow> bool" where
  "gov_reachable env lib sys rt st \<equiv> \<exists>L. runs (gov_step env lib sys rt) (gov_empty L) st"

end
