(* ===== verification/Governance_Inv.thy ===== *)
theory Governance_Inv
  imports Governance_Exec
begin

text \<open>
  The invariants of the governance program: where its accounts live, the bounds of the
  configured delay, and the order of the log. Every entry of the log that acts on a proposal has
  the entry that authorised it before it. They hold at every depth of nested calls.
\<close>

section \<open>The log\<close>

fun justified :: "governance_event set \<Rightarrow> governance_event \<Rightarrow> bool" where
  "justified E (ProposalExecuted h _ _ _ eta) = (\<exists>tg cd nv. ProposalScheduled h tg cd nv eta \<in> E)"
| "justified E (ProposalCancelled h _ _ _ eta) = (\<exists>tg cd nv. ProposalScheduled h tg cd nv eta \<in> E)"
| "justified E (OperatorProposalApproved h _ _ _) = (\<exists>tg cd nv eta. ProposalScheduled h tg cd nv eta \<in> E)"
| "justified E (OperatorProposalCancelled h _ _ _) = (\<exists>tg cd nv. OperatorProposalApproved h tg cd nv \<in> E)"
| "justified E (OperatorProposalExecuted h _ _ _) = ((\<exists>tg cd nv eta. ProposalScheduled h tg cd nv eta \<in> E) \<and>
     (\<exists>tg cd nv. OperatorProposalApproved h tg cd nv \<in> E))"
| "justified E _ = True"

definition orderly :: "governance_event list \<Rightarrow> bool" where
  "orderly evs \<longleftrightarrow> (\<forall>pre e post. evs = pre @ e # post \<longrightarrow> justified (set pre) e)"

lemma orderly_snoc: "orderly (evs @ [e]) \<longleftrightarrow> orderly evs \<and> justified (set evs) e"
proof
  assume o: "orderly (evs @ [e])"
  have "orderly evs"
    unfolding orderly_def
  proof (intro allI impI)
    fix pre x post assume "evs = pre @ x # post"
    then have "evs @ [e] = pre @ x # (post @ [e])" by simp
    then show "justified (set pre) x" using o unfolding orderly_def by blast
  qed
  then show "orderly evs \<and> justified (set evs) e" using o unfolding orderly_def by blast
next
  assume o: "orderly evs \<and> justified (set evs) e"
  show "orderly (evs @ [e])"
    unfolding orderly_def
  proof (intro allI impI)
    fix pre x post assume eq: "evs @ [e] = pre @ x # post"
    show "justified (set pre) x"
    proof (cases post rule: rev_cases)
      case Nil
      then show ?thesis using eq o by simp
    next
      case (snoc post' y)
      then have "evs = pre @ x # post'" using eq by (metis append.assoc append_Cons butlast_snoc)
      then show ?thesis using o unfolding orderly_def by blast
    qed
  qed
qed

section \<open>The invariant\<close>

fun gov_account_ok :: "env \<Rightarrow> governance_event set \<Rightarrow> pubkey \<Rightarrow> governance_account \<Rightarrow> bool" where
  "gov_account_ok env E k (GovConfigAcc c) = (delay_ok c \<and>
     try_find_program_address env governance_seeds (governance_id env) = Some (k, gvc_bump c))"
| "gov_account_ok env E k (ProposalAcc p) = (\<exists>h tg cd nv.
     try_find_program_address env (proposal_seeds h) (governance_id env) = Some (k, ep_bump p) \<and>
     (\<exists>k'. try_find_program_address env (operator_proposal_seeds h) (governance_id env) = Some (k', ep_managed_bump p)) \<and>
     ProposalScheduled h tg cd nv (ep_eta p) \<in> E)"
| "gov_account_ok env E k (OperatorProposalAcc p) = (\<exists>h b tg cd nv.
     try_find_program_address env (operator_proposal_seeds h) (governance_id env) = Some (k, b) \<and>
     OperatorProposalApproved h tg cd nv \<in> E)"

definition gov_inv :: "env \<Rightarrow> gov_state \<Rightarrow> bool" where
  "gov_inv env st \<longleftrightarrow> orderly (gv_events st) \<and>
     (\<forall>k a. gv_accounts st k = Some a \<longrightarrow> gov_account_ok env (set (gv_events st)) k a)"

lemma gov_invD: "gov_inv env st \<Longrightarrow> gv_accounts st k = Some a \<Longrightarrow> gov_account_ok env (set (gv_events st)) k a"
  by (simp add: gov_inv_def)

lemma gov_account_ok_mono: "gov_account_ok env E k a \<Longrightarrow> E \<subseteq> E' \<Longrightarrow> gov_account_ok env E' k a"
  by (cases a) (auto, blast+)

lemma gov_inv_emit: "gov_inv env st \<Longrightarrow> justified (set (gv_events st)) e \<Longrightarrow> gov_inv env (emit_gov e st)"
  using gov_account_ok_mono [OF _ subset_insertI] by (simp add: gov_inv_def orderly_snoc)

lemma gov_inv_put:
  "gov_inv env st \<Longrightarrow> gov_account_ok env (set (gv_events st)) k a \<Longrightarrow> gov_inv env (put_gov k a st)"
  by (simp add: gov_inv_def)

lemma gov_inv_balances [simp]: "gov_inv env (set_balances L st) = gov_inv env st"
  by (simp add: gov_inv_def)

lemma gov_inv_record [simp]:
  "gov_inv env (st\<lparr>gv_balances := L\<rparr>) = gov_inv env st" "gov_inv env (st\<lparr>gv_gateway := gw\<rparr>) = gov_inv env st"
  "gov_inv env (st\<lparr>gv_balances := L, gv_gateway := gw\<rparr>) = gov_inv env st"
  by (simp_all add: gov_inv_def)

lemma gov_inv_close: "gov_inv env st \<Longrightarrow> close_gov k dest st = Inr st' \<Longrightarrow> gov_inv env st'"
  by (auto simp: close_gov_Inr gov_inv_def split: if_splits)

lemma close_gov_frame:
  assumes "close_gov k dest st = Inr st'"
  shows "gv_events st' = gv_events st" "gv_gateway st' = gv_gateway st"
    "gv_accounts st' = (gv_accounts st)(k := None)"
  using assms by (auto simp: close_gov_Inr)

text \<open>The accounts the checks accept are those of the invariant.\<close>

lemma proposal_seeds_inj:
  assumes "pda_inj env" and "create_program_address env (proposal_seeds h @ [[b]]) pid = Some k"
    and "create_program_address env (proposal_seeds h' @ [[b']]) pid = Some k"
  shows "h' = h"
  using pda_injD [OF assms] by (simp add: proposal_seeds_def)

lemma operator_proposal_seeds_inj:
  assumes "pda_inj env" and "create_program_address env (operator_proposal_seeds h @ [[b]]) pid = Some k"
    and "create_program_address env (operator_proposal_seeds h' @ [[b']]) pid = Some k"
  shows "h' = h"
  using pda_injD [OF assms] by (simp add: operator_proposal_seeds_def)

lemma loaded_proposal_scheduled:
  assumes "pda_law env" and "pda_inj env" and "gov_inv env st" and "load_proposal env st h a = Inr p"
  shows "\<exists>tg cd nv. ProposalScheduled h tg cd nv (ep_eta p) \<in> set (gv_events st)"
    and "try_find_program_address env (proposal_seeds h) (governance_id env) = Some (ai_key a, ep_bump p)"
proof -
  have acc: "gv_accounts st (ai_key a) = Some (ProposalAcc p)"
    and c: "create_program_address env (proposal_seeds h @ [[ep_bump p]]) (governance_id env) = Some (ai_key a)"
    using assms(4) by (simp_all add: load_proposal_Inr)
  obtain h' tg cd nv where f: "try_find_program_address env (proposal_seeds h') (governance_id env) = Some (ai_key a, ep_bump p)"
    and s: "ProposalScheduled h' tg cd nv (ep_eta p) \<in> set (gv_events st)"
    using gov_invD [OF assms(3) acc] by auto
  have "h' = h" by (rule proposal_seeds_inj [OF assms(2) c pda_lawD [OF assms(1) f]])
  with f s show "\<exists>tg cd nv. ProposalScheduled h tg cd nv (ep_eta p) \<in> set (gv_events st)"
    and "try_find_program_address env (proposal_seeds h) (governance_id env) = Some (ai_key a, ep_bump p)"
    by blast+
qed

lemma loaded_marker_approved:
  assumes "pda_law env" and "pda_inj env" and "gov_inv env st"
    and "gv_accounts st k = Some (OperatorProposalAcc m)"
    and "create_program_address env (operator_proposal_seeds h @ [[b]]) (governance_id env) = Some k"
  shows "\<exists>tg cd nv. OperatorProposalApproved h tg cd nv \<in> set (gv_events st)"
proof -
  obtain h' b' tg cd nv where f: "try_find_program_address env (operator_proposal_seeds h') (governance_id env) = Some (k, b')"
    and s: "OperatorProposalApproved h' tg cd nv \<in> set (gv_events st)"
    using gov_invD [OF assms(3,4)] by auto
  have "h' = h" by (rule operator_proposal_seeds_inj [OF assms(2,5) pda_lawD [OF assms(1) f]])
  with s show ?thesis by blast
qed

section \<open>What every instruction keeps\<close>

text \<open>
  \<open>gov_le env st st'\<close>: the invariant is kept, the log grows, and the gateway moves by its own steps.
\<close>

definition gov_le :: "env \<Rightarrow> gov_state \<Rightarrow> gov_state \<Rightarrow> bool" where
  "gov_le env st st' \<longleftrightarrow> (gov_inv env st \<longrightarrow> gov_inv env st') \<and> (\<exists>evs. gv_events st' = gv_events st @ evs) \<and>
     runs (gateway_step env) (gv_gateway st) (gv_gateway st')"

lemma gov_leD:
  assumes "gov_le env st st'"
  shows "gov_inv env st \<Longrightarrow> gov_inv env st'" "set (gv_events st) \<subseteq> set (gv_events st')"
    "\<exists>evs. gv_events st' = gv_events st @ evs" "runs (gateway_step env) (gv_gateway st) (gv_gateway st')"
  using assms by (auto simp: gov_le_def)

lemma gov_le_refl: "gov_le env st st"
  by (simp add: gov_le_def runs_refl)

lemma gov_le_trans: "gov_le env st st' \<Longrightarrow> gov_le env st' st'' \<Longrightarrow> gov_le env st st''"
  by (auto simp: gov_le_def intro: runs_trans)

lemma gov_leI:
  assumes "gov_inv env st \<Longrightarrow> gov_inv env st'" and "gv_events st' = gv_events st @ evs"
    and "gv_gateway st' = gv_gateway st"
  shows "gov_le env st st'"
  using assms by (simp add: gov_le_def runs_refl)

lemma initialize_config_le: "gov_initialize_config env sys view a params st = Inr st' \<Longrightarrow> gov_le env st st'"
  by (auto simp: gov_initialize_config_def Let_def res_inv intro!: gov_leI [where evs = "[]"] gov_inv_put)

lemma config_update_bump: "config_update c u = Inr c' \<Longrightarrow> gvc_bump c' = gvc_bump c \<and> delay_ok c' \<and> gvc_operator c' = gvc_operator c"
  by (auto simp: config_update_def Let_def res_inv split: option.splits)

lemma update_config_le:
  assumes "gov_update_config env a params st = Inr st'"
  shows "gov_le env st st'"
proof -
  let ?k = "ai_key (uc_governance_config a)"
  obtain c c' where c: "gv_accounts st ?k = Some (GovConfigAcc c)" and u: "config_update c params = Inr c'"
    and st': "st' = put_gov ?k (GovConfigAcc c') st"
    using assms by (auto simp: gov_update_config_def Let_def res_inv gov_load)
  then show ?thesis
    using config_update_bump [OF u] gov_invD [OF _ c]
    by (auto intro!: gov_leI [where evs = "[]"] gov_inv_put simp: st')
qed

lemma transfer_operatorship_le:
  assumes "gov_transfer_operatorship env a new st = Inr st'"
  shows "gov_le env st st'"
proof -
  let ?k = "ai_key (gt_governance_config a)"
  obtain c where c: "gv_accounts st ?k = Some (GovConfigAcc c)"
    and st': "st' = emit_gov (OperatorshipTransferredEvent (gvc_operator c) new)
       (put_gov ?k (GovConfigAcc (c\<lparr>gvc_operator := new\<rparr>)) st)"
    using assms by (auto simp: gov_transfer_operatorship_def Let_def res_inv gov_load)
  then show ?thesis
    using gov_invD [OF _ c] by (auto intro!: gov_leI gov_inv_emit gov_inv_put simp: st')
qed

lemma withdraw_tokens_le: "withdraw_tokens env sys a n st = Inr st' \<Longrightarrow> gov_le env st st'"
  by (auto simp: withdraw_tokens_def Let_def res_inv intro!: gov_leI [where evs = "[]"])

lemma emit_put_commute: "emit_gov e (put_gov k a st) = put_gov k a (emit_gov e st)"
  by (simp add: emit_gov_def put_gov_def)

lemma scheduleE:
  assumes "schedule_timelock_proposal env sys view a h eta nv tg cd st = Inr st'"
  obtains c b k' mb e L where "gv_accounts st (ai_key (sc_governance_config a)) = Some (GovConfigAcc c)"
    "try_find_program_address env (proposal_seeds h) (governance_id env) = Some (ai_key (sc_proposal_pda a), b)"
    "try_find_program_address env (operator_proposal_seeds h) (governance_id env) = Some (k', mb)"
    "at_least_default_eta_delay view eta (minimum_proposal_eta_delay c) = Inr e"
    "st' = emit_gov (ProposalScheduled h tg cd nv e) (put_gov (ai_key (sc_proposal_pda a))
      (ProposalAcc \<lparr>ep_eta = e, ep_bump = b, ep_managed_bump = mb\<rparr>) (set_balances L st))"
  using assms that by (auto simp: schedule_timelock_proposal_def Let_def find_program_address_def res_inv)

lemma schedule_le:
  assumes "schedule_timelock_proposal env sys view a h eta nv tg cd st = Inr st'"
  shows "gov_le env st st'"
  using assms
proof (rule scheduleE)
  let ?k = "ai_key (sc_proposal_pda a)"
  fix c b k' mb e L
  assume f: "try_find_program_address env (proposal_seeds h) (governance_id env) = Some (?k, b)"
    "try_find_program_address env (operator_proposal_seeds h) (governance_id env) = Some (k', mb)"
    and st': "st' = emit_gov (ProposalScheduled h tg cd nv e)
      (put_gov ?k (ProposalAcc \<lparr>ep_eta = e, ep_bump = b, ep_managed_bump = mb\<rparr>) (set_balances L st))"
  show ?thesis
    unfolding st' emit_put_commute
  proof (rule gov_leI)
    assume "gov_inv env st"
    then show "gov_inv env (put_gov ?k (ProposalAcc \<lparr>ep_eta = e, ep_bump = b, ep_managed_bump = mb\<rparr>)
        (emit_gov (ProposalScheduled h tg cd nv e) (set_balances L st)))"
      by (intro gov_inv_put gov_inv_emit) (use f in auto)
  qed simp_all
qed

lemma cancel_timelock_le:
  assumes law: "pda_law env" "pda_inj env"
    and ok: "cancel_timelock_proposal env a h eta nv tg cd st = Inr st'"
  shows "gov_le env st st'"
proof -
  obtain p where p: "load_proposal env st h (ct_proposal_pda a) = Inr p" "eta = ep_eta p"
    and cl: "close_gov (ai_key (ct_proposal_pda a)) (ai_key (ct_governance_config a))
       (emit_gov (ProposalCancelled h tg cd nv eta) st) = Inr st'"
    using ok unfolding cancel_timelock_proposal_def res_bind_Inr require_Inr by blast
  show ?thesis
  proof (rule gov_leI)
    assume inv: "gov_inv env st"
    from inv loaded_proposal_scheduled(1) [OF law inv p(1)] show "gov_inv env st'"
      by (intro gov_inv_close [OF _ cl] gov_inv_emit) (auto simp: p(2))
  qed (use close_gov_frame [OF cl] in simp_all)
qed

lemma approve_le:
  assumes law: "pda_law env" "pda_inj env"
    and ok: "approve_operator_proposal env sys a h nv tg cd st = Inr st'"
  shows "gov_le env st st'"
proof -
  let ?k = "ai_key (aop_operator_proposal_pda a)"
  obtain p b L where p: "load_proposal env st h (aop_proposal_pda a) = Inr p"
    and f: "check_seeds_canonical env (operator_proposal_seeds h) (governance_id env) ?k = Inr b"
    and st': "st' = emit_gov (OperatorProposalApproved h tg cd nv)
       (put_gov ?k (OperatorProposalAcc OperatorProposal) (set_balances L st))"
    using ok unfolding approve_operator_proposal_def Let_def res_bind_Inr by blast
  show ?thesis
    unfolding st' emit_put_commute
  proof (rule gov_leI)
    assume inv: "gov_inv env st"
    from inv loaded_proposal_scheduled(1) [OF law inv p] f
    show "gov_inv env (put_gov ?k (OperatorProposalAcc OperatorProposal)
        (emit_gov (OperatorProposalApproved h tg cd nv) (set_balances L st)))"
      by (intro gov_inv_put gov_inv_emit) (auto simp: check_seeds_canonical_Inr)
  qed simp_all
qed

lemma cancel_operator_le:
  assumes law: "pda_law env" "pda_inj env"
    and ok: "cancel_operator_proposal env a h nv tg cd st = Inr st'"
  shows "gov_le env st st'"
proof -
  let ?k = "ai_key (co_operator_proposal_pda a)"
  obtain p :: ExecutableProposal and m u where m: "load_acc operator_proposal_of (gv_accounts st) ?k = Inr m"
    and s: "check_seeds env (operator_proposal_seeds h) (ep_managed_bump p) (governance_id env) ?k = Inr u"
    and cl: "close_gov ?k (ai_key (co_governance_config a)) (emit_gov (OperatorProposalCancelled h tg cd nv) st) = Inr st'"
    using ok unfolding cancel_operator_proposal_def Let_def res_bind_Inr by (elim exE conjE) (rule that)
  show ?thesis
  proof (rule gov_leI)
    assume inv: "gov_inv env st"
    have "\<exists>tg cd nv. OperatorProposalApproved h tg cd nv \<in> set (gv_events st)"
      using loaded_marker_approved [OF law inv] m s by (auto simp: gov_load check_seeds_Inr)
    with inv show "gov_inv env st'"
      by (intro gov_inv_close [OF _ cl] gov_inv_emit) auto
  qed (use close_gov_frame [OF cl] in simp_all)
qed

text \<open>
  The two executions and the message handler keep it when the calls they make do. \<open>cpi_le\<close> is that
  contract of a cross-program call.
\<close>

definition cpi_le :: "env \<Rightarrow> gov_cpi \<Rightarrow> bool" where
  "cpi_le env cpi \<longleftrightarrow> (\<forall>pid metas data st st'. cpi pid metas data st = Inr st' \<longrightarrow> gov_le env st st')"

lemma manual_transfer_le:
  "manual_lamport_transfer data remaining n k st = Inr st1 \<Longrightarrow>
     gov_le env st st1 \<and> gv_accounts st1 = gv_accounts st \<and> gv_events st1 = gv_events st"
  by (auto simp: manual_lamport_transfer_def res_inv intro!: gov_leI [where evs = "[]"])

lemma execute_cpi_le:
  assumes cpi: "cpi_le env cpi" and ok: "execute_proposal_cpi env cpi data remaining ck b st = Inr st1"
  shows "gov_le env st st1"
proof -
  obtain n st0 where "(if 0 < n then manual_lamport_transfer data remaining n ck st else Inr st) = Inr st0"
    and c: "cpi (target_address data) (get_account_metadata data) (proposal_call_data (proposal_call data)) st0 = Inr st1"
    using ok unfolding execute_proposal_cpi_def Let_def res_bind_Inr by blast
  then have "gov_le env st st0" by (auto split: if_splits dest: manual_transfer_le intro: gov_le_refl)
  moreover have "gov_le env st0 st1" using cpi c unfolding cpi_le_def by blast
  ultimately show ?thesis by (rule gov_le_trans)
qed

text \<open>The end of an execution: the log entry, the configuration written back, the proposal closed.\<close>

lemma execution_end_le:
  assumes le: "gov_le env st st1" and c: "gv_accounts st ck = Some (GovConfigAcc c)"
    and j: "gov_inv env st \<Longrightarrow> justified (set (gv_events st)) e" "\<And>E E'. justified E e \<Longrightarrow> E \<subseteq> E' \<Longrightarrow> justified E' e"
    and cl: "close_gov pk ck (put_gov ck (GovConfigAcc c) (emit_gov e st1)) = Inr st'"
  shows "gov_le env st st'"
proof -
  obtain evs where evs: "gv_events st1 = gv_events st @ evs" using gov_leD(3) [OF le] by blast
  have "gov_inv env st'" if inv: "gov_inv env st"
  proof (rule gov_inv_close [OF _ cl], intro gov_inv_put gov_inv_emit)
    show "gov_inv env st1" by (rule gov_leD(1) [OF le inv])
    show "justified (set (gv_events st1)) e" using j(2) [OF j(1) [OF inv] gov_leD(2) [OF le]] .
    show "gov_account_ok env (set (gv_events (emit_gov e st1))) ck (GovConfigAcc c)"
      using gov_invD [OF inv c] by simp
  qed
  then show ?thesis
    using close_gov_frame [OF cl] gov_leD(4) [OF le] evs by (simp add: gov_le_def)
qed

lemma justified_mono: "justified E e \<Longrightarrow> E \<subseteq> E' \<Longrightarrow> justified E' e"
  by (cases e) (simp_all, blast+)

lemma execute_proposal_le:
  assumes law: "pda_law env" "pda_inj env" and cpi: "cpi_le env cpi"
    and ok: "execute_proposal env lib cpi view a remaining data st = Inr st'"
  shows "gov_le env st st'"
proof -
  let ?ck = "ai_key (xp_governance_config a)"
  obtain c h p st1 h' where c: "load_governance env st (xp_governance_config a) = Inr c"
    and h: "hash_from_data env lib data = Inr h" and p: "load_proposal env st h (xp_proposal_pda a) = Inr p"
    and x: "execute_proposal_cpi env cpi data remaining ?ck (gvc_bump c) st = Inr st1"
    and h': "calculate_hash env lib (target_address data) (proposal_call data) (proposal_native_value data) = Inr h'"
    and cl: "close_gov (ai_key (xp_proposal_pda a)) ?ck (put_gov ?ck (GovConfigAcc c)
       (emit_gov (ProposalExecuted h' (target_address data) (proposal_call_data (proposal_call data))
          (proposal_native_value data) (ep_eta p)) st1)) = Inr st'"
    using ok unfolding execute_proposal_def Let_def res_bind_Inr by blast
  have "h' = h" using h h' by (simp add: hash_from_data_def)
  then show ?thesis
    using c loaded_proposal_scheduled(1) [OF law _ p]
    by (intro execution_end_le [OF execute_cpi_le [OF cpi x] _ _ justified_mono cl])
      (auto simp: load_governance_Inr)
qed

lemma execute_operator_proposal_le:
  assumes law: "pda_law env" "pda_inj env" and cpi: "cpi_le env cpi"
    and ok: "execute_operator_proposal env lib cpi a remaining data st = Inr st'"
  shows "gov_le env st st'"
proof -
  let ?ck = "ai_key (xo_governance_config a)" and ?mk = "ai_key (xo_operator_pda_marker_account a)"
  obtain c h p m b st1 h' st2 where c: "load_governance env st (xo_governance_config a) = Inr c"
    and h: "hash_from_data env lib data = Inr h" and p: "load_proposal env st h (xo_proposal_pda a) = Inr p"
    and m: "load_acc operator_proposal_of (gv_accounts st) ?mk = Inr m"
    and f: "check_seeds_canonical env (operator_proposal_seeds h) (governance_id env) ?mk = Inr b"
    and x: "execute_proposal_cpi env cpi data remaining ?ck (gvc_bump c) st = Inr st1"
    and h': "calculate_hash env lib (target_address data) (proposal_call data) (proposal_native_value data) = Inr h'"
    and cl: "close_gov (ai_key (xo_proposal_pda a)) ?ck (put_gov ?ck (GovConfigAcc c)
       (emit_gov (OperatorProposalExecuted h' (target_address data) (proposal_call_data (proposal_call data))
          (proposal_native_value data)) st1)) = Inr st2"
    and cl2: "close_gov ?mk ?ck st2 = Inr st'"
    using ok unfolding execute_operator_proposal_def Let_def res_bind_Inr by blast
  have eq: "h' = h" using h h' by (simp add: hash_from_data_def)
  have "\<exists>tg cd nv. OperatorProposalApproved h tg cd nv \<in> set (gv_events st)" if inv: "gov_inv env st"
    using m f by (intro loaded_marker_approved [OF law inv, of ?mk m h b])
      (simp_all add: gov_load check_seeds_canonical_Inr pda_lawD [OF law(1)])
  then have "gov_le env st st2"
    using c eq loaded_proposal_scheduled(1) [OF law _ p]
    by (intro execution_end_le [OF execute_cpi_le [OF cpi x] _ _ justified_mono cl])
      (auto simp: load_governance_Inr)
  moreover have "gov_le env st2 st'"
    using close_gov_frame [OF cl2] gov_inv_close [OF _ cl2] by (intro gov_leI [where evs = "[]"]) simp_all
  ultimately show ?thesis by (rule gov_le_trans)
qed

lemma gov_execute_le:
  assumes self: "\<And>ix st st'. self_call ix st = Inr st' \<Longrightarrow> gov_le env st st'"
    and ok: "gov_execute env lib self_call a m payload st = Inr st'"
  shows "gov_le env st st'"
proof -
  let ?ck = "ai_key (ge_governance_config a)"
  obtain c gw ix st1 where c: "load_governance env st (ge_governance_config a) = Inr c"
    and v: "validate_message_raw env (governance_id env) (ge_executable a) m payload (gv_gateway st) = Inr gw"
    and s: "self_call ix (st\<lparr>gv_gateway := gw\<rparr>) = Inr st1" and st': "st' = put_gov ?ck (GovConfigAcc c) st1"
    using ok unfolding gov_execute_def Let_def res_bind_Inr split_paired_Ex prod.case by (elim exE conjE) (rule that, auto)
  have "gov_le env st (st\<lparr>gv_gateway := gw\<rparr>)"
    using validate_message_raw_consumes(1) [OF v] by (simp add: gov_le_def runs_one)
  from gov_le_trans [OF this self [OF s]] have le: "gov_le env st st1" .
  have "gov_inv env st'" if inv: "gov_inv env st"
    using gov_leD(1) [OF le inv] gov_invD [OF inv, of ?ck "GovConfigAcc c"] c
    by (auto simp: st' load_governance_Inr intro!: gov_inv_put)
  then show ?thesis using gov_leD(3,4) [OF le] by (simp add: gov_le_def st')
qed

text \<open>Other programs act at the gateway only by its instructions.\<close>

definition external_law :: "env \<Rightarrow> gov_runtime \<Rightarrow> bool" where
  "external_law env rt \<longleftrightarrow> (\<forall>pid metas data L gw L' gw'. external_call rt pid metas data (L, gw) = Some (L', gw') \<longrightarrow>
     runs (gateway_step env) gw gw')"

lemma gov_dispatch_le:
  assumes "external_law env rt" and self: "\<And>ix st st'. self_call ix st = Inr st' \<Longrightarrow> gov_le env st st'"
  shows "cpi_le env (gov_dispatch env rt self_call)"
  unfolding cpi_le_def
proof (intro allI impI)
  fix pid metas data st st' assume d: "gov_dispatch env rt self_call pid metas data st = Inr st'"
  show "gov_le env st st'"
  proof (cases "pid = governance_id env")
    case True
    with d self show ?thesis by (auto simp: gov_dispatch_def res_inv)
  next
    case False
    with d obtain L gw where x: "external_call rt pid metas data (gv_balances st, gv_gateway st) = Some (L, gw)"
      and st': "st' = st\<lparr>gv_balances := L, gv_gateway := gw\<rparr>"
      by (auto simp: gov_dispatch_def res_inv)
    have "runs (gateway_step env) (gv_gateway st) gw"
      using assms(1) x unfolding external_law_def by blast
    then show ?thesis by (simp add: gov_le_def st')
  qed
qed

lemma gov_entry_le:
  assumes law: "pda_law env" "pda_inj env" "external_law env rt"
    and ok: "gov_entry d env lib sys rt view ix st = Inr st'"
  shows "gov_le env st st'"
  using ok
proof (induction d arbitrary: ix st st')
  case (Suc d)
  note cpi = gov_dispatch_le [OF law(3) Suc.IH]
  show ?case
    using Suc.prems
    by (cases ix) (auto simp: Let_def intro: initialize_config_le update_config_le transfer_operatorship_le
      withdraw_tokens_le schedule_le cancel_timelock_le [OF law(1,2)] approve_le [OF law(1,2)]
      cancel_operator_le [OF law(1,2)] execute_proposal_le [OF law(1,2) cpi]
      execute_operator_proposal_le [OF law(1,2) cpi] gov_execute_le [OF Suc.IH])
qed simp

lemma gov_step_le:
  assumes law: "pda_law env" "pda_inj env" "external_law env rt" and step: "gov_step env lib sys rt st st'"
  shows "gov_le env st st'"
  using step
proof (rule gov_stepE)
  show ?thesis if "gov_entry MAX_INSTRUCTION_DEPTH env lib sys rt view ix st = Inr st'" for ix view
    using gov_entry_le [OF law that] .
qed (auto simp: gov_le_def intro: runs_refl runs_one)

lemma gov_runs_le:
  assumes law: "pda_law env" "pda_inj env" "external_law env rt" and r: "runs (gov_step env lib sys rt) st st'"
  shows "gov_le env st st'"
proof -
  have "step_monotone (gov_step env lib sys rt) (gov_le env)"
    by unfold_locales (rule gov_le_refl, erule (1) gov_le_trans, rule gov_step_le [OF law])
  then show ?thesis using r by (rule step_monotone.runs_le)
qed

lemma gov_inv_reachable:
  assumes "pda_law env" "pda_inj env" "external_law env rt" and "gov_reachable env lib sys rt st"
  shows "gov_inv env st" and "gateway_reachable env (gv_gateway st)"
proof -
  obtain L where "runs (gov_step env lib sys rt) (gov_empty L) st" using assms(4) by blast
  from gov_runs_le [OF assms(1-3) this] have le: "gov_le env (gov_empty L) st" .
  show "gov_inv env st" by (rule gov_leD(1) [OF le]) (simp add: gov_inv_def gov_empty_def orderly_def)
  show "gateway_reachable env (gv_gateway st)" using gov_leD(4) [OF le] by (simp add: gov_empty_def)
qed

end
