(* ===== verification/Executable_Demo.thy ===== *)
theory Executable_Demo
  imports Executable Gateway_Demo
begin

text \<open>
  Approving and receiving any message on the concrete gateway of \<open>Gateway_Demo\<close>: the steps the
  runs of the receiving programs are made of.
\<close>

definition msg_key :: "Message \<Rightarrow> pubkey" where
  "msg_key m = str_bytes ''incoming message'' @ command_id demo_env m @ [255, 1]"

definition msg_incoming :: "Message \<Rightarrow> IncomingMessage" where
  "msg_incoming m = \<lparr>im_bump = 255, signing_pda_bump = 255, im_status = status_approved,
     im_message_hash = message_code m, im_payload_hash = payload_hash m\<rparr>"

definition msg_approved :: "Message \<Rightarrow> gateway_state \<Rightarrow> gateway_state" where
  "msg_approved m st = emit_gw (approved_event demo_env m) (put_gw (msg_key m) (MessageAcc (msg_incoming m)) st)"

definition msg_executed :: "Message \<Rightarrow> gateway_state \<Rightarrow> gateway_state" where
  "msg_executed m st = emit_gw (executed_event demo_env m (str_bytes (destination_address m)))
     (put_gw (msg_key m) (MessageAcc ((msg_incoming m)\<lparr>im_status := status_executed\<rparr>)) st)"

definition msg_accounts :: "Message \<Rightarrow> AxelarExecuteAccounts" where
  "msg_accounts m = \<lparr>ae_incoming_message_pda = acc_mut (msg_key m),
     ae_signing_pda = acc (str_bytes ''gtw-validate-msg'' @ command_id demo_env m @ [255] @ str_bytes (destination_address m)),
     ae_gateway_root_pda = acc demo_root_key, ae_event_authority = acc [], ae_axelar_gateway_program = acc [1]\<rparr>"

lemma msg_key_neq [simp]: "msg_key m \<noteq> demo_root_key" "msg_key m \<noteq> demo_session_key" "demo_root_key \<noteq> msg_key m"
  "demo_session_key \<noteq> msg_key m"
  by (simp_all add: msg_key_def demo_session_key_def demo_root_key_def str_bytes_def of_char_u8_inj)

lemma msg_key_inj: "msg_key m = msg_key m' \<longleftrightarrow> command_id demo_env m = command_id demo_env m'"
  by (simp add: msg_key_def)

lemma demo_platform [simp]:
  "keccak demo_env x = x" "message_hash demo_env m = message_code m" "pubkey_from_str demo_env s = Some (str_bytes s)"
  "create_program_address demo_env seeds pid = Some (concat seeds @ pid)"
  "try_find_program_address demo_env seeds pid = Some (concat seeds @ [255] @ pid, 255)"
  "gateway_id demo_env = [1]" "system_program_id demo_env = [8]" "governance_id demo_env = replicate 32 4" "its_id demo_env = [3]"
  by (simp_all add: demo_env_def message_hash_def)

lemma gateway_step_approve:
  assumes "gw_accounts st demo_root_key = Some (ConfigAcc demo_config)"
    and "gw_accounts st demo_session_key = Some (SessionAcc demo_session)" and "gw_accounts st (msg_key m) = None"
  shows "gateway_step demo_env st (msg_approved m st)"
proof -
  let ?a = "demo_approve_accs\<lparr>am_incoming_message_pda := acc_mut (msg_key m)\<rparr>"
  let ?mm = "\<lparr>mm_leaf = \<lparr>ml_message = m, ml_position = 0, ml_set_size = 1, ml_domain_separator = [12]\<rparr>, mm_proof = []\<rparr>"
  have "load_acc session_of (gw_accounts st) demo_session_key = Inr demo_session"
    using assms by (simp add: gw_load)
  moreover have "check_seeds demo_env (session_seeds demo_payload_root ApproveMessages demo_set) 255 [1] demo_session_key = Inr ()"
    "check_seeds_canonical demo_env (incoming_message_seeds (command_id demo_env m)) [1] (msg_key m) = Inr 255"
    by (simp_all add: check_seeds_def check_seeds_canonical_def find_program_address_def session_seeds_def demo_session_key_def
        incoming_message_seeds_def msg_key_def)
  moreover have "destination_signing_bump demo_env m = Inr 255"
    by (simp add: destination_signing_bump_def ValidateMessageSigner_find_pda_def find_program_address_def)
  moreover have "merkle_proof_from_bytes demo_env [] = Some []" "merkle_proof_verify demo_env h p r i l n" for h p r i l n
    by (simp_all add: demo_env_def)
  ultimately have "approve_message demo_env ?a ?mm demo_payload_root st = Inr (msg_approved m st)"
    using assms by (simp add: approve_message_def demo_approve_accs_def acc_defs check_mut_def check_signer_def
        check_vacant_def check_program_def msg_approved_def msg_incoming_def approved_event_def)
  then show ?thesis
    by (intro gateway_ix [where view = demo_view and ix = "ApproveMessageIx ?a ?mm demo_payload_root"]) simp_all
qed

lemma msg_raw_ok:
  assumes "gw_accounts st demo_root_key = Some (ConfigAcc demo_config)"
    and "gw_accounts st (msg_key m) = Some (MessageAcc (msg_incoming m))"
    and "payload = payload_hash m" and "self = str_bytes (destination_address m)"
  shows "validate_message_raw demo_env self (msg_accounts m) m payload st = Inr (msg_executed m st)"
proof -
  have "load_acc message_of (gw_accounts st) (msg_key m) = Inr (msg_incoming m)"
    using assms by (simp add: gw_load)
  moreover have "check_seeds demo_env (incoming_message_seeds (command_id demo_env m)) 255 [1] (msg_key m) = Inr ()"
    by (simp add: check_seeds_def incoming_message_seeds_def msg_key_def)
  ultimately show ?thesis
    using assms by (simp add: validate_message_raw_def Let_def msg_accounts_def validate_message_def validate_caller_pda_def
        ValidateMessageSigner_create_pda_def acc_defs check_mut_def check_signer_def grant_signer_def
        msg_executed_def executed_event_def msg_incoming_def)
qed

lemma msg_accounts_ok:
  assumes "gw_accounts st demo_root_key = Some (ConfigAcc demo_config)"
    and "gw_accounts st (msg_key m) = Some (MessageAcc (msg_incoming m))" and "self = str_bytes (destination_address m)"
  shows "check_execute_accounts demo_env self (msg_accounts m) m st = Inr ()"
proof -
  have "load_acc message_of (gw_accounts st) (msg_key m) = Inr (msg_incoming m)"
    using assms by (simp add: gw_load)
  then show ?thesis
    using assms(1,3) by (simp add: check_execute_accounts_def Let_def msg_accounts_def acc_defs check_mut_def check_seeds_def
        incoming_message_seeds_def validate_message_seeds_def msg_key_def msg_incoming_def check_program_def)
qed

lemma msg_sel [simp]:
  "gw_accounts (msg_approved m st) = (gw_accounts st)(msg_key m \<mapsto> MessageAcc (msg_incoming m))"
  "gw_accounts (msg_executed m st) = (gw_accounts st)(msg_key m \<mapsto> MessageAcc ((msg_incoming m)\<lparr>im_status := status_executed\<rparr>))"
  "gw_events (msg_approved m st) = gw_events st @ [approved_event demo_env m]"
  by (simp_all add: msg_approved_def msg_executed_def)

end
