(* ===== verification/Governance_Demo.thy ===== *)
theory Governance_Demo
  imports Governance_Inv Executable_Demo
begin

text \<open>
  A concrete run of the governance program on the concrete gateway: initialization, two approved
  governance messages, which schedule a proposal and approve it for the operator, and its
  execution by timelock or by the operator.
\<close>

section \<open>Parameters\<close>

definition metadata_code :: "SolanaAccountMetadata \<Rightarrow> bytes" where
  "metadata_code m = concat (map (\<lambda>b. [1, b]) (sm_pubkey m)) @ [0, u8_of_bool (sm_is_signer m), u8_of_bool (sm_is_writable m)]"

definition metadata_vec_code :: "SolanaAccountMetadata list \<Rightarrow> bytes" where
  "metadata_vec_code ms = concat (map (\<lambda>m. 1 # metadata_code m) ms) @ [0]"

definition metadata_opt_code :: "SolanaAccountMetadata option \<Rightarrow> bytes" where
  "metadata_opt_code x = (case x of None \<Rightarrow> [0] | Some m \<Rightarrow> 1 # metadata_code m)"

lemma metadata_code_inj: "metadata_code m @ r = metadata_code m' @ r' \<Longrightarrow> m = m' \<and> r = r'"
proof -
  assume eq: "metadata_code m @ r = metadata_code m' @ r'"
  note e = framed_inj [OF eq [unfolded metadata_code_def append.assoc append.simps]]
  have "u8_of_bool a = u8_of_bool b \<longleftrightarrow> a = b" for a b by (simp add: u8_of_bool_def)
  with e show ?thesis by (cases m; cases m') simp
qed

lemma metadata_vec_inj: "metadata_vec_code ms @ r = metadata_vec_code ms' @ r' \<Longrightarrow> ms = ms' \<and> r = r'"
proof (induction ms arbitrary: ms')
  case Nil
  then show ?case by (cases ms') (simp_all add: metadata_vec_code_def)
next
  case (Cons m ms)
  show ?case
  proof (cases ms')
    case (Cons m' ms2)
    with Cons.prems have "metadata_code m @ (metadata_vec_code ms @ r) = metadata_code m' @ (metadata_vec_code ms2 @ r')"
      by (simp add: metadata_vec_code_def)
    from metadata_code_inj [OF this] Cons.IH Cons show ?thesis by blast
  qed (use Cons.prems in \<open>simp add: metadata_vec_code_def\<close>)
qed

definition demo_gov_key :: pubkey where
  "demo_gov_key = str_bytes ''governance'' @ [255] @ replicate 32 4"

definition demo_call :: ExecuteProposalCallData where
  "demo_call = \<lparr>solana_accounts_metadata = [\<lparr>sm_pubkey = demo_gov_key, sm_is_signer = True, sm_is_writable = True\<rparr>],
     solana_native_value_receiver_account = None, proposal_call_data = [5]\<rparr>"

definition demo_target :: pubkey where
  "demo_target = replicate 32 9"

definition demo_gdata :: ExecuteProposalData where
  "demo_gdata = \<lparr>target_address = demo_target, proposal_call = demo_call,
     proposal_native_value = to_le_bytes 32 (0 :: 256 word)\<rparr>"

definition demo_cmd :: "GovernanceCommand \<Rightarrow> GovernanceCommandPayload" where
  "demo_cmd c = \<lparr>gcp_command = c, gcp_target = demo_target, gcp_call_data = [7], gcp_native_value = 0, gcp_eta = 0\<rparr>"

definition demo_glib :: governance_lib where
  "demo_glib = \<lparr>borsh_metadata_vec = (\<lambda>ms. Some (metadata_vec_code ms)), borsh_metadata_opt = (\<lambda>x. Some (metadata_opt_code x)),
     abi_decode_command = (\<lambda>bs. if bs = [77] then Some (demo_cmd ScheduleTimeLockProposal)
       else if bs = [78] then Some (demo_cmd ApproveOperatorProposalCommand) else None),
     call_data_try_from_slice = (\<lambda>bs. if bs = [7] then Some demo_call else None)\<rparr>"

definition demo_rt :: gov_runtime where
  "demo_rt = \<lparr>decode_ix = (\<lambda>_ data. if data = [5] then Some (GovTransferOperatorshipIx
       \<lparr>gt_system_program = acc [8], gt_operator_account = None, gt_governance_config = acc_signer_mut demo_gov_key\<rparr> [99])
       else None), external_call = (\<lambda>_ _ _ s. Some s)\<rparr>"

lemma demo_external_law: "external_law demo_env demo_rt"
  by (auto simp: external_law_def demo_rt_def intro: runs_refl)

definition demo_h :: hash where
  "demo_h = demo_target @ metadata_vec_code (solana_accounts_metadata demo_call) @ [0] @ [5] @ to_le_bytes 32 (0 :: 256 word)"

lemma demo_hash [simp]:
  "calculate_hash demo_env demo_glib demo_target demo_call (to_le_bytes 32 (0 :: 256 word)) = Inr demo_h"
  "hash_from_data demo_env demo_glib demo_gdata = Inr demo_h"
  by (simp_all add: hash_from_data_def calculate_hash_def demo_gdata_def demo_glib_def hashv_def demo_h_def demo_call_def
      metadata_opt_code_def)

lemma demo_gdata_sel [simp]:
  "target_address demo_gdata = demo_target" "proposal_call demo_gdata = demo_call"
  "proposal_native_value demo_gdata = to_le_bytes 32 (0 :: 256 word)" "proposal_call_data demo_call = [5]"
  by (simp_all add: demo_gdata_def demo_call_def)

section \<open>The run\<close>

definition demo_prop_key :: pubkey where
  "demo_prop_key = str_bytes ''proposal'' @ demo_h @ [255] @ replicate 32 4"

definition demo_marker_key :: pubkey where
  "demo_marker_key = str_bytes ''operator-managed-proposal'' @ demo_h @ [255] @ replicate 32 4"

lemma demo_gov_keys [simp]:
  "demo_prop_key \<noteq> demo_gov_key" "demo_gov_key \<noteq> demo_prop_key" "demo_marker_key \<noteq> demo_gov_key"
  "demo_gov_key \<noteq> demo_marker_key" "demo_prop_key \<noteq> demo_marker_key" "demo_marker_key \<noteq> demo_prop_key"
  by (simp_all add: demo_prop_key_def demo_gov_key_def demo_marker_key_def str_bytes_def of_char_u8_inj)

lemma demo_gov_seeds [simp]:
  "check_seeds demo_env governance_seeds 255 (replicate 32 4) demo_gov_key = Inr ()"
  "check_seeds_canonical demo_env governance_seeds (replicate 32 4) demo_gov_key = Inr 255"
  "check_seeds demo_env (proposal_seeds demo_h) 255 (replicate 32 4) demo_prop_key = Inr ()"
  "check_seeds_canonical demo_env (proposal_seeds demo_h) (replicate 32 4) demo_prop_key = Inr 255"
  "check_seeds_canonical demo_env (operator_proposal_seeds demo_h) (replicate 32 4) demo_marker_key = Inr 255"
  by (simp_all add: check_seeds_def check_seeds_canonical_def find_program_address_def governance_seeds_def
      demo_gov_key_def proposal_seeds_def demo_prop_key_def operator_proposal_seeds_def demo_marker_key_def)

definition demo_gcfg :: GovernanceConfig where
  "demo_gcfg = \<lparr>gvc_bump = 255, chain_hash = str_bytes ''axelar'', address_hash = str_bytes ''gov'',
     minimum_proposal_eta_delay = 3600, gvc_operator = [70]\<rparr>"

lemma demo_gcfg_sel [simp]:
  "gvc_bump demo_gcfg = 255" "chain_hash demo_gcfg = str_bytes ''axelar''" "address_hash demo_gcfg = str_bytes ''gov''"
  "minimum_proposal_eta_delay demo_gcfg = 3600" "gvc_operator demo_gcfg = [70]"
  by (simp_all add: demo_gcfg_def)

definition demo_gview :: "i64 \<Rightarrow> ledger_view" where
  "demo_gview t = \<lparr>unix_timestamp = t, program_data_authority = (\<lambda>k. if k = replicate 32 4 @ [255, 7] then Some (Some [9]) else None)\<rparr>"

definition demo_gmsg :: "string \<Rightarrow> bytes \<Rightarrow> Message" where
  "demo_gmsg i p = \<lparr>cc_id = \<lparr>chain = ''axelar'', cc_id_id = i\<rparr>, source_address = ''gov'', destination_chain = ''solana'',
     destination_address = replicate 32 (CHR 0x04), payload_hash = p\<rparr>"

lemma demo_gmsg_sel [simp]:
  "source_address (demo_gmsg i p) = ''gov''" "chain (cc_id (demo_gmsg i p)) = ''axelar''" "payload_hash (demo_gmsg i p) = p"
  "destination_address (demo_gmsg i p) = replicate 32 (CHR 0x04)"
  by (simp_all add: demo_gmsg_def)

lemma demo_gmsg_neq [simp]: "msg_key (demo_gmsg ''1'' p) \<noteq> msg_key (demo_gmsg ''2'' q)"
  "msg_key (demo_gmsg ''2'' p) \<noteq> msg_key (demo_gmsg ''1'' q)"
  by (simp_all add: msg_key_inj command_id_def hashv_def demo_gmsg_def str_bytes_def of_char_u8_inj)

abbreviation "demo_m1 \<equiv> demo_gmsg ''1'' [77]"
abbreviation "demo_m2 \<equiv> demo_gmsg ''2'' [78]"

definition demo_gw1 :: gateway_state where
  "demo_gw1 = msg_approved demo_m2 (msg_approved demo_m1 demo_st3)"

definition demo_gw2 :: gateway_state where
  "demo_gw2 = msg_executed demo_m1 demo_gw1"

definition demo_gw3 :: gateway_state where
  "demo_gw3 = msg_executed demo_m2 demo_gw2"

lemma demo_st3_msg [simp]: "gw_accounts demo_st3 (msg_key m) = None"
  by (auto simp: demo_st3_def demo_st2_def demo_st1_def gateway_empty_def)
    (simp_all add: msg_key_def demo_set_key_def str_bytes_def of_char_u8_inj)

lemma demo_gw_accounts [simp]:
  "gw_accounts demo_gw1 demo_root_key = Some (ConfigAcc demo_config)"
  "gw_accounts demo_gw2 demo_root_key = Some (ConfigAcc demo_config)"
  "gw_accounts demo_gw1 (msg_key demo_m1) = Some (MessageAcc (msg_incoming demo_m1))"
  "gw_accounts demo_gw2 (msg_key demo_m2) = Some (MessageAcc (msg_incoming demo_m2))"
  by (simp_all add: demo_gw1_def demo_gw2_def)

lemma demo_gw1_runs: "runs (gateway_step demo_env) gateway_empty demo_gw1"
proof -
  have "gateway_step demo_env demo_st3 (msg_approved demo_m1 demo_st3)"
    by (rule gateway_step_approve) simp_all
  moreover have "gateway_step demo_env (msg_approved demo_m1 demo_st3) demo_gw1"
    unfolding demo_gw1_def by (rule gateway_step_approve) simp_all
  ultimately show ?thesis using demo_reachable(2) by (meson runs.intros)
qed

lemma gov_runs_gateway:
  assumes "runs (gateway_step env) gw gw'" and "gv_gateway st = gw"
  shows "runs (gov_step env lib sys rt) st (st\<lparr>gv_gateway := gw'\<rparr>)"
  using assms
proof (induction rule: runs.induct)
  case (runs_refl s)
  then show ?case by (metis gov_state.surjective gov_state.update_convs(3) runs.runs_refl)
next
  case (runs_step s t u)
  have "gov_step env lib sys rt (st\<lparr>gv_gateway := t\<rparr>) (st\<lparr>gv_gateway := t\<rparr>\<lparr>gv_gateway := u\<rparr>)"
    by (rule gov_gateway) (simp add: runs_step)
  then show ?case using runs_step.IH [OF runs_step.prems] by (auto intro: runs.runs_step)
qed

definition demo_gov1 :: gov_state where
  "demo_gov1 = put_gov demo_gov_key (GovConfigAcc demo_gcfg)
     (set_balances (demo_balances(demo_gov_key := 10)) (gov_empty demo_balances))"

definition demo_gov2 :: gov_state where
  "demo_gov2 = demo_gov1\<lparr>gv_gateway := demo_gw1\<rparr>"

definition demo_proposal :: ExecutableProposal where
  "demo_proposal = \<lparr>ep_eta = 4600, ep_bump = 255, ep_managed_bump = 255\<rparr>"

definition demo_gov3 :: gov_state where
  "demo_gov3 = put_gov demo_gov_key (GovConfigAcc demo_gcfg)
     (emit_gov (ProposalScheduled demo_h demo_target [7] (to_le_bytes 32 (0 :: 256 word)) 4600)
       (put_gov demo_prop_key (ProposalAcc demo_proposal)
         (set_balances (demo_balances(demo_gov_key := 10, demo_prop_key := 10)) (demo_gov2\<lparr>gv_gateway := demo_gw2\<rparr>))))"

definition demo_gov4 :: gov_state where
  "demo_gov4 = put_gov demo_gov_key (GovConfigAcc demo_gcfg)
     (emit_gov (OperatorProposalApproved demo_h demo_target [7] (to_le_bytes 32 (0 :: 256 word)))
       (put_gov demo_marker_key (OperatorProposalAcc OperatorProposal)
         (set_balances (demo_balances(demo_gov_key := 10, demo_prop_key := 10, demo_marker_key := 10))
           (demo_gov3\<lparr>gv_gateway := demo_gw3\<rparr>))))"

definition demo_gexec :: "Message \<Rightarrow> gov_Execute" where
  "demo_gexec m = \<lparr>ge_executable = msg_accounts m, ge_system_program = acc [8], ge_payer = acc_signer_mut [20],
     ge_governance_config = acc_mut demo_gov_key, ge_proposal_pda = acc_mut demo_prop_key,
     ge_operator_proposal_pda = acc_mut demo_marker_key, ge_axelar_governance_program = acc (replicate 32 4)\<rparr>"

definition demo_ginit :: gov_InitializeConfig where
  "demo_ginit = \<lparr>gn_payer = acc_signer_mut [20], gn_upgrade_authority = acc_signer [9], gn_program_data = acc (replicate 32 4 @ [255, 7]),
     gn_governance_config = acc_mut demo_gov_key, gn_system_program = acc [8]\<rparr>"

definition demo_gparams :: GovernanceConfigInit where
  "demo_gparams = \<lparr>gci_chain_hash = str_bytes ''axelar'', gci_address_hash = str_bytes ''gov'',
     gci_minimum_proposal_eta_delay = 3600, gci_operator = [70]\<rparr>"

lemma demo_ginit_ok:
  "gov_initialize_config demo_env demo_sys (demo_gview 1000) demo_ginit demo_gparams (gov_empty demo_balances) = Inr demo_gov1"
proof -
  have "load_program_data demo_env (demo_gview 1000) (replicate 32 4) (replicate 32 4 @ [255, 7]) = Inr (Some [9])"
    by (simp add: load_program_data_def check_seeds_canonical_def find_program_address_def demo_gview_def)
      (simp add: demo_env_def)
  then show ?thesis
    by (simp add: gov_initialize_config_def Let_def demo_ginit_def acc_defs check_signer_def check_mut_def
        check_vacant_def check_program_def demo_gparams_def validate_config_def VALID_PROPOSAL_DELAY_MIN_def
        VALID_PROPOSAL_DELAY_MAX_def demo_gov1_def demo_gcfg_def demo_sys_def gov_empty_def)
qed

lemma demo_gov_load [simp]:
  "gv_accounts st demo_gov_key = Some (GovConfigAcc demo_gcfg) \<Longrightarrow> ai_key a = demo_gov_key \<Longrightarrow>
     load_governance demo_env st a = Inr demo_gcfg"
  by (simp add: load_governance_def load_acc_def)

lemma demo_prop_load [simp]:
  "gv_accounts st demo_prop_key = Some (ProposalAcc demo_proposal) \<Longrightarrow> ai_key a = demo_prop_key \<Longrightarrow>
     load_proposal demo_env st demo_h a = Inr demo_proposal"
  by (simp add: load_proposal_def load_acc_def) (simp add: demo_proposal_def)

lemma demo_gov_accounts [simp]:
  "gv_accounts demo_gov2 demo_gov_key = Some (GovConfigAcc demo_gcfg)" "gv_accounts demo_gov2 demo_prop_key = None"
  "gv_accounts demo_gov3 demo_gov_key = Some (GovConfigAcc demo_gcfg)" "gv_accounts demo_gov3 demo_marker_key = None"
  "gv_accounts demo_gov3 demo_prop_key = Some (ProposalAcc demo_proposal)"
  "gv_accounts demo_gov4 demo_gov_key = Some (GovConfigAcc demo_gcfg)"
  "gv_accounts demo_gov4 demo_prop_key = Some (ProposalAcc demo_proposal)"
  "gv_accounts demo_gov4 demo_marker_key = Some (OperatorProposalAcc OperatorProposal)"
  "gv_gateway demo_gov2 = demo_gw1" "gv_gateway demo_gov3 = demo_gw2"
  "gv_balances demo_gov2 = demo_balances(demo_gov_key := 10)"
  "gv_balances demo_gov3 = demo_balances(demo_gov_key := 10, demo_prop_key := 10)"
  by (simp_all add: demo_gov1_def demo_gov2_def demo_gov3_def demo_gov4_def gov_empty_def)

lemma demo_context [simp]:
  "calculate_gmp_context demo_env demo_glib [77] = Inr (demo_cmd ScheduleTimeLockProposal, demo_target, demo_call, demo_h)"
  "calculate_gmp_context demo_env demo_glib [78] = Inr (demo_cmd ApproveOperatorProposalCommand, demo_target, demo_call, demo_h)"
proof -
  have "decode_payload demo_glib [77] = Inr (demo_cmd ScheduleTimeLockProposal)"
    "decode_payload demo_glib [78] = Inr (demo_cmd ApproveOperatorProposalCommand)"
    "decode_payload_call_data demo_glib [7] = Inr demo_call" "decode_payload_target demo_target = Inr demo_target"
    by (simp_all add: decode_payload_def decode_payload_call_data_def decode_payload_target_def demo_glib_def demo_target_def)
  then show
    "calculate_gmp_context demo_env demo_glib [77] = Inr (demo_cmd ScheduleTimeLockProposal, demo_target, demo_call, demo_h)"
    "calculate_gmp_context demo_env demo_glib [78] = Inr (demo_cmd ApproveOperatorProposalCommand, demo_target, demo_call, demo_h)"
    by (simp_all add: calculate_gmp_context_def demo_cmd_def)
qed

lemma four: "(4 :: nat) = Suc 3" and five: "(5 :: nat) = Suc 4"
  by simp_all

lemma gov_entry_execute:
  "gov_entry (Suc d) env lib sys rt view (GovExecuteIx a m p) st = gov_execute env lib (gov_entry d env lib sys rt view) a m p st"
  by (simp add: Let_def)

definition demo_sched :: ScheduleTimelock where
  "demo_sched = \<lparr>sc_system_program = acc [8], sc_governance_config = acc_signer demo_gov_key, sc_payer = acc_signer_mut [20],
     sc_proposal_pda = acc_mut demo_prop_key\<rparr>"

lemma demo_sched_ok:
  assumes "st = demo_gov2\<lparr>gv_gateway := gw\<rparr>"
  shows "schedule_timelock_proposal demo_env demo_sys (demo_gview 1000) demo_sched demo_h 0
     (to_le_bytes 32 (0 :: 256 word)) demo_target [7] st =
    Inr (emit_gov (ProposalScheduled demo_h demo_target [7] (to_le_bytes 32 (0 :: 256 word)) 4600)
       (put_gov demo_prop_key (ProposalAcc demo_proposal)
         (set_balances (demo_balances(demo_gov_key := 10, demo_prop_key := 10)) st)))"
proof -
  have "at_least_default_eta_delay (demo_gview 1000) 0 3600 = Inr 4600"
    by (simp add: at_least_default_eta_delay_def checked_add_def demo_gview_def)
  then show ?thesis
    using assms by (simp add: schedule_timelock_proposal_def Let_def demo_sched_def acc_defs check_signer_def check_mut_def
        check_vacant_def check_program_def check_constraint_signer_def find_program_address_def demo_sys_def demo_proposal_def)
qed

lemma demo_execute_ok:
  "gov_entry 5 demo_env demo_glib demo_sys demo_rt (demo_gview 1000) (GovExecuteIx (demo_gexec demo_m1) demo_m1 [77]) demo_gov2
     = Inr demo_gov3"
proof -
  have "ensure_authorized_gmp_command demo_env demo_gcfg demo_m1 = Inr ()"
    by (simp add: ensure_authorized_gmp_command_def hashv_def)
  moreover have "gmp_instruction demo_env (demo_gexec demo_m1) 255 (demo_cmd ScheduleTimeLockProposal) demo_h =
      Inr (ScheduleTimelockIx demo_sched demo_h 0 (to_le_bytes 32 (0 :: 256 word)) demo_target [7])"
    by (simp add: gmp_instruction_def Let_def demo_cmd_def extract_proposal_data_def demo_gexec_def demo_sched_def
        grant_signer_def acc_defs governance_seeds_def demo_gov_key_def)
  moreover have "validate_message_raw demo_env (replicate 32 4) (msg_accounts demo_m1) demo_m1 [77] demo_gw1 = Inr demo_gw2"
    "check_execute_accounts demo_env (replicate 32 4) (msg_accounts demo_m1) demo_m1 demo_gw1 = Inr ()"
    unfolding demo_gw2_def by (intro msg_raw_ok msg_accounts_ok; simp add: str_bytes_def)+
  moreover have "gov_entry 4 demo_env demo_glib demo_sys demo_rt (demo_gview 1000)
      (ScheduleTimelockIx demo_sched demo_h 0 (to_le_bytes 32 (0 :: 256 word)) demo_target [7]) (demo_gov2\<lparr>gv_gateway := demo_gw2\<rparr>) =
    Inr (emit_gov (ProposalScheduled demo_h demo_target [7] (to_le_bytes 32 (0 :: 256 word)) 4600)
       (put_gov demo_prop_key (ProposalAcc demo_proposal)
         (set_balances (demo_balances(demo_gov_key := 10, demo_prop_key := 10)) (demo_gov2\<lparr>gv_gateway := demo_gw2\<rparr>))))"
    unfolding four gov_entry.simps(2) Let_def by (simp add: demo_sched_ok)
  ultimately have "gov_execute demo_env demo_glib (gov_entry 4 demo_env demo_glib demo_sys demo_rt (demo_gview 1000))
      (demo_gexec demo_m1) demo_m1 [77] demo_gov2 = Inr demo_gov3"
    by (simp add: gov_execute_def Let_def demo_gexec_def acc_defs check_signer_def check_mut_def check_program_def
        demo_gov3_def)
  then show ?thesis unfolding five gov_entry_execute .
qed

lemma demo_approve_operator_ok:
  "gov_entry 5 demo_env demo_glib demo_sys demo_rt (demo_gview 1000) (GovExecuteIx (demo_gexec demo_m2) demo_m2 [78]) demo_gov3
     = Inr demo_gov4"
proof -
  define ix where "ix = ApproveOperatorIx \<lparr>aop_system_program = acc [8], aop_payer = acc_signer_mut [20],
      aop_governance_config = acc_signer demo_gov_key, aop_proposal_pda = acc demo_prop_key,
      aop_operator_proposal_pda = acc_mut demo_marker_key\<rparr> demo_h (to_le_bytes 32 (0 :: 256 word)) demo_target [7]"
  have "ensure_authorized_gmp_command demo_env demo_gcfg demo_m2 = Inr ()"
    by (simp add: ensure_authorized_gmp_command_def hashv_def)
  moreover have "gmp_instruction demo_env (demo_gexec demo_m2) 255 (demo_cmd ApproveOperatorProposalCommand) demo_h = Inr ix"
    by (simp add: gmp_instruction_def Let_def demo_cmd_def extract_proposal_data_def demo_gexec_def ix_def
        grant_signer_def acc_defs governance_seeds_def demo_gov_key_def)
  moreover have "validate_message_raw demo_env (replicate 32 4) (msg_accounts demo_m2) demo_m2 [78] demo_gw2 = Inr demo_gw3"
    "check_execute_accounts demo_env (replicate 32 4) (msg_accounts demo_m2) demo_m2 demo_gw2 = Inr ()"
    unfolding demo_gw3_def by (intro msg_raw_ok msg_accounts_ok; simp add: str_bytes_def)+
  moreover have "ep_managed_bump demo_proposal = 255" by (simp add: demo_proposal_def)
  then have "gov_entry 4 demo_env demo_glib demo_sys demo_rt (demo_gview 1000) ix (demo_gov3\<lparr>gv_gateway := demo_gw3\<rparr>) =
    Inr (emit_gov (OperatorProposalApproved demo_h demo_target [7] (to_le_bytes 32 (0 :: 256 word)))
       (put_gov demo_marker_key (OperatorProposalAcc OperatorProposal)
         (set_balances (demo_balances(demo_gov_key := 10, demo_prop_key := 10, demo_marker_key := 10))
           (demo_gov3\<lparr>gv_gateway := demo_gw3\<rparr>))))"
    unfolding ix_def four gov_entry.simps(2) Let_def
    by (simp add: approve_operator_proposal_def Let_def check_signer_def check_mut_def check_vacant_def check_program_def
        check_constraint_signer_def demo_sys_def) (simp add: acc_defs)
  ultimately have "gov_execute demo_env demo_glib (gov_entry 4 demo_env demo_glib demo_sys demo_rt (demo_gview 1000))
      (demo_gexec demo_m2) demo_m2 [78] demo_gov3 = Inr demo_gov4"
    by (simp add: gov_execute_def Let_def demo_gexec_def acc_defs check_signer_def check_mut_def check_program_def
        demo_gov4_def)
  then show ?thesis unfolding five gov_entry_execute .
qed

section \<open>Reachability and execution\<close>

lemma demo_gov2_reachable: "gov_reachable demo_env lib demo_sys rt demo_gov2"
proof -
  let ?step = "gov_step demo_env lib demo_sys rt"
  have top: "no_pda_signer demo_env (GovInitializeConfigIx demo_ginit demo_gparams)"
    by (simp add: no_pda_signer_def gov_signer_def)
  have "gov_entry MAX_INSTRUCTION_DEPTH demo_env lib demo_sys rt (demo_gview 1000)
      (GovInitializeConfigIx demo_ginit demo_gparams) (gov_empty demo_balances) = Inr demo_gov1"
    unfolding MAX_INSTRUCTION_DEPTH_def five gov_entry.simps(2) Let_def by (simp add: demo_ginit_ok)
  then have "runs ?step (gov_empty demo_balances) demo_gov1" by (intro runs_one gov_ix [OF top])
  moreover have "runs ?step demo_gov1 demo_gov2"
    unfolding demo_gov2_def by (rule gov_runs_gateway [OF demo_gw1_runs]) (simp add: demo_gov1_def gov_empty_def)
  ultimately show ?thesis by (metis runs_trans)
qed

lemma demo_gov_reachable:
  "gov_reachable demo_env demo_glib demo_sys demo_rt demo_gov2" "gov_reachable demo_env demo_glib demo_sys demo_rt demo_gov3"
  "gov_reachable demo_env demo_glib demo_sys demo_rt demo_gov4"
proof -
  let ?step = "gov_step demo_env demo_glib demo_sys demo_rt"
  have top: "no_pda_signer demo_env (GovExecuteIx a m p)" for a m p
    by (simp add: no_pda_signer_def gov_signer_def)
  obtain L where r2: "runs ?step (gov_empty L) demo_gov2" using demo_gov2_reachable by blast
  have s3: "?step demo_gov2 demo_gov3"
    by (rule gov_ix [OF top]) (use demo_execute_ok in \<open>simp add: MAX_INSTRUCTION_DEPTH_def\<close>)
  have s4: "?step demo_gov3 demo_gov4"
    by (rule gov_ix [OF top]) (use demo_approve_operator_ok in \<open>simp add: MAX_INSTRUCTION_DEPTH_def\<close>)
  show "gov_reachable demo_env demo_glib demo_sys demo_rt demo_gov2" "gov_reachable demo_env demo_glib demo_sys demo_rt demo_gov3"
    "gov_reachable demo_env demo_glib demo_sys demo_rt demo_gov4"
    using r2 runs_step [OF r2 s3] runs_step [OF runs_step [OF r2 s3] s4] by blast+
qed

definition demo_xprop :: ExecuteProposal where
  "demo_xprop = \<lparr>xp_system_program = acc [8], xp_governance_config = acc_mut demo_gov_key,
     xp_proposal_pda = acc_mut demo_prop_key\<rparr>"

definition demo_remaining :: "account_info list" where
  "demo_remaining = [acc_mut demo_gov_key, acc demo_target]"

definition demo_closed :: "governance_event \<Rightarrow> gov_state \<Rightarrow> gov_state" where
  "demo_closed e st = (put_gov demo_gov_key (GovConfigAcc demo_gcfg) (emit_gov e st))
     \<lparr>gv_accounts := (gv_accounts st)(demo_gov_key \<mapsto> GovConfigAcc demo_gcfg, demo_prop_key := None),
      gv_balances := (gv_balances st)(demo_gov_key := 20, demo_prop_key := 0)\<rparr>"

lemma demo_close_ok:
  assumes "gv_balances st demo_gov_key = 10" and "gv_balances st demo_prop_key = 10"
  shows "close_gov demo_prop_key demo_gov_key (put_gov demo_gov_key (GovConfigAcc demo_gcfg) (emit_gov e st)) =
    Inr (demo_closed e st)"
  using assms by (simp add: close_gov_def close_lamports_def checked_add_def demo_closed_def)

lemma demo_cpi_ok:
  assumes "cpi demo_target [acc_signer_mut demo_gov_key] [5] st = Inr st'"
  shows "execute_proposal_cpi demo_env cpi demo_gdata demo_remaining demo_gov_key 255 st = Inr st'"
proof -
  have "checked_from_u256_le_bytes_to_u64 (to_le_bytes 32 (0 :: 256 word)) = Inr 0"
    by (simp add: checked_from_u256_spec le_val_to_le_bytes_256)
  then show ?thesis
    using assms by (simp add: execute_proposal_cpi_def Let_def demo_gdata_def get_account_metadata_def demo_call_def
        demo_remaining_def grant_signer_def acc_defs governance_seeds_def demo_gov_key_def)
qed

definition demo_executed_event :: governance_event where
  "demo_executed_event = ProposalExecuted demo_h demo_target [5] (to_le_bytes 32 (0 :: 256 word)) 4600"

lemma demo_timelock_ok:
  assumes "cpi demo_target [acc_signer_mut demo_gov_key] [5] demo_gov3 = Inr st1"
    and "gv_balances st1 demo_gov_key = 10" and "gv_balances st1 demo_prop_key = 10"
  shows "execute_proposal demo_env demo_glib cpi (demo_gview 4600) demo_xprop demo_remaining demo_gdata demo_gov3 =
    Inr (demo_closed demo_executed_event st1)"
proof -
  have "u64_of_i64 (unix_timestamp (demo_gview 4600)) e = Inr 4600" for e
    by (simp add: u64_of_i64_def demo_gview_def)
  moreover have "ep_eta demo_proposal = 4600" by (simp add: demo_proposal_def)
  moreover have "\<exists>a \<in> set demo_remaining. ai_key a = demo_gov_key" "\<exists>a \<in> set demo_remaining. ai_key a = demo_target"
    "\<exists>m \<in> set (solana_accounts_metadata demo_call). sm_pubkey m = demo_gov_key"
    by (simp_all add: demo_remaining_def acc_defs demo_call_def)
  ultimately show ?thesis
    using demo_cpi_ok [where cpi = cpi and st = demo_gov3 and st' = st1] assms(1)
      demo_close_ok [OF assms(2,3), of demo_executed_event]
    by (simp add: execute_proposal_def Let_def demo_xprop_def check_program_def check_mut_def
        check_governance_config_presence_def check_target_program_presence_def acc_defs demo_executed_event_def)
qed

end
