(* ===== verification/Governance_Props.thy ===== *)
theory Governance_Props
  imports Governance_Inv Governance_Demo
begin

text \<open>The properties of the governance program, with witnesses on its concrete run.\<close>

section \<open>Who can act on proposals\<close>

text \<open>
  C34. Nothing happens to a proposal out of order: in every reachable log, an execution by timelock
  comes after a scheduling with the same hash and the same ETA, an execution by the operator
  after a scheduling and an approval of the same hash, an approval after a scheduling, and a
  cancellation after what it cancels.
\<close>

theorem governance_log_order:
  assumes "pda_law env" and "pda_inj env" and "external_law env rt" and "gov_reachable env lib sys rt st"
    and "gv_events st = pre @ e # post"
  shows "case e of
      ProposalExecuted h _ _ _ eta \<Rightarrow> \<exists>tg cd nv. ProposalScheduled h tg cd nv eta \<in> set pre
    | ProposalCancelled h _ _ _ eta \<Rightarrow> \<exists>tg cd nv. ProposalScheduled h tg cd nv eta \<in> set pre
    | OperatorProposalApproved h _ _ _ \<Rightarrow> \<exists>tg cd nv eta. ProposalScheduled h tg cd nv eta \<in> set pre
    | OperatorProposalCancelled h _ _ _ \<Rightarrow> \<exists>tg cd nv. OperatorProposalApproved h tg cd nv \<in> set pre
    | OperatorProposalExecuted h _ _ _ \<Rightarrow> (\<exists>tg cd nv eta. ProposalScheduled h tg cd nv eta \<in> set pre) \<and>
        (\<exists>tg cd nv. OperatorProposalApproved h tg cd nv \<in> set pre)
    | _ \<Rightarrow> True"
proof -
  have "justified (set pre) e"
    using gov_inv_reachable(1) [OF assms(1-4)] assms(5) unfolding gov_inv_def orderly_def by blast
  then show ?thesis by (cases e) auto
qed

text \<open>Instructions that must be signed by the configuration account fail in a transaction.\<close>

lemma gov_signer_blocked:
  "no_pda_signer env ix \<Longrightarrow> a \<in> set (gov_signer ix) \<Longrightarrow> ai_signer a \<Longrightarrow> load_governance env st a \<noteq> Inr c"
  by (auto simp: no_pda_signer_def load_governance_Inr)

fun proposal_change :: "governance_event \<Rightarrow> bool" where
  "proposal_change (ProposalScheduled _ _ _ _ _) = True"
| "proposal_change (ProposalCancelled _ _ _ _ _) = True"
| "proposal_change (OperatorProposalApproved _ _ _ _) = True"
| "proposal_change (OperatorProposalCancelled _ _ _ _) = True"
| "proposal_change _ = False"

lemma gov_executeD:
  assumes "gov_execute env lib self_call a m payload st = Inr st'"
  shows "\<exists>c gw ix st1. load_governance env st (ge_governance_config a) = Inr c \<and>
    ensure_authorized_gmp_command env c m = Inr () \<and>
    validate_message_raw env (governance_id env) (ge_executable a) m payload (gv_gateway st) = Inr gw \<and>
    self_call ix (st\<lparr>gv_gateway := gw\<rparr>) = Inr st1 \<and>
    st' = put_gov (ai_key (ge_governance_config a)) (GovConfigAcc c) st1"
  using assms unfolding gov_execute_def Let_def res_bind_Inr split_paired_Ex prod.case
  by (elim exE conjE) (intro exI conjI, (assumption | simp)+)

text \<open>
  C6. Proposals are scheduled, approved and cancelled only by governance: a transaction that logs
  such a change either handles a message that Axelar approved, from the configured address on the
  configured chain, with this payload, or executes a proposal.
\<close>

theorem governance_command_authorised:
  assumes law: "pda_law env" "pda_inj env" "external_law env rt" and "inj (message_hash env)"
    and reach: "gov_reachable env lib sys rt st" and top: "no_pda_signer env ix"
    and ok: "gov_entry MAX_INSTRUCTION_DEPTH env lib sys rt view ix st = Inr st'"
    and new: "gv_events st' = gv_events st @ evs" "e \<in> set evs" "proposal_change e"
  shows "(\<exists>a m payload c. ix = GovExecuteIx a m payload \<and>
      gv_accounts st (ai_key (ge_governance_config a)) = Some (GovConfigAcc c) \<and>
      keccak env (str_bytes (source_address m)) = address_hash c \<and>
      keccak env (str_bytes (chain (cc_id m))) = chain_hash c \<and>
      keccak env payload = payload_hash m \<and> approved_event env m \<in> set (gw_events (gv_gateway st)))
    \<or> (\<exists>a r data. ix = ExecuteTimelockIx a r data) \<or> (\<exists>a r data. ix = ExecuteOperatorIx a r data)"
proof -
  have depth: "MAX_INSTRUCTION_DEPTH = Suc 4" by (simp add: MAX_INSTRUCTION_DEPTH_def)
  note ok = ok [unfolded depth gov_entry.simps(2) Let_def]
  have gwr: "gateway_reachable env (gv_gateway st)" by (rule gov_inv_reachable(2) [OF law reach])
  note blocked = gov_signer_blocked [OF top]
  show ?thesis
  proof (cases ix)
    case (GovExecuteIx a m payload)
    with ok obtain c gw where c: "load_governance env st (ge_governance_config a) = Inr c"
      and au: "ensure_authorized_gmp_command env c m = Inr ()"
      and v: "validate_message_raw env (governance_id env) (ge_executable a) m payload (gv_gateway st) = Inr gw"
      by (auto dest!: gov_executeD)
    have "approved_event env m \<in> set (gw_events (gv_gateway st))"
      using raw.handled_approved [where args = "(governance_id env, ge_executable a, payload)",
          OF law(1,2) gwr _ assms(4)] v by simp
    moreover have "keccak env payload = payload_hash m"
      using v by (rule validate_message_rawE)
    ultimately show ?thesis
      using GovExecuteIx c au
      by (auto simp: load_governance_Inr ensure_authorized_gmp_command_def res_inv hashv_def)
  next
    case (ScheduleTimelockIx a h eta nv tg cd)
    with ok blocked [of "sc_governance_config a"] show ?thesis
      by (auto simp: schedule_timelock_proposal_def Let_def res_bind_Inr check_constraint_signer_Inr gov_signer_def)
  next
    case (CancelTimelockIx a h eta nv tg cd)
    with ok blocked [of "ct_governance_config a"] show ?thesis
      by (auto simp: cancel_timelock_proposal_def res_bind_Inr check_constraint_signer_Inr gov_signer_def)
  next
    case (ApproveOperatorIx a h nv tg cd)
    with ok blocked [of "aop_governance_config a"] show ?thesis
      by (auto simp: approve_operator_proposal_def Let_def res_bind_Inr check_constraint_signer_Inr gov_signer_def)
  next
    case (CancelOperatorIx a h nv tg cd)
    with ok blocked [of "co_governance_config a"] show ?thesis
      by (auto simp: cancel_operator_proposal_def Let_def res_bind_Inr check_constraint_signer_Inr gov_signer_def)
  qed (use ok new in \<open>auto simp: gov_initialize_config_def gov_update_config_def gov_transfer_operatorship_def
      withdraw_tokens_def Let_def res_bind_Inr\<close>)
qed

section \<open>When a proposal runs\<close>

lemma execute_proposalD:
  assumes "execute_proposal env lib cpi view a remaining data st = Inr st'"
  shows "\<exists>c h p st1 e. load_governance env st (xp_governance_config a) = Inr c \<and>
    hash_from_data env lib data = Inr h \<and> load_proposal env st h (xp_proposal_pda a) = Inr p \<and>
    0 \<le> sint (unix_timestamp view) \<and> ep_eta p \<le> unix_timestamp view \<and>
    execute_proposal_cpi env cpi data remaining (ai_key (xp_governance_config a)) (gvc_bump c) st = Inr st1 \<and>
    close_gov (ai_key (xp_proposal_pda a)) (ai_key (xp_governance_config a))
      (put_gov (ai_key (xp_governance_config a)) (GovConfigAcc c) (emit_gov e st1)) = Inr st'"
  using assms unfolding execute_proposal_def Let_def res_bind_Inr u64_of_i64_Inr require_Inr
  by (elim exE conjE) (intro exI conjI, (assumption | simp)+)

text \<open>
  C7. A timelock proposal runs only when its time has come, and once: its execution finds a
  scheduling of the same hash in the log whose ETA is not after the clock, and leaves no proposal
  account behind.
\<close>

theorem timelock_execution_after_eta:
  assumes law: "pda_law env" "pda_inj env" "external_law env rt" and reach: "gov_reachable env lib sys rt st"
    and ok: "execute_proposal env lib cpi view a remaining data st = Inr st'"
  shows "\<exists>h tg cd nv eta. hash_from_data env lib data = Inr h \<and> ProposalScheduled h tg cd nv eta \<in> set (gv_events st) \<and>
    0 \<le> sint (unix_timestamp view) \<and> eta \<le> unix_timestamp view \<and>
    gv_accounts st (ai_key (xp_proposal_pda a)) \<noteq> None \<and> gv_accounts st' (ai_key (xp_proposal_pda a)) = None"
proof -
  from execute_proposalD [OF ok] obtain c h st1 e and p :: ExecutableProposal where h: "hash_from_data env lib data = Inr h"
    and p: "load_proposal env st h (xp_proposal_pda a) = Inr p" and t: "0 \<le> sint (unix_timestamp view)" "ep_eta p \<le> unix_timestamp view"
    and cl: "close_gov (ai_key (xp_proposal_pda a)) (ai_key (xp_governance_config a))
      (put_gov (ai_key (xp_governance_config a)) (GovConfigAcc c) (emit_gov e st1)) = Inr st'" by blast
  have "gv_accounts st' (ai_key (xp_proposal_pda a)) = None" using close_gov_frame(3) [OF cl] by simp
  moreover have "gv_accounts st (ai_key (xp_proposal_pda a)) \<noteq> None" using p by (simp add: load_proposal_Inr)
  ultimately show ?thesis
    using h t loaded_proposal_scheduled(1) [OF law(1,2) gov_inv_reachable(1) [OF law reach] p] by blast
qed

text \<open>
  The operator runs a proposal before its ETA only with an approval from governance: the
  configured operator signed, and the log holds an approval of the same hash.
\<close>

theorem operator_execution_authorised:
  assumes law: "pda_law env" "pda_inj env" "external_law env rt" and reach: "gov_reachable env lib sys rt st"
    and ok: "execute_operator_proposal env lib cpi a remaining data st = Inr st'"
  shows "\<exists>h tg cd nv c. hash_from_data env lib data = Inr h \<and> OperatorProposalApproved h tg cd nv \<in> set (gv_events st) \<and>
    gv_accounts st (ai_key (xo_governance_config a)) = Some (GovConfigAcc c) \<and>
    ai_signer (xo_operator a) \<and> ai_key (xo_operator a) = gvc_operator c \<and>
    gv_accounts st' (ai_key (xo_operator_pda_marker_account a)) = None"
proof -
  let ?mk = "ai_key (xo_operator_pda_marker_account a)"
  from ok obtain c h m b st2 where c: "load_governance env st (xo_governance_config a) = Inr c"
    and h: "hash_from_data env lib data = Inr h" and s: "check_signer (xo_operator a) = Inr ()"
    and o: "ai_key (xo_operator a) = gvc_operator c"
    and m: "load_acc operator_proposal_of (gv_accounts st) ?mk = Inr m"
    and f: "check_seeds_canonical env (operator_proposal_seeds h) (governance_id env) ?mk = Inr b"
    and cl: "close_gov ?mk (ai_key (xo_governance_config a)) st2 = Inr st'"
    unfolding execute_operator_proposal_def Let_def res_bind_Inr require_Inr
    by (elim exE conjE) (rule that, (assumption | simp)+)
  have "\<exists>tg cd nv. OperatorProposalApproved h tg cd nv \<in> set (gv_events st)"
    using m f by (intro loaded_marker_approved [OF law(1,2) gov_inv_reachable(1) [OF law reach], of ?mk m h b])
      (simp_all add: gov_load check_seeds_canonical_Inr pda_lawD [OF law(1)])
  then show ?thesis
    using c h s o close_gov_frame(3) [OF cl] by (auto simp: load_governance_Inr check_signer_Inr)
qed

text \<open>
  The delay is never undercut: the ETA a schedule command stores is the later of the ETA it
  asks for and the clock plus the configured delay, in a reachable state at least an hour away,
  and the only overflow is an error.
\<close>

theorem scheduled_eta_bound:
  assumes law: "pda_law env" "pda_inj env" "external_law env rt" and reach: "gov_reachable env lib sys rt st"
    and ok: "schedule_timelock_proposal env sys' view a h eta nv tg cd st = Inr st'"
  shows "\<exists>p. gv_accounts st' (ai_key (sc_proposal_pda a)) = Some (ProposalAcc p) \<and>
    gv_events st' = gv_events st @ [ProposalScheduled h tg cd nv (ep_eta p)] \<and>
    unat (unix_timestamp view) + 3600 \<le> unat (ep_eta p) \<and> eta \<le> ep_eta p \<and>
    (\<exists>c. gv_accounts st (ai_key (sc_governance_config a)) = Some (GovConfigAcc c) \<and>
      unat (ep_eta p) = max (unat eta) (unat (unix_timestamp view) + unat (minimum_proposal_eta_delay c)))"
proof -
  from ok obtain c b k' mb e L where acc: "gv_accounts st (ai_key (sc_governance_config a)) = Some (GovConfigAcc c)"
    and e: "at_least_default_eta_delay view eta (minimum_proposal_eta_delay c) = Inr e"
    and st': "st' = emit_gov (ProposalScheduled h tg cd nv e) (put_gov (ai_key (sc_proposal_pda a))
      (ProposalAcc \<lparr>ep_eta = e, ep_bump = b, ep_managed_bump = mb\<rparr>) (set_balances L st))"
    by (rule scheduleE)
  have "delay_ok c" using gov_invD [OF gov_inv_reachable(1) [OF law reach] acc] by simp
  with at_least_default_eta_delay_bound [OF e] acc show ?thesis
    by (auto simp: st' word_le_nat_alt)
qed

text \<open>
  The configured delay stays between an hour and a day in every reachable state.
\<close>

theorem governance_delay_in_range:
  assumes "pda_law env" and "pda_inj env" and "external_law env rt" and "gov_reachable env lib sys rt st"
    and "gv_accounts st k = Some (GovConfigAcc c)"
  shows "3600 \<le> unat (minimum_proposal_eta_delay c) \<and> unat (minimum_proposal_eta_delay c) \<le> 86400"
  using gov_invD [OF gov_inv_reachable(1) [OF assms(1-4)] assms(5)] by simp

lemma execute_operator_proposalD:
  assumes "execute_operator_proposal env lib cpi a remaining data st = Inr st'"
  shows "\<exists>c h p m st1 st2 e. load_governance env st (xo_governance_config a) = Inr c \<and>
    load_proposal env st h (xo_proposal_pda a) = Inr p \<and>
    load_acc operator_proposal_of (gv_accounts st) (ai_key (xo_operator_pda_marker_account a)) = Inr m \<and>
    close_gov (ai_key (xo_proposal_pda a)) (ai_key (xo_governance_config a))
      (put_gov (ai_key (xo_governance_config a)) (GovConfigAcc c) (emit_gov e st1)) = Inr st2 \<and>
    close_gov (ai_key (xo_operator_pda_marker_account a)) (ai_key (xo_governance_config a)) st2 = Inr st'"
  using assms unfolding execute_operator_proposal_def Let_def res_bind_Inr
  by (elim exE conjE) (intro exI conjI, (assumption | simp)+)

text \<open>The configuration account of an execution, by the timelock or by the operator.\<close>

fun execution_config :: "governance_instruction \<Rightarrow> pubkey option" where
  "execution_config (ExecuteTimelockIx a r data) = Some (ai_key (xp_governance_config a))"
| "execution_config (ExecuteOperatorIx a r data) = Some (ai_key (xo_governance_config a))"
| "execution_config _ = None"

text \<open>
  C39. What a proposal calls cannot change the governance configuration, whether the timelock or the
  operator executes it: the account is written back from the copy loaded before the call, at every
  call depth, so a proposal that transfers the operatorship through the program itself leaves the old
  operator in place. The configuration account is never the proposal or the approval that is closed.
\<close>

theorem execution_restores_config:
  assumes ok: "gov_entry d env lib sys rt view ix st = Inr st'" and ck: "execution_config ix = Some ck"
  shows "\<exists>c. gv_accounts st ck = Some (GovConfigAcc c) \<and> gv_accounts st' ck = Some (GovConfigAcc c)"
proof (cases d)
  case (Suc n)
  show ?thesis
  proof (cases ix)
    case (ExecuteTimelockIx a r data)
    with ok Suc obtain c h st1 e and p :: ExecutableProposal where c: "load_governance env st (xp_governance_config a) = Inr c"
      and p: "load_proposal env st h (xp_proposal_pda a) = Inr p"
      and cl: "close_gov (ai_key (xp_proposal_pda a)) (ai_key (xp_governance_config a))
        (put_gov (ai_key (xp_governance_config a)) (GovConfigAcc c) (emit_gov e st1)) = Inr st'"
      by (auto simp: Let_def dest!: execute_proposalD)
    have "ai_key (xp_proposal_pda a) \<noteq> ai_key (xp_governance_config a)"
      using c p by (auto simp: load_governance_Inr load_proposal_Inr)
    then show ?thesis
      using c ck close_gov_frame(3) [OF cl] ExecuteTimelockIx by (auto simp: load_governance_Inr)
  next
    case (ExecuteOperatorIx a r data)
    with ok Suc obtain c h m st1 st2 e and p :: ExecutableProposal
      where c: "load_governance env st (xo_governance_config a) = Inr c"
      and p: "load_proposal env st h (xo_proposal_pda a) = Inr p"
      and m: "load_acc operator_proposal_of (gv_accounts st) (ai_key (xo_operator_pda_marker_account a)) = Inr m"
      and cl: "close_gov (ai_key (xo_proposal_pda a)) (ai_key (xo_governance_config a))
        (put_gov (ai_key (xo_governance_config a)) (GovConfigAcc c) (emit_gov e st1)) = Inr st2"
      "close_gov (ai_key (xo_operator_pda_marker_account a)) (ai_key (xo_governance_config a)) st2 = Inr st'"
      by (auto simp: Let_def dest!: execute_operator_proposalD)
    have "ai_key (xo_proposal_pda a) \<noteq> ai_key (xo_governance_config a)"
      "ai_key (xo_operator_pda_marker_account a) \<noteq> ai_key (xo_governance_config a)"
      using c p m by (auto simp: load_governance_Inr load_proposal_Inr gov_load)
    then show ?thesis
      using c ck close_gov_frame(3) [OF cl(1)] close_gov_frame(3) [OF cl(2)] ExecuteOperatorIx
      by (auto simp: load_governance_Inr)
  qed (use ck in simp_all)
qed (use ok in simp)

section \<open>Hashes and values\<close>

text \<open>
  The derived Borsh forms are self-delimiting.
\<close>

definition borsh_metadata_law :: "governance_lib \<Rightarrow> bool" where
  "borsh_metadata_law lib \<longleftrightarrow>
     (\<forall>xs ys a b r r'. borsh_metadata_vec lib xs = Some a \<longrightarrow> borsh_metadata_vec lib ys = Some b \<longrightarrow>
        a @ r = b @ r' \<longrightarrow> xs = ys \<and> r = r') \<and>
     (\<forall>x y a b r r'. borsh_metadata_opt lib x = Some a \<longrightarrow> borsh_metadata_opt lib y = Some b \<longrightarrow>
        a @ r = b @ r' \<longrightarrow> x = y \<and> r = r')"

text \<open>
  A proposal's hash stands for the proposal: two proposals with the same hash have the same
  target, accounts, receiver, call data and native value.
\<close>

theorem proposal_hash_binding:
  assumes "inj (keccak env)" and law: "borsh_metadata_law lib"
    and h: "hash_from_data env lib d = Inr h" "hash_from_data env lib d' = Inr h"
    and len: "length (target_address d) = 32" "length (target_address d') = 32"
      "length (proposal_native_value d) = 32" "length (proposal_native_value d') = 32"
  shows "d = (d' :: ExecuteProposalData)"
proof -
  obtain v o1 where v: "borsh_metadata_vec lib (solana_accounts_metadata (proposal_call d)) = Some v"
      "borsh_metadata_opt lib (solana_native_value_receiver_account (proposal_call d)) = Some o1"
    and hd: "h = keccak env (target_address d @ v @ o1 @ proposal_call_data (proposal_call d) @ proposal_native_value d)"
    using h(1) by (auto simp: hash_from_data_def calculate_hash_def res_inv hashv_def)
  obtain v' o2 where v': "borsh_metadata_vec lib (solana_accounts_metadata (proposal_call d')) = Some v'"
      "borsh_metadata_opt lib (solana_native_value_receiver_account (proposal_call d')) = Some o2"
    and hd': "h = keccak env (target_address d' @ v' @ o2 @ proposal_call_data (proposal_call d') @ proposal_native_value d')"
    using h(2) by (auto simp: hash_from_data_def calculate_hash_def res_inv hashv_def)
  have "target_address d @ v @ o1 @ proposal_call_data (proposal_call d) @ proposal_native_value d =
      target_address d' @ v' @ o2 @ proposal_call_data (proposal_call d') @ proposal_native_value d'"
    using assms(1) hd hd' by (simp add: inj_def)
  then have t: "target_address d = target_address d'"
    and r: "v @ o1 @ proposal_call_data (proposal_call d) @ proposal_native_value d =
      v' @ o2 @ proposal_call_data (proposal_call d') @ proposal_native_value d'"
    using len by (simp_all add: append_eq_append_conv)
  have a: "solana_accounts_metadata (proposal_call d) = solana_accounts_metadata (proposal_call d')"
    and r2: "o1 @ proposal_call_data (proposal_call d) @ proposal_native_value d =
      o2 @ proposal_call_data (proposal_call d') @ proposal_native_value d'"
    using law v(1) v'(1) r unfolding borsh_metadata_law_def by blast+
  have b: "solana_native_value_receiver_account (proposal_call d) = solana_native_value_receiver_account (proposal_call d')"
    and r3: "proposal_call_data (proposal_call d) @ proposal_native_value d =
      proposal_call_data (proposal_call d') @ proposal_native_value d'"
    using law v(2) v'(2) r2 unfolding borsh_metadata_law_def by blast+
  have "proposal_call_data (proposal_call d) = proposal_call_data (proposal_call d')"
    "proposal_native_value d = proposal_native_value d'"
    using r3 len by (simp_all add: append_eq_append_conv)
  with t a b show ?thesis
    by (cases d; cases d'; cases "proposal_call d"; cases "proposal_call d'") simp
qed

text \<open>
  A command's native value reaches the transfer exactly: of the 32 bytes of any 256-bit value
  the conversion yields the value itself when it fits 64 bits and an error otherwise.
\<close>

theorem native_value_exact:
  "checked_from_u256_le_bytes_to_u64 (to_le_bytes 32 (v :: 256 word)) =
     (if unat v < 2 ^ 64 then Inr (ucast v) else Inl (GovernanceE InvalidNativeValue))"
proof -
  have "(word_of_nat (unat v) :: u64) = ucast v" by simp
  then show ?thesis
    by (simp add: checked_from_u256_spec le_val_to_le_bytes_256 del: of_nat_unat)
qed

text \<open>
  A governance message is handled once: after the program handled it, it never handles it
  again, whatever happens in between.
\<close>

theorem governance_message_once:
  assumes law: "pda_law env" "pda_inj env" "external_law env rt" and reach: "gov_reachable env lib sys rt st"
    and ok: "gov_entry d env lib sys rt view (GovExecuteIx a m payload) st = Inr st1"
    and r: "runs (gov_step env lib sys rt) st1 st2"
  shows "\<exists>e. gov_entry d' env lib sys rt view' (GovExecuteIx a' m payload') st2 = Inl e"
proof (cases "gov_entry d' env lib sys rt view' (GovExecuteIx a' m payload') st2")
  case (Inr st3)
  obtain n n' where d: "d = Suc n" "d' = Suc n'"
    using ok Inr by (cases d; cases d') auto
  obtain gw ix stm where v: "validate_message_raw env (governance_id env) (ge_executable a) m payload (gv_gateway st) = Inr gw"
    and s: "gov_entry n env lib sys rt view ix (st\<lparr>gv_gateway := gw\<rparr>) = Inr stm" and gw1: "gv_gateway st1 = gv_gateway stm"
    using ok unfolding d by (auto simp: Let_def dest!: gov_executeD)
  obtain gw' where v': "validate_message_raw env (governance_id env) (ge_executable a') m payload' (gv_gateway st2) = Inr gw'"
    using Inr unfolding d by (auto simp: Let_def dest!: gov_executeD)
  have "runs (gateway_step env) gw (gv_gateway st1)"
    using gov_leD(4) [OF gov_entry_le [OF law s]] gw1 by simp
  then have "runs (gateway_step env) gw (gv_gateway st2)"
    using gov_leD(4) [OF gov_runs_le [OF law r]] by (rule runs_trans [rotated])
  then have False
    using raw.handled_once [where args = "(governance_id env, ge_executable a, payload)"
        and args' = "(governance_id env, ge_executable a', payload')",
        OF law(1,2) gov_inv_reachable(2) [OF law reach]] v v' by simp
  then show ?thesis ..
qed blast

section \<open>Witnesses\<close>

lemmas demo_laws = demo_pda_law demo_pda_inj demo_external_law

lemma demo_gov_events:
  "gv_events demo_gov2 = []"
  "gv_events demo_gov3 = [ProposalScheduled demo_h demo_target [7] (to_le_bytes 32 (0 :: 256 word)) 4600]"
  "gv_events demo_gov4 = [ProposalScheduled demo_h demo_target [7] (to_le_bytes 32 (0 :: 256 word)) 4600,
     OperatorProposalApproved demo_h demo_target [7] (to_le_bytes 32 (0 :: 256 word))]"
  by (simp_all add: demo_gov4_def demo_gov3_def demo_gov2_def demo_gov1_def gov_empty_def)

theorem governance_log_order_witness:
  "\<exists>tg cd nv eta. ProposalScheduled demo_h tg cd nv eta \<in>
     set [ProposalScheduled demo_h demo_target [7] (to_le_bytes 32 (0 :: 256 word)) 4600]"
  using governance_log_order [OF demo_laws demo_gov_reachable(3),
      of "[ProposalScheduled demo_h demo_target [7] (to_le_bytes 32 (0 :: 256 word)) 4600]"
        "OperatorProposalApproved demo_h demo_target [7] (to_le_bytes 32 (0 :: 256 word))" "[]"]
  by (simp add: demo_gov_events)

theorem governance_command_authorised_witness:
  "approved_event demo_env demo_m1 \<in> set (gw_events (gv_gateway demo_gov2))"
proof -
  have top: "no_pda_signer demo_env (GovExecuteIx (demo_gexec demo_m1) demo_m1 [77])"
    by (simp add: no_pda_signer_def gov_signer_def)
  have ok: "gov_entry MAX_INSTRUCTION_DEPTH demo_env demo_glib demo_sys demo_rt (demo_gview 1000)
      (GovExecuteIx (demo_gexec demo_m1) demo_m1 [77]) demo_gov2 = Inr demo_gov3"
    using demo_execute_ok by (simp add: MAX_INSTRUCTION_DEPTH_def)
  show ?thesis
    using governance_command_authorised [OF demo_laws demo_hash_inj demo_gov_reachable(1) top ok, of "gv_events demo_gov3"]
    by (auto simp: demo_gov_events)
qed

theorem timelock_execution_after_eta_witness:
  "\<exists>h tg cd nv eta. hash_from_data demo_env demo_glib demo_gdata = Inr h \<and>
    ProposalScheduled h tg cd nv eta \<in> set (gv_events demo_gov3) \<and> eta \<le> (4600 :: u64)"
proof -
  have "execute_proposal demo_env demo_glib (\<lambda>_ _ _ s. Inr s) (demo_gview 4600) demo_xprop demo_remaining demo_gdata demo_gov3 =
    Inr (demo_closed demo_executed_event demo_gov3)"
    by (rule demo_timelock_ok) simp_all
  from timelock_execution_after_eta [OF demo_laws demo_gov_reachable(2) this] show ?thesis
    by (simp add: demo_gview_def) blast
qed

definition demo_xop :: ExecuteOperatorProposal where
  "demo_xop = \<lparr>xo_system_program = acc [8], xo_governance_config = acc_mut demo_gov_key, xo_proposal_pda = acc_mut demo_prop_key,
     xo_operator = acc_signer [70], xo_operator_pda_marker_account = acc_mut demo_marker_key\<rparr>"

lemma demo_operator_ok:
  "\<exists>st'. execute_operator_proposal demo_env demo_glib (\<lambda>_ _ _ s. Inr s) demo_xop demo_remaining demo_gdata demo_gov4 = Inr st'"
proof -
  let ?e = "OperatorProposalExecuted demo_h demo_target [5] (to_le_bytes 32 (0 :: 256 word))"
  have "\<exists>a \<in> set demo_remaining. ai_key a = demo_gov_key" "\<exists>a \<in> set demo_remaining. ai_key a = demo_target"
    "\<exists>m \<in> set (solana_accounts_metadata demo_call). sm_pubkey m = demo_gov_key"
    by (simp_all add: demo_remaining_def acc_defs demo_call_def)
  moreover have "execute_proposal_cpi demo_env (\<lambda>_ _ _ s. Inr s) demo_gdata demo_remaining demo_gov_key 255 demo_gov4 = Inr demo_gov4"
    by (rule demo_cpi_ok) simp
  moreover have "close_gov demo_prop_key demo_gov_key (put_gov demo_gov_key (GovConfigAcc demo_gcfg) (emit_gov ?e demo_gov4)) =
      Inr (demo_closed ?e demo_gov4)"
    by (rule demo_close_ok) (simp_all add: demo_gov4_def)
  moreover have "load_acc operator_proposal_of (gv_accounts demo_gov4) demo_marker_key = Inr OperatorProposal"
    by (simp add: gov_load)
  moreover have "\<exists>st'. close_gov demo_marker_key demo_gov_key (demo_closed ?e demo_gov4) = Inr st'"
    by (simp add: close_gov_def close_lamports_def checked_add_def demo_closed_def demo_gov4_def)
  ultimately show ?thesis
    by (simp add: execute_operator_proposal_def Let_def demo_xop_def check_program_def check_mut_def check_signer_def
        check_governance_config_presence_def check_target_program_presence_def acc_defs)
qed

theorem operator_execution_authorised_witness:
  "\<exists>h tg cd nv. hash_from_data demo_env demo_glib demo_gdata = Inr h \<and>
    OperatorProposalApproved h tg cd nv \<in> set (gv_events demo_gov4) \<and> ai_key (xo_operator demo_xop) = [70]"
proof -
  obtain st' where "execute_operator_proposal demo_env demo_glib (\<lambda>_ _ _ s. Inr s) demo_xop demo_remaining demo_gdata demo_gov4 = Inr st'"
    using demo_operator_ok by blast
  from operator_execution_authorised [OF demo_laws demo_gov_reachable(3) this] show ?thesis
    by (auto simp: demo_xop_def acc_defs)
qed

theorem scheduled_eta_bound_witness:
  "\<exists>(st' :: gov_state) p. gv_accounts st' demo_prop_key = Some (ProposalAcc p) \<and> unat (1000 :: u64) + 3600 \<le> unat (ep_eta p)"
proof -
  have "demo_gov2 = demo_gov2\<lparr>gv_gateway := demo_gw1\<rparr>" by (simp add: demo_gov2_def)
  from scheduled_eta_bound [OF demo_laws demo_gov_reachable(1) demo_sched_ok [OF this]]
  have "\<exists>(st' :: gov_state) p. gv_accounts st' (ai_key (sc_proposal_pda demo_sched)) = Some (ProposalAcc p) \<and>
      unat (unix_timestamp (demo_gview 1000)) + 3600 \<le> unat (ep_eta p)"
    by (elim exE conjE) ((rule exI)+, rule conjI, assumption+)
  then show ?thesis by (simp add: demo_sched_def acc_defs demo_gview_def)
qed

theorem governance_delay_in_range_witness:
  "3600 \<le> unat (3600 :: u32) \<and> unat (3600 :: u32) \<le> 86400"
  using governance_delay_in_range [OF demo_laws demo_gov_reachable(1) demo_gov_accounts(1)] by simp

text \<open>A proposal on the program itself that transfers the operatorship to \<open>[99]\<close>.\<close>

definition demo_self_data :: ExecuteProposalData where
  "demo_self_data = demo_gdata\<lparr>target_address := replicate 32 4\<rparr>"

definition demo_self_h :: hash where
  "demo_self_h = replicate 32 4 @ metadata_vec_code (solana_accounts_metadata demo_call) @ [0] @ [5] @ to_le_bytes 32 (0 :: 256 word)"

definition demo_self_key :: pubkey where
  "demo_self_key = str_bytes ''proposal'' @ demo_self_h @ [255] @ replicate 32 4"

definition demo_self_state :: gov_state where
  "demo_self_state = put_gov demo_self_key (ProposalAcc demo_proposal) (set_balances (\<lambda>_. 10) demo_gov1)"

lemma demo_self_key_neq [simp]: "demo_self_key \<noteq> demo_gov_key" "demo_gov_key \<noteq> demo_self_key"
  by (simp_all add: demo_self_key_def demo_gov_key_def str_bytes_def of_char_u8_inj)

lemma demo_self_ok:
  "\<exists>st'. gov_entry 5 demo_env demo_glib demo_sys demo_rt (demo_gview 4600) (ExecuteTimelockIx
     (demo_xprop\<lparr>xp_proposal_pda := acc_mut demo_self_key\<rparr>) [acc_mut demo_gov_key, acc (replicate 32 4)] demo_self_data) demo_self_state = Inr st' \<and>
     OperatorshipTransferredEvent [70] [99] \<in> set (gv_events st')"
proof -
  let ?self = "gov_entry 4 demo_env demo_glib demo_sys demo_rt (demo_gview 4600)"
  let ?cpi = "gov_dispatch demo_env demo_rt ?self"
  let ?st1 = "emit_gov (OperatorshipTransferredEvent [70] [99])
    (put_gov demo_gov_key (GovConfigAcc (demo_gcfg\<lparr>gvc_operator := [99]\<rparr>)) demo_self_state)"
  let ?a = "demo_xprop\<lparr>xp_proposal_pda := acc_mut demo_self_key\<rparr>"
  have acc: "gv_accounts demo_self_state demo_gov_key = Some (GovConfigAcc demo_gcfg)"
    "gv_accounts demo_self_state demo_self_key = Some (ProposalAcc demo_proposal)"
    by (simp_all add: demo_self_state_def demo_gov1_def)
  have sel: "target_address demo_self_data = replicate 32 4" "proposal_call demo_self_data = demo_call"
    "proposal_native_value demo_self_data = to_le_bytes 32 (0 :: 256 word)"
    by (simp_all add: demo_self_data_def)
  have h: "calculate_hash demo_env demo_glib (replicate 32 4) demo_call (to_le_bytes 32 (0 :: 256 word)) = Inr demo_self_h"
    by (simp add: calculate_hash_def demo_glib_def hashv_def demo_self_h_def demo_call_def metadata_opt_code_def)
  have "load_acc gov_config_of (gv_accounts demo_self_state) demo_gov_key = Inr demo_gcfg"
    using acc by (simp add: gov_load)
  then have t: "gov_transfer_operatorship demo_env \<lparr>gt_system_program = acc [8], gt_operator_account = None,
      gt_governance_config = acc_signer_mut demo_gov_key\<rparr> [99] demo_self_state = Inr ?st1"
    by (simp add: gov_transfer_operatorship_def Let_def check_program_def check_mut_def acc_defs)
  have "?cpi (replicate 32 4) [acc_signer_mut demo_gov_key] [5] demo_self_state = Inr ?st1"
    using t unfolding four gov_entry.simps(2) Let_def by (simp add: gov_dispatch_def demo_rt_def)
  moreover have "checked_from_u256_le_bytes_to_u64 (to_le_bytes 32 (0 :: 256 word)) = Inr 0"
    by (simp add: checked_from_u256_spec le_val_to_le_bytes_256)
  ultimately have x: "execute_proposal_cpi demo_env ?cpi demo_self_data [acc_mut demo_gov_key, acc (replicate 32 4)] demo_gov_key 255 demo_self_state
      = Inr ?st1"
    by (simp add: execute_proposal_cpi_def Let_def sel get_account_metadata_def demo_call_def
        grant_signer_def acc_defs governance_seeds_def demo_gov_key_def)
  have p: "load_proposal demo_env demo_self_state demo_self_h (acc_mut demo_self_key) = Inr demo_proposal"
    using acc by (simp add: load_proposal_Inr acc_defs proposal_seeds_def demo_self_key_def demo_proposal_def)
  have "u64_of_i64 (unix_timestamp (demo_gview 4600)) e = Inr 4600" for e
    by (simp add: u64_of_i64_def demo_gview_def)
  moreover have "ep_eta demo_proposal = 4600" by (simp add: demo_proposal_def)
  moreover have "\<exists>m \<in> set (solana_accounts_metadata demo_call). sm_pubkey m = demo_gov_key"
    by (simp add: demo_call_def)
  moreover have "\<exists>st'. close_gov demo_self_key demo_gov_key (put_gov demo_gov_key (GovConfigAcc demo_gcfg) (emit_gov e ?st1)) = Inr st' \<and>
      OperatorshipTransferredEvent [70] [99] \<in> set (gv_events st')" for e
    by (simp add: close_gov_def close_lamports_def checked_add_def demo_self_state_def)
  ultimately have "\<exists>st'. execute_proposal demo_env demo_glib ?cpi (demo_gview 4600) ?a [acc_mut demo_gov_key, acc (replicate 32 4)] demo_self_data
      demo_self_state = Inr st' \<and> OperatorshipTransferredEvent [70] [99] \<in> set (gv_events st')"
    using x p h acc by (simp add: execute_proposal_def Let_def demo_xprop_def check_program_def check_mut_def
        check_governance_config_presence_def check_target_program_presence_def hash_from_data_def sel)
      (simp add: acc_defs)
  then show ?thesis unfolding five gov_entry.simps(2) Let_def by simp
qed

theorem execution_restores_config_witness:
  "\<exists>(st' :: gov_state). OperatorshipTransferredEvent [70] [99] \<in> set (gv_events st') \<and>
     gv_accounts st' demo_gov_key = Some (GovConfigAcc demo_gcfg) \<and> gvc_operator demo_gcfg = [70]"
proof -
  obtain st' where ok: "gov_entry 5 demo_env demo_glib demo_sys demo_rt (demo_gview 4600) (ExecuteTimelockIx
     (demo_xprop\<lparr>xp_proposal_pda := acc_mut demo_self_key\<rparr>) [acc_mut demo_gov_key, acc (replicate 32 4)] demo_self_data) demo_self_state = Inr st'"
    and e: "OperatorshipTransferredEvent [70] [99] \<in> set (gv_events st')"
    using demo_self_ok by blast
  have "gv_accounts demo_self_state demo_gov_key = Some (GovConfigAcc demo_gcfg)"
    by (simp add: demo_self_state_def demo_gov1_def)
  moreover have "execution_config (ExecuteTimelockIx (demo_xprop\<lparr>xp_proposal_pda := acc_mut demo_self_key\<rparr>)
      [acc_mut demo_gov_key, acc (replicate 32 4)] demo_self_data) = Some demo_gov_key"
    by (simp add: demo_xprop_def acc_defs)
  ultimately show ?thesis
    using execution_restores_config [OF ok] e by auto
qed

lemma metadata_opt_inj: "metadata_opt_code x @ r = metadata_opt_code y @ r' \<Longrightarrow> x = y \<and> r = r'"
  using metadata_code_inj by (cases x; cases y) (simp_all add: metadata_opt_code_def)

lemma demo_glib_law: "borsh_metadata_law demo_glib"
proof -
  have sel: "borsh_metadata_vec demo_glib ms = Some (metadata_vec_code ms)"
    "borsh_metadata_opt demo_glib x = Some (metadata_opt_code x)" for ms x
    by (simp_all add: demo_glib_def)
  show ?thesis
    unfolding borsh_metadata_law_def sel option.inject
    by (intro conjI allI impI; hypsubst; elim metadata_vec_inj [THEN conjunct1] metadata_vec_inj [THEN conjunct2]
        metadata_opt_inj [THEN conjunct1] metadata_opt_inj [THEN conjunct2])
qed

theorem proposal_hash_binding_witness:
  "borsh_metadata_law demo_glib \<and> demo_gdata = \<lparr>target_address = demo_target, proposal_call = demo_call,
     proposal_native_value = to_le_bytes 32 (0 :: 256 word)\<rparr>"
proof -
  have inj: "inj (keccak demo_env)" by (rule injI) simp
  have h: "hash_from_data demo_env demo_glib \<lparr>target_address = demo_target, proposal_call = demo_call,
     proposal_native_value = to_le_bytes 32 (0 :: 256 word)\<rparr> = Inr demo_h"
    by (simp add: hash_from_data_def)
  have "demo_gdata = \<lparr>target_address = demo_target, proposal_call = demo_call,
     proposal_native_value = to_le_bytes 32 (0 :: 256 word)\<rparr>"
    by (rule proposal_hash_binding [OF inj demo_glib_law demo_hash(2) h]) (simp_all add: demo_target_def)
  with demo_glib_law show ?thesis by (rule conjI)
qed

theorem governance_message_once_witness:
  "\<exists>e. gov_entry 5 demo_env demo_glib demo_sys demo_rt (demo_gview 2000) (GovExecuteIx (demo_gexec demo_m1) demo_m1 [77]) demo_gov3 = Inl e"
  by (rule governance_message_once [OF demo_laws demo_gov_reachable(1) demo_execute_ok runs_refl])

end
