(* ===== verification/Governance_Client.thy ===== *)
theory Governance_Client
  imports Governance_Inv
begin

text \<open>
  A client of governance: the builders of \<open>helpers/solana-axelar-governance-test-fixtures\<close>, which
  derive the program's addresses, assemble the calls a proposal makes and the instructions that
  configure the program and hand it a message. The accounts' contents, which the fixtures pass beside each
  instruction, are the state; the bytes of the programs' instructions are a parameter.
\<close>

section \<open>Addresses\<close>

definition found_key :: "env \<Rightarrow> bytes list \<Rightarrow> pubkey \<Rightarrow> pubkey result" where
  "found_key env seeds pid = res_bind (find_program_address env seeds pid) (\<lambda>(k, _). Inr k)"

lemma found_key_Inr [res_inv]: "found_key env seeds pid = Inr k \<longleftrightarrow> (\<exists>b. try_find_program_address env seeds pid = Some (k, b))"
  by (auto simp: found_key_def find_program_address_def res_inv split: prod.splits)

definition create_governance_config_pda :: "env \<Rightarrow> (pubkey \<times> u8) result" where
  "create_governance_config_pda env = find_program_address env governance_seeds (governance_id env)"

definition create_governance_program_data_pda :: "env \<Rightarrow> pubkey result" where
  "create_governance_program_data_pda env = found_key env [governance_id env] (loader_upgradeable_id env)"

definition create_proposal_pda :: "env \<Rightarrow> hash \<Rightarrow> pubkey result" where
  "create_proposal_pda env proposal_hash = found_key env (proposal_seeds proposal_hash) (governance_id env)"

definition create_operator_proposal_pda :: "env \<Rightarrow> hash \<Rightarrow> pubkey result" where
  "create_operator_proposal_pda env proposal_hash = found_key env (operator_proposal_seeds proposal_hash) (governance_id env)"

definition create_signing_pda_from_message :: "env \<Rightarrow> Message \<Rightarrow> IncomingMessage \<Rightarrow> pubkey result" where
  "create_signing_pda_from_message env message incoming_message =
     ok_or (create_program_address env
       [str_bytes ''gtw-validate-msg'', command_id env message, [signing_pda_bump incoming_message]] (governance_id env))
       (Panic ''called `Option::unwrap()` on a `None` value'')"

definition extract_proposal_hash_unchecked :: "env \<Rightarrow> governance_lib \<Rightarrow> bytes \<Rightarrow> hash result" where
  "extract_proposal_hash_unchecked env lib payload =
     res_bind (decode_payload lib payload) (\<lambda>cmd_payload.
     res_bind (decode_payload_target (gcp_target cmd_payload)) (\<lambda>target.
     res_bind (decode_payload_call_data lib (gcp_call_data cmd_payload)) (\<lambda>call_data.
     calculate_hash env lib target call_data (to_le_bytes 32 (gcp_native_value cmd_payload)))))"

section \<open>The calls of a proposal\<close>

record call_encoder =
  withdraw_tokens_data :: "u64 \<Rightarrow> bytes"
  emit_memo_data :: "string \<Rightarrow> bytes"

definition get_memo_instruction_data ::
    "env \<Rightarrow> call_encoder \<Rightarrow> string \<Rightarrow> SolanaAccountMetadata \<Rightarrow> ExecuteProposalCallData result" where
  "get_memo_instruction_data env enc memo value_receiver =
     res_bind (create_governance_config_pda env) (\<lambda>(governance_config_pda, _).
     Inr \<lparr>solana_accounts_metadata = [value_receiver,
           \<lparr>sm_pubkey = governance_config_pda, sm_is_signer = True, sm_is_writable = False\<rparr>],
       solana_native_value_receiver_account = Some value_receiver, proposal_call_data = emit_memo_data enc memo\<rparr>)"

definition get_withdraw_tokens_instruction_data ::
    "env \<Rightarrow> call_encoder \<Rightarrow> u64 \<Rightarrow> pubkey \<Rightarrow> pubkey \<Rightarrow> ExecuteProposalCallData" where
  "get_withdraw_tokens_instruction_data env enc withdraw_amount receiver governance_config_pda =
     \<lparr>solana_accounts_metadata =
        [\<lparr>sm_pubkey = system_program_id env, sm_is_signer = False, sm_is_writable = False\<rparr>,
         \<lparr>sm_pubkey = governance_config_pda, sm_is_signer = True, sm_is_writable = True\<rparr>,
         \<lparr>sm_pubkey = receiver, sm_is_signer = False, sm_is_writable = True\<rparr>],
      solana_native_value_receiver_account = None, proposal_call_data = withdraw_tokens_data enc withdraw_amount\<rparr>"

text \<open>The argument of both execution instructions; their bytes are left out.\<close>

definition create_execute_proposal_instruction_data ::
    "pubkey \<Rightarrow> ExecuteProposalCallData \<Rightarrow> bytes \<Rightarrow> ExecuteProposalData" where
  "create_execute_proposal_instruction_data target call_data native_value =
     \<lparr>target_address = target, proposal_call = call_data, proposal_native_value = native_value\<rparr>"

section \<open>Instructions\<close>

record gov_setup =
  gs_payer :: pubkey
  gs_upgrade_authority :: pubkey
  gs_operator :: pubkey
  gs_governance_config :: pubkey
  gs_governance_config_bump :: u8
  gs_program_data_pda :: pubkey

text \<open>The unique keys are arguments.\<close>

definition mock_setup_test :: "env \<Rightarrow> pubkey \<Rightarrow> pubkey \<Rightarrow> pubkey \<Rightarrow> gov_setup result" where
  "mock_setup_test env payer upgrade_authority operator =
     res_bind (create_governance_config_pda env) (\<lambda>(governance_config, governance_config_bump).
     res_bind (create_governance_program_data_pda env) (\<lambda>program_data_pda.
     Inr \<lparr>gs_payer = payer, gs_upgrade_authority = upgrade_authority, gs_operator = operator,
       gs_governance_config = governance_config, gs_governance_config_bump = governance_config_bump,
       gs_program_data_pda = program_data_pda\<rparr>))"

definition initialize_governance_ix :: "env \<Rightarrow> gov_setup \<Rightarrow> GovernanceConfigInit \<Rightarrow> governance_instruction" where
  "initialize_governance_ix env setup params =
     GovInitializeConfigIx
       \<lparr>gn_payer = acc_signer_mut (gs_payer setup), gn_upgrade_authority = acc_signer (gs_upgrade_authority setup),
        gn_program_data = acc (gs_program_data_pda setup), gn_governance_config = acc_mut (gs_governance_config setup),
        gn_system_program = acc (system_program_id env)\<rparr> params"

definition update_config_ix :: "gov_setup \<Rightarrow> GovernanceConfigUpdate \<Rightarrow> governance_instruction" where
  "update_config_ix setup params =
     GovUpdateConfigIx
       \<lparr>uc_operator = acc_signer_mut (gs_operator setup), uc_governance_config = acc_mut (gs_governance_config setup)\<rparr> params"

text \<open>The addresses of \<open>GmpContext\<close>.\<close>

record gmp_context =
  gx_incoming_message :: pubkey
  gx_signing_pda :: pubkey
  gx_gateway_root_pda :: pubkey
  gx_event_authority_pda :: pubkey
  gx_proposal :: pubkey
  gx_operator_proposal :: pubkey

definition process_gmp_ix :: "env \<Rightarrow> gov_setup \<Rightarrow> Message \<Rightarrow> bytes \<Rightarrow> gmp_context \<Rightarrow> governance_instruction" where
  "process_gmp_ix env setup message payload context =
     GovExecuteIx
       \<lparr>ge_executable = \<lparr>ae_incoming_message_pda = acc_mut (gx_incoming_message context),
          ae_signing_pda = acc (gx_signing_pda context), ae_gateway_root_pda = acc (gx_gateway_root_pda context),
          ae_event_authority = acc (gx_event_authority_pda context),
          ae_axelar_gateway_program = acc (gateway_id env)\<rparr>,
        ge_system_program = acc (system_program_id env), ge_payer = acc_signer_mut (gs_payer setup),
        ge_governance_config = acc_mut (gs_governance_config setup), ge_proposal_pda = acc_mut (gx_proposal context),
        ge_operator_proposal_pda = acc_mut (gx_operator_proposal context),
        ge_axelar_governance_program = acc (governance_id env)\<rparr> message payload"

end
