(* ===== verification/Governance_Live.thy ===== *)
theory Governance_Live
  imports Governance_Client
begin

text \<open>
  The way of a proposal made with the client's builders: an approved message that schedules a
  withdrawal of the program's own funds is accepted and stores the proposal, and once its time has
  come the withdrawal is executed and pays.
\<close>

section \<open>Configuration\<close>

lemma client_initializes:
  assumes "pda_law env" and "mock_setup_test env payer authority operator = Inr setup"
    and "program_data_authority view (gs_program_data_pda setup) = Some (Some authority)"
    and "gv_accounts st (gs_governance_config setup) = None"
    and "sys_create sys payer (gs_governance_config setup) GOVERNANCE_CONFIG_SPACE (gv_balances st) = Some L"
    and "VALID_PROPOSAL_DELAY_MIN \<le> gci_minimum_proposal_eta_delay params"
    and "gci_minimum_proposal_eta_delay params \<le> VALID_PROPOSAL_DELAY_MAX"
  shows "gov_entry (Suc dep) env lib sys rt view (initialize_governance_ix env setup params) st =
    Inr (put_gov (gs_governance_config setup) (GovConfigAcc \<lparr>gvc_bump = gs_governance_config_bump setup,
      chain_hash = gci_chain_hash params, address_hash = gci_address_hash params,
      minimum_proposal_eta_delay = gci_minimum_proposal_eta_delay params, gvc_operator = gci_operator params\<rparr>)
      (set_balances L st))"
proof -
  obtain ck b pd b' where ck: "try_find_program_address env governance_seeds (governance_id env) = Some (ck, b)"
    and pd: "try_find_program_address env [governance_id env] (loader_upgradeable_id env) = Some (pd, b')"
    and ts: "setup = \<lparr>gs_payer = payer, gs_upgrade_authority = authority, gs_operator = operator,
       gs_governance_config = ck, gs_governance_config_bump = b, gs_program_data_pda = pd\<rparr>"
    using assms(2) by (auto simp: mock_setup_test_def create_governance_config_pda_def create_governance_program_data_pda_def
        found_key_Inr find_program_address_def res_inv split: prod.splits)
  have "load_program_data env view (governance_id env) pd = Inr (Some authority)"
    using pd assms(3) by (simp add: load_program_data_def check_seeds_canonical_def find_program_address_def ts)
  moreover have "check_seeds_canonical env governance_seeds (governance_id env) ck = Inr b"
    using ck by (simp add: check_seeds_canonical_def find_program_address_def)
  ultimately show ?thesis
    using assms(4-7) by (simp add: initialize_governance_ix_def gov_initialize_config_def Let_def ts check_signer_def check_mut_def
        check_vacant_def check_program_def validate_config_def require_def) (simp add: acc_defs)
qed

lemma client_updates:
  assumes "pda_law env" and "mock_setup_test env payer authority operator = Inr setup"
    and "gv_accounts st (gs_governance_config setup) = Some (GovConfigAcc c)" and "gvc_operator c = operator"
    and "config_update c params = Inr c'"
  shows "gov_entry (Suc dep) env lib sys rt view (update_config_ix setup params) st =
    Inr (put_gov (gs_governance_config setup) (GovConfigAcc c') st)"
proof -
  have "check_seeds_canonical env governance_seeds (governance_id env) (gs_governance_config setup) =
      Inr (gs_governance_config_bump setup)" and op: "gs_operator setup = operator"
    using assms(2) by (auto simp: mock_setup_test_def create_governance_config_pda_def check_seeds_canonical_def
        find_program_address_def res_inv split: prod.splits)
  moreover have "load_acc gov_config_of (gv_accounts st) (gs_governance_config setup) = Inr c"
    using assms(3) by (simp add: gov_load)
  ultimately show ?thesis
    using assms(4,5) by (simp add: update_config_ix_def gov_update_config_def Let_def check_signer_def check_mut_def require_def acc_defs)
qed

section \<open>Scheduling\<close>

lemma create_signing_pda_ok:
  assumes law: "pda_law env"
    and "try_find_program_address env (validate_message_seeds (command_id env m)) (governance_id env) = Some (k, signing_pda_bump im)"
  shows "create_signing_pda_from_message env m im = Inr k"
  using pda_lawD [OF assms] by (simp add: create_signing_pda_from_message_def validate_message_seeds_def)

lemma gmp_context_hash:
  assumes "extract_proposal_hash_unchecked env lib payload = Inr h" and "decode_payload lib payload = Inr cmd"
    and "decode_payload_target (gcp_target cmd) = Inr target"
    and "decode_payload_call_data lib (gcp_call_data cmd) = Inr call"
  shows "calculate_gmp_context env lib payload = Inr (cmd, target, call, h)"
    and "calculate_hash env lib target call (to_le_bytes 32 (gcp_native_value cmd)) = Inr h"
  using assms by (simp_all add: extract_proposal_hash_unchecked_def calculate_gmp_context_def)

lemma schedule_stores:
  assumes "load_governance env st (acc_signer ck) = Inr c"
    and "try_find_program_address env (proposal_seeds h) (governance_id env) = Some (pk, b)"
    and "try_find_program_address env (operator_proposal_seeds h) (governance_id env) = Some (mk, mb)"
    and "gv_accounts st pk = None" and "sys_create sys payer pk PROPOSAL_SPACE (gv_balances st) = Some L"
    and "unat (unix_timestamp view) + unat (minimum_proposal_eta_delay c) < 2 ^ 64"
  shows "schedule_timelock_proposal env sys view \<lparr>sc_system_program = acc (system_program_id env),
       sc_governance_config = acc_signer ck, sc_payer = acc_signer_mut payer, sc_proposal_pda = acc_mut pk\<rparr>
       h eta nv target call_data st =
     (let final = max eta (unix_timestamp view + ucast (minimum_proposal_eta_delay c)) in
     Inr (emit_gov (ProposalScheduled h target call_data nv final)
       (put_gov pk (ProposalAcc \<lparr>ep_eta = final, ep_bump = b, ep_managed_bump = mb\<rparr>) (set_balances L st))))"
proof -
  have "check_constraint_signer (acc_signer ck) = Inr ()" "check_signer (acc_signer_mut payer) = Inr ()"
    "check_mut (acc_signer_mut payer) = Inr ()" "check_program (acc (system_program_id env)) (system_program_id env) = Inr ()"
    "ai_key (acc_mut pk) = pk" "ai_key (acc_signer_mut payer) = payer"
    by (simp_all add: check_constraint_signer_def check_signer_def check_mut_def check_program_def acc_defs)
  moreover have "check_seeds_canonical env (proposal_seeds h) (governance_id env) pk = Inr b"
    "check_vacant (gv_accounts st) pk = Inr ()" "find_program_address env (operator_proposal_seeds h) (governance_id env) = Inr (mk, mb)"
    using assms(2-4) by (simp_all add: check_seeds_canonical_def find_program_address_def check_vacant_def)
  ultimately show ?thesis
    using assms(1,5,6) by (simp add: schedule_timelock_proposal_def Let_def at_least_default_eta_delay_spec)
qed

text \<open>
  A message is ready to schedule: approved at the gateway, addressed to the program by its
  configured source, with the payload of a schedule command.
\<close>

definition schedule_ready ::
    "env \<Rightarrow> governance_lib \<Rightarrow> gov_state \<Rightarrow> GovernanceConfig \<Rightarrow> Message \<Rightarrow> bytes \<Rightarrow> pubkey \<Rightarrow> IncomingMessage \<Rightarrow>
     GovernanceCommandPayload \<Rightarrow> bool" where
  "schedule_ready env lib st c m payload k im cmd \<longleftrightarrow>
     message_at (gv_gateway st) k im \<and> is_approved (im_status im) \<and> im_message_hash im = message_hash env m \<and>
     pubkey_from_str env (destination_address m) = Some (governance_id env) \<and> keccak env payload = payload_hash m \<and>
     hashv env [str_bytes (source_address m)] = address_hash c \<and> hashv env [str_bytes (chain (cc_id m))] = chain_hash c \<and>
     decode_payload lib payload = Inr cmd \<and> gcp_command cmd = ScheduleTimeLockProposal \<and> unat (gcp_eta cmd) < 2 ^ 64"

text \<open>The instruction the client builds for it, with the addresses it derives.\<close>

definition schedule_context :: "env \<Rightarrow> Message \<Rightarrow> pubkey \<Rightarrow> IncomingMessage \<Rightarrow> pubkey \<Rightarrow> pubkey \<Rightarrow> hash \<Rightarrow> gmp_context result" where
  "schedule_context env m k im root ea h =
     res_bind (create_signing_pda_from_message env m im) (\<lambda>signing.
     res_bind (create_proposal_pda env h) (\<lambda>proposal.
     res_bind (create_operator_proposal_pda env h) (\<lambda>operator_proposal.
     Inr \<lparr>gx_incoming_message = k, gx_signing_pda = signing, gx_gateway_root_pda = root, gx_event_authority_pda = ea,
       gx_proposal = proposal, gx_operator_proposal = operator_proposal\<rparr>)))"

lemma scheduled_by_message:
  assumes law: "pda_law env" and full: "gateway_full_inv env (gv_gateway st)" and org: "message_origin env (gv_gateway st) k im m"
    and ready: "schedule_ready env lib st c m payload k im cmd" and gc: "config_at (gv_gateway st) root gc"
    and acc: "gv_accounts st (gs_governance_config setup) = Some (GovConfigAcc c)"
    and ck: "try_find_program_address env governance_seeds (governance_id env) = Some (gs_governance_config setup, gvc_bump c)"
    and ctx: "calculate_gmp_context env lib payload = Inr (cmd, target, call, h)"
    and x: "schedule_context env m k im root ea h = Inr x" and fresh: "gv_accounts st (gx_proposal x) = None"
    and rent: "sys_create sys (gs_payer setup) (gx_proposal x) PROPOSAL_SPACE (gv_balances st) = Some L"
    and eta: "unat (unix_timestamp view) + unat (minimum_proposal_eta_delay c) < 2 ^ 64"
  obtains b mb final st' where "final = max (ucast (gcp_eta cmd)) (unix_timestamp view + ucast (minimum_proposal_eta_delay c))"
    and "try_find_program_address env (proposal_seeds h) (governance_id env) = Some (gx_proposal x, b)"
    and "gov_entry MAX_INSTRUCTION_DEPTH env lib sys rt view (process_gmp_ix env setup m payload x) st = Inr st'"
    and "gv_accounts st' = (gv_accounts st)(gx_proposal x \<mapsto> ProposalAcc \<lparr>ep_eta = final, ep_bump = b, ep_managed_bump = mb\<rparr>)"
    and "gv_events st' = gv_events st @ [ProposalScheduled h (gcp_target cmd) (gcp_call_data cmd) (to_le_bytes 32 (gcp_native_value cmd)) final]"
    and "gv_balances st' = L"
    and "gv_gateway st' = emit_gw (executed_event env m (governance_id env))
       (put_gw k (MessageAcc (im\<lparr>im_status := status_executed\<rparr>)) (gv_gateway st))"
proof -
  let ?ck = "gs_governance_config setup" and ?gid = "governance_id env"
  define gw where "gw = emit_gw (executed_event env m ?gid) (put_gw k (MessageAcc (im\<lparr>im_status := status_executed\<rparr>)) (gv_gateway st))"
  from x obtain signing pk ok where sg: "create_signing_pda_from_message env m im = Inr signing"
    and pk: "create_proposal_pda env h = Inr pk" and ok: "create_operator_proposal_pda env h = Inr ok"
    and xe: "x = \<lparr>gx_incoming_message = k, gx_signing_pda = signing, gx_gateway_root_pda = root, gx_event_authority_pda = ea,
       gx_proposal = pk, gx_operator_proposal = ok\<rparr>"
    by (auto simp: schedule_context_def res_inv)
  obtain b where b: "try_find_program_address env (proposal_seeds h) ?gid = Some (pk, b)"
    using pk by (auto simp: create_proposal_pda_def found_key_Inr)
  obtain mb where mb: "try_find_program_address env (operator_proposal_seeds h) ?gid = Some (ok, mb)"
    using ok by (auto simp: create_operator_proposal_pda_def found_key_Inr)
  note r = ready [unfolded schedule_ready_def]
  obtain s where s: "try_find_program_address env (validate_message_seeds (command_id env m)) ?gid = Some (s, signing_pda_bump im)"
    and chk: "check_execute_accounts env ?gid (approved_execute env s root ea k) m (gv_gateway st) = Inr ()"
    and val: "validate_message_raw env ?gid (approved_execute env s root ea k) m payload (gv_gateway st) = Inr gw"
    using r unfolding gw_def by (elim conjE) (rule approved_execute_accepted [OF law full org _ _ gc])
  have "s = signing" using create_signing_pda_ok [OF law s] sg by simp
  define a where "a = \<lparr>ge_executable = approved_execute env s root ea k, ge_system_program = acc (system_program_id env),
    ge_payer = acc_signer_mut (gs_payer setup), ge_governance_config = acc_mut ?ck, ge_proposal_pda = acc_mut pk,
    ge_operator_proposal_pda = acc_mut ok, ge_axelar_governance_program = acc ?gid\<rparr>"
  have ix: "process_gmp_ix env setup m payload x = GovExecuteIx a m payload"
    by (simp add: process_gmp_ix_def xe a_def approved_execute_def \<open>s = signing\<close>)
  define final where "final = max (ucast (gcp_eta cmd)) (unix_timestamp view + ucast (minimum_proposal_eta_delay c) :: u64)"
  let ?ev = "ProposalScheduled h (gcp_target cmd) (gcp_call_data cmd) (to_le_bytes 32 (gcp_native_value cmd)) final"
  let ?p = "ProposalAcc \<lparr>ep_eta = final, ep_bump = b, ep_managed_bump = mb\<rparr>"
  let ?st1 = "emit_gov ?ev (put_gov pk ?p (set_balances L (st\<lparr>gv_gateway := gw\<rparr>)))"
  let ?sched = "\<lparr>sc_system_program = acc (system_program_id env), sc_governance_config = acc_signer ?ck,
    sc_payer = acc_signer_mut (gs_payer setup), sc_proposal_pda = acc_mut pk\<rparr>"
  have seeds: "create_program_address env (governance_seeds @ [[gvc_bump c]]) ?gid = Some ?ck" by (rule pda_lawD [OF law ck])
  have load: "load_governance env st' i = Inr c" if "ai_key i = ?ck" "gv_accounts st' = gv_accounts st" for st' i
    using that acc seeds by (simp add: load_governance_Inr)
  have key: "ai_key (acc_signer ?ck) = ?ck" "ai_key (acc_mut ?ck) = ?ck" by (simp_all add: acc_defs)
  have gmp: "gmp_instruction env a (gvc_bump c) cmd h =
      Inr (ScheduleTimelockIx ?sched h (ucast (gcp_eta cmd)) (to_le_bytes 32 (gcp_native_value cmd)) (gcp_target cmd) (gcp_call_data cmd))"
    using r seeds by (simp add: gmp_instruction_def Let_def extract_proposal_data_def a_def grant_signer_def acc_defs)
  have "schedule_timelock_proposal env sys view ?sched h (ucast (gcp_eta cmd)) (to_le_bytes 32 (gcp_native_value cmd))
      (gcp_target cmd) (gcp_call_data cmd) (st\<lparr>gv_gateway := gw\<rparr>) = Inr ?st1"
    using fresh rent xe
    by (subst schedule_stores [OF load [OF key(1)] b mb _ _ eta]) (simp_all add: Let_def final_def)
  then have self: "gov_entry (Suc d) env lib sys rt view (ScheduleTimelockIx ?sched h (ucast (gcp_eta cmd))
      (to_le_bytes 32 (gcp_native_value cmd)) (gcp_target cmd) (gcp_call_data cmd)) (st\<lparr>gv_gateway := gw\<rparr>) = Inr ?st1" for d
    by (simp add: Let_def)
  have auth: "ensure_authorized_gmp_command env c m = Inr ()" using r by (simp add: ensure_authorized_gmp_command_def)
  have "gov_execute env lib (gov_entry (Suc d) env lib sys rt view) a m payload st = Inr (put_gov ?ck (GovConfigAcc c) ?st1)" for d
    using chk val load [OF key(2) refl] auth ctx gmp self
    by (simp add: gov_execute_def Let_def a_def check_program_def check_signer_def check_mut_def) (simp add: acc_defs)
  then have "gov_entry (Suc (Suc d)) env lib sys rt view (process_gmp_ix env setup m payload x) st =
      Inr (put_gov ?ck (GovConfigAcc c) ?st1)" for d
    unfolding ix by (simp add: Let_def)
  from this [of 3] have run: "gov_entry MAX_INSTRUCTION_DEPTH env lib sys rt view (process_gmp_ix env setup m payload x) st =
      Inr (put_gov ?ck (GovConfigAcc c) ?st1)" by (simp add: MAX_INSTRUCTION_DEPTH_def eval_nat_numeral)
  have "pk \<noteq> ?ck" using fresh acc xe by auto
  then have "gv_accounts (put_gov ?ck (GovConfigAcc c) ?st1) = (gv_accounts st)(pk \<mapsto> ?p)"
    using acc by (auto simp: fun_eq_iff)
  then show thesis
    using run b by (intro that [OF final_def _ run]) (simp_all add: xe gw_def)
qed

section \<open>Executing a withdrawal\<close>

text \<open>The decoder reads back the accounts and argument of the withdrawal the client encodes.\<close>

definition withdrawal_decoded :: "gov_runtime \<Rightarrow> call_encoder \<Rightarrow> bool" where
  "withdrawal_decoded rt enc \<longleftrightarrow> (\<forall>sp ck r n. decode_ix rt [sp, ck, r] (withdraw_tokens_data enc n) =
     Some (WithdrawTokensIx \<lparr>wt_system_program = sp, wt_governance_config = ck, wt_receiver = r\<rparr> n))"

text \<open>The program's funds cover a withdrawal, and no balance overflows.\<close>

definition withdrawal_covered :: "system_lib \<Rightarrow> balances \<Rightarrow> pubkey \<Rightarrow> pubkey \<Rightarrow> pubkey \<Rightarrow> u64 \<Rightarrow> bool" where
  "withdrawal_covered sys L ck pk receiver n \<longleftrightarrow> unat n \<le> unat (L ck) \<and> unat (L receiver) + unat n < 2 ^ 64 \<and>
     rent_is_exempt sys (L ck - n) GOVERNANCE_CONFIG_SPACE \<and> unat (L ck) + unat (L pk) < 2 ^ 64"

definition withdrawal_ix :: "env \<Rightarrow> call_encoder \<Rightarrow> u64 \<Rightarrow> pubkey \<Rightarrow> pubkey \<Rightarrow> pubkey \<Rightarrow> governance_instruction" where
  "withdrawal_ix env enc n receiver ck pk =
     ExecuteTimelockIx \<lparr>xp_system_program = acc (system_program_id env), xp_governance_config = acc_mut ck,
         xp_proposal_pda = acc_mut pk\<rparr>
       [acc (system_program_id env), acc_mut ck, acc_mut receiver, acc (governance_id env)]
       (create_execute_proposal_instruction_data (governance_id env)
         (get_withdraw_tokens_instruction_data env enc n receiver ck) (to_le_bytes 32 (0 :: 256 word)))"

lemma withdraw_tokens_ok:
  assumes load: "load_governance env st (acc_signer_mut ck) = Inr c" and cov: "withdrawal_covered sys (gv_balances st) ck pk receiver n"
    and ne: "receiver \<noteq> ck" "pk \<noteq> ck" "receiver \<noteq> pk"
  obtains L where "withdraw_tokens env sys \<lparr>wt_system_program = acc (system_program_id env),
        wt_governance_config = acc_signer_mut ck, wt_receiver = acc_mut receiver\<rparr> n st = Inr (set_balances L st)"
    and "L ck = gv_balances st ck - n" and "unat (L ck) = unat (gv_balances st ck) - unat n"
    and "L receiver = gv_balances st receiver + n" and "\<And>k. k \<noteq> ck \<Longrightarrow> k \<noteq> receiver \<Longrightarrow> L k = gv_balances st k"
proof -
  let ?L = "gv_balances st"
  note cov' = cov [unfolded withdrawal_covered_def]
  obtain L where t: "transfer_lamports ck receiver n ?L = Inr L"
    using cov' transfer_lamports_ok [of n ?L ck receiver] by blast
  note m = movedD [OF transfer_lamports_moved [OF t]]
  have f: "unat (L ck) + unat n = unat (?L ck)" and r: "unat (L receiver) = unat (?L receiver) + unat n"
    using m [of ck] m [of receiver] ne by auto
  have ck: "L ck = ?L ck - n" and uck: "unat (L ck) = unat (?L ck) - unat n"
    using f cov' by (auto simp: word_unat_eq_iff unat_sub word_le_nat_alt)
  have rc: "L receiver = ?L receiver + n"
    using r cov' by (auto simp: word_unat_eq_iff unat_add_lem [THEN iffD1])
  have "check_constraint_signer (acc_signer_mut ck) = Inr ()" "check_mut (acc_signer_mut ck) = Inr ()"
    "check_mut (acc_mut receiver) = Inr ()" "check_program (acc (system_program_id env)) (system_program_id env) = Inr ()"
    "ai_key (acc_signer_mut ck) = ck" "ai_key (acc_mut receiver) = receiver"
    by (simp_all add: check_constraint_signer_def check_mut_def check_program_def acc_defs)
  then have "withdraw_tokens env sys \<lparr>wt_system_program = acc (system_program_id env),
        wt_governance_config = acc_signer_mut ck, wt_receiver = acc_mut receiver\<rparr> n st = Inr (set_balances L st)"
    using load t ck cov' by (simp add: withdraw_tokens_def Let_def require_def)
  then show thesis using own.move_other [OF t] by (intro that [OF _ ck uck rc]) auto
qed

lemma withdrawal_invoked:
  assumes "create_program_address env (governance_seeds @ [[b]]) (governance_id env) = Some ck"
    and "distinct [system_program_id env, ck, receiver, governance_id env]"
  shows "invoke_check env (governance_id env) (governance_seeds @ [[b]])
     [acc (system_program_id env), acc_mut ck, acc_mut receiver, acc (governance_id env)]
     [acc (system_program_id env), acc_signer_mut ck, acc_mut receiver] = Inr ()"
  using assms by (intro invoke_check_ok) (auto simp: acc_defs grant_signer_def)

lemma withdrawal_executes:
  assumes ck: "create_program_address env (governance_seeds @ [[gvc_bump c]]) (governance_id env) = Some ck"
    and pk: "create_program_address env (proposal_seeds h @ [[ep_bump p]]) (governance_id env) = Some pk"
    and acc: "gv_accounts st ck = Some (GovConfigAcc c)" "gv_accounts st pk = Some (ProposalAcc p)"
    and hash: "calculate_hash env lib (governance_id env) (get_withdraw_tokens_instruction_data env enc n receiver ck)
      (to_le_bytes 32 (0 :: 256 word)) = Inr h"
    and dec: "withdrawal_decoded rt enc" and time: "0 \<le> sint (unix_timestamp view)" "ep_eta p \<le> unix_timestamp view"
    and d: "distinct [system_program_id env, ck, receiver, governance_id env]" and r: "receiver \<noteq> pk"
    and cov: "withdrawal_covered sys (gv_balances st) ck pk receiver n"
  shows "gov_entry MAX_INSTRUCTION_DEPTH env lib sys rt view (withdrawal_ix env enc n receiver ck pk) st =
      Inr (st\<lparr>gv_accounts := (gv_accounts st)(pk := None),
        gv_balances := (gv_balances st)(receiver := gv_balances st receiver + n,
          ck := gv_balances st ck - n + gv_balances st pk, pk := 0),
        gv_events := gv_events st @ [ProposalExecuted h (governance_id env) (withdraw_tokens_data enc n)
          (to_le_bytes 32 (0 :: 256 word)) (ep_eta p)]\<rparr>)"
proof -
  let ?gid = "governance_id env"
  have ne: "pk \<noteq> ck" using acc by auto
  define data where "data = create_execute_proposal_instruction_data ?gid
    (get_withdraw_tokens_instruction_data env enc n receiver ck) (to_le_bytes 32 (0 :: 256 word))"
  have sel: "target_address data = ?gid" "proposal_native_value data = to_le_bytes 32 (0 :: 256 word)"
    "proposal_call data = get_withdraw_tokens_instruction_data env enc n receiver ck"
    "proposal_call_data (get_withdraw_tokens_instruction_data env enc n receiver ck) = withdraw_tokens_data enc n"
    by (simp_all add: data_def create_execute_proposal_instruction_data_def get_withdraw_tokens_instruction_data_def)
  have metas: "get_account_metadata data = [acc (system_program_id env), acc_signer_mut ck, acc_mut receiver]"
    by (simp add: get_account_metadata_def sel get_withdraw_tokens_instruction_data_def)
  have load: "load_governance env st i = Inr c" if "ai_key i = ck" for i
    using that acc ck by (simp add: load_governance_Inr)
  have keys: "ai_key (acc_mut ck) = ck" "ai_key (acc_signer_mut ck) = ck" "ai_key (acc_mut pk) = pk" "ai_key (acc ?gid) = ?gid"
    by (simp_all add: acc_defs)
  obtain L where w: "withdraw_tokens env sys \<lparr>wt_system_program = acc (system_program_id env),
        wt_governance_config = acc_signer_mut ck, wt_receiver = acc_mut receiver\<rparr> n st = Inr (set_balances L st)"
    and Lck: "L ck = gv_balances st ck - n" "unat (L ck) = unat (gv_balances st ck) - unat n"
    and Lr: "L receiver = gv_balances st receiver + n"
    and Lo: "\<And>k. k \<noteq> ck \<Longrightarrow> k \<noteq> receiver \<Longrightarrow> L k = gv_balances st k"
    using withdraw_tokens_ok [OF load [OF keys(2)] cov] ne r d by auto
  let ?remaining = "[acc (system_program_id env), acc_mut ck, acc_mut receiver, acc ?gid]"
  define cpi where "cpi = gov_dispatch env rt (gov_entry 4 env lib sys rt view)"
  have "gov_entry (Suc 3) env lib sys rt view (WithdrawTokensIx \<lparr>wt_system_program = acc (system_program_id env),
        wt_governance_config = acc_signer_mut ck, wt_receiver = acc_mut receiver\<rparr> n) st = Inr (set_balances L st)"
    using w unfolding gov_entry.simps(2) Let_def by simp
  then have "cpi ?gid [acc (system_program_id env), acc_signer_mut ck, acc_mut receiver] (withdraw_tokens_data enc n) st =
      Inr (set_balances L st)"
    using dec by (simp add: cpi_def gov_dispatch_def withdrawal_decoded_def)
  moreover have "checked_from_u256_le_bytes_to_u64 (to_le_bytes 32 (0 :: 256 word)) = Inr 0"
    by (simp add: checked_from_u256_spec le_val_to_le_bytes_256)
  ultimately have x: "execute_proposal_cpi env cpi data ?remaining ck (gvc_bump c) st = Inr (set_balances L st)"
    by (simp add: execute_proposal_cpi_def Let_def sel metas withdrawal_invoked [OF ck d] del: invoke_check.simps)
  let ?ev = "ProposalExecuted h ?gid (withdraw_tokens_data enc n) (to_le_bytes 32 (0 :: 256 word)) (ep_eta p)"
  define L' where "L' = L(ck := L ck + L pk, pk := 0)"
  have "unat (gv_balances st ck) + unat (gv_balances st pk) < 2 ^ 64" using cov by (simp add: withdrawal_covered_def)
  then have "unat (L ck) + unat (L pk) < 2 ^ 64"
    unfolding Lck(2) Lo [OF ne not_sym [OF r]] by linarith
  then have cl: "close_gov pk ck (put_gov ck (GovConfigAcc c) (emit_gov ?ev (set_balances L st))) =
      Inr (st\<lparr>gv_accounts := (gv_accounts st)(pk := None), gv_balances := L', gv_events := gv_events st @ [?ev]\<rparr>)"
    using acc ne by (simp add: close_gov_def close_lamports_def checked_add_def L'_def put_gov_def emit_gov_def set_balances_def
        fun_upd_idem)
  have p: "load_proposal env st h (acc_mut pk) = Inr p" using acc pk by (simp add: load_proposal_Inr keys)
  have h: "hash_from_data env lib data = Inr h"
    "calculate_hash env lib ?gid (proposal_call data) (to_le_bytes 32 (0 :: 256 word)) = Inr h"
    using hash by (simp_all add: hash_from_data_def sel)
  have t: "u64_of_i64 (unix_timestamp view) e = Inr (unix_timestamp view)" for e
    using time(1) by (simp add: u64_of_i64_def require_def)
  have "check_governance_config_presence ck ?remaining (solana_accounts_metadata (proposal_call data)) = Inr ()"
    "check_target_program_presence ?remaining ?gid = Inr ()"
    by (simp_all add: check_governance_config_presence_def check_target_program_presence_def sel
        get_withdraw_tokens_instruction_data_def keys)
  then have "execute_proposal env lib cpi view \<lparr>xp_system_program = acc (system_program_id env), xp_governance_config = acc_mut ck,
         xp_proposal_pda = acc_mut pk\<rparr> ?remaining data st =
      Inr (st\<lparr>gv_accounts := (gv_accounts st)(pk := None), gv_balances := L', gv_events := gv_events st @ [?ev]\<rparr>)"
    using x p h t time(2) load [OF keys(1)] cl
    by (simp add: execute_proposal_def Let_def sel keys check_program_def check_mut_def) (simp add: acc_defs)
  then have "gov_entry (Suc 4) env lib sys rt view (withdrawal_ix env enc n receiver ck pk) st =
      Inr (st\<lparr>gv_accounts := (gv_accounts st)(pk := None), gv_balances := L', gv_events := gv_events st @ [?ev]\<rparr>)"
    unfolding withdrawal_ix_def data_def [symmetric] gov_entry.simps(2) Let_def cpi_def by simp
  moreover have "L' = (gv_balances st)(receiver := gv_balances st receiver + n,
      ck := gv_balances st ck - n + gv_balances st pk, pk := 0)"
    using Lck(1) Lr Lo ne r d by (auto simp: L'_def fun_eq_iff)
  ultimately show ?thesis by (simp add: MAX_INSTRUCTION_DEPTH_def)
qed

end
