(* ===== verification/Governance_Live_Props.thy ===== *)
theory Governance_Live_Props
  imports Governance_Live Governance_Demo
begin

text \<open>
  What a proposal made with the client's builders achieves, from the approved message on, and a
  concrete run of it.
\<close>

lemma config_canonical:
  assumes inv: "gov_inv env st" and su: "mock_setup_test env payer authority operator = Inr setup"
    and c: "gv_accounts st (gs_governance_config setup) = Some (GovConfigAcc c)"
  shows "try_find_program_address env governance_seeds (governance_id env) = Some (gs_governance_config setup, gvc_bump c)"
  using gov_invD [OF inv c] by simp

lemma unat_final_eta:
  assumes "unat (e :: 256 word) < 2 ^ 64" and "unat (t :: u64) + unat (d :: u32) < 2 ^ 64"
  shows "unat (max (ucast e) (t + ucast d) :: u64) = max (unat e) (unat t + unat d)"
proof -
  have "unat (ucast e :: u64) = unat e" using assms(1) by (simp add: unsigned_ucast_eq take_bit_nat_eq_self)
  moreover have "unat (t + ucast d :: u64) = unat t + unat d" using assms(2) by (simp add: unat_add_lem [THEN iffD1])
  ultimately show ?thesis by (simp add: max_def word_le_nat_alt)
qed

text \<open>
  C8. A withdrawal proposal pays. An approved governance message that schedules a withdrawal,
  relayed with the client's addresses, is accepted: it stores the proposal, whose time is the one requested
  or the end of the minimum delay, whichever is later. However the program runs on, as long
  as the proposal is still there, once the time has come and the funds cover it anyone can
  execute it: the receiver gets exactly the amount, the proposal is closed and its rent goes to the program.
\<close>

theorem scheduled_withdrawal_pays:
  assumes law: "pda_law env" "pda_inj env" "external_law env rt" and inj: "inj (message_hash env)"
    and reach: "gov_reachable env lib sys rt st" and dec: "withdrawal_decoded rt enc"
    and su: "mock_setup_test env payer authority operator = Inr setup" "ck = gs_governance_config setup"
    and c: "gv_accounts st ck = Some (GovConfigAcc c)" and gc: "config_at (gv_gateway st) root gc"
    and ready: "schedule_ready env lib st c m payload k im cmd"
    and target: "gcp_target cmd = governance_id env" "length (governance_id env) = 32" "gcp_native_value cmd = 0"
    and call: "decode_payload_call_data lib (gcp_call_data cmd) = Inr (get_withdraw_tokens_instruction_data env enc n receiver ck)"
    and h: "extract_proposal_hash_unchecked env lib payload = Inr h"
    and x: "schedule_context env m k im root ea h = Inr x" "pk = gx_proposal x"
    and fresh: "gv_accounts st pk = None" and rent: "sys_create sys payer pk PROPOSAL_SPACE (gv_balances st) = Some L"
    and now: "unat (unix_timestamp view) + unat (minimum_proposal_eta_delay c) < 2 ^ 64"
    and d: "distinct [system_program_id env, ck, receiver, governance_id env]" and r: "receiver \<noteq> pk"
  shows "\<exists>st1 p. gov_entry MAX_INSTRUCTION_DEPTH env lib sys rt view (process_gmp_ix env setup m payload x) st = Inr st1 \<and>
     gv_accounts st1 = (gv_accounts st)(pk \<mapsto> ProposalAcc p) \<and>
     unat (ep_eta p) = max (unat (gcp_eta cmd)) (unat (unix_timestamp view) + unat (minimum_proposal_eta_delay c)) \<and>
     (\<forall>later st2 c2. runs (gov_step env lib sys rt) st1 st2 \<longrightarrow> gv_accounts st2 pk = Some (ProposalAcc p) \<longrightarrow>
       gv_accounts st2 ck = Some (GovConfigAcc c2) \<longrightarrow> 0 \<le> sint (unix_timestamp later) \<longrightarrow> ep_eta p \<le> unix_timestamp later \<longrightarrow>
       withdrawal_covered sys (gv_balances st2) ck pk receiver n \<longrightarrow>
       gov_entry MAX_INSTRUCTION_DEPTH env lib sys rt later (withdrawal_ix env enc n receiver ck pk) st2 =
       Inr (st2\<lparr>gv_accounts := (gv_accounts st2)(pk := None),
         gv_balances := (gv_balances st2)(receiver := gv_balances st2 receiver + n,
           ck := gv_balances st2 ck - n + gv_balances st2 pk, pk := 0),
         gv_events := gv_events st2 @ [ProposalExecuted h (governance_id env) (withdraw_tokens_data enc n)
           (to_le_bytes 32 (0 :: 256 word)) (ep_eta p)]\<rparr>))"
proof -
  have inv: "gov_inv env st" and gw: "gateway_reachable env (gv_gateway st)"
    using gov_inv_reachable [OF law reach] by blast+
  have full: "gateway_full_inv env (gv_gateway st)" by (rule gateway_full_inv_reachable [OF law(1,2) gw])
  have org: "message_origin env (gv_gateway st) k im m"
    using full ready injD [OF inj] unfolding gateway_full_inv_def message_inv_def message_origin_def schedule_ready_def by metis
  have payer: "gs_payer setup = payer"
    using su(1) by (auto simp: mock_setup_test_def res_inv split: prod.splits)
  have "decode_payload_target (gcp_target cmd) = Inr (governance_id env)"
    using target by (simp add: decode_payload_target_def require_def)
  note ctx = gmp_context_hash [OF h _ this call]
  have cmd: "decode_payload lib payload = Inr cmd" using ready by (simp add: schedule_ready_def)
  obtain b mb final st1 where final: "final = max (ucast (gcp_eta cmd)) (unix_timestamp view + ucast (minimum_proposal_eta_delay c))"
    and b: "try_find_program_address env (proposal_seeds h) (governance_id env) = Some (pk, b)"
    and run: "gov_entry MAX_INSTRUCTION_DEPTH env lib sys rt view (process_gmp_ix env setup m payload x) st = Inr st1"
    and st1: "gv_accounts st1 = (gv_accounts st)(pk \<mapsto> ProposalAcc \<lparr>ep_eta = final, ep_bump = b, ep_managed_bump = mb\<rparr>)"
    using scheduled_by_message [OF law(1) full org ready gc c [unfolded su(2)]
        config_canonical [OF inv su(1) c [unfolded su(2)]] ctx(1) [OF cmd] x(1)
        fresh [unfolded x(2)] rent [folded payer, unfolded x(2)] now, where rt = rt]
    unfolding x(2) by metis
  define p where "p = \<lparr>ep_eta = final, ep_bump = b, ep_managed_bump = mb\<rparr>"
  have eta: "unat (ep_eta p) = max (unat (gcp_eta cmd)) (unat (unix_timestamp view) + unat (minimum_proposal_eta_delay c))"
    using ready now unfolding p_def final by (simp add: schedule_ready_def unat_final_eta)
  show ?thesis
  proof (intro exI conjI allI impI)
    show "gv_accounts st1 = (gv_accounts st)(pk \<mapsto> ProposalAcc p)" using st1 by (simp add: p_def)
    fix later :: ledger_view and st2 c2 assume r2: "runs (gov_step env lib sys rt) st1 st2" and at: "gv_accounts st2 pk = Some (ProposalAcc p)"
      "gv_accounts st2 ck = Some (GovConfigAcc c2)"
      and time: "0 \<le> sint (unix_timestamp later)" "ep_eta p \<le> unix_timestamp later"
      and cov: "withdrawal_covered sys (gv_balances st2) ck pk receiver n"
    have "gov_inv env st2" using gov_leD(1) [OF gov_runs_le [OF law r2] gov_leD(1) [OF gov_entry_le [OF law run] inv]] .
    note canon = config_canonical [OF this su(1) at(2) [unfolded su(2)], folded su(2)]
    have "create_program_address env (proposal_seeds h @ [[ep_bump p]]) (governance_id env) = Some pk"
      using pda_lawD [OF law(1) b] by (simp add: p_def)
    from withdrawal_executes [OF pda_lawD [OF law(1) canon] this at(2,1) ctx(2) [OF cmd, unfolded target(3)] dec time d r cov]
    show "gov_entry MAX_INSTRUCTION_DEPTH env lib sys rt later (withdrawal_ix env enc n receiver ck pk) st2 =
       Inr (st2\<lparr>gv_accounts := (gv_accounts st2)(pk := None),
         gv_balances := (gv_balances st2)(receiver := gv_balances st2 receiver + n,
           ck := gv_balances st2 ck - n + gv_balances st2 pk, pk := 0),
         gv_events := gv_events st2 @ [ProposalExecuted h (governance_id env) (withdraw_tokens_data enc n)
           (to_le_bytes 32 (0 :: 256 word)) (ep_eta p)]\<rparr>)" by blast
  qed (rule run, rule eta)
qed

section \<open>A run\<close>

definition demo_enc :: call_encoder where
  "demo_enc = \<lparr>withdraw_tokens_data = to_le_bytes 8, emit_memo_data = str_bytes\<rparr>"

definition demo_wrt :: gov_runtime where
  "demo_wrt = demo_rt\<lparr>decode_ix := (\<lambda>metas data. case metas of
     [sp, ck, r] \<Rightarrow> Some (WithdrawTokensIx \<lparr>wt_system_program = sp, wt_governance_config = ck, wt_receiver = r\<rparr>
       (from_le_bytes data)) | _ \<Rightarrow> None)\<rparr>"

definition demo_wcall :: ExecuteProposalCallData where
  "demo_wcall = get_withdraw_tokens_instruction_data demo_env demo_enc 50 [99] demo_gov_key"

definition demo_wcmd :: GovernanceCommandPayload where
  "demo_wcmd = (demo_cmd ScheduleTimeLockProposal)\<lparr>gcp_target := replicate 32 4\<rparr>"

definition demo_wlib :: governance_lib where
  "demo_wlib = demo_glib\<lparr>abi_decode_command := (\<lambda>_. Some demo_wcmd), call_data_try_from_slice := (\<lambda>_. Some demo_wcall)\<rparr>"

lemma demo_withdrawal_decoded: "withdrawal_decoded demo_wrt demo_enc"
  by (simp add: withdrawal_decoded_def demo_wrt_def demo_enc_def from_to_le_bytes)

lemma demo_wlib_payload [simp]:
  "decode_payload demo_wlib p = Inr demo_wcmd" "decode_payload_call_data demo_wlib q = Inr demo_wcall"
  by (simp_all add: decode_payload_def decode_payload_call_data_def demo_wlib_def)

lemma demo_schedule_ready:
  "schedule_ready demo_env demo_wlib demo_gov2 demo_gcfg demo_m1 [77] (msg_key demo_m1) (msg_incoming demo_m1) demo_wcmd"
  by (simp add: schedule_ready_def msg_incoming_def hashv_def str_bytes_def demo_wcmd_def demo_cmd_def)

text \<open>Scheduled at 1000, due at 4600, executed with one hundred lamports on every account.\<close>

theorem scheduled_withdrawal_pays_witness:
  "\<exists>ix st1 st2 pk st3. gov_entry MAX_INSTRUCTION_DEPTH demo_env demo_wlib demo_sys demo_wrt (demo_gview 1000) ix demo_gov2 = Inr st1 \<and>
     runs (gov_step demo_env demo_wlib demo_sys demo_wrt) st1 st2 \<and>
     gov_entry MAX_INSTRUCTION_DEPTH demo_env demo_wlib demo_sys demo_wrt (demo_gview 4600)
       (withdrawal_ix demo_env demo_enc 50 [99] demo_gov_key pk) st2 = Inr st3 \<and>
     gv_balances st2 [99] = 100 \<and> gv_balances st3 [99] = 150"
proof -
  let ?gid = "replicate 32 (4 :: 8 word)"
  note setup_defs = mock_setup_test_def create_governance_config_pda_def create_governance_program_data_pda_def found_key_def
    find_program_address_def governance_seeds_def demo_gov_key_def
  obtain ts where t: "mock_setup_test demo_env [20] [9] [70] = Inr ts" by (simp add: setup_defs)
  then have "demo_gov_key = gs_governance_config ts" by (auto simp: setup_defs)
  note ts = t this
  obtain h where h: "extract_proposal_hash_unchecked demo_env demo_wlib [77] = Inr h"
    by (simp add: extract_proposal_hash_unchecked_def decode_payload_target_def require_def calculate_hash_def demo_wcmd_def)
      (simp add: demo_wlib_def demo_glib_def)
  define pk where "pk = str_bytes ''proposal'' @ h @ [255] @ ?gid"
  note context_defs = schedule_context_def create_signing_pda_from_message_def create_proposal_pda_def
    create_operator_proposal_pda_def found_key_def find_program_address_def proposal_seeds_def pk_def
  obtain xc where sx: "schedule_context demo_env demo_m1 (msg_key demo_m1) (msg_incoming demo_m1) demo_root_key [] h = Inr xc"
    by (simp add: context_defs)
  then have "pk = gx_proposal xc" by (auto simp: context_defs)
  note xc = sx this
  have pk: "pk \<noteq> demo_gov_key" "[99] \<noteq> pk"
    by (simp_all add: pk_def demo_gov_key_def str_bytes_def of_char_u8_inj)
  have d: "distinct [system_program_id demo_env, demo_gov_key, [99], governance_id demo_env]" "demo_gov_key \<noteq> [99]"
  proof -
    have "length demo_gov_key = 43" by (simp add: demo_gov_key_def str_bytes_def)
    then show "distinct [system_program_id demo_env, demo_gov_key, [99], governance_id demo_env]" "demo_gov_key \<noteq> [99]"
      by (auto dest: arg_cong [where f = length])
  qed
  have fresh: "gv_accounts demo_gov2 pk = None" using pk by (simp add: demo_gov2_def demo_gov1_def gov_empty_def)
  have ext: "external_law demo_env demo_wrt"
    using demo_external_law by (simp add: external_law_def demo_wrt_def)
  have gw: "config_at (gv_gateway demo_gov2) demo_root_key demo_config" by simp
  have wcmd: "gcp_target demo_wcmd = governance_id demo_env" "length (governance_id demo_env) = 32" "gcp_native_value demo_wcmd = 0"
    "decode_payload_call_data demo_wlib (gcp_call_data demo_wcmd) =
      Inr (get_withdraw_tokens_instruction_data demo_env demo_enc 50 [99] demo_gov_key)" "gcp_eta demo_wcmd = 0"
    by (simp_all add: demo_wcmd_def demo_cmd_def demo_wcall_def)
  have rent: "sys_create demo_sys [20] pk PROPOSAL_SPACE (gv_balances demo_gov2) = Some ((gv_balances demo_gov2)(pk := 10))"
    by (simp add: demo_sys_def)
  have now: "unat (unix_timestamp (demo_gview 1000)) + unat (minimum_proposal_eta_delay demo_gcfg) < 2 ^ 64"
    by (simp add: demo_gview_def)
  note paid = scheduled_withdrawal_pays [OF demo_pda_law demo_pda_inj ext demo_hash_inj demo_gov2_reachable demo_withdrawal_decoded
      ts demo_gov_accounts(1) gw demo_schedule_ready wcmd(1-4) h xc fresh rent now d(1) pk(2)]
  let ?step = "gov_step demo_env demo_wlib demo_sys demo_wrt" and ?ix = "process_gmp_ix demo_env ts demo_m1 [77] xc"
  obtain st1 p where run: "gov_entry MAX_INSTRUCTION_DEPTH demo_env demo_wlib demo_sys demo_wrt (demo_gview 1000) ?ix demo_gov2 = Inr st1"
    and st1: "gv_accounts st1 = (gv_accounts demo_gov2)(pk \<mapsto> ProposalAcc p)"
    and eta: "unat (ep_eta p) = max (unat (gcp_eta demo_wcmd)) (unat (unix_timestamp (demo_gview 1000)) + unat (minimum_proposal_eta_delay demo_gcfg))"
    and later: "\<forall>later st2 c2. runs ?step st1 st2 \<longrightarrow> gv_accounts st2 pk = Some (ProposalAcc p) \<longrightarrow>
       gv_accounts st2 demo_gov_key = Some (GovConfigAcc c2) \<longrightarrow> 0 \<le> sint (unix_timestamp later) \<longrightarrow>
       ep_eta p \<le> unix_timestamp later \<longrightarrow>
       withdrawal_covered demo_sys (gv_balances st2) demo_gov_key pk [99] 50 \<longrightarrow>
       gov_entry MAX_INSTRUCTION_DEPTH demo_env demo_wlib demo_sys demo_wrt later
         (withdrawal_ix demo_env demo_enc 50 [99] demo_gov_key pk) st2 =
       Inr (st2\<lparr>gv_accounts := (gv_accounts st2)(pk := None),
         gv_balances := (gv_balances st2)([99] := gv_balances st2 [99] + 50,
           demo_gov_key := gv_balances st2 demo_gov_key - 50 + gv_balances st2 pk, pk := 0),
         gv_events := gv_events st2 @ [ProposalExecuted h (governance_id demo_env) (withdraw_tokens_data demo_enc 50)
           (to_le_bytes 32 (0 :: 256 word)) (ep_eta p)]\<rparr>)"
    using paid by (elim exE conjE) (rule that)
  define st2 where "st2 = st1\<lparr>gv_balances := \<lambda>_. 100\<rparr>"
  have r: "runs ?step st1 st2" unfolding st2_def by (intro runs_one gov_other)
  moreover have "gv_accounts st2 pk = Some (ProposalAcc p)" "gv_accounts st2 demo_gov_key = Some (GovConfigAcc demo_gcfg)"
    "withdrawal_covered demo_sys (gv_balances st2) demo_gov_key pk [99] 50"
    using pk by (simp_all add: st2_def st1 withdrawal_covered_def demo_sys_def)
  moreover have "0 \<le> sint (unix_timestamp (demo_gview 4600))" "ep_eta p \<le> unix_timestamp (demo_gview 4600)"
    using eta wcmd(5) by (simp_all add: demo_gview_def word_le_nat_alt)
  ultimately have x: "gov_entry MAX_INSTRUCTION_DEPTH demo_env demo_wlib demo_sys demo_wrt (demo_gview 4600)
      (withdrawal_ix demo_env demo_enc 50 [99] demo_gov_key pk) st2 =
      Inr (st2\<lparr>gv_accounts := (gv_accounts st2)(pk := None),
         gv_balances := (gv_balances st2)([99] := gv_balances st2 [99] + 50,
           demo_gov_key := gv_balances st2 demo_gov_key - 50 + gv_balances st2 pk, pk := 0),
         gv_events := gv_events st2 @ [ProposalExecuted h (governance_id demo_env) (withdraw_tokens_data demo_enc 50)
           (to_le_bytes 32 (0 :: 256 word)) (ep_eta p)]\<rparr>)"
    using later by blast
  show ?thesis
    by (intro exI conjI, rule run, rule r, rule x) (use pk d(2) in \<open>simp_all add: st2_def\<close>)
qed

end
