(* ===== verification/Its_State.thy ===== *)
theory Its_State
  imports Platform
begin

text \<open>
  The data of the interchain token service (\<open>programs/solana-axelar-its/src\<close>): user roles
  (\<open>state/user_roles.rs\<close>), flow limits (\<open>state/flow_state.rs\<close>), the service's configuration
  (\<open>state/its.rs\<close>), token managers (\<open>state/token_manager.rs\<close>), the token identifiers and the
  string truncation (\<open>utils.rs\<close>) and the hub messages (\<open>encoding.rs\<close>).
\<close>

section \<open>User roles\<close>

definition MINTER :: u8 where "MINTER = 1"

definition OPERATOR :: u8 where "OPERATOR = 2"

definition FLOW_LIMITER :: u8 where "FLOW_LIMITER = 4"

definition EMPTY :: u8 where "EMPTY = 0"

lemmas role_defs = MINTER_def OPERATOR_def FLOW_LIMITER_def EMPTY_def

record UserRoles =
  roles :: u8
  ur_bump :: u8

definition user_roles_seeds :: "pubkey \<Rightarrow> pubkey \<Rightarrow> bytes list" where
  "user_roles_seeds resource user = [str_bytes ''user-roles'', resource, user]"

definition has_minter_role :: "UserRoles \<Rightarrow> bool" where
  "has_minter_role u \<longleftrightarrow> roles u AND MINTER = MINTER"

definition has_operator_role :: "UserRoles \<Rightarrow> bool" where
  "has_operator_role u \<longleftrightarrow> roles u AND OPERATOR = OPERATOR"

definition has_flow_limiter_role :: "UserRoles \<Rightarrow> bool" where
  "has_flow_limiter_role u \<longleftrightarrow> roles u AND FLOW_LIMITER = FLOW_LIMITER"

definition has_roles :: "UserRoles \<Rightarrow> bool" where
  "has_roles u \<longleftrightarrow> roles u \<noteq> EMPTY"

definition contains_roles :: "UserRoles \<Rightarrow> u8 \<Rightarrow> bool" where
  "contains_roles u r \<longleftrightarrow> roles u AND r = r"

definition insert_roles :: "u8 \<Rightarrow> UserRoles \<Rightarrow> UserRoles" where
  "insert_roles r u = u\<lparr>roles := roles u OR r\<rparr>"

definition remove_roles :: "u8 \<Rightarrow> UserRoles \<Rightarrow> UserRoles" where
  "remove_roles r u = u\<lparr>roles := roles u AND NOT r\<rparr>"

text \<open>A single role is one bit; the set operations act on that bit and leave the others alone.\<close>

lemma u8_eq_iff: "a = b \<longleftrightarrow> (\<forall>n < 8. bit a n = bit b n)" for a b :: u8
  using bit_word_eqI [of a b] by auto

definition role_bit :: "u8 \<Rightarrow> nat \<Rightarrow> bool" where
  "role_bit r n \<longleftrightarrow> n < 8 \<and> (\<forall>m < 8. bit r m \<longleftrightarrow> m = n)"

lemma role_bits:
  "role_bit MINTER 0" "role_bit OPERATOR 1" "role_bit FLOW_LIMITER 2"
  using bit_exp_iff [where 'a = u8, of 1] bit_exp_iff [where 'a = u8, of 2]
  by (auto simp: role_bit_def role_defs bit_1_iff)

lemma contains_bit: "role_bit r n \<Longrightarrow> contains_roles u r = bit (roles u) n"
  by (auto simp: role_bit_def contains_roles_def u8_eq_iff bit_and_iff)

lemma contains_roles_role:
  "has_minter_role u = contains_roles u MINTER"
  "has_operator_role u = contains_roles u OPERATOR"
  "has_flow_limiter_role u = contains_roles u FLOW_LIMITER"
  by (simp_all add: has_minter_role_def has_operator_role_def has_flow_limiter_role_def contains_roles_def)

lemma insert_bit: "role_bit r n \<Longrightarrow> m < 8 \<Longrightarrow> bit (roles (insert_roles r u)) m = (m = n \<or> bit (roles u) m)"
  by (auto simp: role_bit_def insert_roles_def bit_or_iff)

lemma remove_bit: "role_bit r n \<Longrightarrow> m < 8 \<Longrightarrow> bit (roles (remove_roles r u)) m = (m \<noteq> n \<and> bit (roles u) m)"
  by (auto simp: role_bit_def remove_roles_def bit_and_iff bit_not_iff)

lemma role_eq: "role_bit r n \<Longrightarrow> role_bit r' n' \<Longrightarrow> r' = r \<longleftrightarrow> n' = n"
  by (auto simp: role_bit_def u8_eq_iff)

lemma contains_insert:
  assumes "role_bit r n" and "role_bit r' n'"
  shows "contains_roles (insert_roles r u) r' \<longleftrightarrow> r' = r \<or> contains_roles u r'"
  using assms(2) unfolding contains_bit [OF assms(2)] role_eq [OF assms]
  by (simp add: insert_bit [OF assms(1)] role_bit_def)

lemma contains_remove:
  assumes "role_bit r n" and "role_bit r' n'"
  shows "contains_roles (remove_roles r u) r' \<longleftrightarrow> r' \<noteq> r \<and> contains_roles u r'"
  using assms(2) unfolding contains_bit [OF assms(2)] role_eq [OF assms]
  by (simp add: remove_bit [OF assms(1)] role_bit_def)

lemma roles_parts [simp]:
  "ur_bump (insert_roles r u) = ur_bump u" "ur_bump (remove_roles r u) = ur_bump u"
  by (simp_all add: insert_roles_def remove_roles_def)

section \<open>Flow limits\<close>

datatype FlowDirection = In | Out

record FlowState =
  flow_limit :: "u64 option"
  flow_in :: u64
  flow_out :: u64
  flow_epoch :: u64

text \<open>\<open>EPOCH_TIME\<close> in seconds: six hours.\<close>

definition EPOCH_TIME :: u64 where
  "EPOCH_TIME = 6 * 60 * 60"

definition flow_new :: "u64 option \<Rightarrow> u64 \<Rightarrow> FlowState" where
  "flow_new limit e = \<lparr>flow_limit = limit, flow_in = 0, flow_out = 0, flow_epoch = e\<rparr>"

text \<open>\<open>update_flow\<close> writes through \<open>to_add\<close>; here the new value is the result.\<close>

definition update_flow :: "u64 \<Rightarrow> u64 \<Rightarrow> u64 \<Rightarrow> u64 \<Rightarrow> u64 result" where
  "update_flow limit to_add to_compare amount =
     res_bind (require (\<not> limit < amount) (ItsE FlowLimitExceeded)) (\<lambda>_.
     res_bind (ok_or (checked_add to_add amount) (ItsE ItsError.ArithmeticOverflow)) (\<lambda>new_flow.
     res_bind (require (\<not> limit < abs_diff new_flow to_compare) (ItsE FlowLimitExceeded)) (\<lambda>_.
     Inr new_flow)))"

definition add_flow :: "u64 \<Rightarrow> FlowDirection \<Rightarrow> FlowState \<Rightarrow> FlowState result" where
  "add_flow amount direction s =
     (case flow_limit s of
        None \<Rightarrow> Inr s
      | Some limit \<Rightarrow>
          (case direction of
             In \<Rightarrow> res_bind (update_flow limit (flow_in s) (flow_out s) amount) (\<lambda>n. Inr (s\<lparr>flow_in := n\<rparr>))
           | Out \<Rightarrow> res_bind (update_flow limit (flow_out s) (flow_in s) amount) (\<lambda>n. Inr (s\<lparr>flow_out := n\<rparr>))))"

definition flow_epoch_with_timestamp :: "i64 \<Rightarrow> u64 result" where
  "flow_epoch_with_timestamp timestamp =
     res_bind (u64_of_i64 timestamp (ItsE ItsError.ArithmeticOverflow)) (\<lambda>t.
     ok_or (checked_div t EPOCH_TIME) (ItsE ItsError.ArithmeticOverflow))"

definition current_flow_epoch :: "ledger_view \<Rightarrow> u64 result" where
  "current_flow_epoch view = flow_epoch_with_timestamp (unix_timestamp view)"

text \<open>\<open>track_token_flow\<close>, which the inbound and the outbound transfer define alike.\<close>

definition track_token_flow :: "ledger_view \<Rightarrow> u64 \<Rightarrow> FlowDirection \<Rightarrow> FlowState \<Rightarrow> FlowState result" where
  "track_token_flow view amount direction s =
     (if flow_limit s = None then Inr s
      else
        res_bind (current_flow_epoch view) (\<lambda>current_epoch.
        add_flow amount direction
          (if flow_epoch s \<noteq> current_epoch
           then s\<lparr>flow_in := 0, flow_out := 0, flow_epoch := current_epoch\<rparr> else s)))"

section \<open>The service's configuration\<close>

definition ITS_HUB_CHAIN_NAME :: string where
  "ITS_HUB_CHAIN_NAME = ''axelar''"

record InterchainTokenService =
  its_hub_address :: string
  chain_name :: string
  paused :: bool
  trusted_chains :: "string list"
  its_bump :: u8

definition its_root_seeds :: "bytes list" where
  "its_root_seeds = [str_bytes ''interchain-token-service'']"

definition its_space_for :: "nat \<Rightarrow> nat \<Rightarrow> nat \<Rightarrow> nat" where
  "its_space_for hub_addr_len chain_name_len trusted_chains_total_len =
     8 + (4 + hub_addr_len) + (4 + chain_name_len) + 1 + (4 + trusted_chains_total_len) + 1"

definition its_space :: "InterchainTokenService \<Rightarrow> nat" where
  "its_space s = its_space_for (length (its_hub_address s)) (length (chain_name s))
     (sum_list (map (\<lambda>c. 4 + length c) (trusted_chains s)))"

definition space_with_chain_added :: "InterchainTokenService \<Rightarrow> string \<Rightarrow> nat" where
  "space_with_chain_added s c = its_space s + 4 + length c"

definition space_with_chain_removed :: "InterchainTokenService \<Rightarrow> string \<Rightarrow> nat" where
  "space_with_chain_removed s c = its_space s - (4 + length c)"

definition its_new :: "u8 \<Rightarrow> string \<Rightarrow> string \<Rightarrow> InterchainTokenService" where
  "its_new bump cname hub_address =
     \<lparr>its_hub_address = hub_address, chain_name = cname, paused = False, trusted_chains = [], its_bump = bump\<rparr>"

definition is_trusted_chain :: "InterchainTokenService \<Rightarrow> string \<Rightarrow> bool" where
  "is_trusted_chain s c \<longleftrightarrow> list_ex (\<lambda>c'. c' = c) (trusted_chains s)"

definition add_trusted_chain :: "string \<Rightarrow> InterchainTokenService \<Rightarrow> InterchainTokenService" where
  "add_trusted_chain c s =
     (if c \<notin> set (trusted_chains s) \<and> c \<noteq> ITS_HUB_CHAIN_NAME
      then s\<lparr>trusted_chains := trusted_chains s @ [c]\<rparr> else s)"

definition remove_trusted_chain :: "string \<Rightarrow> InterchainTokenService \<Rightarrow> InterchainTokenService" where
  "remove_trusted_chain c s = s\<lparr>trusted_chains := filter (\<lambda>c'. c' \<noteq> c) (trusted_chains s)\<rparr>"

lemma is_trusted_chain_iff: "is_trusted_chain s c \<longleftrightarrow> c \<in> set (trusted_chains s)"
  by (auto simp: is_trusted_chain_def list_ex_iff)

section \<open>Token managers\<close>

text \<open>\<open>Type\<close>, with the constructors of the source.\<close>

datatype Type = NativeInterchainToken | MintBurnFrom | LockUnlock | LockUnlockFee | MintBurn

fun type_try_from_u8 :: "u8 \<Rightarrow> Type result" where
  "type_try_from_u8 v =
     (if v = 0 then Inr NativeInterchainToken
      else if v = 1 then Inr MintBurnFrom
      else if v = 2 then Inr LockUnlock
      else if v = 3 then Inr LockUnlockFee
      else if v = 4 then Inr MintBurn
      else Inl (ProgramE ProgramError.InvalidInstructionData))"

fun u8_of_type :: "Type \<Rightarrow> u8" where
  "u8_of_type NativeInterchainToken = 0"
| "u8_of_type MintBurnFrom = 1"
| "u8_of_type LockUnlock = 2"
| "u8_of_type LockUnlockFee = 3"
| "u8_of_type MintBurn = 4"

definition bytes32_of_type :: "Type \<Rightarrow> bytes" where
  "bytes32_of_type t = (replicate 32 0)[0 :=
     (case t of NativeInterchainToken \<Rightarrow> 0 | MintBurnFrom \<Rightarrow> 1 | LockUnlock \<Rightarrow> 2 | LockUnlockFee \<Rightarrow> 3 | MintBurn \<Rightarrow> 4)]"

record TokenManager =
  ty :: Type
  tm_token_id :: hash
  token_address :: pubkey
  associated_token_account :: pubkey
  flow_slot :: FlowState
  tm_bump :: u8

definition token_manager_seeds :: "hash \<Rightarrow> pubkey \<Rightarrow> bytes list" where
  "token_manager_seeds token_id its_root = [str_bytes ''token-manager'', its_root, token_id]"

definition interchain_token_seeds :: "hash \<Rightarrow> pubkey \<Rightarrow> bytes list" where
  "interchain_token_seeds token_id its_root = [str_bytes ''interchain-token'', its_root, token_id]"

definition token_manager_init :: "Type \<Rightarrow> hash \<Rightarrow> pubkey \<Rightarrow> pubkey \<Rightarrow> u8 \<Rightarrow> TokenManager" where
  "token_manager_init t token_id mint ata bump =
     \<lparr>ty = t, tm_token_id = token_id, token_address = mint, associated_token_account = ata,
      flow_slot = flow_new None 0, tm_bump = bump\<rparr>"

definition interchain_transfer_execute_seeds :: "pubkey \<Rightarrow> bytes list" where
  "interchain_transfer_execute_seeds destination_program =
     [str_bytes ''interchain-transfer-execute'', destination_program]"

section \<open>Token identifiers\<close>

text \<open>The build feature selects the chain name hash.\<close>

datatype network = DevnetAmplifier | Stagenet | Testnet | Mainnet

fun CHAIN_NAME_HASH :: "network \<Rightarrow> hash" where
  "CHAIN_NAME_HASH DevnetAmplifier =
     [10, 171, 102, 67, 72, 176, 161, 92, 42, 179, 148, 228, 13, 72, 172, 178, 168, 16, 138, 252, 99,
      222, 187, 187, 25, 30, 121, 52, 235, 103, 11, 169]"
| "CHAIN_NAME_HASH Stagenet =
     [67, 5, 100, 18, 3, 83, 80, 76, 10, 94, 7, 166, 63, 92, 244, 200, 233, 32, 8, 242, 33, 188, 46,
      11, 38, 32, 244, 151, 37, 161, 40, 0]"
| "CHAIN_NAME_HASH Testnet =
     [159, 1, 245, 195, 103, 184, 207, 215, 88, 74, 183, 125, 33, 47, 221, 82, 55, 77, 255, 177, 89,
      88, 76, 133, 128, 193, 177, 171, 2, 107, 173, 86]"
| "CHAIN_NAME_HASH Mainnet =
     [110, 239, 41, 235, 176, 58, 162, 20, 74, 26, 107, 98, 18, 206, 116, 245, 4, 163, 77, 183, 153,
      184, 22, 26, 33, 20, 0, 23, 232, 13, 61, 138]"

lemma length_CHAIN_NAME_HASH [simp]: "length (CHAIN_NAME_HASH n) = 32"
  by (cases n) simp_all

definition interchain_token_deployer_salt :: "env \<Rightarrow> network \<Rightarrow> pubkey \<Rightarrow> bytes \<Rightarrow> hash" where
  "interchain_token_deployer_salt env n deployer salt =
     hashv env [str_bytes ''interchain-token-salt'', CHAIN_NAME_HASH n, deployer, salt]"

definition interchain_token_id_internal :: "env \<Rightarrow> bytes \<Rightarrow> hash" where
  "interchain_token_id_internal env salt = hashv env [str_bytes ''interchain-token-id'', salt]"

definition interchain_token_id :: "env \<Rightarrow> network \<Rightarrow> pubkey \<Rightarrow> bytes \<Rightarrow> hash" where
  "interchain_token_id env n deployer salt =
     interchain_token_id_internal env (interchain_token_deployer_salt env n deployer salt)"

definition canonical_interchain_token_deploy_salt :: "env \<Rightarrow> network \<Rightarrow> pubkey \<Rightarrow> hash" where
  "canonical_interchain_token_deploy_salt env n mint =
     hashv env [str_bytes ''canonical-token-salt'', CHAIN_NAME_HASH n, mint]"

definition canonical_interchain_token_id :: "env \<Rightarrow> network \<Rightarrow> pubkey \<Rightarrow> hash" where
  "canonical_interchain_token_id env n mint =
     interchain_token_id_internal env (canonical_interchain_token_deploy_salt env n mint)"

definition linked_token_deployer_salt :: "env \<Rightarrow> network \<Rightarrow> pubkey \<Rightarrow> bytes \<Rightarrow> hash" where
  "linked_token_deployer_salt env n deployer salt =
     hashv env [str_bytes ''solana-custom-token-salt'', CHAIN_NAME_HASH n, deployer, salt]"

section \<open>Truncation of UTF-8 strings\<close>

text \<open>
  A string is its UTF-8 bytes. \<open>is_char_boundary\<close>: the ends, and every byte that is no
  continuation byte.
\<close>

definition is_char_boundary :: "string \<Rightarrow> nat \<Rightarrow> bool" where
  "is_char_boundary s i \<longleftrightarrow> i = 0 \<or> i = length s \<or>
     (i < length s \<and> \<not> (128 \<le> (of_char (s ! i) :: nat) \<and> (of_char (s ! i) :: nat) < 192))"

text \<open>The loop \<open>while !s.is_char_boundary(cut) { cut -= 1 }\<close>; it stops at 0 at the latest.\<close>

fun cut_back :: "string \<Rightarrow> nat \<Rightarrow> nat" where
  "cut_back s 0 = 0"
| "cut_back s (Suc n) = (if is_char_boundary s (Suc n) then Suc n else cut_back s n)"

definition truncate_utf8 :: "string \<Rightarrow> nat \<Rightarrow> string" where
  "truncate_utf8 s max_bytes = (if length s \<le> max_bytes then s else take (cut_back s max_bytes) s)"

section \<open>Hub messages\<close>

record InterchainTransferMsg =
  it_token_id :: hash
  it_source_address :: bytes
  it_destination_address :: bytes
  it_amount :: u64
  it_data :: "bytes option"

record DeployInterchainTokenMsg =
  dm_token_id :: hash
  dm_name :: string
  dm_symbol :: string
  dm_decimals :: u8
  dm_minter :: "bytes option"

record LinkTokenMsg =
  lm_token_id :: hash
  lm_token_manager_type :: u8
  lm_source_token_address :: bytes
  lm_destination_token_address :: bytes
  lm_params :: "bytes option"

record RegisterTokenMetadataMsg =
  rm_decimals :: u8
  rm_token_address :: bytes

datatype ItsMessage =
    InterchainTransferM InterchainTransferMsg
  | DeployInterchainTokenM DeployInterchainTokenMsg
  | LinkTokenM LinkTokenMsg

datatype HubMessage =
    SendToHub string ItsMessage
  | ReceiveFromHub string ItsMessage
  | RegisterTokenMetadataH RegisterTokenMetadataMsg

section \<open>Lemmas\<close>

lemma type_u8_roundtrip: "type_try_from_u8 (u8_of_type t) = Inr t"
  by (cases t) simp_all

lemma type_try_from_u8_Inr: "type_try_from_u8 v = Inr t \<longleftrightarrow> v = u8_of_type t"
  by (cases t) auto

lemma cut_back_le: "cut_back s n \<le> n"
  by (induction n) auto

lemma cut_back_boundary: "is_char_boundary s (cut_back s n)"
  by (induction n) (auto simp: is_char_boundary_def)

lemma cut_back_greatest: "m \<le> n \<Longrightarrow> is_char_boundary s m \<Longrightarrow> m \<le> cut_back s n"
  by (induction n) (auto simp: le_Suc_eq)

end
