(* ===== verification/Its_Flow.thy ===== *)
theory Its_Flow
  imports Its_State
begin

text \<open>
  The flow limiter of a token manager (\<open>state/flow_state.rs\<close>) against its specification: the log of
  the tracked transfers, each with the epoch of its clock, its direction and its amount. The slot of
  the manager keeps the two sums of the current epoch only; the lemmas show that this is enough.
\<close>

section \<open>The specification\<close>

type_synonym flow_log = "(ledger_view \<times> u64 \<times> FlowDirection) list"

definition epoch_of :: "ledger_view \<Rightarrow> nat" where
  "epoch_of view = nat (sint (unix_timestamp view)) div 21600"

definition flow_sum :: "nat \<Rightarrow> FlowDirection \<Rightarrow> flow_log \<Rightarrow> nat" where
  "flow_sum e d xs = (\<Sum>(view, n, d') \<leftarrow> xs. if epoch_of view = e \<and> d' = d then unat n else 0)"

text \<open>What the code does with a log: track one transfer after the other.\<close>

fun track_all :: "flow_log \<Rightarrow> FlowState \<Rightarrow> FlowState result" where
  "track_all [] s = Inr s"
| "track_all ((view, n, d) # xs) s = res_bind (track_token_flow view n d s) (track_all xs)"

text \<open>What the limit promises of one more transfer.\<close>

definition flow_allowed :: "nat \<Rightarrow> flow_log \<Rightarrow> ledger_view \<Rightarrow> u64 \<Rightarrow> FlowDirection \<Rightarrow> bool" where
  "flow_allowed L xs view n d \<longleftrightarrow>
     (let e = epoch_of view; total = flow_sum e d xs + unat n;
          opposite = flow_sum e (case d of In \<Rightarrow> Out | Out \<Rightarrow> In) xs in
      0 \<le> sint (unix_timestamp view) \<and> unat n \<le> L \<and> total < 2 ^ 64 \<and> \<bar>int total - int opposite\<bar> \<le> int L)"

section \<open>One transfer\<close>

lemma flow_sum_snoc: "flow_sum e d (xs @ [(view, n, d')]) = flow_sum e d xs + (if epoch_of view = e \<and> d' = d then unat n else 0)"
  by (simp add: flow_sum_def)

lemma flow_sum_later: "\<forall>x\<in>set xs. epoch_of (fst x) < e \<Longrightarrow> flow_sum e d xs = 0"
  by (induction xs) (auto simp: flow_sum_def)

lemma track_all_snoc: "track_all (xs @ [(view, n, d)]) s = res_bind (track_all xs s) (track_token_flow view n d)"
  by (induction xs arbitrary: s) (auto simp: res_bind_def split: sum.splits)

lemma unat_nonneg: "0 \<le> sint w \<Longrightarrow> unat w = nat (sint w)" for w :: u64
proof -
  assume "0 \<le> sint w"
  then have "\<not> bit (uint w) 63" by (simp add: sint_uint signed_take_bit_nonnegative_iff)
  moreover have "uint w = take_bit (Suc 63) (uint w)" using take_bit_int_eq_self [of "uint w" 64] uint_lt2p [of w] by simp
  ultimately have "uint w = take_bit 63 (uint w)" by (simp only: take_bit_Suc_from_most) simp
  with \<open>\<not> bit (uint w) 63\<close> show ?thesis
    by (simp add: sint_uint signed_take_bit_eq_if_positive)
qed

lemma update_flow_Inr:
  "update_flow limit a b n = Inr x \<longleftrightarrow> unat n \<le> unat limit \<and> unat a + unat n < 2 ^ 64 \<and>
     \<bar>int (unat a + unat n) - int (unat b)\<bar> \<le> int (unat limit) \<and> unat x = unat a + unat n"
proof -
  have "\<not> limit < abs_diff y b \<longleftrightarrow> \<bar>int (unat y) - int (unat b)\<bar> \<le> int (unat limit)" for y
    unfolding unat_abs_diff [symmetric] by (simp add: word_less_nat_alt not_less del: of_nat_unat)
  note cmp = this
  have "update_flow limit a b n = Inr x \<longleftrightarrow> \<not> limit < n \<and> checked_add a n = Some x \<and> \<not> limit < abs_diff x b"
    by (auto simp: update_flow_def res_inv)
  also have "\<dots> \<longleftrightarrow> unat n \<le> unat limit \<and> (unat a + unat n < 2 ^ 64 \<and> unat x = unat a + unat n) \<and>
      \<bar>int (unat x) - int (unat b)\<bar> \<le> int (unat limit)"
    unfolding cmp checked_add_Some by (simp add: word_less_nat_alt not_less del: of_nat_unat)
  finally show ?thesis by (auto simp del: of_nat_unat)
qed

lemma current_flow_epoch_Inr:
  "current_flow_epoch view = Inr e \<longleftrightarrow> 0 \<le> sint (unix_timestamp view) \<and> unat e = epoch_of view"
proof -
  have "current_flow_epoch view = Inr e \<longleftrightarrow>
      0 \<le> sint (unix_timestamp view) \<and> unat (unix_timestamp view div EPOCH_TIME) = unat e"
    unfolding current_flow_epoch_def flow_epoch_with_timestamp_def
    by (auto simp: res_inv checked_div_def EPOCH_TIME_def simp flip: word_unat_eq_iff)
  also have "\<dots> \<longleftrightarrow> 0 \<le> sint (unix_timestamp view) \<and> unat e = epoch_of view"
    by (auto simp: unat_div EPOCH_TIME_def epoch_of_def unat_nonneg)
  finally show ?thesis .
qed

text \<open>The slot agrees with the log: the limit, and the sums of the slot's epoch, the latest of the log.\<close>

definition slot_of :: "u64 \<Rightarrow> flow_log \<Rightarrow> FlowState \<Rightarrow> bool" where
  "slot_of limit xs s \<longleftrightarrow> flow_limit s = Some limit \<and> (\<forall>x\<in>set xs. epoch_of (fst x) \<le> unat (flow_epoch s)) \<and>
     unat (flow_in s) = flow_sum (unat (flow_epoch s)) In xs \<and> unat (flow_out s) = flow_sum (unat (flow_epoch s)) Out xs"

definition rolled :: "u64 \<Rightarrow> FlowState \<Rightarrow> FlowState" where
  "rolled e s = (if flow_epoch s \<noteq> e then s\<lparr>flow_in := 0, flow_out := 0, flow_epoch := e\<rparr> else s)"

lemma slot_of_rolled:
  assumes s: "slot_of limit xs s" and later: "\<forall>x\<in>set xs. epoch_of (fst x) \<le> unat e" and e: "unat (flow_epoch s) \<le> unat e"
  shows "slot_of limit xs (rolled e s)"
proof (cases "flow_epoch s = e")
  case True
  with s show ?thesis by (simp add: rolled_def)
next
  case False
  with e have "unat (flow_epoch s) < unat e" by (metis le_neq_implies_less unsigned_word_eqI)
  with s have "\<forall>x\<in>set xs. epoch_of (fst x) < unat e" by (auto simp: slot_of_def)
  with s False later show ?thesis by (simp add: rolled_def slot_of_def flow_sum_later)
qed

lemma track_rolled:
  "flow_limit s = Some limit \<Longrightarrow> track_token_flow view n d s =
     res_bind (current_flow_epoch view) (\<lambda>e. add_flow n d (rolled e s))"
  by (simp add: track_token_flow_def rolled_def)

lemma add_flow_slot:
  assumes s: "slot_of limit xs s" and e: "unat (flow_epoch s) = epoch_of view"
  shows "(\<exists>s'. add_flow n d s = Inr s') \<longleftrightarrow> unat n \<le> unat limit \<and>
      flow_sum (epoch_of view) d xs + unat n < 2 ^ 64 \<and>
      \<bar>int (flow_sum (epoch_of view) d xs + unat n) - int (flow_sum (epoch_of view) (case d of In \<Rightarrow> Out | Out \<Rightarrow> In) xs)\<bar>
        \<le> int (unat limit)"
    and "add_flow n d s = Inr s' \<Longrightarrow> slot_of limit (xs @ [(view, n, d)]) s'"
proof -
  note sums = s [unfolded slot_of_def e]
  have ex: "(\<exists>x. update_flow limit a b n = Inr x) \<longleftrightarrow> unat n \<le> unat limit \<and> unat a + unat n < 2 ^ 64 \<and>
     \<bar>int (unat a + unat n) - int (unat b)\<bar> \<le> int (unat limit)" for a b
    unfolding update_flow_Inr using unat_add_fits [of a n] by auto
  show "(\<exists>s'. add_flow n d s = Inr s') \<longleftrightarrow> unat n \<le> unat limit \<and>
      flow_sum (epoch_of view) d xs + unat n < 2 ^ 64 \<and>
      \<bar>int (flow_sum (epoch_of view) d xs + unat n) - int (flow_sum (epoch_of view) (case d of In \<Rightarrow> Out | Out \<Rightarrow> In) xs)\<bar>
        \<le> int (unat limit)"
    using ex [of "flow_in s" "flow_out s"] ex [of "flow_out s" "flow_in s"] sums
    by (cases d) (auto simp: add_flow_def res_bind_Inr)
  show "slot_of limit (xs @ [(view, n, d)]) s'" if "add_flow n d s = Inr s'"
    using that sums e by (cases d) (auto simp: add_flow_def res_bind_Inr update_flow_Inr slot_of_def flow_sum_snoc)
qed

section \<open>Logs\<close>

abbreviation clock_sorted :: "flow_log \<Rightarrow> bool" where
  "clock_sorted xs \<equiv> sorted (map (\<lambda>x. epoch_of (fst x)) xs)"

text \<open>An empty log leaves the slot as it was made; the first transfer rolls it to its epoch.\<close>

lemma slot_of_new: "slot_of limit [] (flow_new (Some limit) 0)"
  by (simp add: slot_of_def flow_new_def flow_sum_def)

definition slot_latest :: "flow_log \<Rightarrow> FlowState \<Rightarrow> bool" where
  "slot_latest xs s \<longleftrightarrow> unat (flow_epoch s) = (if xs = [] then 0 else epoch_of (fst (last xs)))"

lemma track_slot:
  assumes s: "slot_of limit xs s" "slot_latest xs s" and sorted: "clock_sorted (xs @ [(view, n, d)])"
  shows "(\<exists>s'. track_token_flow view n d s = Inr s') \<longleftrightarrow> flow_allowed (unat limit) xs view n d"
    and "track_token_flow view n d s = Inr s' \<Longrightarrow> slot_of limit (xs @ [(view, n, d)]) s' \<and> slot_latest (xs @ [(view, n, d)]) s'"
proof -
  have lim: "flow_limit s = Some limit" using s(1) by (simp add: slot_of_def)
  have r: "slot_of limit xs (rolled e s)" if "unat e = epoch_of view" for e
  proof (rule slot_of_rolled [OF s(1)])
    show "\<forall>x\<in>set xs. epoch_of (fst x) \<le> unat e" using sorted that by (auto simp: sorted_append)
    then show "unat (flow_epoch s) \<le> unat e" using s(2) by (auto simp: slot_latest_def)
  qed
  have e: "flow_epoch (rolled e s) = e" for e by (simp add: rolled_def)
  have ex: "\<exists>e. current_flow_epoch view = Inr e" if "0 \<le> sint (unix_timestamp view)"
  proof -
    have "unat (unix_timestamp view div EPOCH_TIME) = epoch_of view"
      using unat_nonneg [OF that] by (simp add: unat_div EPOCH_TIME_def epoch_of_def)
    with that show ?thesis using current_flow_epoch_Inr by blast
  qed
  show "(\<exists>s'. track_token_flow view n d s = Inr s') \<longleftrightarrow> flow_allowed (unat limit) xs view n d"
  proof (cases "0 \<le> sint (unix_timestamp view)")
    case True
    then obtain c where c: "current_flow_epoch view = Inr c" using ex by blast
    then have "unat c = epoch_of view" by (simp add: current_flow_epoch_Inr)
    with add_flow_slot(1) [OF r [OF this], of view n d] c lim True show ?thesis
      by (simp add: track_rolled flow_allowed_def Let_def e)
  next
    case False
    then show ?thesis
      by (auto simp: track_rolled [OF lim] flow_allowed_def res_bind_Inr current_flow_epoch_Inr)
  qed
  show "slot_of limit (xs @ [(view, n, d)]) s' \<and> slot_latest (xs @ [(view, n, d)]) s'"
    if ok: "track_token_flow view n d s = Inr s'"
  proof -
    obtain c where c: "unat c = epoch_of view" and a: "add_flow n d (rolled c s) = Inr s'"
      using ok by (auto simp: track_rolled [OF lim] res_bind_Inr current_flow_epoch_Inr)
    have "flow_epoch s' = c"
      using a lim by (auto simp: add_flow_def res_bind_Inr rolled_def split: FlowDirection.splits option.splits if_splits)
    with add_flow_slot(2) [OF r [OF c] _ a] c e show ?thesis by (simp add: slot_latest_def)
  qed
qed

lemma track_all_slot:
  assumes "track_all xs (flow_new (Some limit) 0) = Inr s" and "clock_sorted xs"
  shows "slot_of limit xs s \<and> slot_latest xs s"
  using assms
proof (induction xs arbitrary: s rule: rev_induct)
  case Nil
  then show ?case using slot_of_new by (auto simp: slot_latest_def flow_new_def)
next
  case (snoc x xs)
  obtain view n d where x: "x = (view, n, d)" by (cases x)
  from snoc.prems obtain s1 where s1: "track_all xs (flow_new (Some limit) 0) = Inr s1" "track_token_flow view n d s1 = Inr s"
    by (auto simp: x track_all_snoc res_bind_Inr)
  have "clock_sorted xs" using snoc.prems(2) by (simp add: sorted_append)
  with snoc.IH [OF s1(1)] have "slot_of limit xs s1" "slot_latest xs s1" by auto
  from track_slot(2) [OF this] snoc.prems(2) s1(2) show ?case by (simp add: x)
qed

end
