(* ===== verification/Its_Tokens.thy ===== *)
theory Its_Tokens
  imports Its_State Gas_Service Executable
begin

text \<open>
  The tokens the interchain token service moves. The ledger is what the program reads of mints,
  token accounts and metadata accounts; the programs that own them (SPL Token, Token-2022, the
  associated token program, Metaplex) are parameters with their documented laws. Then the account
  constraints on mints and token accounts, and the token helpers of \<open>interchain_transfer.rs\<close> and
  \<open>deploy_remote_interchain_token.rs\<close>.
\<close>

section \<open>The token ledger\<close>

text \<open>
  A mint with the extensions the code looks for: the transfer fee configuration (raw), the
  metadata pointer with its optional address, and embedded metadata (name and symbol).
\<close>

record mint =
  mi_program :: pubkey
  mi_authority :: "pubkey option"
  mi_supply :: u64
  mi_decimals :: u8
  mi_fee_config :: "bytes option"
  mi_metadata_pointer :: "pubkey option option"
  mi_token_metadata :: "(string \<times> string) option"

record token_account =
  ta_program :: pubkey
  ta_mint :: pubkey
  ta_owner :: pubkey
  ta_amount :: u64

record mpl_metadata =
  md_mint :: pubkey
  md_name :: string
  md_symbol :: string

text \<open>
  \<open>tl_metadata k\<close> is \<open>None\<close> when the account at \<open>k\<close> is not owned by Metaplex, \<open>Some None\<close> when its
  data does not parse.
\<close>

record token_ledger =
  tl_mints :: "pubkey \<Rightarrow> mint option"
  tl_accounts :: "pubkey \<Rightarrow> token_account option"
  tl_metadata :: "pubkey \<Rightarrow> mpl_metadata option option"

section \<open>The call of a destination program (\<open>executable.rs\<close>)\<close>

definition ITS_EXECUTE_IX_DISC :: bytes where
  "ITS_EXECUTE_IX_DISC = [251, 218, 49, 130, 208, 58, 231, 44]"

record AxelarExecuteWithInterchainTokenPayload =
  ep_command_id :: hash
  ep_source_chain :: string
  ep_source_address :: bytes
  ep_token_id :: hash
  ep_token_mint :: pubkey
  ep_amount :: u64
  ep_data :: bytes

section \<open>Parameters\<close>

text \<open>
  Each operation takes the program it is sent to. An authority comes with its signer flag. A
  destination program cannot call back into the service: the runtime refuses indirect reentrancy.
\<close>

record its_lib =
  its_network :: network
  il_sys :: system_lib
  il_payload :: payload_lib
  token_program_id :: pubkey
  token_2022_id :: pubkey
  associated_token_program_id :: pubkey
  mpl_token_metadata_id :: pubkey
  sysvar_instructions_id :: pubkey
  bpf_loader_id :: pubkey
  bpf_loader_deprecated_id :: pubkey
  loader_v4_id :: pubkey
  MAX_NAME_LENGTH :: nat
  MAX_SYMBOL_LENGTH :: nat
  metadata_address :: "pubkey \<Rightarrow> pubkey"
  ata_address :: "pubkey \<Rightarrow> pubkey \<Rightarrow> pubkey \<Rightarrow> pubkey"
  spl_create_ata :: "pubkey \<Rightarrow> pubkey \<Rightarrow> pubkey \<Rightarrow> token_ledger \<Rightarrow> token_ledger option"
  spl_create_mint :: "pubkey \<Rightarrow> pubkey \<Rightarrow> u8 \<Rightarrow> pubkey \<Rightarrow> pubkey \<Rightarrow> token_ledger \<Rightarrow> token_ledger option"
  spl_mint_to :: "pubkey \<Rightarrow> pubkey \<Rightarrow> pubkey \<Rightarrow> account_info \<Rightarrow> u64 \<Rightarrow> token_ledger \<Rightarrow> token_ledger option"
  spl_burn :: "pubkey \<Rightarrow> pubkey \<Rightarrow> pubkey \<Rightarrow> account_info \<Rightarrow> u64 \<Rightarrow> token_ledger \<Rightarrow> token_ledger option"
  spl_transfer_checked ::
    "pubkey \<Rightarrow> pubkey \<Rightarrow> pubkey \<Rightarrow> pubkey \<Rightarrow> account_info \<Rightarrow> u64 \<Rightarrow> u8 \<Rightarrow> token_ledger \<Rightarrow> token_ledger option"
  spl_transfer_checked_with_fee ::
    "pubkey \<Rightarrow> pubkey \<Rightarrow> pubkey \<Rightarrow> pubkey \<Rightarrow> account_info \<Rightarrow> u64 \<Rightarrow> u8 \<Rightarrow> u64 \<Rightarrow> token_ledger \<Rightarrow> token_ledger option"
  spl_set_mint_authority :: "pubkey \<Rightarrow> pubkey \<Rightarrow> account_info \<Rightarrow> pubkey \<Rightarrow> token_ledger \<Rightarrow> token_ledger option"
  mpl_create :: "pubkey \<Rightarrow> pubkey \<Rightarrow> account_info \<Rightarrow> string \<Rightarrow> string \<Rightarrow> token_ledger \<Rightarrow> token_ledger option"
  calculate_epoch_fee :: "bytes \<Rightarrow> u64 \<Rightarrow> u64 \<Rightarrow> u64 option"
  hub_to_vec :: "HubMessage \<Rightarrow> bytes option"
  hub_try_from_slice :: "bytes \<Rightarrow> HubMessage option"
  destination_call :: "pubkey \<Rightarrow> account_info list \<Rightarrow> bytes \<times> AxelarExecuteWithInterchainTokenPayload \<Rightarrow>
    token_ledger \<times> gateway_state \<times> gas_state \<Rightarrow> (token_ledger \<times> gateway_state \<times> gas_state) option"

text \<open>What an instruction reads of the cluster: the clock and the owner of any account.\<close>

record its_view =
  iv_ledger :: ledger_view
  clock_epoch :: u64
  account_owner :: "pubkey \<Rightarrow> pubkey"

definition spl :: "'a option \<Rightarrow> 'a result" where
  "spl r = ok_or r (ProgramE ExternalFailure)"

lemma spl_Inr [res_inv]: "spl r = Inr x \<longleftrightarrow> r = Some x"
  by (simp add: spl_def res_inv)

section \<open>Account constraints\<close>

text \<open>\<open>Interface<TokenInterface>\<close>.\<close>

definition check_token_program :: "its_lib \<Rightarrow> account_info \<Rightarrow> unit result" where
  "check_token_program lib a =
     require (ai_key a = token_program_id lib \<or> ai_key a = token_2022_id lib) (AnchorE InvalidProgramId)"

text \<open>\<open>InterfaceAccount<Mint>\<close>, without and with \<open>mint::token_program\<close>.\<close>

definition load_mint :: "token_ledger \<Rightarrow> account_info \<Rightarrow> mint result" where
  "load_mint T a = ok_or (tl_mints T (ai_key a)) (AnchorE AccountNotInitialized)"

definition load_mint_of :: "token_ledger \<Rightarrow> account_info \<Rightarrow> account_info \<Rightarrow> mint result" where
  "load_mint_of T program a =
     res_bind (load_mint T a) (\<lambda>m.
     res_bind (require (mi_program m = ai_key program) (AnchorE ConstraintMintTokenProgram)) (\<lambda>_. Inr m))"

text \<open>\<open>InterfaceAccount<TokenAccount>\<close> with \<open>token::mint\<close> and \<open>token::token_program\<close>.\<close>

definition load_token_account ::
    "token_ledger \<Rightarrow> pubkey \<Rightarrow> pubkey \<Rightarrow> account_info \<Rightarrow> token_account result" where
  "load_token_account T program m a =
     res_bind (ok_or (tl_accounts T (ai_key a)) (AnchorE AccountNotInitialized)) (\<lambda>t.
     res_bind (require (ta_mint t = m) (AnchorE ConstraintTokenMint)) (\<lambda>_.
     res_bind (require (ta_program t = program) (AnchorE ConstraintMintTokenProgram)) (\<lambda>_. Inr t)))"

text \<open>\<open>associated_token::mint\<close>, \<open>::authority\<close>, \<open>::token_program\<close> on an existing account.\<close>

definition load_ata ::
    "its_lib \<Rightarrow> token_ledger \<Rightarrow> pubkey \<Rightarrow> pubkey \<Rightarrow> pubkey \<Rightarrow> account_info \<Rightarrow> token_account result" where
  "load_ata lib T wallet m program a =
     res_bind (load_token_account T program m a) (\<lambda>t.
     res_bind (require (ta_owner t = wallet) (AnchorE ConstraintTokenOwner)) (\<lambda>_.
     res_bind (require (ai_key a = ata_address lib wallet m program) (AnchorE ConstraintAssociated)) (\<lambda>_. Inr t)))"

text \<open>\<open>init_if_needed\<close>: create the account at the associated address, or check the existing one.\<close>

definition init_ata_if_needed ::
    "its_lib \<Rightarrow> pubkey \<Rightarrow> pubkey \<Rightarrow> pubkey \<Rightarrow> account_info \<Rightarrow> token_ledger \<Rightarrow> token_ledger result" where
  "init_ata_if_needed lib wallet m program a T =
     res_bind (check_mut a) (\<lambda>_.
     if tl_accounts T (ai_key a) = None
     then res_bind (require (ai_key a = ata_address lib wallet m program) (AnchorE ConstraintAssociated)) (\<lambda>_.
          spl (spl_create_ata lib wallet m program T))
     else res_bind (load_ata lib T wallet m program a) (\<lambda>_. Inr T))"

text \<open>
  \<open>init\<close> of a mint at an address the service derives; the manager is mint and freeze authority.
\<close>

definition init_mint ::
    "env \<Rightarrow> its_lib \<Rightarrow> bytes list \<Rightarrow> account_info \<Rightarrow> u8 \<Rightarrow> pubkey \<Rightarrow> pubkey \<Rightarrow> token_ledger \<Rightarrow> token_ledger result" where
  "init_mint env lib seeds a decimals authority program T =
     res_bind (check_mut a) (\<lambda>_.
     res_bind (check_seeds_canonical env seeds (its_id env) (ai_key a)) (\<lambda>_.
     res_bind (require (tl_mints T (ai_key a) = None) (ProgramE AccountAlreadyInUse)) (\<lambda>_.
     spl (spl_create_mint lib program (ai_key a) decimals authority authority T))))"

section \<open>Reading a mint\<close>

definition get_mint_decimals :: "mint \<Rightarrow> u8" where
  "get_mint_decimals m = mi_decimals m"

definition get_fee_and_decimals :: "its_lib \<Rightarrow> its_view \<Rightarrow> mint \<Rightarrow> u64 \<Rightarrow> (u64 \<times> u8) result" where
  "get_fee_and_decimals lib view m amount =
     res_bind (spl (mi_fee_config m)) (\<lambda>cfg.
     res_bind (ok_or (calculate_epoch_fee lib cfg (clock_epoch view) amount) (ItsE ItsError.ArithmeticOverflow)) (\<lambda>fee.
     Inr (fee, mi_decimals m)))"

definition supports_mint_extensions :: "Type \<Rightarrow> mint \<Rightarrow> bool" where
  "supports_mint_extensions t m =
     (case (t, mi_fee_config m \<noteq> None) of
        (LockUnlock, True) \<Rightarrow> False
      | (LockUnlockFee, False) \<Rightarrow> False
      | _ \<Rightarrow> True)"

definition validate_mint_extension :: "Type \<Rightarrow> mint \<Rightarrow> unit result" where
  "validate_mint_extension t m = require (supports_mint_extensions t m) (ItsE TokenManagerMintExtensionMismatch)"

text \<open>The types whose tokens are minted and burned need the manager as mint authority.\<close>

definition validate_token_manager_type :: "Type \<Rightarrow> mint \<Rightarrow> pubkey \<Rightarrow> unit result" where
  "validate_token_manager_type t m token_manager =
     (case (mi_authority m, t \<in> {NativeInterchainToken, MintBurn, MintBurnFrom}) of
        (None, True) \<Rightarrow> Inl (ItsE ItsError.InvalidInstructionData)
      | (Some k, True) \<Rightarrow>
          if k \<noteq> token_manager then Inl (ItsE ItsError.InvalidInstructionData) else Inr ()
      | _ \<Rightarrow> Inr ())"

definition trim_end_nul :: "string \<Rightarrow> string" where
  "trim_end_nul s = rev (dropWhile (\<lambda>c. c = CHR 0x00) (rev s))"

text \<open>
  Embedded metadata when the mint's pointer names the mint itself, else the Metaplex account.
  \<open>get_token_metadata\<close> is always called with a metadata account.
\<close>

definition get_token_metadata :: "token_ledger \<Rightarrow> pubkey \<Rightarrow> mint \<Rightarrow> pubkey \<Rightarrow> (string \<times> string) result" where
  "get_token_metadata T k m metadata_account =
     (case (if mi_metadata_pointer m = Some (Some k) then mi_token_metadata m else None) of
        Some (name, symbol) \<Rightarrow> Inr (name, symbol)
      | None \<Rightarrow>
          res_bind (ok_or (tl_metadata T metadata_account) (ItsE InvalidMetaplexDataAccount)) (\<lambda>raw.
          res_bind (spl raw) (\<lambda>md.
          res_bind (require (md_mint md = k) (ItsE ItsError.InvalidArgument)) (\<lambda>_.
          Inr (trim_end_nul (md_name md), trim_end_nul (md_symbol md))))))"

text \<open>\<open>is_bpf_loader_owned\<close> and \<open>check_destination_authority\<close>.\<close>

definition ITS_TOKEN_AUTHORITY_SEED :: bytes where
  "ITS_TOKEN_AUTHORITY_SEED = str_bytes ''axelar-its-token-authority''"

definition is_bpf_loader_owned :: "env \<Rightarrow> its_lib \<Rightarrow> pubkey \<Rightarrow> bool" where
  "is_bpf_loader_owned env lib owner \<longleftrightarrow> owner = bpf_loader_id lib \<or> owner = bpf_loader_deprecated_id lib \<or>
     owner = loader_upgradeable_id env \<or> owner = loader_v4_id lib"

definition destination_token_authority_pda :: "env \<Rightarrow> pubkey \<Rightarrow> pubkey result" where
  "destination_token_authority_pda env destination_program =
     res_bind (find_program_address env [ITS_TOKEN_AUTHORITY_SEED] destination_program) (\<lambda>(k, _). Inr k)"

definition check_destination_authority :: "env \<Rightarrow> its_lib \<Rightarrow> its_view \<Rightarrow> pubkey \<Rightarrow> pubkey \<Rightarrow> unit result" where
  "check_destination_authority env lib view destination authority =
     res_bind (if is_bpf_loader_owned env lib (account_owner view destination)
               then destination_token_authority_pda env destination else Inr destination) (\<lambda>expected.
     require (authority = expected) (ItsE InvalidDestinationTokenAuthority))"

text \<open>
  The accounts a destination program takes and the constraints the
  \<open>executable_with_interchain_token_accounts!\<close> macro generates in it; \<open>self\<close> is that program.
\<close>

record AxelarExecuteWithInterchainTokenAccounts =
  et_token_program :: account_info
  et_token_mint :: account_info
  et_destination_token_authority :: account_info
  et_destination_program_ata :: account_info
  et_interchain_transfer_execute :: account_info

definition check_execute_with_token_accounts ::
    "env \<Rightarrow> its_lib \<Rightarrow> pubkey \<Rightarrow> AxelarExecuteWithInterchainTokenAccounts \<Rightarrow> token_ledger \<Rightarrow> unit result" where
  "check_execute_with_token_accounts env lib self a T =
     (let program = et_token_program a; m = ai_key (et_token_mint a) in
     res_bind (check_token_program lib program) (\<lambda>_.
     res_bind (load_mint_of T program (et_token_mint a)) (\<lambda>_.
     res_bind (check_seeds_canonical env [ITS_TOKEN_AUTHORITY_SEED] self
                 (ai_key (et_destination_token_authority a))) (\<lambda>_.
     res_bind (load_ata lib T (ai_key (et_destination_token_authority a)) m (ai_key program)
                 (et_destination_program_ata a)) (\<lambda>_.
     res_bind (check_signer (et_interchain_transfer_execute a)) (\<lambda>_.
     res_bind (check_seeds_canonical env (interchain_transfer_execute_seeds self) (its_id env)
                 (ai_key (et_interchain_transfer_execute a))) (\<lambda>_. Inr ())))))))"

text \<open>The builder's account list, with the executor's address signing.\<close>

definition execute_with_token_metas :: "AxelarExecuteWithInterchainTokenAccounts \<Rightarrow> account_info list" where
  "execute_with_token_metas a =
     [acc (ai_key (et_token_program a)), acc_mut (ai_key (et_token_mint a)),
      acc (ai_key (et_destination_token_authority a)), acc_mut (ai_key (et_destination_program_ata a)),
      acc_signer (ai_key (et_interchain_transfer_execute a))]"

end
