(* ===== verification/Its_Config.thy ===== *)
theory Its_Config
  imports Its_Tokens
begin

text \<open>
  The state of the interchain token service and the instructions that configure it and its
  token managers (\<open>instructions/config\<close>, \<open>instructions/token_manager\<close>, and the transfer of
  mintership), one definition per instruction as in the gateway. The rent of created, resized and
  closed accounts is not modelled.
\<close>

section \<open>State and events\<close>

datatype its_account =
    ItsRootAcc InterchainTokenService
  | UserRolesAcc UserRoles
  | TokenManagerAcc TokenManager

fun its_root_of :: "its_account \<Rightarrow> InterchainTokenService option" where
  "its_root_of (ItsRootAcc s) = Some s"
| "its_root_of _ = None"

fun user_roles_of :: "its_account \<Rightarrow> UserRoles option" where
  "user_roles_of (UserRolesAcc u) = Some u"
| "user_roles_of _ = None"

fun token_manager_of :: "its_account \<Rightarrow> TokenManager option" where
  "token_manager_of (TokenManagerAcc t) = Some t"
| "token_manager_of _ = None"

interpretation iroot: account_kind ItsRootAcc its_root_of
  by unfold_locales (auto elim: its_root_of.elims)

interpretation irole: account_kind UserRolesAcc user_roles_of
  by unfold_locales (auto elim: user_roles_of.elims)

interpretation itm: account_kind TokenManagerAcc token_manager_of
  by unfold_locales (auto elim: token_manager_of.elims)

text \<open>\<open>events.rs\<close>, fields in the order of the source.\<close>

datatype its_event =
    TrustedChainSet string
  | TrustedChainRemoved string
  | InterchainTokenDeployed hash pubkey string string u8 "pubkey option"
  | TokenManagerDeployed hash pubkey u8 "bytes option"
  | InterchainTokenDeploymentStarted hash string string string u8 "pubkey option"
  | TokenMetadataRegistered pubkey u8
  | LinkTokenStarted hash string pubkey bytes u8 "bytes option"
  | FlowLimitSet hash pubkey "u64 option"
  | InterchainTransferReceived hash hash string bytes pubkey pubkey u64 "hash option"
  | InterchainTransferSent hash pubkey pubkey string bytes u64 "hash option"

text \<open>Beside its own accounts, what the service acts on: tokens, the gateway, the gas service.\<close>

record its_state =
  its_accounts :: "its_account accounts"
  its_tokens :: token_ledger
  its_gateway :: gateway_state
  its_gas :: gas_state
  its_events :: "its_event list"

definition its_empty :: "token_ledger \<Rightarrow> gateway_state \<Rightarrow> gas_state \<Rightarrow> its_state" where
  "its_empty T gw gas =
     \<lparr>its_accounts = Map.empty, its_tokens = T, its_gateway = gw, its_gas = gas, its_events = []\<rparr>"

definition put_its :: "pubkey \<Rightarrow> its_account \<Rightarrow> its_state \<Rightarrow> its_state" where
  "put_its k a st = st\<lparr>its_accounts := (its_accounts st)(k \<mapsto> a)\<rparr>"

definition emit_its :: "its_event \<Rightarrow> its_state \<Rightarrow> its_state" where
  "emit_its e st = st\<lparr>its_events := its_events st @ [e]\<rparr>"

lemma its_state_simps [simp]:
  "its_accounts (put_its k a st) = (its_accounts st)(k \<mapsto> a)"
  "its_tokens (put_its k a st) = its_tokens st"
  "its_gateway (put_its k a st) = its_gateway st"
  "its_gas (put_its k a st) = its_gas st"
  "its_events (put_its k a st) = its_events st"
  "its_accounts (emit_its e st) = its_accounts st"
  "its_tokens (emit_its e st) = its_tokens st"
  "its_gateway (emit_its e st) = its_gateway st"
  "its_gas (emit_its e st) = its_gas st"
  "its_events (emit_its e st) = its_events st @ [e]"
  by (simp_all add: put_its_def emit_its_def)

section \<open>Account constraints\<close>

definition check_payer :: "account_info \<Rightarrow> unit result" where
  "check_payer a = res_bind (check_signer a) (\<lambda>_. check_mut a)"

text \<open>\<open>seeds = [SEED_PREFIX], bump = its_root_pda.bump\<close>.\<close>

definition load_its_root :: "env \<Rightarrow> its_state \<Rightarrow> account_info \<Rightarrow> InterchainTokenService result" where
  "load_its_root env st a =
     res_bind (load_acc its_root_of (its_accounts st) (ai_key a)) (\<lambda>s.
     res_bind (check_seeds env its_root_seeds (its_bump s) (its_id env) (ai_key a)) (\<lambda>_. Inr s))"

text \<open>The same with \<open>!its_root_pda.paused\<close>.\<close>

definition load_active_root :: "env \<Rightarrow> its_state \<Rightarrow> account_info \<Rightarrow> InterchainTokenService result" where
  "load_active_root env st a =
     res_bind (load_its_root env st a) (\<lambda>s.
     res_bind (require (\<not> paused s) (ItsE Paused)) (\<lambda>_. Inr s))"

text \<open>The roles of \<open>user\<close> on \<open>resource\<close>, at the address their seeds make.\<close>

definition load_user_roles :: "env \<Rightarrow> its_state \<Rightarrow> pubkey \<Rightarrow> pubkey \<Rightarrow> account_info \<Rightarrow> UserRoles result" where
  "load_user_roles env st resource user a =
     res_bind (load_acc user_roles_of (its_accounts st) (ai_key a)) (\<lambda>u.
     res_bind (check_seeds env (user_roles_seeds resource user) (ur_bump u) (its_id env) (ai_key a)) (\<lambda>_. Inr u))"

text \<open>\<open>init_if_needed\<close>: a fresh account is all zero; the canonical bump comes with it.\<close>

definition init_user_roles_if_needed ::
    "env \<Rightarrow> its_state \<Rightarrow> pubkey \<Rightarrow> pubkey \<Rightarrow> account_info \<Rightarrow> (UserRoles \<times> u8) result" where
  "init_user_roles_if_needed env st resource user a =
     res_bind (check_mut a) (\<lambda>_.
     res_bind (check_seeds_canonical env (user_roles_seeds resource user) (its_id env) (ai_key a)) (\<lambda>bump.
     case its_accounts st (ai_key a) of
       None \<Rightarrow> Inr (\<lparr>roles = 0, ur_bump = 0\<rparr>, bump)
     | Some _ \<Rightarrow> res_bind (load_acc user_roles_of (its_accounts st) (ai_key a)) (\<lambda>u. Inr (u, bump))))"

definition init_user_roles :: "env \<Rightarrow> its_state \<Rightarrow> pubkey \<Rightarrow> pubkey \<Rightarrow> account_info \<Rightarrow> u8 result" where
  "init_user_roles env st resource user a =
     res_bind (check_mut a) (\<lambda>_.
     res_bind (check_seeds_canonical env (user_roles_seeds resource user) (its_id env) (ai_key a)) (\<lambda>bump.
     res_bind (check_vacant (its_accounts st) (ai_key a)) (\<lambda>_. Inr bump)))"

text \<open>A token manager, at the address of a given token id or of the one it stores.\<close>

definition load_token_manager :: "env \<Rightarrow> its_state \<Rightarrow> pubkey \<Rightarrow> hash \<Rightarrow> account_info \<Rightarrow> TokenManager result" where
  "load_token_manager env st root token_id a =
     res_bind (load_acc token_manager_of (its_accounts st) (ai_key a)) (\<lambda>t.
     res_bind (check_seeds env (token_manager_seeds token_id root) (tm_bump t) (its_id env) (ai_key a)) (\<lambda>_. Inr t))"

definition load_own_token_manager :: "env \<Rightarrow> its_state \<Rightarrow> pubkey \<Rightarrow> account_info \<Rightarrow> TokenManager result" where
  "load_own_token_manager env st root a =
     res_bind (load_acc token_manager_of (its_accounts st) (ai_key a)) (\<lambda>t.
     load_token_manager env st root (tm_token_id t) a)"

definition check_its_program_data :: "env \<Rightarrow> its_view \<Rightarrow> pubkey \<Rightarrow> account_info \<Rightarrow> unit result" where
  "check_its_program_data env view payer a =
     res_bind (load_program_data env (iv_ledger view) (its_id env) (ai_key a)) (\<lambda>authority.
     require (authority = Some payer) (ItsE ItsError.InvalidAccountData))"

section \<open>\<open>config\<close>\<close>

record its_Initialize =
  ii_payer :: account_info
  ii_program_data :: account_info
  ii_its_root_pda :: account_info
  ii_system_program :: account_info
  ii_operator :: account_info
  ii_user_roles_account :: account_info

definition its_initialize ::
    "env \<Rightarrow> its_view \<Rightarrow> its_Initialize \<Rightarrow> string \<Rightarrow> string \<Rightarrow> its_state \<Rightarrow> its_state result" where
  "its_initialize env view a cname hub_address st =
     (let rk = ai_key (ii_its_root_pda a); uk = ai_key (ii_user_roles_account a) in
     res_bind (check_payer (ii_payer a)) (\<lambda>_.
     res_bind (check_its_program_data env view (ai_key (ii_payer a)) (ii_program_data a)) (\<lambda>_.
     res_bind (check_mut (ii_its_root_pda a)) (\<lambda>_.
     res_bind (check_seeds_canonical env its_root_seeds (its_id env) rk) (\<lambda>root_bump.
     res_bind (check_vacant (its_accounts st) rk) (\<lambda>_.
     res_bind (check_program (ii_system_program a) (system_program_id env)) (\<lambda>_.
     res_bind (check_signer (ii_operator a)) (\<lambda>_.
     res_bind (init_user_roles env st rk (ai_key (ii_operator a)) (ii_user_roles_account a)) (\<lambda>roles_bump.
     res_bind (require (uk \<noteq> rk) (ProgramE AccountAlreadyInUse)) (\<lambda>_.
     Inr (put_its uk (UserRolesAcc \<lparr>roles = OPERATOR, ur_bump = roles_bump\<rparr>)
           (put_its rk (ItsRootAcc (its_new root_bump cname hub_address)) st))))))))))))"

record SetPauseStatus =
  sps_payer :: account_info
  sps_program_data :: account_info
  sps_its_root_pda :: account_info

definition set_pause_status :: "env \<Rightarrow> its_view \<Rightarrow> SetPauseStatus \<Rightarrow> bool \<Rightarrow> its_state \<Rightarrow> its_state result" where
  "set_pause_status env view a p st =
     res_bind (check_payer (sps_payer a)) (\<lambda>_.
     res_bind (check_its_program_data env view (ai_key (sps_payer a)) (sps_program_data a)) (\<lambda>_.
     res_bind (check_mut (sps_its_root_pda a)) (\<lambda>_.
     res_bind (load_its_root env st (sps_its_root_pda a)) (\<lambda>s.
     res_bind (require (paused s \<noteq> p) (ItsE ItsError.InvalidArgument)) (\<lambda>_.
     Inr (put_its (ai_key (sps_its_root_pda a)) (ItsRootAcc (s\<lparr>paused := p\<rparr>)) st))))))"

record SetTrustedChain =
  stc_payer :: account_info
  stc_user_roles :: "account_info option"
  stc_program_data :: "account_info option"
  stc_its_root_pda :: account_info
  stc_system_program :: account_info

text \<open>The constraints \<open>SetTrustedChain\<close> and \<open>RemoveTrustedChain\<close> share.\<close>

definition load_root_as_admin :: "env \<Rightarrow> its_view \<Rightarrow> SetTrustedChain \<Rightarrow> its_state \<Rightarrow> InterchainTokenService result" where
  "load_root_as_admin env view a st =
     (let payer = ai_key (stc_payer a); rk = ai_key (stc_its_root_pda a) in
     res_bind (check_payer (stc_payer a)) (\<lambda>_.
     res_bind (require (stc_user_roles a \<noteq> None \<or> stc_program_data a \<noteq> None)
                (ItsE ItsError.MissingRequiredSignature)) (\<lambda>_.
     res_bind (case stc_user_roles a of
         None \<Rightarrow> Inr ()
       | Some r \<Rightarrow> res_bind (load_user_roles env st rk payer r) (\<lambda>u.
           require (has_operator_role u) (ItsE MissingOperatorRole))) (\<lambda>_.
     res_bind (case stc_program_data a of
         None \<Rightarrow> Inr () | Some d \<Rightarrow> check_its_program_data env view payer d) (\<lambda>_.
     res_bind (check_mut (stc_its_root_pda a)) (\<lambda>_.
     load_its_root env st (stc_its_root_pda a)))))))"

definition set_trusted_chain :: "env \<Rightarrow> its_view \<Rightarrow> SetTrustedChain \<Rightarrow> string \<Rightarrow> its_state \<Rightarrow> its_state result" where
  "set_trusted_chain env view a c st =
     res_bind (load_root_as_admin env view a st) (\<lambda>s.
     res_bind (require (\<not> is_trusted_chain s c) (ItsE TrustedChainAlreadySet)) (\<lambda>_.
     res_bind (check_program (stc_system_program a) (system_program_id env)) (\<lambda>_.
     Inr (emit_its (TrustedChainSet c)
           (put_its (ai_key (stc_its_root_pda a)) (ItsRootAcc (add_trusted_chain c s)) st)))))"

definition remove_trusted_chain_ix ::
    "env \<Rightarrow> its_view \<Rightarrow> SetTrustedChain \<Rightarrow> string \<Rightarrow> its_state \<Rightarrow> its_state result" where
  "remove_trusted_chain_ix env view a c st =
     res_bind (load_root_as_admin env view a st) (\<lambda>s.
     res_bind (require (is_trusted_chain s c) (ItsE TrustedChainNotSet)) (\<lambda>_.
     res_bind (check_program (stc_system_program a) (system_program_id env)) (\<lambda>_.
     Inr (emit_its (TrustedChainRemoved c)
           (put_its (ai_key (stc_its_root_pda a)) (ItsRootAcc (remove_trusted_chain c s)) st)))))"

record SetFlowLimit =
  sfl_payer :: account_info
  sfl_operator :: account_info
  sfl_its_root_pda :: account_info
  sfl_its_roles_pda :: account_info
  sfl_token_manager_pda :: account_info
  sfl_system_program :: account_info

definition with_flow_limit :: "u64 option \<Rightarrow> TokenManager \<Rightarrow> TokenManager" where
  "with_flow_limit limit t = t\<lparr>flow_slot := (flow_slot t)\<lparr>flow_limit := limit\<rparr>\<rparr>"

definition set_flow_limit :: "env \<Rightarrow> SetFlowLimit \<Rightarrow> u64 option \<Rightarrow> its_state \<Rightarrow> its_state result" where
  "set_flow_limit env a limit st =
     (let rk = ai_key (sfl_its_root_pda a); op = ai_key (sfl_operator a) in
     res_bind (check_payer (sfl_payer a)) (\<lambda>_.
     res_bind (check_signer (sfl_operator a)) (\<lambda>_.
     res_bind (load_its_root env st (sfl_its_root_pda a)) (\<lambda>_.
     res_bind (load_user_roles env st rk op (sfl_its_roles_pda a)) (\<lambda>u.
     res_bind (require (has_operator_role u) (ItsE MissingOperatorRole)) (\<lambda>_.
     res_bind (check_mut (sfl_token_manager_pda a)) (\<lambda>_.
     res_bind (load_own_token_manager env st rk (sfl_token_manager_pda a)) (\<lambda>t.
     res_bind (require (flow_limit (flow_slot t) \<noteq> limit) (ItsE ItsError.InvalidArgument)) (\<lambda>_.
     res_bind (check_program (sfl_system_program a) (system_program_id env)) (\<lambda>_.
     Inr (emit_its (FlowLimitSet (tm_token_id t) op limit)
           (put_its (ai_key (sfl_token_manager_pda a)) (TokenManagerAcc (with_flow_limit limit t)) st))))))))))))"

section \<open>Handing a role over\<close>

text \<open>
  Operatorship of the service, operatorship of a token manager and mintership are handed over
  alike: the origin loses the role, the destination gains it, and an account left without roles is
  closed. When the handler ends the two accounts are written back in the order of the fields.
\<close>

record RoleTransfer =
  rt_system_program :: account_info
  rt_payer :: account_info
  rt_origin_user_account :: account_info
  rt_origin_roles_account :: account_info
  rt_its_root_pda :: account_info
  rt_token_manager_account :: account_info
  rt_destination_user_account :: account_info
  rt_destination_roles_account :: account_info

definition transfer_role ::
    "env \<Rightarrow> pubkey \<Rightarrow> u8 \<Rightarrow> (UserRoles \<Rightarrow> bool) \<Rightarrow> ItsError \<Rightarrow> RoleTransfer \<Rightarrow> its_state \<Rightarrow> its_state result" where
  "transfer_role env resource role has missing a st =
     (let origin = ai_key (rt_origin_user_account a); dest = ai_key (rt_destination_user_account a);
          ok = ai_key (rt_origin_roles_account a); dk = ai_key (rt_destination_roles_account a) in
     res_bind (check_program (rt_system_program a) (system_program_id env)) (\<lambda>_.
     res_bind (check_payer (rt_payer a)) (\<lambda>_.
     res_bind (check_signer (rt_origin_user_account a)) (\<lambda>_.
     res_bind (check_mut (rt_origin_roles_account a)) (\<lambda>_.
     res_bind (load_user_roles env st resource origin (rt_origin_roles_account a)) (\<lambda>u.
     res_bind (require (has u) (ItsE missing)) (\<lambda>_.
     res_bind (require (dest \<noteq> origin) (ItsE ItsError.InvalidArgument)) (\<lambda>_.
     res_bind (init_user_roles_if_needed env st resource dest (rt_destination_roles_account a)) (\<lambda>(v, bump).
     let u' = remove_roles role u; v' = (insert_roles role v)\<lparr>ur_bump := bump\<rparr> in
     Inr (st\<lparr>its_accounts :=
       ((its_accounts st)(ok := (if has_roles u' then Some (UserRolesAcc u') else None)))
         (dk \<mapsto> UserRolesAcc v')\<rparr>))))))))))"

definition its_transfer_operatorship :: "env \<Rightarrow> RoleTransfer \<Rightarrow> its_state \<Rightarrow> its_state result" where
  "its_transfer_operatorship env a st =
     res_bind (load_its_root env st (rt_its_root_pda a)) (\<lambda>_.
     transfer_role env (ai_key (rt_its_root_pda a)) OPERATOR has_operator_role MissingOperatorRole a st)"

definition transfer_token_manager_operatorship :: "env \<Rightarrow> RoleTransfer \<Rightarrow> its_state \<Rightarrow> its_state result" where
  "transfer_token_manager_operatorship env a st =
     res_bind (load_its_root env st (rt_its_root_pda a)) (\<lambda>_.
     res_bind (load_own_token_manager env st (ai_key (rt_its_root_pda a)) (rt_token_manager_account a)) (\<lambda>_.
     transfer_role env (ai_key (rt_token_manager_account a)) OPERATOR has_operator_role MissingOperatorRole a st))"

definition transfer_interchain_token_mintership :: "env \<Rightarrow> RoleTransfer \<Rightarrow> its_state \<Rightarrow> its_state result" where
  "transfer_interchain_token_mintership env a st =
     res_bind (load_its_root env st (rt_its_root_pda a)) (\<lambda>_.
     res_bind (load_own_token_manager env st (ai_key (rt_its_root_pda a)) (rt_token_manager_account a)) (\<lambda>_.
     transfer_role env (ai_key (rt_token_manager_account a)) MINTER has_minter_role MissingMinterRole a st))"

section \<open>\<open>token_manager\<close>\<close>

record FlowLimiterChange =
  fc_system_program :: account_info
  fc_payer :: account_info
  fc_authority_user_account :: account_info
  fc_authority_roles_account :: account_info
  fc_its_root_pda :: account_info
  fc_token_manager_pda :: account_info
  fc_target_user_account :: account_info
  fc_target_roles_account :: account_info

text \<open>The constraints both instructions share: the signer is the manager's operator.\<close>

definition check_manager_operator :: "env \<Rightarrow> FlowLimiterChange \<Rightarrow> its_state \<Rightarrow> unit result" where
  "check_manager_operator env a st =
     (let tk = ai_key (fc_token_manager_pda a) in
     res_bind (check_program (fc_system_program a) (system_program_id env)) (\<lambda>_.
     res_bind (check_payer (fc_payer a)) (\<lambda>_.
     res_bind (check_signer (fc_authority_user_account a)) (\<lambda>_.
     res_bind (load_user_roles env st tk (ai_key (fc_authority_user_account a)) (fc_authority_roles_account a)) (\<lambda>u.
     res_bind (require (has_operator_role u) (ItsE MissingOperatorRole)) (\<lambda>_.
     res_bind (load_its_root env st (fc_its_root_pda a)) (\<lambda>_.
     res_bind (load_own_token_manager env st (ai_key (fc_its_root_pda a)) (fc_token_manager_pda a)) (\<lambda>_. Inr ()))))))))"

definition add_token_manager_flow_limiter :: "env \<Rightarrow> FlowLimiterChange \<Rightarrow> its_state \<Rightarrow> its_state result" where
  "add_token_manager_flow_limiter env a st =
     res_bind (check_manager_operator env a st) (\<lambda>_.
     res_bind (init_user_roles_if_needed env st (ai_key (fc_token_manager_pda a))
                (ai_key (fc_target_user_account a)) (fc_target_roles_account a)) (\<lambda>(v, bump).
     res_bind (require (\<not> has_flow_limiter_role v) (ItsE ItsError.InvalidArgument)) (\<lambda>_.
     Inr (put_its (ai_key (fc_target_roles_account a))
           (UserRolesAcc ((insert_roles FLOW_LIMITER v)\<lparr>ur_bump := bump\<rparr>)) st))))"

definition remove_token_manager_flow_limiter :: "env \<Rightarrow> FlowLimiterChange \<Rightarrow> its_state \<Rightarrow> its_state result" where
  "remove_token_manager_flow_limiter env a st =
     res_bind (check_manager_operator env a st) (\<lambda>_.
     res_bind (check_mut (fc_target_roles_account a)) (\<lambda>_.
     res_bind (load_user_roles env st (ai_key (fc_token_manager_pda a)) (ai_key (fc_target_user_account a))
                (fc_target_roles_account a)) (\<lambda>v.
     res_bind (require (has_flow_limiter_role v) (ItsE MissingFlowLimiterRole)) (\<lambda>_.
     let v' = remove_roles FLOW_LIMITER v in
     Inr (st\<lparr>its_accounts := (its_accounts st)(ai_key (fc_target_roles_account a) :=
           (if has_roles v' then Some (UserRolesAcc v') else None))\<rparr>)))))"

record SetTokenManagerFlowLimit =
  stf_payer :: account_info
  stf_flow_limiter :: account_info
  stf_its_root_pda :: account_info
  stf_token_manager_pda :: account_info
  stf_flow_limiter_roles_pda :: account_info
  stf_system_program :: account_info

definition set_token_manager_flow_limit ::
    "env \<Rightarrow> SetTokenManagerFlowLimit \<Rightarrow> u64 option \<Rightarrow> its_state \<Rightarrow> its_state result" where
  "set_token_manager_flow_limit env a limit st =
     (let tk = ai_key (stf_token_manager_pda a); who = ai_key (stf_flow_limiter a) in
     res_bind (check_payer (stf_payer a)) (\<lambda>_.
     res_bind (check_signer (stf_flow_limiter a)) (\<lambda>_.
     res_bind (load_its_root env st (stf_its_root_pda a)) (\<lambda>_.
     res_bind (check_mut (stf_token_manager_pda a)) (\<lambda>_.
     res_bind (load_own_token_manager env st (ai_key (stf_its_root_pda a)) (stf_token_manager_pda a)) (\<lambda>t.
     res_bind (load_user_roles env st tk who (stf_flow_limiter_roles_pda a)) (\<lambda>u.
     res_bind (require (has_flow_limiter_role u) (ItsE MissingFlowLimiterRole)) (\<lambda>_.
     res_bind (check_program (stf_system_program a) (system_program_id env)) (\<lambda>_.
     Inr (emit_its (FlowLimitSet (tm_token_id t) who limit)
           (put_its tk (TokenManagerAcc (with_flow_limit limit t)) st)))))))))))"

record HandoverMintAuthority =
  hm_payer :: account_info
  hm_authority :: account_info
  hm_mint :: account_info
  hm_its_root :: account_info
  hm_token_manager :: account_info
  hm_minter_roles :: account_info
  hm_token_program :: account_info
  hm_system_program :: account_info

definition handover_mint_authority ::
    "env \<Rightarrow> its_lib \<Rightarrow> HandoverMintAuthority \<Rightarrow> hash \<Rightarrow> its_state \<Rightarrow> its_state result" where
  "handover_mint_authority env lib a token_id st =
     (let tk = ai_key (hm_token_manager a); who = ai_key (hm_authority a); program = hm_token_program a in
     res_bind (check_payer (hm_payer a)) (\<lambda>_.
     res_bind (check_signer (hm_authority a)) (\<lambda>_.
     res_bind (check_mut (hm_mint a)) (\<lambda>_.
     res_bind (load_mint_of (its_tokens st) program (hm_mint a)) (\<lambda>m.
     res_bind (require (mi_authority m = Some who) (AnchorE ConstraintMintMintAuthority)) (\<lambda>_.
     res_bind (load_its_root env st (hm_its_root a)) (\<lambda>_.
     res_bind (load_token_manager env st (ai_key (hm_its_root a)) token_id (hm_token_manager a)) (\<lambda>t.
     res_bind (require (ai_key (hm_mint a) = token_address t) (ItsE TokenMintTokenManagerMissmatch)) (\<lambda>_.
     res_bind (require (ty t = MintBurn \<or> ty t = MintBurnFrom) (ItsE InvalidTokenManagerType)) (\<lambda>_.
     res_bind (init_user_roles_if_needed env st tk who (hm_minter_roles a)) (\<lambda>(v, bump).
     res_bind (check_token_program lib program) (\<lambda>_.
     res_bind (check_program (hm_system_program a) (system_program_id env)) (\<lambda>_.
     res_bind (spl (spl_set_mint_authority lib (ai_key program) (ai_key (hm_mint a)) (hm_authority a) tk (its_tokens st))) (\<lambda>T.
     Inr (put_its (ai_key (hm_minter_roles a)) (UserRolesAcc ((insert_roles MINTER v)\<lparr>ur_bump := bump\<rparr>))
           (st\<lparr>its_tokens := T\<rparr>))))))))))))))))"

end
