(* ===== verification/Its_Deploy.thy ===== *)
theory Its_Deploy
  imports Its_Config
begin

text \<open>
  The instructions that create token managers on this chain and the mint by a minter:
  \<open>interchain_token/deploy_interchain_token.rs\<close>, \<open>interchain_token/mint_interchain_token.rs\<close>,
  \<open>canonical_token/register_canonical_token.rs\<close>, \<open>custom_token/register_custom_token.rs\<close>, and the
  two inbound deployments of \<open>gmp\<close> (\<open>deploy_interchain_token.rs\<close>, \<open>link_token.rs\<close>), which only the
  service itself can call.
\<close>

section \<open>Creating a manager\<close>

text \<open>\<open>init\<close> at the manager's address; the canonical bump results.\<close>

definition init_token_manager :: "env \<Rightarrow> its_state \<Rightarrow> pubkey \<Rightarrow> hash \<Rightarrow> account_info \<Rightarrow> u8 result" where
  "init_token_manager env st root token_id a =
     res_bind (check_mut a) (\<lambda>_.
     res_bind (check_seeds_canonical env (token_manager_seeds token_id root) (its_id env) (ai_key a)) (\<lambda>bump.
     res_bind (check_vacant (its_accounts st) (ai_key a)) (\<lambda>_. Inr bump)))"

text \<open>
  The optional roles account of a new manager. Its seeds name the optional user account, which must
  then be there; the manager's own account is taken already.
\<close>

definition init_optional_roles ::
    "env \<Rightarrow> its_state \<Rightarrow> pubkey \<Rightarrow> ItsError \<Rightarrow> account_info option \<Rightarrow> account_info option \<Rightarrow> u8 option result" where
  "init_optional_roles env st manager missing user roles_pda =
     (case roles_pda of
        None \<Rightarrow> Inr None
      | Some a \<Rightarrow>
          res_bind (ok_or user (ItsE missing)) (\<lambda>u.
          res_bind (init_user_roles env st manager (ai_key u) a) (\<lambda>bump.
          res_bind (require (ai_key a \<noteq> manager) (ProgramE AccountAlreadyInUse)) (\<lambda>_. Inr (Some bump)))))"

definition put_optional_roles :: "account_info option \<Rightarrow> u8 option \<Rightarrow> u8 \<Rightarrow> its_state \<Rightarrow> its_state" where
  "put_optional_roles roles_pda bump r st =
     (case (roles_pda, bump) of
        (Some a, Some b) \<Rightarrow> put_its (ai_key a) (UserRolesAcc \<lparr>roles = r, ur_bump = b\<rparr>) st
      | _ \<Rightarrow> st)"

text \<open>The manager signs with its seeds.\<close>

definition manager_signer :: "env \<Rightarrow> pubkey \<Rightarrow> hash \<Rightarrow> u8 \<Rightarrow> pubkey \<Rightarrow> account_info" where
  "manager_signer env root token_id bump manager =
     grant_signer env (its_id env) (token_manager_seeds token_id root @ [[bump]]) (acc manager)"

section \<open>\<open>deploy_interchain_token.rs\<close>\<close>

record DeployInterchainToken =
  di_payer :: account_info
  di_deployer :: account_info
  di_system_program :: account_info
  di_its_root_pda :: account_info
  di_token_manager_pda :: account_info
  di_token_mint :: account_info
  di_token_manager_ata :: account_info
  di_token_program :: account_info
  di_associated_token_program :: account_info
  di_sysvar_instructions :: account_info
  di_mpl_token_metadata_program :: account_info
  di_mpl_token_metadata_account :: account_info
  di_deployer_ata :: account_info
  di_minter :: "account_info option"
  di_minter_roles_pda :: "account_info option"

text \<open>The programs and addresses both deployments of a native token name.\<close>

definition check_metadata_accounts ::
    "its_lib \<Rightarrow> account_info \<Rightarrow> account_info \<Rightarrow> account_info \<Rightarrow> account_info \<Rightarrow> account_info \<Rightarrow> pubkey \<Rightarrow> unit result" where
  "check_metadata_accounts lib program atp sysvar mpl md token_mint =
     res_bind (check_program program (token_2022_id lib)) (\<lambda>_.
     res_bind (check_program atp (associated_token_program_id lib)) (\<lambda>_.
     res_bind (require (ai_key sysvar = sysvar_instructions_id lib) (AnchorE ConstraintAddress)) (\<lambda>_.
     res_bind (require (ai_key mpl = mpl_token_metadata_id lib) (AnchorE ConstraintAddress)) (\<lambda>_.
     res_bind (check_mut md) (\<lambda>_.
     require (ai_key md = metadata_address lib token_mint) (AnchorE ConstraintAddress))))))"

text \<open>The match on the minter's accounts and the initial supply.\<close>

definition check_minter_config :: "account_info option \<Rightarrow> u8 option \<Rightarrow> u64 \<Rightarrow> unit result" where
  "check_minter_config minter roles_bump initial_supply =
     (case (minter, roles_bump) of
        (Some _, Some _) \<Rightarrow> Inr ()
      | (None, None) \<Rightarrow> if initial_supply = 0 then Inl (ItsE ZeroSupplyToken) else Inr ()
      | _ \<Rightarrow> Inl (ItsE ItsError.InvalidAccountData))"

definition NATIVE_MINTER_ROLES :: u8 where
  "NATIVE_MINTER_ROLES = OPERATOR OR FLOW_LIMITER OR MINTER"

definition deploy_interchain_token ::
    "env \<Rightarrow> its_lib \<Rightarrow> DeployInterchainToken \<Rightarrow> bytes \<Rightarrow> string \<Rightarrow> string \<Rightarrow> u8 \<Rightarrow> u64 \<Rightarrow> its_state \<Rightarrow> its_state result" where
  "deploy_interchain_token env lib a salt name symbol decimals initial_supply st =
     (let rk = ai_key (di_its_root_pda a); tk = ai_key (di_token_manager_pda a); mk = ai_key (di_token_mint a);
          program = ai_key (di_token_program a); deployer = ai_key (di_deployer a);
          token_id = interchain_token_id env (its_network lib) deployer salt in
     res_bind (check_payer (di_payer a)) (\<lambda>_.
     res_bind (check_signer (di_deployer a)) (\<lambda>_.
     res_bind (check_program (di_system_program a) (system_program_id env)) (\<lambda>_.
     res_bind (load_active_root env st (di_its_root_pda a)) (\<lambda>_.
     res_bind (init_token_manager env st rk token_id (di_token_manager_pda a)) (\<lambda>bump.
     res_bind (check_metadata_accounts lib (di_token_program a) (di_associated_token_program a)
        (di_sysvar_instructions a) (di_mpl_token_metadata_program a) (di_mpl_token_metadata_account a) mk) (\<lambda>_.
     res_bind (init_mint env lib (interchain_token_seeds token_id rk) (di_token_mint a) decimals tk program
        (its_tokens st)) (\<lambda>T1.
     res_bind (init_ata_if_needed lib tk mk program (di_token_manager_ata a) T1) (\<lambda>T2.
     res_bind (init_ata_if_needed lib deployer mk program (di_deployer_ata a) T2) (\<lambda>T3.
     res_bind (init_optional_roles env st tk MinterNotProvided (di_minter a) (di_minter_roles_pda a)) (\<lambda>roles_bump.
     res_bind (require (\<not> (MAX_NAME_LENGTH lib < length name \<or> MAX_SYMBOL_LENGTH lib < length symbol))
        (ItsE ItsError.InvalidArgument)) (\<lambda>_.
     res_bind (check_minter_config (di_minter a) roles_bump initial_supply) (\<lambda>_.
     let signer = manager_signer env rk token_id bump tk in
     res_bind (if 0 < initial_supply
        then spl (spl_mint_to lib program mk (ai_key (di_deployer_ata a)) signer initial_supply T3)
        else Inr T3) (\<lambda>T4.
     res_bind (spl (mpl_create lib (ai_key (di_mpl_token_metadata_account a)) mk signer name symbol T4)) (\<lambda>T5.
     Inr (emit_its (InterchainTokenDeployed token_id mk name symbol decimals (map_option ai_key (di_minter a)))
         (emit_its (TokenManagerDeployed token_id tk (u8_of_type NativeInterchainToken)
            (map_option ai_key (di_minter a)))
         (put_optional_roles (di_minter_roles_pda a) roles_bump NATIVE_MINTER_ROLES
         (put_its tk (TokenManagerAcc (token_manager_init NativeInterchainToken token_id mk
            (ai_key (di_token_manager_ata a)) bump)) (st\<lparr>its_tokens := T5\<rparr>))))))))))))))))))))"

section \<open>\<open>mint_interchain_token.rs\<close>\<close>

record MintInterchainToken =
  mt_mint :: account_info
  mt_destination_account :: account_info
  mt_its_root_pda :: account_info
  mt_token_manager_pda :: account_info
  mt_minter :: account_info
  mt_minter_roles_pda :: account_info
  mt_token_program :: account_info

definition mint_interchain_token ::
    "env \<Rightarrow> its_lib \<Rightarrow> MintInterchainToken \<Rightarrow> u64 \<Rightarrow> its_state \<Rightarrow> its_state result" where
  "mint_interchain_token env lib a amount st =
     (let rk = ai_key (mt_its_root_pda a); tk = ai_key (mt_token_manager_pda a); mk = ai_key (mt_mint a);
          program = ai_key (mt_token_program a); T = its_tokens st in
     res_bind (check_mut (mt_mint a)) (\<lambda>_.
     res_bind (load_mint_of T (mt_token_program a) (mt_mint a)) (\<lambda>_.
     res_bind (check_mut (mt_destination_account a)) (\<lambda>_.
     res_bind (load_token_account T program mk (mt_destination_account a)) (\<lambda>_.
     res_bind (load_active_root env st (mt_its_root_pda a)) (\<lambda>_.
     res_bind (check_mut (mt_token_manager_pda a)) (\<lambda>_.
     res_bind (load_own_token_manager env st rk (mt_token_manager_pda a)) (\<lambda>t.
     res_bind (require (token_address t = mk) (ItsE TokenMintTokenManagerMissmatch)) (\<lambda>_.
     res_bind (check_signer (mt_minter a)) (\<lambda>_.
     res_bind (load_user_roles env st tk (ai_key (mt_minter a)) (mt_minter_roles_pda a)) (\<lambda>u.
     res_bind (require (has_minter_role u) (ItsE MissingMinterRole)) (\<lambda>_.
     res_bind (check_token_program lib (mt_token_program a)) (\<lambda>_.
     res_bind (require (amount \<noteq> 0) (ItsE InvalidAmount)) (\<lambda>_.
     res_bind (spl (spl_mint_to lib program mk (ai_key (mt_destination_account a))
        (manager_signer env rk (tm_token_id t) (tm_bump t) tk) amount T)) (\<lambda>T'.
     Inr (st\<lparr>its_tokens := T'\<rparr>))))))))))))))))"

section \<open>\<open>register_canonical_token.rs\<close>\<close>

record RegisterCanonicalInterchainToken =
  rc_payer :: account_info
  rc_metadata_account :: account_info
  rc_system_program :: account_info
  rc_its_root_pda :: account_info
  rc_token_manager_pda :: account_info
  rc_token_mint :: account_info
  rc_token_manager_ata :: account_info
  rc_token_program :: account_info
  rc_associated_token_program :: account_info

definition register_canonical_interchain_token ::
    "env \<Rightarrow> its_lib \<Rightarrow> RegisterCanonicalInterchainToken \<Rightarrow> its_state \<Rightarrow> its_state result" where
  "register_canonical_interchain_token env lib a st =
     (let rk = ai_key (rc_its_root_pda a); tk = ai_key (rc_token_manager_pda a); mk = ai_key (rc_token_mint a);
          program = ai_key (rc_token_program a);
          token_id = canonical_interchain_token_id env (its_network lib) mk in
     res_bind (check_payer (rc_payer a)) (\<lambda>_.
     res_bind (require (ai_key (rc_metadata_account a) = metadata_address lib mk) (AnchorE ConstraintAddress)) (\<lambda>_.
     res_bind (check_program (rc_system_program a) (system_program_id env)) (\<lambda>_.
     res_bind (load_active_root env st (rc_its_root_pda a)) (\<lambda>_.
     res_bind (init_token_manager env st rk token_id (rc_token_manager_pda a)) (\<lambda>bump.
     res_bind (load_mint_of (its_tokens st) (rc_token_program a) (rc_token_mint a)) (\<lambda>m.
     res_bind (init_ata_if_needed lib tk mk program (rc_token_manager_ata a) (its_tokens st)) (\<lambda>T.
     res_bind (check_token_program lib (rc_token_program a)) (\<lambda>_.
     res_bind (check_program (rc_associated_token_program a) (associated_token_program_id lib)) (\<lambda>_.
     res_bind (case get_token_metadata T mk m (ai_key (rc_metadata_account a)) of
         Inl _ \<Rightarrow> Inl (ItsE ItsError.InvalidAccountData) | Inr _ \<Rightarrow> Inr ()) (\<lambda>_.
     let t = (if mi_fee_config m \<noteq> None then LockUnlockFee else LockUnlock) in
     Inr (emit_its (TokenManagerDeployed token_id tk (u8_of_type t) None)
         (put_its tk (TokenManagerAcc (token_manager_init t token_id mk
            (ai_key (rc_token_manager_ata a)) bump)) (st\<lparr>its_tokens := T\<rparr>))))))))))))))"

section \<open>\<open>register_custom_token.rs\<close>\<close>

record RegisterCustomToken =
  ru_payer :: account_info
  ru_deployer :: account_info
  ru_system_program :: account_info
  ru_its_root_pda :: account_info
  ru_token_manager_pda :: account_info
  ru_token_mint :: account_info
  ru_token_manager_ata :: account_info
  ru_token_program :: account_info
  ru_associated_token_program :: account_info
  ru_operator :: "account_info option"
  ru_operator_roles_pda :: "account_info option"

text \<open>The operator argument and the operator's two accounts come together or not at all.\<close>

definition check_operator_config :: "pubkey option \<Rightarrow> account_info option \<Rightarrow> account_info option \<Rightarrow> unit result" where
  "check_operator_config operator operator_account roles_pda =
     (case (operator, operator_account, roles_pda) of
        (Some k, Some a, Some _) \<Rightarrow> require (k = ai_key a) (ItsE ItsError.InvalidArgument)
      | (None, None, None) \<Rightarrow> Inr ()
      | _ \<Rightarrow> Inl (ItsE ItsError.InvalidArgument))"

definition LINKED_OPERATOR_ROLES :: u8 where
  "LINKED_OPERATOR_ROLES = OPERATOR OR FLOW_LIMITER"

definition register_custom_token ::
    "env \<Rightarrow> its_lib \<Rightarrow> RegisterCustomToken \<Rightarrow> bytes \<Rightarrow> Type \<Rightarrow> pubkey option \<Rightarrow> its_state \<Rightarrow> its_state result" where
  "register_custom_token env lib a salt t operator st =
     (let rk = ai_key (ru_its_root_pda a); tk = ai_key (ru_token_manager_pda a); mk = ai_key (ru_token_mint a);
          program = ai_key (ru_token_program a);
          token_id = interchain_token_id_internal env
            (linked_token_deployer_salt env (its_network lib) (ai_key (ru_deployer a)) salt) in
     res_bind (check_payer (ru_payer a)) (\<lambda>_.
     res_bind (check_signer (ru_deployer a)) (\<lambda>_.
     res_bind (check_program (ru_system_program a) (system_program_id env)) (\<lambda>_.
     res_bind (load_active_root env st (ru_its_root_pda a)) (\<lambda>_.
     res_bind (init_token_manager env st rk token_id (ru_token_manager_pda a)) (\<lambda>bump.
     res_bind (load_mint_of (its_tokens st) (ru_token_program a) (ru_token_mint a)) (\<lambda>m.
     res_bind (init_ata_if_needed lib tk mk program (ru_token_manager_ata a) (its_tokens st)) (\<lambda>T.
     res_bind (check_token_program lib (ru_token_program a)) (\<lambda>_.
     res_bind (check_program (ru_associated_token_program a) (associated_token_program_id lib)) (\<lambda>_.
     res_bind (init_optional_roles env st tk OperatorNotProvided (ru_operator a) (ru_operator_roles_pda a)) (\<lambda>roles_bump.
     res_bind (require (t \<noteq> NativeInterchainToken) (ItsE ItsError.InvalidInstructionData)) (\<lambda>_.
     res_bind (check_operator_config operator (ru_operator a) (ru_operator_roles_pda a)) (\<lambda>_.
     res_bind (validate_mint_extension t m) (\<lambda>_.
     Inr (emit_its (TokenManagerDeployed token_id tk (u8_of_type t) operator)
         (put_optional_roles (ru_operator_roles_pda a) roles_bump LINKED_OPERATOR_ROLES
         (put_its tk (TokenManagerAcc (token_manager_init t token_id mk
            (ai_key (ru_token_manager_ata a)) bump)) (st\<lparr>its_tokens := T\<rparr>))))))))))))))))))"

section \<open>\<open>gmp/deploy_interchain_token.rs\<close>\<close>

text \<open>\<open>signer\<close> on the service's root: only the service itself can call.\<close>

definition load_self_root :: "env \<Rightarrow> its_state \<Rightarrow> account_info \<Rightarrow> InterchainTokenService result" where
  "load_self_root env st a =
     res_bind (load_active_root env st a) (\<lambda>s.
     res_bind (require (ai_signer a) (AnchorE ConstraintSigner)) (\<lambda>_. Inr s))"

record ExecuteDeployInterchainToken =
  ed_payer :: account_info
  ed_system_program :: account_info
  ed_its_root_pda :: account_info
  ed_token_manager_pda :: account_info
  ed_token_mint :: account_info
  ed_token_manager_ata :: account_info
  ed_token_program :: account_info
  ed_associated_token_program :: account_info
  ed_sysvar_instructions :: account_info
  ed_mpl_token_metadata_program :: account_info
  ed_mpl_token_metadata_account :: account_info
  ed_minter :: "account_info option"
  ed_minter_roles_pda :: "account_info option"

definition check_inbound_minter :: "bytes \<Rightarrow> account_info option \<Rightarrow> account_info option \<Rightarrow> unit result" where
  "check_inbound_minter minter minter_account roles_pda =
     (case (minter = [], minter_account, roles_pda) of
        (True, None, None) \<Rightarrow> Inr ()
      | (False, Some a, Some _) \<Rightarrow> require (ai_key a = minter) (ItsE ItsError.InvalidArgument)
      | _ \<Rightarrow> Inl (ItsE ItsError.InvalidArgument))"

definition execute_deploy_interchain_token ::
    "env \<Rightarrow> its_lib \<Rightarrow> ExecuteDeployInterchainToken \<Rightarrow> hash \<Rightarrow> string \<Rightarrow> string \<Rightarrow> u8 \<Rightarrow> bytes \<Rightarrow> its_state \<Rightarrow>
     its_state result" where
  "execute_deploy_interchain_token env lib a token_id name symbol decimals minter st =
     (let rk = ai_key (ed_its_root_pda a); tk = ai_key (ed_token_manager_pda a); mk = ai_key (ed_token_mint a);
          program = ai_key (ed_token_program a) in
     res_bind (check_payer (ed_payer a)) (\<lambda>_.
     res_bind (check_program (ed_system_program a) (system_program_id env)) (\<lambda>_.
     res_bind (load_self_root env st (ed_its_root_pda a)) (\<lambda>_.
     res_bind (init_token_manager env st rk token_id (ed_token_manager_pda a)) (\<lambda>bump.
     res_bind (check_metadata_accounts lib (ed_token_program a) (ed_associated_token_program a)
        (ed_sysvar_instructions a) (ed_mpl_token_metadata_program a) (ed_mpl_token_metadata_account a) mk) (\<lambda>_.
     res_bind (init_mint env lib (interchain_token_seeds token_id rk) (ed_token_mint a) decimals tk program
        (its_tokens st)) (\<lambda>T1.
     res_bind (init_ata_if_needed lib tk mk program (ed_token_manager_ata a) T1) (\<lambda>T2.
     res_bind (init_optional_roles env st tk MinterNotProvided (ed_minter a) (ed_minter_roles_pda a)) (\<lambda>roles_bump.
     let name' = truncate_utf8 name (MAX_NAME_LENGTH lib); symbol' = truncate_utf8 symbol (MAX_SYMBOL_LENGTH lib) in
     res_bind (check_inbound_minter minter (ed_minter a) (ed_minter_roles_pda a)) (\<lambda>_.
     res_bind (spl (mpl_create lib (ai_key (ed_mpl_token_metadata_account a)) mk
        (manager_signer env rk token_id bump tk) name' symbol' T2)) (\<lambda>T3.
     Inr (emit_its (InterchainTokenDeployed token_id mk name' symbol' decimals (map_option ai_key (ed_minter a)))
         (emit_its (TokenManagerDeployed token_id tk (u8_of_type NativeInterchainToken)
            (map_option ai_key (ed_minter a)))
         (put_optional_roles (ed_minter_roles_pda a) roles_bump NATIVE_MINTER_ROLES
         (put_its tk (TokenManagerAcc (token_manager_init NativeInterchainToken token_id mk
            (ai_key (ed_token_manager_ata a)) bump)) (st\<lparr>its_tokens := T3\<rparr>))))))))))))))))"

section \<open>\<open>gmp/link_token.rs\<close>\<close>

record ExecuteLinkToken =
  el_payer :: account_info
  el_system_program :: account_info
  el_its_root_pda :: account_info
  el_token_manager_pda :: account_info
  el_token_mint :: account_info
  el_token_manager_ata :: account_info
  el_token_program :: account_info
  el_associated_token_program :: account_info
  el_operator :: "account_info option"
  el_operator_roles_pda :: "account_info option"

definition execute_link_token ::
    "env \<Rightarrow> its_lib \<Rightarrow> ExecuteLinkToken \<Rightarrow> hash \<Rightarrow> pubkey \<Rightarrow> u8 \<Rightarrow> bytes \<Rightarrow> its_state \<Rightarrow> its_state result" where
  "execute_link_token env lib a token_id destination_token_address type_byte link_params st =
     (let rk = ai_key (el_its_root_pda a); tk = ai_key (el_token_manager_pda a); mk = ai_key (el_token_mint a);
          program = ai_key (el_token_program a);
          operator = (if length link_params = 32 then Some link_params else None) in
     res_bind (check_payer (el_payer a)) (\<lambda>_.
     res_bind (check_program (el_system_program a) (system_program_id env)) (\<lambda>_.
     res_bind (load_self_root env st (el_its_root_pda a)) (\<lambda>_.
     res_bind (init_token_manager env st rk token_id (el_token_manager_pda a)) (\<lambda>bump.
     res_bind (load_mint_of (its_tokens st) (el_token_program a) (el_token_mint a)) (\<lambda>m.
     res_bind (init_ata_if_needed lib tk mk program (el_token_manager_ata a) (its_tokens st)) (\<lambda>T.
     res_bind (check_token_program lib (el_token_program a)) (\<lambda>_.
     res_bind (check_program (el_associated_token_program a) (associated_token_program_id lib)) (\<lambda>_.
     res_bind (init_optional_roles env st tk OperatorNotProvided (el_operator a) (el_operator_roles_pda a)) (\<lambda>roles_bump.
     res_bind (case type_try_from_u8 type_byte of
         Inl _ \<Rightarrow> Inl (ItsE ItsError.InvalidInstructionData) | Inr t \<Rightarrow> Inr t) (\<lambda>t.
     res_bind (require (t \<noteq> NativeInterchainToken) (ItsE ItsError.InvalidInstructionData)) (\<lambda>_.
     res_bind (require (destination_token_address = mk) (ItsE InvalidTokenMint)) (\<lambda>_.
     res_bind (check_operator_config operator (el_operator a) (el_operator_roles_pda a)) (\<lambda>_.
     res_bind (validate_mint_extension t m) (\<lambda>_.
     Inr (emit_its (TokenManagerDeployed token_id tk (u8_of_type t) operator)
         (put_optional_roles (el_operator_roles_pda a) roles_bump LINKED_OPERATOR_ROLES
         (put_its tk (TokenManagerAcc (token_manager_init t token_id mk
            (ai_key (el_token_manager_ata a)) bump)) (st\<lparr>its_tokens := T\<rparr>)))))))))))))))))))"

end
