(* ===== verification/Its_Outbound.thy ===== *)
theory Its_Outbound
  imports Its_Deploy
begin

text \<open>
  What the service sends to the hub: the payment of gas and the contract call (\<open>gmp.rs\<close>), the
  transfer of tokens (\<open>interchain_token/interchain_transfer.rs\<close>) and the four instructions that
  announce tokens to other chains (\<open>deploy_remote_interchain_token.rs\<close>,
  \<open>deploy_remote_canonical_token.rs\<close>, \<open>register_token_metadata.rs\<close>, \<open>custom_token/link_token.rs\<close>).
\<close>

section \<open>Sending to the hub\<close>

text \<open>
  \<open>GMPAccounts\<close>. The \<open>program\<close> account behind \<open>its_program\<close> is the service itself: the event an
  instruction emits before is a call to it.
\<close>

record GMPAccounts =
  gm_payer :: account_info
  gm_system_program :: account_info
  gm_gateway_program :: account_info
  gm_gateway_root_pda :: account_info
  gm_call_contract_signing_pda :: account_info
  gm_gas_service :: account_info
  gm_gas_treasury :: account_info

text \<open>\<open>Program<SolanaAxelarGateway>\<close>, \<open>Program<SolanaAxelarGasService>\<close> and the writable treasury.\<close>

definition check_gmp_accounts :: "env \<Rightarrow> GMPAccounts \<Rightarrow> unit result" where
  "check_gmp_accounts env g =
     res_bind (check_payer (gm_payer g)) (\<lambda>_.
     res_bind (check_program (gm_gateway_program g) (gateway_id env)) (\<lambda>_.
     res_bind (check_mut (gm_gas_treasury g)) (\<lambda>_.
     res_bind (check_program (gm_gas_service g) (gas_service_id env)) (\<lambda>_.
     check_program (gm_system_program g) (system_program_id env)))))"

definition send_to_hub ::
    "env \<Rightarrow> its_lib \<Rightarrow> GMPAccounts \<Rightarrow> string \<Rightarrow> HubMessage \<Rightarrow> u64 \<Rightarrow> its_state \<Rightarrow> its_state result" where
  "send_to_hub env lib g hub_address payload gas_value st =
     res_bind (case payload of
         ReceiveFromHub _ _ \<Rightarrow> Inl (ItsE ItsError.InvalidInstructionData) | _ \<Rightarrow> Inr ()) (\<lambda>_.
     res_bind (ok_or (hub_to_vec lib payload) (ItsE SerializationError)) (\<lambda>bs.
     res_bind (if 0 < gas_value
        then pay_gas env (il_sys lib)
               \<lparr>pg_sender = gm_payer g, pg_treasury = gm_gas_treasury g, pg_system_program = gm_system_program g\<rparr>
               ITS_HUB_CHAIN_NAME hub_address (keccak env bs) gas_value (ai_key (gm_payer g)) (its_gas st)
        else Inr (its_gas st)) (\<lambda>gas.
     res_bind (CallContractSigner_find_pda env (its_id env)) (\<lambda>(expected, bump).
     res_bind (require (expected = ai_key (gm_call_contract_signing_pda g)) (ItsE ItsError.InvalidAccountData)) (\<lambda>_.
     res_bind (call_contract env
        \<lparr>cc_caller = acc (its_id env),
         cc_signing_pda = Some (grant_signer env (its_id env) [CALL_CONTRACT_SEED, [bump]]
           (gm_call_contract_signing_pda g)),
         cc_gateway_root_pda = gm_gateway_root_pda g\<rparr>
        ITS_HUB_CHAIN_NAME hub_address bs bump (its_gateway st)) (\<lambda>gw.
     Inr (st\<lparr>its_gas := gas, its_gateway := gw\<rparr>)))))))"

definition send_to_hub_wrap ::
    "env \<Rightarrow> its_lib \<Rightarrow> GMPAccounts \<Rightarrow> string \<Rightarrow> ItsMessage \<Rightarrow> string \<Rightarrow> u64 \<Rightarrow> its_state \<Rightarrow> its_state result" where
  "send_to_hub_wrap env lib g hub_address message dest_chain gas_value st =
     send_to_hub env lib g hub_address (SendToHub dest_chain message) gas_value st"

section \<open>\<open>interchain_transfer.rs\<close>\<close>

record InterchainTransfer =
  xt_gmp :: GMPAccounts
  xt_authority :: account_info
  xt_its_root_pda :: account_info
  xt_token_manager_pda :: account_info
  xt_token_program :: account_info
  xt_token_mint :: account_info
  xt_authority_token_account :: account_info
  xt_token_manager_ata :: account_info

text \<open>The account constraints; the results are the service, the manager and the mint.\<close>

definition check_interchain_transfer ::
    "env \<Rightarrow> its_lib \<Rightarrow> InterchainTransfer \<Rightarrow> hash \<Rightarrow> string \<Rightarrow> its_state \<Rightarrow>
     (InterchainTokenService \<times> TokenManager \<times> mint) result" where
  "check_interchain_transfer env lib a token_id dest_chain st =
     (let rk = ai_key (xt_its_root_pda a); tk = ai_key (xt_token_manager_pda a); mk = ai_key (xt_token_mint a);
          program = ai_key (xt_token_program a); T = its_tokens st in
     res_bind (check_gmp_accounts env (xt_gmp a)) (\<lambda>_.
     res_bind (check_signer (xt_authority a)) (\<lambda>_.
     res_bind (load_active_root env st (xt_its_root_pda a)) (\<lambda>s.
     res_bind (require (is_trusted_chain s dest_chain) (ItsE UntrustedDestinationChain)) (\<lambda>_.
     res_bind (check_mut (xt_token_manager_pda a)) (\<lambda>_.
     res_bind (load_token_manager env st rk token_id (xt_token_manager_pda a)) (\<lambda>t.
     res_bind (require (token_address t = mk) (ItsE TokenMintTokenManagerMissmatch)) (\<lambda>_.
     res_bind (check_token_program lib (xt_token_program a)) (\<lambda>_.
     res_bind (check_mut (xt_token_mint a)) (\<lambda>_.
     res_bind (load_mint_of T (xt_token_program a) (xt_token_mint a)) (\<lambda>m.
     res_bind (check_mut (xt_authority_token_account a)) (\<lambda>_.
     res_bind (load_token_account T program mk (xt_authority_token_account a)) (\<lambda>ata.
     res_bind (require (ta_owner ata = ai_key (xt_authority a)) (AnchorE ConstraintTokenOwner)) (\<lambda>_.
     res_bind (check_mut (xt_token_manager_ata a)) (\<lambda>_.
     res_bind (load_ata lib T tk mk program (xt_token_manager_ata a)) (\<lambda>_.
     Inr (s, t, m)))))))))))))))))"

text \<open>
  Who sends: a program, proved by the seeds of its signing address, or a user, whose account
  belongs to the system program.
\<close>

definition transfer_source_address ::
    "env \<Rightarrow> its_view \<Rightarrow> pubkey \<Rightarrow> pubkey option \<Rightarrow> bytes list option \<Rightarrow> pubkey result" where
  "transfer_source_address env view authority caller_program_id caller_pda_seeds =
     (case (caller_program_id, caller_pda_seeds) of
        (Some source_id, Some pda_seeds) \<Rightarrow>
          res_bind (find_program_address env pda_seeds source_id) (\<lambda>(expected_pda, _).
          res_bind (require (expected_pda = authority) (ItsE ItsError.InvalidAccountData)) (\<lambda>_. Inr source_id))
      | (None, None) \<Rightarrow>
          res_bind (require (account_owner view authority = system_program_id env) (ItsE CallerNotUserAccount)) (\<lambda>_.
          Inr authority)
      | _ \<Rightarrow> Inl (ItsE InconsistentSourceIdAndPdaSeeds))"

text \<open>
  \<open>take_token\<close>: burn, or transfer to the manager's account; the amount without the fee and the
  manager with its flow tracked result.
\<close>

definition take_token ::
    "env \<Rightarrow> its_lib \<Rightarrow> its_view \<Rightarrow> InterchainTransfer \<Rightarrow> TokenManager \<Rightarrow> mint \<Rightarrow> u64 \<Rightarrow> token_ledger \<Rightarrow>
     (u64 \<times> TokenManager \<times> token_ledger) result" where
  "take_token env lib view a t m amount T =
     (let mk = ai_key (xt_token_mint a); program = ai_key (xt_token_program a);
          source = ai_key (xt_authority_token_account a); ata = ai_key (xt_token_manager_ata a) in
     res_bind (validate_token_manager_type (ty t) m (ai_key (xt_token_manager_pda a))) (\<lambda>_.
     res_bind (case ty t of
         LockUnlock \<Rightarrow>
           res_bind (spl (spl_transfer_checked lib program source mk ata (xt_authority a) amount
             (get_mint_decimals m) T)) (\<lambda>T'. Inr (amount, T'))
       | LockUnlockFee \<Rightarrow>
           res_bind (get_fee_and_decimals lib view m amount) (\<lambda>(fee, d).
           res_bind (spl (spl_transfer_checked_with_fee lib program source mk ata (xt_authority a) amount d fee T)) (\<lambda>T'.
           res_bind (ok_or (checked_sub amount fee) (ItsE ItsError.ArithmeticOverflow)) (\<lambda>n. Inr (n, T'))))
       | _ \<Rightarrow>
           res_bind (spl (spl_burn lib program mk source (xt_authority a) amount T)) (\<lambda>T'. Inr (amount, T')))
       (\<lambda>(transferred, T').
     res_bind (track_token_flow (iv_ledger view) transferred Out (flow_slot t)) (\<lambda>slot.
     Inr (transferred, t\<lparr>flow_slot := slot\<rparr>, T')))))"

definition data_hash_of :: "env \<Rightarrow> bytes option \<Rightarrow> hash option" where
  "data_hash_of env d = (case d of None \<Rightarrow> None | Some bs \<Rightarrow> if bs = [] then None else Some (keccak env bs))"

definition interchain_transfer ::
    "env \<Rightarrow> its_lib \<Rightarrow> its_view \<Rightarrow> InterchainTransfer \<Rightarrow> hash \<Rightarrow> string \<Rightarrow> bytes \<Rightarrow> u64 \<Rightarrow> u64 \<Rightarrow> pubkey option \<Rightarrow>
     bytes list option \<Rightarrow> bytes option \<Rightarrow> its_state \<Rightarrow> its_state result" where
  "interchain_transfer env lib view a token_id dest_chain dest_address amount gas_value caller_program_id
       caller_pda_seeds data st =
     res_bind (check_interchain_transfer env lib a token_id dest_chain st) (\<lambda>(s, t, m).
     res_bind (require (amount \<noteq> 0) (ItsE InvalidAmount)) (\<lambda>_.
     res_bind (require (dest_address \<noteq> []) (ItsE ItsError.InvalidDestinationAddress)) (\<lambda>_.
     res_bind (transfer_source_address env view (ai_key (xt_authority a)) caller_program_id caller_pda_seeds) (\<lambda>source.
     res_bind (take_token env lib view a t m amount (its_tokens st)) (\<lambda>(transferred, t', T').
     send_to_hub_wrap env lib (xt_gmp a) (its_hub_address s)
       (InterchainTransferM \<lparr>it_token_id = token_id, it_source_address = source,
          it_destination_address = dest_address, it_amount = transferred, it_data = data\<rparr>)
       dest_chain gas_value
       (emit_its (InterchainTransferSent token_id source (ai_key (xt_authority_token_account a)) dest_chain
          dest_address transferred (data_hash_of env data))
       (put_its (ai_key (xt_token_manager_pda a)) (TokenManagerAcc t') (st\<lparr>its_tokens := T'\<rparr>))))))))"

section \<open>Announcing tokens\<close>

text \<open>The service for a remote deployment: active, and the destination another, trusted chain.\<close>

definition load_root_towards :: "env \<Rightarrow> its_state \<Rightarrow> account_info \<Rightarrow> string \<Rightarrow> InterchainTokenService result" where
  "load_root_towards env st a dest_chain =
     res_bind (load_active_root env st a) (\<lambda>s.
     res_bind (require (chain_name s \<noteq> dest_chain) (ItsE InvalidDestinationChain)) (\<lambda>_.
     res_bind (require (is_trusted_chain s dest_chain) (ItsE UntrustedDestinationChain)) (\<lambda>_. Inr s)))"

record DeployRemoteInterchainToken =
  dr_gmp :: GMPAccounts
  dr_deployer :: account_info
  dr_token_mint :: account_info
  dr_metadata_account :: account_info
  dr_token_manager_pda :: account_info
  dr_its_root_pda :: account_info

text \<open>What both remote deployments do once their token id is known.\<close>

definition announce_token ::
    "env \<Rightarrow> its_lib \<Rightarrow> DeployRemoteInterchainToken \<Rightarrow> InterchainTokenService \<Rightarrow> hash \<Rightarrow> mint \<Rightarrow> string \<Rightarrow> u64 \<Rightarrow>
     its_state \<Rightarrow> its_state result" where
  "announce_token env lib a s token_id m dest_chain gas_value st =
     res_bind (get_token_metadata (its_tokens st) (ai_key (dr_token_mint a)) m (ai_key (dr_metadata_account a)))
       (\<lambda>(name, symbol).
     send_to_hub_wrap env lib (dr_gmp a) (its_hub_address s)
       (DeployInterchainTokenM \<lparr>dm_token_id = token_id, dm_name = name, dm_symbol = symbol,
          dm_decimals = mi_decimals m, dm_minter = None\<rparr>)
       dest_chain gas_value
       (emit_its (InterchainTokenDeploymentStarted token_id dest_chain name symbol (mi_decimals m) None) st))"

definition deploy_remote_interchain_token ::
    "env \<Rightarrow> its_lib \<Rightarrow> DeployRemoteInterchainToken \<Rightarrow> bytes \<Rightarrow> string \<Rightarrow> u64 \<Rightarrow> its_state \<Rightarrow> its_state result" where
  "deploy_remote_interchain_token env lib a salt dest_chain gas_value st =
     (let rk = ai_key (dr_its_root_pda a); mk = ai_key (dr_token_mint a);
          token_id = interchain_token_id env (its_network lib) (ai_key (dr_deployer a)) salt in
     res_bind (check_gmp_accounts env (dr_gmp a)) (\<lambda>_.
     res_bind (check_signer (dr_deployer a)) (\<lambda>_.
     res_bind (load_mint (its_tokens st) (dr_token_mint a)) (\<lambda>m.
     res_bind (check_seeds_canonical env (interchain_token_seeds token_id rk) (its_id env) mk) (\<lambda>_.
     res_bind (require (ai_key (dr_metadata_account a) = metadata_address lib mk) (AnchorE ConstraintAddress)) (\<lambda>_.
     res_bind (load_token_manager env st rk token_id (dr_token_manager_pda a)) (\<lambda>t.
     res_bind (require (token_address t = mk) (ItsE TokenMintTokenManagerMissmatch)) (\<lambda>_.
     res_bind (load_root_towards env st (dr_its_root_pda a) dest_chain) (\<lambda>s.
     announce_token env lib a s token_id m dest_chain gas_value st)))))))))"

definition deploy_remote_canonical_interchain_token ::
    "env \<Rightarrow> its_lib \<Rightarrow> DeployRemoteInterchainToken \<Rightarrow> string \<Rightarrow> u64 \<Rightarrow> its_state \<Rightarrow> its_state result" where
  "deploy_remote_canonical_interchain_token env lib a dest_chain gas_value st =
     (let rk = ai_key (dr_its_root_pda a); mk = ai_key (dr_token_mint a);
          token_id = canonical_interchain_token_id env (its_network lib) mk in
     res_bind (check_gmp_accounts env (dr_gmp a)) (\<lambda>_.
     res_bind (load_mint (its_tokens st) (dr_token_mint a)) (\<lambda>m.
     res_bind (require (ai_key (dr_metadata_account a) = metadata_address lib mk) (AnchorE ConstraintAddress)) (\<lambda>_.
     res_bind (load_token_manager env st rk token_id (dr_token_manager_pda a)) (\<lambda>t.
     res_bind (require (token_address t = mk) (ItsE TokenMintTokenManagerMissmatch)) (\<lambda>_.
     res_bind (load_gateway_config env (its_gateway st) (ai_key (gm_gateway_root_pda (dr_gmp a)))) (\<lambda>_.
     res_bind (load_root_towards env st (dr_its_root_pda a) dest_chain) (\<lambda>s.
     announce_token env lib a s token_id m dest_chain gas_value st))))))))"

record RegisterTokenMetadata =
  rm_gmp :: GMPAccounts
  rm_token_mint :: account_info
  rm_its_root_pda :: account_info

definition register_token_metadata ::
    "env \<Rightarrow> its_lib \<Rightarrow> RegisterTokenMetadata \<Rightarrow> u64 \<Rightarrow> its_state \<Rightarrow> its_state result" where
  "register_token_metadata env lib a gas_value st =
     (let mk = ai_key (rm_token_mint a) in
     res_bind (check_gmp_accounts env (rm_gmp a)) (\<lambda>_.
     res_bind (load_mint (its_tokens st) (rm_token_mint a)) (\<lambda>m.
     res_bind (load_gateway_config env (its_gateway st) (ai_key (gm_gateway_root_pda (rm_gmp a)))) (\<lambda>_.
     res_bind (load_active_root env st (rm_its_root_pda a)) (\<lambda>s.
     send_to_hub env lib (rm_gmp a) (its_hub_address s)
       (RegisterTokenMetadataH \<lparr>rm_decimals = mi_decimals m, rm_token_address = mk\<rparr>) gas_value
       (emit_its (TokenMetadataRegistered mk (mi_decimals m)) st))))))"

record LinkToken =
  lk_gmp :: GMPAccounts
  lk_deployer :: account_info
  lk_its_root_pda :: account_info
  lk_token_manager_pda :: account_info

definition link_token ::
    "env \<Rightarrow> its_lib \<Rightarrow> LinkToken \<Rightarrow> bytes \<Rightarrow> string \<Rightarrow> bytes \<Rightarrow> Type \<Rightarrow> bytes \<Rightarrow> u64 \<Rightarrow> its_state \<Rightarrow> its_state result" where
  "link_token env lib a salt dest_chain dest_token_address t link_params gas_value st =
     (let token_id = interchain_token_id_internal env
            (linked_token_deployer_salt env (its_network lib) (ai_key (lk_deployer a)) salt);
          params = (if link_params = [] then None else Some link_params) in
     res_bind (check_gmp_accounts env (lk_gmp a)) (\<lambda>_.
     res_bind (check_signer (lk_deployer a)) (\<lambda>_.
     res_bind (load_root_towards env st (lk_its_root_pda a) dest_chain) (\<lambda>s.
     res_bind (load_token_manager env st (ai_key (lk_its_root_pda a)) token_id (lk_token_manager_pda a)) (\<lambda>tm.
     res_bind (require (t \<noteq> NativeInterchainToken) (ItsE ItsError.InvalidInstructionData)) (\<lambda>_.
     res_bind (require (dest_token_address \<noteq> []) (ItsE ItsError.InvalidDestinationAddress)) (\<lambda>_.
     send_to_hub_wrap env lib (lk_gmp a) (its_hub_address s)
       (LinkTokenM \<lparr>lm_token_id = token_id, lm_token_manager_type = u8_of_type t,
          lm_source_token_address = token_address tm, lm_destination_token_address = dest_token_address,
          lm_params = params\<rparr>)
       dest_chain gas_value
       (emit_its (LinkTokenStarted token_id dest_chain (token_address tm) dest_token_address (u8_of_type t) params)
         st))))))))"

end
