(* ===== verification/Its_Inbound.thy ===== *)
theory Its_Inbound
  imports Its_Outbound
begin

text \<open>
  What the service receives from the hub (\<open>instructions/gmp\<close>): \<open>execute\<close> validates a message at the
  gateway and calls itself, signing with its root, to deliver a transfer, deploy a token or link
  one; a transfer with data also calls the destination program. Then the dispatch of \<open>lib.rs\<close> and
  the service as a step relation.
\<close>

section \<open>\<open>gmp/interchain_transfer.rs\<close>\<close>

record ExecuteInterchainTransfer =
  ex_payer :: account_info
  ex_its_root_pda :: account_info
  ex_destination :: account_info
  ex_destination_token_authority :: account_info
  ex_destination_ata :: account_info
  ex_token_mint :: account_info
  ex_token_manager_pda :: account_info
  ex_token_manager_ata :: account_info
  ex_token_program :: account_info
  ex_associated_token_program :: account_info
  ex_system_program :: account_info
  ex_interchain_transfer_execute :: "account_info option"

text \<open>
  The account constraints; the results are the manager, the mint, the ledger with the destination's
  account in place, and the bump of the optional executor address.
\<close>

definition check_execute_transfer ::
    "env \<Rightarrow> its_lib \<Rightarrow> ExecuteInterchainTransfer \<Rightarrow> pubkey \<Rightarrow> hash \<Rightarrow> its_state \<Rightarrow>
     (TokenManager \<times> mint \<times> token_ledger \<times> u8 option) result" where
  "check_execute_transfer env lib a dest_address token_id st =
     (let rk = ai_key (ex_its_root_pda a); tk = ai_key (ex_token_manager_pda a); mk = ai_key (ex_token_mint a);
          program = ai_key (ex_token_program a); T = its_tokens st in
     res_bind (check_payer (ex_payer a)) (\<lambda>_.
     res_bind (load_self_root env st (ex_its_root_pda a)) (\<lambda>_.
     res_bind (require (ai_key (ex_destination a) = dest_address) (ItsE InvalidDestinationAddressAccount)) (\<lambda>_.
     res_bind (init_ata_if_needed lib (ai_key (ex_destination_token_authority a)) mk program
        (ex_destination_ata a) T) (\<lambda>T1.
     res_bind (check_mut (ex_token_mint a)) (\<lambda>_.
     res_bind (load_mint_of T (ex_token_program a) (ex_token_mint a)) (\<lambda>m.
     res_bind (check_mut (ex_token_manager_pda a)) (\<lambda>_.
     res_bind (load_token_manager env st rk token_id (ex_token_manager_pda a)) (\<lambda>t.
     res_bind (require (token_address t = mk) (ItsE TokenMintTokenManagerMissmatch)) (\<lambda>_.
     res_bind (check_mut (ex_token_manager_ata a)) (\<lambda>_.
     res_bind (load_ata lib T tk mk program (ex_token_manager_ata a)) (\<lambda>_.
     res_bind (check_token_program lib (ex_token_program a)) (\<lambda>_.
     res_bind (check_program (ex_associated_token_program a) (associated_token_program_id lib)) (\<lambda>_.
     res_bind (check_program (ex_system_program a) (system_program_id env)) (\<lambda>_.
     res_bind (case ex_interchain_transfer_execute a of
         None \<Rightarrow> Inr None
       | Some e \<Rightarrow> res_bind (check_seeds_canonical env (interchain_transfer_execute_seeds (ai_key (ex_destination a)))
           (its_id env) (ai_key e)) (\<lambda>b. Inr (Some b))) (\<lambda>bump.
     Inr (t, m, T1, bump)))))))))))))))))"

text \<open>
  \<open>handle_give_token_transfer\<close>: the flow is tracked on the full amount, then the manager mints or
  transfers, signing with its seeds; the amount that arrives, the manager and the ledger result.
\<close>

definition give_token ::
    "env \<Rightarrow> its_lib \<Rightarrow> its_view \<Rightarrow> ExecuteInterchainTransfer \<Rightarrow> TokenManager \<Rightarrow> mint \<Rightarrow> u64 \<Rightarrow> token_ledger \<Rightarrow>
     (u64 \<times> TokenManager \<times> token_ledger) result" where
  "give_token env lib view a t m amount T =
     (let mk = ai_key (ex_token_mint a); program = ai_key (ex_token_program a);
          ata = ai_key (ex_token_manager_ata a); dest = ai_key (ex_destination_ata a);
          signer = manager_signer env (ai_key (ex_its_root_pda a)) (tm_token_id t) (tm_bump t)
            (ai_key (ex_token_manager_pda a)) in
     res_bind (track_token_flow (iv_ledger view) amount In (flow_slot t)) (\<lambda>slot.
     res_bind (case ty t of
         LockUnlock \<Rightarrow>
           res_bind (spl (spl_transfer_checked lib program ata mk dest signer amount (get_mint_decimals m) T))
             (\<lambda>T'. Inr (amount, T'))
       | LockUnlockFee \<Rightarrow>
           res_bind (get_fee_and_decimals lib view m amount) (\<lambda>(fee, d).
           res_bind (spl (spl_transfer_checked_with_fee lib program ata mk dest signer amount d fee T)) (\<lambda>T'.
           res_bind (ok_or (checked_sub amount fee) (ItsE ItsError.ArithmeticOverflow)) (\<lambda>n. Inr (n, T'))))
       | _ \<Rightarrow>
           res_bind (spl (spl_mint_to lib program mk dest signer amount T)) (\<lambda>T'. Inr (amount, T')))
       (\<lambda>(transferred, T').
     Inr (transferred, t\<lparr>flow_slot := slot\<rparr>, T'))))"

text \<open>
  The call of the destination program. The accounts the payload names must be exactly the remaining
  accounts; the executor address signs, so the program can tell that the service calls.
\<close>

definition invoke_destination_program ::
    "env \<Rightarrow> its_lib \<Rightarrow> ExecuteInterchainTransfer \<Rightarrow> account_info list \<Rightarrow> u8 option \<Rightarrow> Message \<Rightarrow> string \<Rightarrow> bytes \<Rightarrow>
     hash \<Rightarrow> u64 \<Rightarrow> bytes \<Rightarrow> its_state \<Rightarrow> its_state result" where
  "invoke_destination_program env lib a remaining bump message src_chain src_address token_id transferred data st =
     (let destination = ai_key (ex_destination a) in
     res_bind (ok_or (ex_interchain_transfer_execute a) (ItsE InterchainTransferExecutePdaMissing)) (\<lambda>executor.
     res_bind (ok_or bump (ItsE InterchainTransferExecutePdaMissing)) (\<lambda>b.
     res_bind (payload_decode (il_payload lib) data) (\<lambda>p.
     let destination_accounts = account_meta p in
     res_bind (require (length destination_accounts = length remaining) (ProgramE ProgramError.NotEnoughAccountKeys)) (\<lambda>_.
     res_bind (require (destination_accounts = remaining) (ItsE ItsError.InvalidAccountData)) (\<lambda>_.
     let accounts = \<lparr>et_token_program = ex_token_program a, et_token_mint = ex_token_mint a,
           et_destination_token_authority = ex_destination_token_authority a,
           et_destination_program_ata = ex_destination_ata a, et_interchain_transfer_execute = executor\<rparr>;
         metas = execute_with_token_metas accounts @ destination_accounts;
         infos = [ex_token_program a, ex_token_mint a, ex_destination_token_authority a, ex_destination_ata a, executor]
           @ remaining in
     res_bind (invoke_check env (its_id env) (interchain_transfer_execute_seeds destination @ [[b]]) infos metas) (\<lambda>_.
     res_bind (spl (destination_call lib destination metas (ITS_EXECUTE_IX_DISC,
         \<lparr>ep_command_id = command_id env message, ep_source_chain = src_chain, ep_source_address = src_address,
          ep_token_id = token_id, ep_token_mint = ai_key (ex_token_mint a), ep_amount = transferred,
          ep_data = payload_without_accounts p\<rparr>) (its_tokens st, its_gateway st, its_gas st))) (\<lambda>(T, gw, gas).
     Inr (st\<lparr>its_tokens := T, its_gateway := gw, its_gas := gas\<rparr>)))))))))"

definition execute_interchain_transfer ::
    "env \<Rightarrow> its_lib \<Rightarrow> its_view \<Rightarrow> ExecuteInterchainTransfer \<Rightarrow> account_info list \<Rightarrow> Message \<Rightarrow> string \<Rightarrow> bytes \<Rightarrow>
     pubkey \<Rightarrow> hash \<Rightarrow> u64 \<Rightarrow> bytes \<Rightarrow> its_state \<Rightarrow> its_state result" where
  "execute_interchain_transfer env lib view a remaining message src_chain src_address dest_address token_id amount
       data st =
     res_bind (check_execute_transfer env lib a dest_address token_id st) (\<lambda>(t, m, T1, bump).
     res_bind (require (amount \<noteq> 0) (ItsE InvalidAmount)) (\<lambda>_.
     res_bind (check_destination_authority env lib view (ai_key (ex_destination a))
        (ai_key (ex_destination_token_authority a))) (\<lambda>_.
     res_bind (validate_token_manager_type (ty t) m (ai_key (ex_token_manager_pda a))) (\<lambda>_.
     res_bind (give_token env lib view a t m amount T1) (\<lambda>(transferred, t', T').
     let st1 = emit_its (InterchainTransferReceived (command_id env message) token_id src_chain src_address
           dest_address (ai_key (ex_destination_ata a)) transferred
           (if data = [] then None else Some (keccak env data)))
         (put_its (ai_key (ex_token_manager_pda a)) (TokenManagerAcc t') (st\<lparr>its_tokens := T'\<rparr>)) in
     if data = [] then Inr st1
     else invoke_destination_program env lib a remaining bump message src_chain src_address token_id transferred
       data st1)))))"

section \<open>\<open>gmp/execute.rs\<close>\<close>

record its_Execute =
  ie_executable :: AxelarExecuteAccounts
  ie_payer :: account_info
  ie_its_root_pda :: account_info
  ie_token_manager_pda :: account_info
  ie_token_mint :: account_info
  ie_token_manager_ata :: account_info
  ie_token_program :: account_info
  ie_associated_token_program :: account_info
  ie_system_program :: account_info

text \<open>
  An optional account is passed as the program's own id when absent, and read back so.
\<close>

definition optional_account :: "env \<Rightarrow> account_info option \<Rightarrow> account_info option" where
  "optional_account env a = (case a of None \<Rightarrow> None | Some i \<Rightarrow> if ai_key i = its_id env then None else Some i)"

definition optional_meta :: "env \<Rightarrow> (pubkey \<Rightarrow> account_info) \<Rightarrow> account_info option \<Rightarrow> account_info" where
  "optional_meta env flags a = (case a of None \<Rightarrow> acc (its_id env) | Some i \<Rightarrow> flags (ai_key i))"

text \<open>\<open>invoke_signed_with_its_root_pda\<close>: the privileges of the self-call.\<close>

definition its_self_call ::
    "env \<Rightarrow> u8 \<Rightarrow> account_info list \<Rightarrow> account_info list \<Rightarrow> unit result" where
  "its_self_call env root_bump infos metas =
     invoke_check env (its_id env) (its_root_seeds @ [[root_bump]]) (acc (its_id env) # infos) metas"

definition cpi_execute_interchain_transfer ::
    "env \<Rightarrow> its_lib \<Rightarrow> its_view \<Rightarrow> its_Execute \<Rightarrow> u8 \<Rightarrow> account_info list \<Rightarrow> InterchainTransferMsg \<Rightarrow> Message \<Rightarrow>
     string \<Rightarrow> its_state \<Rightarrow> its_state result" where
  "cpi_execute_interchain_transfer env lib view a root_bump remaining transfer message src_chain st =
     res_bind (require (length (it_destination_address transfer) = 32) (ItsE ItsError.InvalidAccountData)) (\<lambda>_.
     case remaining of
       destination # authority # dest_ata # rest \<Rightarrow>
         (let executor = (case rest of [] \<Rightarrow> None | e # _ \<Rightarrow> Some e); custom = tl rest;
              k = (\<lambda>f. ai_key (f a));
              metas = [acc_signer_mut (k ie_payer), acc_signer (k ie_its_root_pda), acc (ai_key destination),
                acc (ai_key authority), acc_mut (ai_key dest_ata), acc_mut (k ie_token_mint),
                acc_mut (k ie_token_manager_pda), acc_mut (k ie_token_manager_ata), acc (k ie_token_program),
                acc (k ie_associated_token_program), acc (k ie_system_program), optional_meta env acc executor]
                @ custom;
              infos = [ie_payer a, ie_its_root_pda a, destination, authority, dest_ata, ie_token_mint a,
                ie_token_manager_pda a, ie_token_manager_ata a, ie_token_program a, ie_associated_token_program a,
                ie_system_program a] @ rest;
              see = merged metas in
         res_bind (its_self_call env root_bump infos metas) (\<lambda>_.
         execute_interchain_transfer env lib view
           \<lparr>ex_payer = see (ie_payer a), ex_its_root_pda = see (ie_its_root_pda a), ex_destination = see destination,
            ex_destination_token_authority = see authority, ex_destination_ata = see dest_ata,
            ex_token_mint = see (ie_token_mint a), ex_token_manager_pda = see (ie_token_manager_pda a),
            ex_token_manager_ata = see (ie_token_manager_ata a), ex_token_program = see (ie_token_program a),
            ex_associated_token_program = see (ie_associated_token_program a),
            ex_system_program = see (ie_system_program a),
            ex_interchain_transfer_execute = map_option see (optional_account env executor)\<rparr>
           (map see custom) message src_chain (it_source_address transfer) (it_destination_address transfer)
           (it_token_id transfer) (it_amount transfer)
           (case it_data transfer of None \<Rightarrow> [] | Some d \<Rightarrow> d) st))
     | _ \<Rightarrow> Inl (ItsE AccountNotProvided))"

definition cpi_execute_link_token ::
    "env \<Rightarrow> its_lib \<Rightarrow> its_Execute \<Rightarrow> u8 \<Rightarrow> account_info list \<Rightarrow> LinkTokenMsg \<Rightarrow> its_state \<Rightarrow> its_state result" where
  "cpi_execute_link_token env lib a root_bump remaining payload st =
     res_bind (require (length (lm_destination_token_address payload) = 32) (ItsE ItsError.InvalidAccountData)) (\<lambda>_.
     let operator = (case remaining of [] \<Rightarrow> None | x # _ \<Rightarrow> Some x);
         roles_pda = (case remaining of _ # y # _ \<Rightarrow> Some y | _ \<Rightarrow> None);
         k = (\<lambda>f. ai_key (f a));
         metas = [acc_signer_mut (k ie_payer), acc (k ie_system_program), acc_signer (k ie_its_root_pda),
           acc_mut (k ie_token_manager_pda), acc (k ie_token_mint), acc_mut (k ie_token_manager_ata),
           acc (k ie_token_program), acc (k ie_associated_token_program), optional_meta env acc operator,
           optional_meta env acc_mut roles_pda];
         infos = [ie_payer a, ie_system_program a, ie_its_root_pda a, ie_token_manager_pda a, ie_token_mint a,
           ie_token_manager_ata a, ie_token_program a, ie_associated_token_program a] @ take 2 remaining;
         see = merged metas in
     res_bind (its_self_call env root_bump infos metas) (\<lambda>_.
     execute_link_token env lib
       \<lparr>el_payer = see (ie_payer a), el_system_program = see (ie_system_program a),
        el_its_root_pda = see (ie_its_root_pda a), el_token_manager_pda = see (ie_token_manager_pda a),
        el_token_mint = see (ie_token_mint a), el_token_manager_ata = see (ie_token_manager_ata a),
        el_token_program = see (ie_token_program a),
        el_associated_token_program = see (ie_associated_token_program a),
        el_operator = map_option see (optional_account env operator),
        el_operator_roles_pda = map_option see (optional_account env roles_pda)\<rparr>
       (lm_token_id payload) (lm_destination_token_address payload) (lm_token_manager_type payload)
       (case lm_params payload of None \<Rightarrow> [] | Some d \<Rightarrow> d) st))"

definition cpi_execute_deploy_interchain_token ::
    "env \<Rightarrow> its_lib \<Rightarrow> its_Execute \<Rightarrow> u8 \<Rightarrow> account_info list \<Rightarrow> DeployInterchainTokenMsg \<Rightarrow> its_state \<Rightarrow>
     its_state result" where
  "cpi_execute_deploy_interchain_token env lib a root_bump remaining deploy st =
     (case remaining of
       sysvar # mpl # md # rest \<Rightarrow>
         (let minter = (case rest of [] \<Rightarrow> None | x # _ \<Rightarrow> Some x);
              roles_pda = (case rest of _ # y # _ \<Rightarrow> Some y | _ \<Rightarrow> None);
              k = (\<lambda>f. ai_key (f a));
              metas = [acc_signer_mut (k ie_payer), acc (k ie_system_program), acc_signer (k ie_its_root_pda),
                acc_mut (k ie_token_manager_pda), acc_mut (k ie_token_mint), acc_mut (k ie_token_manager_ata),
                acc (k ie_token_program), acc (k ie_associated_token_program), acc (ai_key sysvar),
                acc (ai_key mpl), acc_mut (ai_key md), optional_meta env acc minter,
                optional_meta env acc_mut roles_pda];
              infos = [ie_payer a, ie_system_program a, ie_its_root_pda a, ie_token_manager_pda a, ie_token_mint a,
                ie_token_manager_ata a, ie_token_program a, ie_associated_token_program a, sysvar, mpl, md]
                @ take 2 rest;
              see = merged metas in
         res_bind (its_self_call env root_bump infos metas) (\<lambda>_.
         execute_deploy_interchain_token env lib
           \<lparr>ed_payer = see (ie_payer a), ed_system_program = see (ie_system_program a),
            ed_its_root_pda = see (ie_its_root_pda a), ed_token_manager_pda = see (ie_token_manager_pda a),
            ed_token_mint = see (ie_token_mint a), ed_token_manager_ata = see (ie_token_manager_ata a),
            ed_token_program = see (ie_token_program a),
            ed_associated_token_program = see (ie_associated_token_program a),
            ed_sysvar_instructions = see sysvar, ed_mpl_token_metadata_program = see mpl,
            ed_mpl_token_metadata_account = see md,
            ed_minter = map_option see (optional_account env minter),
            ed_minter_roles_pda = map_option see (optional_account env roles_pda)\<rparr>
           (dm_token_id deploy) (dm_name deploy) (dm_symbol deploy) (dm_decimals deploy)
           (case dm_minter deploy of None \<Rightarrow> [] | Some d \<Rightarrow> d) st))
     | _ \<Rightarrow> Inl (ItsE AccountNotProvided))"

text \<open>The accounts of \<open>Execute\<close>; the constraints are checked before the message is looked at.\<close>

definition check_its_execute :: "env \<Rightarrow> its_Execute \<Rightarrow> Message \<Rightarrow> its_state \<Rightarrow> InterchainTokenService result" where
  "check_its_execute env a message st =
     res_bind (check_execute_accounts env (its_id env) (ie_executable a) message (its_gateway st)) (\<lambda>_.
     res_bind (check_payer (ie_payer a)) (\<lambda>_.
     res_bind (load_active_root env st (ie_its_root_pda a)) (\<lambda>s.
     res_bind (check_mut (ie_token_manager_pda a)) (\<lambda>_.
     res_bind (check_mut (ie_token_mint a)) (\<lambda>_.
     res_bind (check_mut (ie_token_manager_ata a)) (\<lambda>_. Inr s))))))"

definition its_execute ::
    "env \<Rightarrow> its_lib \<Rightarrow> its_view \<Rightarrow> its_Execute \<Rightarrow> account_info list \<Rightarrow> Message \<Rightarrow> bytes \<Rightarrow> its_state \<Rightarrow> its_state result" where
  "its_execute env lib view a remaining message payload st =
     res_bind (check_its_execute env a message st) (\<lambda>s.
     res_bind (require (source_address message = its_hub_address s) (ItsE ItsError.InvalidInstructionData)) (\<lambda>_.
     res_bind (ok_or (hub_try_from_slice lib payload) (ItsE ItsError.InvalidInstructionData)) (\<lambda>hub_message.
     case hub_message of
       ReceiveFromHub src_chain inner \<Rightarrow>
         res_bind (validate_message_raw env (its_id env) (ie_executable a) message payload (its_gateway st)) (\<lambda>gw.
         res_bind (require (is_trusted_chain s src_chain) (ItsE UntrustedSourceChain)) (\<lambda>_.
         let st1 = st\<lparr>its_gateway := gw\<rparr> in
         case inner of
           InterchainTransferM transfer \<Rightarrow>
             cpi_execute_interchain_transfer env lib view a (its_bump s) remaining transfer message src_chain st1
         | DeployInterchainTokenM deploy \<Rightarrow>
             cpi_execute_deploy_interchain_token env lib a (its_bump s) remaining deploy st1
         | LinkTokenM link \<Rightarrow> cpi_execute_link_token env lib a (its_bump s) remaining link st1))
     | _ \<Rightarrow> Inl (ItsE ItsError.InvalidInstructionData))))"

section \<open>The instructions and the steps\<close>

datatype its_instruction =
    ItsInitializeIx its_Initialize string string
  | SetPauseStatusIx SetPauseStatus bool
  | SetTrustedChainIx SetTrustedChain string
  | RemoveTrustedChainIx SetTrustedChain string
  | DeployInterchainTokenIx DeployInterchainToken bytes string string u8 u64
  | DeployRemoteInterchainTokenIx DeployRemoteInterchainToken bytes string u64
  | RegisterTokenMetadataIx RegisterTokenMetadata u64
  | RegisterCanonicalIx RegisterCanonicalInterchainToken
  | DeployRemoteCanonicalIx DeployRemoteInterchainToken string u64
  | RegisterCustomTokenIx RegisterCustomToken bytes Type "pubkey option"
  | LinkTokenIx LinkToken bytes string bytes Type bytes u64
  | SetFlowLimitIx SetFlowLimit "u64 option"
  | ItsExecuteIx its_Execute "account_info list" Message bytes
  | ExecuteDeployIx ExecuteDeployInterchainToken hash string string u8 bytes
  | ExecuteLinkIx ExecuteLinkToken hash pubkey u8 bytes
  | ExecuteTransferIx ExecuteInterchainTransfer "account_info list" Message string bytes pubkey hash u64 bytes
  | InterchainTransferIx InterchainTransfer hash string bytes u64 u64 "pubkey option" "bytes list option" "bytes option"
  | ItsTransferOperatorshipIx RoleTransfer
  | AddFlowLimiterIx FlowLimiterChange
  | RemoveFlowLimiterIx FlowLimiterChange
  | SetTokenManagerFlowLimitIx SetTokenManagerFlowLimit "u64 option"
  | TransferTokenManagerOperatorshipIx RoleTransfer
  | MintInterchainTokenIx MintInterchainToken u64
  | HandoverMintAuthorityIx HandoverMintAuthority hash
  | TransferMintershipIx RoleTransfer

definition its_entry :: "env \<Rightarrow> its_lib \<Rightarrow> its_view \<Rightarrow> its_instruction \<Rightarrow> its_state \<Rightarrow> its_state result" where
  "its_entry env lib view ix st =
     (case ix of
        ItsInitializeIx a c h \<Rightarrow> its_initialize env view a c h st
      | SetPauseStatusIx a p \<Rightarrow> set_pause_status env view a p st
      | SetTrustedChainIx a c \<Rightarrow> set_trusted_chain env view a c st
      | RemoveTrustedChainIx a c \<Rightarrow> remove_trusted_chain_ix env view a c st
      | DeployInterchainTokenIx a salt name symbol d n \<Rightarrow> deploy_interchain_token env lib a salt name symbol d n st
      | DeployRemoteInterchainTokenIx a salt c g \<Rightarrow> deploy_remote_interchain_token env lib a salt c g st
      | RegisterTokenMetadataIx a g \<Rightarrow> register_token_metadata env lib a g st
      | RegisterCanonicalIx a \<Rightarrow> register_canonical_interchain_token env lib a st
      | DeployRemoteCanonicalIx a c g \<Rightarrow> deploy_remote_canonical_interchain_token env lib a c g st
      | RegisterCustomTokenIx a salt t op \<Rightarrow> register_custom_token env lib a salt t op st
      | LinkTokenIx a salt c da t p g \<Rightarrow> link_token env lib a salt c da t p g st
      | SetFlowLimitIx a l \<Rightarrow> set_flow_limit env a l st
      | ItsExecuteIx a r m p \<Rightarrow> its_execute env lib view a r m p st
      | ExecuteDeployIx a tid name symbol d minter \<Rightarrow> execute_deploy_interchain_token env lib a tid name symbol d minter st
      | ExecuteLinkIx a tid da t p \<Rightarrow> execute_link_token env lib a tid da t p st
      | ExecuteTransferIx a r m sc sa da tid n d \<Rightarrow> execute_interchain_transfer env lib view a r m sc sa da tid n d st
      | InterchainTransferIx a tid dc da n g cp cs d \<Rightarrow> interchain_transfer env lib view a tid dc da n g cp cs d st
      | ItsTransferOperatorshipIx a \<Rightarrow> its_transfer_operatorship env a st
      | AddFlowLimiterIx a \<Rightarrow> add_token_manager_flow_limiter env a st
      | RemoveFlowLimiterIx a \<Rightarrow> remove_token_manager_flow_limiter env a st
      | SetTokenManagerFlowLimitIx a l \<Rightarrow> set_token_manager_flow_limit env a l st
      | TransferTokenManagerOperatorshipIx a \<Rightarrow> transfer_token_manager_operatorship env a st
      | MintInterchainTokenIx a n \<Rightarrow> mint_interchain_token env lib a n st
      | HandoverMintAuthorityIx a tid \<Rightarrow> handover_mint_authority env lib a tid st
      | TransferMintershipIx a \<Rightarrow> transfer_interchain_token_mintership env a st)"

text \<open>
  An instruction of a transaction. No transaction is signed for an address the service derives, so
  the instructions that ask for the root's signature are reached through \<open>its_execute\<close> only.
\<close>

definition its_no_pda_signer :: "env \<Rightarrow> its_instruction \<Rightarrow> bool" where
  "its_no_pda_signer env ix \<longleftrightarrow>
     (\<forall>a \<in> (case ix of ExecuteDeployIx a _ _ _ _ _ \<Rightarrow> {ed_its_root_pda a}
           | ExecuteLinkIx a _ _ _ _ \<Rightarrow> {el_its_root_pda a}
           | ExecuteTransferIx a _ _ _ _ _ _ _ _ \<Rightarrow> {ex_its_root_pda a}
           | ItsExecuteIx a _ _ _ \<Rightarrow> {ae_signing_pda (ie_executable a)}
           | _ \<Rightarrow> {}).
        ai_signer a \<longrightarrow> (\<forall>seeds. create_program_address env seeds (its_id env) \<noteq> Some (ai_key a)))"

text \<open>The keys that name users are 32 bytes, as the instruction decoder guarantees of every key.\<close>

definition its_users :: "its_instruction \<Rightarrow> account_info list" where
  "its_users ix =
     (case ix of
        ItsInitializeIx a _ _ \<Rightarrow> [ii_operator a]
      | SetPauseStatusIx a _ \<Rightarrow> [sps_payer a]
      | ItsTransferOperatorshipIx a \<Rightarrow> [rt_origin_user_account a, rt_destination_user_account a]
      | TransferTokenManagerOperatorshipIx a \<Rightarrow> [rt_origin_user_account a, rt_destination_user_account a]
      | TransferMintershipIx a \<Rightarrow> [rt_origin_user_account a, rt_destination_user_account a]
      | AddFlowLimiterIx a \<Rightarrow> [fc_authority_user_account a, fc_target_user_account a]
      | RemoveFlowLimiterIx a \<Rightarrow> [fc_authority_user_account a, fc_target_user_account a]
      | SetTrustedChainIx a _ \<Rightarrow> [stc_payer a]
      | RemoveTrustedChainIx a _ \<Rightarrow> [stc_payer a]
      | SetFlowLimitIx a _ \<Rightarrow> [sfl_operator a]
      | SetTokenManagerFlowLimitIx a _ \<Rightarrow> [stf_flow_limiter a]
      | HandoverMintAuthorityIx a _ \<Rightarrow> [hm_authority a]
      | MintInterchainTokenIx a _ \<Rightarrow> [mt_minter a]
      | DeployInterchainTokenIx a _ _ _ _ _ \<Rightarrow> (case di_minter a of None \<Rightarrow> [] | Some u \<Rightarrow> [u])
      | RegisterCustomTokenIx a _ _ _ \<Rightarrow> (case ru_operator a of None \<Rightarrow> [] | Some u \<Rightarrow> [u])
      | ItsExecuteIx a r _ _ \<Rightarrow> r
      | ExecuteDeployIx a _ _ _ _ _ \<Rightarrow> (case ed_minter a of None \<Rightarrow> [] | Some u \<Rightarrow> [u])
      | ExecuteLinkIx a _ _ _ _ \<Rightarrow> (case el_operator a of None \<Rightarrow> [] | Some u \<Rightarrow> [u])
      | _ \<Rightarrow> [])"

definition its_ix_wf :: "its_instruction \<Rightarrow> bool" where
  "its_ix_wf ix \<longleftrightarrow> (\<forall>a \<in> set (its_users ix). length (ai_key a) = 32)"

text \<open>The users who signed.\<close>

definition its_signers :: "its_instruction \<Rightarrow> pubkey set" where
  "its_signers ix = {ai_key a | a. a \<in> set (its_users ix) \<and> ai_signer a}"

text \<open>
  One step: an instruction; a step of the gateway; or other programs acting on tokens and gas.
\<close>

inductive its_step :: "env \<Rightarrow> its_lib \<Rightarrow> its_state \<Rightarrow> its_state \<Rightarrow> bool" for env lib where
  its_ix: "its_no_pda_signer env ix \<Longrightarrow> its_ix_wf ix \<Longrightarrow> its_entry env lib view ix st = Inr st' \<Longrightarrow>
    its_step env lib st st'"
| its_gateway_ix: "gateway_step env (its_gateway st) gw \<Longrightarrow> its_step env lib st (st\<lparr>its_gateway := gw\<rparr>)"
| its_other: "its_step env lib st (st\<lparr>its_tokens := T, its_gas := gas\<rparr>)"

inductive_cases its_stepE: "its_step env lib st st'"

abbreviation its_reachable :: "env \<Rightarrow> its_lib \<Rightarrow> its_state \<Rightarrow> bool" where
  "its_reachable env lib st \<equiv> \<exists>T gas. runs (its_step env lib) (its_empty T gateway_empty gas) st"

end
