(* ===== verification/Its_Inv.thy ===== *)
theory Its_Inv
  imports Its_Inbound
begin

text \<open>
  The service's accounts as a smaller machine. \<open>acct_change\<close> lists the ways the accounts may change
  - a new or edited root, a new manager, a tracked flow, a role handed over, a flow limiter named, a
  minter made from a mint authority - each with who must have signed; \<open>its_ok\<close> is the invariant of
  the accounts, and \<open>roles_at\<close> reads them as a table of roles. The instructions refine this machine
  (\<open>its_entry_refines\<close>), and what is proved of the machine holds of the program.
\<close>

section \<open>The invariant and the role table\<close>

definition root_ok :: "InterchainTokenService \<Rightarrow> bool" where
  "root_ok s \<longleftrightarrow> distinct (trusted_chains s) \<and> ITS_HUB_CHAIN_NAME \<notin> set (trusted_chains s)"

lemma root_ok_changes:
  "root_ok (its_new b c h)"
  "root_ok s \<Longrightarrow> root_ok (s\<lparr>paused := p\<rparr>)"
  "root_ok s \<Longrightarrow> root_ok (add_trusted_chain c s)"
  "root_ok s \<Longrightarrow> root_ok (remove_trusted_chain c s)"
  by (auto simp: root_ok_def its_new_def add_trusted_chain_def remove_trusted_chain_def)

definition is_resource :: "its_account accounts \<Rightarrow> pubkey \<Rightarrow> bool" where
  "is_resource m r \<longleftrightarrow> (\<exists>s. m r = Some (ItsRootAcc s)) \<or> (\<exists>t. m r = Some (TokenManagerAcc t))"

definition root_addr :: "env \<Rightarrow> pubkey \<Rightarrow> u8 \<Rightarrow> bool" where
  "root_addr env k b \<longleftrightarrow> try_find_program_address env its_root_seeds (its_id env) = Some (k, b)"

definition manager_addr :: "env \<Rightarrow> hash \<Rightarrow> pubkey \<Rightarrow> u8 \<Rightarrow> bool" where
  "manager_addr env token_id k b \<longleftrightarrow> (\<exists>root rb. root_addr env root rb \<and>
     try_find_program_address env (token_manager_seeds token_id root) (its_id env) = Some (k, b))"

definition roles_addr :: "env \<Rightarrow> pubkey \<Rightarrow> pubkey \<Rightarrow> pubkey \<Rightarrow> u8 \<Rightarrow> bool" where
  "roles_addr env r w k b \<longleftrightarrow> length w = 32 \<and>
     try_find_program_address env (user_roles_seeds r w) (its_id env) = Some (k, b)"

text \<open>Every account sits at the canonical address of what it says it is.\<close>

fun its_account_ok :: "env \<Rightarrow> its_account accounts \<Rightarrow> pubkey \<Rightarrow> its_account \<Rightarrow> bool" where
  "its_account_ok env m k (ItsRootAcc s) \<longleftrightarrow> root_addr env k (its_bump s) \<and> root_ok s"
| "its_account_ok env m k (TokenManagerAcc t) \<longleftrightarrow> manager_addr env (tm_token_id t) k (tm_bump t) \<and>
     (\<exists>root s. m root = Some (ItsRootAcc s))"
| "its_account_ok env m k (UserRolesAcc u) \<longleftrightarrow> (\<exists>r w. roles_addr env r w k (ur_bump u) \<and> is_resource m r)"

definition its_ok :: "env \<Rightarrow> its_account accounts \<Rightarrow> bool" where
  "its_ok env m \<longleftrightarrow> (\<forall>k a. m k = Some a \<longrightarrow> its_account_ok env m k a)"

lemma its_okD: "its_ok env m \<Longrightarrow> m k = Some a \<Longrightarrow> its_account_ok env m k a"
  by (simp add: its_ok_def)

definition roles_at :: "env \<Rightarrow> its_account accounts \<Rightarrow> pubkey \<Rightarrow> pubkey \<Rightarrow> u8" where
  "roles_at env m r w =
     (case try_find_program_address env (user_roles_seeds r w) (its_id env) of
        None \<Rightarrow> 0
      | Some (k, _) \<Rightarrow> (case m k of Some (UserRolesAcc u) \<Rightarrow> roles u | _ \<Rightarrow> 0))"

definition set_role :: "(pubkey \<Rightarrow> pubkey \<Rightarrow> u8) \<Rightarrow> pubkey \<Rightarrow> pubkey \<Rightarrow> u8 \<Rightarrow> pubkey \<Rightarrow> pubkey \<Rightarrow> u8" where
  "set_role R r w x = (\<lambda>r' w'. if r' = r \<and> w' = w then x else R r' w')"

text \<open>The tables agree on users, whose keys have 32 bytes.\<close>

definition same_roles :: "(pubkey \<Rightarrow> pubkey \<Rightarrow> u8) \<Rightarrow> (pubkey \<Rightarrow> pubkey \<Rightarrow> u8) \<Rightarrow> bool" where
  "same_roles R R' \<longleftrightarrow> (\<forall>r w. length w = 32 \<longrightarrow> R r w = R' r w)"

lemma same_rolesD: "same_roles R R' \<Longrightarrow> length w = 32 \<Longrightarrow> R r w = R' r w"
  by (simp add: same_roles_def)

section \<open>Addresses determine their seeds\<close>

text \<open>The address laws of the runtime, as the service relies on them.\<close>

lemma roles_addr_unique:
  assumes "pda_law env" and "pda_inj env" and "roles_addr env r w k b" and "length w' = 32"
    and "create_program_address env (user_roles_seeds r' w' @ [[b']]) (its_id env) = Some k"
  shows "r' = r \<and> w' = w \<and> b' = b"
proof -
  have "create_program_address env (user_roles_seeds r w @ [[b]]) (its_id env) = Some k"
    using assms(1,3) by (auto simp: roles_addr_def dest: pda_lawD)
  from pda_injD [OF assms(2) assms(5) this] have "r' @ w' @ [b'] = r @ w @ [b]"
    by (simp add: user_roles_seeds_def)
  moreover have "length w = 32" using assms(3) by (simp add: roles_addr_def)
  ultimately show ?thesis using assms(4) by simp
qed

lemma roles_addr_create:
  "pda_law env \<Longrightarrow> roles_addr env r w k b \<Longrightarrow>
     create_program_address env (user_roles_seeds r w @ [[b]]) (its_id env) = Some k"
  by (auto simp: roles_addr_def dest: pda_lawD)

lemma roles_addr_inj:
  "pda_law env \<Longrightarrow> pda_inj env \<Longrightarrow> roles_addr env r w k b \<Longrightarrow> roles_addr env r' w' k b' \<Longrightarrow> r' = r \<and> w' = w \<and> b' = b"
  using roles_addr_unique roles_addr_create unfolding roles_addr_def by blast

lemma root_addr_unique: "root_addr env k b \<Longrightarrow> root_addr env k' b' \<Longrightarrow> k' = k \<and> b' = b"
  by (simp add: root_addr_def)

lemma manager_addr_unique:
  assumes "pda_law env" and "pda_inj env" and "manager_addr env tid k b" and "root_addr env root rb"
    and "create_program_address env (token_manager_seeds tid' root @ [[b']]) (its_id env) = Some k"
  shows "tid' = tid \<and> b' = b"
proof -
  obtain root0 rb0 where r: "root_addr env root0 rb0"
    and t: "try_find_program_address env (token_manager_seeds tid root0) (its_id env) = Some (k, b)"
    using assms(3) unfolding manager_addr_def by blast
  have "root0 = root" using root_addr_unique [OF assms(4) r] by simp
  with pda_injD [OF assms(2) assms(5) pda_lawD [OF assms(1) t]] show ?thesis
    by (simp add: token_manager_seeds_def)
qed

section \<open>Writing one account\<close>

text \<open>An entry that is no root and no manager: absent, or roles.\<close>

definition no_resource :: "its_account option \<Rightarrow> bool" where
  "no_resource e \<longleftrightarrow> e = None \<or> (\<exists>u. e = Some (UserRolesAcc u))"

definition entry_roles :: "its_account option \<Rightarrow> u8" where
  "entry_roles e = (case e of Some (UserRolesAcc u) \<Rightarrow> roles u | _ \<Rightarrow> 0)"

lemma roles_at_entry:
  "roles_at env m r w = (case try_find_program_address env (user_roles_seeds r w) (its_id env) of
     None \<Rightarrow> 0 | Some (k, _) \<Rightarrow> entry_roles (m k))"
  unfolding roles_at_def entry_roles_def by (auto split: option.splits its_account.splits)

lemma roles_at_addr: "roles_addr env r w k b \<Longrightarrow> roles_at env m r w = entry_roles (m k)"
  by (simp add: roles_at_entry roles_addr_def)

lemma roles_at_put_resource:
  "entry_roles (m k) = 0 \<Longrightarrow> entry_roles e = 0 \<Longrightarrow> roles_at env (m(k := e)) = roles_at env m"
  by (auto simp: roles_at_entry fun_eq_iff split: option.splits)

lemma is_resource_put:
  "no_resource (m k) \<Longrightarrow> no_resource e \<Longrightarrow> is_resource (m(k := e)) r = is_resource m r"
  by (auto simp: is_resource_def no_resource_def)

text \<open>An account stays what it should be when roots and resources are kept.\<close>

lemma its_account_ok_keep:
  assumes "its_account_ok env m k a" and "\<And>root s. m root = Some (ItsRootAcc s) \<Longrightarrow> \<exists>s'. m' root = Some (ItsRootAcc s')"
    and "\<And>r. is_resource m r \<Longrightarrow> is_resource m' r"
  shows "its_account_ok env m' k a"
proof (cases a)
  case (ItsRootAcc s)
  then show ?thesis using assms(1) by simp
next
  case (UserRolesAcc u)
  with assms(1) obtain r w where "roles_addr env r w k (ur_bump u)" and "is_resource m r" by auto
  with UserRolesAcc assms(3) show ?thesis by auto
next
  case (TokenManagerAcc t)
  with assms(1) obtain root s where "manager_addr env (tm_token_id t) k (tm_bump t)" and "m root = Some (ItsRootAcc s)"
    by auto
  moreover from assms(2) [OF this(2)] obtain s' where "m' root = Some (ItsRootAcc s')" ..
  ultimately show ?thesis using TokenManagerAcc by auto
qed

lemma its_ok_put:
  assumes ok: "its_ok env m" and new: "its_account_ok env (m(k \<mapsto> a)) k a"
    and res: "\<And>r. is_resource m r \<Longrightarrow> is_resource (m(k \<mapsto> a)) r"
    and root: "\<And>s. m k = Some (ItsRootAcc s) \<Longrightarrow> \<exists>s'. a = ItsRootAcc s'"
  shows "its_ok env (m(k \<mapsto> a))"
  unfolding its_ok_def
proof (intro allI impI)
  fix k' a' assume a': "(m(k \<mapsto> a)) k' = Some a'"
  show "its_account_ok env (m(k \<mapsto> a)) k' a'"
  proof (cases "k' = k")
    case True
    with a' new show ?thesis by simp
  next
    case False
    with a' have "its_account_ok env m k' a'" using ok by (simp add: its_okD)
    then show ?thesis
    proof (rule its_account_ok_keep)
      show "\<exists>s'. (m(k \<mapsto> a)) root' = Some (ItsRootAcc s')" if "m root' = Some (ItsRootAcc s)" for root' s
        using that root by (cases "root' = k") auto
    qed (rule res)
  qed
qed

lemma its_ok_put_root:
  assumes "its_ok env m" and "m k = None \<or> (\<exists>s0. m k = Some (ItsRootAcc s0))"
    and "root_addr env k (its_bump s)" and "root_ok s"
  shows "its_ok env (m(k \<mapsto> ItsRootAcc s))" and "roles_at env (m(k \<mapsto> ItsRootAcc s)) = roles_at env m"
proof -
  show "its_ok env (m(k \<mapsto> ItsRootAcc s))"
  proof (rule its_ok_put [OF assms(1)])
    show "is_resource (m(k \<mapsto> ItsRootAcc s)) r" if "is_resource m r" for r
      using that by (auto simp: is_resource_def)
  qed (use assms in auto)
  show "roles_at env (m(k \<mapsto> ItsRootAcc s)) = roles_at env m"
    using assms(2) by (intro roles_at_put_resource) (auto simp: entry_roles_def)
qed

lemma its_ok_put_manager:
  assumes "its_ok env m" and "m k = None \<or> (\<exists>t0. m k = Some (TokenManagerAcc t0))"
    and "manager_addr env (tm_token_id t) k (tm_bump t)" and "m root = Some (ItsRootAcc s)"
  shows "its_ok env (m(k \<mapsto> TokenManagerAcc t))" and "roles_at env (m(k \<mapsto> TokenManagerAcc t)) = roles_at env m"
proof -
  have ne: "root \<noteq> k" using assms(2,4) by auto
  show "its_ok env (m(k \<mapsto> TokenManagerAcc t))"
  proof (rule its_ok_put [OF assms(1)])
    show "is_resource (m(k \<mapsto> TokenManagerAcc t)) r" if "is_resource m r" for r
      using that assms(2) by (auto simp: is_resource_def)
    show "its_account_ok env (m(k \<mapsto> TokenManagerAcc t)) k (TokenManagerAcc t)"
      using assms(3,4) ne by auto
  qed (use assms(2) in auto)
  show "roles_at env (m(k \<mapsto> TokenManagerAcc t)) = roles_at env m"
    using assms(2) by (intro roles_at_put_resource) (auto simp: entry_roles_def)
qed

text \<open>What a roles account may become: the given roles at the given bump, or closed when none are left.\<close>

definition roles_entry :: "u8 \<Rightarrow> u8 \<Rightarrow> its_account option \<Rightarrow> bool" where
  "roles_entry b x e \<longleftrightarrow> e = Some (UserRolesAcc \<lparr>roles = x, ur_bump = b\<rparr>) \<or> (e = None \<and> x = 0)"

lemma its_ok_put_roles:
  assumes law: "pda_law env" "pda_inj env" and ok: "its_ok env m" and addr: "roles_addr env r w k b"
    and old: "no_resource (m k)" and e: "roles_entry b x e" and res: "is_resource m r"
  shows "its_ok env (m(k := e))" and "same_roles (roles_at env (m(k := e))) (set_role (roles_at env m) r w x)"
proof -
  have ne: "no_resource e" and er: "entry_roles e = x"
    using e by (auto simp: roles_entry_def no_resource_def entry_roles_def)
  have keep: "is_resource (m(k := e)) r' = is_resource m r'" for r'
    using old ne by (rule is_resource_put)
  show "its_ok env (m(k := e))"
    unfolding its_ok_def
  proof (intro allI impI)
    fix k' a' assume a': "(m(k := e)) k' = Some a'"
    show "its_account_ok env (m(k := e)) k' a'"
    proof (cases "k' = k")
      case True
      with a' e have "a' = UserRolesAcc \<lparr>roles = x, ur_bump = b\<rparr>" by (auto simp: roles_entry_def)
      with True addr res keep show ?thesis by auto
    next
      case False
      with a' have "its_account_ok env m k' a'" using ok by (simp add: its_okD)
      then show ?thesis
      proof (rule its_account_ok_keep)
        show "\<exists>s'. (m(k := e)) root = Some (ItsRootAcc s')" if "m root = Some (ItsRootAcc s)" for root s
          using that old by (cases "root = k") (auto simp: no_resource_def)
      qed (simp add: keep)
    qed
  qed
  show "same_roles (roles_at env (m(k := e))) (set_role (roles_at env m) r w x)"
    unfolding same_roles_def
  proof (intro allI impI)
    fix r' w' :: pubkey assume len: "length w' = 32"
    show "roles_at env (m(k := e)) r' w' = set_role (roles_at env m) r w x r' w'"
    proof (cases "try_find_program_address env (user_roles_seeds r' w') (its_id env)")
      case None
      with addr show ?thesis by (auto simp: set_role_def roles_at_entry roles_addr_def)
    next
      case (Some kb)
      then obtain k' b' where f: "roles_addr env r' w' k' b'"
        using len by (cases kb) (auto simp: roles_addr_def)
      show ?thesis
      proof (cases "k' = k")
        case True
        with roles_addr_inj [OF law addr] f have "r' = r \<and> w' = w" by blast
        with True f er show ?thesis by (simp add: set_role_def roles_at_addr)
      next
        case False
        then have "\<not> (r' = r \<and> w' = w)" using f addr by (auto simp: roles_addr_def)
        with False f show ?thesis by (auto simp: set_role_def roles_at_addr)
      qed
    qed
  qed
qed

section \<open>The account machine\<close>

definition has_role :: "u8 \<Rightarrow> u8 \<Rightarrow> bool" where
  "has_role x role \<longleftrightarrow> x AND role = role"

text \<open>The roles account of a user on a resource, with what it holds (nothing when it is absent).\<close>

definition roles_cell :: "env \<Rightarrow> its_account accounts \<Rightarrow> pubkey \<Rightarrow> pubkey \<Rightarrow> pubkey \<Rightarrow> u8 \<Rightarrow> u8 \<Rightarrow> bool" where
  "roles_cell env m r w k b x \<longleftrightarrow> roles_addr env r w k b \<and> no_resource (m k) \<and> entry_roles (m k) = x"

lemma roles_cell_at: "roles_cell env m r w k b x \<Longrightarrow> roles_at env m r w = x"
  by (auto simp: roles_cell_def roles_at_addr)

text \<open>The edits of the service's account that are allowed: where, from what (nothing for a new one), to what.\<close>

type_synonym root_edits = "pubkey \<Rightarrow> InterchainTokenService option \<Rightarrow> InterchainTokenService \<Rightarrow> bool"

text \<open>Who holds the authority of a mint, and the roles a new manager's operator or minter gets.\<close>

type_synonym mint_authorities = "pubkey \<Rightarrow> pubkey \<Rightarrow> bool"

definition minted_by :: "token_ledger \<Rightarrow> mint_authorities" where
  "minted_by T mk w \<longleftrightarrow> (\<exists>m. tl_mints T mk = Some m \<and> mi_authority m = Some w)"

definition first_roles :: "TokenManager \<Rightarrow> u8" where
  "first_roles t = (if ty t = NativeInterchainToken then NATIVE_MINTER_ROLES else LINKED_OPERATOR_ROLES)"

inductive acct_change :: "env \<Rightarrow> pubkey set \<Rightarrow> root_edits \<Rightarrow> mint_authorities \<Rightarrow> its_account accounts \<Rightarrow>
    its_account accounts \<Rightarrow> bool"
  for env S E A m where
  ac_same: "acct_change env S E A m m"
| ac_init: "root_addr env rk (its_bump s) \<Longrightarrow> m rk = None \<Longrightarrow> root_ok s \<Longrightarrow> roles_addr env rk w uk b \<Longrightarrow> m uk = None \<Longrightarrow>
    uk \<noteq> rk \<Longrightarrow> w \<in> S \<Longrightarrow> E rk None s \<Longrightarrow>
    acct_change env S E A m (m(rk \<mapsto> ItsRootAcc s, uk \<mapsto> UserRolesAcc \<lparr>roles = OPERATOR, ur_bump = b\<rparr>))"
| ac_root: "m rk = Some (ItsRootAcc s) \<Longrightarrow> its_bump s' = its_bump s \<Longrightarrow> its_hub_address s' = its_hub_address s \<Longrightarrow>
    chain_name s' = chain_name s \<Longrightarrow> (root_ok s \<Longrightarrow> root_ok s') \<Longrightarrow> E rk (Some s) s' \<Longrightarrow>
    acct_change env S E A m (m(rk \<mapsto> ItsRootAcc s'))"
| ac_limit: "m tk = Some (TokenManagerAcc t) \<Longrightarrow> m rk = Some (ItsRootAcc s) \<Longrightarrow> length w = 32 \<Longrightarrow> w \<in> S \<Longrightarrow>
    has_role (roles_at env m rk w) OPERATOR \<or> has_role (roles_at env m tk w) FLOW_LIMITER \<Longrightarrow>
    acct_change env S E A m (m(tk \<mapsto> TokenManagerAcc (with_flow_limit limit t)))"
| ac_flow: "m tk = Some (TokenManagerAcc t) \<Longrightarrow> track_token_flow view n dir (flow_slot t) = Inr f \<Longrightarrow>
    acct_change env S E A m (m(tk \<mapsto> TokenManagerAcc (t\<lparr>flow_slot := f\<rparr>)))"
| ac_manager: "m rk = Some (ItsRootAcc s) \<Longrightarrow> manager_addr env (tm_token_id t) tk (tm_bump t) \<Longrightarrow> m tk = None \<Longrightarrow>
    flow_slot t = flow_new None 0 \<Longrightarrow> acct_change env S E A m (m(tk \<mapsto> TokenManagerAcc t))"
| ac_manager_roles: "m rk = Some (ItsRootAcc s) \<Longrightarrow> manager_addr env (tm_token_id t) tk (tm_bump t) \<Longrightarrow> m tk = None \<Longrightarrow>
    flow_slot t = flow_new None 0 \<Longrightarrow> roles_addr env tk w uk b \<Longrightarrow> m uk = None \<Longrightarrow> uk \<noteq> tk \<Longrightarrow> x = first_roles t \<Longrightarrow>
    acct_change env S E A m (m(tk \<mapsto> TokenManagerAcc t, uk \<mapsto> UserRolesAcc \<lparr>roles = x, ur_bump = b\<rparr>))"
| ac_hand_over: "is_resource m r \<Longrightarrow> role \<in> {OPERATOR, MINTER} \<Longrightarrow> roles_cell env m r w ok b x \<Longrightarrow> has_role x role \<Longrightarrow>
    w \<in> S \<Longrightarrow> w' \<noteq> w \<Longrightarrow> roles_cell env m r w' dk b' x' \<Longrightarrow> roles_entry b (x AND NOT role) e \<Longrightarrow>
    roles_entry b' (x' OR role) e' \<Longrightarrow> acct_change env S E A m (m(ok := e, dk := e'))"
| ac_limiter: "m tk = Some (TokenManagerAcc t) \<Longrightarrow> length w = 32 \<Longrightarrow> w \<in> S \<Longrightarrow> has_role (roles_at env m tk w) OPERATOR \<Longrightarrow>
    roles_cell env m tk w' k b x \<Longrightarrow> x' \<in> {x OR FLOW_LIMITER, x AND NOT FLOW_LIMITER} \<Longrightarrow> roles_entry b x' e \<Longrightarrow>
    acct_change env S E A m (m(k := e))"
| ac_minter: "m tk = Some (TokenManagerAcc t) \<Longrightarrow> ty t = MintBurn \<or> ty t = MintBurnFrom \<Longrightarrow> w \<in> S \<Longrightarrow>
    A (token_address t) w \<Longrightarrow> roles_cell env m tk w k b x \<Longrightarrow> roles_entry b (x OR MINTER) e \<Longrightarrow> acct_change env S E A m (m(k := e))"

text \<open>Every change keeps the invariant, and roots and managers with what identifies them.\<close>

definition root_same :: "InterchainTokenService \<Rightarrow> InterchainTokenService \<Rightarrow> bool" where
  "root_same s s' \<longleftrightarrow> its_hub_address s' = its_hub_address s \<and> chain_name s' = chain_name s \<and> its_bump s' = its_bump s"

definition manager_same :: "TokenManager \<Rightarrow> TokenManager \<Rightarrow> bool" where
  "manager_same t t' \<longleftrightarrow> ty t' = ty t \<and> tm_token_id t' = tm_token_id t \<and> token_address t' = token_address t \<and>
     associated_token_account t' = associated_token_account t \<and> tm_bump t' = tm_bump t"

definition acct_le :: "its_account accounts \<Rightarrow> its_account accounts \<Rightarrow> bool" where
  "acct_le m m' \<longleftrightarrow>
     (\<forall>k s. m k = Some (ItsRootAcc s) \<longrightarrow> (\<exists>s'. m' k = Some (ItsRootAcc s') \<and> root_same s s')) \<and>
     (\<forall>k t. m k = Some (TokenManagerAcc t) \<longrightarrow> (\<exists>t'. m' k = Some (TokenManagerAcc t') \<and> manager_same t t'))"

lemma acct_le_refl: "acct_le m m"
  by (simp add: acct_le_def root_same_def manager_same_def)

lemma root_same_trans: "root_same s s' \<Longrightarrow> root_same s' s'' \<Longrightarrow> root_same s s''"
  by (simp add: root_same_def)

lemma manager_same_trans: "manager_same t t' \<Longrightarrow> manager_same t' t'' \<Longrightarrow> manager_same t t''"
  by (simp add: manager_same_def)

lemma acct_le_trans: "acct_le m m' \<Longrightarrow> acct_le m' m'' \<Longrightarrow> acct_le m m''"
  unfolding acct_le_def by (meson root_same_trans manager_same_trans)

lemma acct_le_put_free: "no_resource (m k) \<Longrightarrow> acct_le m (m(k := e))"
  by (auto simp: acct_le_def root_same_def manager_same_def no_resource_def)

lemma acct_le_put_root: "m k = Some (ItsRootAcc s) \<Longrightarrow> root_same s s' \<Longrightarrow> acct_le m (m(k \<mapsto> ItsRootAcc s'))"
  by (auto simp: acct_le_def root_same_def manager_same_def)

lemma acct_le_put_manager:
  "m k = Some (TokenManagerAcc t) \<Longrightarrow> manager_same t t' \<Longrightarrow> acct_le m (m(k \<mapsto> TokenManagerAcc t'))"
  by (auto simp: acct_le_def root_same_def manager_same_def)

lemmas acct_le_puts = acct_le_refl acct_le_put_free acct_le_put_root acct_le_put_manager

lemma acct_le_put_two: "no_resource (m k) \<Longrightarrow> no_resource (m k') \<Longrightarrow> no_resource e \<Longrightarrow> acct_le m (m(k := e, k' := e'))"
  by (rule acct_le_trans [OF acct_le_put_free acct_le_put_free]) auto

lemma acct_le_put_new: "m k = None \<Longrightarrow> m k' = None \<Longrightarrow> acct_le m (m(k := e, k' := e'))"
  by (auto simp: acct_le_def root_same_def manager_same_def)

lemma roles_entry_no_resource: "roles_entry b x e \<Longrightarrow> no_resource e"
  by (auto simp: roles_entry_def no_resource_def)

lemma acct_change_le: "acct_change env S E A m m' \<Longrightarrow> acct_le m m'"
proof (induction rule: acct_change.induct)
  case (ac_hand_over r role w ok b x w' dk b' x' e e')
  then show ?case by (intro acct_le_put_two) (auto simp: roles_cell_def roles_entry_no_resource)
next
  case (ac_root rk s s')
  then show ?case by (intro acct_le_put_root) (auto simp: root_same_def)
next
  case (ac_limit tk t rk s w limit)
  then show ?case by (intro acct_le_put_manager) (auto simp: manager_same_def with_flow_limit_def)
next
  case (ac_flow tk t view n dir f)
  then show ?case by (intro acct_le_put_manager) (auto simp: manager_same_def)
next
  case (ac_limiter tk t w w' k b x x' e)
  then show ?case by (intro acct_le_put_free) (simp add: roles_cell_def)
next
  case (ac_minter tk t w k b x e)
  then show ?case by (intro acct_le_put_free) (simp add: roles_cell_def)
next
  case (ac_manager rk s t tk)
  then show ?case by (intro acct_le_put_free) (simp add: no_resource_def)
next
  case (ac_init rk s w uk b)
  then show ?case by (intro acct_le_put_new) auto
next
  case (ac_manager_roles rk s t tk w uk b x)
  then show ?case by (intro acct_le_put_new) auto
qed (rule acct_le_refl)

text \<open>The same changes read on the table of roles: the abstract machine of access control.\<close>

inductive role_change :: "pubkey set \<Rightarrow> mint_authorities \<Rightarrow> its_account accounts \<Rightarrow> its_account accounts \<Rightarrow>
    (pubkey \<Rightarrow> pubkey \<Rightarrow> u8) \<Rightarrow> (pubkey \<Rightarrow> pubkey \<Rightarrow> u8) \<Rightarrow> bool" for S A m m' R R' where
  rc_same: "same_roles R' R \<Longrightarrow> role_change S A m m' R R'"
| rc_new: "\<not> is_resource m r \<Longrightarrow> is_resource m' r \<Longrightarrow> length w = 32 \<Longrightarrow>
    (\<And>s. m' r = Some (ItsRootAcc s) \<Longrightarrow> x = OPERATOR \<and> w \<in> S) \<Longrightarrow>
    (\<And>t. m' r = Some (TokenManagerAcc t) \<Longrightarrow> x = first_roles t) \<Longrightarrow>
    same_roles R' (set_role R r w x) \<Longrightarrow> role_change S A m m' R R'"
| rc_hand_over: "is_resource m r \<Longrightarrow> role \<in> {OPERATOR, MINTER} \<Longrightarrow> length w = 32 \<Longrightarrow> length w' = 32 \<Longrightarrow> w' \<noteq> w \<Longrightarrow>
    has_role (R r w) role \<Longrightarrow> w \<in> S \<Longrightarrow>
    same_roles R' (set_role (set_role R r w (R r w AND NOT role)) r w' (R r w' OR role)) \<Longrightarrow> role_change S A m m' R R'"
| rc_limiter: "m r = Some (TokenManagerAcc t) \<Longrightarrow> length w = 32 \<Longrightarrow> has_role (R r w) OPERATOR \<Longrightarrow> w \<in> S \<Longrightarrow>
    length w' = 32 \<Longrightarrow> x \<in> {R r w' OR FLOW_LIMITER, R r w' AND NOT FLOW_LIMITER} \<Longrightarrow>
    same_roles R' (set_role R r w' x) \<Longrightarrow> role_change S A m m' R R'"
| rc_minter: "m r = Some (TokenManagerAcc t) \<Longrightarrow> ty t = MintBurn \<or> ty t = MintBurnFrom \<Longrightarrow> length w = 32 \<Longrightarrow> w \<in> S \<Longrightarrow>
    A (token_address t) w \<Longrightarrow> same_roles R' (set_role R r w (R r w OR MINTER)) \<Longrightarrow> role_change S A m m' R R'"

lemma same_roles_refl: "same_roles R R"
  by (simp add: same_roles_def)

lemma same_roles_trans: "same_roles R R' \<Longrightarrow> same_roles R' R'' \<Longrightarrow> same_roles R R''"
  by (simp add: same_roles_def)

lemma same_roles_set: "same_roles R R' \<Longrightarrow> same_roles (set_role R r w x) (set_role R' r w x)"
  by (simp add: same_roles_def set_role_def)

text \<open>Two roles accounts of one resource, written one after the other.\<close>

lemma roles_at_hand_over:
  assumes law: "pda_law env" "pda_inj env" and ok: "its_ok env m"
    and c: "roles_cell env m r w ok' b x" "roles_cell env m r w' dk b' x'" and res: "is_resource m r"
    and e: "roles_entry b y e" "roles_entry b' y' e'"
  shows "its_ok env (m(ok' := e, dk := e'))"
    and "same_roles (roles_at env (m(ok' := e, dk := e'))) (set_role (set_role (roles_at env m) r w y) r w' y')"
proof -
  have o: "roles_addr env r w ok' b" "no_resource (m ok')" and d: "roles_addr env r w' dk b'" "no_resource (m dk)"
    using c by (auto simp: roles_cell_def)
  note first = its_ok_put_roles [OF law ok o e(1) res]
  have "is_resource (m(ok' := e)) r"
    using is_resource_put [where m = m and k = ok', OF o(2) roles_entry_no_resource [OF e(1)]] res by simp
  moreover have "no_resource ((m(ok' := e)) dk)" using d(2) roles_entry_no_resource [OF e(1)] by simp
  ultimately have second: "its_ok env (m(ok' := e, dk := e'))"
    "same_roles (roles_at env (m(ok' := e, dk := e'))) (set_role (roles_at env (m(ok' := e))) r w' y')"
    using its_ok_put_roles [OF law first(1) d(1) _ e(2)] by blast+
  show "its_ok env (m(ok' := e, dk := e'))" by (rule second(1))
  show "same_roles (roles_at env (m(ok' := e, dk := e'))) (set_role (set_role (roles_at env m) r w y) r w' y')"
    by (rule same_roles_trans [OF second(2) same_roles_set [OF first(2)]])
qed

lemma acct_change_refines:
  assumes law: "pda_law env" "pda_inj env" and ok: "its_ok env m" and ch: "acct_change env S E A m m'"
  shows "its_ok env m' \<and> role_change S A m m' (roles_at env m) (roles_at env m')"
  using ch
proof cases
  case ac_same
  then show ?thesis using ok by (auto intro: rc_same same_roles_refl)
next
  case (ac_init rk s w uk b)
  let ?m = "m(rk \<mapsto> ItsRootAcc s)"
  have root: "its_ok env ?m" "roles_at env ?m = roles_at env m"
    using its_ok_put_root [OF ok] ac_init by auto
  have "no_resource (?m uk)" "is_resource ?m rk"
    using ac_init by (auto simp: no_resource_def is_resource_def)
  note put = its_ok_put_roles [OF law root(1) ac_init(5) this(1) _ this(2), of OPERATOR "Some (UserRolesAcc \<lparr>roles = OPERATOR, ur_bump = b\<rparr>)"]
  have "roles_entry b OPERATOR (Some (UserRolesAcc \<lparr>roles = OPERATOR, ur_bump = b\<rparr>))"
    by (simp add: roles_entry_def)
  note put = put [OF this]
  have "role_change S A m m' (roles_at env m) (roles_at env m')"
    using ac_init put(2) by (intro rc_new [where r = rk and w = w and x = OPERATOR])
      (auto simp: is_resource_def root(2) roles_addr_def)
  with put(1) ac_init(1) show ?thesis by simp
next
  case (ac_root rk s s')
  have "root_addr env rk (its_bump s')" "root_ok s'"
    using its_okD [OF ok ac_root(2)] ac_root by auto
  from its_ok_put_root [OF ok _ this] show ?thesis
    using ac_root by (auto intro: rc_same same_roles_refl)
next
  case (ac_limit tk t rk s w limit)
  have "manager_addr env (tm_token_id (with_flow_limit limit t)) tk (tm_bump (with_flow_limit limit t))"
    using its_okD [OF ok ac_limit(2)] by (simp add: with_flow_limit_def)
  from its_ok_put_manager [OF ok _ this ac_limit(3)] show ?thesis
    using ac_limit by (auto intro: rc_same same_roles_refl)
next
  case (ac_flow tk t view n dir f)
  obtain root s where root: "m root = Some (ItsRootAcc s)" using its_okD [OF ok ac_flow(2)] by auto
  have "manager_addr env (tm_token_id (t\<lparr>flow_slot := f\<rparr>)) tk (tm_bump (t\<lparr>flow_slot := f\<rparr>))"
    using its_okD [OF ok ac_flow(2)] by simp
  from its_ok_put_manager [OF ok _ this root] show ?thesis
    using ac_flow by (auto intro: rc_same same_roles_refl)
next
  case (ac_manager rk s t tk)
  from its_ok_put_manager [OF ok _ ac_manager(3) ac_manager(2)] show ?thesis
    using ac_manager by (auto intro: rc_same same_roles_refl)
next
  case (ac_manager_roles rk s t tk w uk b x)
  let ?m = "m(tk \<mapsto> TokenManagerAcc t)"
  have mgr: "its_ok env ?m" "roles_at env ?m = roles_at env m"
    using its_ok_put_manager [OF ok _ ac_manager_roles(3,2)] ac_manager_roles by auto
  have "no_resource (?m uk)" "is_resource ?m tk"
    using ac_manager_roles by (auto simp: no_resource_def is_resource_def)
  note put = its_ok_put_roles [OF law mgr(1) ac_manager_roles(6) this(1) _ this(2), of x "Some (UserRolesAcc \<lparr>roles = x, ur_bump = b\<rparr>)"]
  have "roles_entry b x (Some (UserRolesAcc \<lparr>roles = x, ur_bump = b\<rparr>))"
    by (simp add: roles_entry_def)
  note put = put [OF this]
  have "role_change S A m m' (roles_at env m) (roles_at env m')"
    using ac_manager_roles put(2) by (intro rc_new [where r = tk and w = w and x = x])
      (auto simp: is_resource_def mgr(2) roles_addr_def)
  with put(1) ac_manager_roles(1) show ?thesis by simp
next
  case (ac_hand_over r role w ok' b x w' dk b' x' e e')
  have o: "roles_addr env r w ok' b" "no_resource (m ok')" and d: "roles_addr env r w' dk b'" "no_resource (m dk)"
    using ac_hand_over by (auto simp: roles_cell_def)
  have at: "roles_at env m r w = x" "roles_at env m r w' = x'"
    using ac_hand_over(4,8) by (auto simp: roles_cell_at)
  note both = roles_at_hand_over [OF law ok ac_hand_over(4,8,2,9,10)]
  have "role_change S A m m' (roles_at env m) (roles_at env m')"
    using ac_hand_over at o d both(2) by (intro rc_hand_over [where r = r and role = role and w = w and w' = w'])
      (auto simp: roles_addr_def)
  with both(1) ac_hand_over(1) show ?thesis by simp
next
  case (ac_limiter tk t w w' k b x x' e)
  have a: "roles_addr env tk w' k b" "no_resource (m k)" and at: "roles_at env m tk w' = x"
    using ac_limiter by (auto simp: roles_cell_def roles_at_addr)
  have "is_resource m tk" using ac_limiter by (simp add: is_resource_def)
  note put = its_ok_put_roles [OF law ok a ac_limiter(8) this]
  have "role_change S A m m' (roles_at env m) (roles_at env m')"
    using ac_limiter put(2) at a by (intro rc_limiter [where r = tk and w = w and w' = w' and x = x'])
      (auto simp: roles_addr_def)
  with put(1) ac_limiter(1) show ?thesis by simp
next
  case (ac_minter tk t w k b x e)
  have a: "roles_addr env tk w k b" "no_resource (m k)" and at: "roles_at env m tk w = x"
    using ac_minter by (auto simp: roles_cell_def roles_at_addr)
  have "is_resource m tk" using ac_minter by (simp add: is_resource_def)
  note put = its_ok_put_roles [OF law ok a ac_minter(7) this]
  have "role_change S A m m' (roles_at env m) (roles_at env m')"
    using ac_minter put(2) at a by (intro rc_minter [where r = tk and w = w]) (auto simp: roles_addr_def)
  with put(1) ac_minter(1) show ?thesis by simp
qed

end
