(* ===== verification/Its_Refine.thy ===== *)
theory Its_Refine
  imports Its_Inv
begin

text \<open>
  The instructions of the service refine the account machine of \<open>Its_Inv\<close>: what the account
  constraints establish (section 1), then one lemma per instruction, then all of them together.
\<close>

section \<open>What the constraints establish\<close>

lemma check_payer_Inr [res_inv]: "check_payer a = Inr u \<longleftrightarrow> ai_signer a \<and> ai_writable a"
  by (auto simp: check_payer_def res_inv)

lemma load_its_root_Inr [res_inv]:
  "load_its_root env st a = Inr s \<longleftrightarrow> its_accounts st (ai_key a) = Some (ItsRootAcc s) \<and>
     create_program_address env (its_root_seeds @ [[its_bump s]]) (its_id env) = Some (ai_key a)"
  by (auto simp: load_its_root_def res_inv iroot.load_Inr)

lemma load_active_root_Inr [res_inv]:
  "load_active_root env st a = Inr s \<longleftrightarrow> load_its_root env st a = Inr s \<and> \<not> paused s"
  unfolding load_active_root_def res_bind_Inr require_Inr by auto

lemma load_self_root_Inr [res_inv]:
  "load_self_root env st a = Inr s \<longleftrightarrow> load_active_root env st a = Inr s \<and> ai_signer a"
  unfolding load_self_root_def res_bind_Inr require_Inr by auto

lemma load_user_roles_Inr [res_inv]:
  "load_user_roles env st r w a = Inr u \<longleftrightarrow> its_accounts st (ai_key a) = Some (UserRolesAcc u) \<and>
     create_program_address env (user_roles_seeds r w @ [[ur_bump u]]) (its_id env) = Some (ai_key a)"
  by (auto simp: load_user_roles_def res_inv irole.load_Inr)

lemma load_token_manager_Inr [res_inv]:
  "load_token_manager env st root tid a = Inr t \<longleftrightarrow> its_accounts st (ai_key a) = Some (TokenManagerAcc t) \<and>
     create_program_address env (token_manager_seeds tid root @ [[tm_bump t]]) (its_id env) = Some (ai_key a)"
  by (auto simp: load_token_manager_def res_inv itm.load_Inr)

lemma load_own_token_manager_Inr [res_inv]:
  "load_own_token_manager env st root a = Inr t \<longleftrightarrow> load_token_manager env st root (tm_token_id t) a = Inr t"
  by (auto simp: load_own_token_manager_def res_inv itm.load_Inr)

lemma init_token_manager_Inr [res_inv]:
  "init_token_manager env st root tid a = Inr b \<longleftrightarrow> ai_writable a \<and> its_accounts st (ai_key a) = None \<and>
     try_find_program_address env (token_manager_seeds tid root) (its_id env) = Some (ai_key a, b)"
  by (auto simp: init_token_manager_def res_inv)

lemma init_user_roles_Inr [res_inv]:
  "init_user_roles env st r w a = Inr b \<longleftrightarrow> ai_writable a \<and> its_accounts st (ai_key a) = None \<and>
     try_find_program_address env (user_roles_seeds r w) (its_id env) = Some (ai_key a, b)"
  by (auto simp: init_user_roles_def res_inv)

lemma root_addr_loaded:
  "its_ok env (its_accounts st) \<Longrightarrow> load_its_root env st a = Inr s \<Longrightarrow> root_addr env (ai_key a) (its_bump s) \<and> root_ok s"
  by (auto simp: res_inv dest: its_okD)

lemma roles_cell_loaded:
  assumes "pda_law env" and "pda_inj env" and ok: "its_ok env (its_accounts st)"
    and l: "load_user_roles env st r w a = Inr u" and "length w = 32"
  shows "roles_cell env (its_accounts st) r w (ai_key a) (ur_bump u) (roles u)"
proof -
  obtain r0 w0 where a0: "roles_addr env r0 w0 (ai_key a) (ur_bump u)"
    using its_okD [OF ok] l by (fastforce simp: res_inv)
  then have "r = r0 \<and> w = w0" using roles_addr_unique [OF assms(1,2) a0 assms(5)] l by (auto simp: res_inv)
  with a0 l show ?thesis by (auto simp: roles_cell_def no_resource_def entry_roles_def res_inv)
qed

lemma roles_at_loaded:
  "pda_law env \<Longrightarrow> pda_inj env \<Longrightarrow> its_ok env (its_accounts st) \<Longrightarrow> load_user_roles env st r w a = Inr u \<Longrightarrow>
     length w = 32 \<Longrightarrow> roles_at env (its_accounts st) r w = roles u"
  by (rule roles_cell_at [OF roles_cell_loaded])

lemma roles_cell_init_if_needed:
  assumes "init_user_roles_if_needed env st r w a = Inr (v, b)" and "length w = 32"
  shows "roles_cell env (its_accounts st) r w (ai_key a) b (roles v)"
proof (cases "its_accounts st (ai_key a)")
  case None
  with assms show ?thesis
    by (auto simp: init_user_roles_if_needed_def roles_cell_def roles_addr_def no_resource_def entry_roles_def res_inv)
next
  case (Some e)
  with assms show ?thesis
    by (auto simp: init_user_roles_if_needed_def roles_cell_def roles_addr_def no_resource_def entry_roles_def res_inv
        irole.load_Inr)
qed

lemma manager_loaded:
  assumes "pda_law env" and "pda_inj env" and ok: "its_ok env (its_accounts st)"
    and "load_its_root env st ra = Inr s" and "load_token_manager env st (ai_key ra) tid a = Inr t"
  shows "its_accounts st (ai_key a) = Some (TokenManagerAcc t)" and "tm_token_id t = tid"
proof -
  show at: "its_accounts st (ai_key a) = Some (TokenManagerAcc t)" using assms(5) by (simp add: res_inv)
  have "manager_addr env (tm_token_id t) (ai_key a) (tm_bump t)" using its_okD [OF ok at] by simp
  moreover have "root_addr env (ai_key ra) (its_bump s)" using root_addr_loaded [OF ok assms(4)] by simp
  moreover have "create_program_address env (token_manager_seeds tid (ai_key ra) @ [[tm_bump t]]) (its_id env) = Some (ai_key a)"
    using assms(5) by (simp add: res_inv)
  ultimately show "tm_token_id t = tid" using manager_addr_unique [OF assms(1,2)] by blast
qed

text \<open>The roles as the handlers test and change them.\<close>

lemma has_role_tests:
  "has_operator_role u \<longleftrightarrow> has_role (roles u) OPERATOR"
  "has_minter_role u \<longleftrightarrow> has_role (roles u) MINTER"
  "has_flow_limiter_role u \<longleftrightarrow> has_role (roles u) FLOW_LIMITER"
  by (simp_all add: has_operator_role_def has_minter_role_def has_flow_limiter_role_def has_role_def)

lemma roles_entry_insert: "roles_entry b (roles v OR r) (Some (UserRolesAcc ((insert_roles r v)\<lparr>ur_bump := b\<rparr>)))"
  by (simp add: roles_entry_def insert_roles_def)

lemma roles_entry_remove:
  "roles_entry (ur_bump u) (roles u AND NOT r)
     (if has_roles (remove_roles r u) then Some (UserRolesAcc (remove_roles r u)) else None)"
  by (simp add: roles_entry_def remove_roles_def has_roles_def EMPTY_def)

section \<open>One instruction each\<close>

text \<open>The invariant the instructions start from, with the laws of addresses.\<close>

definition its_pre :: "env \<Rightarrow> its_state \<Rightarrow> bool" where
  "its_pre env st \<longleftrightarrow> pda_law env \<and> pda_inj env \<and> its_ok env (its_accounts st)"

lemma its_preD: "its_pre env st \<Longrightarrow> pda_law env" "its_pre env st \<Longrightarrow> pda_inj env"
    "its_pre env st \<Longrightarrow> its_ok env (its_accounts st)"
  by (simp_all add: its_pre_def)

abbreviation its_refines :: "env \<Rightarrow> pubkey set \<Rightarrow> root_edits \<Rightarrow> its_state \<Rightarrow> its_state \<Rightarrow> bool" where
  "its_refines env S E st st' \<equiv> acct_change env S E (minted_by (its_tokens st)) (its_accounts st) (its_accounts st')"

text \<open>The authority that may upgrade the service's program.\<close>

definition upgrade_authority :: "env \<Rightarrow> its_view \<Rightarrow> pubkey \<Rightarrow> bool" where
  "upgrade_authority env view w \<longleftrightarrow>
     (\<exists>k b. try_find_program_address env [its_id env] (loader_upgradeable_id env) = Some (k, b) \<and>
       program_data_authority (iv_ledger view) k = Some (Some w))"

lemma check_its_program_data_authority: "check_its_program_data env view w a = Inr u \<Longrightarrow> upgrade_authority env view w"
  by (auto simp: check_its_program_data_def load_program_data_def upgrade_authority_def res_inv)

text \<open>Who may edit the chains the service trusts.\<close>

definition root_admin :: "env \<Rightarrow> its_view \<Rightarrow> its_account accounts \<Rightarrow> pubkey \<Rightarrow> pubkey \<Rightarrow> bool" where
  "root_admin env view m rk w \<longleftrightarrow> has_role (roles_at env m rk w) OPERATOR \<or> upgrade_authority env view w"

lemma its_initialize_refines:
  assumes ok: "its_initialize env view a c h st = Inr st'" and len: "length (ai_key (ii_operator a)) = 32"
    and S: "ai_signer (ii_operator a) \<Longrightarrow> ai_key (ii_operator a) \<in> S"
    and E: "\<And>b. ai_signer (ii_payer a) \<Longrightarrow> upgrade_authority env view (ai_key (ii_payer a)) \<Longrightarrow>
      E (ai_key (ii_its_root_pda a)) None (its_new b c h)"
  shows "its_refines env S E st st'"
proof -
  obtain rb ub where r: "root_addr env (ai_key (ii_its_root_pda a)) rb" "its_accounts st (ai_key (ii_its_root_pda a)) = None"
    and u: "roles_addr env (ai_key (ii_its_root_pda a)) (ai_key (ii_operator a)) (ai_key (ii_user_roles_account a)) ub"
      "its_accounts st (ai_key (ii_user_roles_account a)) = None"
    and d: "ai_key (ii_user_roles_account a) \<noteq> ai_key (ii_its_root_pda a)" "ai_signer (ii_operator a)"
    and st': "st' = put_its (ai_key (ii_user_roles_account a)) (UserRolesAcc \<lparr>roles = OPERATOR, ur_bump = ub\<rparr>)
         (put_its (ai_key (ii_its_root_pda a)) (ItsRootAcc (its_new rb c h)) st)"
    and e: "E (ai_key (ii_its_root_pda a)) None (its_new rb c h)"
    using ok len E by (auto simp: its_initialize_def Let_def res_inv root_addr_def roles_addr_def
        dest!: check_its_program_data_authority)
  have "root_addr env (ai_key (ii_its_root_pda a)) (its_bump (its_new rb c h))"
    using r by (simp add: its_new_def)
  from ac_init [OF this r(2) root_ok_changes(1) u d(1) S [OF d(2)], of E] e show ?thesis by (simp add: st')
qed

lemma set_pause_status_refines:
  assumes "set_pause_status env view a p st = Inr st'"
    and "\<And>s. ai_signer (sps_payer a) \<Longrightarrow> upgrade_authority env view (ai_key (sps_payer a)) \<Longrightarrow> paused s \<noteq> p \<Longrightarrow>
      E (ai_key (sps_its_root_pda a)) (Some s) (s\<lparr>paused := p\<rparr>)"
  shows "its_refines env S E st st'"
  using assms by (auto simp: set_pause_status_def res_inv root_ok_changes dest!: check_its_program_data_authority intro!: ac_root)

lemma load_root_as_admin_Inr:
  "load_root_as_admin env view a st = Inr s \<Longrightarrow> load_its_root env st (stc_its_root_pda a) = Inr s"
  by (auto simp: load_root_as_admin_def Let_def res_inv)

lemma load_root_as_admin_admin:
  assumes pre: "its_pre env st" and ok: "load_root_as_admin env view a st = Inr s" and len: "length (ai_key (stc_payer a)) = 32"
  shows "ai_signer (stc_payer a)" and "root_admin env view (its_accounts st) (ai_key (stc_its_root_pda a)) (ai_key (stc_payer a))"
proof -
  show "ai_signer (stc_payer a)" using ok by (simp add: load_root_as_admin_def Let_def res_inv)
  consider r u where "stc_user_roles a = Some r" "has_operator_role u"
      "load_user_roles env st (ai_key (stc_its_root_pda a)) (ai_key (stc_payer a)) r = Inr u"
    | d where "stc_program_data a = Some d" "check_its_program_data env view (ai_key (stc_payer a)) d = Inr ()"
    using ok by (auto simp: load_root_as_admin_def Let_def res_inv split: option.splits)
  then show "root_admin env view (its_accounts st) (ai_key (stc_its_root_pda a)) (ai_key (stc_payer a))"
  proof cases
    case (1 r u)
    with roles_at_loaded [OF its_preD [OF pre] 1(3) len] show ?thesis by (simp add: root_admin_def has_role_tests)
  next
    case (2 d)
    then show ?thesis by (simp add: root_admin_def check_its_program_data_authority)
  qed
qed

lemma add_trusted_chain_same [simp]:
  "its_bump (add_trusted_chain c s) = its_bump s" "its_hub_address (add_trusted_chain c s) = its_hub_address s"
  "chain_name (add_trusted_chain c s) = chain_name s" "paused (add_trusted_chain c s) = paused s"
  by (simp_all add: add_trusted_chain_def)

lemma remove_trusted_chain_same [simp]:
  "its_bump (remove_trusted_chain c s) = its_bump s" "its_hub_address (remove_trusted_chain c s) = its_hub_address s"
  "chain_name (remove_trusted_chain c s) = chain_name s" "paused (remove_trusted_chain c s) = paused s"
  by (simp_all add: remove_trusted_chain_def)

lemma trusted_chain_refines:
  assumes "its_pre env st" and "length (ai_key (stc_payer a)) = 32"
    and E: "\<And>s. ai_signer (stc_payer a) \<Longrightarrow>
      root_admin env view (its_accounts st) (ai_key (stc_its_root_pda a)) (ai_key (stc_payer a)) \<Longrightarrow>
      is_trusted_chain s c = old \<Longrightarrow> E (ai_key (stc_its_root_pda a)) (Some s) (edit s)"
    and edit: "\<not> old \<and> edit = add_trusted_chain c \<and> set_trusted_chain env view a c st = Inr st' \<or>
      old \<and> edit = remove_trusted_chain c \<and> remove_trusted_chain_ix env view a c st = Inr st'"
  shows "its_refines env S E st st'"
proof -
  let ?rk = "ai_key (stc_its_root_pda a)"
  obtain s where s: "load_root_as_admin env view a st = Inr s" "is_trusted_chain s c = old"
    and st': "its_accounts st' = (its_accounts st)(?rk \<mapsto> ItsRootAcc (edit s))"
    using edit by (auto simp: set_trusted_chain_def remove_trusted_chain_ix_def res_inv)
  have root: "its_accounts st ?rk = Some (ItsRootAcc s)" using load_root_as_admin_Inr [OF s(1)] by (simp add: res_inv)
  have "E ?rk (Some s) (edit s)"
    by (rule E [OF load_root_as_admin_admin [OF assms(1) s(1) assms(2)] s(2)])
  moreover have "root_ok s \<Longrightarrow> root_ok (edit s)" using edit by (auto simp: root_ok_changes)
  moreover have "its_bump (edit s) = its_bump s" "its_hub_address (edit s) = its_hub_address s" "chain_name (edit s) = chain_name s"
    using edit by auto
  ultimately show ?thesis unfolding st' using root by (intro ac_root [where s = s]) simp_all
qed

lemma set_flow_limit_refines:
  assumes pre: "its_pre env st" and ok: "set_flow_limit env a limit st = Inr st'"
    and len: "length (ai_key (sfl_operator a)) = 32" and S: "ai_signer (sfl_operator a) \<Longrightarrow> ai_key (sfl_operator a) \<in> S"
  shows "its_refines env S E st st'"
proof -
  obtain s u t where s: "load_its_root env st (sfl_its_root_pda a) = Inr s"
    and u: "load_user_roles env st (ai_key (sfl_its_root_pda a)) (ai_key (sfl_operator a)) (sfl_its_roles_pda a) = Inr u"
      "has_operator_role u"
    and t: "its_accounts st (ai_key (sfl_token_manager_pda a)) = Some (TokenManagerAcc t)"
    and w: "ai_signer (sfl_operator a)"
    and st': "its_accounts st' = (its_accounts st)(ai_key (sfl_token_manager_pda a) \<mapsto> TokenManagerAcc (with_flow_limit limit t))"
    using ok unfolding set_flow_limit_def Let_def res_bind_Inr by (auto simp: res_inv)
  have "has_role (roles_at env (its_accounts st) (ai_key (sfl_its_root_pda a)) (ai_key (sfl_operator a))) OPERATOR"
    using roles_at_loaded [OF its_preD [OF pre] u(1) len] u(2) by (simp add: has_role_tests)
  with t s show ?thesis
    unfolding st' by (intro ac_limit [where rk = "ai_key (sfl_its_root_pda a)" and s = s]) (use len S [OF w] in \<open>auto simp: res_inv\<close>)
qed

lemma set_token_manager_flow_limit_refines:
  assumes pre: "its_pre env st" and ok: "set_token_manager_flow_limit env a limit st = Inr st'"
    and len: "length (ai_key (stf_flow_limiter a)) = 32"
    and S: "ai_signer (stf_flow_limiter a) \<Longrightarrow> ai_key (stf_flow_limiter a) \<in> S"
  shows "its_refines env S E st st'"
proof -
  obtain s u t where s: "load_its_root env st (stf_its_root_pda a) = Inr s"
    and u: "load_user_roles env st (ai_key (stf_token_manager_pda a)) (ai_key (stf_flow_limiter a))
        (stf_flow_limiter_roles_pda a) = Inr u" "has_flow_limiter_role u"
    and t: "its_accounts st (ai_key (stf_token_manager_pda a)) = Some (TokenManagerAcc t)"
    and w: "ai_signer (stf_flow_limiter a)"
    and st': "its_accounts st' = (its_accounts st)(ai_key (stf_token_manager_pda a) \<mapsto> TokenManagerAcc (with_flow_limit limit t))"
    using ok unfolding set_token_manager_flow_limit_def Let_def res_bind_Inr by (auto simp: res_inv)
  have "has_role (roles_at env (its_accounts st) (ai_key (stf_token_manager_pda a)) (ai_key (stf_flow_limiter a))) FLOW_LIMITER"
    using roles_at_loaded [OF its_preD [OF pre] u(1) len] u(2) by (simp add: has_role_tests)
  with t s show ?thesis
    unfolding st' by (intro ac_limit [where rk = "ai_key (stf_its_root_pda a)" and s = s]) (use len S [OF w] in \<open>auto simp: res_inv\<close>)
qed

text \<open>The three hand-overs share the step of \<open>transfer_role\<close>.\<close>

lemma transfer_role_refines:
  assumes pre: "its_pre env st" and res: "is_resource (its_accounts st) r" and role: "role \<in> {OPERATOR, MINTER}"
    and has: "\<And>u. has u \<Longrightarrow> has_role (roles u) role" and ok: "transfer_role env r role has missing a st = Inr st'"
    and len: "length (ai_key (rt_origin_user_account a)) = 32" "length (ai_key (rt_destination_user_account a)) = 32"
    and S: "ai_signer (rt_origin_user_account a) \<Longrightarrow> ai_key (rt_origin_user_account a) \<in> S"
  shows "its_refines env S E st st'"
proof -
  obtain u v b where u: "load_user_roles env st r (ai_key (rt_origin_user_account a)) (rt_origin_roles_account a) = Inr u" "has u"
    and ne: "ai_key (rt_destination_user_account a) \<noteq> ai_key (rt_origin_user_account a)"
    and w: "ai_signer (rt_origin_user_account a)"
    and v: "init_user_roles_if_needed env st r (ai_key (rt_destination_user_account a)) (rt_destination_roles_account a) = Inr (v, b)"
    and st': "its_accounts st' = ((its_accounts st)(ai_key (rt_origin_roles_account a) :=
        (if has_roles (remove_roles role u) then Some (UserRolesAcc (remove_roles role u)) else None)))
        (ai_key (rt_destination_roles_account a) := Some (UserRolesAcc ((insert_roles role v)\<lparr>ur_bump := b\<rparr>)))"
    using ok unfolding transfer_role_def Let_def res_bind_Inr require_Inr check_signer_Inr by auto
  show ?thesis
    unfolding st'
    by (rule ac_hand_over [OF res role roles_cell_loaded [OF its_preD [OF pre] u(1) len(1)] has [OF u(2)] S [OF w] ne
        roles_cell_init_if_needed [OF v len(2)] roles_entry_remove roles_entry_insert])
qed

lemma is_resource_loaded:
  "load_its_root env st a = Inr s \<Longrightarrow> is_resource (its_accounts st) (ai_key a)"
  "load_token_manager env st root tid a = Inr t \<Longrightarrow> is_resource (its_accounts st) (ai_key a)"
  by (auto simp: is_resource_def res_inv)

lemma role_transfers_refine:
  assumes pre: "its_pre env st"
    and len: "length (ai_key (rt_origin_user_account a)) = 32" "length (ai_key (rt_destination_user_account a)) = 32"
    and S: "ai_signer (rt_origin_user_account a) \<Longrightarrow> ai_key (rt_origin_user_account a) \<in> S"
  shows "its_transfer_operatorship env a st = Inr st' \<Longrightarrow> its_refines env S E st st'"
    "transfer_token_manager_operatorship env a st = Inr st' \<Longrightarrow> its_refines env S E st st'"
    "transfer_interchain_token_mintership env a st = Inr st' \<Longrightarrow> its_refines env S E st st'"
  unfolding its_transfer_operatorship_def transfer_token_manager_operatorship_def
    transfer_interchain_token_mintership_def res_bind_Inr load_own_token_manager_Inr
  by (elim exE conjE, rule transfer_role_refines [OF pre _ _ _ _ len S]; (assumption | simp add: is_resource_loaded has_role_tests))+

lemma check_manager_operator_Inr:
  assumes pre: "its_pre env st" and ok: "check_manager_operator env a st = Inr x"
    and len: "length (ai_key (fc_authority_user_account a)) = 32"
  shows "\<exists>t. its_accounts st (ai_key (fc_token_manager_pda a)) = Some (TokenManagerAcc t) \<and>
    ai_signer (fc_authority_user_account a) \<and>
    has_role (roles_at env (its_accounts st) (ai_key (fc_token_manager_pda a)) (ai_key (fc_authority_user_account a))) OPERATOR"
proof -
  obtain u t where u: "load_user_roles env st (ai_key (fc_token_manager_pda a)) (ai_key (fc_authority_user_account a))
       (fc_authority_roles_account a) = Inr u" "has_operator_role u"
    and t: "its_accounts st (ai_key (fc_token_manager_pda a)) = Some (TokenManagerAcc t)" "ai_signer (fc_authority_user_account a)"
    using ok unfolding check_manager_operator_def Let_def res_bind_Inr by (auto simp: res_inv)
  with roles_at_loaded [OF its_preD [OF pre] u(1) len] show ?thesis by (simp add: has_role_tests)
qed

lemma flow_limiter_refines:
  assumes pre: "its_pre env st"
    and len: "length (ai_key (fc_authority_user_account a)) = 32" "length (ai_key (fc_target_user_account a)) = 32"
    and S: "ai_signer (fc_authority_user_account a) \<Longrightarrow> ai_key (fc_authority_user_account a) \<in> S"
  shows "add_token_manager_flow_limiter env a st = Inr st' \<Longrightarrow> its_refines env S E st st'" (is "?add \<Longrightarrow> _")
    and "remove_token_manager_flow_limiter env a st = Inr st' \<Longrightarrow> its_refines env S E st st'" (is "?rem \<Longrightarrow> _")
proof -
  show "its_refines env S E st st'" if "?add"
  proof -
    from that obtain x v b where c: "check_manager_operator env a st = Inr x"
      and v: "init_user_roles_if_needed env st (ai_key (fc_token_manager_pda a)) (ai_key (fc_target_user_account a))
           (fc_target_roles_account a) = Inr (v, b)"
      and st': "its_accounts st' = (its_accounts st)(ai_key (fc_target_roles_account a) :=
           Some (UserRolesAcc ((insert_roles FLOW_LIMITER v)\<lparr>ur_bump := b\<rparr>)))"
      unfolding add_token_manager_flow_limiter_def res_bind_Inr by (auto simp: res_inv)
    from check_manager_operator_Inr [OF pre c len(1)] S show ?thesis
      unfolding st' using roles_cell_init_if_needed [OF v len(2)] roles_entry_insert len(1)
      by (blast intro: ac_limiter)
  qed
  show "its_refines env S E st st'" if "?rem"
  proof -
    from that obtain x v where c: "check_manager_operator env a st = Inr x"
      and v: "load_user_roles env st (ai_key (fc_token_manager_pda a)) (ai_key (fc_target_user_account a))
           (fc_target_roles_account a) = Inr v"
      and st': "its_accounts st' = (its_accounts st)(ai_key (fc_target_roles_account a) :=
           (if has_roles (remove_roles FLOW_LIMITER v) then Some (UserRolesAcc (remove_roles FLOW_LIMITER v)) else None))"
      unfolding remove_token_manager_flow_limiter_def Let_def res_bind_Inr by auto
    from check_manager_operator_Inr [OF pre c len(1)] S show ?thesis
      unfolding st' using roles_cell_loaded [OF its_preD [OF pre] v len(2)] roles_entry_remove len(1)
      by (blast intro: ac_limiter)
  qed
qed

lemma handover_mint_authority_refines:
  assumes pre: "its_pre env st" and ok: "handover_mint_authority env lib a tid st = Inr st'"
    and len: "length (ai_key (hm_authority a)) = 32" and S: "ai_signer (hm_authority a) \<Longrightarrow> ai_key (hm_authority a) \<in> S"
  shows "its_refines env S E st st'"
proof -
  obtain t v b where t: "its_accounts st (ai_key (hm_token_manager a)) = Some (TokenManagerAcc t)"
      "ty t = MintBurn \<or> ty t = MintBurnFrom" and w: "ai_signer (hm_authority a)"
    and v: "init_user_roles_if_needed env st (ai_key (hm_token_manager a)) (ai_key (hm_authority a)) (hm_minter_roles a) = Inr (v, b)"
    and m: "minted_by (its_tokens st) (token_address t) (ai_key (hm_authority a))"
    and st': "its_accounts st' = (its_accounts st)(ai_key (hm_minter_roles a) :=
        Some (UserRolesAcc ((insert_roles MINTER v)\<lparr>ur_bump := b\<rparr>)))"
    using ok unfolding handover_mint_authority_def Let_def res_bind_Inr
    by (auto simp: res_inv load_mint_of_def load_mint_def minted_by_def)
  show ?thesis
    unfolding st' by (rule ac_minter [OF t S [OF w] _ roles_cell_init_if_needed [OF v len] roles_entry_insert]) (rule m)
qed

section \<open>New managers\<close>

lemma init_optional_roles_Inr:
  "init_optional_roles env st tk missing user roles_pda = Inr rb \<longleftrightarrow>
     roles_pda = None \<and> rb = None \<or>
     (\<exists>a u b. roles_pda = Some a \<and> user = Some u \<and> rb = Some b \<and> init_user_roles env st tk (ai_key u) a = Inr b \<and> ai_key a \<noteq> tk)"
  by (cases roles_pda) (auto simp: init_optional_roles_def res_inv)

lemma new_manager_refines:
  assumes pre: "its_pre env st" and root: "load_its_root env st ra = Inr s"
    and tm: "init_token_manager env st (ai_key ra) tid ta = Inr b"
    and roles: "init_optional_roles env st (ai_key ta) missing user roles_pda = Inr rb"
    and len: "\<And>u. user = Some u \<Longrightarrow> length (ai_key u) = 32"
    and x: "roles_pda \<noteq> None \<Longrightarrow> x = (if t = NativeInterchainToken then NATIVE_MINTER_ROLES else LINKED_OPERATOR_ROLES)"
    and st': "its_accounts st' = its_accounts (put_optional_roles roles_pda rb x
        (put_its (ai_key ta) (TokenManagerAcc (token_manager_init t tid mint ata b)) stx))"
    and stx: "its_accounts stx = its_accounts st"
  shows "its_refines env S E st st'"
proof -
  let ?t = "token_manager_init t tid mint ata b"
  have r: "its_accounts st (ai_key ra) = Some (ItsRootAcc s)" "root_addr env (ai_key ra) (its_bump s)"
    using root root_addr_loaded [OF its_preD(3) [OF pre] root] by (auto simp: res_inv)
  have t: "manager_addr env (tm_token_id ?t) (ai_key ta) (tm_bump ?t)" "its_accounts st (ai_key ta) = None"
    "flow_slot ?t = flow_new None 0"
    using tm r by (auto simp: res_inv manager_addr_def token_manager_init_def)
  from roles show ?thesis
    unfolding init_optional_roles_Inr
  proof (elim disjE exE conjE)
    assume "roles_pda = None" and "rb = None"
    then show ?thesis using ac_manager [OF r(1) t] by (simp add: st' stx put_optional_roles_def)
  next
    fix a u b' assume a: "roles_pda = Some a" "user = Some u" "rb = Some b'" and ne: "ai_key a \<noteq> ai_key ta"
      and u: "init_user_roles env st (ai_key ta) (ai_key u) a = Inr b'"
    have "roles_addr env (ai_key ta) (ai_key u) (ai_key a) b'" "its_accounts st (ai_key a) = None"
      using u len [OF a(2)] by (auto simp: roles_addr_def res_inv)
    moreover have "x = first_roles ?t" using x a by (simp add: first_roles_def token_manager_init_def)
    ultimately show ?thesis
      using ac_manager_roles [OF r(1) t _ _ ne] a by (simp add: st' stx put_optional_roles_def)
  qed
qed

lemma deploy_interchain_token_refines:
  assumes pre: "its_pre env st" and ok: "deploy_interchain_token env lib a salt name symbol d n st = Inr st'"
    and len: "\<And>u. di_minter a = Some u \<Longrightarrow> length (ai_key u) = 32"
  shows "its_refines env S E st st'"
proof -
  obtain s b rb T where c: "load_its_root env st (di_its_root_pda a) = Inr s"
    "init_token_manager env st (ai_key (di_its_root_pda a)) (interchain_token_id env (its_network lib) (ai_key (di_deployer a)) salt)
       (di_token_manager_pda a) = Inr b"
    "init_optional_roles env st (ai_key (di_token_manager_pda a)) MinterNotProvided (di_minter a) (di_minter_roles_pda a) = Inr rb"
    and st': "its_accounts st' = its_accounts (put_optional_roles (di_minter_roles_pda a) rb NATIVE_MINTER_ROLES
      (put_its (ai_key (di_token_manager_pda a)) (TokenManagerAcc (token_manager_init NativeInterchainToken
        (interchain_token_id env (its_network lib) (ai_key (di_deployer a)) salt) (ai_key (di_token_mint a))
        (ai_key (di_token_manager_ata a)) b)) (st\<lparr>its_tokens := T\<rparr>)))"
    using ok unfolding deploy_interchain_token_def Let_def res_bind_Inr load_active_root_Inr
    by (elim exE conjE) (rule that, (assumption | simp | auto)+)
  show ?thesis
    by (rule new_manager_refines [OF pre c len _ st']) simp_all
qed

lemma execute_deploy_interchain_token_refines:
  assumes pre: "its_pre env st" and ok: "execute_deploy_interchain_token env lib a tid name symbol d minter st = Inr st'"
    and len: "\<And>u. ed_minter a = Some u \<Longrightarrow> length (ai_key u) = 32"
  shows "its_refines env S E st st'"
proof -
  obtain s b rb T where c: "load_its_root env st (ed_its_root_pda a) = Inr s"
    "init_token_manager env st (ai_key (ed_its_root_pda a)) tid (ed_token_manager_pda a) = Inr b"
    "init_optional_roles env st (ai_key (ed_token_manager_pda a)) MinterNotProvided (ed_minter a) (ed_minter_roles_pda a) = Inr rb"
    and st': "its_accounts st' = its_accounts (put_optional_roles (ed_minter_roles_pda a) rb NATIVE_MINTER_ROLES
      (put_its (ai_key (ed_token_manager_pda a)) (TokenManagerAcc (token_manager_init NativeInterchainToken
        tid (ai_key (ed_token_mint a)) (ai_key (ed_token_manager_ata a)) b)) (st\<lparr>its_tokens := T\<rparr>)))"
    using ok unfolding execute_deploy_interchain_token_def Let_def res_bind_Inr load_self_root_Inr load_active_root_Inr
    by (elim exE conjE) (rule that, (assumption | simp | auto)+)
  show ?thesis
    by (rule new_manager_refines [OF pre c len _ st']) simp_all
qed

lemma register_canonical_refines:
  assumes pre: "its_pre env st" and ok: "register_canonical_interchain_token env lib a st = Inr st'"
  shows "its_refines env S E st st'"
proof -
  obtain s b t where c: "load_its_root env st (rc_its_root_pda a) = Inr s"
    "init_token_manager env st (ai_key (rc_its_root_pda a)) (canonical_interchain_token_id env (its_network lib)
       (ai_key (rc_token_mint a))) (rc_token_manager_pda a) = Inr b"
    and st': "its_accounts st' = (its_accounts st)(ai_key (rc_token_manager_pda a) \<mapsto> TokenManagerAcc (token_manager_init t
        (canonical_interchain_token_id env (its_network lib) (ai_key (rc_token_mint a))) (ai_key (rc_token_mint a))
        (ai_key (rc_token_manager_ata a)) b))"
    using ok unfolding register_canonical_interchain_token_def Let_def res_bind_Inr load_active_root_Inr
    by (elim exE conjE) (rule that, (assumption | simp | auto)+)
  have "init_optional_roles env st (ai_key (rc_token_manager_pda a)) MinterNotProvided None None = Inr None"
    by (simp add: init_optional_roles_def)
  from new_manager_refines [OF pre c this, where stx = st] st' show ?thesis by (simp add: put_optional_roles_def)
qed

lemma register_custom_token_refines:
  assumes pre: "its_pre env st" and ok: "register_custom_token env lib a salt t op st = Inr st'"
    and len: "\<And>u. ru_operator a = Some u \<Longrightarrow> length (ai_key u) = 32"
  shows "its_refines env S E st st'"
proof -
  let ?tid = "interchain_token_id_internal env (linked_token_deployer_salt env (its_network lib) (ai_key (ru_deployer a)) salt)"
  obtain s b rb T where c: "load_its_root env st (ru_its_root_pda a) = Inr s"
    "init_token_manager env st (ai_key (ru_its_root_pda a)) ?tid (ru_token_manager_pda a) = Inr b"
    "init_optional_roles env st (ai_key (ru_token_manager_pda a)) OperatorNotProvided (ru_operator a) (ru_operator_roles_pda a) = Inr rb"
    and st': "its_accounts st' = its_accounts (put_optional_roles (ru_operator_roles_pda a) rb LINKED_OPERATOR_ROLES
      (put_its (ai_key (ru_token_manager_pda a)) (TokenManagerAcc (token_manager_init t ?tid (ai_key (ru_token_mint a))
        (ai_key (ru_token_manager_ata a)) b)) (st\<lparr>its_tokens := T\<rparr>)))"
    and ty: "t \<noteq> NativeInterchainToken"
    using ok unfolding register_custom_token_def Let_def res_bind_Inr load_active_root_Inr
    by (elim exE conjE) (rule that, (assumption | simp | auto)+)
  show ?thesis
    by (rule new_manager_refines [OF pre c len _ st']) (simp_all add: ty)
qed

lemma execute_link_token_refines:
  assumes pre: "its_pre env st" and ok: "execute_link_token env lib a tid da tb p st = Inr st'"
    and len: "\<And>u. el_operator a = Some u \<Longrightarrow> length (ai_key u) = 32"
  shows "its_refines env S E st st'"
proof -
  obtain s b rb T t where c: "load_its_root env st (el_its_root_pda a) = Inr s"
    "init_token_manager env st (ai_key (el_its_root_pda a)) tid (el_token_manager_pda a) = Inr b"
    "init_optional_roles env st (ai_key (el_token_manager_pda a)) OperatorNotProvided (el_operator a) (el_operator_roles_pda a) = Inr rb"
    and st': "its_accounts st' = its_accounts (put_optional_roles (el_operator_roles_pda a) rb LINKED_OPERATOR_ROLES
      (put_its (ai_key (el_token_manager_pda a)) (TokenManagerAcc (token_manager_init t tid (ai_key (el_token_mint a))
        (ai_key (el_token_manager_ata a)) b)) (st\<lparr>its_tokens := T\<rparr>)))"
    and ty: "t \<noteq> NativeInterchainToken"
    using ok unfolding execute_link_token_def Let_def res_bind_Inr load_self_root_Inr load_active_root_Inr
    by (elim exE conjE) (rule that, (assumption | simp | auto)+)
  show ?thesis
    by (rule new_manager_refines [OF pre c len _ st']) (simp_all add: ty)
qed

section \<open>Transfers\<close>

lemma send_to_hub_frame:
  assumes "send_to_hub env lib g hub payload n st = Inr st'"
  shows "its_accounts st' = its_accounts st" "its_tokens st' = its_tokens st" "its_events st' = its_events st"
  using assms unfolding send_to_hub_def res_bind_Inr by (auto simp: res_bind_Inr)

lemma send_to_hub_wrap_frame:
  assumes "send_to_hub_wrap env lib g hub message c n st = Inr st'"
  shows "its_accounts st' = its_accounts st" "its_tokens st' = its_tokens st" "its_events st' = its_events st"
  using assms unfolding send_to_hub_wrap_def by (auto dest: send_to_hub_frame)

lemma take_token_flow:
  "take_token env lib view a t m n T = Inr (n', t', T') \<Longrightarrow>
     \<exists>f. track_token_flow (iv_ledger view) n' Out (flow_slot t) = Inr f \<and> t' = t\<lparr>flow_slot := f\<rparr>"
  unfolding take_token_def Let_def res_bind_Inr by (auto simp: res_bind_Inr)

lemma give_token_flow:
  "give_token env lib view a t m n T = Inr (n', t', T') \<Longrightarrow>
     \<exists>f. track_token_flow (iv_ledger view) n In (flow_slot t) = Inr f \<and> t' = t\<lparr>flow_slot := f\<rparr>"
  unfolding give_token_def Let_def res_bind_Inr by (auto simp: res_bind_Inr)

lemma check_interchain_transfer_Inr:
  assumes "check_interchain_transfer env lib a tid c st = Inr (s, t, m)"
  shows "load_active_root env st (xt_its_root_pda a) = Inr s" and "is_trusted_chain s c"
    and "load_token_manager env st (ai_key (xt_its_root_pda a)) tid (xt_token_manager_pda a) = Inr t"
    and "token_address t = ai_key (xt_token_mint a)" and "ai_signer (xt_authority a)"
    and "load_mint_of (its_tokens st) (xt_token_program a) (xt_token_mint a) = Inr m"
    and "\<exists>x. load_token_account (its_tokens st) (ai_key (xt_token_program a)) (ai_key (xt_token_mint a)) (xt_authority_token_account a) = Inr x \<and>
       ta_owner x = ai_key (xt_authority a)"
    and "\<exists>x. load_ata lib (its_tokens st) (ai_key (xt_token_manager_pda a)) (ai_key (xt_token_mint a)) (ai_key (xt_token_program a))
       (xt_token_manager_ata a) = Inr x"
  using assms unfolding check_interchain_transfer_def Let_def res_bind_Inr require_Inr check_signer_Inr
  by (auto simp: res_bind_Inr)

lemma interchain_transferE:
  assumes "interchain_transfer env lib view a tid dc da n g cp cs d st = Inr st'"
  obtains s t m source n' f T' where "check_interchain_transfer env lib a tid dc st = Inr (s, t, m)"
    and "n \<noteq> 0" and "da \<noteq> []" and "transfer_source_address env view (ai_key (xt_authority a)) cp cs = Inr source"
    and "take_token env lib view a t m n (its_tokens st) = Inr (n', t\<lparr>flow_slot := f\<rparr>, T')"
    and "track_token_flow (iv_ledger view) n' Out (flow_slot t) = Inr f"
    and "send_to_hub_wrap env lib (xt_gmp a) (its_hub_address s)
       (InterchainTransferM \<lparr>it_token_id = tid, it_source_address = source, it_destination_address = da,
          it_amount = n', it_data = d\<rparr>) dc g
       (emit_its (InterchainTransferSent tid source (ai_key (xt_authority_token_account a)) dc da n' (data_hash_of env d))
       (put_its (ai_key (xt_token_manager_pda a)) (TokenManagerAcc (t\<lparr>flow_slot := f\<rparr>)) (st\<lparr>its_tokens := T'\<rparr>))) = Inr st'"
proof -
  obtain s t m source n' t' T' where 1: "check_interchain_transfer env lib a tid dc st = Inr (s, t, m)"
    and 2: "n \<noteq> 0" "da \<noteq> []" "transfer_source_address env view (ai_key (xt_authority a)) cp cs = Inr source"
    and 3: "take_token env lib view a t m n (its_tokens st) = Inr (n', t', T')"
    and 4: "send_to_hub_wrap env lib (xt_gmp a) (its_hub_address s)
       (InterchainTransferM \<lparr>it_token_id = tid, it_source_address = source, it_destination_address = da,
          it_amount = n', it_data = d\<rparr>) dc g
       (emit_its (InterchainTransferSent tid source (ai_key (xt_authority_token_account a)) dc da n' (data_hash_of env d))
       (put_its (ai_key (xt_token_manager_pda a)) (TokenManagerAcc t') (st\<lparr>its_tokens := T'\<rparr>))) = Inr st'"
    using assms unfolding interchain_transfer_def by (auto simp: res_bind_Inr require_Inr)
  from take_token_flow [OF 3] obtain f where f: "track_token_flow (iv_ledger view) n' Out (flow_slot t) = Inr f"
    "t' = t\<lparr>flow_slot := f\<rparr>" by blast
  from that [OF 1 2 3 [unfolded f(2)] f(1) 4 [unfolded f(2)]] show ?thesis .
qed

lemma interchain_transfer_refines:
  assumes "interchain_transfer env lib view a tid dc da n g cp cs d st = Inr st'"
  shows "its_refines env S E st st'"
  using assms
proof (rule interchain_transferE)
  fix s t m source n' f T'
  assume c: "check_interchain_transfer env lib a tid dc st = Inr (s, t, m)"
    and f: "track_token_flow (iv_ledger view) n' Out (flow_slot t) = Inr f"
    and "send_to_hub_wrap env lib (xt_gmp a) (its_hub_address s)
       (InterchainTransferM \<lparr>it_token_id = tid, it_source_address = source, it_destination_address = da,
          it_amount = n', it_data = d\<rparr>) dc g
       (emit_its (InterchainTransferSent tid source (ai_key (xt_authority_token_account a)) dc da n' (data_hash_of env d))
       (put_its (ai_key (xt_token_manager_pda a)) (TokenManagerAcc (t\<lparr>flow_slot := f\<rparr>)) (st\<lparr>its_tokens := T'\<rparr>))) = Inr st'"
  from send_to_hub_wrap_frame(1) [OF this(3)] have
    "its_accounts st' = (its_accounts st)(ai_key (xt_token_manager_pda a) \<mapsto> TokenManagerAcc (t\<lparr>flow_slot := f\<rparr>))" by simp
  moreover have "its_accounts st (ai_key (xt_token_manager_pda a)) = Some (TokenManagerAcc t)"
    using check_interchain_transfer_Inr(3) [OF c] by (simp add: res_inv)
  ultimately show ?thesis using ac_flow [OF _ f] by metis
qed

lemma announcement_frame:
  "deploy_remote_interchain_token env lib da salt c g st = Inr st' \<Longrightarrow> its_accounts st' = its_accounts st"
  "deploy_remote_canonical_interchain_token env lib da c g st = Inr st' \<Longrightarrow> its_accounts st' = its_accounts st"
  "register_token_metadata env lib ra g st = Inr st' \<Longrightarrow> its_accounts st' = its_accounts st"
  "link_token env lib la salt c dta t lp g st = Inr st' \<Longrightarrow> its_accounts st' = its_accounts st"
  unfolding deploy_remote_interchain_token_def deploy_remote_canonical_interchain_token_def announce_token_def
    register_token_metadata_def link_token_def Let_def res_bind_Inr
  by (auto simp: res_bind_Inr dest!: send_to_hub_wrap_frame(1) send_to_hub_frame(1))


lemma execute_interchain_transferE:
  assumes "execute_interchain_transfer env lib view a remaining message sc sa da tid n data st = Inr st'"
  obtains t m T1 b x f T' where "check_execute_transfer env lib a da tid st = Inr (t, m, T1, b)" and "n \<noteq> 0"
    and "give_token env lib view a t m n T1 = Inr (x, t\<lparr>flow_slot := f\<rparr>, T')"
    and "track_token_flow (iv_ledger view) n In (flow_slot t) = Inr f"
    and "(if data = [] then Inr else
       invoke_destination_program env lib a remaining b message sc sa tid x data)
       (emit_its (InterchainTransferReceived (command_id env message) tid sc sa da (ai_key (ex_destination_ata a)) x
            (if data = [] then None else Some (keccak env data)))
         (put_its (ai_key (ex_token_manager_pda a)) (TokenManagerAcc (t\<lparr>flow_slot := f\<rparr>)) (st\<lparr>its_tokens := T'\<rparr>)))
       = Inr st'"
proof -
  let ?st1 = "\<lambda>x t' T'. emit_its (InterchainTransferReceived (command_id env message) tid sc sa da
      (ai_key (ex_destination_ata a)) x (if data = [] then None else Some (keccak env data)))
    (put_its (ai_key (ex_token_manager_pda a)) (TokenManagerAcc t') (st\<lparr>its_tokens := T'\<rparr>))"
  obtain t m T1 b x t' T' where 1: "check_execute_transfer env lib a da tid st = Inr (t, m, T1, b)" "n \<noteq> 0"
    and 2: "give_token env lib view a t m n T1 = Inr (x, t', T')"
    and 3: "(if data = [] then Inr (?st1 x t' T') else
       invoke_destination_program env lib a remaining b message sc sa tid x data (?st1 x t' T')) = Inr st'"
    using assms unfolding execute_interchain_transfer_def Let_def by (auto simp: res_bind_Inr require_Inr)
  from give_token_flow [OF 2] obtain f where f: "track_token_flow (iv_ledger view) n In (flow_slot t) = Inr f"
    "t' = t\<lparr>flow_slot := f\<rparr>" by blast
  show ?thesis
    by (rule that [OF 1 2 [unfolded f(2)] f(1)]) (use 3 f(2) in \<open>cases "data = []"; simp\<close>)
qed

lemma invoke_destination_program_frame:
  assumes "invoke_destination_program env lib a remaining b message sc sa tid x data st = Inr st'"
  shows "its_accounts st' = its_accounts st" and "its_events st' = its_events st"
  using assms unfolding invoke_destination_program_def Let_def by (auto simp: res_bind_Inr)

lemma check_execute_transfer_Inr:
  assumes "check_execute_transfer env lib a da tid st = Inr (t, m, T1, b)"
  shows "ai_key (ex_destination a) = da" and "token_address t = ai_key (ex_token_mint a)"
    and "load_token_manager env st (ai_key (ex_its_root_pda a)) tid (ex_token_manager_pda a) = Inr t"
    and "\<exists>s. load_self_root env st (ex_its_root_pda a) = Inr s"
    and "load_mint_of (its_tokens st) (ex_token_program a) (ex_token_mint a) = Inr m"
    and "init_ata_if_needed lib (ai_key (ex_destination_token_authority a)) (ai_key (ex_token_mint a)) (ai_key (ex_token_program a))
       (ex_destination_ata a) (its_tokens st) = Inr T1"
  using assms unfolding check_execute_transfer_def Let_def by (auto simp: res_bind_Inr require_Inr)

lemma execute_interchain_transfer_accounts:
  assumes "execute_interchain_transfer env lib view a remaining message sc sa da tid n data st = Inr st'"
  shows "\<exists>t f. its_accounts st (ai_key (ex_token_manager_pda a)) = Some (TokenManagerAcc t) \<and>
    track_token_flow (iv_ledger view) n In (flow_slot t) = Inr f \<and>
    its_accounts st' = (its_accounts st)(ai_key (ex_token_manager_pda a) \<mapsto> TokenManagerAcc (t\<lparr>flow_slot := f\<rparr>))"
  using assms
proof (rule execute_interchain_transferE)
  fix t m T1 b x f T'
  let ?st1 = "emit_its (InterchainTransferReceived (command_id env message) tid sc sa da (ai_key (ex_destination_ata a)) x
            (if data = [] then None else Some (keccak env data)))
         (put_its (ai_key (ex_token_manager_pda a)) (TokenManagerAcc (t\<lparr>flow_slot := f\<rparr>)) (st\<lparr>its_tokens := T'\<rparr>))"
  assume c: "check_execute_transfer env lib a da tid st = Inr (t, m, T1, b)"
    and f: "track_token_flow (iv_ledger view) n In (flow_slot t) = Inr f"
    and r: "(if data = [] then Inr else invoke_destination_program env lib a remaining b message sc sa tid x data) ?st1 = Inr st'"
  have "its_accounts st' = its_accounts ?st1"
    using r invoke_destination_program_frame(1) [where st = ?st1 and st' = st'] by (auto split: if_splits)
  moreover have "its_accounts st (ai_key (ex_token_manager_pda a)) = Some (TokenManagerAcc t)"
    using check_execute_transfer_Inr(3) [OF c] by (simp add: res_inv)
  ultimately show ?thesis using f by auto
qed

lemma execute_interchain_transfer_refines:
  assumes "execute_interchain_transfer env lib view a remaining message sc sa da tid n data st = Inr st'"
  shows "its_refines env S E st st'"
  using execute_interchain_transfer_accounts [OF assms] ac_flow by metis

lemma mint_interchain_token_frame:
  "mint_interchain_token env lib a n st = Inr st' \<Longrightarrow> its_accounts st' = its_accounts st"
  unfolding mint_interchain_token_def Let_def by (auto simp: res_bind_Inr)

section \<open>Messages from the hub\<close>

lemma merged_key [simp]: "ai_key (merged metas a) = ai_key a"
  by (simp add: merged_def)

lemma optional_account_mem: "optional_account env x = Some u \<Longrightarrow> x = Some u"
  by (auto simp: optional_account_def split: option.splits if_splits)

text \<open>The self-calls end in the inbound handlers, on accounts with the keys of the remaining accounts.\<close>

lemma cpi_execute_interchain_transfer_Inr:
  assumes "cpi_execute_interchain_transfer env lib view a rb remaining transfer message sc st = Inr st'"
  shows "\<exists>x remaining'. execute_interchain_transfer env lib view x remaining' message sc (it_source_address transfer)
      (it_destination_address transfer) (it_token_id transfer) (it_amount transfer)
      (case it_data transfer of None \<Rightarrow> [] | Some d \<Rightarrow> d) st = Inr st' \<and>
    ai_key (ex_its_root_pda x) = ai_key (ie_its_root_pda a) \<and>
    ai_key (ex_token_manager_pda x) = ai_key (ie_token_manager_pda a) \<and> ai_key (ex_token_mint x) = ai_key (ie_token_mint a) \<and>
    ai_key (ex_token_manager_ata x) = ai_key (ie_token_manager_ata a) \<and> ai_key (ex_token_program x) = ai_key (ie_token_program a) \<and>
    map ai_key remaining' = map ai_key (drop 4 remaining) \<and>
    take 3 (map ai_key remaining) = [ai_key (ex_destination x), ai_key (ex_destination_token_authority x), ai_key (ex_destination_ata x)]"
proof -
  from assms obtain destination authority dest_ata rest where r: "remaining = destination # authority # dest_ata # rest"
    unfolding cpi_execute_interchain_transfer_def by (auto simp: res_bind_Inr split: list.splits)
  show ?thesis
    using assms unfolding cpi_execute_interchain_transfer_def Let_def res_bind_Inr require_Inr r list.case
    by (elim exE conjE) (rule exI, rule exI, rule conjI, assumption, simp add: o_def drop_Suc)
qed

lemma cpi_execute_deploy_Inr:
  assumes "cpi_execute_deploy_interchain_token env lib a rb remaining deploy st = Inr st'"
  shows "\<exists>x. execute_deploy_interchain_token env lib x (dm_token_id deploy) (dm_name deploy) (dm_symbol deploy)
      (dm_decimals deploy) (case dm_minter deploy of None \<Rightarrow> [] | Some d \<Rightarrow> d) st = Inr st' \<and>
    (\<forall>u. ed_minter x = Some u \<longrightarrow> ai_key u \<in> ai_key ` set remaining)"
proof -
  from assms obtain sysvar mpl md rest where r: "remaining = sysvar # mpl # md # rest"
    unfolding cpi_execute_deploy_interchain_token_def by (auto split: list.splits)
  show ?thesis
    using assms unfolding cpi_execute_deploy_interchain_token_def Let_def res_bind_Inr r list.case
    by (elim exE conjE) (rule exI, rule conjI, assumption,
      auto dest!: optional_account_mem split: list.splits)
qed

lemma cpi_execute_link_Inr:
  assumes "cpi_execute_link_token env lib a rb remaining link st = Inr st'"
  shows "\<exists>x. execute_link_token env lib x (lm_token_id link) (lm_destination_token_address link)
      (lm_token_manager_type link) (case lm_params link of None \<Rightarrow> [] | Some d \<Rightarrow> d) st = Inr st' \<and>
    (\<forall>u. el_operator x = Some u \<longrightarrow> ai_key u \<in> ai_key ` set remaining)"
  using assms unfolding cpi_execute_link_token_def Let_def res_bind_Inr require_Inr
  by (elim exE conjE) (rule exI, rule conjI, assumption,
    auto dest!: optional_account_mem split: list.splits)

lemma its_execute_Inr:
  assumes "its_execute env lib view a remaining m payload st = Inr st'"
  obtains s src inner gw where "load_active_root env st (ie_its_root_pda a) = Inr s"
    and "source_address m = its_hub_address s" and "hub_try_from_slice lib payload = Some (ReceiveFromHub src inner)"
    and "validate_message_raw env (its_id env) (ie_executable a) m payload (its_gateway st) = Inr gw"
    and "is_trusted_chain s src"
    and "(case inner of
           InterchainTransferM transfer \<Rightarrow>
             cpi_execute_interchain_transfer env lib view a (its_bump s) remaining transfer m src
         | DeployInterchainTokenM deploy \<Rightarrow> cpi_execute_deploy_interchain_token env lib a (its_bump s) remaining deploy
         | LinkTokenM link \<Rightarrow> cpi_execute_link_token env lib a (its_bump s) remaining link)
         (st\<lparr>its_gateway := gw\<rparr>) = Inr st'"
proof -
  obtain s hm where s: "check_its_execute env a m st = Inr s" "source_address m = its_hub_address s"
    "hub_try_from_slice lib payload = Some hm" and k: "(case hm of
       ReceiveFromHub src_chain inner \<Rightarrow>
         res_bind (validate_message_raw env (its_id env) (ie_executable a) m payload (its_gateway st)) (\<lambda>gw.
         res_bind (require (is_trusted_chain s src_chain) (ItsE UntrustedSourceChain)) (\<lambda>_.
         let st1 = st\<lparr>its_gateway := gw\<rparr> in
         case inner of
           InterchainTransferM transfer \<Rightarrow>
             cpi_execute_interchain_transfer env lib view a (its_bump s) remaining transfer m src_chain st1
         | DeployInterchainTokenM deploy \<Rightarrow>
             cpi_execute_deploy_interchain_token env lib a (its_bump s) remaining deploy st1
         | LinkTokenM link \<Rightarrow> cpi_execute_link_token env lib a (its_bump s) remaining link st1))
     | _ \<Rightarrow> Inl (ItsE ItsError.InvalidInstructionData)) = Inr st'"
    using assms unfolding its_execute_def res_bind_Inr require_Inr ok_or_Inr by auto
  have "load_active_root env st (ie_its_root_pda a) = Inr s"
    using s(1) unfolding check_its_execute_def by (auto simp: res_bind_Inr)
  moreover from k obtain src inner where h: "hm = ReceiveFromHub src inner" by (cases hm) auto
  moreover from k obtain gw where
    "validate_message_raw env (its_id env) (ie_executable a) m payload (its_gateway st) = Inr gw" "is_trusted_chain s src"
    unfolding h by (auto simp: res_bind_Inr require_Inr)
  ultimately show ?thesis using s k
    by (intro that [of s src inner gw]) (simp_all add: res_bind_Inr require_Inr Let_def split: ItsMessage.splits)
qed

lemma its_execute_refines:
  assumes pre: "its_pre env st" and ok: "its_execute env lib view a remaining m payload st = Inr st'"
    and len: "\<And>u. u \<in> set remaining \<Longrightarrow> length (ai_key u) = 32"
  shows "its_refines env S E st st'"
  using ok
proof (rule its_execute_Inr)
  fix s src inner gw
  let ?st = "st\<lparr>its_gateway := gw\<rparr>"
  assume c: "(case inner of
           InterchainTransferM transfer \<Rightarrow>
             cpi_execute_interchain_transfer env lib view a (its_bump s) remaining transfer m src
         | DeployInterchainTokenM deploy \<Rightarrow> cpi_execute_deploy_interchain_token env lib a (its_bump s) remaining deploy
         | LinkTokenM link \<Rightarrow> cpi_execute_link_token env lib a (its_bump s) remaining link) ?st = Inr st'"
  have pre': "its_pre env ?st" using pre by (simp add: its_pre_def)
  have "its_refines env S E ?st st'"
  proof (cases inner)
    case (InterchainTransferM transfer)
    with c cpi_execute_interchain_transfer_Inr [of env lib view a "its_bump s" remaining transfer m src ?st st']
    have "\<exists>x remaining'. execute_interchain_transfer env lib view x remaining' m src (it_source_address transfer)
      (it_destination_address transfer) (it_token_id transfer) (it_amount transfer)
      (case it_data transfer of None \<Rightarrow> [] | Some d \<Rightarrow> d) ?st = Inr st'" by auto
    then show ?thesis using execute_interchain_transfer_refines by blast
  next
    case (DeployInterchainTokenM deploy)
    with c obtain x where "execute_deploy_interchain_token env lib x (dm_token_id deploy) (dm_name deploy) (dm_symbol deploy)
      (dm_decimals deploy) (case dm_minter deploy of None \<Rightarrow> [] | Some d \<Rightarrow> d) ?st = Inr st'"
      "\<forall>u. ed_minter x = Some u \<longrightarrow> ai_key u \<in> ai_key ` set remaining"
      using cpi_execute_deploy_Inr [of env lib a "its_bump s" remaining deploy ?st st'] by auto
    from execute_deploy_interchain_token_refines [OF pre' this(1)] this(2) len show ?thesis by fastforce
  next
    case (LinkTokenM link)
    with c obtain x where "execute_link_token env lib x (lm_token_id link) (lm_destination_token_address link)
      (lm_token_manager_type link) (case lm_params link of None \<Rightarrow> [] | Some d \<Rightarrow> d) ?st = Inr st'"
      "\<forall>u. el_operator x = Some u \<longrightarrow> ai_key u \<in> ai_key ` set remaining"
      using cpi_execute_link_Inr [of env lib a "its_bump s" remaining link ?st st'] by auto
    from execute_link_token_refines [OF pre' this(1)] this(2) len show ?thesis by fastforce
  qed
  then show ?thesis by simp
qed

section \<open>Every instruction\<close>

text \<open>An unchanged map of accounts is a step too.\<close>

lemma its_refines_same: "its_accounts st' = its_accounts st \<Longrightarrow> its_refines env S E st st'"
  by (simp add: ac_same)

lemma its_signersI: "a \<in> set (its_users ix) \<Longrightarrow> ai_signer a \<Longrightarrow> ai_key a \<in> its_signers ix"
  by (auto simp: its_signers_def)

lemma its_ix_wfD: "its_ix_wf ix \<Longrightarrow> a \<in> set (its_users ix) \<Longrightarrow> length (ai_key a) = 32"
  by (simp add: its_ix_wf_def)

text \<open>The edits of the service's account an instruction makes, and who signs them.\<close>

definition root_edit :: "env \<Rightarrow> its_view \<Rightarrow> its_account accounts \<Rightarrow> its_instruction \<Rightarrow> root_edits" where
  "root_edit env view m ix rk old new \<longleftrightarrow>
     (case ix of
        ItsInitializeIx a c h \<Rightarrow> rk = ai_key (ii_its_root_pda a) \<and> old = None \<and> (\<exists>b. new = its_new b c h) \<and>
          ai_signer (ii_payer a) \<and> upgrade_authority env view (ai_key (ii_payer a))
      | SetPauseStatusIx a p \<Rightarrow> rk = ai_key (sps_its_root_pda a) \<and> (\<exists>s. old = Some s \<and> paused s \<noteq> p \<and> new = s\<lparr>paused := p\<rparr>) \<and>
          ai_signer (sps_payer a) \<and> upgrade_authority env view (ai_key (sps_payer a))
      | SetTrustedChainIx a c \<Rightarrow> rk = ai_key (stc_its_root_pda a) \<and>
          (\<exists>s. old = Some s \<and> \<not> is_trusted_chain s c \<and> new = add_trusted_chain c s) \<and>
          ai_signer (stc_payer a) \<and> root_admin env view m rk (ai_key (stc_payer a))
      | RemoveTrustedChainIx a c \<Rightarrow> rk = ai_key (stc_its_root_pda a) \<and>
          (\<exists>s. old = Some s \<and> is_trusted_chain s c \<and> new = remove_trusted_chain c s) \<and>
          ai_signer (stc_payer a) \<and> root_admin env view m rk (ai_key (stc_payer a))
      | _ \<Rightarrow> False)"

lemma its_entry_refines:
  assumes pre: "its_pre env st" and wf: "its_ix_wf ix" and ok: "its_entry env lib view ix st = Inr st'"
  shows "its_refines env (its_signers ix) (root_edit env view (its_accounts st) ix) st st'"
proof -
  note len = its_ix_wfD [OF wf] and sig = its_signersI [where ix = ix]
  show ?thesis
  proof (cases ix)
    case (ItsInitializeIx a c h)
    with ok len sig show ?thesis by (auto simp: its_entry_def its_users_def root_edit_def intro!: its_initialize_refines)
  next
    case (SetPauseStatusIx a p)
    with ok show ?thesis by (intro set_pause_status_refines [of env view a p]) (simp_all add: its_entry_def root_edit_def)
  next
    case (SetTrustedChainIx a c)
    with ok len show ?thesis
      by (intro trusted_chain_refines [OF pre, of a view c False _ "add_trusted_chain c"])
        (simp_all add: its_entry_def its_users_def root_edit_def)
  next
    case (RemoveTrustedChainIx a c)
    with ok len show ?thesis
      by (intro trusted_chain_refines [OF pre, of a view c True _ "remove_trusted_chain c"])
        (simp_all add: its_entry_def its_users_def root_edit_def)
  next
    case (DeployInterchainTokenIx a salt name symbol d n)
    with ok len show ?thesis by (auto simp: its_entry_def its_users_def intro!: deploy_interchain_token_refines [OF pre])
  next
    case (DeployRemoteInterchainTokenIx a salt c g)
    with ok show ?thesis by (auto simp: its_entry_def intro!: its_refines_same dest: announcement_frame)
  next
    case (RegisterTokenMetadataIx a g)
    with ok show ?thesis by (auto simp: its_entry_def intro!: its_refines_same dest: announcement_frame)
  next
    case (RegisterCanonicalIx a)
    with ok show ?thesis by (auto simp: its_entry_def intro: register_canonical_refines [OF pre])
  next
    case (DeployRemoteCanonicalIx a c g)
    with ok show ?thesis by (auto simp: its_entry_def intro!: its_refines_same dest: announcement_frame)
  next
    case (RegisterCustomTokenIx a salt t op)
    with ok len show ?thesis by (auto simp: its_entry_def its_users_def intro!: register_custom_token_refines [OF pre])
  next
    case (LinkTokenIx a salt c da t p g)
    with ok show ?thesis by (auto simp: its_entry_def intro!: its_refines_same dest: announcement_frame)
  next
    case (SetFlowLimitIx a l)
    with ok len sig show ?thesis by (auto simp: its_entry_def its_users_def intro!: set_flow_limit_refines [OF pre])
  next
    case (ItsExecuteIx a r m p)
    with ok len show ?thesis by (auto simp: its_entry_def its_users_def intro!: its_execute_refines [OF pre])
  next
    case (ExecuteDeployIx a tid name symbol d minter)
    with ok len show ?thesis
      by (auto simp: its_entry_def its_users_def intro!: execute_deploy_interchain_token_refines [OF pre])
  next
    case (ExecuteLinkIx a tid da t p)
    with ok len show ?thesis by (auto simp: its_entry_def its_users_def intro!: execute_link_token_refines [OF pre])
  next
    case (ExecuteTransferIx a r m sc sa da tid n d)
    with ok show ?thesis by (auto simp: its_entry_def intro: execute_interchain_transfer_refines)
  next
    case (InterchainTransferIx a tid dc da n g cp cs d)
    with ok show ?thesis by (auto simp: its_entry_def intro: interchain_transfer_refines)
  next
    case (ItsTransferOperatorshipIx a)
    with ok len sig show ?thesis by (auto simp: its_entry_def its_users_def intro!: role_transfers_refine(1) [OF pre])
  next
    case (AddFlowLimiterIx a)
    with ok len sig show ?thesis by (auto simp: its_entry_def its_users_def intro!: flow_limiter_refines(1) [OF pre])
  next
    case (RemoveFlowLimiterIx a)
    with ok len sig show ?thesis by (auto simp: its_entry_def its_users_def intro!: flow_limiter_refines(2) [OF pre])
  next
    case (SetTokenManagerFlowLimitIx a l)
    with ok len sig show ?thesis
      by (auto simp: its_entry_def its_users_def intro!: set_token_manager_flow_limit_refines [OF pre])
  next
    case (TransferTokenManagerOperatorshipIx a)
    with ok len sig show ?thesis by (auto simp: its_entry_def its_users_def intro!: role_transfers_refine(2) [OF pre])
  next
    case (MintInterchainTokenIx a n)
    with ok show ?thesis by (auto simp: its_entry_def intro!: its_refines_same mint_interchain_token_frame)
  next
    case (HandoverMintAuthorityIx a tid)
    with ok len sig show ?thesis by (auto simp: its_entry_def its_users_def intro!: handover_mint_authority_refines [OF pre])
  next
    case (TransferMintershipIx a)
    with ok len sig show ?thesis by (auto simp: its_entry_def its_users_def intro!: role_transfers_refine(3) [OF pre])
  qed
qed

end
