(* ===== verification/Its_Run.thy ===== *)
theory Its_Run
  imports Its_Refine
begin

text \<open>
  Runs of the service: what every instruction does to the gateway, the invariants of reachable
  states, and the machine of roles over a whole run.
\<close>

section \<open>The gateway under the service\<close>

text \<open>
  What is assumed of the programs the service delivers tokens to: whatever they do, the gateway's
  accounts change by the gateway's own instructions only, as the runtime guarantees.
\<close>

definition destination_law :: "env \<Rightarrow> its_lib \<Rightarrow> bool" where
  "destination_law env lib \<longleftrightarrow> (\<forall>d metas ix T gw gas T' gw' gas'.
     destination_call lib d metas ix (T, gw, gas) = Some (T', gw', gas') \<longrightarrow> runs (gateway_step env) gw gw')"

abbreviation gateway_runs :: "env \<Rightarrow> its_state \<Rightarrow> its_state \<Rightarrow> bool" where
  "gateway_runs env st st' \<equiv> runs (gateway_step env) (its_gateway st) (its_gateway st')"

lemma put_optional_roles_frame [simp]:
  "its_gateway (put_optional_roles p b r st) = its_gateway st" "its_gas (put_optional_roles p b r st) = its_gas st"
  "its_tokens (put_optional_roles p b r st) = its_tokens st" "its_events (put_optional_roles p b r st) = its_events st"
  by (auto simp: put_optional_roles_def split: option.splits)

lemma send_to_hub_gateway:
  "send_to_hub env lib g hub payload n st = Inr st' \<Longrightarrow> gateway_runs env st st'"
  unfolding send_to_hub_def
  by (auto simp: res_bind_Inr intro!: runs_one gateway_ix [where ix = "CallContractIx a dc da p b" for a dc da p b])

lemma send_to_hub_wrap_gateway:
  "send_to_hub_wrap env lib g hub message c n st = Inr st' \<Longrightarrow> gateway_runs env st st'"
  unfolding send_to_hub_wrap_def by (rule send_to_hub_gateway)

lemma config_gateway:
  "its_initialize env view ia c h st = Inr st' \<Longrightarrow> its_gateway st' = its_gateway st"
  "set_pause_status env view pa p st = Inr st' \<Longrightarrow> its_gateway st' = its_gateway st"
  "set_trusted_chain env view ta c st = Inr st' \<Longrightarrow> its_gateway st' = its_gateway st"
  "remove_trusted_chain_ix env view ta c st = Inr st' \<Longrightarrow> its_gateway st' = its_gateway st"
  "set_flow_limit env fa l st = Inr st' \<Longrightarrow> its_gateway st' = its_gateway st"
  "set_token_manager_flow_limit env tfa l st = Inr st' \<Longrightarrow> its_gateway st' = its_gateway st"
  "add_token_manager_flow_limiter env ca st = Inr st' \<Longrightarrow> its_gateway st' = its_gateway st"
  "remove_token_manager_flow_limiter env ca st = Inr st' \<Longrightarrow> its_gateway st' = its_gateway st"
  "handover_mint_authority env lib ha tid st = Inr st' \<Longrightarrow> its_gateway st' = its_gateway st"
  unfolding its_initialize_def set_pause_status_def set_trusted_chain_def remove_trusted_chain_ix_def set_flow_limit_def
    set_token_manager_flow_limit_def add_token_manager_flow_limiter_def remove_token_manager_flow_limiter_def
    handover_mint_authority_def Let_def
  by (auto simp: res_bind_Inr)

lemma transfer_role_gateway: "transfer_role env r role has missing a st = Inr st' \<Longrightarrow> its_gateway st' = its_gateway st"
  unfolding transfer_role_def Let_def by (auto simp: res_bind_Inr)

lemma role_transfers_gateway:
  "its_transfer_operatorship env a st = Inr st' \<Longrightarrow> its_gateway st' = its_gateway st"
  "transfer_token_manager_operatorship env a st = Inr st' \<Longrightarrow> its_gateway st' = its_gateway st"
  "transfer_interchain_token_mintership env a st = Inr st' \<Longrightarrow> its_gateway st' = its_gateway st"
  unfolding its_transfer_operatorship_def transfer_token_manager_operatorship_def transfer_interchain_token_mintership_def
  by (auto simp: res_bind_Inr dest: transfer_role_gateway)

lemma deploy_gateway:
  "deploy_interchain_token env lib da salt name symbol d n st = Inr st' \<Longrightarrow> its_gateway st' = its_gateway st"
  "mint_interchain_token env lib ma n st = Inr st' \<Longrightarrow> its_gateway st' = its_gateway st"
  "register_canonical_interchain_token env lib ca st = Inr st' \<Longrightarrow> its_gateway st' = its_gateway st"
  "register_custom_token env lib ua salt t op st = Inr st' \<Longrightarrow> its_gateway st' = its_gateway st"
  "execute_deploy_interchain_token env lib ea tid name symbol d minter st = Inr st' \<Longrightarrow> its_gateway st' = its_gateway st"
  "execute_link_token env lib la tid dta tb p st = Inr st' \<Longrightarrow> its_gateway st' = its_gateway st"
  unfolding deploy_interchain_token_def mint_interchain_token_def register_canonical_interchain_token_def
    register_custom_token_def execute_deploy_interchain_token_def execute_link_token_def Let_def
  by (auto simp: res_bind_Inr)

lemma announcement_gateway:
  "deploy_remote_interchain_token env lib da salt c g st = Inr st' \<Longrightarrow> gateway_runs env st st'"
  "deploy_remote_canonical_interchain_token env lib da c g st = Inr st' \<Longrightarrow> gateway_runs env st st'"
  "register_token_metadata env lib ra g st = Inr st' \<Longrightarrow> gateway_runs env st st'"
  "link_token env lib la salt c dta t lp g st = Inr st' \<Longrightarrow> gateway_runs env st st'"
  unfolding deploy_remote_interchain_token_def deploy_remote_canonical_interchain_token_def announce_token_def
    register_token_metadata_def link_token_def Let_def
  by (auto simp: res_bind_Inr dest!: send_to_hub_wrap_gateway send_to_hub_gateway)

lemma interchain_transfer_gateway:
  "interchain_transfer env lib view a tid dc da n g cp cs d st = Inr st' \<Longrightarrow> gateway_runs env st st'"
  by (erule interchain_transferE) (drule send_to_hub_wrap_gateway, simp)

lemma destination_lawD:
  "destination_law env lib \<Longrightarrow> destination_call lib d metas ix (T, gw, gas) = Some (T', gw', gas') \<Longrightarrow>
     runs (gateway_step env) gw gw'"
  unfolding destination_law_def by blast

lemma invoke_destination_program_gateway:
  "destination_law env lib \<Longrightarrow>
   invoke_destination_program env lib a remaining b message sc sa tid x data st = Inr st' \<Longrightarrow> gateway_runs env st st'"
  unfolding invoke_destination_program_def Let_def
  by (auto simp: res_bind_Inr spl_Inr dest: destination_lawD)

lemma execute_interchain_transfer_gateway:
  assumes law: "destination_law env lib"
    and ok: "execute_interchain_transfer env lib view a remaining message sc sa da tid n data st = Inr st'"
  shows "gateway_runs env st st'"
  using ok
proof (rule execute_interchain_transferE)
  fix t m T1 b x f T'
  assume "(if data = [] then Inr else invoke_destination_program env lib a remaining b message sc sa tid x data)
     (emit_its (InterchainTransferReceived (command_id env message) tid sc sa da (ai_key (ex_destination_ata a)) x
            (if data = [] then None else Some (keccak env data)))
         (put_its (ai_key (ex_token_manager_pda a)) (TokenManagerAcc (t\<lparr>flow_slot := f\<rparr>)) (st\<lparr>its_tokens := T'\<rparr>))) = Inr st'"
  then show ?thesis
    using invoke_destination_program_gateway [OF law] by (force split: if_splits intro: runs_refl)
qed

text \<open>Validation of the message is the first step the instruction takes at the gateway.\<close>

lemma its_execute_gateway:
  assumes law: "destination_law env lib" and ok: "its_execute env lib view a remaining m payload st = Inr st'"
  shows "\<exists>gw. validate_message_raw env (its_id env) (ie_executable a) m payload (its_gateway st) = Inr gw \<and>
    runs (gateway_step env) gw (its_gateway st')"
  using ok
proof (rule its_execute_Inr)
  fix s src inner gw
  let ?st = "st\<lparr>its_gateway := gw\<rparr>"
  assume v: "validate_message_raw env (its_id env) (ie_executable a) m payload (its_gateway st) = Inr gw"
    and c: "(case inner of
           InterchainTransferM transfer \<Rightarrow>
             cpi_execute_interchain_transfer env lib view a (its_bump s) remaining transfer m src
         | DeployInterchainTokenM deploy \<Rightarrow> cpi_execute_deploy_interchain_token env lib a (its_bump s) remaining deploy
         | LinkTokenM link \<Rightarrow> cpi_execute_link_token env lib a (its_bump s) remaining link) ?st = Inr st'"
  have "gateway_runs env ?st st'"
  proof (cases inner)
    case (InterchainTransferM transfer)
    with c cpi_execute_interchain_transfer_Inr [of env lib view a "its_bump s" remaining transfer m src ?st st']
    have "\<exists>x remaining'. execute_interchain_transfer env lib view x remaining' m src (it_source_address transfer)
      (it_destination_address transfer) (it_token_id transfer) (it_amount transfer)
      (case it_data transfer of None \<Rightarrow> [] | Some d \<Rightarrow> d) ?st = Inr st'" by auto
    then show ?thesis using execute_interchain_transfer_gateway [OF law] by blast
  next
    case (DeployInterchainTokenM deploy)
    with c have "\<exists>x. execute_deploy_interchain_token env lib x (dm_token_id deploy) (dm_name deploy) (dm_symbol deploy)
      (dm_decimals deploy) (case dm_minter deploy of None \<Rightarrow> [] | Some d \<Rightarrow> d) ?st = Inr st'"
      using cpi_execute_deploy_Inr [of env lib a "its_bump s" remaining deploy ?st st'] by auto
    then show ?thesis using deploy_gateway(5) by (metis runs_refl)
  next
    case (LinkTokenM link)
    with c have "\<exists>x. execute_link_token env lib x (lm_token_id link) (lm_destination_token_address link)
      (lm_token_manager_type link) (case lm_params link of None \<Rightarrow> [] | Some d \<Rightarrow> d) ?st = Inr st'"
      using cpi_execute_link_Inr [of env lib a "its_bump s" remaining link ?st st'] by auto
    then show ?thesis using deploy_gateway(6) by (metis runs_refl)
  qed
  with v show ?thesis by auto
qed

lemma its_entry_gateway:
  assumes law: "destination_law env lib" and ok: "its_entry env lib view ix st = Inr st'"
  shows "gateway_runs env st st'"
proof (cases "\<exists>a r m p. ix = ItsExecuteIx a r m p")
  case True
  then obtain a r m p where "its_execute env lib view a r m p st = Inr st'"
    using ok by (auto simp: its_entry_def)
  from its_execute_gateway [OF law this] obtain gw where
    "validate_message_raw env (its_id env) (ie_executable a) m p (its_gateway st) = Inr gw"
    "runs (gateway_step env) gw (its_gateway st')" by blast
  with validate_message_raw_consumes(1) [OF this(1)] show ?thesis by (blast intro: runs_trans runs_one)
next
  case False
  have "its_gateway st' = its_gateway st \<or> gateway_runs env st st'"
    using ok False unfolding its_entry_def
    by (cases ix) (auto dest: config_gateway role_transfers_gateway deploy_gateway announcement_gateway
      interchain_transfer_gateway execute_interchain_transfer_gateway [OF law])
  then show ?thesis by (metis runs_refl)
qed


section \<open>Roles along a step\<close>

lemma has_role_bit: "role_bit r n \<Longrightarrow> has_role x r = bit x n"
  by (auto simp: role_bit_def has_role_def u8_eq_iff bit_and_iff)

lemma has_role_or: "role_bit r n \<Longrightarrow> role_bit r' n' \<Longrightarrow> has_role (x OR r') r \<longleftrightarrow> r = r' \<or> has_role x r"
  using role_eq [of r' n' r n] by (auto simp: has_role_bit bit_or_iff) (auto simp: role_bit_def)

lemma has_role_and_not: "role_bit r n \<Longrightarrow> role_bit r' n' \<Longrightarrow> has_role (x AND NOT r') r \<longleftrightarrow> r \<noteq> r' \<and> has_role x r"
  using role_eq [of r' n' r n] by (auto simp: has_role_bit bit_and_iff bit_not_iff) (auto simp: role_bit_def)

lemma has_role_zero: "role_bit r n \<Longrightarrow> \<not> has_role 0 r"
  by (simp add: has_role_bit)

lemma roles_distinct: "OPERATOR \<noteq> MINTER" "OPERATOR \<noteq> FLOW_LIMITER" "MINTER \<noteq> FLOW_LIMITER" "OPERATOR \<noteq> 0"
  by (simp_all add: role_defs)

lemmas has_role_simps =
  has_role_or [OF role_bits(1) role_bits(1)] has_role_or [OF role_bits(1) role_bits(2)]
  has_role_or [OF role_bits(1) role_bits(3)] has_role_or [OF role_bits(2) role_bits(1)]
  has_role_or [OF role_bits(2) role_bits(2)] has_role_or [OF role_bits(2) role_bits(3)]
  has_role_and_not [OF role_bits(1) role_bits(1)] has_role_and_not [OF role_bits(1) role_bits(2)]
  has_role_and_not [OF role_bits(1) role_bits(3)] has_role_and_not [OF role_bits(2) role_bits(1)]
  has_role_and_not [OF role_bits(2) role_bits(2)] has_role_and_not [OF role_bits(2) role_bits(3)]
  has_role_zero [OF role_bits(1)] has_role_zero [OF role_bits(2)] roles_distinct roles_distinct [symmetric]

lemma OPERATOR_cancel: "OPERATOR AND NOT OPERATOR = 0" "0 OR OPERATOR = OPERATOR"
  by simp_all

text \<open>Nobody has a role on what is neither the service nor a manager.\<close>

lemma roles_at_no_resource:
  assumes "pda_law env" and "pda_inj env" and ok: "its_ok env m" and "\<not> is_resource m r" and len: "length w = 32"
  shows "roles_at env m r w = 0"
proof (cases "try_find_program_address env (user_roles_seeds r w) (its_id env)")
  case (Some kb)
  then obtain k b where kb: "roles_addr env r w k b" using len by (cases kb) (auto simp: roles_addr_def)
  have "entry_roles (m k) = 0"
  proof (cases "\<exists>u. m k = Some (UserRolesAcc u)")
    case True
    then obtain u where u: "m k = Some (UserRolesAcc u)" ..
    from its_okD [OF ok u] obtain r' w' where "roles_addr env r' w' k (ur_bump u)" "is_resource m r'" by auto
    with roles_addr_inj [OF assms(1,2) kb this(1)] assms(4) show ?thesis by simp
  qed (auto simp: entry_roles_def split: option.splits its_account.splits)
  with kb show ?thesis by (simp add: roles_at_addr)
qed (simp add: roles_at_def)

text \<open>A root appears by initialization only, with its operator.\<close>

lemma acct_change_new_root:
  assumes "acct_change env S E A m m'" and "m' r = Some (ItsRootAcc s)" and "\<forall>s0. m r \<noteq> Some (ItsRootAcc s0)"
  shows "m r = None \<and> (\<exists>w\<in>S. length w = 32 \<and> roles_at env m' r w = OPERATOR)"
  using assms(1)
proof cases
  case (ac_init rk s' w uk b)
  have "r = rk" using ac_init assms(2,3) by (auto split: if_splits)
  moreover have "roles_at env m' rk w = OPERATOR"
    using ac_init by (simp add: roles_at_addr [OF ac_init(5)] entry_roles_def)
  ultimately show ?thesis using ac_init by (auto simp: roles_addr_def)
qed (use assms(2,3) in \<open>auto simp: roles_entry_def split: if_splits\<close>)

text \<open>
  The table of a service: one operator, who holds nothing else, and nobody else holds anything.
  Every resource has at most one operator; a manager of native tokens at most one minter.
\<close>

definition root_table :: "env \<Rightarrow> its_account accounts \<Rightarrow> pubkey \<Rightarrow> bool" where
  "root_table env m r \<longleftrightarrow> (\<exists>w0. length w0 = 32 \<and>
     (\<forall>w. length w = 32 \<longrightarrow> roles_at env m r w = (if w = w0 then OPERATOR else 0)))"

definition at_most_one :: "env \<Rightarrow> its_account accounts \<Rightarrow> pubkey \<Rightarrow> u8 \<Rightarrow> bool" where
  "at_most_one env m r role \<longleftrightarrow> (\<forall>w w'. length w = 32 \<longrightarrow> length w' = 32 \<longrightarrow>
     has_role (roles_at env m r w) role \<longrightarrow> has_role (roles_at env m r w') role \<longrightarrow> w = w')"

definition roles_inv :: "env \<Rightarrow> its_account accounts \<Rightarrow> bool" where
  "roles_inv env m \<longleftrightarrow>
     (\<forall>r s. m r = Some (ItsRootAcc s) \<longrightarrow> root_table env m r) \<and>
     (\<forall>r. at_most_one env m r OPERATOR) \<and>
     (\<forall>r t. m r = Some (TokenManagerAcc t) \<longrightarrow> ty t \<notin> {MintBurn, MintBurnFrom} \<longrightarrow> at_most_one env m r MINTER)"

lemma roles_inv_root:
  assumes law: "pda_law env" "pda_inj env" and ok: "its_ok env m" and inv: "roles_inv env m"
    and ch: "acct_change env S E A m m'" and root: "m' r = Some (ItsRootAcc s)"
  shows "root_table env m' r"
proof (cases "\<exists>s0. m r = Some (ItsRootAcc s0)")
  case True
  then obtain s0 where s0: "m r = Some (ItsRootAcc s0)" ..
  then obtain w0 where w0: "length w0 = 32"
    and t: "\<And>w. length w = 32 \<Longrightarrow> roles_at env m r w = (if w = w0 then OPERATOR else 0)"
    using inv unfolding roles_inv_def root_table_def by blast
  have "role_change S A m m' (roles_at env m) (roles_at env m')"
    using acct_change_refines [OF law ok ch] by simp
  then show ?thesis
  proof cases
    case rc_same
    with t w0 show ?thesis unfolding root_table_def by (intro exI [of _ w0]) (auto simp: same_roles_def)
  next
    case (rc_new r' w x)
    then have "r' \<noteq> r" using s0 by (auto simp: is_resource_def)
    with rc_new(6) t w0 show ?thesis unfolding root_table_def by (intro exI [of _ w0]) (auto simp: set_role_def same_roles_def)
  next
    case (rc_hand_over r' role w w')
    show ?thesis
    proof (cases "r' = r")
      case True
      with rc_hand_over t have "w = w0" "role = OPERATOR"
        by (auto simp: has_role_simps has_role_def role_defs split: if_splits)
      with True rc_hand_over(5,4,8) t w0 show ?thesis
        unfolding root_table_def by (intro exI [of _ w']) (auto simp: same_roles_def set_role_def OPERATOR_cancel)
    next
      case False
      with rc_hand_over(8) t w0 show ?thesis unfolding root_table_def by (intro exI [of _ w0]) (auto simp: set_role_def same_roles_def)
    qed
  next
    case (rc_limiter r' t' w w' x)
    then have "r' \<noteq> r" using s0 by auto
    with rc_limiter(7) t w0 show ?thesis unfolding root_table_def by (intro exI [of _ w0]) (auto simp: set_role_def same_roles_def)
  next
    case (rc_minter r' t' w)
    then have "r' \<noteq> r" using s0 by auto
    with rc_minter(6) t w0 show ?thesis unfolding root_table_def by (intro exI [of _ w0]) (auto simp: set_role_def same_roles_def)
  qed
next
  case False
  with acct_change_new_root [OF ch root] obtain w0 where n: "m r = None" and w0: "w0 \<in> S" "length w0 = 32"
    "roles_at env m' r w0 = OPERATOR" by blast
  have no: "\<not> is_resource m r" using n by (simp add: is_resource_def)
  have z: "roles_at env m r w = 0" if "length w = 32" for w
    using roles_at_no_resource [OF law ok no that] .
  have "role_change S A m m' (roles_at env m) (roles_at env m')"
    using acct_change_refines [OF law ok ch] by simp
  then show ?thesis
  proof cases
    case rc_same
    with z w0 show ?thesis by (auto simp: same_roles_def roles_distinct)
  next
    case (rc_new r' w x)
    show ?thesis
    proof (cases "r' = r")
      case True
      then have "x = OPERATOR" using rc_new(4) root by blast
      with True rc_new(3,6) z show ?thesis
        unfolding root_table_def by (intro exI [of _ w]) (auto simp: same_roles_def set_role_def)
    next
      case False
      with rc_new(6) z w0 show ?thesis by (auto simp: same_roles_def set_role_def roles_distinct)
    qed
  next
    case (rc_hand_over r' role w w')
    then have "r' \<noteq> r" using no by auto
    with rc_hand_over(8) z w0 show ?thesis by (auto simp: same_roles_def set_role_def roles_distinct)
  next
    case (rc_limiter r' t' w w' x)
    then have "r' \<noteq> r" using n by auto
    with rc_limiter(7) z w0 show ?thesis by (auto simp: same_roles_def set_role_def roles_distinct)
  next
    case (rc_minter r' t' w)
    then have "r' \<noteq> r" using n by auto
    with rc_minter(6) z w0 show ?thesis by (auto simp: same_roles_def set_role_def roles_distinct)
  qed
qed

lemma at_most_one_empty: "(\<And>w. length w = 32 \<Longrightarrow> \<not> has_role (roles_at env m r w) role) \<Longrightarrow> at_most_one env m r role"
  by (auto simp: at_most_one_def)

lemma at_most_one_step:
  assumes law: "pda_law env" "pda_inj env" and ok: "its_ok env m" and one: "at_most_one env m r role"
    and role: "role = OPERATOR \<or> role = MINTER" and ch: "role_change S A m m' (roles_at env m) (roles_at env m')"
    and free: "\<And>t. role = MINTER \<Longrightarrow> m r = Some (TokenManagerAcc t) \<Longrightarrow> ty t \<noteq> MintBurn \<and> ty t \<noteq> MintBurnFrom"
  shows "at_most_one env m' r role"
  using ch
proof cases
  case rc_same
  with one show ?thesis by (auto simp: at_most_one_def same_roles_def)
next
  case (rc_new r' w x)
  have "roles_at env m r' w' = 0" if "length w' = 32" for w'
    using roles_at_no_resource [OF law ok rc_new(1) that] .
  with rc_new(6) one role show ?thesis
    by (auto simp: at_most_one_def same_roles_def set_role_def has_role_simps)
next
  case (rc_hand_over r' role' w w')
  with one role show ?thesis
    by (auto simp: at_most_one_def same_roles_def set_role_def has_role_simps)
next
  case (rc_limiter r' t' w w' x)
  with one role show ?thesis
    by (auto simp: at_most_one_def same_roles_def set_role_def has_role_simps)
next
  case (rc_minter r' t' w)
  with one role free show ?thesis
    by (auto simp: at_most_one_def same_roles_def set_role_def has_role_simps)
qed

lemma roles_inv_step:
  assumes law: "pda_law env" "pda_inj env" and ok: "its_ok env m" and inv: "roles_inv env m"
    and ch: "acct_change env S E A m m'"
  shows "roles_inv env m'"
proof -
  have rc: "role_change S A m m' (roles_at env m) (roles_at env m')"
    using acct_change_refines [OF law ok ch] by simp
  have "root_table env m' r" if "m' r = Some (ItsRootAcc s)" for r s
    using roles_inv_root [OF law ok inv ch that] .
  moreover have "at_most_one env m' r OPERATOR" for r
    using at_most_one_step [OF law ok _ _ rc, of r OPERATOR] inv roles_distinct by (simp add: roles_inv_def)
  moreover have "at_most_one env m' r MINTER"
    if t: "m' r = Some (TokenManagerAcc t)" and ty: "ty t \<notin> {MintBurn, MintBurnFrom}" for r t
  proof (rule at_most_one_step [OF law ok _ _ rc])
    have same: "ty t0 = ty t" if "m r = Some (TokenManagerAcc t0)" for t0
      using acct_change_le [OF ch] that t unfolding acct_le_def manager_same_def by fastforce
    then show "ty t0 \<noteq> MintBurn \<and> ty t0 \<noteq> MintBurnFrom" if "m r = Some (TokenManagerAcc t0)" for t0
      using that ty by auto
    show "at_most_one env m r MINTER"
    proof (cases "is_resource m r")
      case True
      then show ?thesis
      proof (unfold is_resource_def, elim disjE exE)
        fix s assume "m r = Some (ItsRootAcc s)"
        then have "root_table env m r" using inv by (auto simp: roles_inv_def)
        then show ?thesis
          by (intro at_most_one_empty) (auto simp: root_table_def has_role_simps has_role_def role_defs split: if_splits)
      next
        fix t0 assume t0: "m r = Some (TokenManagerAcc t0)"
        have "ty t0 \<notin> {MintBurn, MintBurnFrom}" using same [OF t0] ty by simp
        with t0 inv show ?thesis unfolding roles_inv_def by blast
      qed
    next
      case False
      then show ?thesis
        using roles_at_no_resource [OF law ok False] by (intro at_most_one_empty) (simp add: has_role_simps)
    qed
  qed simp
  ultimately show ?thesis by (auto simp: roles_inv_def)
qed

section \<open>Reachable states\<close>

text \<open>The laws of the environment, and the invariant of reachable states.\<close>

definition its_laws :: "env \<Rightarrow> its_lib \<Rightarrow> bool" where
  "its_laws env lib \<longleftrightarrow> pda_law env \<and> pda_inj env \<and> destination_law env lib"

lemma its_lawsD: "its_laws env lib \<Longrightarrow> pda_law env" "its_laws env lib \<Longrightarrow> pda_inj env"
    "its_laws env lib \<Longrightarrow> destination_law env lib"
  by (simp_all add: its_laws_def)

definition its_inv :: "env \<Rightarrow> its_state \<Rightarrow> bool" where
  "its_inv env st \<longleftrightarrow> gateway_reachable env (its_gateway st) \<and> its_ok env (its_accounts st) \<and>
     roles_inv env (its_accounts st)"

lemma its_inv_pre: "its_laws env lib \<Longrightarrow> its_inv env st \<Longrightarrow> its_pre env st"
  by (simp add: its_laws_def its_inv_def its_pre_def)

text \<open>What a step does: the gateway moves by its own steps, the accounts by an account change.\<close>

definition its_le :: "env \<Rightarrow> its_state \<Rightarrow> its_state \<Rightarrow> bool" where
  "its_le env st st' \<longleftrightarrow> gateway_runs env st st' \<and> acct_le (its_accounts st) (its_accounts st')"

lemma its_step_change:
  assumes law: "its_laws env lib" and inv: "its_inv env st" and step: "its_step env lib st st'"
  shows "gateway_runs env st st' \<and> (\<exists>S E A. acct_change env S E A (its_accounts st) (its_accounts st'))"
  using step
proof cases
  case (its_ix ix view)
  then show ?thesis
    using its_entry_gateway [OF its_lawsD(3) [OF law]] its_entry_refines [OF its_inv_pre [OF law inv]] by blast
next
  case (its_gateway_ix gw)
  then show ?thesis by (auto intro: ac_same runs_one)
next
  case (its_other T gas)
  then show ?thesis by (auto intro: ac_same runs_refl)
qed

lemma its_inv_step:
  assumes law: "its_laws env lib" and inv: "its_inv env st" and step: "its_step env lib st st'"
  shows "its_inv env st'" and "its_le env st st'"
proof -
  from its_step_change [OF assms] obtain S E A where g: "gateway_runs env st st'"
    and ch: "acct_change env S E A (its_accounts st) (its_accounts st')" by blast
  have ok: "its_ok env (its_accounts st)" "roles_inv env (its_accounts st)" "gateway_reachable env (its_gateway st)"
    using inv by (auto simp: its_inv_def)
  show "its_inv env st'"
    using acct_change_refines [OF its_lawsD(1,2) [OF law] ok(1) ch] roles_inv_step [OF its_lawsD(1,2) [OF law] ok(1,2) ch]
      runs_trans [OF g ok(3)] by (simp add: its_inv_def)
  show "its_le env st st'" using g acct_change_le [OF ch] by (simp add: its_le_def)
qed

interpretation its_inv: step_invariant "its_step env lib" "\<lambda>st. its_laws env lib \<longrightarrow> its_inv env st" for env lib
  by unfold_locales (blast intro: its_inv_step)

lemma its_empty_inv: "its_inv env (its_empty T gateway_empty gas)"
proof -
  have "roles_at env Map.empty r w = 0" for r w
    by (simp add: roles_at_def split: option.splits)
  then have "at_most_one env Map.empty r OPERATOR" for r
    by (intro at_most_one_empty) (simp add: has_role_simps)
  then show ?thesis
    by (simp add: its_inv_def its_ok_def roles_inv_def its_empty_def runs_refl)
qed

lemma its_reachable_inv: "its_laws env lib \<Longrightarrow> its_reachable env lib st \<Longrightarrow> its_inv env st"
  using its_inv.runs_keep its_empty_inv by blast

text \<open>Steps between states with the invariant, as one relation, so that runs compose.\<close>

interpretation its_mono: step_monotone "\<lambda>st st'. its_inv env st \<and> its_step env lib st st' \<and> its_laws env lib" "its_le env"
    for env lib
  by unfold_locales
    (auto simp: its_le_def acct_le_refl runs_refl intro: runs_trans acct_le_trans dest: its_inv_step(2) [unfolded its_le_def])

lemma its_runs_le:
  assumes law: "its_laws env lib" and inv: "its_inv env st" and r: "runs (its_step env lib) st st'"
  shows "its_le env st st'" and "its_inv env st'"
proof -
  show "its_inv env st'" using its_inv.runs_keep [OF r] law inv by blast
  have "runs (\<lambda>st st'. its_inv env st \<and> its_step env lib st st' \<and> its_laws env lib) st st'"
    using r inv
  proof (induction rule: runs.induct)
    case (runs_step s t u)
    have "its_inv env t" using its_inv.runs_keep [OF runs_step(1)] law runs_step(4) by blast
    with runs_step law show ?case by (blast intro: runs.runs_step)
  qed (rule runs.runs_refl)
  then show "its_le env st st'" by (rule its_mono.runs_le)
qed

section \<open>Limits\<close>

text \<open>A flow limit changes by the service's operator or the manager's flow limiter only.\<close>

lemma acct_change_limit:
  assumes ch: "acct_change env S E A m m'" and t: "m k = Some (TokenManagerAcc t)" and t': "m' k = Some (TokenManagerAcc t')"
    and ne: "flow_limit (flow_slot t') \<noteq> flow_limit (flow_slot t)"
  shows "\<exists>w\<in>S. has_role (roles_at env m k w) FLOW_LIMITER \<or>
     (\<exists>rk s. m rk = Some (ItsRootAcc s) \<and> has_role (roles_at env m rk w) OPERATOR)"
  using ch
proof cases
  case (ac_limit tk u rk s w limit)
  then show ?thesis using t t' ne by (auto split: if_splits)
next
  case (ac_flow tk u view n dir f)
  have "flow_limit f = flow_limit (flow_slot u)"
    using ac_flow(3) unfolding track_token_flow_def add_flow_def
    by (auto simp: res_bind_Inr split: if_splits option.splits FlowDirection.splits)
  with ac_flow show ?thesis using t t' ne by (auto split: if_splits)
next
  case (ac_hand_over r role w ok b x w' dk b' x' e e')
  then show ?thesis using t t' ne by (auto simp: roles_cell_def no_resource_def roles_entry_def split: if_splits)
next
  case (ac_limiter tk u w w' k' b x x' e)
  then show ?thesis using t t' ne by (auto simp: roles_cell_def no_resource_def roles_entry_def split: if_splits)
next
  case (ac_minter tk u w k' b x e)
  then show ?thesis using t t' ne by (auto simp: roles_cell_def no_resource_def roles_entry_def split: if_splits)
qed (use t t' ne in \<open>auto split: if_splits\<close>)

section \<open>The service's account\<close>

text \<open>It changes by the edits of the instruction only.\<close>

lemma acct_change_root:
  assumes ch: "acct_change env S E A m m'" and root: "m' k = Some (ItsRootAcc s')"
  shows "m k = Some (ItsRootAcc s') \<or> (m k = None \<and> E k None s') \<or> (\<exists>s. m k = Some (ItsRootAcc s) \<and> E k (Some s) s')"
  using ch
proof cases
  case (ac_hand_over r role w ok b x w' dk b' x' e e')
  then show ?thesis using root by (auto simp: roles_entry_def split: if_splits)
next
  case (ac_limiter tk u w w' k' b x x' e)
  then show ?thesis using root by (auto simp: roles_entry_def split: if_splits)
next
  case (ac_minter tk u w k' b x e)
  then show ?thesis using root by (auto simp: roles_entry_def split: if_splits)
qed (use root in \<open>auto split: if_splits\<close>)

end
