(* ===== verification/Its_Demo.thy ===== *)
theory Its_Demo
  imports Its_Run Executable_Demo
begin

text \<open>
  A concrete service on the platform of \<open>Gateway_Demo\<close>: initialized by the upgrade authority, a
  trusted chain, a custom token in the lock/unlock mode with its operator, a flow limit, a transfer
  out and a message from the hub that delivers a transfer. The states are the ones the witnesses of
  the properties use.
\<close>

section \<open>Addresses and parameters\<close>

definition demo_user :: pubkey where "demo_user = replicate 32 21"
definition demo_heir :: pubkey where "demo_heir = replicate 32 22"
definition demo_wallet :: pubkey where "demo_wallet = replicate 32 23"

definition demo_its_key :: pubkey where
  "demo_its_key = str_bytes ''interchain-token-service'' @ [255, 3]"

definition demo_tid :: hash where
  "demo_tid = interchain_token_id_internal demo_env (linked_token_deployer_salt demo_env Mainnet demo_user [1])"

definition demo_tm_key :: pubkey where
  "demo_tm_key = str_bytes ''token-manager'' @ demo_its_key @ demo_tid @ [255, 3]"

definition demo_roles_key :: "pubkey \<Rightarrow> pubkey \<Rightarrow> pubkey" where
  "demo_roles_key r w = str_bytes ''user-roles'' @ r @ w @ [255, 3]"

definition demo_ata :: "pubkey \<Rightarrow> pubkey" where
  "demo_ata w = replicate 31 40 @ [hd w]"

definition demo_transfer_msg :: InterchainTransferMsg where
  "demo_transfer_msg = \<lparr>it_token_id = demo_tid, it_source_address = [5], it_destination_address = demo_wallet,
     it_amount = 50, it_data = None\<rparr>"

definition demo_ilib :: its_lib where
  "demo_ilib =
     \<lparr>its_network = Mainnet, il_sys = demo_sys, il_payload = demo_lib, token_program_id = [31], token_2022_id = [32],
      associated_token_program_id = [33], mpl_token_metadata_id = [34], sysvar_instructions_id = [35],
      bpf_loader_id = [36], bpf_loader_deprecated_id = [37], loader_v4_id = [38], MAX_NAME_LENGTH = 32,
      MAX_SYMBOL_LENGTH = 10, metadata_address = (\<lambda>m. [39] @ m), ata_address = (\<lambda>w m p. replicate 31 40 @ [hd w]),
      spl_create_ata = (\<lambda>w m p T. Some (T\<lparr>tl_accounts := (tl_accounts T)(replicate 31 40 @ [hd w] \<mapsto>
        \<lparr>ta_program = p, ta_mint = m, ta_owner = w, ta_amount = 0\<rparr>)\<rparr>)),
      spl_create_mint = (\<lambda>p m d auth frz T. Some (T\<lparr>tl_mints := (tl_mints T)(m \<mapsto>
        \<lparr>mi_program = p, mi_authority = Some auth, mi_supply = 0, mi_decimals = d, mi_fee_config = None,
         mi_metadata_pointer = None, mi_token_metadata = None\<rparr>)\<rparr>)),
      spl_mint_to = (\<lambda>p m t s n T. Some T), spl_burn = (\<lambda>p m f s n T. Some T),
      spl_transfer_checked = (\<lambda>p f m t s n d T. Some T),
      spl_transfer_checked_with_fee = (\<lambda>p f m t s n d fee T. Some T),
      spl_set_mint_authority = (\<lambda>p m s k T. Some T), mpl_create = (\<lambda>md m s name symbol T. Some T),
      calculate_epoch_fee = (\<lambda>cfg e n. Some 0),
      hub_to_vec = (\<lambda>h. Some [80]),
      hub_try_from_slice = (\<lambda>bs. if bs = [90] then Some (ReceiveFromHub ''eth'' (InterchainTransferM demo_transfer_msg)) else None),
      destination_call = (\<lambda>d metas ix s. Some s)\<rparr>"

definition demo_iview :: its_view where
  "demo_iview = \<lparr>iv_ledger = \<lparr>unix_timestamp = 1000,
       program_data_authority = (\<lambda>k. if k = [3, 255, 7] then Some (Some [9]) else None)\<rparr>,
     clock_epoch = 0, account_owner = (\<lambda>_. [8])\<rparr>"

lemma demo_laws: "its_laws demo_env demo_ilib"
  by (simp add: its_laws_def demo_pda_law demo_pda_inj destination_law_def demo_ilib_def runs_refl)

definition demo_mint :: mint where
  "demo_mint = \<lparr>mi_program = [31], mi_authority = None, mi_supply = 1000, mi_decimals = 9, mi_fee_config = None,
     mi_metadata_pointer = None, mi_token_metadata = None\<rparr>"

definition demo_account :: "pubkey \<Rightarrow> token_account" where
  "demo_account w = \<lparr>ta_program = [31], ta_mint = [30], ta_owner = w, ta_amount = 500\<rparr>"

definition demo_tokens :: token_ledger where
  "demo_tokens = \<lparr>tl_mints = [[30] \<mapsto> demo_mint],
     tl_accounts = [demo_ata demo_user \<mapsto> demo_account demo_user, demo_ata demo_tm_key \<mapsto> demo_account demo_tm_key,
       demo_ata demo_wallet \<mapsto> demo_account demo_wallet],
     tl_metadata = (\<lambda>_. None)\<rparr>"

definition demo_igas :: gas_state where
  "demo_igas = \<lparr>gs_treasuries = Map.empty, gs_balances = demo_balances, gs_events = []\<rparr>"

section \<open>The message of the hub\<close>

definition demo_imsg :: Message where
  "demo_imsg = \<lparr>cc_id = \<lparr>chain = ''axelar'', cc_id_id = ''7''\<rparr>, source_address = ''hub'', destination_chain = ''solana'',
     destination_address = [CHR 0x03], payload_hash = [90]\<rparr>"

definition demo_igw :: gateway_state where
  "demo_igw = msg_approved demo_imsg demo_st3"

lemma demo_st3_free [simp]: "gw_accounts demo_st3 (msg_key m) = None"
  by (auto simp: demo_st3_def demo_st2_def demo_st1_def gateway_empty_def)
    (simp_all add: msg_key_def demo_set_key_def str_bytes_def of_char_u8_inj)

lemma demo_igw_runs: "runs (gateway_step demo_env) gateway_empty demo_igw"
proof -
  have "gateway_step demo_env demo_st3 demo_igw"
    unfolding demo_igw_def by (rule gateway_step_approve) simp_all
  then show ?thesis using demo_reachable(2) by (meson runs.intros)
qed

lemma demo_igw_accounts [simp]:
  "gw_accounts demo_igw demo_root_key = Some (ConfigAcc demo_config)"
  "gw_accounts demo_igw (msg_key demo_imsg) = Some (MessageAcc (msg_incoming demo_imsg))"
  by (simp_all add: demo_igw_def)

lemma its_runs_gateway:
  assumes "runs (gateway_step env) gw gw'" and "its_gateway st = gw"
  shows "runs (its_step env lib) st (st\<lparr>its_gateway := gw'\<rparr>)"
  using assms
proof (induction rule: runs.induct)
  case (runs_refl s)
  then have "st\<lparr>its_gateway := s\<rparr> = st" by auto
  then show ?case by (simp add: runs.runs_refl)
next
  case (runs_step s t u)
  have "its_step env lib (st\<lparr>its_gateway := t\<rparr>) (st\<lparr>its_gateway := t\<rparr>\<lparr>its_gateway := u\<rparr>)"
    by (rule its_gateway_ix) (simp add: runs_step)
  then show ?case using runs_step.IH [OF runs_step.prems] by (auto intro: runs.runs_step)
qed

section \<open>States\<close>

definition demo_root :: "string list \<Rightarrow> InterchainTokenService" where
  "demo_root cs = \<lparr>its_hub_address = ''hub'', chain_name = ''solana'', paused = False, trusted_chains = cs, its_bump = 255\<rparr>"

definition demo_slot :: "u64 option \<Rightarrow> u64 \<Rightarrow> u64 \<Rightarrow> FlowState" where
  "demo_slot l i out = \<lparr>flow_limit = l, flow_in = i, flow_out = out, flow_epoch = 0\<rparr>"

definition demo_manager :: "FlowState \<Rightarrow> TokenManager" where
  "demo_manager f = \<lparr>ty = LockUnlock, tm_token_id = demo_tid, token_address = [30],
     associated_token_account = demo_ata demo_tm_key, flow_slot = f, tm_bump = 255\<rparr>"

definition demo_its0 :: its_state where
  "demo_its0 = its_empty demo_tokens demo_igw demo_igas"

definition demo_its1 :: its_state where
  "demo_its1 = put_its (demo_roles_key demo_its_key demo_user) (UserRolesAcc \<lparr>roles = OPERATOR, ur_bump = 255\<rparr>)
     (put_its demo_its_key (ItsRootAcc (demo_root [])) demo_its0)"

definition demo_its2 :: its_state where
  "demo_its2 = emit_its (TrustedChainSet ''eth'') (put_its demo_its_key (ItsRootAcc (demo_root [''eth''])) demo_its1)"

definition demo_its3 :: its_state where
  "demo_its3 = emit_its (TokenManagerDeployed demo_tid demo_tm_key 2 (Some demo_heir))
     (put_its (demo_roles_key demo_tm_key demo_heir) (UserRolesAcc \<lparr>roles = LINKED_OPERATOR_ROLES, ur_bump = 255\<rparr>)
       (put_its demo_tm_key (TokenManagerAcc (demo_manager (demo_slot None 0 0))) demo_its2))"

definition demo_its4 :: its_state where
  "demo_its4 = emit_its (FlowLimitSet demo_tid demo_heir (Some 100))
     (put_its demo_tm_key (TokenManagerAcc (demo_manager (demo_slot (Some 100) 0 0))) demo_its3)"

text \<open>Keys of the four accounts.\<close>

lemma demo_users [simp]: "length demo_user = 32" "length demo_heir = 32" "length demo_wallet = 32"
  "demo_heir \<noteq> demo_user" "demo_user \<noteq> demo_heir" "demo_wallet \<noteq> demo_user" "demo_user \<noteq> demo_wallet"
  by (simp_all add: demo_user_def demo_heir_def demo_wallet_def)

lemma demo_its_keys [simp]:
  "demo_roles_key r w \<noteq> demo_its_key" "demo_its_key \<noteq> demo_roles_key r w" "demo_tm_key \<noteq> demo_its_key"
  "demo_its_key \<noteq> demo_tm_key" "demo_roles_key r w \<noteq> demo_tm_key" "demo_tm_key \<noteq> demo_roles_key r w"
  "demo_roles_key demo_tm_key w \<noteq> demo_roles_key demo_its_key w'"
  "demo_roles_key demo_its_key w' \<noteq> demo_roles_key demo_tm_key w"
  by (simp_all add: demo_roles_key_def demo_its_key_def demo_tm_key_def str_bytes_def of_char_u8_inj)

lemma demo_its_seeds [simp]:
  "concat its_root_seeds @ [255, 3] = demo_its_key"
  "concat (token_manager_seeds demo_tid demo_its_key) @ [255, 3] = demo_tm_key"
  "concat (user_roles_seeds r w) @ [255, 3] = demo_roles_key r w"
  by (simp_all add: its_root_seeds_def demo_its_key_def token_manager_seeds_def demo_tm_key_def user_roles_seeds_def
      demo_roles_key_def)

lemma demo_check_seeds [simp]:
  "check_seeds demo_env seeds 255 [3] k = Inr () \<longleftrightarrow> k = concat seeds @ [255, 3]"
  "check_seeds_canonical demo_env seeds [3] (concat seeds @ [255, 3]) = Inr 255"
  by (auto simp: check_seeds_def check_seeds_canonical_def find_program_address_def require_def)

lemma demo_canonical [simp]:
  "check_seeds_canonical demo_env its_root_seeds [3] demo_its_key = Inr 255"
  "check_seeds_canonical demo_env (token_manager_seeds demo_tid demo_its_key) [3] demo_tm_key = Inr 255"
  "check_seeds_canonical demo_env (user_roles_seeds r w) [3] (demo_roles_key r w) = Inr 255"
  using demo_check_seeds(2) demo_its_seeds by metis+

section \<open>Loading\<close>

lemma demo_manager_sel [simp]:
  "ty (demo_manager f) = LockUnlock" "tm_token_id (demo_manager f) = demo_tid" "token_address (demo_manager f) = [30]"
  "flow_slot (demo_manager f) = f" "tm_bump (demo_manager f) = 255" "(demo_manager f)\<lparr>flow_slot := f'\<rparr> = demo_manager f'"
  "with_flow_limit l (demo_manager f) = demo_manager (f\<lparr>flow_limit := l\<rparr>)"
  by (simp_all add: demo_manager_def with_flow_limit_def)

lemma demo_root_sel [simp]:
  "its_hub_address (demo_root cs) = ''hub''" "its_bump (demo_root cs) = 255" "chain_name (demo_root cs) = ''solana''"
  "paused (demo_root cs) = False" "trusted_chains (demo_root cs) = cs"
  by (simp_all add: demo_root_def)

lemma demo_load_root [simp]:
  "its_accounts st demo_its_key = Some (ItsRootAcc (demo_root cs)) \<Longrightarrow> ai_key a = demo_its_key \<Longrightarrow>
     load_its_root demo_env st a = Inr (demo_root cs)"
  by (simp add: load_its_root_Inr its_root_seeds_def demo_its_key_def)

lemma demo_active_root [simp]:
  "its_accounts st demo_its_key = Some (ItsRootAcc (demo_root cs)) \<Longrightarrow> ai_key a = demo_its_key \<Longrightarrow>
     load_active_root demo_env st a = Inr (demo_root cs)"
  by (simp add: load_active_root_def)

lemma demo_load_manager [simp]:
  "its_accounts st demo_tm_key = Some (TokenManagerAcc (demo_manager f)) \<Longrightarrow> ai_key a = demo_tm_key \<Longrightarrow>
     load_token_manager demo_env st demo_its_key demo_tid a = Inr (demo_manager f)"
  by (simp add: load_token_manager_Inr token_manager_seeds_def demo_tm_key_def)

lemma demo_load_own_manager [simp]:
  "its_accounts st demo_tm_key = Some (TokenManagerAcc (demo_manager f)) \<Longrightarrow> ai_key a = demo_tm_key \<Longrightarrow>
     load_own_token_manager demo_env st demo_its_key a = Inr (demo_manager f)"
  by (simp add: load_own_token_manager_Inr)

lemma demo_load_roles [simp]:
  "its_accounts st (demo_roles_key r w) = Some (UserRolesAcc \<lparr>roles = x, ur_bump = 255\<rparr>) \<Longrightarrow> ai_key a = demo_roles_key r w \<Longrightarrow>
     load_user_roles demo_env st r w a = Inr \<lparr>roles = x, ur_bump = 255\<rparr>"
  by (simp add: load_user_roles_Inr user_roles_seeds_def demo_roles_key_def)

lemma demo_iview_simps [simp]:
  "load_program_data demo_env (iv_ledger demo_iview) [3] [3, 255, 7] = Inr (Some [9])"
  by (simp add: load_program_data_def check_seeds_canonical_def find_program_address_def demo_iview_def)
    (simp add: demo_env_def)

lemmas demo_checks = Let_def acc_defs check_payer_def check_signer_def check_mut_def check_vacant_def check_program_def
  check_its_program_data_def init_user_roles_def init_user_roles_if_needed_def init_token_manager_def

section \<open>The configuration\<close>

definition demo_its_init :: its_Initialize where
  "demo_its_init = \<lparr>ii_payer = acc_signer_mut [9], ii_program_data = acc [3, 255, 7], ii_its_root_pda = acc_mut demo_its_key,
     ii_system_program = acc [8], ii_operator = acc_signer demo_user,
     ii_user_roles_account = acc_mut (demo_roles_key demo_its_key demo_user)\<rparr>"

lemma demo_its_init_ok: "its_initialize demo_env demo_iview demo_its_init ''solana'' ''hub'' demo_its0 = Inr demo_its1"
  by (simp add: its_initialize_def demo_its_init_def demo_checks demo_its1_def demo_its0_def its_empty_def its_new_def
      demo_root_def)

definition demo_stc :: SetTrustedChain where
  "demo_stc = \<lparr>stc_payer = acc_signer_mut demo_user, stc_user_roles = Some (acc (demo_roles_key demo_its_key demo_user)),
     stc_program_data = None, stc_its_root_pda = acc_mut demo_its_key, stc_system_program = acc [8]\<rparr>"

lemma demo_its1_accounts [simp]:
  "its_accounts demo_its1 demo_its_key = Some (ItsRootAcc (demo_root []))"
  "its_accounts demo_its1 (demo_roles_key demo_its_key demo_user) = Some (UserRolesAcc \<lparr>roles = OPERATOR, ur_bump = 255\<rparr>)"
  "its_accounts demo_its1 demo_tm_key = None" "its_accounts demo_its1 (demo_roles_key demo_tm_key w) = None"
  "its_tokens demo_its1 = demo_tokens" "its_gateway demo_its1 = demo_igw" "its_gas demo_its1 = demo_igas"
  by (simp_all add: demo_its1_def demo_its0_def its_empty_def)

lemma demo_stc_ok: "set_trusted_chain demo_env demo_iview demo_stc ''eth'' demo_its1 = Inr demo_its2"
proof -
  have "load_root_as_admin demo_env demo_iview demo_stc demo_its1 = Inr (demo_root [])"
    by (simp add: load_root_as_admin_def demo_stc_def demo_checks has_operator_role_def)
  moreover have "add_trusted_chain ''eth'' (demo_root []) = demo_root [''eth'']"
    by (simp add: add_trusted_chain_def demo_root_def ITS_HUB_CHAIN_NAME_def)
  ultimately show ?thesis
    by (simp add: set_trusted_chain_def demo_stc_def demo_checks is_trusted_chain_def demo_its2_def)
qed

lemma demo_its2_accounts [simp]:
  "its_accounts demo_its2 demo_its_key = Some (ItsRootAcc (demo_root [''eth'']))"
  "its_accounts demo_its2 (demo_roles_key demo_its_key demo_user) = Some (UserRolesAcc \<lparr>roles = OPERATOR, ur_bump = 255\<rparr>)"
  "its_accounts demo_its2 demo_tm_key = None" "its_accounts demo_its2 (demo_roles_key demo_tm_key w) = None"
  "its_tokens demo_its2 = demo_tokens" "its_gateway demo_its2 = demo_igw" "its_gas demo_its2 = demo_igas"
  by (simp_all add: demo_its2_def)

section \<open>The token\<close>

lemma demo_ata_key: "ata_address demo_ilib w [30] [31] = demo_ata w"
  by (simp add: demo_ilib_def demo_ata_def)

lemma demo_key_heads: "hd demo_user = 21" "hd demo_wallet = 23" "hd demo_its_key = 105" "hd demo_tm_key = 116" "hd (demo_ata w) = 40"
  by (simp_all add: demo_user_def demo_wallet_def demo_its_key_def demo_tm_key_def demo_ata_def str_bytes_def)

lemma demo_tokens_sel [simp]:
  "tl_mints demo_tokens [30] = Some demo_mint" "tl_accounts demo_tokens (demo_ata demo_tm_key) = Some (demo_account demo_tm_key)"
  "tl_accounts demo_tokens (demo_ata demo_user) = Some (demo_account demo_user)"
  "tl_accounts demo_tokens (demo_ata demo_wallet) = Some (demo_account demo_wallet)"
  by (simp_all add: demo_tokens_def demo_ata_def demo_key_heads)

lemma demo_tokens_load [simp]:
  "ai_key p = [31] \<Longrightarrow> ai_key a = [30] \<Longrightarrow> load_mint_of demo_tokens p a = Inr demo_mint"
  "w \<in> {demo_user, demo_wallet, demo_tm_key} \<Longrightarrow> ai_key a = demo_ata w \<Longrightarrow>
     load_token_account demo_tokens [31] [30] a = Inr (demo_account w)"
  "w \<in> {demo_user, demo_wallet, demo_tm_key} \<Longrightarrow> ai_key a = demo_ata w \<Longrightarrow>
     load_ata demo_ilib demo_tokens w [30] [31] a = Inr (demo_account w)"
  by (auto simp: load_mint_of_def load_mint_def acc_def load_ata_def load_token_account_def demo_ata_key)
    (simp_all add: demo_mint_def demo_account_def)

lemma demo_programs [simp]:
  "token_program_id demo_ilib = [31]" "associated_token_program_id demo_ilib = [33]" "its_network demo_ilib = Mainnet"
  by (simp_all add: demo_ilib_def)

definition demo_ru :: RegisterCustomToken where
  "demo_ru = \<lparr>ru_payer = acc_signer_mut demo_user, ru_deployer = acc_signer demo_user, ru_system_program = acc [8],
     ru_its_root_pda = acc demo_its_key, ru_token_manager_pda = acc_mut demo_tm_key, ru_token_mint = acc [30],
     ru_token_manager_ata = acc_mut (demo_ata demo_tm_key), ru_token_program = acc [31],
     ru_associated_token_program = acc [33], ru_operator = Some (acc demo_heir),
     ru_operator_roles_pda = Some (acc_mut (demo_roles_key demo_tm_key demo_heir))\<rparr>"

lemma demo_ru_ok: "register_custom_token demo_env demo_ilib demo_ru [1] LockUnlock (Some demo_heir) demo_its2 = Inr demo_its3"
proof -
  have "init_ata_if_needed demo_ilib demo_tm_key [30] [31] (acc_mut (demo_ata demo_tm_key)) demo_tokens = Inr demo_tokens"
    by (simp add: init_ata_if_needed_def demo_checks)
  moreover have "validate_mint_extension LockUnlock demo_mint = Inr ()"
    by (simp add: validate_mint_extension_def supports_mint_extensions_def demo_mint_def)
  ultimately show ?thesis
    by (simp add: register_custom_token_def demo_ru_def demo_checks demo_tid_def [symmetric] init_optional_roles_def
        check_token_program_def check_operator_config_def put_optional_roles_def demo_its3_def token_manager_init_def
        demo_manager_def demo_slot_def flow_new_def put_its_def emit_its_def)
qed

lemma demo_its3_accounts [simp]:
  "its_accounts demo_its3 demo_its_key = Some (ItsRootAcc (demo_root [''eth'']))"
  "its_accounts demo_its3 (demo_roles_key demo_its_key demo_user) = Some (UserRolesAcc \<lparr>roles = OPERATOR, ur_bump = 255\<rparr>)"
  "its_accounts demo_its3 demo_tm_key = Some (TokenManagerAcc (demo_manager (demo_slot None 0 0)))"
  "its_accounts demo_its3 (demo_roles_key demo_tm_key demo_heir) = Some (UserRolesAcc \<lparr>roles = LINKED_OPERATOR_ROLES, ur_bump = 255\<rparr>)"
  "its_tokens demo_its3 = demo_tokens" "its_gateway demo_its3 = demo_igw" "its_gas demo_its3 = demo_igas"
  by (simp_all add: demo_its3_def)

definition demo_stf :: SetTokenManagerFlowLimit where
  "demo_stf = \<lparr>stf_payer = acc_signer_mut demo_heir, stf_flow_limiter = acc_signer demo_heir, stf_its_root_pda = acc demo_its_key,
     stf_token_manager_pda = acc_mut demo_tm_key, stf_flow_limiter_roles_pda = acc (demo_roles_key demo_tm_key demo_heir),
     stf_system_program = acc [8]\<rparr>"

lemma demo_stf_ok: "set_token_manager_flow_limit demo_env demo_stf (Some 100) demo_its3 = Inr demo_its4"
proof -
  have "has_flow_limiter_role \<lparr>roles = LINKED_OPERATOR_ROLES, ur_bump = 255\<rparr>"
    by (simp add: has_flow_limiter_role_def LINKED_OPERATOR_ROLES_def role_defs)
  then show ?thesis
    by (simp add: set_token_manager_flow_limit_def demo_stf_def demo_checks demo_its4_def demo_slot_def put_its_def emit_its_def)
qed

lemma demo_its4_accounts [simp]:
  "its_accounts demo_its4 demo_its_key = Some (ItsRootAcc (demo_root [''eth'']))"
  "its_accounts demo_its4 (demo_roles_key demo_its_key demo_user) = Some (UserRolesAcc \<lparr>roles = OPERATOR, ur_bump = 255\<rparr>)"
  "its_accounts demo_its4 demo_tm_key = Some (TokenManagerAcc (demo_manager (demo_slot (Some 100) 0 0)))"
  "its_tokens demo_its4 = demo_tokens" "its_gateway demo_its4 = demo_igw" "its_gas demo_its4 = demo_igas"
  by (simp_all add: demo_its4_def)

section \<open>A transfer out\<close>

definition demo_gmp :: GMPAccounts where
  "demo_gmp = \<lparr>gm_payer = acc_signer_mut demo_user, gm_system_program = acc [8], gm_gateway_program = acc [1],
     gm_gateway_root_pda = acc demo_root_key,
     gm_call_contract_signing_pda = acc (CALL_CONTRACT_SEED @ [255, 3]),
     gm_gas_service = acc [2], gm_gas_treasury = acc_mut [50]\<rparr>"

definition demo_xt :: InterchainTransfer where
  "demo_xt = \<lparr>xt_gmp = demo_gmp, xt_authority = acc_signer demo_user, xt_its_root_pda = acc demo_its_key,
     xt_token_manager_pda = acc_mut demo_tm_key, xt_token_program = acc [31], xt_token_mint = acc_mut [30],
     xt_authority_token_account = acc_mut (demo_ata demo_user), xt_token_manager_ata = acc_mut (demo_ata demo_tm_key)\<rparr>"

definition demo_its5 :: its_state where
  "demo_its5 = (emit_its (InterchainTransferSent demo_tid demo_user (demo_ata demo_user) ''eth'' [7] 60 None)
      (put_its demo_tm_key (TokenManagerAcc (demo_manager (demo_slot (Some 100) 0 60))) demo_its4))
     \<lparr>its_gateway := emit_gw (CallContractEvent [3] [80] ''axelar'' ''hub'' [80]) demo_igw\<rparr>"

lemma demo_track [simp]:
  "track_token_flow (iv_ledger demo_iview) 60 Out (demo_slot (Some 100) 0 0) = Inr (demo_slot (Some 100) 0 60)"
  "track_token_flow (iv_ledger demo_iview) 50 In (demo_slot (Some 100) 0 60) = Inr (demo_slot (Some 100) 50 60)"
  by (simp_all add: track_token_flow_def current_flow_epoch_def flow_epoch_with_timestamp_def u64_of_i64_def demo_iview_def
      checked_div_def EPOCH_TIME_def demo_slot_def add_flow_def update_flow_def checked_add_def abs_diff_def require_def)

lemma demo_send_ok:
  assumes "its_gateway st = demo_igw"
  shows "send_to_hub_wrap demo_env demo_ilib demo_gmp ''hub'' m ''eth'' 0 st =
     Inr (st\<lparr>its_gateway := emit_gw (CallContractEvent [3] [80] ''axelar'' ''hub'' [80]) demo_igw\<rparr>)"
proof -
  have "hub_to_vec demo_ilib h = Some [80]" for h by (simp add: demo_ilib_def)
  then show ?thesis
    using assms by (simp add: send_to_hub_wrap_def send_to_hub_def demo_gmp_def demo_checks CallContractSigner_find_pda_def
        CallContractSigner_create_pda_def find_program_address_def call_contract_def grant_signer_def ITS_HUB_CHAIN_NAME_def)
qed

lemma demo_check_xt:
  "check_interchain_transfer demo_env demo_ilib demo_xt demo_tid ''eth'' demo_its4 =
     Inr (demo_root [''eth''], demo_manager (demo_slot (Some 100) 0 0), demo_mint)"
proof -
  have "check_gmp_accounts demo_env demo_gmp = Inr ()"
    by (simp add: check_gmp_accounts_def demo_gmp_def demo_checks) (simp add: demo_env_def)
  moreover have "ta_owner (demo_account demo_user) = demo_user" by (simp add: demo_account_def)
  ultimately show ?thesis
    by (simp add: check_interchain_transfer_def demo_xt_def demo_checks is_trusted_chain_def check_token_program_def
        demo_tokens_load(2) [of demo_user])
qed

lemma demo_xt_ok:
  "interchain_transfer demo_env demo_ilib demo_iview demo_xt demo_tid ''eth'' [7] 60 0 None None None demo_its4 = Inr demo_its5"
proof -
  have "take_token demo_env demo_ilib demo_iview demo_xt (demo_manager (demo_slot (Some 100) 0 0)) demo_mint 60 demo_tokens =
      Inr (60, demo_manager (demo_slot (Some 100) 0 60), demo_tokens)"
    by (simp add: take_token_def validate_token_manager_type_def demo_mint_def)
      (simp add: demo_ilib_def spl_def)
  moreover have "transfer_source_address demo_env demo_iview demo_user None None = Inr demo_user"
    by (simp add: transfer_source_address_def demo_iview_def)
  moreover have "xt_authority demo_xt = acc_signer demo_user" "xt_gmp demo_xt = demo_gmp"
    "xt_authority_token_account demo_xt = acc_mut (demo_ata demo_user)" "xt_token_manager_pda demo_xt = acc_mut demo_tm_key"
    by (simp_all add: demo_xt_def)
  ultimately show ?thesis
    by (simp add: interchain_transfer_def demo_check_xt acc_defs data_hash_of_def demo_send_ok demo_its5_def put_its_def emit_its_def)
qed

section \<open>A transfer in\<close>

definition demo_ie :: its_Execute where
  "demo_ie = \<lparr>ie_executable = msg_accounts demo_imsg, ie_payer = acc_signer_mut demo_user, ie_its_root_pda = acc demo_its_key,
     ie_token_manager_pda = acc_mut demo_tm_key, ie_token_mint = acc_mut [30], ie_token_manager_ata = acc_mut (demo_ata demo_tm_key),
     ie_token_program = acc [31], ie_associated_token_program = acc [33], ie_system_program = acc [8]\<rparr>"

definition demo_ie_remaining :: "account_info list" where
  "demo_ie_remaining = [acc demo_wallet, acc demo_wallet, acc_mut (demo_ata demo_wallet)]"

definition demo_its6 :: its_state where
  "demo_its6 = emit_its (InterchainTransferReceived (command_id demo_env demo_imsg) demo_tid ''eth'' [5] demo_wallet
       (demo_ata demo_wallet) 50 None)
     (put_its demo_tm_key (TokenManagerAcc (demo_manager (demo_slot (Some 100) 50 60)))
       (demo_its5\<lparr>its_gateway := msg_executed demo_imsg (its_gateway demo_its5)\<rparr>))"

lemma demo_keys_distinct:
  "distinct [demo_user, demo_its_key, demo_wallet, demo_ata demo_wallet, demo_tm_key, demo_ata demo_tm_key, [30], [31], [33], [8], [3]]"
proof -
  have "demo_ata demo_wallet \<noteq> demo_ata demo_tm_key"
    by (simp add: demo_ata_def demo_key_heads)
  then show ?thesis
    by (auto simp: demo_key_heads dest!: arg_cong [where f = hd])
qed

lemma demo_keys_distinct_rev:
  "distinct [[3], [8], [33], [31], [30], demo_ata demo_tm_key, demo_tm_key, demo_ata demo_wallet, demo_wallet, demo_its_key, demo_user]"
  using demo_keys_distinct distinct_rev [of "[demo_user, demo_its_key, demo_wallet, demo_ata demo_wallet, demo_tm_key,
    demo_ata demo_tm_key, [30], [31], [33], [8], [3]]"] by (simp only: rev.simps append.simps)

lemma demo_its5_sel [simp]:
  "its_accounts demo_its5 demo_its_key = Some (ItsRootAcc (demo_root [''eth'']))"
  "its_accounts demo_its5 demo_tm_key = Some (TokenManagerAcc (demo_manager (demo_slot (Some 100) 0 60)))"
  "its_tokens demo_its5 = demo_tokens" "gw_accounts (its_gateway demo_its5) = gw_accounts demo_igw"
  by (simp_all add: demo_its5_def)

lemma demo_imsg_sel [simp]:
  "source_address demo_imsg = ''hub''" "payload_hash demo_imsg = [90]" "destination_address demo_imsg = [CHR 0x03]"
  by (simp_all add: demo_imsg_def)

abbreviation "demo_see \<equiv> merged
  [acc_signer_mut demo_user, acc_signer demo_its_key, acc demo_wallet, acc demo_wallet, acc_mut (demo_ata demo_wallet),
   acc_mut [30], acc_mut demo_tm_key, acc_mut (demo_ata demo_tm_key), acc [31], acc [33], acc [8], acc [3]]"

definition demo_ex :: ExecuteInterchainTransfer where
  "demo_ex = \<lparr>ex_payer = demo_see (acc_signer_mut demo_user), ex_its_root_pda = demo_see (acc demo_its_key),
     ex_destination = demo_see (acc demo_wallet), ex_destination_token_authority = demo_see (acc demo_wallet),
     ex_destination_ata = demo_see (acc_mut (demo_ata demo_wallet)), ex_token_mint = demo_see (acc_mut [30]),
     ex_token_manager_pda = demo_see (acc_mut demo_tm_key), ex_token_manager_ata = demo_see (acc_mut (demo_ata demo_tm_key)),
     ex_token_program = demo_see (acc [31]), ex_associated_token_program = demo_see (acc [33]),
     ex_system_program = demo_see (acc [8]), ex_interchain_transfer_execute = None\<rparr>"

lemma demo_self_call_ok:
  "its_self_call demo_env 255
     [acc_signer_mut demo_user, acc demo_its_key, acc demo_wallet, acc demo_wallet, acc_mut (demo_ata demo_wallet), acc_mut [30],
      acc_mut demo_tm_key, acc_mut (demo_ata demo_tm_key), acc [31], acc [33], acc [8]]
     [acc_signer_mut demo_user, acc_signer demo_its_key, acc demo_wallet, acc demo_wallet, acc_mut (demo_ata demo_wallet),
      acc_mut [30], acc_mut demo_tm_key, acc_mut (demo_ata demo_tm_key), acc [31], acc [33], acc [8], acc [3]] = Inr ()"
  using demo_keys_distinct demo_keys_distinct_rev
  by (simp add: its_self_call_def acc_defs grant_signer_def)

lemma demo_check_ex:
  assumes "its_accounts st = its_accounts demo_its5" and "its_tokens st = demo_tokens"
  shows "check_execute_transfer demo_env demo_ilib demo_ex demo_wallet demo_tid st =
     Inr (demo_manager (demo_slot (Some 100) 0 60), demo_mint, demo_tokens, None)"
proof -
  have "init_ata_if_needed demo_ilib demo_wallet [30] [31] (demo_see (acc_mut (demo_ata demo_wallet))) demo_tokens = Inr demo_tokens"
    by (simp add: init_ata_if_needed_def check_mut_def merged_def demo_tokens_load(3) [of demo_wallet]) (simp add: acc_defs)
  moreover have "load_self_root demo_env st (demo_see (acc demo_its_key)) = Inr (demo_root [''eth''])"
    using assms by (simp add: load_self_root_def merged_def) (simp add: acc_defs)
  ultimately show ?thesis
    using assms
    by (simp add: check_execute_transfer_def demo_ex_def Let_def check_payer_def check_signer_def check_mut_def
        check_token_program_def check_program_def merged_def demo_tokens_load(3) [of demo_tm_key])
      (simp add: acc_defs)
qed

lemma demo_ex_ok:
  assumes "its_accounts st = its_accounts demo_its5" and "its_tokens st = demo_tokens"
  shows "execute_interchain_transfer demo_env demo_ilib demo_iview demo_ex [] demo_imsg ''eth'' [5] demo_wallet demo_tid 50 [] st =
     Inr (emit_its (InterchainTransferReceived (command_id demo_env demo_imsg) demo_tid ''eth'' [5] demo_wallet
       (demo_ata demo_wallet) 50 None)
     (put_its demo_tm_key (TokenManagerAcc (demo_manager (demo_slot (Some 100) 50 60))) st))"
proof -
  have "check_destination_authority demo_env demo_ilib demo_iview demo_wallet demo_wallet = Inr ()"
    by (simp add: check_destination_authority_def is_bpf_loader_owned_def demo_iview_def demo_ilib_def)
      (simp add: demo_env_def)
  moreover have "give_token demo_env demo_ilib demo_iview demo_ex (demo_manager (demo_slot (Some 100) 0 60)) demo_mint 50 demo_tokens =
      Inr (50, demo_manager (demo_slot (Some 100) 50 60), demo_tokens)"
    by (simp add: give_token_def Let_def) (simp add: demo_ilib_def spl_def)
  moreover have "validate_token_manager_type LockUnlock demo_mint k = Inr ()" for k
    by (simp add: validate_token_manager_type_def demo_mint_def)
  moreover have "ai_key (ex_destination demo_ex) = demo_wallet" "ai_key (ex_destination_token_authority demo_ex) = demo_wallet"
    "ai_key (ex_destination_ata demo_ex) = demo_ata demo_wallet" "ai_key (ex_token_manager_pda demo_ex) = demo_tm_key"
    by (simp_all add: demo_ex_def acc_defs)
  ultimately show ?thesis
    using demo_check_ex [OF assms] assms
    by (simp add: execute_interchain_transfer_def Let_def put_its_def emit_its_def)
qed

lemma acc_keys: "ai_key (acc k) = k" "ai_key (acc_mut k) = k" "ai_key (acc_signer k) = k" "ai_key (acc_signer_mut k) = k"
  by (simp_all add: acc_defs)

lemma demo_execute_its_ok:
  "its_execute demo_env demo_ilib demo_iview demo_ie demo_ie_remaining demo_imsg [90] demo_its5 = Inr demo_its6"
proof -
  let ?gw = "msg_executed demo_imsg (its_gateway demo_its5)"
  have v: "validate_message_raw demo_env [3] (msg_accounts demo_imsg) demo_imsg [90] (its_gateway demo_its5) = Inr ?gw"
    "check_execute_accounts demo_env [3] (msg_accounts demo_imsg) demo_imsg (its_gateway demo_its5) = Inr ()"
    by (intro msg_raw_ok msg_accounts_ok; simp add: str_bytes_def)+
  have c: "check_its_execute demo_env demo_ie demo_imsg demo_its5 = Inr (demo_root [''eth''])"
    by (simp add: check_its_execute_def demo_ie_def v demo_checks)
  have h: "hub_try_from_slice demo_ilib [90] = Some (ReceiveFromHub ''eth'' (InterchainTransferM demo_transfer_msg))"
    by (simp add: demo_ilib_def)
  have "cpi_execute_interchain_transfer demo_env demo_ilib demo_iview demo_ie 255 demo_ie_remaining demo_transfer_msg demo_imsg
      ''eth'' (demo_its5\<lparr>its_gateway := ?gw\<rparr>) = Inr demo_its6"
    using demo_ex_ok [of "demo_its5\<lparr>its_gateway := ?gw\<rparr>"] demo_self_call_ok
    by (simp add: cpi_execute_interchain_transfer_def demo_ie_remaining_def demo_transfer_msg_def Let_def demo_ie_def
        optional_meta_def optional_account_def demo_ex_def demo_its6_def acc_keys)
  with c h v show ?thesis
    by (simp add: its_execute_def is_trusted_chain_def) (simp add: demo_ie_def)
qed

section \<open>Reachability\<close>

text \<open>The instructions as steps; none of their accounts is a signer the service would have to derive.\<close>

lemma demo_its_steps:
  "its_step demo_env demo_ilib demo_its0 demo_its1" "its_step demo_env demo_ilib demo_its1 demo_its2"
  "its_step demo_env demo_ilib demo_its2 demo_its3" "its_step demo_env demo_ilib demo_its3 demo_its4"
  "its_step demo_env demo_ilib demo_its4 demo_its5" "its_step demo_env demo_ilib demo_its5 demo_its6"
proof -
  note wf = its_no_pda_signer_def its_ix_wf_def its_users_def
  show "its_step demo_env demo_ilib demo_its0 demo_its1"
    by (rule its_ix [where ix = "ItsInitializeIx demo_its_init ''solana'' ''hub''" and view = demo_iview])
      (simp_all add: wf its_entry_def demo_its_init_ok, simp add: demo_its_init_def acc_defs)
  show "its_step demo_env demo_ilib demo_its1 demo_its2"
    by (rule its_ix [where ix = "SetTrustedChainIx demo_stc ''eth''" and view = demo_iview])
      (simp_all add: wf its_entry_def demo_stc_ok, simp add: demo_stc_def acc_defs)
  show "its_step demo_env demo_ilib demo_its2 demo_its3"
    by (rule its_ix [where ix = "RegisterCustomTokenIx demo_ru [1] LockUnlock (Some demo_heir)" and view = demo_iview])
      (simp_all add: wf its_entry_def demo_ru_ok, simp add: demo_ru_def acc_defs)
  show "its_step demo_env demo_ilib demo_its3 demo_its4"
    by (rule its_ix [where ix = "SetTokenManagerFlowLimitIx demo_stf (Some 100)" and view = demo_iview])
      (simp_all add: wf its_entry_def demo_stf_ok, simp add: demo_stf_def acc_defs)
  show "its_step demo_env demo_ilib demo_its4 demo_its5"
    by (rule its_ix [where ix = "InterchainTransferIx demo_xt demo_tid ''eth'' [7] 60 0 None None None" and view = demo_iview])
      (simp_all add: wf its_entry_def demo_xt_ok)
  show "its_step demo_env demo_ilib demo_its5 demo_its6"
  proof (rule its_ix [where ix = "ItsExecuteIx demo_ie demo_ie_remaining demo_imsg [90]" and view = demo_iview])
    show "its_no_pda_signer demo_env (ItsExecuteIx demo_ie demo_ie_remaining demo_imsg [90])"
      by (simp add: its_no_pda_signer_def demo_ie_def msg_accounts_def acc_defs)
    show "its_ix_wf (ItsExecuteIx demo_ie demo_ie_remaining demo_imsg [90])"
      by (simp add: its_ix_wf_def its_users_def demo_ie_remaining_def acc_keys demo_ata_def)
  qed (simp add: its_entry_def demo_execute_its_ok)
qed

lemma demo_its_reachable:
  "its_reachable demo_env demo_ilib demo_its0" "its_reachable demo_env demo_ilib demo_its3"
  "its_reachable demo_env demo_ilib demo_its4" "its_reachable demo_env demo_ilib demo_its5"
  "its_reachable demo_env demo_ilib demo_its6" "its_reachable demo_env demo_ilib demo_its2"
  "its_reachable demo_env demo_ilib demo_its1"
proof -
  let ?e = "its_empty demo_tokens gateway_empty demo_igas" and ?step = "its_step demo_env demo_ilib"
  have "runs ?step ?e (?e\<lparr>its_gateway := demo_igw\<rparr>)"
    by (rule its_runs_gateway [OF demo_igw_runs]) (simp add: its_empty_def)
  then have r0: "runs ?step ?e demo_its0" by (simp add: demo_its0_def its_empty_def)
  note r1 = runs_step [OF r0 demo_its_steps(1)]
  note r2 = runs_step [OF r1 demo_its_steps(2)]
  note r3 = runs_step [OF r2 demo_its_steps(3)]
  note r4 = runs_step [OF r3 demo_its_steps(4)]
  note r5 = runs_step [OF r4 demo_its_steps(5)]
  note r6 = runs_step [OF r5 demo_its_steps(6)]
  show "its_reachable demo_env demo_ilib demo_its0" "its_reachable demo_env demo_ilib demo_its3"
    "its_reachable demo_env demo_ilib demo_its4" "its_reachable demo_env demo_ilib demo_its5"
    "its_reachable demo_env demo_ilib demo_its6" "its_reachable demo_env demo_ilib demo_its2"
    "its_reachable demo_env demo_ilib demo_its1"
    using r0 r1 r2 r3 r4 r5 r6 by blast+
qed

end
