(* ===== verification/Utf8.thy ===== *)
theory Utf8
  imports Prelude
begin

text \<open>
  UTF-8 as the language's \<open>str::from_utf8\<close> validates it, with the characters as byte groups: the
  memo program reads its payload through it, and every \<open>String\<close> satisfies it. The lemmas relate the
  characters to the boundaries between them.
\<close>

definition is_continuation :: "u8 \<Rightarrow> bool" where
  "is_continuation b \<longleftrightarrow> 128 \<le> b \<and> b < 192"

text \<open>The number of bytes of the character a byte starts; 0 for a byte that starts none.\<close>

definition utf8_width :: "u8 \<Rightarrow> nat" where
  "utf8_width b =
     (if b < 128 then 1 else if b < 194 then 0 else if b < 224 then 2 else if b < 240 then 3
      else if b < 245 then 4 else 0)"

text \<open>The second byte excludes overlong forms, surrogates and what is beyond the last code point.\<close>

definition second_byte_ok :: "u8 \<Rightarrow> u8 \<Rightarrow> bool" where
  "second_byte_ok b c \<longleftrightarrow> is_continuation c \<and> (b = 224 \<longrightarrow> 160 \<le> c) \<and> (b = 237 \<longrightarrow> c < 160) \<and>
     (b = 240 \<longrightarrow> 144 \<le> c) \<and> (b = 244 \<longrightarrow> c < 144)"

text \<open>\<open>str::from_utf8\<close>; the characters of the string, or \<open>None\<close> for the error.\<close>

fun from_utf8 :: "bytes \<Rightarrow> bytes list option" where
  "from_utf8 [] = Some []"
| "from_utf8 (b # bs) =
     (if utf8_width b = 1 then map_option (Cons [b]) (from_utf8 bs)
      else if utf8_width b = 2 then
        (case bs of
           c # r \<Rightarrow> if second_byte_ok b c then map_option (Cons [b, c]) (from_utf8 r) else None
         | _ \<Rightarrow> None)
      else if utf8_width b = 3 then
        (case bs of
           c # d # r \<Rightarrow> if second_byte_ok b c \<and> is_continuation d
             then map_option (Cons [b, c, d]) (from_utf8 r) else None
         | _ \<Rightarrow> None)
      else if utf8_width b = 4 then
        (case bs of
           c # d # e # r \<Rightarrow> if second_byte_ok b c \<and> is_continuation d \<and> is_continuation e
             then map_option (Cons [b, c, d, e]) (from_utf8 r) else None
         | _ \<Rightarrow> None)
      else None)"

section \<open>Characters\<close>

text \<open>A character: a byte that is no continuation, and continuation bytes.\<close>

definition utf8_char :: "bytes \<Rightarrow> bool" where
  "utf8_char g \<longleftrightarrow> (\<exists>b cs. g = b # cs \<and> \<not> is_continuation b \<and> (\<forall>c \<in> set cs. is_continuation c))"

lemma utf8_width_starts: "utf8_width b \<noteq> 0 \<Longrightarrow> \<not> is_continuation b"
  by (auto simp: utf8_width_def is_continuation_def word_less_nat_alt word_le_nat_alt split: if_splits)

lemma second_byte_ok_continuation: "second_byte_ok b c \<Longrightarrow> is_continuation c"
  by (simp add: second_byte_ok_def)

lemma from_utf8_Cons:
  assumes "from_utf8 (b # bs) = Some gs"
  obtains g r gs' where "gs = g # gs'" "from_utf8 r = Some gs'" "g @ r = b # bs" "utf8_char g" "length r < length (b # bs)"
    "\<And>r. from_utf8 (g @ r) = map_option (Cons g) (from_utf8 r)"
proof -
  consider "utf8_width b = 1" | "utf8_width b = 2" | "utf8_width b = 3" | "utf8_width b = 4"
    using assms by (auto split: if_splits)
  then obtain cs r gs' where "gs = (b # cs) # gs'" "from_utf8 r = Some gs'" "bs = cs @ r" "\<forall>c \<in> set cs. is_continuation c"
    "utf8_width b \<noteq> 0" "\<And>r. from_utf8 (b # cs @ r) = map_option (Cons (b # cs)) (from_utf8 r)"
  proof cases
    case 1
    then show ?thesis using assms that [of "[]"] by auto
  next
    case 2
    then obtain c r where "bs = c # r" "second_byte_ok b c" using assms by (auto split: list.splits if_splits)
    then show ?thesis using 2 assms that [of "[c]"] by (auto dest: second_byte_ok_continuation)
  next
    case 3
    then obtain c d r where "bs = c # d # r" "second_byte_ok b c" "is_continuation d"
      using assms by (auto split: list.splits if_splits)
    then show ?thesis using 3 assms that [of "[c, d]"] by (auto dest: second_byte_ok_continuation)
  next
    case 4
    then obtain c d e r where "bs = c # d # e # r" "second_byte_ok b c" "is_continuation d" "is_continuation e"
      using assms by (auto split: list.splits if_splits)
    then show ?thesis using 4 assms that [of "[c, d, e]"] by (auto dest: second_byte_ok_continuation)
  qed
  then show ?thesis using that [of "b # cs"] utf8_width_starts by (auto simp: utf8_char_def)
qed

lemma from_utf8_Some: "from_utf8 bs = Some gs \<Longrightarrow> concat gs = bs \<and> (\<forall>g \<in> set gs. utf8_char g)"
proof (induction "length bs" arbitrary: bs gs rule: less_induct)
  case less
  show ?case
  proof (cases bs)
    case Nil
    then show ?thesis using less.prems by simp
  next
    case (Cons b bs')
    with less.prems have "from_utf8 (b # bs') = Some gs" by simp
    then show ?thesis
    proof (rule from_utf8_Cons)
      fix g r gs'
      assume "gs = g # gs'" "from_utf8 r = Some gs'" "g @ r = b # bs'" "utf8_char g" "length r < length (b # bs')"
      with less.hyps [of r gs'] Cons show ?thesis by auto
    qed
  qed
qed

section \<open>Boundaries\<close>

definition byte_boundary :: "bytes \<Rightarrow> nat \<Rightarrow> bool" where
  "byte_boundary bs i \<longleftrightarrow> i = 0 \<or> i = length bs \<or> (i < length bs \<and> \<not> is_continuation (bs ! i))"

lemma byte_boundary_chars:
  assumes "\<forall>g \<in> set gs. utf8_char g"
  shows "byte_boundary (concat gs) i \<longleftrightarrow> (\<exists>k \<le> length gs. i = length (concat (take k gs)))"
  using assms
proof (induction gs arbitrary: i)
  case (Cons g gs)
  then obtain b cs where g: "g = b # cs" "\<not> is_continuation b" "\<forall>c \<in> set cs. is_continuation c"
    by (auto simp: utf8_char_def)
  have ih: "byte_boundary (concat gs) j \<longleftrightarrow> (\<exists>k \<le> length gs. j = length (concat (take k gs)))" for j
    using Cons by simp
  have start: "concat gs \<noteq> [] \<Longrightarrow> \<not> is_continuation (concat gs ! 0)"
    using Cons.prems by (cases gs) (auto simp: utf8_char_def)
  have left: "byte_boundary (g @ concat gs) i \<longleftrightarrow> i = 0 \<or> (length g \<le> i \<and> byte_boundary (concat gs) (i - length g))"
  proof (cases "i < length g")
    case True
    then show ?thesis using g by (cases i) (auto simp: byte_boundary_def nth_append)
  next
    case False
    then show ?thesis using start g(1)
      by (auto simp: byte_boundary_def nth_append not_less)
  qed
  have "(\<exists>k \<le> length (g # gs). i = length (concat (take k (g # gs)))) \<longleftrightarrow>
      i = 0 \<or> (\<exists>k \<le> length gs. i = length g + length (concat (take k gs)))"
    by (metis (no_types, lifting) Suc_le_mono concat.simps length_Cons length_append list.size(3) not0_implies_Suc
        take_0 take_Suc_Cons zero_le)
  also have "... \<longleftrightarrow> i = 0 \<or> (length g \<le> i \<and> (\<exists>k \<le> length gs. i - length g = length (concat (take k gs))))"
    by (metis diff_add_inverse le_add1 le_add_diff_inverse)
  finally show ?case using left ih by simp
qed (simp add: byte_boundary_def)

lemma from_utf8_take: "from_utf8 (concat gs) = Some gs \<Longrightarrow> from_utf8 (concat (take k gs)) = Some (take k gs)"
proof (induction gs arbitrary: k)
  case (Cons g gs)
  have "utf8_char g" using from_utf8_Some [OF Cons.prems] by simp
  then obtain b cs where "g = b # cs" by (auto simp: utf8_char_def)
  with Cons.prems have "from_utf8 (b # (cs @ concat gs)) = Some (g # gs)" by simp
  then show ?case
  proof (rule from_utf8_Cons)
    fix h r gs'
    assume h: "g # gs = h # gs'" "from_utf8 r = Some gs'" "h @ r = b # cs @ concat gs"
      "\<And>r. from_utf8 (h @ r) = map_option (Cons h) (from_utf8 r)"
    have "h = b # cs" using h(1) \<open>g = b # cs\<close> by simp
    with h(3) have "r = concat gs" by simp
    with h Cons.IH show ?thesis by (cases k) auto
  qed
qed simp

lemma concat_take_mono: "j \<le> k \<Longrightarrow> length (concat (take j gs)) \<le> length (concat (take k gs))"
proof -
  assume "j \<le> k"
  then obtain d where "k = j + d" using le_Suc_ex by blast
  then show ?thesis by (simp add: take_add)
qed

end
