(* ===== verification/Its_Props.thy ===== *)
theory Its_Props
  imports "HOL-Library.While_Combinator" Its_Flow Its_Demo Utf8
begin

text \<open>The properties of the interchain token service, with witnesses on the run of \<open>Its_Demo\<close>.\<close>

section \<open>Who may do what\<close>

text \<open>
  C16. Access control. An instruction changes the table of roles only as the machine of roles
  allows for the users who signed it: a new resource starts with one user of its deployer's choice, who
  gets exactly the roles for its kind (on the service itself the signed operator only), an operator or
  minter hands its role over and loses it, a manager's operator names and dismisses flow limiters, and
  the current authority of the very mint of a mint/burn manager becomes its minter.
\<close>

theorem its_roles_authorised:
  assumes "its_laws env lib" and "its_reachable env lib st" and "its_ix_wf ix"
    and "its_entry env lib view ix st = Inr st'"
  shows "role_change (its_signers ix) (minted_by (its_tokens st)) (its_accounts st) (its_accounts st')
     (roles_at env (its_accounts st)) (roles_at env (its_accounts st'))"
proof -
  note inv = its_reachable_inv [OF assms(1,2)]
  have "its_ok env (its_accounts st)" using inv by (simp add: its_inv_def)
  from acct_change_refines [OF its_lawsD(1,2) [OF assms(1)] this its_entry_refines [OF its_inv_pre [OF assms(1) inv] assms(3,4)]]
  show ?thesis by simp
qed

theorem its_roles_authorised_witness:
  "role_change (its_signers (ItsInitializeIx demo_its_init ''solana'' ''hub'')) (minted_by (its_tokens demo_its0)) (its_accounts demo_its0) (its_accounts demo_its1)
     (roles_at demo_env (its_accounts demo_its0)) (roles_at demo_env (its_accounts demo_its1))"
proof (rule its_roles_authorised [OF demo_laws demo_its_reachable(1)])
  show "its_ix_wf (ItsInitializeIx demo_its_init ''solana'' ''hub'')"
    by (simp add: its_ix_wf_def its_users_def demo_its_init_def acc_defs)
  show "its_entry demo_env demo_ilib demo_iview (ItsInitializeIx demo_its_init ''solana'' ''hub'') demo_its0 = Inr demo_its1"
    by (simp add: its_entry_def demo_its_init_ok)
qed

text \<open>
  C26. In every reachable state the service has exactly one operator, who holds no other role on it,
  and nobody else holds any; every token manager has at most one operator; and a manager of native
  or locked tokens has at most one minter.
\<close>

theorem its_single_operator:
  assumes "its_laws env lib" and "its_reachable env lib st"
  shows "(\<forall>r s. its_accounts st r = Some (ItsRootAcc s) \<longrightarrow> (\<exists>w0. length w0 = 32 \<and>
       (\<forall>w. length w = 32 \<longrightarrow> roles_at env (its_accounts st) r w = (if w = w0 then OPERATOR else 0)))) \<and>
     (\<forall>r t w w'. its_accounts st r = Some (TokenManagerAcc t) \<longrightarrow> length w = 32 \<longrightarrow> length w' = 32 \<longrightarrow>
       (has_role (roles_at env (its_accounts st) r w) OPERATOR \<longrightarrow>
         has_role (roles_at env (its_accounts st) r w') OPERATOR \<longrightarrow> w = w') \<and>
       (ty t \<notin> {MintBurn, MintBurnFrom} \<longrightarrow> has_role (roles_at env (its_accounts st) r w) MINTER \<longrightarrow>
         has_role (roles_at env (its_accounts st) r w') MINTER \<longrightarrow> w = w'))"
  using its_reachable_inv [OF assms] unfolding its_inv_def roles_inv_def root_table_def at_most_one_def by blast

theorem its_single_operator_witness:
  "\<exists>w0. length w0 = 32 \<and>
     (\<forall>w. length w = 32 \<longrightarrow> roles_at demo_env (its_accounts demo_its3) demo_its_key w = (if w = w0 then OPERATOR else 0))"
  using its_single_operator [OF demo_laws demo_its_reachable(2)] demo_its3_accounts(1) by blast

text \<open>
  C17. Settings. An instruction leaves a service's account as it is, or flips the pause, signed by the
  upgrade authority of the program, or adds one new chain that is not the hub's to the trusted ones or
  takes one out, signed by the operator of the service or the upgrade authority. A new account
  appears unpaused and trusting no chain, created by the upgrade authority.
\<close>

theorem its_settings_authorised:
  assumes "its_laws env lib" and "its_reachable env lib st" and "its_ix_wf ix"
    and "its_entry env lib view ix st = Inr st'" and "its_accounts st' k = Some (ItsRootAcc s')"
  shows "(its_accounts st k = None \<and> \<not> paused s' \<and> trusted_chains s' = [] \<and>
       (\<exists>a c h. ix = ItsInitializeIx a c h \<and> ai_signer (ii_payer a) \<and> upgrade_authority env view (ai_key (ii_payer a)))) \<or>
     (\<exists>s. its_accounts st k = Some (ItsRootAcc s) \<and> (s' = s \<or> (\<exists>w \<in> its_signers ix.
       s' = s\<lparr>paused := \<not> paused s\<rparr> \<and> upgrade_authority env view w \<or>
       (has_role (roles_at env (its_accounts st) k w) OPERATOR \<or> upgrade_authority env view w) \<and>
       (\<exists>c. c \<notin> set (trusted_chains s) \<and> c \<noteq> ITS_HUB_CHAIN_NAME \<and> s' = s\<lparr>trusted_chains := trusted_chains s @ [c]\<rparr> \<or>
         c \<in> set (trusted_chains s) \<and> s' = s\<lparr>trusted_chains := remove1 c (trusted_chains s)\<rparr>))))"
proof -
  note pre = its_inv_pre [OF assms(1) its_reachable_inv [OF assms(1,2)]]
  have distinct: "distinct (trusted_chains s)" if "its_accounts st k = Some (ItsRootAcc s)" for s
    using its_okD [OF its_preD(3) [OF pre] that] by (simp add: root_ok_def)
  consider "its_accounts st k = Some (ItsRootAcc s')"
    | "its_accounts st k = None" "root_edit env view (its_accounts st) ix k None s'"
    | s where "its_accounts st k = Some (ItsRootAcc s)" "root_edit env view (its_accounts st) ix k (Some s) s'"
    using acct_change_root [OF its_entry_refines [OF pre assms(3,4)] assms(5)] by (elim disjE exE conjE)
  then show ?thesis
  proof cases
    case 2
    then show ?thesis by (cases ix) (auto simp: root_edit_def its_new_def)
  next
    case (3 s)
    have removed: "remove_trusted_chain c s = s\<lparr>trusted_chains := remove1 c (trusted_chains s)\<rparr>" for c
      using distinct [OF 3(1)] by (simp add: remove_trusted_chain_def distinct_remove1_removeAll removeAll_filter_not_eq neq_commute)
    show ?thesis
      using 3 by (cases ix) (auto simp: root_edit_def its_signers_def its_users_def root_admin_def is_trusted_chain_iff
          removed add_trusted_chain_def split: if_splits)
  qed blast
qed

theorem its_settings_authorised_witness:
  "\<exists>w \<in> its_signers (SetTrustedChainIx demo_stc ''eth'').
     has_role (roles_at demo_env (its_accounts demo_its1) demo_its_key w) OPERATOR \<or> upgrade_authority demo_env demo_iview w"
proof -
  have wf: "its_ix_wf (SetTrustedChainIx demo_stc ''eth'')"
    by (simp add: its_ix_wf_def its_users_def demo_stc_def acc_defs)
  have ok: "its_entry demo_env demo_ilib demo_iview (SetTrustedChainIx demo_stc ''eth'') demo_its1 = Inr demo_its2"
    by (simp add: its_entry_def demo_stc_ok)
  have acct: "its_accounts demo_its2 demo_its_key = Some (ItsRootAcc (demo_root [''eth'']))"
    "its_accounts demo_its1 demo_its_key = Some (ItsRootAcc (demo_root []))"
    by (simp_all add: demo_its2_def demo_its1_def)
  have "demo_root [''eth''] \<noteq> demo_root []" by (simp add: demo_root_def)
  with its_settings_authorised [OF demo_laws demo_its_reachable(7) wf ok acct(1)] acct(2) show ?thesis by auto
qed

text \<open>
  The flow limit of a token manager changes only by an instruction that a flow limiter of the
  manager or the operator of the service signed.
\<close>

theorem its_limit_change_authorised:
  assumes "its_laws env lib" and "its_reachable env lib st" and "its_ix_wf ix"
    and "its_entry env lib view ix st = Inr st'"
    and "its_accounts st k = Some (TokenManagerAcc t)" and "its_accounts st' k = Some (TokenManagerAcc t')"
    and "flow_limit (flow_slot t') \<noteq> flow_limit (flow_slot t)"
  shows "\<exists>w \<in> its_signers ix. has_role (roles_at env (its_accounts st) k w) FLOW_LIMITER \<or>
     (\<exists>rk s. its_accounts st rk = Some (ItsRootAcc s) \<and> has_role (roles_at env (its_accounts st) rk w) OPERATOR)"
  by (rule acct_change_limit [OF its_entry_refines [OF its_inv_pre [OF assms(1) its_reachable_inv [OF assms(1,2)]] assms(3,4)]
      assms(5-7)])

theorem its_limit_change_authorised_witness:
  "\<exists>w \<in> its_signers (SetTokenManagerFlowLimitIx demo_stf (Some 100)).
     has_role (roles_at demo_env (its_accounts demo_its3) demo_tm_key w) FLOW_LIMITER \<or>
     (\<exists>rk s. its_accounts demo_its3 rk = Some (ItsRootAcc s) \<and> has_role (roles_at demo_env (its_accounts demo_its3) rk w) OPERATOR)"
proof (rule its_limit_change_authorised [OF demo_laws demo_its_reachable(2) _ _ demo_its3_accounts(3) demo_its4_accounts(3)])
  show "its_ix_wf (SetTokenManagerFlowLimitIx demo_stf (Some 100))"
    by (simp add: its_ix_wf_def its_users_def demo_stf_def acc_defs)
  show "its_entry demo_env demo_ilib demo_iview (SetTokenManagerFlowLimitIx demo_stf (Some 100)) demo_its3 = Inr demo_its4"
    by (simp add: its_entry_def demo_stf_ok)
qed (simp add: demo_slot_def)

text \<open>
  What a service and a token manager are never changes: along any run they stay at their
  address with their hub, type, token and token id, and a token id has one manager.
\<close>

theorem its_identities_permanent:
  assumes "its_laws env lib" and "its_reachable env lib st" and "runs (its_step env lib) st st'"
  shows "(\<forall>k s. its_accounts st k = Some (ItsRootAcc s) \<longrightarrow> (\<exists>s'. its_accounts st' k = Some (ItsRootAcc s') \<and>
       its_hub_address s' = its_hub_address s \<and> chain_name s' = chain_name s)) \<and>
     (\<forall>k t. its_accounts st k = Some (TokenManagerAcc t) \<longrightarrow> (\<exists>t'. its_accounts st' k = Some (TokenManagerAcc t') \<and>
       ty t' = ty t \<and> tm_token_id t' = tm_token_id t \<and> token_address t' = token_address t)) \<and>
     (\<forall>k k' t t'. its_accounts st' k = Some (TokenManagerAcc t) \<longrightarrow> its_accounts st' k' = Some (TokenManagerAcc t') \<longrightarrow>
       tm_token_id t = tm_token_id t' \<longrightarrow> k = k')"
proof -
  note r = its_runs_le [OF assms(1) its_reachable_inv [OF assms(1,2)] assms(3)]
  have ok: "its_ok env (its_accounts st')" using r(2) by (simp add: its_inv_def)
  have "k = k'" if "its_accounts st' k = Some (TokenManagerAcc t)" "its_accounts st' k' = Some (TokenManagerAcc t')"
    "tm_token_id t = tm_token_id t'" for k k' t t'
    using its_okD [OF ok that(1)] its_okD [OF ok that(2)] that(3)
    by (auto simp: manager_addr_def dest: root_addr_unique)
  then show ?thesis
    using r(1) unfolding its_le_def acct_le_def root_same_def manager_same_def by blast
qed

theorem its_identities_permanent_witness:
  "\<exists>t'. its_accounts demo_its5 demo_tm_key = Some (TokenManagerAcc t') \<and> ty t' = LockUnlock \<and> tm_token_id t' = demo_tid \<and>
     token_address t' = [30]"
proof -
  have "runs (its_step demo_env demo_ilib) demo_its3 demo_its5"
    using runs_one [where step = "its_step demo_env demo_ilib", OF demo_its_steps(4)] demo_its_steps(5) by (rule runs_step)
  from its_identities_permanent [OF demo_laws demo_its_reachable(2) this] demo_its3_accounts(3) show ?thesis by fastforce
qed

text \<open>
  C27. Every account of a reachable state is well-formed: it sits at the address its own fields
  derive, with its canonical bump; the trusted chains of the service are distinct and never the hub;
  a token manager belongs to the service, and roles belong to the service or a token manager.
\<close>

theorem its_accounts_well_formed:
  assumes "its_laws env lib" and "its_reachable env lib st"
  shows "(\<forall>k s. its_accounts st k = Some (ItsRootAcc s) \<longrightarrow>
       try_find_program_address env its_root_seeds (its_id env) = Some (k, its_bump s) \<and>
       distinct (trusted_chains s) \<and> ITS_HUB_CHAIN_NAME \<notin> set (trusted_chains s)) \<and>
     (\<forall>k t. its_accounts st k = Some (TokenManagerAcc t) \<longrightarrow>
       (\<exists>root s. its_accounts st root = Some (ItsRootAcc s) \<and>
          try_find_program_address env (token_manager_seeds (tm_token_id t) root) (its_id env) = Some (k, tm_bump t))) \<and>
     (\<forall>k u. its_accounts st k = Some (UserRolesAcc u) \<longrightarrow>
       (\<exists>r w. is_resource (its_accounts st) r \<and>
          try_find_program_address env (user_roles_seeds r w) (its_id env) = Some (k, ur_bump u)))"
proof -
  have ok: "its_ok env (its_accounts st)" using its_reachable_inv [OF assms] by (simp add: its_inv_def)
  have "\<exists>root s. its_accounts st root = Some (ItsRootAcc s) \<and>
      try_find_program_address env (token_manager_seeds (tm_token_id t) root) (its_id env) = Some (k, tm_bump t)"
    if t: "its_accounts st k = Some (TokenManagerAcc t)" for k t
  proof -
    from its_okD [OF ok t] obtain root rb root' s where m: "root_addr env root rb"
      "try_find_program_address env (token_manager_seeds (tm_token_id t) root) (its_id env) = Some (k, tm_bump t)"
      and s: "its_accounts st root' = Some (ItsRootAcc s)" by (auto simp: manager_addr_def)
    have "root' = root" using its_okD [OF ok s] m(1) by (auto simp: root_addr_def)
    with m s show ?thesis by blast
  qed
  then show ?thesis
    using its_okD [OF ok] by (fastforce simp: root_addr_def root_ok_def roles_addr_def)
qed

theorem its_accounts_well_formed_witness:
  "\<exists>r w. is_resource (its_accounts demo_its3) r \<and>
     try_find_program_address demo_env (user_roles_seeds r w) (its_id demo_env) = Some (demo_roles_key demo_tm_key demo_heir, 255)"
  using its_accounts_well_formed [OF demo_laws demo_its_reachable(2)] demo_its3_accounts(4) by fastforce

section \<open>Flow limits\<close>

text \<open>
  C31. The flow slot is an exact limiter: after any log of accepted transfers with a monotone clock,
  the next transfer is accepted if and only if its amount is at most the limit, the total of its
  direction in the clock's epoch fits a \<open>u64\<close>, and the net flow of that epoch stays within the limit.
\<close>

theorem flow_limiter_exact:
  assumes "track_all xs (flow_new (Some limit) 0) = Inr s" and "clock_sorted (xs @ [(view, n, d)])"
  shows "(\<exists>s'. track_token_flow view n d s = Inr s') \<longleftrightarrow> flow_allowed (unat limit) xs view n d"
proof -
  have "clock_sorted xs" using assms(2) by (simp add: sorted_append)
  with track_all_slot [OF assms(1)] track_slot(1) [OF _ _ assms(2)] show ?thesis by blast
qed

definition demo_clock :: "i64 \<Rightarrow> ledger_view" where
  "demo_clock t = \<lparr>unix_timestamp = t, program_data_authority = (\<lambda>_. None)\<rparr>"

definition demo_log :: flow_log where
  "demo_log = [(demo_clock 0, 60, Out), (demo_clock 10, 30, In), (demo_clock 21600, 100, Out)]"

lemma demo_epochs [simp]: "epoch_of (demo_clock 0) = 0" "epoch_of (demo_clock 10) = 0" "epoch_of (demo_clock 21600) = 1"
  "epoch_of (demo_clock 21601) = 1"
  by (simp_all add: epoch_of_def demo_clock_def)

lemma demo_log_ok:
  "track_all demo_log (flow_new (Some 100) 0) = Inr \<lparr>flow_limit = Some 100, flow_in = 0, flow_out = 100, flow_epoch = 1\<rparr>"
  by (simp add: demo_log_def track_token_flow_def current_flow_epoch_def flow_epoch_with_timestamp_def u64_of_i64_def
      demo_clock_def checked_div_def EPOCH_TIME_def flow_new_def add_flow_def update_flow_def checked_add_def abs_diff_def
      require_def)

theorem flow_limiter_exact_witness:
  "(\<exists>s'. track_token_flow (demo_clock 21601) 1 In \<lparr>flow_limit = Some 100, flow_in = 0, flow_out = 100, flow_epoch = 1\<rparr> = Inr s')
     \<longleftrightarrow> flow_allowed 100 demo_log (demo_clock 21601) 1 In"
  using flow_limiter_exact [OF demo_log_ok, of "demo_clock 21601" 1 In] by (simp add: demo_log_def)

text \<open>
  C9. The limit bounds the net flow: whatever transfers a manager accepted under a limit, in every
  epoch of six hours the amounts in and out differ by at most the limit.
\<close>

theorem flow_net_bounded:
  assumes "track_all xs (flow_new (Some limit) 0) = Inr s" and "clock_sorted xs"
  shows "\<bar>int (flow_sum e In xs) - int (flow_sum e Out xs)\<bar> \<le> int (unat limit)"
  using assms
proof (induction xs arbitrary: s rule: rev_induct)
  case Nil
  then show ?case by (simp add: flow_sum_def)
next
  case (snoc x xs)
  obtain view n d where x: "x = (view, n, d)" by (cases x)
  from snoc.prems obtain s1 where s1: "track_all xs (flow_new (Some limit) 0) = Inr s1" "track_token_flow view n d s1 = Inr s"
    by (auto simp: x track_all_snoc res_bind_Inr)
  have sorted: "clock_sorted xs" using snoc.prems(2) by (simp add: sorted_append)
  have "flow_allowed (unat limit) xs view n d"
    using track_slot(1) [of limit xs s1 view n d] track_all_slot [OF s1(1) sorted] snoc.prems(2) s1(2) x by auto
  with snoc.IH [OF s1(1) sorted] show ?case
    by (cases d) (auto simp: x flow_sum_snoc flow_allowed_def Let_def)
qed

theorem flow_net_bounded_witness:
  "\<bar>int (flow_sum 0 In demo_log) - int (flow_sum 0 Out demo_log)\<bar> \<le> int (unat (100 :: u64))"
  by (rule flow_net_bounded [OF demo_log_ok]) (simp add: demo_log_def)

section \<open>Messages of the hub\<close>

text \<open>
  C5. The service executes only what the hub sent: the message was approved by Axelar, is addressed
  to the service, comes from the configured hub address and carries the hash of the payload; the
  payload is a message the hub forwards from a trusted chain; and the service is not paused.
\<close>

theorem its_execute_authentic:
  assumes "its_laws env lib" and "inj (message_hash env)" and "pda_program_inj env" and "its_reachable env lib st"
    and ok: "its_execute env lib view a remaining m payload st = Inr st'"
  shows "approved_event env m \<in> set (gw_events (its_gateway st)) \<and>
    pubkey_from_str env (destination_address m) = Some (its_id env) \<and> keccak env payload = payload_hash m \<and>
    (\<exists>s src inner. its_accounts st (ai_key (ie_its_root_pda a)) = Some (ItsRootAcc s) \<and> \<not> paused s \<and>
       source_address m = its_hub_address s \<and> hub_try_from_slice lib payload = Some (ReceiveFromHub src inner) \<and>
       src \<in> set (trusted_chains s))"
  using ok
proof (rule its_execute_Inr)
  fix s src inner gw
  assume s: "load_active_root env st (ie_its_root_pda a) = Inr s" "source_address m = its_hub_address s"
      "hub_try_from_slice lib payload = Some (ReceiveFromHub src inner)" "is_trusted_chain s src"
    and v: "validate_message_raw env (its_id env) (ie_executable a) m payload (its_gateway st) = Inr gw"
  have accounts: "check_execute_accounts env (its_id env) (ie_executable a) m (its_gateway st) = Inr ()"
    using ok unfolding its_execute_def check_its_execute_def by (auto simp: res_bind_Inr)
  have gw: "gateway_reachable env (its_gateway st)"
    using its_reachable_inv [OF assms(1,4)] by (simp add: its_inv_def)
  have "approved_event env m \<in> set (gw_events (its_gateway st))"
    using raw.handled_approved [where args = "(its_id env, ie_executable a, payload)", OF its_lawsD(1,2) [OF assms(1)] gw _ assms(2)] v
    by simp
  moreover have "keccak env payload = payload_hash m" using v by (auto elim: validate_message_rawE)
  moreover have "pubkey_from_str env (destination_address m) = Some (its_id env)"
    using validate_message_raw_destination [OF accounts v assms(3)] by simp
  ultimately show ?thesis using s by (auto simp: is_trusted_chain_iff res_inv)
qed

lemma demo_execute_wf: "its_ix_wf (ItsExecuteIx demo_ie demo_ie_remaining demo_imsg [90])"
  by (simp add: its_ix_wf_def its_users_def demo_ie_remaining_def acc_keys demo_ata_def)

theorem its_execute_authentic_witness:
  "approved_event demo_env demo_imsg \<in> set (gw_events (its_gateway demo_its5)) \<and>
   pubkey_from_str demo_env (destination_address demo_imsg) = Some [3]"
  using its_execute_authentic [OF demo_laws demo_hash_inj _ demo_its_reachable(4) demo_execute_its_ok]
  by (simp add: pda_program_inj_def)

text \<open>
  A message is executed once: after the service executed it, no later execution of the same
  message succeeds, with any accounts and payload, whatever happens in between.
\<close>

theorem its_execute_once:
  assumes "its_laws env lib" and "its_reachable env lib st" and "its_ix_wf (ItsExecuteIx a remaining m payload)"
    and ok: "its_execute env lib view a remaining m payload st = Inr st1" and "runs (its_step env lib) st1 st2"
  shows "\<exists>e. its_execute env lib view' a' remaining' m payload' st2 = Inl e"
proof (cases "its_execute env lib view' a' remaining' m payload' st2")
  case (Inr st3)
  note law = its_lawsD [OF assms(1)] and inv = its_reachable_inv [OF assms(1,2)]
  have entry: "its_entry env lib view (ItsExecuteIx a remaining m payload) st = Inr st1" using ok by (simp add: its_entry_def)
  have "its_inv env st1"
    using its_entry_refines [OF its_inv_pre [OF assms(1) inv] assms(3) entry] its_entry_gateway [OF law(3) entry] inv
      acct_change_refines [OF law(1,2)] roles_inv_step [OF law(1,2)] unfolding its_inv_def by (blast intro: runs_trans)
  then have "gateway_runs env st1 st2" using its_runs_le(1) [OF assms(1) _ assms(5)] by (simp add: its_le_def)
  moreover obtain gw where gw: "validate_message_raw env (its_id env) (ie_executable a) m payload (its_gateway st) = Inr gw"
    "runs (gateway_step env) gw (its_gateway st1)" using its_execute_gateway [OF law(3) ok] by blast
  moreover obtain gw3 where "validate_message_raw env (its_id env) (ie_executable a') m payload' (its_gateway st2) = Inr gw3"
    using its_execute_gateway [OF law(3) Inr] by blast
  moreover have "gateway_reachable env (its_gateway st)" using inv by (simp add: its_inv_def)
  ultimately have False
    using raw.handled_once [where args = "(its_id env, ie_executable a, payload)" and
        args' = "(its_id env, ie_executable a', payload')", OF law(1,2), of "its_gateway st" m gw "its_gateway st2" gw3]
    by (auto intro: runs_trans)
  then show ?thesis ..
qed simp

theorem its_execute_once_witness:
  "\<exists>e. its_execute demo_env demo_ilib demo_iview demo_ie demo_ie_remaining demo_imsg [90] demo_its6 = Inl e"
  by (rule its_execute_once [OF demo_laws demo_its_reachable(4) demo_execute_wf demo_execute_its_ok runs_refl])

section \<open>Transfers\<close>

text \<open>What the manager's type makes of the tokens on the way out, and how much the message carries.\<close>

definition tokens_taken ::
    "its_lib \<Rightarrow> its_view \<Rightarrow> InterchainTransfer \<Rightarrow> Type \<Rightarrow> mint \<Rightarrow> u64 \<Rightarrow> u64 \<Rightarrow> token_ledger \<Rightarrow> token_ledger \<Rightarrow> bool" where
  "tokens_taken lib view a k m n n' T T' \<longleftrightarrow>
     (let mk = ai_key (xt_token_mint a); program = ai_key (xt_token_program a);
          source = ai_key (xt_authority_token_account a); ata = ai_key (xt_token_manager_ata a) in
      case k of
        LockUnlock \<Rightarrow> n' = n \<and> spl_transfer_checked lib program source mk ata (xt_authority a) n (mi_decimals m) T = Some T'
      | LockUnlockFee \<Rightarrow> (\<exists>cfg fee. mi_fee_config m = Some cfg \<and> calculate_epoch_fee lib cfg (clock_epoch view) n = Some fee \<and>
          unat n = unat n' + unat fee \<and>
          spl_transfer_checked_with_fee lib program source mk ata (xt_authority a) n (mi_decimals m) fee T = Some T')
      | _ \<Rightarrow> n' = n \<and> mi_authority m = Some (ai_key (xt_token_manager_pda a)) \<and>
          spl_burn lib program mk source (xt_authority a) n T = Some T')"

lemma take_token_taken:
  assumes "take_token env lib view a t m n T = Inr (n', t', T')"
  shows "tokens_taken lib view a (ty t) m n n' T T'"
proof -
  from assms have v: "validate_token_manager_type (ty t) m (ai_key (xt_token_manager_pda a)) = Inr ()"
    unfolding take_token_def Let_def by (auto simp: res_bind_Inr)
  have sub: "checked_sub n fee = Some n' \<Longrightarrow> unat n = unat n' + unat fee" for fee
    by (simp add: checked_sub_Some)
  show ?thesis
    using assms v sub unfolding take_token_def Let_def tokens_taken_def validate_token_manager_type_def
    by (cases "ty t")
      (auto simp: res_bind_Inr spl_Inr ok_or_Inr get_fee_and_decimals_def get_mint_decimals_def split: option.splits if_splits)
qed

lemma send_to_hub_wrap_events:
  assumes "send_to_hub_wrap env lib g hub message dc n st = Inr st'"
  shows "\<exists>bs. hub_to_vec lib (SendToHub dc message) = Some bs \<and> gw_events (its_gateway st') = gw_events (its_gateway st) @
     [CallContractEvent (its_id env) (keccak env bs) ''axelar'' hub bs]"
  using assms unfolding send_to_hub_wrap_def send_to_hub_def
  by (auto simp: res_bind_Inr ok_or_Inr call_contract_def ITS_HUB_CHAIN_NAME_def acc_def)

text \<open>
  C10. A transfer out is what it says. It needs an active service, a trusted destination, a non-zero
  amount and the signature of the tokens' owner; the tokens leave the owner as the manager's type
  says, the flow of the manager grows by what the message carries, and the hub is sent exactly one
  message: this token id, sender, destination and data, with the amount less the transfer fee.
\<close>

theorem interchain_transfer_exact:
  assumes "its_laws env lib" and "its_reachable env lib st"
    and ok: "interchain_transfer env lib view a token_id dest_chain dest_address n gas caller seeds data st = Inr st'"
  shows "\<exists>s t m n' f source bs. its_accounts st (ai_key (xt_its_root_pda a)) = Some (ItsRootAcc s) \<and> \<not> paused s \<and>
    dest_chain \<in> set (trusted_chains s) \<and> n \<noteq> 0 \<and> dest_address \<noteq> [] \<and> ai_signer (xt_authority a) \<and>
    its_accounts st (ai_key (xt_token_manager_pda a)) = Some (TokenManagerAcc t) \<and> tm_token_id t = token_id \<and>
    token_address t = ai_key (xt_token_mint a) \<and>
    transfer_source_address env view (ai_key (xt_authority a)) caller seeds = Inr source \<and>
    tl_mints (its_tokens st) (ai_key (xt_token_mint a)) = Some m \<and>
    tokens_taken lib view a (ty t) m n n' (its_tokens st) (its_tokens st') \<and>
    track_token_flow (iv_ledger view) n' Out (flow_slot t) = Inr f \<and>
    its_accounts st' = (its_accounts st)(ai_key (xt_token_manager_pda a) \<mapsto> TokenManagerAcc (t\<lparr>flow_slot := f\<rparr>)) \<and>
    its_events st' = its_events st @ [InterchainTransferSent token_id source (ai_key (xt_authority_token_account a)) dest_chain
      dest_address n' (data_hash_of env data)] \<and>
    hub_to_vec lib (SendToHub dest_chain (InterchainTransferM \<lparr>it_token_id = token_id, it_source_address = source,
      it_destination_address = dest_address, it_amount = n', it_data = data\<rparr>)) = Some bs \<and>
    gw_events (its_gateway st') = gw_events (its_gateway st) @
      [CallContractEvent (its_id env) (keccak env bs) ''axelar'' (its_hub_address s) bs]"
  using ok
proof (rule interchain_transferE)
  fix s t m source n' f T'
  let ?m = "InterchainTransferM \<lparr>it_token_id = token_id, it_source_address = source,
      it_destination_address = dest_address, it_amount = n', it_data = data\<rparr>"
  let ?st = "emit_its (InterchainTransferSent token_id source (ai_key (xt_authority_token_account a)) dest_chain dest_address n'
      (data_hash_of env data)) (put_its (ai_key (xt_token_manager_pda a)) (TokenManagerAcc (t\<lparr>flow_slot := f\<rparr>))
      (st\<lparr>its_tokens := T'\<rparr>))"
  assume c: "check_interchain_transfer env lib a token_id dest_chain st = Inr (s, t, m)"
    and n: "n \<noteq> 0" "dest_address \<noteq> []" "transfer_source_address env view (ai_key (xt_authority a)) caller seeds = Inr source"
    and tk: "take_token env lib view a t m n (its_tokens st) = Inr (n', t\<lparr>flow_slot := f\<rparr>, T')"
    and f: "track_token_flow (iv_ledger view) n' Out (flow_slot t) = Inr f"
    and snd: "send_to_hub_wrap env lib (xt_gmp a) (its_hub_address s) ?m dest_chain gas ?st = Inr st'"
  note k = check_interchain_transfer_Inr [OF c]
  have root: "load_its_root env st (xt_its_root_pda a) = Inr s" "\<not> paused s" using k(1) by (auto simp: load_active_root_Inr)
  have ok: "its_ok env (its_accounts st)" using its_reachable_inv [OF assms(1,2)] by (simp add: its_inv_def)
  note mgr = manager_loaded [OF its_lawsD(1,2) [OF assms(1)] ok root(1) k(3)]
  have m: "tl_mints (its_tokens st) (ai_key (xt_token_mint a)) = Some m"
    using k(6) by (auto simp: load_mint_of_def load_mint_def res_inv)
  from send_to_hub_wrap_events [OF snd] obtain bs where bs: "hub_to_vec lib (SendToHub dest_chain ?m) = Some bs"
    "gw_events (its_gateway st') = gw_events (its_gateway st) @
      [CallContractEvent (its_id env) (keccak env bs) ''axelar'' (its_hub_address s) bs]" by auto
  show ?thesis
    using root k(2,4,5) n mgr m take_token_taken [OF tk] f bs send_to_hub_wrap_frame [OF snd]
    by (intro exI [of _ s] exI [of _ t] exI [of _ m] exI [of _ n'] exI [of _ f] exI [of _ source] exI [of _ bs])
      (auto simp: is_trusted_chain_iff load_its_root_Inr)
qed

theorem interchain_transfer_exact_witness:
  "\<exists>bs. gw_events (its_gateway demo_its5) = gw_events (its_gateway demo_its4) @
     [CallContractEvent [3] (keccak demo_env bs) ''axelar'' ''hub'' bs]"
  using interchain_transfer_exact [OF demo_laws demo_its_reachable(3) demo_xt_ok] demo_its4_accounts(1)
  by (auto simp: demo_xt_def acc_defs)

text \<open>What the manager's type makes of the tokens on the way in; the manager signs.\<close>

definition tokens_given ::
    "its_lib \<Rightarrow> its_view \<Rightarrow> pubkey \<Rightarrow> pubkey \<Rightarrow> pubkey \<Rightarrow> pubkey \<Rightarrow> account_info \<Rightarrow> Type \<Rightarrow> mint \<Rightarrow> u64 \<Rightarrow> u64 \<Rightarrow>
     token_ledger \<Rightarrow> token_ledger \<Rightarrow> bool" where
  "tokens_given lib view program mk vault ata signer k m n n' T T' \<longleftrightarrow>
     (case k of
        LockUnlock \<Rightarrow> n' = n \<and> spl_transfer_checked lib program vault mk ata signer n (mi_decimals m) T = Some T'
      | LockUnlockFee \<Rightarrow> (\<exists>cfg fee. mi_fee_config m = Some cfg \<and> calculate_epoch_fee lib cfg (clock_epoch view) n = Some fee \<and>
          unat n = unat n' + unat fee \<and>
          spl_transfer_checked_with_fee lib program vault mk ata signer n (mi_decimals m) fee T = Some T')
      | _ \<Rightarrow> n' = n \<and> spl_mint_to lib program mk ata signer n T = Some T')"

lemma give_token_given:
  assumes "give_token env lib view a t m n T = Inr (n', t', T')"
  shows "tokens_given lib view (ai_key (ex_token_program a)) (ai_key (ex_token_mint a)) (ai_key (ex_token_manager_ata a))
    (ai_key (ex_destination_ata a)) (manager_signer env (ai_key (ex_its_root_pda a)) (tm_token_id t) (tm_bump t)
      (ai_key (ex_token_manager_pda a))) (ty t) m n n' T T'"
proof -
  have "checked_sub n fee = Some n' \<Longrightarrow> unat n = unat n' + unat fee" for fee
    by (simp add: checked_sub_Some)
  then show ?thesis
    using assms unfolding give_token_def Let_def tokens_given_def
    by (cases "ty t") (auto simp: res_bind_Inr spl_Inr ok_or_Inr get_fee_and_decimals_def get_mint_decimals_def)
qed

lemma init_ata_if_needed_Inr:
  "init_ata_if_needed lib w m program a T = Inr T1 \<Longrightarrow> ai_key a = ata_address lib w m program \<and>
     (T1 = T \<or> spl_create_ata lib w m program T = Some T1)"
  by (auto simp: init_ata_if_needed_def load_ata_def res_inv split: if_splits)

lemma check_execute_transfer_executor:
  assumes "check_execute_transfer env lib a da tid st = Inr (t, m, T1, b)" and "ex_interchain_transfer_execute a = Some e"
  shows "\<exists>eb. try_find_program_address env (interchain_transfer_execute_seeds da) (its_id env) = Some (ai_key e, eb)"
  using assms unfolding check_execute_transfer_def Let_def
  by (auto simp: res_bind_Inr require_Inr check_seeds_canonical_Inr)

lemma invoke_destination_called:
  assumes "invoke_destination_program env lib a remaining b message sc sa tid n data st = Inr st'"
  obtains p e where "payload_decode (il_payload lib) data = Inr p" and "ex_interchain_transfer_execute a = Some e"
    and "destination_call lib (ai_key (ex_destination a))
      ([acc (ai_key (ex_token_program a)), acc_mut (ai_key (ex_token_mint a)), acc (ai_key (ex_destination_token_authority a)),
        acc_mut (ai_key (ex_destination_ata a)), acc_signer (ai_key e)] @ account_meta p)
      (ITS_EXECUTE_IX_DISC, \<lparr>ep_command_id = command_id env message, ep_source_chain = sc, ep_source_address = sa,
        ep_token_id = tid, ep_token_mint = ai_key (ex_token_mint a), ep_amount = n, ep_data = payload_without_accounts p\<rparr>)
      (its_tokens st, its_gateway st, its_gas st) = Some (its_tokens st', its_gateway st', its_gas st')"
  using assms that unfolding invoke_destination_program_def Let_def execute_with_token_metas_def
  by (auto simp: res_bind_Inr ok_or_Inr spl_Inr)

text \<open>
  C11. A transfer in delivers what the hub's message says. The tokens of the manager of the message's
  token id - the full amount, tracked against the flow limit - go to the associated account of the
  destination, or of the token authority of a destination program; what arrives, less the transfer
  fee, is what the event tells. The ledger the transfer leaves is the final one when the message carries
  no data; when it does, exactly that ledger is handed, with the gateway that has executed the message, to
  one call of the destination program for this amount, and what the call leaves is final.
\<close>

theorem its_execute_transfer_exact:
  assumes "its_laws env lib" and "its_reachable env lib st"
    and "hub_try_from_slice lib payload = Some (ReceiveFromHub src (InterchainTransferM tr))"
    and ok: "its_execute env lib view a remaining msg payload st = Inr st'"
  shows "\<exists>t m n' f authority gw T1 T2.
    (let tk = ai_key (ie_token_manager_pda a); mk = ai_key (ie_token_mint a); program = ai_key (ie_token_program a);
         destination = it_destination_address tr; ata = ata_address lib authority mk program;
         data = (case it_data tr of None \<Rightarrow> [] | Some d \<Rightarrow> d) in
     take 3 (map ai_key remaining) = [destination, authority, ata] \<and>
     check_destination_authority env lib view destination authority = Inr () \<and>
     its_accounts st tk = Some (TokenManagerAcc t) \<and> tm_token_id t = it_token_id tr \<and> token_address t = mk \<and>
     tl_mints (its_tokens st) mk = Some m \<and> it_amount tr \<noteq> 0 \<and>
     validate_message_raw env (its_id env) (ie_executable a) msg payload (its_gateway st) = Inr gw \<and>
     (T1 = its_tokens st \<or> spl_create_ata lib authority mk program (its_tokens st) = Some T1) \<and>
     tokens_given lib view program mk (ai_key (ie_token_manager_ata a)) ata
       (manager_signer env (ai_key (ie_its_root_pda a)) (tm_token_id t) (tm_bump t) tk) (ty t) m (it_amount tr) n' T1 T2 \<and>
     (if data = [] then its_tokens st' = T2 \<and> its_gateway st' = gw \<and> its_gas st' = its_gas st
      else \<exists>p executor eb. payload_decode (il_payload lib) data = Inr p \<and>
        try_find_program_address env (interchain_transfer_execute_seeds destination) (its_id env) = Some (executor, eb) \<and>
        destination_call lib destination
          ([acc program, acc_mut mk, acc authority, acc_mut ata, acc_signer executor] @ account_meta p)
          (ITS_EXECUTE_IX_DISC, \<lparr>ep_command_id = command_id env msg, ep_source_chain = src,
            ep_source_address = it_source_address tr, ep_token_id = it_token_id tr, ep_token_mint = mk, ep_amount = n',
            ep_data = payload_without_accounts p\<rparr>)
          (T2, gw, its_gas st) = Some (its_tokens st', its_gateway st', its_gas st')) \<and>
     track_token_flow (iv_ledger view) (it_amount tr) In (flow_slot t) = Inr f \<and>
     its_accounts st' = (its_accounts st)(tk \<mapsto> TokenManagerAcc (t\<lparr>flow_slot := f\<rparr>)) \<and>
     its_events st' = its_events st @ [InterchainTransferReceived (command_id env msg) (it_token_id tr) src (it_source_address tr)
       destination ata n' (data_hash_of env (it_data tr))])"
  using ok
proof (rule its_execute_Inr)
  fix s src' inner gw
  let ?st = "st\<lparr>its_gateway := gw\<rparr>" and ?d = "case it_data tr of None \<Rightarrow> [] | Some d \<Rightarrow> d"
  assume root: "load_active_root env st (ie_its_root_pda a) = Inr s" and h: "hub_try_from_slice lib payload = Some (ReceiveFromHub src' inner)"
    and v: "validate_message_raw env (its_id env) (ie_executable a) msg payload (its_gateway st) = Inr gw"
    and c: "(case inner of
           InterchainTransferM transfer \<Rightarrow>
             cpi_execute_interchain_transfer env lib view a (its_bump s) remaining transfer msg src'
         | DeployInterchainTokenM deploy \<Rightarrow> cpi_execute_deploy_interchain_token env lib a (its_bump s) remaining deploy
         | LinkTokenM link \<Rightarrow> cpi_execute_link_token env lib a (its_bump s) remaining link) ?st = Inr st'"
  have "inner = InterchainTransferM tr" "src' = src" using h assms(3) by simp_all
  with c have "cpi_execute_interchain_transfer env lib view a (its_bump s) remaining tr msg src ?st = Inr st'"
    by simp
  then obtain x remaining' where x: "execute_interchain_transfer env lib view x remaining' msg src (it_source_address tr)
      (it_destination_address tr) (it_token_id tr) (it_amount tr) ?d ?st = Inr st'"
    and keys: "ai_key (ex_its_root_pda x) = ai_key (ie_its_root_pda a)" "ai_key (ex_token_manager_pda x) = ai_key (ie_token_manager_pda a)"
      "ai_key (ex_token_mint x) = ai_key (ie_token_mint a)" "ai_key (ex_token_manager_ata x) = ai_key (ie_token_manager_ata a)"
      "ai_key (ex_token_program x) = ai_key (ie_token_program a)"
    and rem: "take 3 (map ai_key remaining) = [ai_key (ex_destination x), ai_key (ex_destination_token_authority x), ai_key (ex_destination_ata x)]"
    using cpi_execute_interchain_transfer_Inr [of env lib view a "its_bump s" remaining tr msg src ?st st'] by blast
  have ok: "its_ok env (its_accounts ?st)" using its_reachable_inv [OF assms(1,2)] by (simp add: its_inv_def)
  have root': "load_its_root env ?st (ie_its_root_pda a) = Inr s" using root by (auto simp: load_active_root_Inr load_its_root_Inr)
  from x show ?thesis
  proof (rule execute_interchain_transferE)
    fix t m T1 b n' f T'
    let ?ev = "InterchainTransferReceived (command_id env msg) (it_token_id tr) src (it_source_address tr) (it_destination_address tr)
        (ai_key (ex_destination_ata x)) n' (if ?d = [] then None else Some (keccak env ?d))"
    let ?st1 = "emit_its ?ev (put_its (ai_key (ex_token_manager_pda x)) (TokenManagerAcc (t\<lparr>flow_slot := f\<rparr>)) (?st\<lparr>its_tokens := T'\<rparr>))"
    assume k: "check_execute_transfer env lib x (it_destination_address tr) (it_token_id tr) ?st = Inr (t, m, T1, b)"
      and n: "it_amount tr \<noteq> 0" and g: "give_token env lib view x t m (it_amount tr) T1 = Inr (n', t\<lparr>flow_slot := f\<rparr>, T')"
      and f: "track_token_flow (iv_ledger view) (it_amount tr) In (flow_slot t) = Inr f"
      and r: "(if ?d = [] then Inr else invoke_destination_program env lib x remaining' b msg src (it_source_address tr) (it_token_id tr) n' ?d)
        ?st1 = Inr st'"
    note kk = check_execute_transfer_Inr [OF k]
    have mgr: "its_accounts st (ai_key (ie_token_manager_pda a)) = Some (TokenManagerAcc t)" "tm_token_id t = it_token_id tr"
      using manager_loaded [OF its_lawsD(1,2) [OF assms(1)] ok root', of "it_token_id tr" "ex_token_manager_pda x" t] kk(3) keys
      by (simp_all add: load_token_manager_Inr)
    have fin: "its_accounts st' = its_accounts ?st1" "its_events st' = its_events ?st1"
      using r invoke_destination_program_frame [where st = ?st1 and st' = st'] by (auto split: if_splits)
    note ata = init_ata_if_needed_Inr [OF kk(6)]
    have ata_key: "ata_address lib (ai_key (ex_destination_token_authority x)) (ai_key (ie_token_mint a)) (ai_key (ie_token_program a))
        = ai_key (ex_destination_ata x)"
      using ata keys by simp
    have delivered: "if ?d = [] then its_tokens st' = T' \<and> its_gateway st' = gw \<and> its_gas st' = its_gas st
      else \<exists>p executor eb. payload_decode (il_payload lib) ?d = Inr p \<and>
        try_find_program_address env (interchain_transfer_execute_seeds (it_destination_address tr)) (its_id env) = Some (executor, eb) \<and>
        destination_call lib (it_destination_address tr)
          ([acc (ai_key (ie_token_program a)), acc_mut (ai_key (ie_token_mint a)), acc (ai_key (ex_destination_token_authority x)),
            acc_mut (ai_key (ex_destination_ata x)), acc_signer executor] @ account_meta p)
          (ITS_EXECUTE_IX_DISC, \<lparr>ep_command_id = command_id env msg, ep_source_chain = src,
            ep_source_address = it_source_address tr, ep_token_id = it_token_id tr, ep_token_mint = ai_key (ie_token_mint a),
            ep_amount = n', ep_data = payload_without_accounts p\<rparr>)
          (T', gw, its_gas st) = Some (its_tokens st', its_gateway st', its_gas st')"
    proof (cases "?d = []")
      case True
      with r have "st' = ?st1" by simp
      with True show ?thesis by simp
    next
      case False
      with r have "invoke_destination_program env lib x remaining' b msg src (it_source_address tr) (it_token_id tr) n' ?d ?st1 = Inr st'"
        by simp
      then obtain p e where p: "payload_decode (il_payload lib) ?d = Inr p" and e: "ex_interchain_transfer_execute x = Some e"
        and call: "destination_call lib (ai_key (ex_destination x))
          ([acc (ai_key (ex_token_program x)), acc_mut (ai_key (ex_token_mint x)), acc (ai_key (ex_destination_token_authority x)),
            acc_mut (ai_key (ex_destination_ata x)), acc_signer (ai_key e)] @ account_meta p)
          (ITS_EXECUTE_IX_DISC, \<lparr>ep_command_id = command_id env msg, ep_source_chain = src,
            ep_source_address = it_source_address tr, ep_token_id = it_token_id tr, ep_token_mint = ai_key (ex_token_mint x),
            ep_amount = n', ep_data = payload_without_accounts p\<rparr>)
          (its_tokens ?st1, its_gateway ?st1, its_gas ?st1) = Some (its_tokens st', its_gateway st', its_gas st')"
        by (rule invoke_destination_called)
      obtain eb where "try_find_program_address env (interchain_transfer_execute_seeds (it_destination_address tr)) (its_id env)
          = Some (ai_key e, eb)"
        using check_execute_transfer_executor [OF k e] by blast
      with False p call keys kk(1) show ?thesis by auto
    qed
    have auth: "check_destination_authority env lib view (ai_key (ex_destination x)) (ai_key (ex_destination_token_authority x)) = Inr ()"
      using x k unfolding execute_interchain_transfer_def Let_def by (auto simp: res_bind_Inr)
    have hash: "(if ?d = [] then None else Some (keccak env ?d)) = data_hash_of env (it_data tr)"
      by (simp add: data_hash_of_def split: option.split)
    show ?thesis
      unfolding Let_def
    proof (intro exI conjI)
      show "its_accounts st (ai_key (ie_token_manager_pda a)) = Some (TokenManagerAcc t)" "tm_token_id t = it_token_id tr"
        by (rule mgr)+
      show "validate_message_raw env (its_id env) (ie_executable a) msg payload (its_gateway st) = Inr gw" by (rule v)
      show "track_token_flow (iv_ledger view) (it_amount tr) In (flow_slot t) = Inr f" by (rule f)
      show "check_destination_authority env lib view (it_destination_address tr) (ai_key (ex_destination_token_authority x)) = Inr ()"
        using auth kk(1) by simp
      show "if ?d = [] then its_tokens st' = T' \<and> its_gateway st' = gw \<and> its_gas st' = its_gas st
      else \<exists>p executor eb. payload_decode (il_payload lib) ?d = Inr p \<and>
        try_find_program_address env (interchain_transfer_execute_seeds (it_destination_address tr)) (its_id env) = Some (executor, eb) \<and>
        destination_call lib (it_destination_address tr)
          ([acc (ai_key (ie_token_program a)), acc_mut (ai_key (ie_token_mint a)), acc (ai_key (ex_destination_token_authority x)),
            acc_mut (ata_address lib (ai_key (ex_destination_token_authority x)) (ai_key (ie_token_mint a)) (ai_key (ie_token_program a))),
            acc_signer executor] @ account_meta p)
          (ITS_EXECUTE_IX_DISC, \<lparr>ep_command_id = command_id env msg, ep_source_chain = src,
            ep_source_address = it_source_address tr, ep_token_id = it_token_id tr, ep_token_mint = ai_key (ie_token_mint a),
            ep_amount = n', ep_data = payload_without_accounts p\<rparr>)
          (T', gw, its_gas st) = Some (its_tokens st', its_gateway st', its_gas st')"
        unfolding ata_key by (rule delivered)
      show "tl_mints (its_tokens st) (ai_key (ie_token_mint a)) = Some m"
        using kk(5) keys by (auto simp: load_mint_of_def load_mint_def res_bind_Inr ok_or_Inr)
      show "T1 = its_tokens st \<or> spl_create_ata lib (ai_key (ex_destination_token_authority x)) (ai_key (ie_token_mint a))
          (ai_key (ie_token_program a)) (its_tokens st) = Some T1"
        using ata keys by simp
    qed (use rem kk(1,2) ata mgr n fin give_token_given [OF g] in \<open>simp_all add: keys hash\<close>)
  qed
qed

theorem its_execute_transfer_exact_witness:
  "\<exists>n'. its_events demo_its6 = its_events demo_its5 @ [InterchainTransferReceived (command_id demo_env demo_imsg) demo_tid ''eth'' [5]
     demo_wallet (demo_ata demo_wallet) n' None]"
proof -
  have "hub_try_from_slice demo_ilib [90] = Some (ReceiveFromHub ''eth'' (InterchainTransferM demo_transfer_msg))"
    by (simp add: demo_ilib_def)
  from its_execute_transfer_exact [OF demo_laws demo_its_reachable(4) this demo_execute_its_ok] show ?thesis
    by (auto simp: Let_def demo_ie_remaining_def acc_keys demo_transfer_msg_def data_hash_of_def)
qed

section \<open>Names of inbound tokens\<close>

text \<open>Truncation cuts at the last character boundary that fits.\<close>

lemma truncate_utf8_last_boundary:
  "truncate_utf8 s n = take (Max {k. k \<le> min n (length s) \<and> is_char_boundary s k}) s"
proof (cases "length s \<le> n")
  case True
  then have "Max {k. k \<le> min n (length s) \<and> is_char_boundary s k} = length s"
    by (intro Max_eqI) (auto simp: is_char_boundary_def)
  with True show ?thesis by (simp add: truncate_utf8_def)
next
  case False
  have "Max {k. k \<le> min n (length s) \<and> is_char_boundary s k} = cut_back s n"
    using False cut_back_le [of s n] cut_back_boundary [of s n] cut_back_greatest [of _ n s]
    by (intro Max_eqI) auto
  with False show ?thesis by (simp add: truncate_utf8_def)
qed

lemma unat_of_char_u8: "unat (of_char c :: u8) = of_char c"
proof -
  have "(of_char c :: u8) = of_nat (of_char c)" by (simp add: of_nat_of_char)
  moreover have "(of_char c :: nat) < 256" by simp
  ultimately show ?thesis by (simp add: unat_of_nat)
qed

lemma char_boundary_bytes: "is_char_boundary s i \<longleftrightarrow> byte_boundary (str_bytes s) i"
proof -
  have "is_continuation (str_bytes s ! i) \<longleftrightarrow> 128 \<le> (of_char (s ! i) :: nat) \<and> (of_char (s ! i) :: nat) < 192"
    if "i < length s"
    using that by (simp add: str_bytes_def is_continuation_def word_le_nat_alt word_less_nat_alt unat_of_char_u8)
  then show ?thesis by (auto simp: is_char_boundary_def byte_boundary_def str_bytes_def)
qed

text \<open>
  Truncation never splits a character: of a valid UTF-8 string it keeps a valid prefix of whole
  characters that fits the bound, and one character more would not fit.
\<close>

theorem truncate_utf8_whole_chars:
  assumes "from_utf8 (str_bytes s) = Some cs"
  shows "\<exists>k \<le> length cs. from_utf8 (str_bytes (truncate_utf8 s n)) = Some (take k cs) \<and> length (truncate_utf8 s n) \<le> n \<and>
     (k < length cs \<longrightarrow> n < length (concat (take (Suc k) cs)))"
proof -
  note cs = from_utf8_Some [OF assms]
  have len: "length s = length (concat cs)" using cs by (metis length_map str_bytes_def)
  have bound: "is_char_boundary s i \<longleftrightarrow> (\<exists>k \<le> length cs. i = length (concat (take k cs)))" for i
    using byte_boundary_chars [of cs i] cs by (simp add: char_boundary_bytes)
  have valid: "from_utf8 (str_bytes (take (length (concat (take k cs))) s)) = Some (take k cs)" for k
  proof -
    have "str_bytes (take (length (concat (take k cs))) s) = take (length (concat (take k cs))) (concat cs)"
      using cs by (simp add: str_bytes_def flip: take_map)
    also have "... = concat (take k cs)"
      by (metis append_eq_conv_conj append_take_drop_id concat_append)
    finally show ?thesis using from_utf8_take [of cs k] assms cs by simp
  qed
  show ?thesis
  proof (cases "length s \<le> n")
    case True
    then show ?thesis using assms by (intro exI [of _ "length cs"]) (simp add: truncate_utf8_def)
  next
    case False
    obtain k where k: "k \<le> length cs" "cut_back s n = length (concat (take k cs))"
      using bound cut_back_boundary by blast
    have "n < length (concat (take (Suc k) cs))" if "k < length cs"
    proof (rule ccontr)
      assume n: "\<not> ?thesis"
      have "is_char_boundary s (length (concat (take (Suc k) cs)))" using bound that Suc_leI by blast
      with n have "length (concat (take (Suc k) cs)) \<le> cut_back s n" using cut_back_greatest by simp
      moreover have "cs ! k \<noteq> []" using cs that by (auto simp: utf8_char_def dest!: nth_mem)
      ultimately show False using k(2) that by (simp add: take_Suc_conv_app_nth)
    qed
    moreover have "truncate_utf8 s n = take (length (concat (take k cs))) s" using False k(2) by (simp add: truncate_utf8_def)
    ultimately show ?thesis
      using k valid cut_back_le [of s n] by (intro exI [of _ k]) simp
  qed
qed

theorem truncate_utf8_whole_chars_witness:
  "from_utf8 (str_bytes (truncate_utf8 [CHR ''a'', CHR 0xE2, CHR 0x82, CHR 0xAC] 3)) = Some [[97]]"
proof -
  let ?s = "[CHR ''a'', CHR 0xE2, CHR 0x82, CHR 0xAC]" and ?cs = "[[97 :: u8], [226, 130, 172]]"
  have "from_utf8 (str_bytes ?s) = Some ?cs"
    by (simp add: str_bytes_def utf8_width_def second_byte_ok_def is_continuation_def)
  from truncate_utf8_whole_chars [OF this, of 3] obtain k where k: "k \<le> length ?cs"
    "from_utf8 (str_bytes (truncate_utf8 ?s 3)) = Some (take k ?cs)" "length (truncate_utf8 ?s 3) \<le> 3"
    "k < length ?cs \<longrightarrow> 3 < length (concat (take (Suc k) ?cs))" by blast
  have "length (concat (take k ?cs)) \<le> 3"
    using from_utf8_Some [OF k(2)] k(3) by (metis length_str_bytes)
  then have "k \<noteq> 2" by auto
  moreover have "k \<noteq> 0" using k(4) by (cases k) simp_all
  ultimately have "k = 1" using k(1) by simp
  with k(2) show ?thesis by simp
qed

text \<open>The loop as the code has it, by the distance to the start.\<close>

lemma boundary_loop:
  "while_option (\<lambda>cut. \<not> is_char_boundary s cut) (\<lambda>cut. cut - 1) n = Some (cut_back s n)"
proof (induction n)
  case 0
  show ?case by (subst while_option_unfold) (simp add: is_char_boundary_def)
next
  case (Suc n)
  then show ?case by (subst while_option_unfold) simp
qed

text \<open>
  C40. The loop of the truncation, \<open>while !s.is_char_boundary(cut) { cut -= 1 }\<close>, run without a bound on its iterations,
  ends for every string and bound, without an underflow of the cut. On a valid string that is too long it ends at the
  last boundary of whole characters that fits: what is kept is a valid string, and one character more
  would not fit.
\<close>

theorem truncate_utf8_terminates:
  assumes "from_utf8 (str_bytes s) = Some cs" and "n < length s"
  shows "\<exists>cut. while_option (\<lambda>cut. \<not> is_char_boundary s cut) (\<lambda>cut. cut - 1) n = Some cut \<and>
     (\<forall>i \<le> n. \<not> is_char_boundary s i \<longrightarrow> 0 < i) \<and> truncate_utf8 s n = take cut s \<and> cut \<le> n \<and>
     (\<exists>k < length cs. from_utf8 (str_bytes (take cut s)) = Some (take k cs) \<and> n < length (concat (take (Suc k) cs)))"
proof -
  obtain k where k: "k \<le> length cs" "from_utf8 (str_bytes (truncate_utf8 s n)) = Some (take k cs)"
    "length (truncate_utf8 s n) \<le> n" "k < length cs \<longrightarrow> n < length (concat (take (Suc k) cs))"
    using truncate_utf8_whole_chars [OF assms(1), of n] by blast
  have "k \<noteq> length cs"
  proof
    assume "k = length cs"
    with k(2) assms(1) have "str_bytes (truncate_utf8 s n) = str_bytes s" by (metis from_utf8_Some order_refl take_all)
    with k(3) assms(2) show False by (metis leD length_str_bytes)
  qed
  moreover have "truncate_utf8 s n = take (cut_back s n) s" using assms(2) by (simp add: truncate_utf8_def)
  moreover have "\<forall>i \<le> n. \<not> is_char_boundary s i \<longrightarrow> 0 < i" by (auto simp: is_char_boundary_def)
  ultimately show ?thesis
    using k boundary_loop [of s n] cut_back_le [of s n]
    by (intro exI [of _ "cut_back s n"]) (auto intro!: exI [of _ k])
qed

theorem truncate_utf8_terminates_witness:
  "while_option (\<lambda>cut. \<not> is_char_boundary [CHR ''a'', CHR 0xE2, CHR 0x82, CHR 0xAC] cut) (\<lambda>cut. cut - 1) 3 = Some 1"
proof -
  let ?s = "[CHR ''a'', CHR 0xE2, CHR 0x82, CHR 0xAC]"
  have "from_utf8 (str_bytes ?s) = Some [[97 :: u8], [226, 130, 172]]"
    by (simp add: str_bytes_def utf8_width_def second_byte_ok_def is_continuation_def)
  from truncate_utf8_terminates [OF this, of 3] obtain cut where
    cut: "while_option (\<lambda>cut. \<not> is_char_boundary ?s cut) (\<lambda>cut. cut - 1) 3 = Some cut" "truncate_utf8 ?s 3 = take cut ?s" "cut \<le> 3"
    by auto
  have "length (truncate_utf8 ?s 3) = 1" by (simp add: truncate_utf8_def numeral_3_eq_3 is_char_boundary_def)
  with cut(3) have "cut = 1" unfolding cut(2) by simp
  with cut(1) show ?thesis by simp
qed

end
