(* ===== verification/Its_Space.thy ===== *)
theory Its_Space
  imports Its_Run Its_Demo
begin

text \<open>
  The size of the service's account. It is created with the space its first contents need and
  reallocated by the constraints of the two instructions on trusted chains, before their handlers
  run; when an instruction ends, the contents are written back in Borsh form and must fit.
\<close>

section \<open>The Borsh form\<close>

text \<open>
  The derived form of the account: the discriminator and the fields in their order. The forms of
  the field types are parameters, of which only the documented lengths matter.
\<close>

record borsh_forms =
  bf_discriminator :: bytes
  bf_string :: "string \<Rightarrow> bytes"
  bf_bool :: "bool \<Rightarrow> bytes"
  bf_strings :: "string list \<Rightarrow> bytes"
  bf_u8 :: "u8 \<Rightarrow> bytes"

text \<open>A length prefix has four bytes, for a string, for a vector and for each string in it.\<close>

definition borsh_law :: "borsh_forms \<Rightarrow> bool" where
  "borsh_law B \<longleftrightarrow> length (bf_discriminator B) = 8 \<and> (\<forall>s. length (bf_string B s) = 4 + length s) \<and>
     (\<forall>b. length (bf_bool B b) = 1) \<and> (\<forall>b. length (bf_u8 B b) = 1) \<and>
     (\<forall>l. length (bf_strings B l) = 4 + (\<Sum>s \<leftarrow> l. length (bf_string B s)))"

definition its_serialize :: "borsh_forms \<Rightarrow> InterchainTokenService \<Rightarrow> bytes" where
  "its_serialize B s = bf_discriminator B @ bf_string B (its_hub_address s) @ bf_string B (chain_name s) @
     bf_bool B (paused s) @ bf_strings B (trusted_chains s) @ bf_u8 B (its_bump s)"

lemma its_space_serialized: "borsh_law B \<Longrightarrow> length (its_serialize B s) = its_space s"
  by (simp add: borsh_law_def its_serialize_def its_space_def its_space_for_def)

section \<open>Reallocation\<close>

text \<open>The size of the account after an instruction, from the one before.\<close>

definition root_space :: "its_instruction \<Rightarrow> its_state \<Rightarrow> nat \<Rightarrow> nat" where
  "root_space ix st n =
     (case ix of
        ItsInitializeIx a c h \<Rightarrow> its_space_for (length h) (length c) 0
      | SetTrustedChainIx a c \<Rightarrow>
          (case its_accounts st (ai_key (stc_its_root_pda a)) of Some (ItsRootAcc s) \<Rightarrow> space_with_chain_added s c | _ \<Rightarrow> n)
      | RemoveTrustedChainIx a c \<Rightarrow>
          (case its_accounts st (ai_key (stc_its_root_pda a)) of Some (ItsRootAcc s) \<Rightarrow> space_with_chain_removed s c | _ \<Rightarrow> n)
      | _ \<Rightarrow> n)"

text \<open>The steps of the service with the size of its account beside the state.\<close>

inductive sized_step :: "env \<Rightarrow> its_lib \<Rightarrow> its_state \<times> nat \<Rightarrow> its_state \<times> nat \<Rightarrow> bool" for env lib where
  sized_ix: "its_no_pda_signer env ix \<Longrightarrow> its_ix_wf ix \<Longrightarrow> its_entry env lib view ix st = Inr st' \<Longrightarrow>
    sized_step env lib (st, n) (st', root_space ix st n)"
| sized_gateway: "gateway_step env (its_gateway st) gw \<Longrightarrow> sized_step env lib (st, n) (st\<lparr>its_gateway := gw\<rparr>, n)"
| sized_other: "sized_step env lib (st, n) (st\<lparr>its_tokens := T, its_gas := gas\<rparr>, n)"

lemma sized_step_its: "sized_step env lib x y \<Longrightarrow> its_step env lib (fst x) (fst y)"
  by (induction rule: sized_step.induct) (auto intro: its_step.intros)

lemma its_space_paused [simp]: "its_space (s\<lparr>paused := p\<rparr>) = its_space s"
  by (simp add: its_space_def)

lemma its_space_added:
  "its_space (add_trusted_chain c s) =
     (if c \<in> set (trusted_chains s) \<or> c = ITS_HUB_CHAIN_NAME then its_space s else space_with_chain_added s c)"
  by (simp add: its_space_def its_space_for_def space_with_chain_added_def add_trusted_chain_def)

lemma its_space_removed:
  assumes "root_ok s" and "c \<in> set (trusted_chains s)"
  shows "its_space (remove_trusted_chain c s) = space_with_chain_removed s c"
proof -
  obtain xs ys where "trusted_chains s = xs @ c # ys" using assms(2) by (auto simp: in_set_conv_decomp)
  moreover have "filter (\<lambda>c'. c' \<noteq> c) (xs @ c # ys) = xs @ ys"
    using assms(1) calculation by (auto simp: root_ok_def intro!: filter_True arg_cong2 [where f = "(@)"])
  ultimately show ?thesis
    by (simp add: its_space_def its_space_for_def space_with_chain_removed_def remove_trusted_chain_def)
qed

text \<open>The contents fit, and what is left is at most the room for the name of the hub.\<close>

definition fits :: "InterchainTokenService \<Rightarrow> nat \<Rightarrow> bool" where
  "fits s n \<longleftrightarrow> n = its_space s \<or> n = space_with_chain_added s ITS_HUB_CHAIN_NAME"

text \<open>The edits of the constraints' instructions, each on the one account of the service.\<close>

lemma trusted_chain_edit:
  assumes "its_entry env lib view ix st = Inr st'"
  shows "ix = SetTrustedChainIx a c \<Longrightarrow> \<exists>s. its_accounts st (ai_key (stc_its_root_pda a)) = Some (ItsRootAcc s) \<and>
      c \<notin> set (trusted_chains s) \<and> its_accounts st' = (its_accounts st)(ai_key (stc_its_root_pda a) \<mapsto> ItsRootAcc (add_trusted_chain c s))"
    and "ix = RemoveTrustedChainIx a c \<Longrightarrow> \<exists>s. its_accounts st (ai_key (stc_its_root_pda a)) = Some (ItsRootAcc s) \<and>
      c \<in> set (trusted_chains s) \<and> its_accounts st' = (its_accounts st)(ai_key (stc_its_root_pda a) \<mapsto> ItsRootAcc (remove_trusted_chain c s))"
  using assms by (auto simp: its_entry_def set_trusted_chain_def remove_trusted_chain_ix_def res_inv is_trusted_chain_iff
      dest!: load_root_as_admin_Inr)

lemma initialize_edit:
  assumes "its_entry env lib view (ItsInitializeIx a c h) st = Inr st'"
  shows "\<exists>b. root_addr env (ai_key (ii_its_root_pda a)) b" and "its_accounts st (ai_key (ii_its_root_pda a)) = None"
  using assms by (auto simp: its_entry_def its_initialize_def Let_def res_inv root_addr_def)

lemma root_space_fits:
  assumes law: "its_laws env lib" and inv: "its_inv env st" and wf: "its_ix_wf ix"
    and ok: "its_entry env lib view ix st = Inr st'" and root: "its_accounts st' k = Some (ItsRootAcc s')"
    and n: "\<And>s. its_accounts st k = Some (ItsRootAcc s) \<Longrightarrow> fits s n"
  shows "fits s' (root_space ix st n)"
proof -
  note pre = its_inv_pre [OF law inv]
  have addr: "root_addr env j (its_bump r)" if "its_accounts st j = Some (ItsRootAcc r)" for j r
    using its_okD [OF its_preD(3) [OF pre] that] by simp
  have one: "j = k" if "its_accounts st j = Some (ItsRootAcc r)" "its_accounts st k = Some (ItsRootAcc r')" for j r r'
    using addr [OF that(1)] addr [OF that(2)] root_addr_unique by blast
  have put: "s' = r'" if "its_accounts st j = Some (ItsRootAcc r)" "its_accounts st' = (its_accounts st)(j \<mapsto> ItsRootAcc r')" for j r r'
  proof (cases "k = j")
    case True
    then show ?thesis using that(2) root by simp
  next
    case False
    then have "its_accounts st k = Some (ItsRootAcc s')" using that(2) root by simp
    with one [OF that(1) this] False show ?thesis by simp
  qed
  note change = acct_change_root [OF its_entry_refines [OF pre wf ok] root]
  show ?thesis
  proof (cases ix)
    case (ItsInitializeIx a c h)
    have "its_accounts st k \<noteq> Some (ItsRootAcc s)" for s
      using initialize_edit [OF ok [unfolded ItsInitializeIx]] addr [of k s] by (auto dest: root_addr_unique)
    with change show ?thesis
      by (auto simp: root_edit_def ItsInitializeIx root_space_def fits_def its_space_def its_new_def)
  next
    case (SetTrustedChainIx a c)
    from trusted_chain_edit(1) [OF ok this] obtain s where
      s: "its_accounts st (ai_key (stc_its_root_pda a)) = Some (ItsRootAcc s)" "c \<notin> set (trusted_chains s)"
      "its_accounts st' = (its_accounts st)(ai_key (stc_its_root_pda a) \<mapsto> ItsRootAcc (add_trusted_chain c s))" by blast
    have "s' = add_trusted_chain c s" by (rule put [OF s(1,3)])
    with s show ?thesis
      by (simp add: SetTrustedChainIx root_space_def fits_def its_space_added space_with_chain_added_def)
  next
    case (RemoveTrustedChainIx a c)
    from trusted_chain_edit(2) [OF ok this] obtain s where
      s: "its_accounts st (ai_key (stc_its_root_pda a)) = Some (ItsRootAcc s)" "c \<in> set (trusted_chains s)"
      "its_accounts st' = (its_accounts st)(ai_key (stc_its_root_pda a) \<mapsto> ItsRootAcc (remove_trusted_chain c s))" by blast
    have "s' = remove_trusted_chain c s" by (rule put [OF s(1,3)])
    moreover have "root_ok s" using its_okD [OF its_preD(3) [OF pre] s(1)] by simp
    ultimately show ?thesis
      using s by (simp add: RemoveTrustedChainIx root_space_def fits_def its_space_removed)
  qed (use change n in \<open>auto simp: root_edit_def root_space_def fits_def space_with_chain_added_def\<close>)
qed

text \<open>The invariant of the sized steps.\<close>

definition sized_inv :: "env \<Rightarrow> its_state \<times> nat \<Rightarrow> bool" where
  "sized_inv env x \<longleftrightarrow> its_inv env (fst x) \<and> (\<forall>k s. its_accounts (fst x) k = Some (ItsRootAcc s) \<longrightarrow> fits s (snd x))"

lemma sized_inv_step:
  assumes law: "its_laws env lib" and inv: "sized_inv env x" and step: "sized_step env lib x y"
  shows "sized_inv env y"
proof -
  have "its_inv env (fst y)"
    using its_inv_step(1) [OF law _ sized_step_its [OF step]] inv by (simp add: sized_inv_def)
  with step inv show ?thesis
    by cases (auto simp: sized_inv_def intro: root_space_fits [OF law])
qed

interpretation sized: step_invariant "sized_step env lib" "\<lambda>x. its_laws env lib \<longrightarrow> sized_inv env x" for env lib
  by unfold_locales (blast intro: sized_inv_step)

section \<open>Properties\<close>

text \<open>
  C32. The account of the service is always large enough: along any run, whatever chains are trusted
  and distrusted, the size that the constraints allocate holds the Borsh form of what the handlers
  write, with at most the room of the hub's own name left over (which \<open>set_trusted_chain\<close> allocates
  for a chain that it then does not add).
\<close>

theorem its_account_fits:
  assumes "its_laws env lib" and "borsh_law B"
    and "runs (sized_step env lib) (its_empty T gateway_empty gas, 0) (st, n)"
    and "its_accounts st k = Some (ItsRootAcc s)"
  shows "n = length (its_serialize B s) \<or> n = length (its_serialize B s) + (4 + length ITS_HUB_CHAIN_NAME)"
proof -
  have "sized_inv env (its_empty T gateway_empty gas, 0)"
    by (simp add: sized_inv_def its_empty_inv) (simp add: its_empty_def)
  then have "sized_inv env (st, n)" using sized.runs_keep [OF assms(3)] assms(1) by blast
  with assms(4) have "fits s n" by (simp add: sized_inv_def)
  then show ?thesis by (auto simp: fits_def space_with_chain_added_def its_space_serialized [OF assms(2)])
qed

definition demo_forms :: borsh_forms where
  "demo_forms = \<lparr>bf_discriminator = replicate 8 0, bf_string = (\<lambda>s. to_le_bytes 4 (of_nat (length s) :: u32) @ str_bytes s),
     bf_bool = (\<lambda>b. [if b then 1 else 0]),
     bf_strings = (\<lambda>l. to_le_bytes 4 (of_nat (length l) :: u32) @ concat (map (\<lambda>s. to_le_bytes 4 (of_nat (length s) :: u32) @ str_bytes s) l)),
     bf_u8 = (\<lambda>b. [b])\<rparr>"

lemma demo_forms_law: "borsh_law demo_forms"
  by (simp add: borsh_law_def demo_forms_def length_concat comp_def)

lemma sized_gateway_runs:
  assumes "runs (gateway_step env) (its_gateway st) gw"
  shows "runs (sized_step env lib) (st, n) (st\<lparr>its_gateway := gw\<rparr>, n)"
  using assms
proof (induction "its_gateway st" gw rule: runs.induct)
  case runs_refl
  then show ?case by (simp add: runs.runs_refl)
next
  case (runs_step t u)
  have "sized_step env lib (st\<lparr>its_gateway := t\<rparr>, n) (st\<lparr>its_gateway := t\<rparr>\<lparr>its_gateway := u\<rparr>, n)"
    by (rule sized_gateway) (simp add: runs_step)
  with runs_step show ?case by (auto intro: runs.runs_step)
qed

theorem its_account_fits_witness:
  "length (its_serialize demo_forms (demo_root [''eth''])) \<le> 38"
proof -
  let ?e = "its_empty demo_tokens gateway_empty demo_igas" and ?step = "sized_step demo_env demo_ilib"
  note wf = its_no_pda_signer_def its_ix_wf_def its_users_def
  have "runs ?step (?e, 0) (?e\<lparr>its_gateway := demo_igw\<rparr>, 0)"
    by (rule sized_gateway_runs) (simp add: its_empty_def demo_igw_runs)
  then have r0: "runs ?step (?e, 0) (demo_its0, 0)" by (simp add: demo_its0_def its_empty_def)
  have "?step (demo_its0, 0) (demo_its1, root_space (ItsInitializeIx demo_its_init ''solana'' ''hub'') demo_its0 0)"
    by (rule sized_ix [where view = demo_iview])
      (simp_all add: wf its_entry_def demo_its_init_ok, simp add: demo_its_init_def acc_defs)
  then have s1: "?step (demo_its0, 0) (demo_its1, 31)" by (simp add: root_space_def its_space_for_def)
  have "root_space (SetTrustedChainIx demo_stc ''eth'') demo_its1 31 = 38"
    by (simp add: root_space_def demo_stc_def acc_defs demo_its1_def space_with_chain_added_def its_space_def its_space_for_def demo_root_def)
  moreover have "?step (demo_its1, 31) (demo_its2, root_space (SetTrustedChainIx demo_stc ''eth'') demo_its1 31)"
    by (rule sized_ix [where view = demo_iview])
      (simp_all add: wf its_entry_def demo_stc_ok, simp add: demo_stc_def acc_defs)
  ultimately have "runs ?step (?e, 0) (demo_its2, 38)" using runs_step [OF runs_step [OF r0 s1]] by simp
  moreover have "its_accounts demo_its2 demo_its_key = Some (ItsRootAcc (demo_root [''eth'']))" by (simp add: demo_its2_def)
  ultimately show ?thesis using its_account_fits [OF demo_laws demo_forms_law] by fastforce
qed

end
