(* ===== verification/Its_Client.thy ===== *)
theory Its_Client
  imports Its_Inbound
begin

text \<open>
  The library side of the token service: the \<open>make_*_instruction\<close> functions that build its
  instructions for a client, and the three functions with which a relayer completes the accounts of
  \<open>execute\<close>. A built instruction is the service's instruction with its accounts and arguments; each
  account carries the flags \<open>to_account_metas\<close> derives from the accounts struct. The accounts of the
  event calls are left out, as in the instructions themselves. Every address is derived, and a
  derivation that finds none panics.
\<close>

section \<open>The addresses\<close>

text \<open>\<open>find_pda(...).0\<close>.\<close>

definition find_key :: "env \<Rightarrow> bytes list \<Rightarrow> pubkey \<Rightarrow> pubkey result" where
  "find_key env seeds pid = res_bind (find_program_address env seeds pid) (\<lambda>(k, _). Inr k)"

lemma find_key_Inr [res_inv]:
  "find_key env seeds pid = Inr k \<longleftrightarrow> (\<exists>b. try_find_program_address env seeds pid = Some (k, b))"
  by (auto simp: find_key_def find_program_address_def res_inv split: prod.splits)

definition its_root_key :: "env \<Rightarrow> pubkey result" where
  "its_root_key env = find_key env its_root_seeds (its_id env)"

definition user_roles_key :: "env \<Rightarrow> pubkey \<Rightarrow> pubkey \<Rightarrow> pubkey result" where
  "user_roles_key env resource user = find_key env (user_roles_seeds resource user) (its_id env)"

definition token_manager_key :: "env \<Rightarrow> hash \<Rightarrow> pubkey \<Rightarrow> pubkey result" where
  "token_manager_key env token_id root = find_key env (token_manager_seeds token_id root) (its_id env)"

definition token_mint_key :: "env \<Rightarrow> hash \<Rightarrow> pubkey \<Rightarrow> pubkey result" where
  "token_mint_key env token_id root = find_key env (interchain_token_seeds token_id root) (its_id env)"

definition find_token_metadata :: "env \<Rightarrow> its_lib \<Rightarrow> hash \<Rightarrow> pubkey \<Rightarrow> pubkey result" where
  "find_token_metadata env lib token_id root =
     res_bind (token_mint_key env token_id root) (\<lambda>mk. Inr (metadata_address lib mk))"

definition gateway_root_key :: "env \<Rightarrow> pubkey result" where
  "gateway_root_key env = find_key env gateway_config_seeds (gateway_id env)"

definition gas_treasury_key :: "env \<Rightarrow> pubkey result" where
  "gas_treasury_key env = find_key env treasury_seeds (gas_service_id env)"

text \<open>\<open>bpf_loader_upgradeable::get_program_data_address\<close>.\<close>

definition program_data_key :: "env \<Rightarrow> pubkey result" where
  "program_data_key env = find_key env [its_id env] (loader_upgradeable_id env)"

text \<open>An optional address: \<open>x.map(|x| find_pda(x).0)\<close>.\<close>

definition optional_key :: "('a \<Rightarrow> pubkey result) \<Rightarrow> 'a option \<Rightarrow> pubkey option result" where
  "optional_key f x = (case x of None \<Rightarrow> Inr None | Some y \<Rightarrow> res_bind (f y) (\<lambda>k. Inr (Some k)))"

lemma optional_key_Inr [res_inv]:
  "optional_key f x = Inr k \<longleftrightarrow> (x = None \<and> k = None \<or> (\<exists>y j. x = Some y \<and> f y = Inr j \<and> k = Some j))"
  by (cases x) (auto simp: optional_key_def res_inv)

section \<open>\<open>config\<close>\<close>

definition make_initialize_instruction :: "env \<Rightarrow> pubkey \<Rightarrow> pubkey \<Rightarrow> string \<Rightarrow> string \<Rightarrow> its_instruction result" where
  "make_initialize_instruction env payer operator cname hub_address =
     res_bind (its_root_key env) (\<lambda>its_root_pda.
     res_bind (program_data_key env) (\<lambda>program_data.
     res_bind (user_roles_key env its_root_pda operator) (\<lambda>user_roles_account.
     Inr (ItsInitializeIx
       \<lparr>ii_payer = acc_signer_mut payer, ii_program_data = acc program_data, ii_its_root_pda = acc_mut its_root_pda,
        ii_system_program = acc (system_program_id env), ii_operator = acc_signer operator,
        ii_user_roles_account = acc_mut user_roles_account\<rparr>
       cname hub_address))))"

definition make_set_pause_status_instruction :: "env \<Rightarrow> pubkey \<Rightarrow> bool \<Rightarrow> its_instruction result" where
  "make_set_pause_status_instruction env payer p =
     res_bind (its_root_key env) (\<lambda>its_root_pda.
     res_bind (program_data_key env) (\<lambda>program_data.
     Inr (SetPauseStatusIx
       \<lparr>sps_payer = acc_signer_mut payer, sps_program_data = acc program_data, sps_its_root_pda = acc_mut its_root_pda\<rparr> p)))"

text \<open>The accounts the two trusted-chain builders derive alike.\<close>

definition trusted_chain_accounts :: "env \<Rightarrow> pubkey \<Rightarrow> bool \<Rightarrow> SetTrustedChain result" where
  "trusted_chain_accounts env payer use_operator_role =
     res_bind (its_root_key env) (\<lambda>its_root_pda.
     res_bind (optional_key (user_roles_key env its_root_pda) (if use_operator_role then Some payer else None)) (\<lambda>user_roles.
     res_bind (if use_operator_role then Inr None else res_bind (program_data_key env) (\<lambda>k. Inr (Some k))) (\<lambda>program_data.
     Inr \<lparr>stc_payer = acc_signer_mut payer, stc_user_roles = map_option acc user_roles,
       stc_program_data = map_option acc program_data, stc_its_root_pda = acc_mut its_root_pda,
       stc_system_program = acc (system_program_id env)\<rparr>)))"

definition make_set_trusted_chain_instruction :: "env \<Rightarrow> pubkey \<Rightarrow> string \<Rightarrow> bool \<Rightarrow> its_instruction result" where
  "make_set_trusted_chain_instruction env payer cname use_operator_role =
     res_bind (trusted_chain_accounts env payer use_operator_role) (\<lambda>a. Inr (SetTrustedChainIx a cname))"

definition make_remove_trusted_chain_instruction :: "env \<Rightarrow> pubkey \<Rightarrow> string \<Rightarrow> bool \<Rightarrow> its_instruction result" where
  "make_remove_trusted_chain_instruction env payer cname use_operator_role =
     res_bind (trusted_chain_accounts env payer use_operator_role) (\<lambda>a. Inr (RemoveTrustedChainIx a cname))"

definition make_set_flow_limit_instruction ::
    "env \<Rightarrow> pubkey \<Rightarrow> pubkey \<Rightarrow> hash \<Rightarrow> u64 option \<Rightarrow> its_instruction result" where
  "make_set_flow_limit_instruction env payer operator token_id limit =
     res_bind (its_root_key env) (\<lambda>its_root_pda.
     res_bind (user_roles_key env its_root_pda operator) (\<lambda>its_roles_pda.
     res_bind (token_manager_key env token_id its_root_pda) (\<lambda>token_manager_pda.
     Inr (SetFlowLimitIx
       \<lparr>sfl_payer = acc_signer_mut payer, sfl_operator = acc_signer operator, sfl_its_root_pda = acc its_root_pda,
        sfl_its_roles_pda = acc its_roles_pda, sfl_token_manager_pda = acc_mut token_manager_pda,
        sfl_system_program = acc (system_program_id env)\<rparr> limit))))"

text \<open>\<open>TransferOperatorship\<close> has no token manager account; the field repeats the resource.\<close>

definition make_transfer_operatorship_instruction :: "env \<Rightarrow> pubkey \<Rightarrow> pubkey \<Rightarrow> pubkey \<Rightarrow> its_instruction result" where
  "make_transfer_operatorship_instruction env payer origin destination =
     res_bind (its_root_key env) (\<lambda>resource_account.
     res_bind (user_roles_key env resource_account origin) (\<lambda>origin_roles_account.
     res_bind (user_roles_key env resource_account destination) (\<lambda>destination_roles_account.
     Inr (ItsTransferOperatorshipIx
       \<lparr>rt_system_program = acc (system_program_id env), rt_payer = acc_signer_mut payer,
        rt_origin_user_account = acc_signer origin, rt_origin_roles_account = acc_mut origin_roles_account,
        rt_its_root_pda = acc resource_account, rt_token_manager_account = acc resource_account,
        rt_destination_user_account = acc destination,
        rt_destination_roles_account = acc_mut destination_roles_account\<rparr>))))"

section \<open>\<open>token_manager\<close>, and the transfer of mintership\<close>

text \<open>The accounts of a hand-over of roles on a token manager.\<close>

definition manager_transfer_accounts :: "env \<Rightarrow> pubkey \<Rightarrow> pubkey \<Rightarrow> pubkey \<Rightarrow> hash \<Rightarrow> RoleTransfer result" where
  "manager_transfer_accounts env payer origin destination token_id =
     res_bind (its_root_key env) (\<lambda>its_root_pda.
     res_bind (token_manager_key env token_id its_root_pda) (\<lambda>token_manager_account.
     res_bind (user_roles_key env token_manager_account origin) (\<lambda>origin_roles_account.
     res_bind (user_roles_key env token_manager_account destination) (\<lambda>destination_roles_account.
     Inr \<lparr>rt_system_program = acc (system_program_id env), rt_payer = acc_signer_mut payer,
       rt_origin_user_account = acc_signer origin, rt_origin_roles_account = acc_mut origin_roles_account,
       rt_its_root_pda = acc its_root_pda, rt_token_manager_account = acc token_manager_account,
       rt_destination_user_account = acc destination,
       rt_destination_roles_account = acc_mut destination_roles_account\<rparr>))))"

definition make_transfer_token_manager_operatorship_instruction ::
    "env \<Rightarrow> pubkey \<Rightarrow> pubkey \<Rightarrow> pubkey \<Rightarrow> hash \<Rightarrow> its_instruction result" where
  "make_transfer_token_manager_operatorship_instruction env payer origin destination token_id =
     res_bind (manager_transfer_accounts env payer origin destination token_id) (\<lambda>a.
     Inr (TransferTokenManagerOperatorshipIx a))"

definition make_transfer_interchain_token_mintership_instruction ::
    "env \<Rightarrow> pubkey \<Rightarrow> pubkey \<Rightarrow> pubkey \<Rightarrow> hash \<Rightarrow> its_instruction result" where
  "make_transfer_interchain_token_mintership_instruction env payer sender destination token_id =
     res_bind (manager_transfer_accounts env payer sender destination token_id) (\<lambda>a.
     Inr (TransferMintershipIx a))"

text \<open>The accounts of a change of flow limiters.\<close>

definition flow_limiter_accounts :: "env \<Rightarrow> pubkey \<Rightarrow> pubkey \<Rightarrow> pubkey \<Rightarrow> hash \<Rightarrow> FlowLimiterChange result" where
  "flow_limiter_accounts env payer authority target token_id =
     res_bind (its_root_key env) (\<lambda>its_root_pda.
     res_bind (token_manager_key env token_id its_root_pda) (\<lambda>token_manager_pda.
     res_bind (user_roles_key env token_manager_pda authority) (\<lambda>authority_roles_account.
     res_bind (user_roles_key env token_manager_pda target) (\<lambda>target_roles_account.
     Inr \<lparr>fc_system_program = acc (system_program_id env), fc_payer = acc_signer_mut payer,
       fc_authority_user_account = acc_signer authority, fc_authority_roles_account = acc authority_roles_account,
       fc_its_root_pda = acc its_root_pda, fc_token_manager_pda = acc token_manager_pda,
       fc_target_user_account = acc target, fc_target_roles_account = acc_mut target_roles_account\<rparr>))))"

definition make_add_token_manager_flow_limiter_instruction ::
    "env \<Rightarrow> pubkey \<Rightarrow> pubkey \<Rightarrow> pubkey \<Rightarrow> hash \<Rightarrow> its_instruction result" where
  "make_add_token_manager_flow_limiter_instruction env payer authority target token_id =
     res_bind (flow_limiter_accounts env payer authority target token_id) (\<lambda>a. Inr (AddFlowLimiterIx a))"

definition make_remove_token_manager_flow_limiter_instruction ::
    "env \<Rightarrow> pubkey \<Rightarrow> pubkey \<Rightarrow> pubkey \<Rightarrow> hash \<Rightarrow> its_instruction result" where
  "make_remove_token_manager_flow_limiter_instruction env payer authority target token_id =
     res_bind (flow_limiter_accounts env payer authority target token_id) (\<lambda>a. Inr (RemoveFlowLimiterIx a))"

definition make_set_token_manager_flow_limit_instruction ::
    "env \<Rightarrow> pubkey \<Rightarrow> pubkey \<Rightarrow> hash \<Rightarrow> u64 option \<Rightarrow> its_instruction result" where
  "make_set_token_manager_flow_limit_instruction env payer flow_limiter token_id limit =
     res_bind (its_root_key env) (\<lambda>its_root_pda.
     res_bind (token_manager_key env token_id its_root_pda) (\<lambda>token_manager_pda.
     res_bind (user_roles_key env token_manager_pda flow_limiter) (\<lambda>flow_limiter_roles_pda.
     Inr (SetTokenManagerFlowLimitIx
       \<lparr>stf_payer = acc_signer_mut payer, stf_flow_limiter = acc_signer flow_limiter,
        stf_its_root_pda = acc its_root_pda, stf_token_manager_pda = acc_mut token_manager_pda,
        stf_flow_limiter_roles_pda = acc flow_limiter_roles_pda,
        stf_system_program = acc (system_program_id env)\<rparr> limit))))"

definition make_handover_mint_authority_instruction ::
    "env \<Rightarrow> pubkey \<Rightarrow> pubkey \<Rightarrow> pubkey \<Rightarrow> pubkey \<Rightarrow> hash \<Rightarrow> its_instruction result" where
  "make_handover_mint_authority_instruction env payer authority token_mint program token_id =
     res_bind (its_root_key env) (\<lambda>its_root.
     res_bind (token_manager_key env token_id its_root) (\<lambda>token_manager.
     res_bind (user_roles_key env token_manager authority) (\<lambda>minter_roles.
     Inr (HandoverMintAuthorityIx
       \<lparr>hm_payer = acc_signer_mut payer, hm_authority = acc_signer authority, hm_mint = acc_mut token_mint,
        hm_its_root = acc its_root, hm_token_manager = acc token_manager, hm_minter_roles = acc_mut minter_roles,
        hm_token_program = acc program, hm_system_program = acc (system_program_id env)\<rparr> token_id))))"

section \<open>Deploying, registering and minting\<close>

definition make_deploy_interchain_token_instruction ::
    "env \<Rightarrow> its_lib \<Rightarrow> pubkey \<Rightarrow> pubkey \<Rightarrow> bytes \<Rightarrow> string \<Rightarrow> string \<Rightarrow> u8 \<Rightarrow> u64 \<Rightarrow> pubkey option \<Rightarrow> its_instruction result" where
  "make_deploy_interchain_token_instruction env lib payer deployer salt name symbol decimals initial_supply minter =
     res_bind (its_root_key env) (\<lambda>its_root.
     let token_id = interchain_token_id env (its_network lib) deployer salt; program = token_2022_id lib in
     res_bind (token_manager_key env token_id its_root) (\<lambda>token_manager_pda.
     res_bind (token_mint_key env token_id its_root) (\<lambda>token_mint.
     res_bind (find_token_metadata env lib token_id its_root) (\<lambda>mpl_token_metadata_account.
     let token_manager_ata = ata_address lib token_manager_pda token_mint program;
         deployer_ata = ata_address lib deployer token_mint program in
     res_bind (optional_key (user_roles_key env token_manager_pda) minter) (\<lambda>minter_roles_pda.
     Inr (DeployInterchainTokenIx
       \<lparr>di_payer = acc_signer_mut payer, di_deployer = acc_signer deployer,
        di_system_program = acc (system_program_id env), di_its_root_pda = acc its_root,
        di_token_manager_pda = acc_mut token_manager_pda, di_token_mint = acc_mut token_mint,
        di_token_manager_ata = acc_mut token_manager_ata, di_token_program = acc program,
        di_associated_token_program = acc (associated_token_program_id lib),
        di_sysvar_instructions = acc (sysvar_instructions_id lib),
        di_mpl_token_metadata_program = acc (mpl_token_metadata_id lib),
        di_mpl_token_metadata_account = acc_mut mpl_token_metadata_account, di_deployer_ata = acc_mut deployer_ata,
        di_minter = map_option acc minter, di_minter_roles_pda = map_option acc_mut minter_roles_pda\<rparr>
       salt name symbol decimals initial_supply))))))"

definition make_mint_interchain_token_instruction ::
    "env \<Rightarrow> hash \<Rightarrow> u64 \<Rightarrow> pubkey \<Rightarrow> pubkey \<Rightarrow> pubkey \<Rightarrow> its_instruction result" where
  "make_mint_interchain_token_instruction env token_id amount minter destination_account program =
     res_bind (its_root_key env) (\<lambda>its_root_pda.
     res_bind (token_manager_key env token_id its_root_pda) (\<lambda>token_manager_pda.
     res_bind (token_mint_key env token_id its_root_pda) (\<lambda>mk.
     res_bind (user_roles_key env token_manager_pda minter) (\<lambda>minter_roles_pda.
     Inr (MintInterchainTokenIx
       \<lparr>mt_mint = acc_mut mk, mt_destination_account = acc_mut destination_account, mt_its_root_pda = acc its_root_pda,
        mt_token_manager_pda = acc_mut token_manager_pda, mt_minter = acc_signer minter,
        mt_minter_roles_pda = acc minter_roles_pda, mt_token_program = acc program\<rparr> amount)))))"

definition make_register_canonical_token_instruction ::
    "env \<Rightarrow> its_lib \<Rightarrow> pubkey \<Rightarrow> pubkey \<Rightarrow> pubkey \<Rightarrow> its_instruction result" where
  "make_register_canonical_token_instruction env lib payer token_mint program =
     res_bind (its_root_key env) (\<lambda>its_root_pda.
     let token_id = canonical_interchain_token_id env (its_network lib) token_mint in
     res_bind (token_manager_key env token_id its_root_pda) (\<lambda>token_manager_pda.
     Inr (RegisterCanonicalIx
       \<lparr>rc_payer = acc_signer_mut payer, rc_metadata_account = acc (metadata_address lib token_mint),
        rc_system_program = acc (system_program_id env), rc_its_root_pda = acc its_root_pda,
        rc_token_manager_pda = acc_mut token_manager_pda, rc_token_mint = acc token_mint,
        rc_token_manager_ata = acc_mut (ata_address lib token_manager_pda token_mint program),
        rc_token_program = acc program, rc_associated_token_program = acc (associated_token_program_id lib)\<rparr>)))"

definition make_register_custom_token_instruction ::
    "env \<Rightarrow> its_lib \<Rightarrow> pubkey \<Rightarrow> pubkey \<Rightarrow> pubkey \<Rightarrow> pubkey \<Rightarrow> bytes \<Rightarrow> Type \<Rightarrow> pubkey option \<Rightarrow> its_instruction result" where
  "make_register_custom_token_instruction env lib payer deployer token_mint program salt t operator =
     res_bind (its_root_key env) (\<lambda>its_root_pda.
     let token_id = interchain_token_id_internal env (linked_token_deployer_salt env (its_network lib) deployer salt) in
     res_bind (token_manager_key env token_id its_root_pda) (\<lambda>token_manager_pda.
     res_bind (optional_key (user_roles_key env token_manager_pda) operator) (\<lambda>operator_roles_pda.
     Inr (RegisterCustomTokenIx
       \<lparr>ru_payer = acc_signer_mut payer, ru_deployer = acc_signer deployer,
        ru_system_program = acc (system_program_id env), ru_its_root_pda = acc its_root_pda,
        ru_token_manager_pda = acc_mut token_manager_pda, ru_token_mint = acc token_mint,
        ru_token_manager_ata = acc_mut (ata_address lib token_manager_pda token_mint program),
        ru_token_program = acc program, ru_associated_token_program = acc (associated_token_program_id lib),
        ru_operator = map_option acc operator, ru_operator_roles_pda = map_option acc_mut operator_roles_pda\<rparr>
       salt t operator))))"

section \<open>Sending to the hub\<close>

text \<open>The gateway's and the gas service's accounts, which four builders derive alike.\<close>

definition client_gmp_accounts :: "env \<Rightarrow> pubkey \<Rightarrow> GMPAccounts result" where
  "client_gmp_accounts env payer =
     res_bind (gateway_root_key env) (\<lambda>gateway_root_pda.
     res_bind (CallContractSigner_find_pda env (its_id env)) (\<lambda>(call_contract_signing_pda, _).
     res_bind (gas_treasury_key env) (\<lambda>gas_treasury.
     Inr \<lparr>gm_payer = acc_signer_mut payer, gm_system_program = acc (system_program_id env),
       gm_gateway_program = acc (gateway_id env), gm_gateway_root_pda = acc gateway_root_pda,
       gm_call_contract_signing_pda = acc call_contract_signing_pda, gm_gas_service = acc (gas_service_id env),
       gm_gas_treasury = acc_mut gas_treasury\<rparr>)))"

definition make_interchain_transfer_instruction ::
    "env \<Rightarrow> its_lib \<Rightarrow> hash \<Rightarrow> u64 \<Rightarrow> pubkey \<Rightarrow> pubkey \<Rightarrow> pubkey \<Rightarrow> string \<Rightarrow> bytes \<Rightarrow> u64 \<Rightarrow> pubkey option \<Rightarrow>
     bytes list option \<Rightarrow> bytes option \<Rightarrow> its_instruction result" where
  "make_interchain_transfer_instruction env lib token_id amount program payer authority dest_chain dest_address
       gas_value caller_program_id caller_pda_seeds data =
     res_bind (its_root_key env) (\<lambda>its_root.
     res_bind (token_manager_key env token_id its_root) (\<lambda>token_manager_pda.
     res_bind (token_mint_key env token_id its_root) (\<lambda>token_mint.
     res_bind (client_gmp_accounts env payer) (\<lambda>g.
     Inr (InterchainTransferIx
       \<lparr>xt_gmp = g, xt_authority = acc_signer authority, xt_its_root_pda = acc its_root,
        xt_token_manager_pda = acc_mut token_manager_pda, xt_token_program = acc program,
        xt_token_mint = acc_mut token_mint,
        xt_authority_token_account = acc_mut (ata_address lib authority token_mint program),
        xt_token_manager_ata = acc_mut (ata_address lib token_manager_pda token_mint program)\<rparr>
       token_id dest_chain dest_address amount gas_value caller_program_id caller_pda_seeds data)))))"

definition make_deploy_remote_interchain_token_instruction ::
    "env \<Rightarrow> its_lib \<Rightarrow> pubkey \<Rightarrow> pubkey \<Rightarrow> bytes \<Rightarrow> string \<Rightarrow> u64 \<Rightarrow> its_instruction result" where
  "make_deploy_remote_interchain_token_instruction env lib payer deployer salt dest_chain gas_value =
     res_bind (its_root_key env) (\<lambda>its_root_pda.
     let token_id = interchain_token_id env (its_network lib) deployer salt in
     res_bind (token_manager_key env token_id its_root_pda) (\<lambda>token_manager_pda.
     res_bind (token_mint_key env token_id its_root_pda) (\<lambda>token_mint.
     res_bind (client_gmp_accounts env payer) (\<lambda>g.
     Inr (DeployRemoteInterchainTokenIx
       \<lparr>dr_gmp = g, dr_deployer = acc_signer deployer, dr_token_mint = acc token_mint,
        dr_metadata_account = acc (metadata_address lib token_mint), dr_token_manager_pda = acc token_manager_pda,
        dr_its_root_pda = acc its_root_pda\<rparr> salt dest_chain gas_value)))))"

text \<open>\<open>DeployRemoteCanonicalInterchainToken\<close> has no deployer; the field repeats the payer.\<close>

definition make_deploy_remote_canonical_token_instruction ::
    "env \<Rightarrow> its_lib \<Rightarrow> pubkey \<Rightarrow> pubkey \<Rightarrow> string \<Rightarrow> u64 \<Rightarrow> its_instruction result" where
  "make_deploy_remote_canonical_token_instruction env lib payer token_mint dest_chain gas_value =
     res_bind (its_root_key env) (\<lambda>its_root_pda.
     let token_id = canonical_interchain_token_id env (its_network lib) token_mint in
     res_bind (token_manager_key env token_id its_root_pda) (\<lambda>token_manager_pda.
     res_bind (client_gmp_accounts env payer) (\<lambda>g.
     Inr (DeployRemoteCanonicalIx
       \<lparr>dr_gmp = g, dr_deployer = acc_signer_mut payer, dr_token_mint = acc token_mint,
        dr_metadata_account = acc (metadata_address lib token_mint), dr_token_manager_pda = acc token_manager_pda,
        dr_its_root_pda = acc its_root_pda\<rparr> dest_chain gas_value))))"

definition make_register_token_metadata_instruction ::
    "env \<Rightarrow> pubkey \<Rightarrow> pubkey \<Rightarrow> u64 \<Rightarrow> its_instruction result" where
  "make_register_token_metadata_instruction env payer token_mint gas_value =
     res_bind (its_root_key env) (\<lambda>its_root_pda.
     res_bind (client_gmp_accounts env payer) (\<lambda>g.
     Inr (RegisterTokenMetadataIx
       \<lparr>rm_gmp = g, rm_token_mint = acc token_mint, rm_its_root_pda = acc its_root_pda\<rparr> gas_value)))"

section \<open>The accounts a relayer adds to \<open>execute\<close>\<close>

definition execute_interchain_transfer_extra_accounts ::
    "env \<Rightarrow> pubkey \<Rightarrow> pubkey \<Rightarrow> pubkey \<Rightarrow> bool option \<Rightarrow> account_info list result" where
  "execute_interchain_transfer_extra_accounts env destination destination_token_authority destination_ata
       transfer_has_data =
     res_bind (if transfer_has_data = Some True
        then res_bind (find_key env (interchain_transfer_execute_seeds destination) (its_id env)) (\<lambda>k. Inr [acc k])
        else Inr []) (\<lambda>executor.
     Inr ([acc destination, acc destination_token_authority, acc_mut destination_ata] @ executor))"

definition optional_list :: "'a option \<Rightarrow> 'a list" where
  "optional_list x = (case x of None \<Rightarrow> [] | Some y \<Rightarrow> [y])"

definition execute_link_token_extra_accounts :: "pubkey option \<Rightarrow> pubkey option \<Rightarrow> account_info list" where
  "execute_link_token_extra_accounts operator operator_roles_pda =
     map acc (optional_list operator) @ map acc_mut (optional_list operator_roles_pda)"

definition execute_deploy_interchain_token_extra_accounts ::
    "pubkey \<Rightarrow> pubkey \<Rightarrow> pubkey \<Rightarrow> pubkey option \<Rightarrow> pubkey option \<Rightarrow> account_info list" where
  "execute_deploy_interchain_token_extra_accounts sysvar_instructions mpl_program mpl_account minter minter_roles_pda =
     [acc sysvar_instructions, acc mpl_program, acc_mut mpl_account]
       @ map acc_mut (optional_list minter) @ map acc_mut (optional_list minter_roles_pda)"

end
