(* ===== verification/Its_Client_Inv.thy ===== *)
theory Its_Client_Inv
  imports Its_Client Its_Run
begin

text \<open>
  What the derived accounts of a built instruction amount to on a state with the invariant: each
  account constraint holds exactly when the service, the manager or the role is there. One lemma per
  constraint, then one per kind of instruction: the roles handed over, the flow limiters and limits,
  the service's configuration.
\<close>

section \<open>The constraints on derived addresses\<close>

lemma client_acc [simp]:
  "ai_key (acc k) = k" "ai_key (acc_mut k) = k" "ai_key (acc_signer k) = k" "ai_key (acc_signer_mut k) = k"
  "ai_signer (acc_signer k)" "ai_signer (acc_signer_mut k)" "ai_writable (acc_mut k)" "ai_writable (acc_signer_mut k)"
  "\<not> ai_signer (acc k)" "\<not> ai_signer (acc_mut k)"
  by (simp_all add: acc_defs)

named_theorems client_load

lemma its_root_key_addr: "its_root_key env = Inr rk \<longleftrightarrow> (\<exists>b. root_addr env rk b)"
  by (simp add: its_root_key_def root_addr_def res_inv)

lemma user_roles_key_addr: "length w = 32 \<Longrightarrow> user_roles_key env r w = Inr k \<longleftrightarrow> (\<exists>b. roles_addr env r w k b)"
  by (simp add: user_roles_key_def roles_addr_def res_inv)

lemma client_root [client_load]:
  assumes "its_pre env st" and "its_root_key env = Inr (ai_key a)"
  shows "load_its_root env st a = Inr s \<longleftrightarrow> its_accounts st (ai_key a) = Some (ItsRootAcc s)"
proof -
  have "create_program_address env (its_root_seeds @ [[its_bump s]]) (its_id env) = Some (ai_key a)"
    if "its_accounts st (ai_key a) = Some (ItsRootAcc s)"
    using its_okD [OF its_preD(3) [OF assms(1)] that] pda_lawD [OF its_preD(1) [OF assms(1)]] by (auto simp: root_addr_def)
  then show ?thesis by (auto simp: res_inv)
qed

lemma client_roles [client_load]:
  assumes "its_pre env st" and "user_roles_key env r w = Inr (ai_key a)" and "length w = 32"
  shows "load_user_roles env st r w a = Inr u \<longleftrightarrow> its_accounts st (ai_key a) = Some (UserRolesAcc u)"
proof -
  have "create_program_address env (user_roles_seeds r w @ [[ur_bump u]]) (its_id env) = Some (ai_key a)"
    if at: "its_accounts st (ai_key a) = Some (UserRolesAcc u)"
  proof -
    obtain b where b: "roles_addr env r w (ai_key a) b" using assms(2,3) by (auto simp: user_roles_key_addr)
    obtain r' w' where "roles_addr env r' w' (ai_key a) (ur_bump u)" using its_okD [OF its_preD(3) [OF assms(1)] at] by auto
    with roles_addr_inj [OF its_preD(1,2) [OF assms(1)] b this] roles_addr_create [OF its_preD(1) [OF assms(1)] b]
    show ?thesis by simp
  qed
  then show ?thesis by (auto simp: res_inv)
qed

lemma client_manager [client_load]:
  assumes "its_pre env st" and "its_root_key env = Inr rk" and "token_manager_key env tid rk = Inr (ai_key a)"
  shows "load_token_manager env st rk tid a = Inr t \<longleftrightarrow> its_accounts st (ai_key a) = Some (TokenManagerAcc t)"
    and "load_own_token_manager env st rk a = Inr t \<longleftrightarrow> its_accounts st (ai_key a) = Some (TokenManagerAcc t)"
    and "its_accounts st (ai_key a) = Some (TokenManagerAcc t) \<Longrightarrow> tm_token_id t = tid"
proof -
  obtain rb b where r: "root_addr env rk rb"
    and b: "try_find_program_address env (token_manager_seeds tid rk) (its_id env) = Some (ai_key a, b)"
    using assms(2,3) by (auto simp: its_root_key_addr token_manager_key_def res_inv)
  note c = pda_lawD [OF its_preD(1) [OF assms(1)] b]
  have id: "tid = tm_token_id t \<and> b = tm_bump t" if "its_accounts st (ai_key a) = Some (TokenManagerAcc t)" for t
  proof -
    have "manager_addr env (tm_token_id t) (ai_key a) (tm_bump t)" using its_okD [OF its_preD(3) [OF assms(1)] that] by simp
    from manager_addr_unique [OF its_preD(1,2) [OF assms(1)] this r c] show ?thesis .
  qed
  show "load_token_manager env st rk tid a = Inr t \<longleftrightarrow> its_accounts st (ai_key a) = Some (TokenManagerAcc t)"
    "load_own_token_manager env st rk a = Inr t \<longleftrightarrow> its_accounts st (ai_key a) = Some (TokenManagerAcc t)"
    "its_accounts st (ai_key a) = Some (TokenManagerAcc t) \<Longrightarrow> tm_token_id t = tid"
    using c by (auto simp: res_inv dest: id)
qed

text \<open>At the address of a roles account there is a roles account or nothing.\<close>

lemma roles_addr_no_resource:
  assumes "its_pre env st" and a: "roles_addr env r w k b"
  shows "no_resource (its_accounts st k)"
proof (rule ccontr)
  assume "\<not> no_resource (its_accounts st k)"
  then obtain e where e: "its_accounts st k = Some e" and ne: "\<nexists>u. e = UserRolesAcc u" by (auto simp: no_resource_def)
  note law = its_preD(1,2) [OF assms(1)]
  note c = roles_addr_create [OF law(1) a]
  have seed: False if "create_program_address env (seed # rest) (its_id env) = Some k"
      "seed = str_bytes ''interchain-token-service'' \<or> seed = str_bytes ''token-manager''" for seed rest
    using pda_injD [OF law(2) that(1) c] that(2) by (auto simp: user_roles_seeds_def str_bytes_def)
  show False
  proof (cases e)
    case (ItsRootAcc s)
    with its_okD [OF its_preD(3) [OF assms(1)] e] have "root_addr env k (its_bump s)" by simp
    from pda_lawD [OF law(1) this [unfolded root_addr_def]] show False
      by (intro seed) (auto simp: its_root_seeds_def)
  next
    case (TokenManagerAcc t)
    with its_okD [OF its_preD(3) [OF assms(1)] e] obtain root where
      "try_find_program_address env (token_manager_seeds (tm_token_id t) root) (its_id env) = Some (k, tm_bump t)"
      by (auto simp: manager_addr_def)
    from pda_lawD [OF law(1) this] show False
      by (intro seed) (auto simp: token_manager_seeds_def)
  qed (use ne in simp)
qed

lemma client_init_roles:
  assumes "its_pre env st" and "user_roles_key env r w = Inr k" and "length w = 32"
  obtains v b where "init_user_roles_if_needed env st r w (acc_mut k) = Inr (v, b)"
    and "roles v = roles_at env (its_accounts st) r w" and "roles_cell env (its_accounts st) r w k b (roles v)"
proof -
  obtain b where b: "roles_addr env r w k b" using assms(2,3) by (auto simp: user_roles_key_addr)
  define v where "v = (case its_accounts st k of Some (UserRolesAcc u) \<Rightarrow> u | _ \<Rightarrow> \<lparr>roles = 0, ur_bump = 0\<rparr>)"
  have i: "init_user_roles_if_needed env st r w (acc_mut k) = Inr (v, b)"
    using roles_addr_no_resource [OF assms(1) b] b
    by (auto simp: init_user_roles_if_needed_def v_def acc_mut_def no_resource_def roles_addr_def check_mut_def
        check_seeds_canonical_def find_program_address_def irole.load_Inr res_inv split: option.splits)
  have c: "roles_cell env (its_accounts st) r w k b (roles v)"
    using roles_cell_init_if_needed [OF i assms(3)] by (simp add: acc_mut_def)
  from that [OF i roles_cell_at [OF c, symmetric] c] show thesis .
qed

text \<open>A signer who has a role: the roles account is there and holds it.\<close>

lemma client_has_role:
  assumes "its_pre env st" and "user_roles_key env r w = Inr k" and "length w = 32" and "\<not> has_role 0 x"
  shows "(\<exists>u. its_accounts st k = Some (UserRolesAcc u) \<and> has_role (roles u) x) \<longleftrightarrow>
     has_role (roles_at env (its_accounts st) r w) x"
proof -
  obtain b where b: "roles_addr env r w k b" using assms(2,3) by (auto simp: user_roles_key_addr)
  show ?thesis
    using roles_addr_no_resource [OF assms(1) b] assms(4)
    by (auto simp: roles_at_addr [OF b] entry_roles_def no_resource_def)
qed

lemma role_nonzero: "\<not> has_role 0 OPERATOR" "\<not> has_role 0 MINTER" "\<not> has_role 0 FLOW_LIMITER"
  by (simp_all add: has_role_def role_defs)

section \<open>Handing a role over\<close>

text \<open>The accounts of a hand-over of \<open>role\<close> from \<open>w\<close> to \<open>w'\<close> on \<open>r\<close>, as the builders make them.\<close>

definition hand_over_accounts :: "env \<Rightarrow> pubkey \<Rightarrow> pubkey \<Rightarrow> pubkey \<Rightarrow> RoleTransfer \<Rightarrow> bool" where
  "hand_over_accounts env r w w' a \<longleftrightarrow> ai_key (rt_system_program a) = system_program_id env \<and>
     ai_signer (rt_payer a) \<and> ai_writable (rt_payer a) \<and> rt_origin_user_account a = acc_signer w \<and>
     (\<exists>k. rt_origin_roles_account a = acc_mut k \<and> user_roles_key env r w = Inr k) \<and>
     rt_destination_user_account a = acc w' \<and>
     (\<exists>k. rt_destination_roles_account a = acc_mut k \<and> user_roles_key env r w' = Inr k)"

lemma hand_over_exact:
  assumes pre: "its_pre env st" and a: "hand_over_accounts env r w w' a" and len: "length w = 32" "length w' = 32"
    and role: "role \<in> {OPERATOR, MINTER}" and has: "\<And>u. has u = has_role (roles u) role"
    and res: "is_resource (its_accounts st) r"
  shows "(\<exists>st'. transfer_role env r role has missing a st = Inr st') \<longleftrightarrow>
      has_role (roles_at env (its_accounts st) r w) role \<and> w' \<noteq> w"
    and "transfer_role env r role has missing a st = Inr st' \<Longrightarrow>
      same_roles (roles_at env (its_accounts st'))
        (set_role (set_role (roles_at env (its_accounts st)) r w (roles_at env (its_accounts st) r w AND NOT role))
          r w' (roles_at env (its_accounts st) r w' OR role))"
proof -
  let ?R = "roles_at env (its_accounts st)"
  obtain ok dk where ok: "rt_origin_roles_account a = acc_mut ok" "user_roles_key env r w = Inr ok"
    and dk: "rt_destination_roles_account a = acc_mut dk" "user_roles_key env r w' = Inr dk"
    using a by (auto simp: hand_over_accounts_def)
  obtain v b where v: "init_user_roles_if_needed env st r w' (acc_mut dk) = Inr (v, b)" "roles v = ?R r w'"
    "roles_cell env (its_accounts st) r w' dk b (roles v)"
    using client_init_roles [OF pre dk(2) len(2)] .
  have z: "\<not> has_role 0 role" using role role_nonzero by auto
  have load: "load_user_roles env st r w (acc_mut ok) = Inr u \<longleftrightarrow> its_accounts st ok = Some (UserRolesAcc u)" for u
    using client_roles [OF pre, of r w "acc_mut ok"] ok(2) len(1) by simp
  have acct: "ai_key (rt_system_program a) = system_program_id env" "ai_signer (rt_payer a)" "ai_writable (rt_payer a)"
    "rt_origin_user_account a = acc_signer w" "rt_destination_user_account a = acc w'"
    using a by (auto simp: hand_over_accounts_def)
  have step: "transfer_role env r role has missing a st = Inr st' \<longleftrightarrow>
     (\<exists>u. its_accounts st ok = Some (UserRolesAcc u) \<and> has_role (roles u) role \<and> w' \<noteq> w \<and>
       st' = st\<lparr>its_accounts := ((its_accounts st)(ok := (if has_roles (remove_roles role u)
          then Some (UserRolesAcc (remove_roles role u)) else None)))
          (dk \<mapsto> UserRolesAcc ((insert_roles role v)\<lparr>ur_bump := b\<rparr>))\<rparr>)" for st'
    unfolding transfer_role_def Let_def res_bind_Inr acct ok(1) dk(1) client_acc load require_Inr has check_program_Inr
      check_payer_Inr check_signer_Inr check_mut_Inr v(1)
    using acct by (simp add: eq_commute [of st'] split del: if_split)
  show iff: "(\<exists>st'. transfer_role env r role has missing a st = Inr st') \<longleftrightarrow> has_role (?R r w) role \<and> w' \<noteq> w"
    using client_has_role [OF pre ok(2) len(1) z] by (auto simp: step)
  show "same_roles (roles_at env (its_accounts st')) (set_role (set_role ?R r w (?R r w AND NOT role)) r w' (?R r w' OR role))"
    if run: "transfer_role env r role has missing a st = Inr st'"
  proof -
    from run obtain u where u: "its_accounts st ok = Some (UserRolesAcc u)" "has_role (roles u) role" "w' \<noteq> w"
      and st': "its_accounts st' = ((its_accounts st)(ok := (if has_roles (remove_roles role u)
          then Some (UserRolesAcc (remove_roles role u)) else None)))
          (dk := Some (UserRolesAcc ((insert_roles role v)\<lparr>ur_bump := b\<rparr>)))"
      unfolding step by auto
    have l: "load_user_roles env st r w (acc_mut ok) = Inr u"
      using client_roles [OF pre, of r w "acc_mut ok"] ok(2) len(1) u(1) by simp
    note cu = roles_cell_loaded [OF its_preD [OF pre] l len(1), unfolded client_acc]
    have "same_roles (roles_at env (its_accounts st'))
       (set_role (set_role ?R r w (roles u AND NOT role)) r w' (roles v OR role))"
      unfolding st' by (rule roles_at_hand_over [OF its_preD [OF pre] cu v(3) res roles_entry_remove roles_entry_insert])
    with v(2) roles_cell_at [OF cu] show ?thesis by simp
  qed
qed

text \<open>The accounts the two kinds of builders make are such accounts.\<close>

lemma manager_transfer_accounts_ok:
  assumes "manager_transfer_accounts env payer w w' tid = Inr a"
  obtains rk tk where "its_root_key env = Inr rk" "token_manager_key env tid rk = Inr tk" "rt_its_root_pda a = acc rk"
    "rt_token_manager_account a = acc tk" "hand_over_accounts env tk w w' a"
  using assms by (auto simp: manager_transfer_accounts_def res_inv hand_over_accounts_def acc_defs)

lemma transfer_operatorship_exact:
  assumes pre: "its_pre env st" and ix: "make_transfer_operatorship_instruction env payer w w' = Inr ix"
    and len: "length w = 32" "length w' = 32" and rk: "its_root_key env = Inr rk"
  shows "(\<exists>st'. its_entry env lib view ix st = Inr st') \<longleftrightarrow>
      (\<exists>s. its_accounts st rk = Some (ItsRootAcc s)) \<and> has_role (roles_at env (its_accounts st) rk w) OPERATOR \<and> w' \<noteq> w"
    and "its_entry env lib view ix st = Inr st' \<Longrightarrow>
      same_roles (roles_at env (its_accounts st'))
        (set_role (set_role (roles_at env (its_accounts st)) rk w (roles_at env (its_accounts st) rk w AND NOT OPERATOR))
          rk w' (roles_at env (its_accounts st) rk w' OR OPERATOR))"
proof -
  obtain a where a: "ix = ItsTransferOperatorshipIx a" "rt_its_root_pda a = acc rk" "hand_over_accounts env rk w w' a"
    using ix rk by (auto simp: make_transfer_operatorship_instruction_def res_inv hand_over_accounts_def)
  have entry: "its_entry env lib view ix st = Inr st' \<longleftrightarrow> (\<exists>s. its_accounts st rk = Some (ItsRootAcc s)) \<and>
     transfer_role env rk OPERATOR has_operator_role MissingOperatorRole a st = Inr st'" for st'
    using client_root [OF pre, of "acc rk"] rk
    by (auto simp: a its_entry_def its_transfer_operatorship_def res_bind_Inr)
  show "(\<exists>st'. its_entry env lib view ix st = Inr st') \<longleftrightarrow>
      (\<exists>s. its_accounts st rk = Some (ItsRootAcc s)) \<and> has_role (roles_at env (its_accounts st) rk w) OPERATOR \<and> w' \<noteq> w"
    using hand_over_exact(1) [OF pre a(3) len _ has_role_tests(1)] unfolding entry by (auto simp: is_resource_def)
  show "same_roles (roles_at env (its_accounts st'))
        (set_role (set_role (roles_at env (its_accounts st)) rk w (roles_at env (its_accounts st) rk w AND NOT OPERATOR))
          rk w' (roles_at env (its_accounts st) rk w' OR OPERATOR))" if "its_entry env lib view ix st = Inr st'"
    using hand_over_exact(2) [OF pre a(3) len _ has_role_tests(1)] that unfolding entry by (auto simp: is_resource_def)
qed

text \<open>On a token manager, operatorship and mintership alike.\<close>

lemma manager_transfer_exact:
  assumes pre: "its_pre env st" and a: "manager_transfer_accounts env payer w w' tid = Inr a"
    and len: "length w = 32" "length w' = 32" and rk: "its_root_key env = Inr rk" and tk: "token_manager_key env tid rk = Inr tk"
    and ix: "(ix, role) \<in> {(TransferTokenManagerOperatorshipIx a, OPERATOR), (TransferMintershipIx a, MINTER)}"
  shows "(\<exists>st'. its_entry env lib view ix st = Inr st') \<longleftrightarrow>
      (\<exists>s. its_accounts st rk = Some (ItsRootAcc s)) \<and> (\<exists>t. its_accounts st tk = Some (TokenManagerAcc t)) \<and>
      has_role (roles_at env (its_accounts st) tk w) role \<and> w' \<noteq> w"
    and "its_entry env lib view ix st = Inr st' \<Longrightarrow>
      same_roles (roles_at env (its_accounts st'))
        (set_role (set_role (roles_at env (its_accounts st)) tk w (roles_at env (its_accounts st) tk w AND NOT role))
          tk w' (roles_at env (its_accounts st) tk w' OR role))"
proof -
  have acct: "rt_its_root_pda a = acc rk" "rt_token_manager_account a = acc tk" "hand_over_accounts env tk w w' a"
    by (rule manager_transfer_accounts_ok [OF a]; use rk tk in simp)+
  obtain has missing where has: "\<And>u. has u = has_role (roles u) role" and role: "role \<in> {OPERATOR, MINTER}"
    and entry: "\<And>st'. its_entry env lib view ix st = Inr st' \<longleftrightarrow> (\<exists>s. its_accounts st rk = Some (ItsRootAcc s)) \<and>
      (\<exists>t. its_accounts st tk = Some (TokenManagerAcc t)) \<and> transfer_role env tk role has missing a st = Inr st'"
  proof -
    note load = client_root [OF pre, of "acc rk"] client_manager(2) [OF pre rk, of tid "acc tk"]
    have op: "its_entry env lib view (TransferTokenManagerOperatorshipIx a) st = Inr st' \<longleftrightarrow>
       (\<exists>s. its_accounts st rk = Some (ItsRootAcc s)) \<and> (\<exists>t. its_accounts st tk = Some (TokenManagerAcc t)) \<and>
       transfer_role env tk OPERATOR has_operator_role MissingOperatorRole a st = Inr st'" for st'
      using load rk tk by (auto simp: its_entry_def transfer_token_manager_operatorship_def res_bind_Inr acct)
    have mi: "its_entry env lib view (TransferMintershipIx a) st = Inr st' \<longleftrightarrow>
       (\<exists>s. its_accounts st rk = Some (ItsRootAcc s)) \<and> (\<exists>t. its_accounts st tk = Some (TokenManagerAcc t)) \<and>
       transfer_role env tk MINTER has_minter_role MissingMinterRole a st = Inr st'" for st'
      using load rk tk by (auto simp: its_entry_def transfer_interchain_token_mintership_def res_bind_Inr acct)
    from ix consider "ix = TransferTokenManagerOperatorshipIx a" "role = OPERATOR" | "ix = TransferMintershipIx a" "role = MINTER"
      by auto
    then show thesis
    proof cases
      case 1
      show thesis by (rule that [of has_operator_role MissingOperatorRole]) (simp_all add: 1 has_role_tests op)
    next
      case 2
      show thesis by (rule that [of has_minter_role MissingMinterRole]) (simp_all add: 2 has_role_tests mi)
    qed
  qed
  show "(\<exists>st'. its_entry env lib view ix st = Inr st') \<longleftrightarrow>
      (\<exists>s. its_accounts st rk = Some (ItsRootAcc s)) \<and> (\<exists>t. its_accounts st tk = Some (TokenManagerAcc t)) \<and>
      has_role (roles_at env (its_accounts st) tk w) role \<and> w' \<noteq> w"
    using hand_over_exact(1) [OF pre acct(3) len role has] unfolding entry by (auto simp: is_resource_def)
  show "same_roles (roles_at env (its_accounts st'))
        (set_role (set_role (roles_at env (its_accounts st)) tk w (roles_at env (its_accounts st) tk w AND NOT role))
          tk w' (roles_at env (its_accounts st) tk w' OR role))" if "its_entry env lib view ix st = Inr st'"
    using hand_over_exact(2) [OF pre acct(3) len role has] that unfolding entry by (auto simp: is_resource_def)
qed

section \<open>Flow limiters\<close>

lemma has_role_has:
  "has_flow_limiter_role v \<longleftrightarrow> has_role (roles v) FLOW_LIMITER"
  "has_operator_role v \<longleftrightarrow> has_role (roles v) OPERATOR"
  "has_minter_role v \<longleftrightarrow> has_role (roles v) MINTER"
  by (simp_all add: has_role_tests)

text \<open>Writing the role on one roles account.\<close>

lemma roles_at_put:
  assumes "its_pre env st" and "roles_cell env (its_accounts st) r w k b x" and "is_resource (its_accounts st) r"
    and "roles_entry b y e"
  shows "same_roles (roles_at env ((its_accounts st)(k := e))) (set_role (roles_at env (its_accounts st)) r w y)"
  using its_ok_put_roles(2) [OF its_preD [OF assms(1)] _ _ assms(4,3)] assms(2) by (auto simp: roles_cell_def)

lemma manager_operator_exact:
  assumes pre: "its_pre env st" and a: "flow_limiter_accounts env payer w target tid = Inr a" and len: "length w = 32"
    and rk: "its_root_key env = Inr rk" and tk: "token_manager_key env tid rk = Inr tk"
  shows "check_manager_operator env a st = Inr () \<longleftrightarrow> (\<exists>s. its_accounts st rk = Some (ItsRootAcc s)) \<and>
     (\<exists>t. its_accounts st tk = Some (TokenManagerAcc t)) \<and> has_role (roles_at env (its_accounts st) tk w) OPERATOR"
proof -
  obtain uk vk where acct: "a = \<lparr>fc_system_program = acc (system_program_id env), fc_payer = acc_signer_mut payer,
       fc_authority_user_account = acc_signer w, fc_authority_roles_account = acc uk, fc_its_root_pda = acc rk,
       fc_token_manager_pda = acc tk, fc_target_user_account = acc target, fc_target_roles_account = acc_mut vk\<rparr>"
    and uk: "user_roles_key env tk w = Inr uk"
    using a rk tk by (auto simp: flow_limiter_accounts_def res_bind_Inr)
  show ?thesis
    using client_roles [OF pre, of tk w "acc uk"] client_root [OF pre, of "acc rk"] client_manager(2) [OF pre rk, of tid "acc tk"]
      client_has_role [OF pre uk len role_nonzero(1)] uk rk tk len
    by (auto simp: check_manager_operator_def Let_def acct res_bind_Inr require_Inr check_program_Inr check_payer_Inr
        check_signer_Inr has_role_has)
qed

lemma add_flow_limiter_exact:
  assumes pre: "its_pre env st" and a: "flow_limiter_accounts env payer w w' tid = Inr a"
    and len: "length w = 32" "length w' = 32" and rk: "its_root_key env = Inr rk" and tk: "token_manager_key env tid rk = Inr tk"
  shows "(\<exists>st'. add_token_manager_flow_limiter env a st = Inr st') \<longleftrightarrow> check_manager_operator env a st = Inr () \<and>
      \<not> has_role (roles_at env (its_accounts st) tk w') FLOW_LIMITER"
    and "add_token_manager_flow_limiter env a st = Inr st' \<Longrightarrow> same_roles (roles_at env (its_accounts st'))
      (set_role (roles_at env (its_accounts st)) tk w' (roles_at env (its_accounts st) tk w' OR FLOW_LIMITER))"
proof -
  obtain vk where acct: "fc_token_manager_pda a = acc tk" "fc_target_user_account a = acc w'"
    "fc_target_roles_account a = acc_mut vk" and vk: "user_roles_key env tk w' = Inr vk"
    using a rk tk by (auto simp: flow_limiter_accounts_def res_bind_Inr)
  obtain v b where v: "init_user_roles_if_needed env st tk w' (acc_mut vk) = Inr (v, b)"
    "roles v = roles_at env (its_accounts st) tk w'" "roles_cell env (its_accounts st) tk w' vk b (roles v)"
    using client_init_roles [OF pre vk len(2)] .
  have step: "add_token_manager_flow_limiter env a st = Inr st' \<longleftrightarrow> check_manager_operator env a st = Inr () \<and>
     \<not> has_role (roles v) FLOW_LIMITER \<and> put_its vk (UserRolesAcc ((insert_roles FLOW_LIMITER v)\<lparr>ur_bump := b\<rparr>)) st = st'" for st'
    by (auto simp: add_token_manager_flow_limiter_def acct res_bind_Inr require_Inr v(1) has_role_has)
  show "(\<exists>st'. add_token_manager_flow_limiter env a st = Inr st') \<longleftrightarrow> check_manager_operator env a st = Inr () \<and>
      \<not> has_role (roles_at env (its_accounts st) tk w') FLOW_LIMITER"
    by (auto simp: step v(2))
  assume run: "add_token_manager_flow_limiter env a st = Inr st'"
  then have "is_resource (its_accounts st) tk"
    using manager_operator_exact [OF pre a len(1) rk tk] by (auto simp: step is_resource_def)
  from roles_at_put [OF pre v(3) this roles_entry_insert [of b v FLOW_LIMITER]] run v(2)
  show "same_roles (roles_at env (its_accounts st'))
      (set_role (roles_at env (its_accounts st)) tk w' (roles_at env (its_accounts st) tk w' OR FLOW_LIMITER))"
    by (auto simp: step)
qed

lemma remove_flow_limiter_exact:
  assumes pre: "its_pre env st" and a: "flow_limiter_accounts env payer w w' tid = Inr a"
    and len: "length w = 32" "length w' = 32" and rk: "its_root_key env = Inr rk" and tk: "token_manager_key env tid rk = Inr tk"
  shows "(\<exists>st'. remove_token_manager_flow_limiter env a st = Inr st') \<longleftrightarrow> check_manager_operator env a st = Inr () \<and>
      has_role (roles_at env (its_accounts st) tk w') FLOW_LIMITER"
    and "remove_token_manager_flow_limiter env a st = Inr st' \<Longrightarrow> same_roles (roles_at env (its_accounts st'))
      (set_role (roles_at env (its_accounts st)) tk w' (roles_at env (its_accounts st) tk w' AND NOT FLOW_LIMITER))"
proof -
  obtain vk where acct: "fc_token_manager_pda a = acc tk" "fc_target_user_account a = acc w'"
    "fc_target_roles_account a = acc_mut vk" and vk: "user_roles_key env tk w' = Inr vk"
    using a rk tk by (auto simp: flow_limiter_accounts_def res_bind_Inr)
  have load: "load_user_roles env st tk w' (acc_mut vk) = Inr v \<longleftrightarrow> its_accounts st vk = Some (UserRolesAcc v)" for v
    using client_roles [OF pre, of tk w' "acc_mut vk"] vk len(2) by simp
  have step: "remove_token_manager_flow_limiter env a st = Inr st' \<longleftrightarrow> check_manager_operator env a st = Inr () \<and>
     (\<exists>v. its_accounts st vk = Some (UserRolesAcc v) \<and> has_role (roles v) FLOW_LIMITER \<and>
       st\<lparr>its_accounts := (its_accounts st)(vk := (if has_roles (remove_roles FLOW_LIMITER v)
         then Some (UserRolesAcc (remove_roles FLOW_LIMITER v)) else None))\<rparr> = st')" for st'
    unfolding remove_token_manager_flow_limiter_def acct res_bind_Inr require_Inr check_mut_Inr client_acc load Let_def has_role_has
    by (simp split del: if_split)
  show "(\<exists>st'. remove_token_manager_flow_limiter env a st = Inr st') \<longleftrightarrow> check_manager_operator env a st = Inr () \<and>
      has_role (roles_at env (its_accounts st) tk w') FLOW_LIMITER"
    using client_has_role [OF pre vk len(2) role_nonzero(3)] by (auto simp: step)
  assume run: "remove_token_manager_flow_limiter env a st = Inr st'"
  then obtain v where v: "its_accounts st vk = Some (UserRolesAcc v)" "check_manager_operator env a st = Inr ()"
    and st': "its_accounts st' = (its_accounts st)(vk := (if has_roles (remove_roles FLOW_LIMITER v)
         then Some (UserRolesAcc (remove_roles FLOW_LIMITER v)) else None))"
    unfolding step by auto
  have res: "is_resource (its_accounts st) tk"
    using manager_operator_exact [OF pre a len(1) rk tk] v(2) by (auto simp: is_resource_def)
  have "load_user_roles env st tk w' (acc_mut vk) = Inr v" using load v(1) by simp
  note c = roles_cell_loaded [OF its_preD [OF pre] this len(2), unfolded client_acc]
  show "same_roles (roles_at env (its_accounts st'))
      (set_role (roles_at env (its_accounts st)) tk w' (roles_at env (its_accounts st) tk w' AND NOT FLOW_LIMITER))"
    using roles_at_put [OF pre c res roles_entry_remove [of v FLOW_LIMITER]] roles_cell_at [OF c] unfolding st' by simp
qed

section \<open>Flow limits\<close>

lemma set_flow_limit_exact:
  assumes pre: "its_pre env st" and ix: "make_set_flow_limit_instruction env payer w tid limit = Inr ix"
    and len: "length w = 32" and rk: "its_root_key env = Inr rk" and tk: "token_manager_key env tid rk = Inr tk"
  shows "its_entry env lib view ix st = Inr st' \<longleftrightarrow> (\<exists>s. its_accounts st rk = Some (ItsRootAcc s)) \<and>
     has_role (roles_at env (its_accounts st) rk w) OPERATOR \<and>
     (\<exists>t. its_accounts st tk = Some (TokenManagerAcc t) \<and> flow_limit (flow_slot t) \<noteq> limit \<and>
       st' = emit_its (FlowLimitSet tid w limit) (put_its tk (TokenManagerAcc (with_flow_limit limit t)) st))"
proof -
  obtain uk where uk: "user_roles_key env rk w = Inr uk"
    and acct: "ix = SetFlowLimitIx \<lparr>sfl_payer = acc_signer_mut payer, sfl_operator = acc_signer w,
        sfl_its_root_pda = acc rk, sfl_its_roles_pda = acc uk, sfl_token_manager_pda = acc_mut tk,
        sfl_system_program = acc (system_program_id env)\<rparr> limit"
    using ix rk tk by (auto simp: make_set_flow_limit_instruction_def res_bind_Inr)
  show ?thesis
    using client_roles [OF pre, of rk w "acc uk"] client_root [OF pre, of "acc rk"] client_manager(2,3) [OF pre rk, of tid "acc_mut tk"]
      client_has_role [OF pre uk len role_nonzero(1)] uk rk tk len
    by (auto simp: its_entry_def set_flow_limit_def Let_def acct res_bind_Inr require_Inr check_program_Inr check_payer_Inr
        check_signer_Inr check_mut_Inr has_role_has)
qed

lemma set_token_manager_flow_limit_exact:
  assumes pre: "its_pre env st" and ix: "make_set_token_manager_flow_limit_instruction env payer w tid limit = Inr ix"
    and len: "length w = 32" and rk: "its_root_key env = Inr rk" and tk: "token_manager_key env tid rk = Inr tk"
  shows "its_entry env lib view ix st = Inr st' \<longleftrightarrow> (\<exists>s. its_accounts st rk = Some (ItsRootAcc s)) \<and>
     has_role (roles_at env (its_accounts st) tk w) FLOW_LIMITER \<and>
     (\<exists>t. its_accounts st tk = Some (TokenManagerAcc t) \<and>
       st' = emit_its (FlowLimitSet tid w limit) (put_its tk (TokenManagerAcc (with_flow_limit limit t)) st))"
proof -
  obtain uk where uk: "user_roles_key env tk w = Inr uk"
    and acct: "ix = SetTokenManagerFlowLimitIx \<lparr>stf_payer = acc_signer_mut payer, stf_flow_limiter = acc_signer w,
        stf_its_root_pda = acc rk, stf_token_manager_pda = acc_mut tk, stf_flow_limiter_roles_pda = acc uk,
        stf_system_program = acc (system_program_id env)\<rparr> limit"
    using ix rk tk by (auto simp: make_set_token_manager_flow_limit_instruction_def res_bind_Inr)
  show ?thesis
    using client_roles [OF pre, of tk w "acc uk"] client_root [OF pre, of "acc rk"] client_manager(2,3) [OF pre rk, of tid "acc_mut tk"]
      client_has_role [OF pre uk len role_nonzero(3)] uk rk tk len
    by (auto simp: its_entry_def set_token_manager_flow_limit_def Let_def acct res_bind_Inr require_Inr check_program_Inr
        check_payer_Inr check_signer_Inr check_mut_Inr has_role_has)
qed

section \<open>The service's configuration\<close>

lemma client_program_data:
  "program_data_key env = Inr k \<Longrightarrow> check_its_program_data env view w (acc k) = Inr () \<longleftrightarrow> upgrade_authority env view w"
  by (auto simp: check_its_program_data_def load_program_data_def upgrade_authority_def program_data_key_def res_inv)

lemma set_pause_status_exact:
  assumes pre: "its_pre env st" and ix: "make_set_pause_status_instruction env w p = Inr ix" and rk: "its_root_key env = Inr rk"
  shows "its_entry env lib view ix st = Inr st' \<longleftrightarrow> upgrade_authority env view w \<and>
     (\<exists>s. its_accounts st rk = Some (ItsRootAcc s) \<and> paused s \<noteq> p \<and> st' = put_its rk (ItsRootAcc (s\<lparr>paused := p\<rparr>)) st)"
  using ix rk client_root [OF pre, of "acc_mut rk"] client_program_data
  by (auto simp: make_set_pause_status_instruction_def its_entry_def set_pause_status_def res_bind_Inr require_Inr
      check_payer_Inr check_mut_Inr)

text \<open>
  The trusted chains: an operator of the service or the upgrade authority, whichever the client
  chose to prove.
\<close>

definition chain_admin :: "env \<Rightarrow> its_view \<Rightarrow> its_state \<Rightarrow> pubkey \<Rightarrow> pubkey \<Rightarrow> bool \<Rightarrow> bool" where
  "chain_admin env view st rk w use_operator_role \<longleftrightarrow>
     (if use_operator_role then has_role (roles_at env (its_accounts st) rk w) OPERATOR else upgrade_authority env view w)"

lemma trusted_chain_accounts_exact:
  assumes pre: "its_pre env st" and a: "trusted_chain_accounts env w op = Inr a" and len: "length w = 32"
    and rk: "its_root_key env = Inr rk"
  shows "load_root_as_admin env view a st = Inr s \<longleftrightarrow> chain_admin env view st rk w op \<and> its_accounts st rk = Some (ItsRootAcc s)"
    and "stc_its_root_pda a = acc_mut rk" and "stc_system_program a = acc (system_program_id env)"
proof -
  show root: "stc_its_root_pda a = acc_mut rk" "stc_system_program a = acc (system_program_id env)"
    using a rk by (auto simp: trusted_chain_accounts_def res_bind_Inr)
  have load: "load_its_root env st (acc_mut rk) = Inr s \<longleftrightarrow> its_accounts st rk = Some (ItsRootAcc s)"
    using client_root [OF pre, of "acc_mut rk"] rk by simp
  show "load_root_as_admin env view a st = Inr s \<longleftrightarrow> chain_admin env view st rk w op \<and> its_accounts st rk = Some (ItsRootAcc s)"
  proof (cases op)
    case True
    with a rk obtain uk where uk: "user_roles_key env rk w = Inr uk" and acct: "stc_payer a = acc_signer_mut w"
      "stc_user_roles a = Some (acc uk)" "stc_program_data a = None"
      by (auto simp: trusted_chain_accounts_def res_bind_Inr optional_key_Inr)
    show ?thesis
      using client_roles [OF pre, of rk w "acc uk"] client_has_role [OF pre uk len role_nonzero(1)] uk len True
      by (auto simp: load_root_as_admin_def Let_def acct root load res_bind_Inr require_Inr check_payer_Inr check_mut_Inr
          has_role_has chain_admin_def)
  next
    case False
    with a rk obtain k where k: "program_data_key env = Inr k" and acct: "stc_payer a = acc_signer_mut w"
      "stc_user_roles a = None" "stc_program_data a = Some (acc k)"
      by (auto simp: trusted_chain_accounts_def res_bind_Inr optional_key_Inr)
    show ?thesis
      using client_program_data [OF k] False
      by (auto simp: load_root_as_admin_def Let_def acct root load res_bind_Inr require_Inr check_payer_Inr check_mut_Inr
          chain_admin_def)
  qed
qed

lemma set_trusted_chain_exact:
  assumes pre: "its_pre env st" and ix: "make_set_trusted_chain_instruction env w c op = Inr ix" and len: "length w = 32"
    and rk: "its_root_key env = Inr rk"
  shows "its_entry env lib view ix st = Inr st' \<longleftrightarrow> chain_admin env view st rk w op \<and>
     (\<exists>s. its_accounts st rk = Some (ItsRootAcc s) \<and> c \<notin> set (trusted_chains s) \<and>
       st' = emit_its (TrustedChainSet c) (put_its rk (ItsRootAcc (add_trusted_chain c s)) st))"
  using ix trusted_chain_accounts_exact [OF pre _ len rk]
  by (auto simp: make_set_trusted_chain_instruction_def its_entry_def set_trusted_chain_def res_bind_Inr require_Inr
      check_program_Inr is_trusted_chain_iff)

lemma remove_trusted_chain_exact:
  assumes pre: "its_pre env st" and ix: "make_remove_trusted_chain_instruction env w c op = Inr ix" and len: "length w = 32"
    and rk: "its_root_key env = Inr rk"
  shows "its_entry env lib view ix st = Inr st' \<longleftrightarrow> chain_admin env view st rk w op \<and>
     (\<exists>s. its_accounts st rk = Some (ItsRootAcc s) \<and> c \<in> set (trusted_chains s) \<and>
       st' = emit_its (TrustedChainRemoved c) (put_its rk (ItsRootAcc (remove_trusted_chain c s)) st))"
  using ix trusted_chain_accounts_exact [OF pre _ len rk]
  by (auto simp: make_remove_trusted_chain_instruction_def its_entry_def remove_trusted_chain_ix_def res_bind_Inr require_Inr
      check_program_Inr is_trusted_chain_iff)

text \<open>At the service's address there is the service or nothing.\<close>

lemma root_key_vacant:
  assumes pre: "its_pre env st" and rk: "its_root_key env = Inr rk" and "\<nexists>s. its_accounts st rk = Some (ItsRootAcc s)"
  shows "its_accounts st rk = None"
proof (rule ccontr)
  assume "its_accounts st rk \<noteq> None"
  then obtain e where e: "its_accounts st rk = Some e" by blast
  note law = its_preD(1,2) [OF pre]
  obtain b where "try_find_program_address env its_root_seeds (its_id env) = Some (rk, b)"
    using rk by (auto simp: its_root_key_addr root_addr_def)
  note c = pda_lawD [OF law(1) this]
  have seed: False if "create_program_address env (seed # rest) (its_id env) = Some rk"
      "seed = str_bytes ''user-roles'' \<or> seed = str_bytes ''token-manager''" for seed rest
    using pda_injD [OF law(2) that(1) c] that(2) by (auto simp: its_root_seeds_def str_bytes_def)
  show False
  proof (cases e)
    case (UserRolesAcc u)
    with its_okD [OF its_preD(3) [OF pre] e] obtain r w where "roles_addr env r w rk (ur_bump u)" by auto
    from roles_addr_create [OF law(1) this] show False by (intro seed) (auto simp: user_roles_seeds_def)
  next
    case (TokenManagerAcc t)
    with its_okD [OF its_preD(3) [OF pre] e] obtain root where
      "try_find_program_address env (token_manager_seeds (tm_token_id t) root) (its_id env) = Some (rk, tm_bump t)"
      by (auto simp: manager_addr_def)
    from pda_lawD [OF law(1) this] show False by (intro seed) (auto simp: token_manager_seeds_def)
  qed (use assms(3) e in simp)
qed

text \<open>A roles account whose resource does not exist is vacant, and is not the resource itself.\<close>

lemma fresh_roles:
  assumes pre: "its_pre env st" and k: "user_roles_key env r w = Inr k" and len: "length w = 32"
    and res: "\<not> is_resource (its_accounts st) r"
  obtains b where "roles_addr env r w k b" and "its_accounts st k = None"
proof -
  obtain b where b: "roles_addr env r w k b" using k len by (auto simp: user_roles_key_addr)
  note law = its_preD(1,2) [OF pre]
  have "its_accounts st k = None"
  proof (rule ccontr)
    assume "its_accounts st k \<noteq> None"
    then obtain u where u: "its_accounts st k = Some (UserRolesAcc u)"
      using roles_addr_no_resource [OF pre b] by (auto simp: no_resource_def)
    obtain r' w' where "roles_addr env r' w' k (ur_bump u)" "is_resource (its_accounts st) r'"
      using its_okD [OF its_preD(3) [OF pre] u] by auto
    with roles_addr_inj [OF law b this(1)] res show False by simp
  qed
  with b show thesis by (rule that)
qed

lemma roles_key_not_root:
  assumes "pda_law env" and "pda_inj env" and b: "roles_addr env r w k b" and rk: "its_root_key env = Inr rk"
  shows "k \<noteq> rk"
proof
  assume "k = rk"
  obtain rb where "try_find_program_address env its_root_seeds (its_id env) = Some (rk, rb)"
    using rk by (auto simp: its_root_key_addr root_addr_def)
  note c = pda_lawD [OF assms(1) this]
  from pda_injD [OF assms(2) roles_addr_create [OF assms(1) b, unfolded \<open>k = rk\<close>] c]
  show False by (simp add: user_roles_seeds_def its_root_seeds_def str_bytes_def)
qed

lemma initialize_exact:
  assumes pre: "its_pre env st" and ix: "make_initialize_instruction env payer w c h = Inr ix" and len: "length w = 32"
    and rk: "its_root_key env = Inr rk"
  shows "(\<exists>st'. its_entry env lib view ix st = Inr st') \<longleftrightarrow> upgrade_authority env view payer \<and>
      (\<nexists>s. its_accounts st rk = Some (ItsRootAcc s))"
proof -
  obtain k uk where k: "program_data_key env = Inr k" and uk: "user_roles_key env rk w = Inr uk"
    and acct: "ix = ItsInitializeIx \<lparr>ii_payer = acc_signer_mut payer, ii_program_data = acc k, ii_its_root_pda = acc_mut rk,
        ii_system_program = acc (system_program_id env), ii_operator = acc_signer w,
        ii_user_roles_account = acc_mut uk\<rparr> c h"
    using ix rk by (auto simp: make_initialize_instruction_def res_bind_Inr)
  obtain rb where rb: "try_find_program_address env its_root_seeds (its_id env) = Some (rk, rb)"
    using rk by (auto simp: its_root_key_addr root_addr_def)
  obtain b where b: "roles_addr env rk w uk b" using uk len by (auto simp: user_roles_key_addr)
  have ne: "uk \<noteq> rk" by (rule roles_key_not_root [OF its_preD(1,2) [OF pre] b rk])
  have step: "(\<exists>st'. its_entry env lib view ix st = Inr st') \<longleftrightarrow> upgrade_authority env view payer \<and>
      its_accounts st rk = None \<and> its_accounts st uk = None"
    using client_program_data [OF k] rb b ne
    by (auto simp: its_entry_def its_initialize_def Let_def acct res_bind_Inr require_Inr check_program_Inr check_payer_Inr
        check_signer_Inr check_mut_Inr check_seeds_canonical_Inr check_vacant_Inr init_user_roles_Inr roles_addr_def)
  have "its_accounts st uk = None" if v: "its_accounts st rk = None"
  proof (rule fresh_roles [OF pre uk len])
    show "\<not> is_resource (its_accounts st) rk" using v by (simp add: is_resource_def)
  qed
  with step root_key_vacant [OF pre rk] show ?thesis by auto
qed

end
