(* ===== verification/Its_Contract.thy ===== *)
theory Its_Contract
  imports Its_Refine
begin

text \<open>
  The contract between the token service and the programs it delivers tokens to: what the service
  guarantees of the accounts it passes (\<open>invoke_destination_program\<close> against the constraints of
  \<open>executable_with_interchain_token_accounts!\<close>), and what a receiving program may rely on.
\<close>

section \<open>What the token programs keep\<close>

text \<open>No token operation closes a mint or an account, or changes whose it is.\<close>

definition mint_program :: "token_ledger \<Rightarrow> pubkey \<Rightarrow> pubkey option" where
  "mint_program T k = map_option mi_program (tl_mints T k)"

definition account_identity :: "token_ledger \<Rightarrow> pubkey \<Rightarrow> (pubkey \<times> pubkey \<times> pubkey) option" where
  "account_identity T k = map_option (\<lambda>t. (ta_program t, ta_mint t, ta_owner t)) (tl_accounts T k)"

definition ledger_shape :: "token_ledger \<Rightarrow> token_ledger \<Rightarrow> bool" where
  "ledger_shape T T' \<longleftrightarrow> (\<forall>k v. mint_program T k = Some v \<longrightarrow> mint_program T' k = Some v) \<and>
     (\<forall>k v. account_identity T k = Some v \<longrightarrow> account_identity T' k = Some v)"

lemma ledger_shape_refl [simp]: "ledger_shape T T"
  by (simp add: ledger_shape_def)

lemma ledger_shape_trans: "ledger_shape T T' \<Longrightarrow> ledger_shape T' T'' \<Longrightarrow> ledger_shape T T''"
  unfolding ledger_shape_def by blast

text \<open>The loads of a mint and of an associated account succeed by these readings alone.\<close>

lemma load_mint_of_ok: "(\<exists>m. load_mint_of T p a = Inr m) \<longleftrightarrow> mint_program T (ai_key a) = Some (ai_key p)"
  by (auto simp: load_mint_of_def load_mint_def res_inv mint_program_def)

lemma load_ata_ok:
  "(\<exists>t. load_ata lib T w m p a = Inr t) \<longleftrightarrow> account_identity T (ai_key a) = Some (p, m, w) \<and> ai_key a = ata_address lib w m p"
  by (auto simp: load_ata_def load_token_account_def res_inv account_identity_def)

text \<open>
  The documented behaviour of the operations a delivery uses; the associated account is created for
  its wallet and mint.
\<close>

definition spl_law :: "its_lib \<Rightarrow> bool" where
  "spl_law lib \<longleftrightarrow>
     (\<forall>p m k a n T T'. spl_mint_to lib p m k a n T = Some T' \<longrightarrow> ledger_shape T T') \<and>
     (\<forall>p f m k a n d T T'. spl_transfer_checked lib p f m k a n d T = Some T' \<longrightarrow> ledger_shape T T') \<and>
     (\<forall>p f m k a n d e T T'. spl_transfer_checked_with_fee lib p f m k a n d e T = Some T' \<longrightarrow> ledger_shape T T') \<and>
     (\<forall>w m p T T'. spl_create_ata lib w m p T = Some T' \<longrightarrow> ledger_shape T T' \<and>
        account_identity T' (ata_address lib w m p) = Some (p, m, w))"

lemma spl_lawD:
  "spl_law lib \<Longrightarrow> spl_mint_to lib p m k a n T = Some T' \<Longrightarrow> ledger_shape T T'"
  "spl_law lib \<Longrightarrow> spl_transfer_checked lib p f m k a n d T = Some T' \<Longrightarrow> ledger_shape T T'"
  "spl_law lib \<Longrightarrow> spl_transfer_checked_with_fee lib p f m k a n d e T = Some T' \<Longrightarrow> ledger_shape T T'"
  "spl_law lib \<Longrightarrow> spl_create_ata lib w m p T = Some T' \<Longrightarrow> ledger_shape T T'"
  "spl_law lib \<Longrightarrow> spl_create_ata lib w m p T = Some T' \<Longrightarrow> account_identity T' (ata_address lib w m p) = Some (p, m, w)"
  by (unfold spl_law_def) (meson+)

lemma init_ata_if_needed_shape:
  assumes "spl_law lib" and "init_ata_if_needed lib w m p a T = Inr T1"
  shows "ledger_shape T T1" and "\<exists>t. load_ata lib T1 w m p a = Inr t"
proof -
  have "ledger_shape T T1 \<and> (\<exists>t. load_ata lib T1 w m p a = Inr t)"
  proof (cases "tl_accounts T (ai_key a) = None")
    case True
    with assms(2) have "ai_key a = ata_address lib w m p" "spl_create_ata lib w m p T = Some T1"
      by (auto simp: init_ata_if_needed_def res_inv)
    with spl_lawD(4,5) [OF assms(1) this(2)] show ?thesis by (simp add: load_ata_ok)
  next
    case False
    with assms(2) show ?thesis by (auto simp: init_ata_if_needed_def res_inv)
  qed
  then show "ledger_shape T T1" and "\<exists>t. load_ata lib T1 w m p a = Inr t" by blast+
qed

lemma give_token_shape:
  "spl_law lib \<Longrightarrow> give_token env lib view a t m n T = Inr (x, t', T') \<Longrightarrow> ledger_shape T T'"
  unfolding give_token_def Let_def
  by (cases "ty t") (auto simp: res_bind_Inr spl_Inr dest: spl_lawD(1-3))

section \<open>The accounts of the call\<close>

text \<open>What the called program sees: its accounts in order, each with the privileges of the call.\<close>

definition destination_accounts ::
    "account_info list \<Rightarrow> (AxelarExecuteWithInterchainTokenAccounts \<times> account_info list) option" where
  "destination_accounts metas =
     (case map (merged metas) metas of
        tp # tm # authority # ata # executor # rest \<Rightarrow>
          Some (\<lparr>et_token_program = tp, et_token_mint = tm, et_destination_token_authority = authority,
            et_destination_program_ata = ata, et_interchain_transfer_execute = executor\<rparr>, rest)
      | _ \<Rightarrow> None)"

text \<open>
  The inversion of a delivery with data: one call of the destination, with the accounts of the
  transfer and those the data names, for the amount that arrived.
\<close>

definition call_accounts :: "ExecuteInterchainTransfer \<Rightarrow> account_info \<Rightarrow> AxelarExecuteWithInterchainTokenAccounts" where
  "call_accounts a executor = \<lparr>et_token_program = ex_token_program a, et_token_mint = ex_token_mint a,
     et_destination_token_authority = ex_destination_token_authority a, et_destination_program_ata = ex_destination_ata a,
     et_interchain_transfer_execute = executor\<rparr>"

lemma invoke_destination_program_Inr:
  assumes "invoke_destination_program env lib a remaining b message sc sa tid x data st = Inr st'"
  obtains executor b' p T gw gas where "ex_interchain_transfer_execute a = Some executor" "b = Some b'"
    "payload_decode (il_payload lib) data = Inr p" "account_meta p = remaining"
    "destination_call lib (ai_key (ex_destination a)) (execute_with_token_metas (call_accounts a executor) @ account_meta p)
       (ITS_EXECUTE_IX_DISC, \<lparr>ep_command_id = command_id env message, ep_source_chain = sc, ep_source_address = sa,
          ep_token_id = tid, ep_token_mint = ai_key (ex_token_mint a), ep_amount = x,
          ep_data = payload_without_accounts p\<rparr>) (its_tokens st, its_gateway st, its_gas st) = Some (T, gw, gas)"
    "st' = st\<lparr>its_tokens := T, its_gateway := gw, its_gas := gas\<rparr>"
  using assms unfolding invoke_destination_program_def Let_def call_accounts_def [symmetric]
  by (auto simp: res_bind_Inr spl_Inr ok_or_Inr require_Inr)

lemma destination_accounts_of_call:
  "\<exists>x rest. destination_accounts (execute_with_token_metas (call_accounts a executor) @ ms) = Some (x, rest) \<and>
     ai_key (et_token_program x) = ai_key (ex_token_program a) \<and> ai_key (et_token_mint x) = ai_key (ex_token_mint a) \<and>
     ai_key (et_destination_token_authority x) = ai_key (ex_destination_token_authority a) \<and>
     ai_key (et_destination_program_ata x) = ai_key (ex_destination_ata a) \<and>
     ai_key (et_interchain_transfer_execute x) = ai_key executor \<and> ai_signer (et_interchain_transfer_execute x)"
  by (simp add: destination_accounts_def execute_with_token_metas_def call_accounts_def merged_def acc_defs)

lemma delivery_checked:
  assumes law: "spl_law lib" and c: "check_execute_transfer env lib a da tid st = Inr (t, m, T1, Some b)"
    and auth: "check_destination_authority env lib view (ai_key (ex_destination a)) (ai_key (ex_destination_token_authority a)) = Inr ()"
    and prog: "is_bpf_loader_owned env lib (account_owner view da)"
    and g: "give_token env lib view a t m n T1 = Inr (x, t', T')"
    and e: "ex_interchain_transfer_execute a = Some executor"
    and d: "destination_accounts (execute_with_token_metas (call_accounts a executor) @ ms) = Some (y, rest)"
  shows "check_execute_with_token_accounts env lib da y T' = Inr ()"
proof -
  note cc = check_execute_transfer_Inr [OF c]
  from destination_accounts_of_call [of a executor ms] d have y:
    "ai_key (et_token_program y) = ai_key (ex_token_program a)" "ai_key (et_token_mint y) = ai_key (ex_token_mint a)"
    "ai_key (et_destination_token_authority y) = ai_key (ex_destination_token_authority a)"
    "ai_key (et_destination_program_ata y) = ai_key (ex_destination_ata a)"
    "ai_key (et_interchain_transfer_execute y) = ai_key executor" "ai_signer (et_interchain_transfer_execute y)" by auto
  have p: "check_token_program lib (ex_token_program a) = Inr ()"
    "check_seeds_canonical env (interchain_transfer_execute_seeds da) (its_id env) (ai_key executor) = Inr b"
    using c e cc(1) unfolding check_execute_transfer_def Let_def by (auto simp: res_bind_Inr)
  note shape = init_ata_if_needed_shape [OF law cc(6)] give_token_shape [OF law g]
  have mint: "\<exists>m'. load_mint_of T' (et_token_program y) (et_token_mint y) = Inr m'"
    using cc(5) ledger_shape_trans [OF shape(1,3)] unfolding ledger_shape_def load_mint_of_ok y
    by (metis load_mint_of_ok)
  have ata: "\<exists>t'. load_ata lib T' (ai_key (et_destination_token_authority y)) (ai_key (et_token_mint y))
      (ai_key (et_token_program y)) (et_destination_program_ata y) = Inr t'"
    using shape(2,3) unfolding ledger_shape_def load_ata_ok y by blast
  have authority: "\<exists>b. check_seeds_canonical env [ITS_TOKEN_AUTHORITY_SEED] da (ai_key (et_destination_token_authority y)) = Inr b"
    using auth prog cc(1) unfolding check_destination_authority_def destination_token_authority_pda_def
    by (auto simp: res_inv y find_program_address_def)
  have "check_token_program lib (et_token_program y) = Inr ()" using p(1) by (simp add: check_token_program_def y)
  with mint ata authority p(2) y show ?thesis
    unfolding check_execute_with_token_accounts_def Let_def by (auto simp: res_inv)
qed

section \<open>Receiving programs\<close>

text \<open>
  A receiving program \<open>self\<close>: its handler for the call, over its own state, with the ledgers it
  shares. It accepts only what passes the generated constraints. What it may rely on: nobody but the
  service can call it, and a delivery to it succeeded only if its handler did, on the amount that
  arrived and the bytes of the data.
\<close>

locale token_receiver =
  fixes env :: env and lib :: its_lib and self :: pubkey
    and receive :: "'s \<Rightarrow> account_info list \<Rightarrow> bytes \<times> AxelarExecuteWithInterchainTokenPayload \<Rightarrow>
      token_ledger \<times> gateway_state \<times> gas_state \<Rightarrow> 's result"
    and ledgers :: "'s \<Rightarrow> token_ledger \<times> gateway_state \<times> gas_state"
  assumes receive_checks: "receive s metas (ITS_EXECUTE_IX_DISC, p) L = Inr s' \<Longrightarrow>
    \<exists>y rest. destination_accounts metas = Some (y, rest) \<and>
      check_execute_with_token_accounts env lib self y (fst L) = Inr ()"
begin

lemma only_service_calls:
  assumes "receive s metas (ITS_EXECUTE_IX_DISC, p) L = Inr s'"
  shows "\<exists>k b. try_find_program_address env (interchain_transfer_execute_seeds self) (its_id env) = Some (k, b) \<and>
    (\<exists>i \<in> set metas. ai_key i = k \<and> ai_signer i)"
proof -
  from receive_checks [OF assms] obtain y rest where d: "destination_accounts metas = Some (y, rest)"
    and c: "check_execute_with_token_accounts env lib self y (fst L) = Inr ()" by blast
  from c obtain b where b: "try_find_program_address env (interchain_transfer_execute_seeds self) (its_id env) =
      Some (ai_key (et_interchain_transfer_execute y), b)" "ai_signer (et_interchain_transfer_execute y)"
    unfolding check_execute_with_token_accounts_def Let_def by (auto simp: res_inv)
  from d obtain e where "et_interchain_transfer_execute y = merged metas e"
    by (auto simp: destination_accounts_def split: list.splits)
  with b show ?thesis by (auto simp: merged_def)
qed

lemma delivered:
  assumes call: "\<And>metas ix L. destination_call lib self metas ix L =
      (case receive s metas ix L of Inl _ \<Rightarrow> None | Inr s' \<Rightarrow> Some (ledgers s'))"
    and ok: "execute_interchain_transfer env lib view a remaining message sc sa self tid n data st = Inr st'"
    and data: "data \<noteq> []"
  shows "\<exists>p x s' T metas. payload_decode (il_payload lib) data = Inr p \<and>
    metas = execute_with_token_metas (call_accounts a (the (ex_interchain_transfer_execute a))) @ account_meta p \<and>
    receive s metas (ITS_EXECUTE_IX_DISC, \<lparr>ep_command_id = command_id env message, ep_source_chain = sc,
        ep_source_address = sa, ep_token_id = tid, ep_token_mint = ai_key (ex_token_mint a), ep_amount = x,
        ep_data = payload_without_accounts p\<rparr>) (T, its_gateway st, its_gas st) = Inr s' \<and>
    ledgers s' = (its_tokens st', its_gateway st', its_gas st') \<and>
    its_events st' = its_events st @ [InterchainTransferReceived (command_id env message) tid sc sa self
      (ai_key (ex_destination_ata a)) x (Some (keccak env data))]"
  using ok
proof (rule execute_interchain_transferE)
  fix t m T1 b x f T'
  let ?st = "emit_its (InterchainTransferReceived (command_id env message) tid sc sa self (ai_key (ex_destination_ata a)) x
      (if data = [] then None else Some (keccak env data)))
    (put_its (ai_key (ex_token_manager_pda a)) (TokenManagerAcc (t\<lparr>flow_slot := f\<rparr>)) (st\<lparr>its_tokens := T'\<rparr>))"
  assume c: "check_execute_transfer env lib a self tid st = Inr (t, m, T1, b)"
    and "(if data = [] then Inr else invoke_destination_program env lib a remaining b message sc sa tid x data) ?st = Inr st'"
  then have "invoke_destination_program env lib a remaining b message sc sa tid x data ?st = Inr st'" using data by simp
  then show ?thesis
  proof (rule invoke_destination_program_Inr)
    fix executor b' p T gw gas
    let ?metas = "execute_with_token_metas (call_accounts a executor) @ account_meta p"
    let ?ix = "(ITS_EXECUTE_IX_DISC, \<lparr>ep_command_id = command_id env message, ep_source_chain = sc, ep_source_address = sa,
        ep_token_id = tid, ep_token_mint = ai_key (ex_token_mint a), ep_amount = x, ep_data = payload_without_accounts p\<rparr>)"
    assume i: "ex_interchain_transfer_execute a = Some executor" "payload_decode (il_payload lib) data = Inr p"
      "destination_call lib (ai_key (ex_destination a)) ?metas ?ix (its_tokens ?st, its_gateway ?st, its_gas ?st) = Some (T, gw, gas)"
      "st' = ?st\<lparr>its_tokens := T, its_gateway := gw, its_gas := gas\<rparr>"
    have "destination_call lib self ?metas ?ix (T', its_gateway st, its_gas st) = Some (T, gw, gas)"
      using i(3) check_execute_transfer_Inr(1) [OF c] by (simp add: emit_its_def put_its_def)
    then obtain s' where s': "receive s ?metas ?ix (T', its_gateway st, its_gas st) = Inr s'" "ledgers s' = (T, gw, gas)"
      unfolding call by (auto split: sum.splits)
    then show ?thesis
      using i data by (intro exI [of _ p] exI [of _ x] exI [of _ s'] exI [of _ T']) (simp add: emit_its_def put_its_def)
  qed
qed

end

end
