(* ===== verification/Its_Client_Tokens.thy ===== *)
theory Its_Client_Tokens
  imports Its_Client_Inv Its_Contract
begin

text \<open>
  The built instructions that move tokens: a mint by a minter, the deployment of a token and what it
  leaves for its minter, and the transfer out, whose builder always names the mint the service itself
  would have created.
\<close>

section \<open>Minting\<close>

lemma client_active_root:
  assumes "its_pre env st" and "its_root_key env = Inr (ai_key a)"
  shows "load_active_root env st a = Inr s \<longleftrightarrow> its_accounts st (ai_key a) = Some (ItsRootAcc s) \<and> \<not> paused s"
  using client_root [OF assms] by (simp add: load_active_root_def res_bind_Inr require_Inr)

text \<open>A token account of the mint, kept by the token program the client names.\<close>

definition holds_mint :: "token_ledger \<Rightarrow> pubkey \<Rightarrow> pubkey \<Rightarrow> pubkey \<Rightarrow> bool" where
  "holds_mint T program mk k \<longleftrightarrow> (\<exists>x. tl_accounts T k = Some x \<and> ta_mint x = mk \<and> ta_program x = program)"

lemma mint_interchain_token_exact:
  assumes pre: "its_pre env st" and ix: "make_mint_interchain_token_instruction env tid n w dest program = Inr ix"
    and len: "length w = 32" and rk: "its_root_key env = Inr rk" and tk: "token_manager_key env tid rk = Inr tk"
    and mk: "token_mint_key env tid rk = Inr mk"
  shows "its_entry env lib view ix st = Inr st' \<longleftrightarrow>
     (\<exists>s. its_accounts st rk = Some (ItsRootAcc s) \<and> \<not> paused s) \<and> program \<in> {token_program_id lib, token_2022_id lib} \<and>
     mint_program (its_tokens st) mk = Some program \<and> holds_mint (its_tokens st) program mk dest \<and>
     has_role (roles_at env (its_accounts st) tk w) MINTER \<and> n \<noteq> 0 \<and>
     (\<exists>t T. its_accounts st tk = Some (TokenManagerAcc t) \<and> token_address t = mk \<and>
       spl_mint_to lib program mk dest (manager_signer env rk tid (tm_bump t) tk) n (its_tokens st) = Some T \<and>
       st' = st\<lparr>its_tokens := T\<rparr>)"
proof -
  obtain uk where uk: "user_roles_key env tk w = Inr uk"
    and acct: "ix = MintInterchainTokenIx \<lparr>mt_mint = acc_mut mk, mt_destination_account = acc_mut dest,
        mt_its_root_pda = acc rk, mt_token_manager_pda = acc_mut tk, mt_minter = acc_signer w,
        mt_minter_roles_pda = acc uk, mt_token_program = acc program\<rparr> n"
    using ix rk tk mk by (auto simp: make_mint_interchain_token_instruction_def res_bind_Inr)
  have mint: "(\<exists>m. load_mint_of (its_tokens st) (acc program) (acc_mut mk) = Inr m) \<longleftrightarrow> mint_program (its_tokens st) mk = Some program"
    by (simp add: load_mint_of_ok)
  have dest: "(\<exists>x. load_token_account (its_tokens st) program mk (acc_mut dest) = Inr x) \<longleftrightarrow> holds_mint (its_tokens st) program mk dest"
    by (auto simp: load_token_account_def holds_mint_def res_inv)
  have minter: "(\<exists>u. load_user_roles env st tk w (acc uk) = Inr u \<and> has_minter_role u) \<longleftrightarrow>
      has_role (roles_at env (its_accounts st) tk w) MINTER"
    using client_roles [OF pre, of tk w "acc uk"] client_has_role [OF pre uk len role_nonzero(2)] uk len
    by (auto simp: has_role_has)
  have root: "(\<exists>s. load_active_root env st (acc rk) = Inr s) \<longleftrightarrow> (\<exists>s. its_accounts st rk = Some (ItsRootAcc s) \<and> \<not> paused s)"
    using client_active_root [OF pre, of "acc rk"] rk by simp
  have manager: "load_own_token_manager env st rk (acc_mut tk) = Inr t \<longleftrightarrow> its_accounts st tk = Some (TokenManagerAcc t)"
    "its_accounts st tk = Some (TokenManagerAcc t) \<Longrightarrow> tm_token_id t = tid" for t
    using client_manager(2,3) [OF pre rk, of tid "acc_mut tk"] tk by simp_all
  have program: "check_token_program lib (acc program) = Inr () \<longleftrightarrow> program \<in> {token_program_id lib, token_2022_id lib}"
    by (simp add: check_token_program_def require_Inr)
  have "its_entry env lib view ix st = Inr st' \<longleftrightarrow>
      (\<exists>m. load_mint_of (its_tokens st) (acc program) (acc_mut mk) = Inr m) \<and>
      (\<exists>x. load_token_account (its_tokens st) program mk (acc_mut dest) = Inr x) \<and>
      (\<exists>s. load_active_root env st (acc rk) = Inr s) \<and>
      (\<exists>u. load_user_roles env st tk w (acc uk) = Inr u \<and> has_minter_role u) \<and>
      check_token_program lib (acc program) = Inr () \<and> n \<noteq> 0 \<and>
      (\<exists>t. load_own_token_manager env st rk (acc_mut tk) = Inr t \<and> token_address t = mk \<and>
        (\<exists>T. spl_mint_to lib program mk dest (manager_signer env rk (tm_token_id t) (tm_bump t) tk) n (its_tokens st) = Some T \<and>
          st' = st\<lparr>its_tokens := T\<rparr>))"
    by (auto simp: its_entry_def mint_interchain_token_def Let_def acct res_bind_Inr require_Inr check_mut_Inr
        check_signer_Inr spl_Inr)
  then show ?thesis
    unfolding mint dest root minter program manager(1) using manager(2) by blast
qed

section \<open>The transfer out\<close>

text \<open>
  The builder of a transfer derives the mint from the token id, as the service does for the tokens
  it deploys. A token that was registered has another mint, and its manager refuses the instruction.
\<close>

lemma transfer_instruction_mint:
  assumes pre: "its_pre env st"
    and ix: "make_interchain_transfer_instruction env lib tid n program payer w dc da g cp cs data = Inr ix"
    and rk: "its_root_key env = Inr rk" and tk: "token_manager_key env tid rk = Inr tk"
    and ok: "its_entry env lib view ix st = Inr st'"
  shows "\<exists>t. its_accounts st tk = Some (TokenManagerAcc t) \<and> token_mint_key env tid rk = Inr (token_address t)"
proof -
  obtain mk a where mk: "token_mint_key env tid rk = Inr mk" and acct: "ix = InterchainTransferIx a tid dc da n g cp cs data"
    "xt_its_root_pda a = acc rk" "xt_token_manager_pda a = acc_mut tk" "xt_token_mint a = acc_mut mk"
    using ix rk tk by (auto simp: make_interchain_transfer_instruction_def res_bind_Inr)
  have "\<exists>t. load_token_manager env st rk tid (acc_mut tk) = Inr t \<and> token_address t = mk"
    using ok by (auto simp: its_entry_def acct interchain_transfer_def check_interchain_transfer_def Let_def res_bind_Inr require_Inr)
  with client_manager(1) [OF pre rk, of tid "acc_mut tk"] tk mk show ?thesis by auto
qed

lemma mint_instruction_mint:
  assumes pre: "its_pre env st" and ix: "make_mint_interchain_token_instruction env tid n w dest program = Inr ix"
    and len: "length w = 32" and rk: "its_root_key env = Inr rk" and tk: "token_manager_key env tid rk = Inr tk"
    and ok: "its_entry env lib view ix st = Inr st'"
  shows "\<exists>t. its_accounts st tk = Some (TokenManagerAcc t) \<and> token_mint_key env tid rk = Inr (token_address t)"
proof -
  obtain mk where mk: "token_mint_key env tid rk = Inr mk"
    using ix rk tk by (auto simp: make_mint_interchain_token_instruction_def res_bind_Inr)
  with mint_interchain_token_exact [OF pre ix len rk tk mk] ok show ?thesis by auto
qed

section \<open>Deploying a token\<close>

lemma deploy_instruction_result:
  assumes ix: "make_deploy_interchain_token_instruction env lib payer deployer salt name symbol d n minter = Inr ix"
    and rk: "its_root_key env = Inr rk" and tid: "tid = interchain_token_id env (its_network lib) deployer salt"
    and tk: "token_manager_key env tid rk = Inr tk" and mk: "token_mint_key env tid rk = Inr mk"
    and ok: "its_entry env lib view ix st = Inr st'"
  obtains s b rb T roles_pda where "its_accounts st rk = Some (ItsRootAcc s)" and "\<not> paused s"
    and "try_find_program_address env (token_manager_seeds tid rk) (its_id env) = Some (tk, b)"
    and "its_accounts st tk = None" and "tl_mints (its_tokens st) mk = None"
    and "optional_key (user_roles_key env tk) minter = Inr roles_pda"
    and "init_optional_roles env st tk MinterNotProvided (map_option acc minter) (map_option acc_mut roles_pda) = Inr rb"
    and "minter = None \<longrightarrow> n \<noteq> 0" and "length name \<le> MAX_NAME_LENGTH lib" and "length symbol \<le> MAX_SYMBOL_LENGTH lib"
    and "its_accounts st' = its_accounts (put_optional_roles (map_option acc_mut roles_pda) rb NATIVE_MINTER_ROLES
      (put_its tk (TokenManagerAcc (token_manager_init NativeInterchainToken tid mk (ata_address lib tk mk (token_2022_id lib)) b))
        (st\<lparr>its_tokens := T\<rparr>)))"
proof -
  obtain roles_pda a where acct: "ix = DeployInterchainTokenIx a salt name symbol d n"
    "optional_key (user_roles_key env tk) minter = Inr roles_pda"
    "di_deployer a = acc_signer deployer" "di_its_root_pda a = acc rk"
    "di_token_manager_pda a = acc_mut tk" "di_token_mint a = acc_mut mk" "di_token_program a = acc (token_2022_id lib)"
    "di_token_manager_ata a = acc_mut (ata_address lib tk mk (token_2022_id lib))"
    "di_minter a = map_option acc minter" "di_minter_roles_pda a = map_option acc_mut roles_pda"
    using ix rk tk mk by (auto simp: make_deploy_interchain_token_instruction_def Let_def res_bind_Inr tid [symmetric])
  obtain s b rb T where r: "load_active_root env st (acc rk) = Inr s" "init_token_manager env st rk tid (acc_mut tk) = Inr b"
    "tl_mints (its_tokens st) mk = None"
    "init_optional_roles env st tk MinterNotProvided (map_option acc minter) (map_option acc_mut roles_pda) = Inr rb"
    "\<not> (MAX_NAME_LENGTH lib < length name \<or> MAX_SYMBOL_LENGTH lib < length symbol)"
    "check_minter_config (map_option acc minter) rb n = Inr ()"
    "its_accounts st' = its_accounts (put_optional_roles (map_option acc_mut roles_pda) rb NATIVE_MINTER_ROLES
      (put_its tk (TokenManagerAcc (token_manager_init NativeInterchainToken tid mk (ata_address lib tk mk (token_2022_id lib)) b))
        (st\<lparr>its_tokens := T\<rparr>)))"
    using ok
    by (auto simp: its_entry_def deploy_interchain_token_def Let_def acct res_bind_Inr require_Inr init_mint_def tid [symmetric]
        split del: if_split)
  have "minter = None \<longrightarrow> n \<noteq> 0" using r(6) by (auto simp: check_minter_config_def split: option.splits if_splits)
  with r show thesis
    by (intro that [OF _ _ _ _ r(3) acct(2) r(4) _ _ _ r(7)])
      (auto simp: load_active_root_def load_its_root_Inr init_token_manager_Inr res_bind_Inr require_Inr)
qed

text \<open>
  The documented behaviour of creating a mint and its metadata: the mint belongs to the program it
  was created with, and nothing else changes hands.
\<close>

definition create_law :: "its_lib \<Rightarrow> bool" where
  "create_law lib \<longleftrightarrow>
     (\<forall>p k d a f T T'. spl_create_mint lib p k d a f T = Some T' \<longrightarrow> ledger_shape T T' \<and> mint_program T' k = Some p) \<and>
     (\<forall>md k a name symbol T T'. mpl_create lib md k a name symbol T = Some T' \<longrightarrow> ledger_shape T T')"

lemma create_lawD:
  "create_law lib \<Longrightarrow> spl_create_mint lib p k d a f T = Some T' \<Longrightarrow> ledger_shape T T' \<and> mint_program T' k = Some p"
  "create_law lib \<Longrightarrow> mpl_create lib md k signer name symbol T = Some T' \<Longrightarrow> ledger_shape T T'"
  by (unfold create_law_def) (meson+)

lemma deploy_ledger:
  assumes laws: "spl_law lib" "create_law lib"
    and ok: "deploy_interchain_token env lib a salt name symbol d n st = Inr st'"
  shows "mint_program (its_tokens st') (ai_key (di_token_mint a)) = Some (token_2022_id lib)"
    and "account_identity (its_tokens st') (ata_address lib (ai_key (di_deployer a)) (ai_key (di_token_mint a)) (token_2022_id lib))
      = Some (token_2022_id lib, ai_key (di_token_mint a), ai_key (di_deployer a))"
proof -
  let ?mk = "ai_key (di_token_mint a)" and ?p = "ai_key (di_token_program a)"
  have put: "its_tokens (put_optional_roles x y z st0) = its_tokens st0" for x y z st0
    by (simp add: put_optional_roles_def split: option.splits)
  obtain seeds tk T1 T2 T3 T4 auth s where p: "?p = token_2022_id lib"
    and m: "init_mint env lib seeds (di_token_mint a) d tk ?p (its_tokens st) = Inr T1"
    and a1: "init_ata_if_needed lib tk ?mk ?p (di_token_manager_ata a) T1 = Inr T2"
    and a2: "init_ata_if_needed lib (ai_key (di_deployer a)) ?mk ?p (di_deployer_ata a) T2 = Inr T3"
    and t4: "(if 0 < n then spl (spl_mint_to lib ?p ?mk (ai_key (di_deployer_ata a)) auth n T3) else Inr T3) = Inr T4"
    and t5: "mpl_create lib (ai_key (di_mpl_token_metadata_account a)) ?mk auth name symbol T4 = Some (its_tokens st')"
    using ok by (auto simp: deploy_interchain_token_def Let_def res_bind_Inr require_Inr check_metadata_accounts_def
        check_program_Inr spl_Inr put split del: if_split)
  have c: "ledger_shape (its_tokens st) T1 \<and> mint_program T1 ?mk = Some ?p"
    using m create_lawD(1) [OF laws(2)] by (auto simp: init_mint_def res_bind_Inr spl_Inr)
  have s4: "ledger_shape T3 T4"
    using t4 spl_lawD(1) [OF laws(1)] by (auto simp: spl_Inr split: if_splits)
  note shapes = init_ata_if_needed_shape [OF laws(1) a1] init_ata_if_needed_shape [OF laws(1) a2] s4 create_lawD(2) [OF laws(2) t5]
  note tail = ledger_shape_trans [OF shapes(5,6)]
  show "mint_program (its_tokens st') ?mk = Some (token_2022_id lib)"
    using c tail shapes(1,3) unfolding ledger_shape_def p by blast
  show "account_identity (its_tokens st') (ata_address lib (ai_key (di_deployer a)) ?mk (token_2022_id lib))
      = Some (token_2022_id lib, ?mk, ai_key (di_deployer a))"
    using shapes(4) tail unfolding load_ata_ok ledger_shape_def p by metis
qed

text \<open>What a deployment with a minter leaves: the manager and the minter's three roles, nobody else's.\<close>

lemma deployed_manager:
  assumes law: "its_laws env lib" and inv: "its_inv env st" and len: "length w = 32"
    and ix: "make_deploy_interchain_token_instruction env lib payer deployer salt name symbol d n (Some w) = Inr ix"
    and rk: "its_root_key env = Inr rk" and tid: "tid = interchain_token_id env (its_network lib) deployer salt"
    and tk: "token_manager_key env tid rk = Inr tk" and mk: "token_mint_key env tid rk = Inr mk"
    and ok: "its_entry env lib view ix st = Inr st'"
  shows "\<exists>s. its_accounts st' rk = Some (ItsRootAcc s) \<and> \<not> paused s"
    and "\<exists>b. its_accounts st' tk = Some (TokenManagerAcc (token_manager_init NativeInterchainToken tid mk
      (ata_address lib tk mk (token_2022_id lib)) b)) \<and>
      try_find_program_address env (token_manager_seeds tid rk) (its_id env) = Some (tk, b)"
    and "length x = 32 \<Longrightarrow> roles_at env (its_accounts st') tk x = (if x = w then NATIVE_MINTER_ROLES else 0)"
proof -
  note pre = its_inv_pre [OF law inv]
  note ir = deploy_instruction_result [OF ix rk tid tk mk ok]
  obtain s b rb T roles_pda where r: "its_accounts st rk = Some (ItsRootAcc s)" "\<not> paused s"
    "try_find_program_address env (token_manager_seeds tid rk) (its_id env) = Some (tk, b)" "its_accounts st tk = None"
    "optional_key (user_roles_key env tk) (Some w) = Inr roles_pda"
    "init_optional_roles env st tk MinterNotProvided (map_option acc (Some w)) (map_option acc_mut roles_pda) = Inr rb"
    and st': "its_accounts st' = its_accounts (put_optional_roles (map_option acc_mut roles_pda) rb NATIVE_MINTER_ROLES
      (put_its tk (TokenManagerAcc (token_manager_init NativeInterchainToken tid mk (ata_address lib tk mk (token_2022_id lib)) b))
        (st\<lparr>its_tokens := T\<rparr>)))"
    by (rule ir) (rule that)
  obtain uk ub where uk: "user_roles_key env tk w = Inr uk" "roles_pda = Some uk" "rb = Some ub"
    "roles_addr env tk w uk ub" "its_accounts st uk = None" "uk \<noteq> tk"
    using r(5,6) len by (auto simp: optional_key_Inr init_optional_roles_def res_bind_Inr require_Inr init_user_roles_Inr roles_addr_def)
  let ?t = "token_manager_init NativeInterchainToken tid mk (ata_address lib tk mk (token_2022_id lib)) b"
  let ?m = "(its_accounts st)(tk \<mapsto> TokenManagerAcc ?t)"
  have m': "its_accounts st' = ?m(uk \<mapsto> UserRolesAcc \<lparr>roles = NATIVE_MINTER_ROLES, ur_bump = ub\<rparr>)"
    unfolding st' by (simp add: uk put_optional_roles_def)
  show "\<exists>s. its_accounts st' rk = Some (ItsRootAcc s) \<and> \<not> paused s"
    using r(1,2,4) uk(5) by (auto simp: m')
  show "\<exists>b. its_accounts st' tk = Some (TokenManagerAcc (token_manager_init NativeInterchainToken tid mk
      (ata_address lib tk mk (token_2022_id lib)) b)) \<and>
      try_find_program_address env (token_manager_seeds tid rk) (its_id env) = Some (tk, b)"
    using r(3) uk(6) by (simp add: m')
  assume x: "length x = 32"
  obtain rrb where rrb: "root_addr env rk rrb" using rk by (auto simp: its_root_key_addr)
  have addr: "manager_addr env (tm_token_id ?t) tk (tm_bump ?t)"
    using r(3) rrb by (auto simp: manager_addr_def token_manager_init_def)
  have mgr: "its_ok env ?m" "roles_at env ?m = roles_at env (its_accounts st)"
    using its_ok_put_manager [OF its_preD(3) [OF pre] _ addr r(1)] r(4) by auto
  have "no_resource (?m uk)" "is_resource ?m tk" using uk(5,6) by (auto simp: no_resource_def is_resource_def)
  from its_ok_put_roles(2) [OF its_preD(1,2) [OF pre] mgr(1) uk(4) this(1) _ this(2),
      of NATIVE_MINTER_ROLES "Some (UserRolesAcc \<lparr>roles = NATIVE_MINTER_ROLES, ur_bump = ub\<rparr>)"]
  have same: "same_roles (roles_at env (its_accounts st')) (set_role (roles_at env (its_accounts st)) tk w NATIVE_MINTER_ROLES)"
    by (simp add: m' mgr(2) roles_entry_def)
  have "roles_at env (its_accounts st) tk x = 0"
    using roles_at_no_resource [OF its_preD [OF pre] _ x, of tk] r(4) by (simp add: is_resource_def)
  with same_rolesD [OF same x, of tk]
  show "roles_at env (its_accounts st') tk x = (if x = w then NATIVE_MINTER_ROLES else 0)" by (simp add: set_role_def)
qed

end
