(* ===== verification/Its_Relay.thy ===== *)
theory Its_Relay
  imports Its_Client_Tokens
begin

text \<open>
  The relayer's side of an inbound message: with the accounts of \<open>execute\<close> and the extra accounts
  the library builds, the service's calls to itself pass the runtime's checks and reach the handler
  of the message with exactly these accounts; and a link message that was approved is executed.
\<close>

section \<open>The accounts of \<open>execute\<close>\<close>

text \<open>
  What a relayer passes for \<open>Execute\<close>: the addresses, with the flags of the accounts struct.
\<close>

record execute_addresses =
  xa_incoming :: pubkey
  xa_signing :: pubkey
  xa_gateway_root :: pubkey
  xa_event_authority :: pubkey
  xa_payer :: pubkey
  xa_its_root :: pubkey
  xa_token_manager :: pubkey
  xa_token_mint :: pubkey
  xa_token_manager_ata :: pubkey
  xa_token_program :: pubkey

definition execute_accounts :: "env \<Rightarrow> its_lib \<Rightarrow> execute_addresses \<Rightarrow> its_Execute" where
  "execute_accounts env lib x =
     \<lparr>ie_executable = \<lparr>ae_incoming_message_pda = acc_mut (xa_incoming x), ae_signing_pda = acc (xa_signing x),
        ae_gateway_root_pda = acc (xa_gateway_root x), ae_event_authority = acc (xa_event_authority x),
        ae_axelar_gateway_program = acc (gateway_id env)\<rparr>,
      ie_payer = acc_signer_mut (xa_payer x), ie_its_root_pda = acc (xa_its_root x),
      ie_token_manager_pda = acc_mut (xa_token_manager x), ie_token_mint = acc_mut (xa_token_mint x),
      ie_token_manager_ata = acc_mut (xa_token_manager_ata x), ie_token_program = acc (xa_token_program x),
      ie_associated_token_program = acc (associated_token_program_id lib),
      ie_system_program = acc (system_program_id env)\<rparr>"

text \<open>The keys the three self-calls share, the service's own id first.\<close>

definition execute_keys :: "env \<Rightarrow> its_lib \<Rightarrow> execute_addresses \<Rightarrow> pubkey list" where
  "execute_keys env lib x =
     [its_id env, xa_payer x, xa_its_root x, xa_token_manager x, xa_token_mint x, xa_token_manager_ata x,
      xa_token_program x, associated_token_program_id lib, system_program_id env]"

section \<open>Reaching the handler of a link message\<close>

definition link_accounts :: "env \<Rightarrow> its_lib \<Rightarrow> execute_addresses \<Rightarrow> (pubkey \<times> pubkey) option \<Rightarrow> ExecuteLinkToken" where
  "link_accounts env lib x op =
     \<lparr>el_payer = acc_signer_mut (xa_payer x), el_system_program = acc (system_program_id env),
      el_its_root_pda = acc_signer (xa_its_root x), el_token_manager_pda = acc_mut (xa_token_manager x),
      el_token_mint = acc (xa_token_mint x), el_token_manager_ata = acc_mut (xa_token_manager_ata x),
      el_token_program = acc (xa_token_program x),
      el_associated_token_program = acc (associated_token_program_id lib),
      el_operator = map_option (acc \<circ> fst) op, el_operator_roles_pda = map_option (acc_mut \<circ> snd) op\<rparr>"

lemma relayed_link:
  assumes root: "create_program_address env (its_root_seeds @ [[b]]) (its_id env) = Some (xa_its_root x)"
    and d: "distinct (execute_keys env lib x @ map fst (optional_list op) @ map snd (optional_list op))"
    and len: "length (lm_destination_token_address p) = 32"
  shows "cpi_execute_link_token env lib (execute_accounts env lib x) b
      (execute_link_token_extra_accounts (map_option fst op) (map_option snd op)) p st =
     execute_link_token env lib (link_accounts env lib x op) (lm_token_id p) (lm_destination_token_address p)
       (lm_token_manager_type p) (case lm_params p of None \<Rightarrow> [] | Some v \<Rightarrow> v) st"
proof -
  have call: "its_self_call env b (ie_payer e # ie_system_program e # ie_its_root_pda e # ie_token_manager_pda e # ie_token_mint e #
      ie_token_manager_ata e # ie_token_program e # ie_associated_token_program e # take 2 extra)
     [acc_signer_mut (xa_payer x), acc (system_program_id env), acc_signer (xa_its_root x), acc_mut (xa_token_manager x),
      acc (xa_token_mint x), acc_mut (xa_token_manager_ata x), acc (xa_token_program x),
      acc (associated_token_program_id lib), optional_meta env acc (map_option (acc \<circ> fst) op),
      optional_meta env acc_mut (map_option (acc_mut \<circ> snd) op)] = Inr ()"
    if "e = execute_accounts env lib x" "extra = map acc (optional_list (map_option fst op)) @ map acc_mut (optional_list (map_option snd op))"
    for e extra
    unfolding its_self_call_def
  proof (rule invoke_check_ok)
    have "distinct (map ai_key (acc (its_id env) # ie_payer e # ie_system_program e # ie_its_root_pda e # ie_token_manager_pda e #
      ie_token_mint e # ie_token_manager_ata e # ie_token_program e # ie_associated_token_program e # take 2 extra))"
      using d by (cases op) (auto simp: that execute_accounts_def execute_keys_def optional_list_def)
    then show "inj_on ai_key (set (acc (its_id env) # ie_payer e # ie_system_program e # ie_its_root_pda e # ie_token_manager_pda e #
      ie_token_mint e # ie_token_manager_ata e # ie_token_program e # ie_associated_token_program e # take 2 extra))"
      unfolding distinct_map by blast
  qed (use root in \<open>cases op; simp add: that execute_accounts_def optional_list_def optional_meta_def grant_signer_def acc_defs\<close>)
  note call = call [OF refl refl]
  note ne = d d [unfolded distinct_rev [symmetric, of "_ @ _"]]
  show ?thesis
  proof (cases op)
    case None
    with call ne len show ?thesis
      by (simp add: cpi_execute_link_token_def Let_def execute_link_token_extra_accounts_def optional_list_def require_def
          link_accounts_def execute_accounts_def execute_keys_def merged_def optional_account_def optional_meta_def acc_defs)
  next
    case (Some w)
    with call ne len show ?thesis
      by (simp add: cpi_execute_link_token_def Let_def execute_link_token_extra_accounts_def optional_list_def require_def
          link_accounts_def execute_accounts_def execute_keys_def merged_def optional_account_def optional_meta_def acc_defs)
  qed
qed

section \<open>Reaching the handler of a deployment\<close>

definition deploy_accounts :: "env \<Rightarrow> its_lib \<Rightarrow> execute_addresses \<Rightarrow> pubkey \<Rightarrow> (pubkey \<times> pubkey) option \<Rightarrow> ExecuteDeployInterchainToken" where
  "deploy_accounts env lib x md minter =
     \<lparr>ed_payer = acc_signer_mut (xa_payer x), ed_system_program = acc (system_program_id env),
      ed_its_root_pda = acc_signer (xa_its_root x), ed_token_manager_pda = acc_mut (xa_token_manager x),
      ed_token_mint = acc_mut (xa_token_mint x), ed_token_manager_ata = acc_mut (xa_token_manager_ata x),
      ed_token_program = acc (xa_token_program x),
      ed_associated_token_program = acc (associated_token_program_id lib),
      ed_sysvar_instructions = acc (sysvar_instructions_id lib),
      ed_mpl_token_metadata_program = acc (mpl_token_metadata_id lib), ed_mpl_token_metadata_account = acc_mut md,
      ed_minter = map_option (acc \<circ> fst) minter, ed_minter_roles_pda = map_option (acc_mut \<circ> snd) minter\<rparr>"

lemma relayed_deploy:
  assumes root: "create_program_address env (its_root_seeds @ [[b]]) (its_id env) = Some (xa_its_root x)"
    and d: "distinct (execute_keys env lib x @ [sysvar_instructions_id lib, mpl_token_metadata_id lib, md] @
      map fst (optional_list minter) @ map snd (optional_list minter))"
  shows "cpi_execute_deploy_interchain_token env lib (execute_accounts env lib x) b
      (execute_deploy_interchain_token_extra_accounts (sysvar_instructions_id lib) (mpl_token_metadata_id lib) md
        (map_option fst minter) (map_option snd minter)) p st =
     execute_deploy_interchain_token env lib (deploy_accounts env lib x md minter) (dm_token_id p) (dm_name p) (dm_symbol p)
       (dm_decimals p) (case dm_minter p of None \<Rightarrow> [] | Some v \<Rightarrow> v) st"
proof -
  have call: "its_self_call env b (ie_payer e # ie_system_program e # ie_its_root_pda e # ie_token_manager_pda e # ie_token_mint e #
      ie_token_manager_ata e # ie_token_program e # ie_associated_token_program e # acc (sysvar_instructions_id lib) #
      acc (mpl_token_metadata_id lib) # acc_mut md # take 2 extra)
     [acc_signer_mut (xa_payer x), acc (system_program_id env), acc_signer (xa_its_root x), acc_mut (xa_token_manager x),
      acc_mut (xa_token_mint x), acc_mut (xa_token_manager_ata x), acc (xa_token_program x),
      acc (associated_token_program_id lib), acc (sysvar_instructions_id lib), acc (mpl_token_metadata_id lib), acc_mut md,
      optional_meta env acc (map_option (acc_mut \<circ> fst) minter),
      optional_meta env acc_mut (map_option (acc_mut \<circ> snd) minter)] = Inr ()"
    if "e = execute_accounts env lib x"
      "extra = map acc_mut (optional_list (map_option fst minter)) @ map acc_mut (optional_list (map_option snd minter))"
    for e extra
    unfolding its_self_call_def
  proof (rule invoke_check_ok)
    let ?infos = "acc (its_id env) # ie_payer e # ie_system_program e # ie_its_root_pda e # ie_token_manager_pda e #
      ie_token_mint e # ie_token_manager_ata e # ie_token_program e # ie_associated_token_program e #
      acc (sysvar_instructions_id lib) # acc (mpl_token_metadata_id lib) # acc_mut md # take 2 extra"
    have "distinct (map ai_key ?infos)"
      using d by (cases minter) (auto simp: that execute_accounts_def execute_keys_def optional_list_def)
    then show "inj_on ai_key (set ?infos)" unfolding distinct_map by blast
  qed (use root in \<open>cases minter; simp add: that execute_accounts_def optional_list_def optional_meta_def grant_signer_def acc_defs\<close>)
  note call = call [OF refl refl]
  note ne = d d [unfolded distinct_rev [symmetric, of "_ @ _"]]
  show ?thesis
  proof (cases minter)
    case None
    with call ne show ?thesis
      by (simp add: cpi_execute_deploy_interchain_token_def Let_def execute_deploy_interchain_token_extra_accounts_def
          optional_list_def deploy_accounts_def execute_accounts_def execute_keys_def merged_def optional_account_def
          optional_meta_def acc_defs)
  next
    case (Some w)
    with call ne show ?thesis
      by (simp add: cpi_execute_deploy_interchain_token_def Let_def execute_deploy_interchain_token_extra_accounts_def
          optional_list_def deploy_accounts_def execute_accounts_def execute_keys_def merged_def optional_account_def
          optional_meta_def acc_defs)
  qed
qed

section \<open>Reaching the handler of a transfer\<close>

text \<open>
  A wallet is its own token authority; a program has one of its own. The executor's address is
  among the accounts when the transfer has data.
\<close>

definition transfer_accounts ::
    "env \<Rightarrow> its_lib \<Rightarrow> execute_addresses \<Rightarrow> pubkey \<Rightarrow> pubkey \<Rightarrow> pubkey \<Rightarrow> pubkey option \<Rightarrow> ExecuteInterchainTransfer" where
  "transfer_accounts env lib x destination authority ata executor =
     \<lparr>ex_payer = acc_signer_mut (xa_payer x), ex_its_root_pda = acc_signer (xa_its_root x), ex_destination = acc destination,
      ex_destination_token_authority = acc authority, ex_destination_ata = acc_mut ata,
      ex_token_mint = acc_mut (xa_token_mint x), ex_token_manager_pda = acc_mut (xa_token_manager x),
      ex_token_manager_ata = acc_mut (xa_token_manager_ata x), ex_token_program = acc (xa_token_program x),
      ex_associated_token_program = acc (associated_token_program_id lib), ex_system_program = acc (system_program_id env),
      ex_interchain_transfer_execute = map_option acc executor\<rparr>"

lemma relayed_transfer:
  assumes root: "create_program_address env (its_root_seeds @ [[b]]) (its_id env) = Some (xa_its_root x)"
    and d: "distinct (execute_keys env lib x @ [destination, ata] @ optional_list executor)"
    and auth: "authority = destination \<or> authority \<notin> set (execute_keys env lib x @ [ata] @ optional_list executor)"
    and len: "length (it_destination_address p) = 32"
    and extra: "execute_interchain_transfer_extra_accounts env destination authority ata has_data = Inr extra"
    and executor: "executor = (if has_data = Some True
      then map_option fst (try_find_program_address env (interchain_transfer_execute_seeds destination) (its_id env)) else None)"
  shows "cpi_execute_interchain_transfer env lib view (execute_accounts env lib x) b extra p m sc st =
     execute_interchain_transfer env lib view (transfer_accounts env lib x destination authority ata executor) [] m sc
       (it_source_address p) (it_destination_address p) (it_token_id p) (it_amount p)
       (case it_data p of None \<Rightarrow> [] | Some v \<Rightarrow> v) st"
proof -
  have ex: "extra = [acc destination, acc authority, acc_mut ata] @ map acc (optional_list executor)"
    using extra executor
    by (auto simp: execute_interchain_transfer_extra_accounts_def optional_list_def res_bind_Inr find_key_Inr split: if_splits)
  have call: "its_self_call env b (ie_payer e # ie_its_root_pda e # acc destination # acc authority # acc_mut ata #
      ie_token_mint e # ie_token_manager_pda e # ie_token_manager_ata e # ie_token_program e #
      ie_associated_token_program e # ie_system_program e # map acc (optional_list executor))
     [acc_signer_mut (xa_payer x), acc_signer (xa_its_root x), acc destination, acc authority, acc_mut ata,
      acc_mut (xa_token_mint x), acc_mut (xa_token_manager x), acc_mut (xa_token_manager_ata x), acc (xa_token_program x),
      acc (associated_token_program_id lib), acc (system_program_id env),
      optional_meta env acc (map_option acc executor)] = Inr ()"
    if "e = execute_accounts env lib x" for e
    unfolding its_self_call_def
  proof (rule invoke_check_ok)
    let ?rest = "ie_token_mint e # ie_token_manager_pda e # ie_token_manager_ata e # ie_token_program e #
      ie_associated_token_program e # ie_system_program e # map acc (optional_list executor)"
    let ?infos = "\<lambda>au. acc (its_id env) # ie_payer e # ie_its_root_pda e # acc destination # au @ acc_mut ata # ?rest"
    have "distinct (map ai_key (?infos (if authority = destination then [] else [acc authority])))"
      using d auth by (cases executor) (auto simp: that execute_accounts_def execute_keys_def optional_list_def)
    then have "inj_on ai_key (set (?infos (if authority = destination then [] else [acc authority])))"
      unfolding distinct_map by blast
    moreover have "set (?infos (if authority = destination then [] else [acc authority])) = set (?infos [acc authority])" by auto
    ultimately have "inj_on ai_key (set (?infos [acc authority]))" by (simp only:)
    then show "inj_on ai_key (set (acc (its_id env) # ie_payer e # ie_its_root_pda e # acc destination # acc authority #
        acc_mut ata # ?rest))" by (simp only: append.simps)
  qed (use root in \<open>cases executor; simp add: that execute_accounts_def optional_list_def optional_meta_def grant_signer_def acc_defs\<close>)
  note call = call [OF refl]
  note ne = d d [unfolded distinct_rev [symmetric, of "_ @ _"]]
  have au: "authority = destination \<or> (authority \<noteq> destination \<and>
      (\<forall>k \<in> set (execute_keys env lib x @ [ata] @ optional_list executor). k \<noteq> authority \<and> authority \<noteq> k))"
    using auth by blast
  show ?thesis
  proof (cases executor)
    case None
    with call ne au len show ?thesis
      by (elim disjE; simp add: ex cpi_execute_interchain_transfer_def Let_def optional_list_def transfer_accounts_def
          require_def execute_accounts_def execute_keys_def merged_def optional_account_def optional_meta_def acc_defs)
  next
    case (Some e)
    with call ne au len show ?thesis
      by (elim disjE; simp add: ex cpi_execute_interchain_transfer_def Let_def optional_list_def transfer_accounts_def
          require_def execute_accounts_def execute_keys_def merged_def optional_account_def optional_meta_def acc_defs)
  qed
qed

section \<open>From the approved message to the handler\<close>

text \<open>
  What must hold for the service to take a message from the hub: the gateway approved it for the
  service, its payload is the hub's message from a trusted chain, and the service is active.
\<close>

definition hub_message_ready ::
    "env \<Rightarrow> its_lib \<Rightarrow> its_state \<Rightarrow> execute_addresses \<Rightarrow> Message \<Rightarrow> bytes \<Rightarrow> IncomingMessage \<Rightarrow> InterchainTokenService \<Rightarrow>
     string \<Rightarrow> ItsMessage \<Rightarrow> bool" where
  "hub_message_ready env lib st x m payload im s sc inner \<longleftrightarrow>
     message_at (its_gateway st) (xa_incoming x) im \<and> is_approved (im_status im) \<and> im_message_hash im = message_hash env m \<and>
     (\<exists>c. config_at (its_gateway st) (xa_gateway_root x) c) \<and>
     (\<exists>b. try_find_program_address env (validate_message_seeds (command_id env m)) (its_id env) = Some (xa_signing x, b)) \<and>
     pubkey_from_str env (destination_address m) = Some (its_id env) \<and> keccak env payload = payload_hash m \<and>
     its_accounts st (xa_its_root x) = Some (ItsRootAcc s) \<and> \<not> paused s \<and> source_address m = its_hub_address s \<and>
     hub_try_from_slice lib payload = Some (ReceiveFromHub sc inner) \<and> sc \<in> set (trusted_chains s)"

text \<open>The gateway once the message is consumed.\<close>

definition consumed :: "env \<Rightarrow> execute_addresses \<Rightarrow> Message \<Rightarrow> IncomingMessage \<Rightarrow> its_state \<Rightarrow> its_state" where
  "consumed env x m im st = st\<lparr>its_gateway := emit_gw (executed_event env m (its_id env))
     (put_gw (xa_incoming x) (MessageAcc (im\<lparr>im_status := status_executed\<rparr>)) (its_gateway st))\<rparr>"

lemma consumed_simps [simp]:
  "its_accounts (consumed env x m im st) = its_accounts st" "its_tokens (consumed env x m im st) = its_tokens st"
  "its_events (consumed env x m im st) = its_events st" "its_gas (consumed env x m im st) = its_gas st"
  by (simp_all add: consumed_def)

lemma relayed_execute_of:
  assumes law: "its_laws env lib" and inv: "its_inv env st"
    and org: "message_origin env (its_gateway st) (xa_incoming x) im m"
    and ready: "hub_message_ready env lib st x m payload im s sc inner"
  shows "its_execute env lib view (execute_accounts env lib x) remaining m payload st =
     (case inner of
        InterchainTransferM p \<Rightarrow> cpi_execute_interchain_transfer env lib view (execute_accounts env lib x) (its_bump s)
          remaining p m sc (consumed env x m im st)
      | DeployInterchainTokenM p \<Rightarrow> cpi_execute_deploy_interchain_token env lib (execute_accounts env lib x) (its_bump s)
          remaining p (consumed env x m im st)
      | LinkTokenM p \<Rightarrow> cpi_execute_link_token env lib (execute_accounts env lib x) (its_bump s) remaining p
          (consumed env x m im st))"
proof -
  let ?gw = "its_gateway st"
  note pda = its_lawsD(1,2) [OF law] and r = ready [unfolded hub_message_ready_def]
  have full: "gateway_full_inv env ?gw"
    using inv gateway_full_inv_reachable [OF pda] by (simp add: its_inv_def)
  obtain c where c: "config_at ?gw (xa_gateway_root x) c" using r by blast
  have dest: "pubkey_from_str env (destination_address m) = Some (its_id env)" and hash: "keccak env payload = payload_hash m"
    and at: "message_at ?gw (xa_incoming x) im" "is_approved (im_status im)"
    using r by blast+
  let ?e = "ie_executable (execute_accounts env lib x)"
  obtain caller where v: "try_find_program_address env (validate_message_seeds (command_id env m)) (its_id env)
      = Some (caller, signing_pda_bump im)"
    and "check_execute_accounts env (its_id env) (approved_execute env caller (xa_gateway_root x) (xa_event_authority x) (xa_incoming x))
      m ?gw = Inr ()"
    and "validate_message_raw env (its_id env) (approved_execute env caller (xa_gateway_root x) (xa_event_authority x) (xa_incoming x))
      m payload ?gw = Inr (emit_gw (executed_event env m (its_id env))
        (put_gw (xa_incoming x) (MessageAcc (im\<lparr>im_status := status_executed\<rparr>)) ?gw))"
    by (rule approved_execute_accepted [OF pda(1) full org at c dest hash])
  moreover have "approved_execute env caller (xa_gateway_root x) (xa_event_authority x) (xa_incoming x) = ?e"
    using v r by (auto simp: execute_accounts_def approved_execute_def)
  ultimately have accounts: "check_execute_accounts env (its_id env) ?e m ?gw = Inr ()"
    and raw: "validate_message_raw env (its_id env) ?e m payload ?gw = Inr (its_gateway (consumed env x m im st))"
    by (simp_all add: consumed_def)
  have root: "root_addr env (xa_its_root x) (its_bump s)"
    using r inv by (auto simp: its_inv_def dest: its_okD)
  have load: "load_its_root env st (acc (xa_its_root x)) = Inr s"
    using root r pda_lawD [OF pda(1)] by (auto simp: load_its_root_Inr root_addr_def)
  have check: "check_its_execute env (execute_accounts env lib x) m st = Inr s"
    using r load accounts
    by (simp add: check_its_execute_def execute_accounts_def check_payer_def
        check_mut_def check_signer_def check_program_def require_def load_active_root_def)
  from r raw check show ?thesis
    by (simp add: its_execute_def require_def is_trusted_chain_iff Let_def consumed_def cong: ItsMessage.case_cong)
qed

text \<open>Where message hashes do not collide, the approved message is the one relayed.\<close>

lemma ready_origin:
  assumes law: "its_laws env lib" and inv: "its_inv env st" and inj: "inj (message_hash env)"
    and ready: "hub_message_ready env lib st x m payload im s sc inner"
  shows "message_origin env (its_gateway st) (xa_incoming x) im m"
proof -
  note r = ready [unfolded hub_message_ready_def]
  have "gateway_full_inv env (its_gateway st)"
    using inv gateway_full_inv_reachable [OF its_lawsD(1,2) [OF law]] by (simp add: its_inv_def)
  then obtain m' where "message_origin env (its_gateway st) (xa_incoming x) im m'"
    using r unfolding gateway_full_inv_def message_inv_def by blast
  then show ?thesis
    using r injD [OF inj, of m m'] by (auto simp: message_origin_def)
qed

lemma relayed_execute:
  assumes law: "its_laws env lib" and inv: "its_inv env st" and inj: "inj (message_hash env)"
    and ready: "hub_message_ready env lib st x m payload im s sc inner"
  shows "its_execute env lib view (execute_accounts env lib x) remaining m payload st =
     (case inner of
        InterchainTransferM p \<Rightarrow> cpi_execute_interchain_transfer env lib view (execute_accounts env lib x) (its_bump s)
          remaining p m sc (consumed env x m im st)
      | DeployInterchainTokenM p \<Rightarrow> cpi_execute_deploy_interchain_token env lib (execute_accounts env lib x) (its_bump s)
          remaining p (consumed env x m im st)
      | LinkTokenM p \<Rightarrow> cpi_execute_link_token env lib (execute_accounts env lib x) (its_bump s) remaining p
          (consumed env x m im st))"
  by (rule relayed_execute_of [OF law inv ready_origin [OF assms] ready])

section \<open>A link message is executed\<close>

text \<open>
  What the token must look like: no manager yet, a mint of the named program with the extensions the
  type asks for, and a token account of the manager that exists or can be created.
\<close>

definition linkable :: "env \<Rightarrow> its_lib \<Rightarrow> its_state \<Rightarrow> execute_addresses \<Rightarrow> Type \<Rightarrow> token_ledger \<Rightarrow> bool" where
  "linkable env lib st x t T \<longleftrightarrow>
     its_accounts st (xa_token_manager x) = None \<and> t \<noteq> NativeInterchainToken \<and>
     xa_token_program x \<in> {token_program_id lib, token_2022_id lib} \<and>
     (\<exists>mi. tl_mints (its_tokens st) (xa_token_mint x) = Some mi \<and> mi_program mi = xa_token_program x \<and>
       supports_mint_extensions t mi) \<and>
     init_ata_if_needed lib (xa_token_manager x) (xa_token_mint x) (xa_token_program x)
       (acc_mut (xa_token_manager_ata x)) (its_tokens st) = Inr T"

text \<open>What the link leaves.\<close>

definition linked_state ::
    "execute_addresses \<Rightarrow> hash \<Rightarrow> Type \<Rightarrow> u8 \<Rightarrow> (pubkey \<times> pubkey) option \<Rightarrow> u8 option \<Rightarrow> token_ledger \<Rightarrow> its_state \<Rightarrow> its_state" where
  "linked_state x tid t b op rb T st =
     emit_its (TokenManagerDeployed tid (xa_token_manager x) (u8_of_type t) (map_option fst op))
       (put_optional_roles (map_option (acc_mut \<circ> snd) op) rb LINKED_OPERATOR_ROLES
       (put_its (xa_token_manager x) (TokenManagerAcc (token_manager_init t tid (xa_token_mint x)
          (xa_token_manager_ata x) b)) (st\<lparr>its_tokens := T\<rparr>)))"

lemma link_executes:
  assumes pre: "its_pre env st" and rk: "its_root_key env = Inr (xa_its_root x)"
    and root: "its_accounts st (xa_its_root x) = Some (ItsRootAcc s)" "\<not> paused s"
    and tk: "token_manager_key env tid (xa_its_root x) = Inr (xa_token_manager x)"
    and l: "linkable env lib st x t T"
    and op: "op = None \<and> length params \<noteq> 32 \<or>
      (\<exists>k. op = Some (params, k) \<and> user_roles_key env (xa_token_manager x) params = Inr k \<and> length params = 32 \<and>
        k \<noteq> xa_token_manager x)"
  shows "\<exists>b rb. (rb = None \<longleftrightarrow> op = None) \<and> execute_link_token env lib (link_accounts env lib x op) tid (xa_token_mint x) (u8_of_type t) params st =
     Inr (linked_state x tid t b op rb T st)"
proof -
  obtain b where b: "try_find_program_address env (token_manager_seeds tid (xa_its_root x)) (its_id env) = Some (xa_token_manager x, b)"
    using tk by (auto simp: token_manager_key_def find_key_Inr)
  have tm: "init_token_manager env st (xa_its_root x) tid (acc_mut (xa_token_manager x)) = Inr b"
    using b l by (simp add: init_token_manager_Inr linkable_def)
  have self: "load_self_root env st (acc_signer (xa_its_root x)) = Inr s"
    using client_active_root [OF pre, of "acc_signer (xa_its_root x)"] rk root
    by (simp add: load_self_root_def res_bind_Inr require_Inr)
  obtain mi where mi: "load_mint_of (its_tokens st) (acc (xa_token_program x)) (acc (xa_token_mint x)) = Inr mi"
    "supports_mint_extensions t mi"
    using l by (auto simp: linkable_def load_mint_of_def load_mint_def require_def)
  obtain rb where rb: "init_optional_roles env st (xa_token_manager x) OperatorNotProvided
      (map_option (acc \<circ> fst) op) (map_option (acc_mut \<circ> snd) op) = Inr rb" "rb = None \<longleftrightarrow> op = None"
  proof (cases op)
    case None
    then show thesis by (intro that [of None]) (simp_all add: init_optional_roles_def)
  next
    case (Some ok)
    with op obtain k where k: "op = Some (params, k)" "user_roles_key env (xa_token_manager x) params = Inr k"
      "length params = 32" "k \<noteq> xa_token_manager x" by auto
    have "\<not> is_resource (its_accounts st) (xa_token_manager x)" using l by (simp add: linkable_def is_resource_def)
    from fresh_roles [OF pre k(2,3) this] obtain ub where "roles_addr env (xa_token_manager x) params k ub" "its_accounts st k = None" .
    then have "init_user_roles env st (xa_token_manager x) params (acc_mut k) = Inr ub"
      by (simp add: init_user_roles_Inr roles_addr_def)
    with k show thesis by (intro that [of "Some ub"]) (simp_all add: init_optional_roles_def require_def)
  qed
  have "check_operator_config (if length params = 32 then Some params else None) (map_option (acc \<circ> fst) op)
      (map_option (acc_mut \<circ> snd) op) = Inr ()"
    using op by (auto simp: check_operator_config_def require_def)
  moreover have "(if length params = 32 then Some params else None) = map_option fst op" using op by auto
  ultimately have "execute_link_token env lib (link_accounts env lib x op) tid (xa_token_mint x) (u8_of_type t) params st =
     Inr (linked_state x tid t b op rb T st)"
    using l self tm mi rb
    by (simp add: execute_link_token_def Let_def link_accounts_def check_payer_def check_signer_def check_mut_def check_program_def
        check_token_program_def require_def linkable_def validate_mint_extension_def linked_state_def type_u8_roundtrip
        del: type_try_from_u8.simps)
  with rb(2) show ?thesis by blast
qed

text \<open>A link message that was approved, relayed with the accounts the library adds, creates the manager.\<close>

lemma approved_link_of:
  assumes law: "its_laws env lib" and inv: "its_inv env st"
    and org: "message_origin env (its_gateway st) (xa_incoming x) im m"
    and ready: "hub_message_ready env lib st x m payload im s sc (LinkTokenM p)"
    and p: "p = \<lparr>lm_token_id = tid, lm_token_manager_type = u8_of_type t, lm_source_token_address = src,
        lm_destination_token_address = xa_token_mint x, lm_params = params\<rparr>"
    and rk: "its_root_key env = Inr (xa_its_root x)"
    and tk: "token_manager_key env tid (xa_its_root x) = Inr (xa_token_manager x)"
    and l: "linkable env lib st x t T" and mint: "length (xa_token_mint x) = 32"
    and op: "op = None \<and> params = None \<or>
      (\<exists>w k. params = Some w \<and> length w = 32 \<and> user_roles_key env (xa_token_manager x) w = Inr k \<and> op = Some (w, k))"
    and d: "distinct (execute_keys env lib x @ map fst (optional_list op) @ map snd (optional_list op))"
  shows "\<exists>b rb. (rb = None \<longleftrightarrow> op = None) \<and> its_entry env lib view (ItsExecuteIx (execute_accounts env lib x)
      (execute_link_token_extra_accounts (map_option fst op) (map_option snd op)) m payload) st =
    Inr (linked_state x tid t b op rb T (consumed env x m im st))"
proof -
  have pre: "its_pre env (consumed env x m im st)" using its_inv_pre [OF law inv] by (simp add: its_pre_def)
  have root: "its_accounts (consumed env x m im st) (xa_its_root x) = Some (ItsRootAcc s)" "\<not> paused s"
    using ready by (simp_all add: hub_message_ready_def)
  have "linkable env lib (consumed env x m im st) x t T" using l by (simp add: linkable_def)
  from link_executes [OF pre rk root tk this, of op "case params of None \<Rightarrow> [] | Some v \<Rightarrow> v"] op d
  have ok: "\<exists>b rb. (rb = None \<longleftrightarrow> op = None) \<and> execute_link_token env lib (link_accounts env lib x op) tid (xa_token_mint x) (u8_of_type t)
      (case params of None \<Rightarrow> [] | Some v \<Rightarrow> v) (consumed env x m im st) =
      Inr (linked_state x tid t b op rb T (consumed env x m im st))"
    by (auto simp: execute_keys_def optional_list_def)
  have "root_addr env (xa_its_root x) (its_bump s)"
    using ready inv by (auto simp: hub_message_ready_def its_inv_def dest: its_okD)
  then have seeds: "create_program_address env (its_root_seeds @ [[its_bump s]]) (its_id env) = Some (xa_its_root x)"
    using pda_lawD [OF its_lawsD(1) [OF law]] by (simp add: root_addr_def)
  show ?thesis
    using ok relayed_link [OF seeds d, of p] mint
    by (simp add: its_entry_def relayed_execute_of [OF law inv org ready] p)
qed
end
