(* ===== verification/Its_Client_Demo.thy ===== *)
theory Its_Client_Demo
  imports Its_Relay Its_Demo
begin

text \<open>The built instructions and the relayed messages on the service of \<open>Its_Demo\<close>.\<close>

section \<open>Addresses\<close>

lemma demo_find_key [simp]: "find_key demo_env seeds pid = Inr (concat seeds @ [255] @ pid)"
  by (simp add: find_key_def find_program_address_def demo_env_def)

lemma demo_client_keys [simp]:
  "its_root_key demo_env = Inr demo_its_key" "token_manager_key demo_env demo_tid demo_its_key = Inr demo_tm_key"
  "user_roles_key demo_env r w = Inr (demo_roles_key r w)"
  by (simp_all add: its_root_key_def token_manager_key_def user_roles_key_def)

lemma demo_client_defined [simp]:
  "\<exists>k. token_manager_key demo_env tid r = Inr k" "\<exists>k. token_mint_key demo_env tid r = Inr k"
  "\<exists>k. program_data_key demo_env = Inr k" "\<exists>k. gateway_root_key demo_env = Inr k" "\<exists>k. gas_treasury_key demo_env = Inr k"
  by (simp_all add: token_manager_key_def token_mint_key_def program_data_key_def gateway_root_key_def gas_treasury_key_def)

lemmas client_builder_defs =
  make_initialize_instruction_def make_set_pause_status_instruction_def trusted_chain_accounts_def
  make_set_trusted_chain_instruction_def make_remove_trusted_chain_instruction_def make_set_flow_limit_instruction_def
  make_transfer_operatorship_instruction_def manager_transfer_accounts_def
  make_transfer_token_manager_operatorship_instruction_def make_transfer_interchain_token_mintership_instruction_def
  flow_limiter_accounts_def make_add_token_manager_flow_limiter_instruction_def
  make_remove_token_manager_flow_limiter_instruction_def make_set_token_manager_flow_limit_instruction_def
  make_deploy_interchain_token_instruction_def make_mint_interchain_token_instruction_def client_gmp_accounts_def
  make_interchain_transfer_instruction_def CallContractSigner_find_pda_def

text \<open>On this platform every address is found, so every instruction can be built.\<close>

lemma demo_built:
  "\<exists>ix. make_initialize_instruction demo_env a b c d = Inr ix" "\<exists>ix. make_set_pause_status_instruction demo_env a p = Inr ix"
  "\<exists>ix. make_set_trusted_chain_instruction demo_env a c p = Inr ix"
  "\<exists>ix. make_remove_trusted_chain_instruction demo_env a c p = Inr ix"
  "\<exists>ix. make_set_flow_limit_instruction demo_env a b tid l = Inr ix"
  "\<exists>ix. make_transfer_operatorship_instruction demo_env a b b' = Inr ix"
  "\<exists>ix. make_transfer_token_manager_operatorship_instruction demo_env a b b' tid = Inr ix"
  "\<exists>ix. make_transfer_interchain_token_mintership_instruction demo_env a b b' tid = Inr ix"
  "\<exists>ix. make_add_token_manager_flow_limiter_instruction demo_env a b b' tid = Inr ix"
  "\<exists>ix. make_remove_token_manager_flow_limiter_instruction demo_env a b b' tid = Inr ix"
  "\<exists>ix. make_set_token_manager_flow_limit_instruction demo_env a b tid l = Inr ix"
  "\<exists>ix. make_mint_interchain_token_instruction demo_env tid n a b b' = Inr ix"
  "\<exists>ix. make_interchain_transfer_instruction demo_env lib tid n a b b' c da g cp cs dt = Inr ix"
  by (auto simp: client_builder_defs find_program_address_def program_data_key_def token_manager_key_def token_mint_key_def
      gateway_root_key_def gas_treasury_key_def optional_key_def)

lemma demo_inv: "its_inv demo_env demo_its2" "its_inv demo_env demo_its3" "its_inv demo_env demo_its5"
  by (rule its_reachable_inv [OF demo_laws demo_its_reachable(6)] its_reachable_inv [OF demo_laws demo_its_reachable(2)]
      its_reachable_inv [OF demo_laws demo_its_reachable(4)])+

lemma demo_roles_at [simp]: "roles_at demo_env m r w = entry_roles (m (demo_roles_key r w))"
proof -
  have "try_find_program_address demo_env (user_roles_seeds r w) (its_id demo_env) = Some (demo_roles_key r w, 255)"
    using demo_its_seeds(3) [of r w] by (simp add: demo_env_def)
  then show ?thesis by (simp add: roles_at_entry)
qed

section \<open>Relayed messages\<close>

definition demo_xa :: execute_addresses where
  "demo_xa = \<lparr>xa_incoming = msg_key demo_imsg,
     xa_signing = str_bytes ''gtw-validate-msg'' @ command_id demo_env demo_imsg @ [255, 3], xa_gateway_root = demo_root_key,
     xa_event_authority = [], xa_payer = demo_user, xa_its_root = demo_its_key, xa_token_manager = demo_tm_key,
     xa_token_mint = [30], xa_token_manager_ata = demo_ata demo_tm_key, xa_token_program = [31]\<rparr>"

lemma demo_ready:
  assumes "its_gateway st = demo_igw \<or> st = demo_its5"
    and "its_accounts st demo_its_key = Some (ItsRootAcc (demo_root [''eth'']))"
    and "hub_try_from_slice lib [90] = Some (ReceiveFromHub ''eth'' inner)"
    and "xa_incoming x = xa_incoming demo_xa" "xa_signing x = xa_signing demo_xa" "xa_gateway_root x = demo_root_key"
      "xa_its_root x = demo_its_key"
  shows "hub_message_ready demo_env lib st x demo_imsg [90] (msg_incoming demo_imsg) (demo_root [''eth'']) ''eth'' inner"
proof -
  have gw: "gw_accounts (its_gateway st) = gw_accounts demo_igw" using assms(1) by auto
  have "try_find_program_address demo_env (validate_message_seeds (command_id demo_env demo_imsg)) [3] =
      Some (xa_signing demo_xa, 255)"
    by (simp add: validate_message_seeds_def demo_xa_def demo_env_def)
  moreover have "pubkey_from_str demo_env (destination_address demo_imsg) = Some [3]" "keccak demo_env [90] = [90]"
    by (simp_all add: demo_env_def str_bytes_def)
  moreover have "im_message_hash (msg_incoming demo_imsg) = message_hash demo_env demo_imsg"
    "is_approved (im_status (msg_incoming demo_imsg))"
    by (simp_all add: msg_incoming_def message_hash_def demo_env_def)
  ultimately show ?thesis
    using assms gw by (auto simp: hub_message_ready_def demo_xa_def)
qed

section \<open>A deployment\<close>

text \<open>
  The token programs with distinct associated addresses, which refuse to create what exists, and the
  hub's link message.
\<close>

definition demo_mint_key :: pubkey where "demo_mint_key = replicate 32 30"

definition demo_link :: LinkTokenMsg where
  "demo_link = \<lparr>lm_token_id = demo_tid, lm_token_manager_type = u8_of_type LockUnlock, lm_source_token_address = [6],
     lm_destination_token_address = demo_mint_key, lm_params = Some demo_heir\<rparr>"

definition demo_clib :: its_lib where
  "demo_clib = demo_ilib\<lparr>ata_address := (\<lambda>w m p. 41 # w @ m),
     spl_create_ata := (\<lambda>w m p T. if tl_accounts T (41 # w @ m) = None
       then Some (T\<lparr>tl_accounts := (tl_accounts T)(41 # w @ m \<mapsto> \<lparr>ta_program = p, ta_mint = m, ta_owner = w, ta_amount = 0\<rparr>)\<rparr>)
       else None),
     spl_create_mint := (\<lambda>p m d auth frz T. if tl_mints T m = None
       then Some (T\<lparr>tl_mints := (tl_mints T)(m \<mapsto> \<lparr>mi_program = p, mi_authority = Some auth, mi_supply = 0, mi_decimals = d,
         mi_fee_config = None, mi_metadata_pointer = None, mi_token_metadata = None\<rparr>)\<rparr>)
       else None),
     hub_try_from_slice := (\<lambda>bs. if bs = [90] then Some (ReceiveFromHub ''eth'' (LinkTokenM demo_link)) else None)\<rparr>"

lemma demo_clib_sel [simp]:
  "token_program_id demo_clib = [31]" "token_2022_id demo_clib = [32]" "associated_token_program_id demo_clib = [33]"
  "its_network demo_clib = Mainnet" "ata_address demo_clib w m p = 41 # w @ m"
  "sysvar_instructions_id demo_clib = [35]" "mpl_token_metadata_id demo_clib = [34]" "MAX_NAME_LENGTH demo_clib = 32"
  "MAX_SYMBOL_LENGTH demo_clib = 10" "metadata_address demo_clib m = 39 # m"
  "spl_mint_to demo_clib p m k a n T = Some T" "mpl_create demo_clib md m signer name symbol T = Some T"
  by (simp_all add: demo_clib_def demo_ilib_def)

lemma demo_clib_laws: "its_laws demo_env demo_clib" "spl_law demo_clib" "create_law demo_clib"
proof -
  show "its_laws demo_env demo_clib"
    by (simp add: its_laws_def demo_pda_law demo_pda_inj destination_law_def demo_clib_def demo_ilib_def runs_refl)
  have "ledger_shape T (T\<lparr>tl_accounts := (tl_accounts T)(k \<mapsto> a)\<rparr>)" if "tl_accounts T k = None" for T k a
    using that by (simp add: ledger_shape_def mint_program_def account_identity_def)
  then show "spl_law demo_clib"
    by (auto simp: spl_law_def demo_clib_def demo_ilib_def account_identity_def split: if_splits)
  have "ledger_shape T (T\<lparr>tl_mints := (tl_mints T)(k \<mapsto> m)\<rparr>)" if "tl_mints T k = None" for T k m
    using that by (simp add: ledger_shape_def mint_program_def account_identity_def)
  then show "create_law demo_clib"
    by (auto simp: create_law_def demo_clib_def demo_ilib_def mint_program_def split: if_splits)
qed

definition demo_dtid :: hash where
  "demo_dtid = interchain_token_id demo_env Mainnet demo_user [9]"

definition demo_dtk :: pubkey where
  "demo_dtk = str_bytes ''token-manager'' @ demo_its_key @ demo_dtid @ [255, 3]"

definition demo_dmk :: pubkey where
  "demo_dmk = str_bytes ''interchain-token'' @ demo_its_key @ demo_dtid @ [255, 3]"

lemma demo_dkeys [simp]:
  "token_manager_key demo_env demo_dtid demo_its_key = Inr demo_dtk" "token_mint_key demo_env demo_dtid demo_its_key = Inr demo_dmk"
  by (simp_all add: token_manager_key_def token_mint_key_def token_manager_seeds_def interchain_token_seeds_def demo_dtk_def
      demo_dmk_def)

lemma demo_dseeds [simp]:
  "check_seeds_canonical demo_env (token_manager_seeds demo_dtid demo_its_key) [3] demo_dtk = Inr 255"
  "check_seeds_canonical demo_env (interchain_token_seeds demo_dtid demo_its_key) [3] demo_dmk = Inr 255"
  by (simp_all add: check_seeds_canonical_def find_program_address_def token_manager_seeds_def interchain_token_seeds_def
      demo_dtk_def demo_dmk_def)

lemma demo_dvacant [simp]:
  "its_accounts demo_its2 demo_dtk = None" "its_accounts demo_its2 (demo_roles_key demo_dtk w) = None"
  "demo_roles_key demo_dtk w \<noteq> demo_dtk" "tl_mints demo_tokens demo_dmk = None"
  by (simp_all add: demo_its2_def demo_its1_def demo_its0_def its_empty_def demo_dtk_def demo_its_key_def demo_roles_key_def
      demo_dmk_def demo_tokens_def str_bytes_def of_char_u8_inj)

lemma demo_ata_vacant [simp]: "tl_accounts demo_tokens (41 # k) = None"
proof -
  have "41 # k \<noteq> demo_ata w" for w using demo_key_heads(5) [of w] by (auto dest: arg_cong [where f = hd])
  then show ?thesis by (simp add: demo_tokens_def)
qed

lemma demo_deploy_ok:
  assumes "make_deploy_interchain_token_instruction demo_env demo_clib demo_user demo_user [9] ''Token'' ''TKN'' 9 5 (Some demo_heir)
      = Inr ix"
  shows "\<exists>st'. its_entry demo_env demo_clib demo_iview ix demo_its2 = Inr st'"
proof -
  have mint: "\<exists>T. init_mint demo_env demo_clib (interchain_token_seeds demo_dtid demo_its_key) (acc_mut demo_dmk) 9 demo_dtk [32] demo_tokens
      = Inr T \<and> tl_accounts T = tl_accounts demo_tokens"
    by (simp add: init_mint_def check_mut_def require_def) (simp add: demo_clib_def spl_def)
  obtain T where T: "init_mint demo_env demo_clib (interchain_token_seeds demo_dtid demo_its_key) (acc_mut demo_dmk) 9 demo_dtk [32]
      demo_tokens = Inr T" "tl_accounts T = tl_accounts demo_tokens" using mint by blast
  have ata: "\<exists>T'. init_ata_if_needed demo_clib w demo_dmk [32] (acc_mut (41 # w @ demo_dmk)) T0 = Inr T' \<and>
      tl_accounts T' = (tl_accounts T0)(41 # w @ demo_dmk \<mapsto> \<lparr>ta_program = [32], ta_mint = demo_dmk, ta_owner = w, ta_amount = 0\<rparr>)"
    if "tl_accounts T0 (41 # w @ demo_dmk) = None" for w T0
    using that by (simp add: init_ata_if_needed_def check_mut_def require_def) (simp add: demo_clib_def spl_def)
  obtain T1 where T1: "init_ata_if_needed demo_clib demo_dtk demo_dmk [32] (acc_mut (41 # demo_dtk @ demo_dmk)) T = Inr T1"
    "tl_accounts T1 = (tl_accounts T)(41 # demo_dtk @ demo_dmk \<mapsto> \<lparr>ta_program = [32], ta_mint = demo_dmk, ta_owner = demo_dtk, ta_amount = 0\<rparr>)"
    using ata [of T demo_dtk] T(2) by auto
  have "hd demo_dtk = 116" by (simp add: demo_dtk_def str_bytes_def)
  with demo_key_heads(1) have "demo_user \<noteq> demo_dtk" by force
  then obtain T2 where T2: "init_ata_if_needed demo_clib demo_user demo_dmk [32] (acc_mut (41 # demo_user @ demo_dmk)) T1 = Inr T2"
    using ata [of T1 demo_user] T1(2) T(2) by auto
  show ?thesis
    using assms T(1) T1(1) T2
    by (auto simp: make_deploy_interchain_token_instruction_def Let_def demo_dtid_def [symmetric] find_token_metadata_def
        optional_key_def its_entry_def deploy_interchain_token_def check_payer_def check_signer_def check_program_def
        check_mut_def require_def check_vacant_def init_token_manager_def check_metadata_accounts_def init_optional_roles_def
        init_user_roles_def check_minter_config_def spl_def)
qed

section \<open>A relayed link\<close>

definition demo_xk :: execute_addresses where
  "demo_xk = demo_xa\<lparr>xa_token_mint := demo_mint_key, xa_token_manager_ata := 41 # demo_tm_key @ demo_mint_key\<rparr>"

definition demo_lst :: its_state where
  "demo_lst = demo_its2\<lparr>its_tokens := demo_tokens\<lparr>tl_mints := [demo_mint_key \<mapsto> demo_mint]\<rparr>\<rparr>"

lemma demo_more_heads: "hd demo_mint_key = 30" "hd demo_heir = 22" "hd (demo_roles_key r w) = 117"
  by (simp_all add: demo_mint_key_def demo_heir_def demo_roles_key_def str_bytes_def)

lemma demo_link_distinct:
  "distinct (execute_keys demo_env demo_clib demo_xk @ [demo_heir, demo_roles_key demo_tm_key demo_heir])"
proof -
  have "distinct (map hd (execute_keys demo_env demo_clib demo_xk @ [demo_heir, demo_roles_key demo_tm_key demo_heir]))"
    by (simp add: execute_keys_def demo_xk_def demo_xa_def demo_key_heads demo_more_heads)
  then show ?thesis by (simp only: distinct_map)
qed

end
