(* ===== verification/Its_Client_Props.thy ===== *)
theory Its_Client_Props
  imports Its_Relay Its_Client_Demo
begin

text \<open>
  The properties of the service's client library: what the built instructions do on every state with
  the invariant, and that the accounts a relayer adds are the ones the service's handlers take.
\<close>

section \<open>Changing roles\<close>

text \<open>An instruction is accepted exactly under a condition, and then leaves exactly this table of roles.\<close>

definition changes_roles ::
    "env \<Rightarrow> its_lib \<Rightarrow> its_view \<Rightarrow> its_instruction \<Rightarrow> its_state \<Rightarrow> bool \<Rightarrow> (pubkey \<Rightarrow> pubkey \<Rightarrow> u8) \<Rightarrow> bool" where
  "changes_roles env lib view ix st cond R \<longleftrightarrow>
     ((\<exists>st'. its_entry env lib view ix st = Inr st') \<longleftrightarrow> cond) \<and>
     (\<forall>st'. its_entry env lib view ix st = Inr st' \<longrightarrow> same_roles (roles_at env (its_accounts st')) R)"

definition moved_role :: "(pubkey \<Rightarrow> pubkey \<Rightarrow> u8) \<Rightarrow> pubkey \<Rightarrow> pubkey \<Rightarrow> pubkey \<Rightarrow> u8 \<Rightarrow> pubkey \<Rightarrow> pubkey \<Rightarrow> u8" where
  "moved_role R r w w' role = set_role (set_role R r w (R r w AND NOT role)) r w' (R r w' OR role)"

text \<open>
  C18. The instructions the library builds to hand over the operatorship of the service, the
  operatorship of a token manager or its mintership, and to name or dismiss a flow limiter, succeed
  exactly when the service (and the manager) exists, the signer holds the role it takes and the
  other user is another one (or has not, has the flow limiter's role); they then change exactly
  these roles, and the accounts the library derives never make them fail.
\<close>

theorem client_role_changes_exact:
  assumes law: "its_laws env lib" and inv: "its_inv env st" and len: "length w = 32" "length w' = 32"
    and R: "R = roles_at env (its_accounts st)"
    and rk: "its_root_key env = Inr rk" and tk: "token_manager_key env tid rk = Inr tk"
    and ix: "make_transfer_operatorship_instruction env payer w w' = Inr ix1"
      "make_transfer_token_manager_operatorship_instruction env payer w w' tid = Inr ix2"
      "make_transfer_interchain_token_mintership_instruction env payer w w' tid = Inr ix3"
      "make_add_token_manager_flow_limiter_instruction env payer w w' tid = Inr ix4"
      "make_remove_token_manager_flow_limiter_instruction env payer w w' tid = Inr ix5"
    and service: "service \<longleftrightarrow> (\<exists>s. its_accounts st rk = Some (ItsRootAcc s))"
    and manager: "manager \<longleftrightarrow> service \<and> (\<exists>t. its_accounts st tk = Some (TokenManagerAcc t))"
  shows "changes_roles env lib view ix1 st (service \<and> has_role (R rk w) OPERATOR \<and> w' \<noteq> w) (moved_role R rk w w' OPERATOR) \<and>
    changes_roles env lib view ix2 st (manager \<and> has_role (R tk w) OPERATOR \<and> w' \<noteq> w) (moved_role R tk w w' OPERATOR) \<and>
    changes_roles env lib view ix3 st (manager \<and> has_role (R tk w) MINTER \<and> w' \<noteq> w) (moved_role R tk w w' MINTER) \<and>
    changes_roles env lib view ix4 st (manager \<and> has_role (R tk w) OPERATOR \<and> \<not> has_role (R tk w') FLOW_LIMITER)
      (set_role R tk w' (R tk w' OR FLOW_LIMITER)) \<and>
    changes_roles env lib view ix5 st (manager \<and> has_role (R tk w) OPERATOR \<and> has_role (R tk w') FLOW_LIMITER)
      (set_role R tk w' (R tk w' AND NOT FLOW_LIMITER))"
proof -
  note pre = its_inv_pre [OF law inv]
  obtain a where a: "manager_transfer_accounts env payer w w' tid = Inr a"
    "ix2 = TransferTokenManagerOperatorshipIx a" "ix3 = TransferMintershipIx a"
    using ix(2,3) by (auto simp: make_transfer_token_manager_operatorship_instruction_def
        make_transfer_interchain_token_mintership_instruction_def res_bind_Inr)
  obtain f where f: "flow_limiter_accounts env payer w w' tid = Inr f" "ix4 = AddFlowLimiterIx f" "ix5 = RemoveFlowLimiterIx f"
    using ix(4,5) by (auto simp: make_add_token_manager_flow_limiter_instruction_def
        make_remove_token_manager_flow_limiter_instruction_def res_bind_Inr)
  have entry: "its_entry env lib view ix4 st = add_token_manager_flow_limiter env f st"
    "its_entry env lib view ix5 st = remove_token_manager_flow_limiter env f st"
    by (simp_all add: f its_entry_def)
  note op = manager_operator_exact [OF pre f(1) len(1) rk tk]
  note ex1 = transfer_operatorship_exact [OF pre ix(1) len rk]
  note ex2 = manager_transfer_exact [OF pre a(1) len rk tk, of ix2 OPERATOR]
  note ex3 = manager_transfer_exact [OF pre a(1) len rk tk, of ix3 MINTER]
  note ex4 = add_flow_limiter_exact [OF pre f(1) len rk tk]
  note ex5 = remove_flow_limiter_exact [OF pre f(1) len rk tk]
  show ?thesis
  proof (intro conjI)
    show "changes_roles env lib view ix1 st (service \<and> has_role (R rk w) OPERATOR \<and> w' \<noteq> w) (moved_role R rk w w' OPERATOR)"
      using ex1 by (simp add: changes_roles_def moved_role_def R service)
    show "changes_roles env lib view ix2 st (manager \<and> has_role (R tk w) OPERATOR \<and> w' \<noteq> w) (moved_role R tk w w' OPERATOR)"
      using ex2 by (simp add: changes_roles_def moved_role_def R service manager a)
    show "changes_roles env lib view ix3 st (manager \<and> has_role (R tk w) MINTER \<and> w' \<noteq> w) (moved_role R tk w w' MINTER)"
      using ex3 by (simp add: changes_roles_def moved_role_def R service manager a)
    show "changes_roles env lib view ix4 st (manager \<and> has_role (R tk w) OPERATOR \<and> \<not> has_role (R tk w') FLOW_LIMITER)
        (set_role R tk w' (R tk w' OR FLOW_LIMITER))"
      using ex4 op by (simp add: changes_roles_def entry R service manager)
    show "changes_roles env lib view ix5 st (manager \<and> has_role (R tk w) OPERATOR \<and> has_role (R tk w') FLOW_LIMITER)
        (set_role R tk w' (R tk w' AND NOT FLOW_LIMITER))"
      using ex5 op by (simp add: changes_roles_def entry R service manager)
  qed
qed

theorem client_role_changes_exact_witness:
  "\<exists>ix st'. make_transfer_token_manager_operatorship_instruction demo_env demo_user demo_heir demo_user demo_tid = Inr ix \<and>
     its_entry demo_env demo_ilib demo_iview ix demo_its3 = Inr st'"
proof -
  obtain ix1 ix2 ix3 ix4 ix5 where ix:
    "make_transfer_operatorship_instruction demo_env demo_user demo_heir demo_user = Inr ix1"
    "make_transfer_token_manager_operatorship_instruction demo_env demo_user demo_heir demo_user demo_tid = Inr ix2"
    "make_transfer_interchain_token_mintership_instruction demo_env demo_user demo_heir demo_user demo_tid = Inr ix3"
    "make_add_token_manager_flow_limiter_instruction demo_env demo_user demo_heir demo_user demo_tid = Inr ix4"
    "make_remove_token_manager_flow_limiter_instruction demo_env demo_user demo_heir demo_user demo_tid = Inr ix5"
    using demo_built by metis
  have "has_role (roles_at demo_env (its_accounts demo_its3) demo_tm_key demo_heir) OPERATOR"
    by (simp add: entry_roles_def has_role_def LINKED_OPERATOR_ROLES_def role_defs)
  with client_role_changes_exact [OF demo_laws demo_inv(2) demo_users(2,1) refl _ _ ix refl refl, of demo_its_key demo_tm_key demo_iview]
  have "\<exists>st'. its_entry demo_env demo_ilib demo_iview ix2 demo_its3 = Inr st'"
    by (simp add: changes_roles_def)
  with ix(2) show ?thesis by blast
qed

section \<open>Settings\<close>

text \<open>
  C19. The instructions the library builds for the service's settings: initialization succeeds exactly
  for the upgrade authority while the service does not exist; pausing exactly for the upgrade
  authority when it changes something; trusting or distrusting a chain for the operator or the upgrade
  authority, whichever the client chose to prove; a flow limit for the service's operator or the
  manager's flow limiter. What they write is exactly the setting, and the event that records it.
\<close>

theorem client_settings_exact:
  assumes law: "its_laws env lib" and inv: "its_inv env st" and len: "length w = 32"
    and rk: "its_root_key env = Inr rk" and tk: "token_manager_key env tid rk = Inr tk"
    and ix: "make_initialize_instruction env payer w c h = Inr ix1" "make_set_pause_status_instruction env w p = Inr ix2"
      "make_set_trusted_chain_instruction env w c op = Inr ix3" "make_remove_trusted_chain_instruction env w c op = Inr ix4"
      "make_set_flow_limit_instruction env payer w tid limit = Inr ix5"
      "make_set_token_manager_flow_limit_instruction env payer w tid limit = Inr ix6"
  shows "((\<exists>st'. its_entry env lib view ix1 st = Inr st') \<longleftrightarrow>
      upgrade_authority env view payer \<and> (\<nexists>s. its_accounts st rk = Some (ItsRootAcc s))) \<and>
    (its_entry env lib view ix2 st = Inr st' \<longleftrightarrow> upgrade_authority env view w \<and>
      (\<exists>s. its_accounts st rk = Some (ItsRootAcc s) \<and> paused s \<noteq> p \<and> st' = put_its rk (ItsRootAcc (s\<lparr>paused := p\<rparr>)) st)) \<and>
    (its_entry env lib view ix3 st = Inr st' \<longleftrightarrow> chain_admin env view st rk w op \<and>
      (\<exists>s. its_accounts st rk = Some (ItsRootAcc s) \<and> c \<notin> set (trusted_chains s) \<and>
        st' = emit_its (TrustedChainSet c) (put_its rk (ItsRootAcc (add_trusted_chain c s)) st))) \<and>
    (its_entry env lib view ix4 st = Inr st' \<longleftrightarrow> chain_admin env view st rk w op \<and>
      (\<exists>s. its_accounts st rk = Some (ItsRootAcc s) \<and> c \<in> set (trusted_chains s) \<and>
        st' = emit_its (TrustedChainRemoved c) (put_its rk (ItsRootAcc (remove_trusted_chain c s)) st))) \<and>
    (its_entry env lib view ix5 st = Inr st' \<longleftrightarrow> (\<exists>s. its_accounts st rk = Some (ItsRootAcc s)) \<and>
      has_role (roles_at env (its_accounts st) rk w) OPERATOR \<and>
      (\<exists>t. its_accounts st tk = Some (TokenManagerAcc t) \<and> flow_limit (flow_slot t) \<noteq> limit \<and>
        st' = emit_its (FlowLimitSet tid w limit) (put_its tk (TokenManagerAcc (with_flow_limit limit t)) st))) \<and>
    (its_entry env lib view ix6 st = Inr st' \<longleftrightarrow> (\<exists>s. its_accounts st rk = Some (ItsRootAcc s)) \<and>
      has_role (roles_at env (its_accounts st) tk w) FLOW_LIMITER \<and>
      (\<exists>t. its_accounts st tk = Some (TokenManagerAcc t) \<and>
        st' = emit_its (FlowLimitSet tid w limit) (put_its tk (TokenManagerAcc (with_flow_limit limit t)) st)))"
proof -
  note pre = its_inv_pre [OF law inv]
  show ?thesis
    using initialize_exact [OF pre ix(1) len rk] set_pause_status_exact [OF pre ix(2) rk]
      set_trusted_chain_exact [OF pre ix(3) len rk] remove_trusted_chain_exact [OF pre ix(4) len rk]
      set_flow_limit_exact [OF pre ix(5) len rk tk] set_token_manager_flow_limit_exact [OF pre ix(6) len rk tk]
    by (intro conjI) assumption+
qed

theorem client_settings_exact_witness:
  "\<exists>ix st'. make_set_trusted_chain_instruction demo_env demo_user ''sui'' True = Inr ix \<and>
     its_entry demo_env demo_ilib demo_iview ix demo_its3 = Inr st'"
proof -
  obtain ix1 ix2 ix3 ix4 ix5 ix6 where ix: "make_initialize_instruction demo_env demo_user demo_user ''sui'' [] = Inr ix1"
    "make_set_pause_status_instruction demo_env demo_user True = Inr ix2"
    "make_set_trusted_chain_instruction demo_env demo_user ''sui'' True = Inr ix3"
    "make_remove_trusted_chain_instruction demo_env demo_user ''sui'' True = Inr ix4"
    "make_set_flow_limit_instruction demo_env demo_user demo_user demo_tid None = Inr ix5"
    "make_set_token_manager_flow_limit_instruction demo_env demo_user demo_user demo_tid None = Inr ix6"
    using demo_built by metis
  have "chain_admin demo_env demo_iview demo_its3 demo_its_key demo_user True"
    by (simp add: chain_admin_def entry_roles_def has_role_def)
  with client_settings_exact [OF demo_laws demo_inv(2) demo_users(1) _ _ ix, of demo_its_key demo_tm_key demo_iview]
  have "\<exists>st'. its_entry demo_env demo_ilib demo_iview ix3 demo_its3 = Inr st'" by simp
  with ix(3) show ?thesis by blast
qed

section \<open>Tokens\<close>

text \<open>
  C20. A token deployed with the library's instruction can be minted with the library's instruction:
  after the deployment the named minter has the three roles of the new manager and nobody else has
  any, and its mint to the deployer's account is accepted exactly when Token-2022 mints with the
  manager's signature.
\<close>

theorem deployed_token_mintable:
  assumes law: "its_laws env lib" and program: "program = token_2022_id lib" and spl: "spl_law lib" "create_law lib" and inv: "its_inv env st" and len: "length w = 32"
    and rk: "its_root_key env = Inr rk" and tid: "tid = interchain_token_id env (its_network lib) deployer salt"
    and tk: "token_manager_key env tid rk = Inr tk" and mk: "token_mint_key env tid rk = Inr mk"
    and deploy: "make_deploy_interchain_token_instruction env lib payer deployer salt name symbol d n (Some w) = Inr ix"
    and ok: "its_entry env lib view ix st = Inr st'"
    and mint: "make_mint_interchain_token_instruction env tid amount w (ata_address lib deployer mk program) program = Inr ix'"
    and amount: "amount \<noteq> 0"
  shows "(\<forall>x. length x = 32 \<longrightarrow> roles_at env (its_accounts st') tk x = (if x = w then NATIVE_MINTER_ROLES else 0)) \<and>
    (its_entry env lib view' ix' st' = Inr st'' \<longleftrightarrow>
      (\<exists>T. spl_mint_to lib program mk (ata_address lib deployer mk program) (acc_signer tk) amount (its_tokens st') = Some T \<and>
        st'' = st'\<lparr>its_tokens := T\<rparr>))"
proof -
  obtain a where a: "ix = DeployInterchainTokenIx a salt name symbol d n" "ai_key (di_deployer a) = deployer"
    "ai_key (di_token_mint a) = mk" "di_minter a = Some (acc w)"
    using deploy rk tk mk
    by (auto simp: make_deploy_interchain_token_instruction_def Let_def res_bind_Inr tid [symmetric])
  have run: "deploy_interchain_token env lib a salt name symbol d n st = Inr st'" using ok by (simp add: a its_entry_def)
  note ledger = deploy_ledger [OF spl run, unfolded a]
  note left = deployed_manager [OF law inv len deploy rk tid tk mk ok]
  have "its_step env lib st st'"
    by (rule its_ix [OF _ _ ok]) (simp_all add: a its_no_pda_signer_def its_ix_wf_def its_users_def len)
  then have pre': "its_pre env st'" using its_inv_pre [OF law] its_inv_step(1) [OF law inv] by blast
  have minter: "has_role (roles_at env (its_accounts st') tk w) MINTER"
    using left(3) [OF len] by (simp add: NATIVE_MINTER_ROLES_def has_role_def role_defs)
  obtain b where b: "its_accounts st' tk = Some (TokenManagerAcc (token_manager_init NativeInterchainToken tid mk
      (ata_address lib tk mk (token_2022_id lib)) b))"
    "try_find_program_address env (token_manager_seeds tid rk) (its_id env) = Some (tk, b)" using left(2) by blast
  have sign: "manager_signer env rk tid b tk = acc_signer tk"
    using pda_lawD [OF its_lawsD(1) [OF law] b(2)] by (simp add: manager_signer_def grant_signer_def acc_defs)
  have holds: "holds_mint (its_tokens st') program mk (ata_address lib deployer mk program)"
    using ledger(2) by (auto simp: holds_mint_def account_identity_def program)
  show ?thesis
    using mint_interchain_token_exact [OF pre' mint len rk tk mk, of lib view' st''] ledger(1) left minter b(1) sign holds amount
    by (auto simp: program token_manager_init_def)
qed

theorem deployed_token_mintable_witness:
  "\<exists>ix st' ix' st''. its_entry demo_env demo_clib demo_iview ix demo_its2 = Inr st' \<and>
     make_mint_interchain_token_instruction demo_env demo_dtid 7 demo_heir (41 # demo_user @ demo_dmk) [32] = Inr ix' \<and>
     its_entry demo_env demo_clib demo_iview ix' st' = Inr st'' \<and>
     roles_at demo_env (its_accounts st') demo_dtk demo_heir = NATIVE_MINTER_ROLES"
proof -
  obtain ix where ix: "make_deploy_interchain_token_instruction demo_env demo_clib demo_user demo_user [9] ''Token'' ''TKN'' 9 5
      (Some demo_heir) = Inr ix"
    by (simp add: make_deploy_interchain_token_instruction_def Let_def demo_dtid_def [symmetric] find_token_metadata_def
        optional_key_def)
  from demo_deploy_ok [OF this] obtain st' where st': "its_entry demo_env demo_clib demo_iview ix demo_its2 = Inr st'" by blast
  obtain ix' where ix': "make_mint_interchain_token_instruction demo_env demo_dtid 7 demo_heir (41 # demo_user @ demo_dmk) [32] = Inr ix'"
    using demo_built(12) by blast
  from deployed_token_mintable [OF demo_clib_laws(1) _ demo_clib_laws(2,3) demo_inv(1) demo_users(2) _ _ _ _ ix st' _ _,
      of "[32]" demo_its_key demo_dtid demo_dtk demo_dmk 7 ix' demo_iview] ix'
  have "roles_at demo_env (its_accounts st') demo_dtk demo_heir = NATIVE_MINTER_ROLES"
    "\<exists>st''. its_entry demo_env demo_clib demo_iview ix' st' = Inr st''"
    by (simp_all add: demo_dtid_def [symmetric] del: demo_roles_at)
  with st' ix' show ?thesis by blast
qed

text \<open>
  C30. The builders of transfers and mints derive the mint from the token id, as the service does for
  its own tokens only: for a token that was registered, which keeps the mint it had, the built
  instructions fail whatever the state, the amount and the token program.
\<close>

theorem client_builders_own_mint_only:
  assumes law: "its_laws env lib" and inv: "its_inv env st" and len: "length w = 32"
    and rk: "its_root_key env = Inr rk" and tk: "token_manager_key env tid rk = Inr tk"
    and t: "its_accounts st tk = Some (TokenManagerAcc t)" and foreign: "token_mint_key env tid rk \<noteq> Inr (token_address t)"
    and ix: "make_interchain_transfer_instruction env lib tid n program payer w dc da g cp cs data = Inr ix1"
      "make_mint_interchain_token_instruction env tid n w dest program = Inr ix2"
  shows "(\<exists>e. its_entry env lib view ix1 st = Inl e) \<and> (\<exists>e. its_entry env lib view ix2 st = Inl e)"
proof -
  note pre = its_inv_pre [OF law inv]
  have "its_entry env lib view ix1 st \<noteq> Inr st'" for st'
    using transfer_instruction_mint [OF pre ix(1) rk tk] t foreign by fastforce
  moreover have "its_entry env lib view ix2 st \<noteq> Inr st'" for st'
    using mint_instruction_mint [OF pre ix(2) len rk tk] t foreign by fastforce
  ultimately show ?thesis by (metis sum.exhaust)
qed

theorem client_builders_own_mint_only_witness:
  "\<exists>ix e. make_interchain_transfer_instruction demo_env demo_ilib demo_tid 60 [31] demo_user demo_user ''eth'' [7] 0 None None None
      = Inr ix \<and> its_entry demo_env demo_ilib demo_iview ix demo_its3 = Inl e"
proof -
  obtain ix1 ix2 where ix: "make_interchain_transfer_instruction demo_env demo_ilib demo_tid 60 [31] demo_user demo_user ''eth'' [7] 0
      None None None = Inr ix1" "make_mint_interchain_token_instruction demo_env demo_tid 60 demo_user demo_user [31] = Inr ix2"
    using demo_built by metis
  have "token_mint_key demo_env demo_tid demo_its_key \<noteq> Inr [30]" by (simp add: token_mint_key_def)
  with client_builders_own_mint_only [OF demo_laws demo_inv(2) demo_users(1) _ _ demo_its3_accounts(3) _ ix, of demo_its_key demo_iview]
  have "\<exists>e. its_entry demo_env demo_ilib demo_iview ix1 demo_its3 = Inl e" by simp
  with ix(1) show ?thesis by blast
qed

section \<open>Relaying\<close>

text \<open>
  C14. A message of the hub that the gateway approved, relayed with the accounts of \<open>execute\<close> and the
  extra accounts the library builds, reaches its handler: executing it is exactly running the
  handler of its kind, on the accounts given, once the gateway has marked it executed. Neither the
  runtime's checks of the service's call to itself nor the split of the extra accounts can fail.
\<close>

theorem relayed_message_reaches_handler:
  assumes law: "its_laws env lib" and inv: "its_inv env st" and inj: "inj (message_hash env)"
    and ready: "hub_message_ready env lib st x m payload im s sc inner"
  shows "(\<forall>p op. inner = LinkTokenM p \<longrightarrow> length (lm_destination_token_address p) = 32 \<longrightarrow>
      distinct (execute_keys env lib x @ map fst (optional_list op) @ map snd (optional_list op)) \<longrightarrow>
      its_entry env lib view (ItsExecuteIx (execute_accounts env lib x)
        (execute_link_token_extra_accounts (map_option fst op) (map_option snd op)) m payload) st =
      execute_link_token env lib (link_accounts env lib x op) (lm_token_id p) (lm_destination_token_address p)
        (lm_token_manager_type p) (case lm_params p of None \<Rightarrow> [] | Some v \<Rightarrow> v) (consumed env x m im st)) \<and>
    (\<forall>p md op. inner = DeployInterchainTokenM p \<longrightarrow>
      distinct (execute_keys env lib x @ [sysvar_instructions_id lib, mpl_token_metadata_id lib, md] @
        map fst (optional_list op) @ map snd (optional_list op)) \<longrightarrow>
      its_entry env lib view (ItsExecuteIx (execute_accounts env lib x)
        (execute_deploy_interchain_token_extra_accounts (sysvar_instructions_id lib) (mpl_token_metadata_id lib) md
          (map_option fst op) (map_option snd op)) m payload) st =
      execute_deploy_interchain_token env lib (deploy_accounts env lib x md op) (dm_token_id p) (dm_name p) (dm_symbol p)
        (dm_decimals p) (case dm_minter p of None \<Rightarrow> [] | Some v \<Rightarrow> v) (consumed env x m im st)) \<and>
    (\<forall>p destination authority ata has_data extra executor. inner = InterchainTransferM p \<longrightarrow>
      length (it_destination_address p) = 32 \<longrightarrow>
      execute_interchain_transfer_extra_accounts env destination authority ata has_data = Inr extra \<longrightarrow>
      executor = (if has_data = Some True
        then map_option fst (try_find_program_address env (interchain_transfer_execute_seeds destination) (its_id env)) else None) \<longrightarrow>
      distinct (execute_keys env lib x @ [destination, ata] @ optional_list executor) \<longrightarrow>
      authority = destination \<or> authority \<notin> set (execute_keys env lib x @ [ata] @ optional_list executor) \<longrightarrow>
      its_entry env lib view (ItsExecuteIx (execute_accounts env lib x) extra m payload) st =
      execute_interchain_transfer env lib view (transfer_accounts env lib x destination authority ata executor) [] m sc
        (it_source_address p) (it_destination_address p) (it_token_id p) (it_amount p)
        (case it_data p of None \<Rightarrow> [] | Some v \<Rightarrow> v) (consumed env x m im st))"
proof -
  have "root_addr env (xa_its_root x) (its_bump s)"
    using ready inv by (auto simp: hub_message_ready_def its_inv_def dest: its_okD)
  then have root: "create_program_address env (its_root_seeds @ [[its_bump s]]) (its_id env) = Some (xa_its_root x)"
    using pda_lawD [OF its_lawsD(1) [OF law]] by (simp add: root_addr_def)
  note front = relayed_execute [OF law inv inj ready]
  show ?thesis
    using relayed_link [OF root] relayed_deploy [OF root] relayed_transfer [OF root]
    by (intro conjI allI impI; simp only: its_entry_def its_instruction.case front ItsMessage.case)
qed

theorem relayed_message_reaches_handler_witness:
  "its_entry demo_env demo_ilib demo_iview (ItsExecuteIx (execute_accounts demo_env demo_ilib demo_xa)
      [acc demo_wallet, acc demo_wallet, acc_mut (demo_ata demo_wallet)] demo_imsg [90]) demo_its5 =
   execute_interchain_transfer demo_env demo_ilib demo_iview
     (transfer_accounts demo_env demo_ilib demo_xa demo_wallet demo_wallet (demo_ata demo_wallet) None) [] demo_imsg ''eth'' [5]
     demo_wallet demo_tid 50 [] (consumed demo_env demo_xa demo_imsg (msg_incoming demo_imsg) demo_its5)"
proof -
  have "hub_message_ready demo_env demo_ilib demo_its5 demo_xa demo_imsg [90] (msg_incoming demo_imsg) (demo_root [''eth''])
      ''eth'' (InterchainTransferM demo_transfer_msg)"
    by (rule demo_ready) (simp_all add: demo_xa_def demo_ilib_def)
  note reach = relayed_message_reaches_handler [OF demo_laws demo_inv(3) demo_hash_inj this, THEN conjunct2, THEN conjunct2,
      rule_format, OF refl, of demo_wallet demo_wallet "demo_ata demo_wallet" None]
  have "distinct (execute_keys demo_env demo_ilib demo_xa @ [demo_wallet, demo_ata demo_wallet])"
    using demo_keys_distinct demo_keys_distinct_rev by (simp add: execute_keys_def demo_xa_def)
  then show ?thesis
    using reach [of "[acc demo_wallet, acc demo_wallet, acc_mut (demo_ata demo_wallet)]" None]
    by (simp add: execute_interchain_transfer_extra_accounts_def demo_transfer_msg_def optional_list_def)
qed

text \<open>
  An approved link message of the hub is executed: with a mint that suits the type, no manager
  yet and the operator its parameters name (or none), the relayed instruction succeeds, creates the
  manager of exactly this mint and type, gives the operator its roles and marks the message executed.
\<close>

theorem approved_link_executes:
  assumes law: "its_laws env lib" and inv: "its_inv env st" and inj: "inj (message_hash env)"
    and ready: "hub_message_ready env lib st x m payload im s sc (LinkTokenM p)"
    and p: "p = \<lparr>lm_token_id = tid, lm_token_manager_type = u8_of_type t, lm_source_token_address = src,
        lm_destination_token_address = xa_token_mint x, lm_params = params\<rparr>"
    and rk: "its_root_key env = Inr (xa_its_root x)"
    and tk: "token_manager_key env tid (xa_its_root x) = Inr (xa_token_manager x)"
    and l: "linkable env lib st x t T" and mint: "length (xa_token_mint x) = 32"
    and op: "op = None \<and> params = None \<or>
      (\<exists>w k. params = Some w \<and> length w = 32 \<and> user_roles_key env (xa_token_manager x) w = Inr k \<and> op = Some (w, k))"
    and d: "distinct (execute_keys env lib x @ map fst (optional_list op) @ map snd (optional_list op))"
  shows "\<exists>b rb. (rb = None \<longleftrightarrow> op = None) \<and> its_entry env lib view (ItsExecuteIx (execute_accounts env lib x)
      (execute_link_token_extra_accounts (map_option fst op) (map_option snd op)) m payload) st =
    Inr (linked_state x tid t b op rb T (consumed env x m im st))"
  by (rule approved_link_of [OF law inv ready_origin [OF law inv inj ready] ready p rk tk l mint op d])

theorem approved_link_executes_witness:
  "\<exists>b rb T. its_entry demo_env demo_clib demo_iview (ItsExecuteIx (execute_accounts demo_env demo_clib demo_xk)
      [acc demo_heir, acc_mut (demo_roles_key demo_tm_key demo_heir)] demo_imsg [90]) demo_lst =
    Inr (linked_state demo_xk demo_tid LockUnlock b (Some (demo_heir, demo_roles_key demo_tm_key demo_heir)) rb T
      (consumed demo_env demo_xk demo_imsg (msg_incoming demo_imsg) demo_lst))"
proof -
  have inv: "its_inv demo_env demo_lst" using demo_inv(1) by (simp add: its_inv_def demo_lst_def)
  have ready: "hub_message_ready demo_env demo_clib demo_lst demo_xk demo_imsg [90] (msg_incoming demo_imsg) (demo_root [''eth''])
      ''eth'' (LinkTokenM demo_link)"
    by (rule demo_ready) (simp_all add: demo_xk_def demo_xa_def demo_lst_def demo_clib_def)
  have "\<exists>T. init_ata_if_needed demo_clib demo_tm_key demo_mint_key [31] (acc_mut (41 # demo_tm_key @ demo_mint_key))
      (demo_tokens\<lparr>tl_mints := [demo_mint_key \<mapsto> demo_mint]\<rparr>) = Inr T"
    by (simp add: init_ata_if_needed_def check_mut_def require_def) (simp add: demo_clib_def spl_def)
  then obtain T where l: "linkable demo_env demo_clib demo_lst demo_xk LockUnlock T"
    by (auto simp: linkable_def demo_xk_def demo_xa_def demo_lst_def demo_mint_def supports_mint_extensions_def)
  have d: "distinct (execute_keys demo_env demo_clib demo_xk @ [demo_heir, demo_roles_key demo_tm_key demo_heir])"
    by (rule demo_link_distinct)
  have xk: "xa_token_mint demo_xk = demo_mint_key" "xa_its_root demo_xk = demo_its_key" "xa_token_manager demo_xk = demo_tm_key"
    by (simp_all add: demo_xk_def demo_xa_def)
  have link: "demo_link = \<lparr>lm_token_id = demo_tid, lm_token_manager_type = u8_of_type LockUnlock, lm_source_token_address = [6],
      lm_destination_token_address = xa_token_mint demo_xk, lm_params = Some demo_heir\<rparr>"
    by (simp add: demo_link_def xk)
  from approved_link_executes [OF demo_clib_laws(1) inv demo_hash_inj ready link _ _ l _ _,
      of "Some (demo_heir, demo_roles_key demo_tm_key demo_heir)" demo_iview] d
  show ?thesis
    by (auto simp: execute_link_token_extra_accounts_def optional_list_def xk demo_mint_key_def)
qed

end
