(* ===== verification/Memo.thy ===== *)
theory Memo
  imports Its_Client Utf8
begin

text \<open>
  The memo program (\<open>programs/solana-axelar-memo\<close>), a client of the three interfaces the other
  programs offer: it receives messages of the gateway and tokens of the token service, counting
  both, and sends messages and tokens out.
\<close>

section \<open>State\<close>

record Counter =
  ctr_counter :: u64
  ctr_bump :: u8

definition counter_seeds :: "bytes list" where
  "counter_seeds = [str_bytes ''counter'']"

text \<open>The lines a handler logs about its memo, as values.\<close>

datatype memo_line =
    MemoTooBig nat bytes nat
  | MemoText nat bytes
  | TokensReceived hash u64 pubkey
  | ReceivedMemo string

record memo_state =
  mm_accounts :: "Counter accounts"
  mm_its :: its_state
  mm_log :: "memo_line list"

definition memo_empty :: "its_state \<Rightarrow> memo_state" where
  "memo_empty its = \<lparr>mm_accounts = Map.empty, mm_its = its, mm_log = []\<rparr>"

interpretation memo_counter: account_kind "\<lambda>c. c" "Some :: Counter \<Rightarrow> Counter option"
  by unfold_locales simp_all

text \<open>A counter account, writable where the instruction says so.\<close>

definition load_counter :: "env \<Rightarrow> memo_state \<Rightarrow> account_info \<Rightarrow> Counter result" where
  "load_counter env st a =
     res_bind (load_acc Some (mm_accounts st) (ai_key a)) (\<lambda>c.
     res_bind (check_seeds env counter_seeds (ctr_bump c) (memo_id env) (ai_key a)) (\<lambda>_. Inr c))"

section \<open>\<open>init.rs\<close> and \<open>emit_memo.rs\<close>\<close>

record memo_Init =
  mi_payer :: account_info
  mi_counter :: account_info
  mi_system_program :: account_info

definition memo_init :: "env \<Rightarrow> memo_Init \<Rightarrow> memo_state \<Rightarrow> memo_state result" where
  "memo_init env a st =
     res_bind (check_payer (mi_payer a)) (\<lambda>_.
     res_bind (check_mut (mi_counter a)) (\<lambda>_.
     res_bind (check_seeds_canonical env counter_seeds (memo_id env) (ai_key (mi_counter a))) (\<lambda>bump.
     res_bind (check_vacant (mm_accounts st) (ai_key (mi_counter a))) (\<lambda>_.
     res_bind (check_program (mi_system_program a) (system_program_id env)) (\<lambda>_.
     Inr (st\<lparr>mm_accounts := (mm_accounts st)(ai_key (mi_counter a) \<mapsto>
       \<lparr>ctr_counter = 0, ctr_bump = bump\<rparr>)\<rparr>))))))"

definition emit_memo :: "string \<Rightarrow> memo_state \<Rightarrow> memo_state result" where
  "emit_memo message st = Inr (st\<lparr>mm_log := mm_log st @ [ReceivedMemo message]\<rparr>)"

section \<open>\<open>execute.rs\<close>\<close>

text \<open>\<open>log_memo\<close>: long memos are logged by their first character.\<close>

definition log_memo :: "bytes list \<Rightarrow> memo_line" where
  "log_memo cs =
     (if 10 < length cs then MemoTooBig (length (concat cs)) (hd cs) (length cs)
      else MemoText (length (concat cs)) (concat cs))"

text \<open>\<open>counter += 1\<close>; the release profile checks overflow.\<close>

definition count_memo :: "pubkey \<Rightarrow> Counter \<Rightarrow> memo_state \<Rightarrow> memo_state result" where
  "count_memo k c st =
     res_bind (ok_or (checked_add (ctr_counter c) 1) (Panic ''attempt to add with overflow'')) (\<lambda>n.
     Inr (st\<lparr>mm_accounts := (mm_accounts st)(k \<mapsto> c\<lparr>ctr_counter := n\<rparr>)\<rparr>))"

record memo_Execute =
  me_executable :: AxelarExecuteAccounts
  me_counter :: account_info

text \<open>\<open>to_account_metas(None)\<close> of the accounts: no field is a signer.\<close>

definition memo_execute_metas :: "memo_Execute \<Rightarrow> account_info list" where
  "memo_execute_metas a =
     (let k = (\<lambda>f. ai_key (f (me_executable a))) in
     [acc_mut (k ae_incoming_message_pda), acc (k ae_signing_pda), acc (k ae_gateway_root_pda),
      acc (k ae_event_authority), acc (k ae_axelar_gateway_program), acc_mut (ai_key (me_counter a))])"

definition memo_execute ::
    "env \<Rightarrow> payload_lib \<Rightarrow> memo_Execute \<Rightarrow> Message \<Rightarrow> bytes \<Rightarrow> EncodingScheme \<Rightarrow> memo_state \<Rightarrow> memo_state result" where
  "memo_execute env lib a message payload scheme st =
     (let gw = its_gateway (mm_its st); k = ai_key (me_counter a) in
     res_bind (check_execute_accounts env (memo_id env) (me_executable a) message gw) (\<lambda>_.
     res_bind (check_mut (me_counter a)) (\<lambda>_.
     res_bind (load_counter env st (me_counter a)) (\<lambda>c.
     res_bind (executable_validate_message env lib (memo_id env) (me_executable a) (memo_execute_metas a) message
        payload scheme gw) (\<lambda>gw'.
     res_bind (ok_or (from_utf8 payload) (ProgramE ProgramError.InvalidInstructionData)) (\<lambda>memo.
     count_memo k c (st\<lparr>mm_its := (mm_its st)\<lparr>its_gateway := gw'\<rparr>, mm_log := mm_log st @ [log_memo memo]\<rparr>)))))))"

section \<open>\<open>execute_with_interchain_token.rs\<close>\<close>

record memo_ExecuteWithToken =
  mw_its_executable :: AxelarExecuteWithInterchainTokenAccounts
  mw_counter :: account_info

text \<open>
  With a further account the received tokens go on to it; the program signs as its token authority.
\<close>

definition memo_execute_with_interchain_token ::
    "env \<Rightarrow> its_lib \<Rightarrow> memo_ExecuteWithToken \<Rightarrow> account_info list \<Rightarrow> AxelarExecuteWithInterchainTokenPayload \<Rightarrow>
     memo_state \<Rightarrow> memo_state result" where
  "memo_execute_with_interchain_token env lib a remaining p st =
     (let x = mw_its_executable a; T = its_tokens (mm_its st) in
     res_bind (check_execute_with_token_accounts env lib (memo_id env) x T) (\<lambda>_.
     res_bind (check_mut (mw_counter a)) (\<lambda>_.
     res_bind (load_counter env st (mw_counter a)) (\<lambda>c.
     res_bind (ok_or (from_utf8 (ep_data p)) (ProgramE ProgramError.InvalidInstructionData)) (\<lambda>memo.
     res_bind (count_memo (ai_key (mw_counter a)) c
        (st\<lparr>mm_log := mm_log st @ [TokensReceived (ep_token_id p) (ep_amount p) (ep_token_mint p), log_memo memo]\<rparr>)) (\<lambda>st1.
     case remaining of
       [] \<Rightarrow> Inr st1
     | destination # _ \<Rightarrow>
         res_bind (load_mint T (et_token_mint x)) (\<lambda>m.
         res_bind (check_seeds_canonical env [ITS_TOKEN_AUTHORITY_SEED] (memo_id env)
            (ai_key (et_destination_token_authority x))) (\<lambda>bump.
         res_bind (spl (spl_transfer_checked lib (ai_key (et_token_program x)) (ai_key (et_destination_program_ata x))
            (ai_key (et_token_mint x)) (ai_key destination)
            (grant_signer env (memo_id env) [ITS_TOKEN_AUTHORITY_SEED, [bump]] (et_destination_token_authority x))
            (ep_amount p) (mi_decimals m) T)) (\<lambda>T'.
         Inr (st1\<lparr>mm_its := (mm_its st1)\<lparr>its_tokens := T'\<rparr>\<rparr>))))))))))"

section \<open>\<open>send_memo.rs\<close>\<close>

record SendMemo =
  sm_memo_program :: account_info
  sm_signing_pda :: account_info
  sm_gateway_root_pda :: account_info
  sm_gateway_program :: account_info

definition send_memo :: "env \<Rightarrow> SendMemo \<Rightarrow> string \<Rightarrow> string \<Rightarrow> string \<Rightarrow> memo_state \<Rightarrow> memo_state result" where
  "send_memo env a dest_chain dest_address memo st =
     res_bind (check_program (sm_memo_program a) (memo_id env)) (\<lambda>_.
     res_bind (check_seeds_canonical env [CALL_CONTRACT_SEED] (memo_id env) (ai_key (sm_signing_pda a))) (\<lambda>bump.
     res_bind (check_program (sm_gateway_program a) (gateway_id env)) (\<lambda>_.
     res_bind (call_contract env
        \<lparr>cc_caller = acc (ai_key (sm_memo_program a)),
         cc_signing_pda = Some (grant_signer env (memo_id env) [CALL_CONTRACT_SEED, [bump]] (sm_signing_pda a)),
         cc_gateway_root_pda = sm_gateway_root_pda a\<rparr>
        dest_chain dest_address (str_bytes memo) bump (its_gateway (mm_its st))) (\<lambda>gw.
     Inr (st\<lparr>mm_its := (mm_its st)\<lparr>its_gateway := gw\<rparr>\<rparr>)))))"

section \<open>\<open>send_interchain_transfer.rs\<close>\<close>

record SendInterchainTransfer =
  st_payer :: account_info
  st_counter :: account_info
  st_gateway_root_pda :: account_info
  st_gateway_program :: account_info
  st_call_contract_signing_pda :: account_info
  st_gas_treasury :: account_info
  st_gas_service :: account_info
  st_its_root_pda :: account_info
  st_its_program :: account_info
  st_token_manager_pda :: account_info
  st_token_program :: account_info
  st_token_mint :: account_info
  st_counter_pda_ata :: account_info
  st_token_manager_ata :: account_info
  st_system_program :: account_info

text \<open>What the program passes as the seeds of its signing address: the seed and the bump.\<close>

definition counter_signer_seeds :: "u8 \<Rightarrow> bytes list" where
  "counter_signer_seeds bump = counter_seeds @ [[bump]]"

definition send_interchain_transfer ::
    "env \<Rightarrow> its_lib \<Rightarrow> its_view \<Rightarrow> SendInterchainTransfer \<Rightarrow> hash \<Rightarrow> string \<Rightarrow> bytes \<Rightarrow> u64 \<Rightarrow> u64 \<Rightarrow> memo_state \<Rightarrow>
     memo_state result" where
  "send_interchain_transfer env lib view a token_id dest_chain dest_address amount gas_value st =
     res_bind (check_payer (st_payer a)) (\<lambda>_.
     res_bind (load_counter env st (st_counter a)) (\<lambda>c.
     res_bind (check_mut (st_gas_treasury a)) (\<lambda>_.
     res_bind (check_program (st_its_program a) (its_id env)) (\<lambda>_.
     res_bind (check_mut (st_token_manager_pda a)) (\<lambda>_.
     res_bind (check_mut (st_token_mint a)) (\<lambda>_.
     res_bind (check_mut (st_counter_pda_ata a)) (\<lambda>_.
     let seeds = counter_signer_seeds (ctr_bump c); k = (\<lambda>f. ai_key (f a));
         metas = [acc_signer_mut (k st_payer), acc_signer (k st_counter), acc (k st_gateway_root_pda),
           acc (k st_gateway_program), acc (k st_call_contract_signing_pda), acc_mut (k st_gas_treasury),
           acc (k st_gas_service), acc (k st_its_root_pda), acc_mut (k st_token_manager_pda), acc (k st_token_program),
           acc_mut (k st_token_mint), acc_mut (k st_counter_pda_ata), acc_mut (k st_token_manager_ata),
           acc (k st_system_program)];
         infos = [st_payer a, st_counter a, st_gateway_root_pda a, st_gateway_program a, st_call_contract_signing_pda a,
           st_gas_treasury a, st_gas_service a, st_its_root_pda a, st_token_manager_pda a, st_token_program a,
           st_token_mint a, st_counter_pda_ata a, st_token_manager_ata a, st_system_program a];
         see = merged metas in
     res_bind (invoke_check env (memo_id env) seeds infos metas) (\<lambda>_.
     res_bind (interchain_transfer env lib view
        \<lparr>xt_gmp = \<lparr>gm_payer = see (st_payer a), gm_system_program = see (st_system_program a),
           gm_gateway_program = see (st_gateway_program a), gm_gateway_root_pda = see (st_gateway_root_pda a),
           gm_call_contract_signing_pda = see (st_call_contract_signing_pda a), gm_gas_service = see (st_gas_service a),
           gm_gas_treasury = see (st_gas_treasury a)\<rparr>,
         xt_authority = see (st_counter a), xt_its_root_pda = see (st_its_root_pda a),
         xt_token_manager_pda = see (st_token_manager_pda a), xt_token_program = see (st_token_program a),
         xt_token_mint = see (st_token_mint a), xt_authority_token_account = see (st_counter_pda_ata a),
         xt_token_manager_ata = see (st_token_manager_ata a)\<rparr>
        token_id dest_chain dest_address amount gas_value (Some (memo_id env)) (Some seeds) None
        (mm_its st)) (\<lambda>its.
     Inr (st\<lparr>mm_its := its\<rparr>))))))))))"

section \<open>The instructions and the steps\<close>

datatype memo_instruction =
    SendMemoIx SendMemo string string string
  | MemoInitIx memo_Init
  | MemoExecuteIx memo_Execute Message bytes EncodingScheme
  | MemoExecuteWithTokenIx memo_ExecuteWithToken "account_info list" AxelarExecuteWithInterchainTokenPayload
  | EmitMemoIx string
  | SendInterchainTransferIx SendInterchainTransfer hash string bytes u64 u64

definition memo_entry ::
    "env \<Rightarrow> its_lib \<Rightarrow> its_view \<Rightarrow> memo_instruction \<Rightarrow> memo_state \<Rightarrow> memo_state result" where
  "memo_entry env lib view ix st =
     (case ix of
        SendMemoIx a dc da memo \<Rightarrow> send_memo env a dc da memo st
      | MemoInitIx a \<Rightarrow> memo_init env a st
      | MemoExecuteIx a m payload scheme \<Rightarrow> memo_execute env (il_payload lib) a m payload scheme st
      | MemoExecuteWithTokenIx a remaining p \<Rightarrow> memo_execute_with_interchain_token env lib a remaining p st
      | EmitMemoIx message \<Rightarrow> emit_memo message st
      | SendInterchainTransferIx a tid dc da n g \<Rightarrow> send_interchain_transfer env lib view a tid dc da n g st)"

section \<open>The instruction a client initializes the program with\<close>

definition make_init_ix :: "env \<Rightarrow> pubkey \<Rightarrow> memo_instruction result" where
  "make_init_ix env payer =
     res_bind (find_key env counter_seeds (memo_id env)) (\<lambda>counter.
     Inr (MemoInitIx \<lparr>mi_payer = acc_signer_mut payer, mi_counter = acc_mut counter,
       mi_system_program = acc (system_program_id env)\<rparr>))"

text \<open>It creates the counter, exactly where there is none.\<close>

lemma init_ix_exact:
  assumes ix: "make_init_ix env payer = Inr ix" and k: "try_find_program_address env counter_seeds (memo_id env) = Some (k, b)"
  shows "memo_entry env lib view ix st = Inr st' \<longleftrightarrow>
     mm_accounts st k = None \<and> st' = st\<lparr>mm_accounts := (mm_accounts st)(k \<mapsto> \<lparr>ctr_counter = 0, ctr_bump = b\<rparr>)\<rparr>"
  using ix k by (auto simp: make_init_ix_def res_inv memo_entry_def memo_init_def acc_defs check_payer_def)

end
