(* ===== verification/Memo_Inv.thy ===== *)
theory Memo_Inv
  imports Memo
begin

text \<open>
  The memo program as a step relation beside the gateway it receives from, and the invariant that
  its counter counts what it received: the messages the gateway executed for it and the tokens the
  service delivered.
\<close>

section \<open>Counting\<close>

fun executed_dest :: "gateway_event \<Rightarrow> pubkey option" where
  "executed_dest (MessageExecutedEvent _ dest _ _ _ _ _) = Some dest"
| "executed_dest _ = None"

definition executed_for :: "pubkey \<Rightarrow> gateway_event list \<Rightarrow> nat" where
  "executed_for d evs = length (filter (\<lambda>e. executed_dest e = Some d) evs)"

lemma executed_for_simps [simp]:
  "executed_for d [] = 0"
  "executed_for d (evs @ [e]) = executed_for d evs + (if executed_dest e = Some d then 1 else 0)"
  by (simp_all add: executed_for_def)

lemma executed_dest_event [simp]: "executed_dest (executed_event env m dest) = Some dest"
  by (simp add: executed_event_def)

fun is_tokens_received :: "memo_line \<Rightarrow> bool" where
  "is_tokens_received (TokensReceived _ _ _) = True"
| "is_tokens_received _ = False"

definition deliveries :: "memo_line list \<Rightarrow> nat" where
  "deliveries log = length (filter is_tokens_received log)"

lemma log_memo_line [simp]: "\<not> is_tokens_received (log_memo cs)"
  by (simp add: log_memo_def)

lemma deliveries_simps [simp]:
  "deliveries [] = 0" "deliveries (log @ [l]) = deliveries log + (if is_tokens_received l then 1 else 0)"
  "deliveries (log @ [l, l']) = deliveries log + (if is_tokens_received l then 1 else 0) +
     (if is_tokens_received l' then 1 else 0)"
  by (simp_all add: deliveries_def)

text \<open>Everything the program has received.\<close>

definition memo_received :: "env \<Rightarrow> memo_state \<Rightarrow> nat" where
  "memo_received env st = executed_for (memo_id env) (gw_events (its_gateway (mm_its st))) + deliveries (mm_log st)"

section \<open>The steps\<close>

text \<open>Nobody else signs for an address the memo program derives.\<close>

definition memo_pda :: "env \<Rightarrow> pubkey \<Rightarrow> bool" where
  "memo_pda env k \<longleftrightarrow> (\<exists>seeds. create_program_address env seeds (memo_id env) = Some k)"

fun gateway_unsigned :: "env \<Rightarrow> gateway_instruction \<Rightarrow> bool" where
  "gateway_unsigned env (ValidateMessageIx a m) =
     (ai_signer (vm_caller a) \<longrightarrow> \<not> memo_pda env (ai_key (vm_caller a)))"
| "gateway_unsigned env _ = True"

text \<open>
  One step: an instruction of the memo program; an instruction of the gateway that somebody else
  calls; or anything else that leaves the gateway as it is.
\<close>

inductive memo_step :: "env \<Rightarrow> its_lib \<Rightarrow> memo_state \<Rightarrow> memo_state \<Rightarrow> bool" for env lib where
  memo_ix: "memo_entry env lib view ix st = Inr st' \<Longrightarrow> memo_step env lib st st'"
| memo_gateway_ix: "gateway_ix_wf ix \<Longrightarrow> gateway_unsigned env ix \<Longrightarrow>
    gateway_entry env view ix (its_gateway (mm_its st)) = Inr gw \<Longrightarrow>
    memo_step env lib st (st\<lparr>mm_its := (mm_its st)\<lparr>its_gateway := gw\<rparr>\<rparr>)"
| memo_other: "its_gateway its = its_gateway (mm_its st) \<Longrightarrow> memo_step env lib st (st\<lparr>mm_its := its\<rparr>)"

inductive_cases memo_stepE: "memo_step env lib st st'"

text \<open>The program is deployed beside a running gateway that has executed nothing for its address.\<close>

definition memo_initial :: "env \<Rightarrow> memo_state \<Rightarrow> bool" where
  "memo_initial env st \<longleftrightarrow> (\<exists>its. st = memo_empty its \<and> gateway_reachable env (its_gateway its) \<and>
     executed_for (memo_id env) (gw_events (its_gateway its)) = 0)"

abbreviation memo_reachable :: "env \<Rightarrow> its_lib \<Rightarrow> memo_state \<Rightarrow> bool" where
  "memo_reachable env lib st \<equiv> \<exists>st0. memo_initial env st0 \<and> runs (memo_step env lib) st0 st"

section \<open>Inversion\<close>

lemma count_memo_Inr [res_inv]:
  "count_memo k c st = Inr st' \<longleftrightarrow> (\<exists>n. checked_add (ctr_counter c) 1 = Some n \<and>
     st' = st\<lparr>mm_accounts := (mm_accounts st)(k \<mapsto> c\<lparr>ctr_counter := n\<rparr>)\<rparr>)"
  by (auto simp: count_memo_def res_inv)

lemma load_counter_Inr [res_inv]:
  "load_counter env st a = Inr c \<longleftrightarrow> mm_accounts st (ai_key a) = Some c \<and>
     create_program_address env (counter_seeds @ [[ctr_bump c]]) (memo_id env) = Some (ai_key a)"
  by (auto simp: load_counter_def res_inv memo_counter.load_Inr)

lemma memo_executeE:
  assumes "memo_execute env lib a m payload scheme st = Inr st'"
  obtains c gw cs n encoded where "mm_accounts st (ai_key (me_counter a)) = Some c"
    "check_execute_accounts env (memo_id env) (me_executable a) m (its_gateway (mm_its st)) = Inr ()"
    "payload_encode lib (axelar_payload_new repr_of_account payload [acc_mut (ai_key (me_counter a))] scheme) = Inr encoded"
    "validate_message_raw env (memo_id env) (me_executable a) m encoded (its_gateway (mm_its st)) = Inr gw"
    "from_utf8 payload = Some cs" "checked_add (ctr_counter c) 1 = Some n"
    "st' = st\<lparr>mm_its := (mm_its st)\<lparr>its_gateway := gw\<rparr>, mm_log := mm_log st @ [log_memo cs],
       mm_accounts := (mm_accounts st)(ai_key (me_counter a) \<mapsto> c\<lparr>ctr_counter := n\<rparr>)\<rparr>"
proof -
  have metas: "split_checked 5 (memo_execute_metas a) = Some (take 5 (memo_execute_metas a), [acc_mut (ai_key (me_counter a))])"
    by (simp add: split_checked_def memo_execute_metas_def Let_def)
  from assms show ?thesis
    using that unfolding memo_execute_def executable_validate_message_def Let_def EXECUTE_PROGRAM_ACCOUNTS_START_INDEX_def
    by (auto simp: res_inv metas)
qed

lemma memo_execute_with_tokenE:
  assumes "memo_execute_with_interchain_token env lib a remaining p st = Inr st'"
  obtains c cs n where "mm_accounts st (ai_key (mw_counter a)) = Some c" "from_utf8 (ep_data p) = Some cs"
    "checked_add (ctr_counter c) 1 = Some n"
    "mm_accounts st' = (mm_accounts st)(ai_key (mw_counter a) \<mapsto> c\<lparr>ctr_counter := n\<rparr>)"
    "mm_log st' = mm_log st @ [TokensReceived (ep_token_id p) (ep_amount p) (ep_token_mint p), log_memo cs]"
    "its_gateway (mm_its st') = its_gateway (mm_its st)"
  using assms that unfolding memo_execute_with_interchain_token_def Let_def
  by (cases remaining) (auto simp: res_inv)

section \<open>The counter\<close>

lemma gateway_entry_executed_for:
  assumes "gateway_entry env view ix gw = Inr gw'" and "gateway_unsigned env ix"
  shows "executed_for (memo_id env) (gw_events gw') = executed_for (memo_id env) (gw_events gw)"
proof (cases ix)
  case (ValidateMessageIx a m)
  with assms(1) have "validate_message env a m gw = Inr gw'" by simp
  then show ?thesis
    using assms(2) ValidateMessageIx by (elim validate_messageE) (auto simp: memo_pda_def)
qed (use assms(1) in \<open>auto elim!: call_contractE initialize_configE initialize_sessionE verify_signatureE
      approve_messageE rotate_signersE transfer_operatorshipE\<close>)

lemma memo_execute_executed_for:
  assumes "pda_program_inj env" and "check_execute_accounts env (memo_id env) (me_executable a) m gw = Inr ()"
    and v: "validate_message_raw env (memo_id env) (me_executable a) m encoded gw = Inr gw'"
  shows "executed_for (memo_id env) (gw_events gw') = executed_for (memo_id env) (gw_events gw) + 1"
proof -
  from validate_message_raw_destination [OF assms(2) v assms(1)]
  have dest: "pubkey_from_str env (destination_address m) = Some (memo_id env)" by simp
  have "consumes env m gw gw'" using validate_message_raw_consumes(2) [OF v] .
  with dest show ?thesis by (auto simp: consumes_def)
qed

text \<open>The seeds the program passes with the transfer are those of its address with the bump added.\<close>

lemma transfer_source_rejects_bump:
  assumes "pda_law env" and "pda_inj env" and "create_program_address env (counter_signer_seeds b) (memo_id env) = Some k"
  shows "transfer_source_address env view k (Some (memo_id env)) (Some (counter_signer_seeds b)) \<noteq> Inr src"
proof
  assume "transfer_source_address env view k (Some (memo_id env)) (Some (counter_signer_seeds b)) = Inr src"
  then obtain b' where "try_find_program_address env (counter_signer_seeds b) (memo_id env) = Some (k, b')"
    by (auto simp: transfer_source_address_def res_inv find_program_address_def)
  from pda_lawD [OF assms(1) this] have "create_program_address env (counter_signer_seeds b @ [[b']]) (memo_id env) = Some k" .
  from pda_injD [OF assms(2,3) this] show False by simp
qed

lemma send_interchain_transfer_never:
  assumes "pda_law env" and "pda_inj env"
  shows "send_interchain_transfer env lib view a tid dc da n g st \<noteq> Inr st'"
proof
  assume "send_interchain_transfer env lib view a tid dc da n g st = Inr st'"
  then obtain c x its where c: "load_counter env st (st_counter a) = Inr c"
    and x: "interchain_transfer env lib view x tid dc da n g (Some (memo_id env)) (Some (counter_signer_seeds (ctr_bump c)))
       None (mm_its st) = Inr its" and k: "ai_key (xt_authority x) = ai_key (st_counter a)"
    unfolding send_interchain_transfer_def Let_def by (auto simp: res_bind_Inr merged_def)
  from x obtain src where
    "transfer_source_address env view (ai_key (st_counter a)) (Some (memo_id env)) (Some (counter_signer_seeds (ctr_bump c))) = Inr src"
    unfolding interchain_transfer_def k by (auto simp: res_bind_Inr)
  moreover have "create_program_address env (counter_signer_seeds (ctr_bump c)) (memo_id env) = Some (ai_key (st_counter a))"
    using c by (simp add: res_inv counter_signer_seeds_def)
  ultimately show False using transfer_source_rejects_bump [OF assms] by blast
qed

definition memo_inv :: "env \<Rightarrow> memo_state \<Rightarrow> bool" where
  "memo_inv env st \<longleftrightarrow>
     (\<forall>k c. mm_accounts st k = Some c \<longrightarrow>
        try_find_program_address env counter_seeds (memo_id env) = Some (k, ctr_bump c) \<and>
        unat (ctr_counter c) = memo_received env st) \<and>
     (mm_accounts st = Map.empty \<longrightarrow> memo_received env st = 0)"

lemma memo_invD:
  assumes "memo_inv env st" and "mm_accounts st k = Some c"
  shows "unat (ctr_counter c) = memo_received env st"
    and "try_find_program_address env counter_seeds (memo_id env) = Some (k, ctr_bump c)"
    and "mm_accounts st k' = Some c' \<Longrightarrow> k' = k"
proof -
  show find: "try_find_program_address env counter_seeds (memo_id env) = Some (k, ctr_bump c)"
    and "unat (ctr_counter c) = memo_received env st"
    using assms by (auto simp: memo_inv_def)
  assume "mm_accounts st k' = Some c'"
  with assms(1) have "try_find_program_address env counter_seeds (memo_id env) = Some (k', ctr_bump c')"
    by (simp add: memo_inv_def)
  with find show "k' = k" by simp
qed

lemma memo_inv_unchanged:
  "memo_inv env st \<Longrightarrow> mm_accounts st' = mm_accounts st \<Longrightarrow> memo_received env st' = memo_received env st \<Longrightarrow> memo_inv env st'"
  by (simp add: memo_inv_def)

lemma memo_inv_count:
  assumes inv: "memo_inv env st" and c: "mm_accounts st k = Some c" and n: "checked_add (ctr_counter c) 1 = Some n"
    and st': "mm_accounts st' = (mm_accounts st)(k \<mapsto> c\<lparr>ctr_counter := n\<rparr>)"
    and r: "memo_received env st' = memo_received env st + 1"
  shows "memo_inv env st'"
proof -
  have "unat n = memo_received env st'"
    using n memo_invD(1) [OF inv c] r by (simp add: checked_add_Some)
  with memo_invD(2) [OF inv c] memo_invD(3) [OF inv c] inv show ?thesis
    by (auto simp: memo_inv_def st')
qed

lemma memo_inv_ix:
  assumes law: "pda_law env" "pda_inj env" "pda_program_inj env" and inv: "memo_inv env st"
    and ok: "memo_entry env lib view ix st = Inr st'"
  shows "memo_inv env st'"
proof (cases ix)
  case (SendMemoIx a dc da memo)
  then show ?thesis
    using ok by (intro memo_inv_unchanged [OF inv])
      (auto simp: memo_entry_def send_memo_def res_inv memo_received_def elim!: call_contractE)
next
  case (MemoInitIx a)
  with ok have v: "mm_accounts st (ai_key (mi_counter a)) = None" and
    f: "\<exists>b. try_find_program_address env counter_seeds (memo_id env) = Some (ai_key (mi_counter a), b) \<and>
      st' = st\<lparr>mm_accounts := (mm_accounts st)(ai_key (mi_counter a) \<mapsto> \<lparr>ctr_counter = 0, ctr_bump = b\<rparr>)\<rparr>"
    by (auto simp: memo_entry_def memo_init_def res_inv)
  have "mm_accounts st k = None" for k
  proof (cases "mm_accounts st k")
    case (Some c)
    from memo_invD(2) [OF inv this] f Some v show ?thesis by auto
  qed simp
  then have "mm_accounts st = Map.empty" by (simp add: fun_eq_iff)
  moreover from this have "memo_received env st = 0" using inv by (simp add: memo_inv_def)
  ultimately show ?thesis using f by (auto simp: memo_inv_def memo_received_def split: if_splits)
next
  case (MemoExecuteIx a m payload scheme)
  with ok have "memo_execute env (il_payload lib) a m payload scheme st = Inr st'" by (simp add: memo_entry_def)
  then show ?thesis
  proof (rule memo_executeE)
    fix c gw cs n encoded
    assume e: "mm_accounts st (ai_key (me_counter a)) = Some c"
      "check_execute_accounts env (memo_id env) (me_executable a) m (its_gateway (mm_its st)) = Inr ()"
      "validate_message_raw env (memo_id env) (me_executable a) m encoded (its_gateway (mm_its st)) = Inr gw"
      "checked_add (ctr_counter c) 1 = Some n"
      "st' = st\<lparr>mm_its := (mm_its st)\<lparr>its_gateway := gw\<rparr>, mm_log := mm_log st @ [log_memo cs],
       mm_accounts := (mm_accounts st)(ai_key (me_counter a) \<mapsto> c\<lparr>ctr_counter := n\<rparr>)\<rparr>"
    from memo_execute_executed_for [OF law(3) e(2,3)] e(5)
    have "memo_received env st' = memo_received env st + 1" by (simp add: memo_received_def)
    then show ?thesis using e(5) by (intro memo_inv_count [OF inv e(1,4)]) simp_all
  qed
next
  case (MemoExecuteWithTokenIx a remaining p)
  with ok have "memo_execute_with_interchain_token env lib a remaining p st = Inr st'" by (simp add: memo_entry_def)
  then show ?thesis
    by (rule memo_execute_with_tokenE) (rule memo_inv_count [OF inv], auto simp: memo_received_def)
next
  case (EmitMemoIx message)
  then show ?thesis
    using ok by (intro memo_inv_unchanged [OF inv]) (auto simp: memo_entry_def emit_memo_def memo_received_def)
next
  case (SendInterchainTransferIx a tid dc da n g)
  then show ?thesis using ok send_interchain_transfer_never [OF law(1,2)] by (simp add: memo_entry_def)
qed

lemma memo_inv_step:
  assumes "pda_law env" "pda_inj env" "pda_program_inj env" "memo_inv env st" "memo_step env lib st st'"
  shows "memo_inv env st'"
  using assms(5)
proof (cases rule: memo_step.cases)
  case (memo_ix ix view)
  then show ?thesis using memo_inv_ix [OF assms(1-4)] by blast
next
  case (memo_gateway_ix ix view gw)
  then show ?thesis
    using gateway_entry_executed_for by (intro memo_inv_unchanged [OF assms(4)]) (auto simp: memo_received_def)
next
  case (memo_other its)
  then show ?thesis by (intro memo_inv_unchanged [OF assms(4)]) (simp_all add: memo_received_def)
qed

definition memo_laws :: "env \<Rightarrow> bool" where
  "memo_laws env \<longleftrightarrow> pda_law env \<and> pda_inj env \<and> pda_program_inj env"

interpretation memo_inv: step_invariant "\<lambda>st st'. memo_laws env \<and> memo_step env lib st st'" "memo_inv env" for env lib
  by unfold_locales (auto simp: memo_laws_def dest: memo_inv_step)

lemma memo_reachable_inv:
  assumes "memo_laws env" and "memo_reachable env lib st"
  shows "memo_inv env st"
proof -
  from assms(2) obtain st0 where 0: "memo_initial env st0" and r: "runs (memo_step env lib) st0 st" by blast
  have "runs (\<lambda>st st'. memo_laws env \<and> memo_step env lib st st') st0 st"
    using r by induction (auto intro: runs.intros assms(1))
  moreover have "memo_inv env st0" using 0 by (auto simp: memo_initial_def memo_empty_def memo_inv_def memo_received_def)
  ultimately show ?thesis by (rule memo_inv.runs_keep)
qed

end
