(* ===== verification/Memo_Receive.thy ===== *)
theory Memo_Receive
  imports Memo_Inv Its_Contract
begin

text \<open>The memo program as a receiver of the token service: its entry for the call of a delivery.\<close>

section \<open>The memo program receives tokens\<close>

text \<open>
  The dispatch of a call with the discriminator of \<open>execute_with_interchain_token\<close>: the accounts of
  \<open>ExecuteWithInterchainToken\<close> in order, then the remaining ones.
\<close>

definition memo_receive ::
    "env \<Rightarrow> its_lib \<Rightarrow> memo_state \<Rightarrow> account_info list \<Rightarrow> bytes \<times> AxelarExecuteWithInterchainTokenPayload \<Rightarrow>
     token_ledger \<times> gateway_state \<times> gas_state \<Rightarrow> memo_state result" where
  "memo_receive env lib st metas ix L =
     (if fst ix \<noteq> ITS_EXECUTE_IX_DISC then Inl (ProgramE ProgramError.InvalidInstructionData)
      else case destination_accounts metas of
        Some (x, counter # remaining) \<Rightarrow>
          (case L of (T, gw, gas) \<Rightarrow>
             memo_execute_with_interchain_token env lib \<lparr>mw_its_executable = x, mw_counter = counter\<rparr> remaining (snd ix)
               (st\<lparr>mm_its := (mm_its st)\<lparr>its_tokens := T, its_gateway := gw, its_gas := gas\<rparr>\<rparr>))
      | _ \<Rightarrow> Inl (ProgramE ProgramError.NotEnoughAccountKeys))"

definition memo_ledgers :: "memo_state \<Rightarrow> token_ledger \<times> gateway_state \<times> gas_state" where
  "memo_ledgers st = (its_tokens (mm_its st), its_gateway (mm_its st), its_gas (mm_its st))"

lemma memo_receiveE:
  assumes "memo_receive env lib st metas ix (T, gw, gas) = Inr st'"
  obtains x counter remaining where "fst ix = ITS_EXECUTE_IX_DISC" "destination_accounts metas = Some (x, counter # remaining)"
    "memo_execute_with_interchain_token env lib \<lparr>mw_its_executable = x, mw_counter = counter\<rparr> remaining (snd ix)
       (st\<lparr>mm_its := (mm_its st)\<lparr>its_tokens := T, its_gateway := gw, its_gas := gas\<rparr>\<rparr>) = Inr st'"
  using assms that by (auto simp: memo_receive_def split: if_splits option.splits list.splits prod.splits)

interpretation memo_rx: token_receiver env lib "memo_id env" "memo_receive env lib" memo_ledgers for env lib
proof
  fix s metas p L s'
  assume "memo_receive env lib s metas (ITS_EXECUTE_IX_DISC, p) L = Inr s'"
  then show "\<exists>y rest. destination_accounts metas = Some (y, rest) \<and>
      check_execute_with_token_accounts env lib (memo_id env) y (fst L) = Inr ()"
    by (cases L) (auto elim!: memo_receiveE simp: memo_execute_with_interchain_token_def Let_def res_inv)
qed

end
