(* ===== verification/Memo_Demo.thy ===== *)
theory Memo_Demo
  imports Memo_Receive Its_Demo
begin

text \<open>
  The memo program on the concrete platform: a message of the gateway handled, and a delivery of
  tokens with data by the service of \<open>Its_Demo\<close>.
\<close>

section \<open>A message\<close>

definition demo_counter_key :: pubkey where
  "demo_counter_key = str_bytes ''counter'' @ [255, 6]"

definition demo_memo_payload :: bytes where
  "demo_memo_payload = (case payload_encode demo_lib (axelar_payload_new repr_of_account [104, 105] [acc_mut demo_counter_key] Borsh) of
     Inl _ \<Rightarrow> [] | Inr bs \<Rightarrow> bs)"

definition demo_memo_msg :: Message where
  "demo_memo_msg = \<lparr>cc_id = \<lparr>chain = ''eth'', cc_id_id = ''9''\<rparr>, source_address = ''0x'', destination_chain = ''solana'',
     destination_address = [CHR 0x06], payload_hash = demo_memo_payload\<rparr>"

definition demo_memo_gw :: gateway_state where
  "demo_memo_gw = msg_approved demo_memo_msg demo_st3"

definition demo_memo0 :: memo_state where
  "demo_memo0 = memo_empty (its_empty demo_tokens demo_memo_gw demo_igas)"

definition demo_memo1 :: memo_state where
  "demo_memo1 = demo_memo0\<lparr>mm_accounts := [demo_counter_key \<mapsto> \<lparr>ctr_counter = 0, ctr_bump = 255\<rparr>]\<rparr>"

definition demo_memo2 :: memo_state where
  "demo_memo2 = demo_memo1\<lparr>mm_its := (mm_its demo_memo1)\<lparr>its_gateway := msg_executed demo_memo_msg demo_memo_gw\<rparr>,
     mm_log := [MemoText 2 [104, 105]], mm_accounts := [demo_counter_key \<mapsto> \<lparr>ctr_counter = 1, ctr_bump = 255\<rparr>]\<rparr>"

lemma demo_memo_id [simp]: "memo_id demo_env = [6]"
  by (simp add: demo_env_def)

lemma demo_counter_seeds [simp]: "concat counter_seeds @ [255, 6] = demo_counter_key" "concat counter_seeds = str_bytes ''counter''"
  by (simp_all add: counter_seeds_def demo_counter_key_def)

lemma demo_memo_payload_ok:
  "payload_encode demo_lib (axelar_payload_new repr_of_account [104, 105] [acc_mut demo_counter_key] Borsh) = Inr demo_memo_payload"
proof -
  have "\<exists>bs. payload_encode demo_lib (axelar_payload_new repr_of_account [104, 105] [acc_mut demo_counter_key] Borsh) = Inr bs"
    by (simp add: payload_encode_def axelar_payload_new_def encode_borsh_def demo_lib_def)
  then show ?thesis by (auto simp: demo_memo_payload_def)
qed

definition demo_memo_init :: memo_Init where
  "demo_memo_init = \<lparr>mi_payer = acc_signer_mut [9], mi_counter = acc_mut demo_counter_key, mi_system_program = acc [8]\<rparr>"

lemma demo_memo_init_ok: "memo_init demo_env demo_memo_init demo_memo0 = Inr demo_memo1"
  by (simp add: memo_init_def demo_memo_init_def demo_checks demo_memo1_def demo_memo0_def memo_empty_def
      check_seeds_canonical_def find_program_address_def require_def demo_counter_key_def)

definition demo_memo_execute :: memo_Execute where
  "demo_memo_execute = \<lparr>me_executable = msg_accounts demo_memo_msg, me_counter = acc_mut demo_counter_key\<rparr>"

lemma demo_memo_gw_accounts [simp]:
  "gw_accounts demo_memo_gw demo_root_key = Some (ConfigAcc demo_config)"
  "gw_accounts demo_memo_gw (msg_key demo_memo_msg) = Some (MessageAcc (msg_incoming demo_memo_msg))"
  by (simp_all add: demo_memo_gw_def)

lemma demo_memo_msg_sel [simp]:
  "payload_hash demo_memo_msg = demo_memo_payload" "destination_address demo_memo_msg = [CHR 0x06]"
  by (simp_all add: demo_memo_msg_def)

lemma demo_memo_execute_ok:
  "memo_execute demo_env demo_lib demo_memo_execute demo_memo_msg [104, 105] Borsh demo_memo1 = Inr demo_memo2"
proof -
  have v: "validate_message_raw demo_env [6] (msg_accounts demo_memo_msg) demo_memo_msg demo_memo_payload demo_memo_gw =
      Inr (msg_executed demo_memo_msg demo_memo_gw)"
    "check_execute_accounts demo_env [6] (msg_accounts demo_memo_msg) demo_memo_msg demo_memo_gw = Inr ()"
    by (intro msg_raw_ok msg_accounts_ok; simp add: str_bytes_def)+
  have s: "split_checked 5 (memo_execute_metas demo_memo_execute) = Some (take 5 (memo_execute_metas demo_memo_execute), [acc_mut demo_counter_key])"
    by (simp add: split_checked_def memo_execute_metas_def Let_def demo_memo_execute_def acc_defs)
  have u: "from_utf8 [104, 105] = Some [[104], [105]]" "log_memo [[104], [105]] = MemoText 2 [104, 105]"
    by (simp_all add: utf8_width_def log_memo_def)
  have c: "load_counter demo_env demo_memo1 (acc_mut demo_counter_key) = Inr \<lparr>ctr_counter = 0, ctr_bump = 255\<rparr>"
    by (simp add: load_counter_Inr demo_memo1_def acc_keys demo_counter_key_def)
  have n: "checked_add (0 :: u64) 1 = Some 1" by (simp add: checked_add_def)
  have its: "mm_its demo_memo1 = its_empty demo_tokens demo_memo_gw demo_igas" "mm_log demo_memo1 = []"
    by (simp_all add: demo_memo1_def demo_memo0_def memo_empty_def)
  show ?thesis
    using v s u c n demo_memo_payload_ok
    by (simp add: memo_execute_def Let_def demo_memo_execute_def executable_validate_message_def
        EXECUTE_PROGRAM_ACCOUNTS_START_INDEX_def count_memo_def demo_memo2_def its its_empty_def check_mut_def acc_keys)
      (simp add: acc_defs demo_memo1_def)
qed

lemma demo_memo_reachable: "memo_reachable demo_env demo_ilib demo_memo2"
proof -
  have "gateway_step demo_env demo_st3 demo_memo_gw"
    unfolding demo_memo_gw_def by (rule gateway_step_approve) simp_all
  then have "gateway_reachable demo_env demo_memo_gw" using demo_reachable(2) by (meson runs.intros)
  then have "memo_initial demo_env demo_memo0"
    unfolding memo_initial_def
    by (intro exI [of _ "its_empty demo_tokens demo_memo_gw demo_igas"])
      (simp add: demo_memo0_def its_empty_def demo_memo_gw_def approved_event_def demo_st3_def demo_st2_def demo_st1_def
        gateway_empty_def executed_for_def)
  moreover have "memo_step demo_env demo_ilib demo_memo0 demo_memo1"
    by (rule memo_ix [where ix = "MemoInitIx demo_memo_init"]) (simp_all add: memo_entry_def demo_memo_init_ok)
  moreover have "memo_step demo_env demo_ilib demo_memo1 demo_memo2"
    by (rule memo_ix [where ix = "MemoExecuteIx demo_memo_execute demo_memo_msg [104, 105] Borsh"])
      (use demo_memo_execute_ok in \<open>simp add: memo_entry_def demo_ilib_def\<close>)
  ultimately show ?thesis by (meson runs.intros)
qed

lemma demo_memo_laws: "memo_laws demo_env"
  by (simp add: memo_laws_def demo_pda_law demo_pda_inj pda_program_inj_def)

section \<open>A delivery\<close>

text \<open>
  The library of the service with a receiving memo program; the associated account of the memo
  program's token authority is created by the delivery.
\<close>

definition demo_authority :: pubkey where
  "demo_authority = ITS_TOKEN_AUTHORITY_SEED @ [255, 6]"

definition demo_executor :: pubkey where
  "demo_executor = str_bytes ''interchain-transfer-execute'' @ [6, 255, 3]"

definition demo_data_payload :: AxelarMessagePayload where
  "demo_data_payload = \<lparr>payload_without_accounts = [104, 105],
     solana_accounts = [repr_of_account (acc_mut demo_counter_key)], encoding_scheme = Borsh\<rparr>"

definition demo_dlib :: its_lib where
  "demo_dlib = demo_ilib\<lparr>
     il_payload := demo_lib\<lparr>borsh_vec_try_from_slice := (\<lambda>de bs. Some [repr_of_account (acc_mut demo_counter_key)])\<rparr>,
     spl_create_ata := (\<lambda>w m p T. if tl_accounts T (replicate 31 40 @ [hd w]) = None
       then Some (T\<lparr>tl_accounts := (tl_accounts T)(replicate 31 40 @ [hd w] \<mapsto>
         \<lparr>ta_program = p, ta_mint = m, ta_owner = w, ta_amount = 0\<rparr>)\<rparr>) else None)\<rparr>"

definition demo_mlib :: its_lib where
  "demo_mlib = demo_dlib\<lparr>destination_call := (\<lambda>d metas ix L.
     if d = [6] then (case memo_receive demo_env demo_dlib demo_memo1 metas ix L of
       Inl _ \<Rightarrow> None | Inr st \<Rightarrow> Some (memo_ledgers st)) else Some L)\<rparr>"

definition demo_data :: bytes where "demo_data = [0, 2, 0, 0, 0, 104, 105]"

definition demo_mview :: its_view where
  "demo_mview = demo_iview\<lparr>account_owner := (\<lambda>k. if k = [6] then [36] else [8])\<rparr>"

definition demo_mx :: ExecuteInterchainTransfer where
  "demo_mx = \<lparr>ex_payer = acc_signer_mut demo_user, ex_its_root_pda = acc_signer demo_its_key, ex_destination = acc [6],
     ex_destination_token_authority = acc demo_authority, ex_destination_ata = acc_mut (demo_ata demo_authority),
     ex_token_mint = acc_mut [30], ex_token_manager_pda = acc_mut demo_tm_key,
     ex_token_manager_ata = acc_mut (demo_ata demo_tm_key), ex_token_program = acc [31],
     ex_associated_token_program = acc [33], ex_system_program = acc [8],
     ex_interchain_transfer_execute = Some (acc demo_executor)\<rparr>"

definition demo_mtokens :: token_ledger where
  "demo_mtokens = demo_tokens\<lparr>tl_accounts := (tl_accounts demo_tokens)(demo_ata demo_authority \<mapsto>
     \<lparr>ta_program = [31], ta_mint = [30], ta_owner = demo_authority, ta_amount = 0\<rparr>)\<rparr>"

lemma demo_mlib_sel [simp]:
  "token_program_id demo_mlib = [31]" "associated_token_program_id demo_mlib = [33]" "ata_address demo_mlib w m p = demo_ata w"
  "ata_address demo_dlib w m p = demo_ata w" "token_program_id demo_dlib = [31]" "bpf_loader_id demo_mlib = [36]"
  "spl_transfer_checked demo_mlib = (\<lambda>p f m t s n d T. Some T)" "spl_transfer_checked demo_dlib = (\<lambda>p f m t s n d T. Some T)"
  "token_2022_id demo_mlib = token_2022_id demo_dlib"
  by (simp_all add: demo_mlib_def demo_dlib_def demo_ilib_def demo_ata_def)

lemma demo_receive_lib: "memo_receive demo_env demo_dlib = memo_receive demo_env demo_mlib"
proof -
  have "load_ata demo_dlib = load_ata demo_mlib" "check_token_program demo_dlib = check_token_program demo_mlib"
    by (simp_all add: fun_eq_iff load_ata_def check_token_program_def)
  then have "check_execute_with_token_accounts demo_env demo_dlib = check_execute_with_token_accounts demo_env demo_mlib"
    by (intro ext) (simp add: check_execute_with_token_accounts_def)
  then have "memo_execute_with_interchain_token demo_env demo_dlib = memo_execute_with_interchain_token demo_env demo_mlib"
    by (intro ext) (simp add: memo_execute_with_interchain_token_def cong: list.case_cong)
  then show ?thesis by (intro ext) (simp add: memo_receive_def split: option.split list.split)
qed

lemma demo_mlib_call:
  "destination_call demo_mlib (memo_id demo_env) metas ix L = (case memo_receive demo_env demo_mlib demo_memo1 metas ix L of
     Inl _ \<Rightarrow> None | Inr st \<Rightarrow> Some (memo_ledgers st))"
  by (simp add: demo_mlib_def) (simp add: demo_receive_lib demo_mlib_def)

lemma demo_spl_law: "spl_law demo_mlib"
proof -
  have "ledger_shape T (T\<lparr>tl_accounts := (tl_accounts T)(k \<mapsto> a)\<rparr>)" if "tl_accounts T k = None" for T k a
    using that by (simp add: ledger_shape_def mint_program_def account_identity_def)
  then show ?thesis
    by (auto simp: spl_law_def demo_mlib_def demo_dlib_def demo_ilib_def account_identity_def split: if_splits)
qed

lemma demo_authority_keys [simp]: "demo_ata demo_authority \<noteq> demo_ata demo_tm_key" "demo_ata demo_authority \<noteq> demo_ata demo_user"
  "demo_ata demo_authority \<noteq> demo_ata demo_wallet"
  by (simp_all add: demo_ata_def demo_authority_def demo_key_heads ITS_TOKEN_AUTHORITY_SEED_def str_bytes_def)

lemma demo_mx_check:
  "check_execute_transfer demo_env demo_mlib demo_mx [6] demo_tid demo_its5 =
     Inr (demo_manager (demo_slot (Some 100) 0 60), demo_mint, demo_mtokens, Some 255)"
proof -
  have "init_ata_if_needed demo_mlib demo_authority [30] [31] (acc_mut (demo_ata demo_authority)) demo_tokens = Inr demo_mtokens"
  proof -
    have "tl_accounts demo_tokens (demo_ata demo_authority) = None"
      by (simp add: demo_tokens_def)
    then show ?thesis
      by (simp add: init_ata_if_needed_def check_mut_def acc_keys spl_def demo_mtokens_def require_def)
        (simp add: demo_mlib_def demo_dlib_def demo_ata_def acc_defs)
  qed
  moreover have "load_ata demo_mlib demo_tokens demo_tm_key [30] [31] (acc_mut (demo_ata demo_tm_key)) = Inr (demo_account demo_tm_key)"
    using demo_tokens_load(3) [of demo_tm_key "acc_mut (demo_ata demo_tm_key)"] by (simp add: load_ata_def acc_keys demo_ata_key)
  moreover have "load_self_root demo_env demo_its5 (acc_signer demo_its_key) = Inr (demo_root [''eth''])"
    by (simp add: load_self_root_def acc_keys) (simp add: acc_defs)
  moreover have "check_seeds_canonical demo_env (interchain_transfer_execute_seeds [6]) [3] demo_executor = Inr 255"
    by (simp add: check_seeds_canonical_def find_program_address_def interchain_transfer_execute_seeds_def demo_executor_def
        require_def)
  ultimately show ?thesis
    by (simp add: check_execute_transfer_def demo_mx_def Let_def check_payer_def check_signer_def check_mut_def
        check_token_program_def check_program_def acc_keys) (simp add: acc_defs)
qed

lemma demo_mx_authority: "check_destination_authority demo_env demo_mlib demo_mview [6] demo_authority = Inr ()"
  by (simp add: check_destination_authority_def is_bpf_loader_owned_def demo_mview_def destination_token_authority_pda_def
      find_program_address_def demo_authority_def)

lemma demo_mx_give:
  "give_token demo_env demo_mlib demo_mview demo_mx (demo_manager (demo_slot (Some 100) 0 60)) demo_mint 50 demo_mtokens =
     Inr (50, demo_manager (demo_slot (Some 100) 50 60), demo_mtokens)"
  by (simp add: give_token_def Let_def demo_mview_def spl_def)

lemma demo_decode: "payload_decode (il_payload demo_mlib) demo_data = Inr demo_data_payload"
  by (simp add: payload_decode_def demo_data_def decode_borsh_def demo_mlib_def demo_dlib_def split_checked_def
      from_le_bytes_def axelar_payload_new_def demo_data_payload_def scheme_from_u8_def)

abbreviation "demo_mmetas \<equiv> execute_with_token_metas (call_accounts demo_mx (acc demo_executor)) @ account_meta demo_data_payload"

definition demo_mpayload :: AxelarExecuteWithInterchainTokenPayload where
  "demo_mpayload = \<lparr>ep_command_id = command_id demo_env demo_imsg, ep_source_chain = ''eth'', ep_source_address = [5],
     ep_token_id = demo_tid, ep_token_mint = [30], ep_amount = 50, ep_data = [104, 105]\<rparr>"

lemma demo_data_accounts: "account_meta demo_data_payload = [acc_mut demo_counter_key]"
  by (simp add: account_meta_def demo_data_payload_def)

lemma demo_prog: "is_bpf_loader_owned demo_env demo_mlib (account_owner demo_mview [6])"
  by (simp add: is_bpf_loader_owned_def demo_mview_def)

lemma demo_memo_receive_ok:
  "\<exists>ms. memo_receive demo_env demo_mlib demo_memo1 demo_mmetas (ITS_EXECUTE_IX_DISC, demo_mpayload) (demo_mtokens, gw, gas) = Inr ms"
proof -
  let ?c = "merged demo_mmetas (acc_mut demo_counter_key)"
  from destination_accounts_of_call [of demo_mx "acc demo_executor" "account_meta demo_data_payload"] obtain y rest
    where d: "destination_accounts demo_mmetas = Some (y, rest)" by blast
  have "rest = [?c]"
    using d by (simp add: destination_accounts_def execute_with_token_metas_def demo_data_accounts)
  moreover have "check_execute_with_token_accounts demo_env demo_mlib [6] y demo_mtokens = Inr ()"
    by (rule delivery_checked [OF demo_spl_law demo_mx_check _ demo_prog demo_mx_give _ d])
      (simp_all add: demo_mx_def demo_mx_authority acc_keys)
  moreover have "check_mut ?c = Inr ()"
    by (auto simp: check_mut_def merged_def demo_data_accounts acc_defs require_def)
  moreover have "mm_accounts demo_memo1 demo_counter_key = Some \<lparr>ctr_counter = 0, ctr_bump = 255\<rparr>"
    by (simp add: demo_memo1_def)
  moreover have "ai_key ?c = demo_counter_key" by (simp add: merged_def acc_keys)
  moreover have "from_utf8 (ep_data demo_mpayload) = Some [[104], [105]]" by (simp add: demo_mpayload_def utf8_width_def)
  moreover have "checked_add (0 :: u64) 1 = Some 1" by (simp add: checked_add_def)
  ultimately show ?thesis
    using d by (simp add: memo_receive_def memo_execute_with_interchain_token_def Let_def load_counter_def count_memo_def
        load_acc_def check_seeds_def require_def demo_counter_key_def)
qed

lemma demo_mx_keys: "distinct [[31], [30], demo_authority, demo_ata demo_authority, demo_executor, demo_counter_key]"
  by (simp add: demo_authority_def demo_ata_def demo_executor_def demo_counter_key_def ITS_TOKEN_AUTHORITY_SEED_def str_bytes_def
      of_char_u8_inj)

lemma demo_mx_keys_rev: "distinct [demo_counter_key, demo_executor, demo_ata demo_authority, demo_authority, [30], [31]]"
  using demo_mx_keys distinct_rev [of "[[31], [30], demo_authority, demo_ata demo_authority, demo_executor, demo_counter_key]"]
  by (simp only: rev.simps append.simps)

lemma demo_invoke_check:
  "invoke_check demo_env [3] (interchain_transfer_execute_seeds [6] @ [[255]])
     [acc [31], acc_mut [30], acc demo_authority, acc_mut (demo_ata demo_authority), acc demo_executor, acc_mut demo_counter_key]
     demo_mmetas = Inr ()"
proof -
  have "concat (interchain_transfer_execute_seeds [6]) @ [255, 3] = demo_executor"
    by (simp add: interchain_transfer_execute_seeds_def demo_executor_def)
  with demo_mx_keys demo_mx_keys_rev show ?thesis
    by (simp add: execute_with_token_metas_def call_accounts_def demo_mx_def demo_data_accounts grant_signer_def acc_defs
        require_def)
qed

lemma demo_mx_ok:
  "\<exists>st'. execute_interchain_transfer demo_env demo_mlib demo_mview demo_mx [acc_mut demo_counter_key] demo_imsg ''eth'' [5] [6]
     demo_tid 50 demo_data demo_its5 = Inr st'"
proof -
  have "\<exists>st'. invoke_destination_program demo_env demo_mlib demo_mx [acc_mut demo_counter_key] (Some 255) demo_imsg ''eth'' [5]
      demo_tid 50 demo_data st = Inr st'" if "its_tokens st = demo_mtokens" for st
  proof -
    obtain ms where ms: "memo_receive demo_env demo_mlib demo_memo1 demo_mmetas (ITS_EXECUTE_IX_DISC, demo_mpayload)
        (demo_mtokens, its_gateway st, its_gas st) = Inr ms" using demo_memo_receive_ok by blast
    have "destination_call demo_mlib [6] demo_mmetas (ITS_EXECUTE_IX_DISC, demo_mpayload) (demo_mtokens, its_gateway st, its_gas st)
        = Some (memo_ledgers ms)"
      using demo_mlib_call [of demo_mmetas] ms by simp
    moreover have "demo_mpayload = \<lparr>ep_command_id = command_id demo_env demo_imsg, ep_source_chain = ''eth'', ep_source_address = [5],
        ep_token_id = demo_tid, ep_token_mint = ai_key (ex_token_mint demo_mx), ep_amount = 50,
        ep_data = payload_without_accounts demo_data_payload\<rparr>"
      by (simp add: demo_mpayload_def demo_mx_def acc_keys demo_data_payload_def)
    ultimately show ?thesis
      using demo_invoke_check demo_decode that
      by (simp add: invoke_destination_program_def Let_def demo_data_accounts require_def spl_def memo_ledgers_def
          call_accounts_def) (simp add: demo_mx_def acc_keys)
  qed
  moreover have "validate_token_manager_type LockUnlock demo_mint k = Inr ()" for k
    by (simp add: validate_token_manager_type_def demo_mint_def)
  moreover have "check_destination_authority demo_env demo_mlib demo_mview (ai_key (ex_destination demo_mx))
      (ai_key (ex_destination_token_authority demo_mx)) = Inr ()"
    by (simp add: demo_mx_def acc_keys demo_mx_authority)
  moreover have "demo_data \<noteq> []" by (simp add: demo_data_def)
  ultimately show ?thesis
    by (simp add: execute_interchain_transfer_def demo_mx_check demo_mx_give Let_def emit_its_def put_its_def)
qed

end
