(* ===== verification/Memo_Props.thy ===== *)
theory Memo_Props
  imports Memo_Demo
begin

text \<open>
  The properties of the memo program and of its composition with the token service, with witnesses
  on a message and a delivery of \<open>Memo_Demo\<close>.
\<close>

section \<open>Properties\<close>

text \<open>
  C28. The memo counter is exact: in every reachable state the one counter account holds the number
  of messages the gateway executed for the program plus the number of token deliveries it logged.
\<close>

theorem memo_counter_exact:
  assumes "memo_laws env" and "memo_reachable env lib st" and "mm_accounts st k = Some c"
  shows "unat (ctr_counter c) = executed_for (memo_id env) (gw_events (its_gateway (mm_its st))) + deliveries (mm_log st) \<and>
    (\<forall>k' c'. mm_accounts st k' = Some c' \<longrightarrow> k' = k)"
  using memo_invD [OF memo_reachable_inv [OF assms(1,2)] assms(3)] by (simp add: memo_received_def)

theorem memo_counter_exact_witness:
  "executed_for (memo_id demo_env) (gw_events (its_gateway (mm_its demo_memo2))) + deliveries (mm_log demo_memo2) = 1"
proof -
  have "mm_accounts demo_memo2 demo_counter_key = Some \<lparr>ctr_counter = 1, ctr_bump = 255\<rparr>" by (simp add: demo_memo2_def)
  from memo_counter_exact [OF demo_memo_laws demo_memo_reachable this] show ?thesis by simp
qed

text \<open>
  C29. The memo program cannot send tokens: it passes the token service the seeds of its counter with
  the bump, where the service derives the address again and needs them without. Whatever the
  accounts and amounts, the instruction fails; with the seeds alone the service accepts the source.
\<close>

theorem send_interchain_transfer_fails:
  assumes "pda_law env" and "pda_inj env"
  shows "(\<exists>e. send_interchain_transfer env lib view a tid dc da n g st = Inl e) \<and>
    (try_find_program_address env counter_seeds (memo_id env) = Some (k, b) \<longrightarrow>
       transfer_source_address env view k (Some (memo_id env)) (Some counter_seeds) = Inr (memo_id env))"
proof -
  have "\<exists>e. send_interchain_transfer env lib view a tid dc da n g st = Inl e"
    using send_interchain_transfer_never [OF assms] by (metis Inl_Inr_False obj_sumE)
  then show ?thesis by (simp add: transfer_source_address_def find_program_address_def require_def)
qed

theorem send_interchain_transfer_fails_witness:
  "(\<exists>e. send_interchain_transfer demo_env demo_ilib demo_iview
       \<lparr>st_payer = acc_signer_mut demo_user, st_counter = acc demo_counter_key, st_gateway_root_pda = acc demo_root_key,
        st_gateway_program = acc [1], st_call_contract_signing_pda = acc (CALL_CONTRACT_SEED @ [255, 3]), st_gas_treasury = acc_mut [50],
        st_gas_service = acc [2], st_its_root_pda = acc demo_its_key, st_its_program = acc [3],
        st_token_manager_pda = acc_mut demo_tm_key, st_token_program = acc [31], st_token_mint = acc_mut [30],
        st_counter_pda_ata = acc_mut (demo_ata demo_user), st_token_manager_ata = acc_mut (demo_ata demo_tm_key),
        st_system_program = acc [8]\<rparr> demo_tid ''eth'' [7] 60 0 demo_memo1 = Inl e) \<and>
   transfer_source_address demo_env demo_iview demo_counter_key (Some [6]) (Some counter_seeds) = Inr [6]"
  using send_interchain_transfer_fails [OF demo_pda_law demo_pda_inj, where k = demo_counter_key and b = 255 and view = demo_iview]
  by (simp add: demo_counter_key_def)

text \<open>
  C12. The service keeps its side of the contract with the programs it delivers to: when a transfer
  with data to a deployed program goes through, the program was called on accounts that pass every
  check of \<open>executable_with_interchain_token_accounts!\<close> - the token program and mint, the program's
  token authority with its associated account, and the executor address that only the service signs.
\<close>

theorem destination_call_accounts_valid:
  assumes "spl_law lib" and "data \<noteq> []" and "is_bpf_loader_owned env lib (account_owner view dest)"
    and ok: "execute_interchain_transfer env lib view a remaining message sc sa dest tid n data st = Inr st'"
  shows "\<exists>metas payload y rest T. destination_accounts metas = Some (y, rest) \<and>
    check_execute_with_token_accounts env lib dest y T = Inr () \<and>
    destination_call lib dest metas (ITS_EXECUTE_IX_DISC, payload) (T, its_gateway st, its_gas st) =
      Some (its_tokens st', its_gateway st', its_gas st') \<and> ep_token_id payload = tid"
  using ok
proof (rule execute_interchain_transferE)
  fix t m T1 b x f T'
  let ?st = "emit_its (InterchainTransferReceived (command_id env message) tid sc sa dest (ai_key (ex_destination_ata a)) x
      (if data = [] then None else Some (keccak env data)))
    (put_its (ai_key (ex_token_manager_pda a)) (TokenManagerAcc (t\<lparr>flow_slot := f\<rparr>)) (st\<lparr>its_tokens := T'\<rparr>))"
  assume c: "check_execute_transfer env lib a dest tid st = Inr (t, m, T1, b)"
    and g: "give_token env lib view a t m n T1 = Inr (x, t\<lparr>flow_slot := f\<rparr>, T')"
    and "(if data = [] then Inr else invoke_destination_program env lib a remaining b message sc sa tid x data) ?st = Inr st'"
  then have "invoke_destination_program env lib a remaining b message sc sa tid x data ?st = Inr st'" using assms(2) by simp
  moreover have auth: "check_destination_authority env lib view (ai_key (ex_destination a)) (ai_key (ex_destination_token_authority a)) = Inr ()"
    using ok c unfolding execute_interchain_transfer_def Let_def by (auto simp: res_bind_Inr)
  ultimately show ?thesis
  proof (elim invoke_destination_program_Inr)
    fix executor b' p T gw gas
    assume e: "ex_interchain_transfer_execute a = Some executor" "b = Some b'"
      and d: "destination_call lib (ai_key (ex_destination a)) (execute_with_token_metas (call_accounts a executor) @ account_meta p)
       (ITS_EXECUTE_IX_DISC, \<lparr>ep_command_id = command_id env message, ep_source_chain = sc, ep_source_address = sa,
          ep_token_id = tid, ep_token_mint = ai_key (ex_token_mint a), ep_amount = x,
          ep_data = payload_without_accounts p\<rparr>) (its_tokens ?st, its_gateway ?st, its_gas ?st) = Some (T, gw, gas)"
      and st': "st' = ?st\<lparr>its_tokens := T, its_gateway := gw, its_gas := gas\<rparr>"
    obtain y rest where y: "destination_accounts (execute_with_token_metas (call_accounts a executor) @ account_meta p) = Some (y, rest)"
      using destination_accounts_of_call by blast
    from delivery_checked [OF assms(1) c [unfolded e(2)] auth assms(3) g e(1) y] y d st' check_execute_transfer_Inr(1) [OF c]
    show ?thesis by (fastforce simp: emit_its_def put_its_def)
  qed
qed

theorem destination_call_accounts_valid_witness:
  "\<exists>metas y rest T. destination_accounts metas = Some (y, rest) \<and>
     check_execute_with_token_accounts demo_env demo_mlib [6] y T = Inr ()"
proof -
  obtain st' where ok: "execute_interchain_transfer demo_env demo_mlib demo_mview demo_mx [acc_mut demo_counter_key] demo_imsg ''eth''
     [5] [6] demo_tid 50 demo_data demo_its5 = Inr st'" using demo_mx_ok by blast
  have "demo_data \<noteq> []" by (simp add: demo_data_def)
  from destination_call_accounts_valid [OF demo_spl_law this demo_prog ok] show ?thesis by blast
qed

text \<open>
  C13. What the hub sends the memo program arrives: a delivered transfer with data has increased the
  counter by one and logged the amount of the service's event and the text of the data.
\<close>

theorem memo_delivery_exact:
  assumes "\<And>metas ix L. destination_call lib (memo_id env) metas ix L =
      (case memo_receive env lib ms metas ix L of Inl _ \<Rightarrow> None | Inr ms' \<Rightarrow> Some (memo_ledgers ms'))"
    and "execute_interchain_transfer env lib view a remaining message sc sa (memo_id env) tid n data st = Inr st'"
    and "data \<noteq> []"
  shows "\<exists>p x cs k c c' ms' metas T. payload_decode (il_payload lib) data = Inr p \<and>
    from_utf8 (payload_without_accounts p) = Some cs \<and>
    memo_receive env lib ms metas (ITS_EXECUTE_IX_DISC, \<lparr>ep_command_id = command_id env message, ep_source_chain = sc,
        ep_source_address = sa, ep_token_id = tid, ep_token_mint = ai_key (ex_token_mint a), ep_amount = x,
        ep_data = payload_without_accounts p\<rparr>) (T, its_gateway st, its_gas st) = Inr ms' \<and>
    its_events st' = its_events st @ [InterchainTransferReceived (command_id env message) tid sc sa (memo_id env)
      (ai_key (ex_destination_ata a)) x (Some (keccak env data))] \<and>
    its_tokens st' = its_tokens (mm_its ms') \<and> mm_accounts ms k = Some c \<and> mm_accounts ms' k = Some c' \<and> unat (ctr_counter c') = unat (ctr_counter c) + 1 \<and>
    mm_log ms' = mm_log ms @ [TokensReceived tid x (ai_key (ex_token_mint a)), log_memo cs]"
proof -
  from memo_rx.delivered [OF assms(1-3)] obtain p x ms' T metas where d: "payload_decode (il_payload lib) data = Inr p"
    and r: "memo_receive env lib ms metas (ITS_EXECUTE_IX_DISC, \<lparr>ep_command_id = command_id env message, ep_source_chain = sc,
        ep_source_address = sa, ep_token_id = tid, ep_token_mint = ai_key (ex_token_mint a), ep_amount = x,
        ep_data = payload_without_accounts p\<rparr>) (T, its_gateway st, its_gas st) = Inr ms'"
    and e: "its_events st' = its_events st @ [InterchainTransferReceived (command_id env message) tid sc sa (memo_id env)
      (ai_key (ex_destination_ata a)) x (Some (keccak env data))]"
    and l: "its_tokens st' = its_tokens (mm_its ms')"
    by (auto simp: memo_ledgers_def)
  from r show ?thesis
  proof (rule memo_receiveE, elim memo_execute_with_tokenE, goal_cases)
    case (1 y counter rem c cs m)
    then show ?case
      using d r e l by (intro exI [of _ p] exI [of _ x] exI [of _ cs] exI [of _ "ai_key counter"] exI [of _ c]
          exI [of _ "c\<lparr>ctr_counter := m\<rparr>"] exI [of _ ms'] exI [of _ metas] exI [of _ T]) (auto simp: checked_add_Some)
  qed
qed

theorem memo_delivery_exact_witness:
  "\<exists>metas ix L ms' x cs. memo_receive demo_env demo_mlib demo_memo1 metas ix L = Inr ms' \<and> from_utf8 [104, 105] = Some cs \<and>
     mm_log ms' = mm_log demo_memo1 @ [TokensReceived demo_tid x [30], log_memo cs]"
proof -
  obtain st' where ok: "execute_interchain_transfer demo_env demo_mlib demo_mview demo_mx [acc_mut demo_counter_key] demo_imsg ''eth''
     [5] (memo_id demo_env) demo_tid 50 demo_data demo_its5 = Inr st'" using demo_mx_ok by auto
  have "demo_data \<noteq> []" "payload_without_accounts demo_data_payload = [104, 105]" "ai_key (ex_token_mint demo_mx) = [30]"
    by (simp_all add: demo_data_def demo_data_payload_def demo_mx_def acc_keys)
  with memo_delivery_exact [OF demo_mlib_call ok] demo_decode show ?thesis
    by (simp del: from_utf8.simps) blast
qed

end
