(* ===== verification/Harness_Gateway.thy ===== *)
theory Harness_Gateway
  imports Its_Client
begin

text \<open>
  A client of the gateway: \<open>lib.rs\<close> and \<open>gateway.rs\<close> of \<open>helpers/mollusk-harness\<close>, which set the
  operators, the gas service and the gateway up and then drive them the way a relayer does, from a
  list of messages to their approval. Its account store is a \<open>ledger\<close>: the states of the programs
  it calls. Instructions run in order; a failed one, or a failed check, ends the run with an error,
  as the panic of the harness does. The lamports of an account and the sysvars are not in the ledger,
  balances of the gas service's ledger apart: an account exists when its program holds it.
\<close>

section \<open>The ledger and the chain of instructions\<close>

record ledger =
  lg_operators :: operators_state
  lg_gas :: gas_state
  lg_gateway :: gateway_state
  lg_view :: ledger_view
  lg_executable :: "pubkey \<Rightarrow> bool"

definition expect :: "'a option \<Rightarrow> string \<Rightarrow> 'a result" where
  "expect x msg = ok_or x (Panic msg)"

lemma expect_Inr [res_inv]: "expect x msg = Inr y \<longleftrightarrow> x = Some y"
  by (simp add: expect_def res_inv)

lemma expect_simps [simp]: "expect (Some y) msg = Inr y"
  by (simp add: expect_def)

text \<open>\<open>get_account_as\<close>: the account at an address, if it is one of the type asked for.\<close>

definition get_account_as :: "('a \<Rightarrow> 'd option) \<Rightarrow> 'a accounts \<Rightarrow> pubkey \<Rightarrow> 'd option" where
  "get_account_as prj m k = (case m k of None \<Rightarrow> None | Some a \<Rightarrow> prj a)"

definition account_exists :: "'a accounts \<Rightarrow> pubkey \<Rightarrow> bool" where
  "account_exists m k \<longleftrightarrow> m k \<noteq> None"

text \<open>
  \<open>process_and_validate_instruction_chain\<close> on instructions that must succeed, each with the checks
  of the accounts it leaves.
\<close>

fun run_chain :: "('i \<Rightarrow> 's \<Rightarrow> 's result) \<Rightarrow> ('i \<times> ('s \<Rightarrow> bool)) list \<Rightarrow> 's \<Rightarrow> 's result" where
  "run_chain entry [] s = Inr s"
| "run_chain entry ((ix, checks) # ixs) s =
     res_bind (entry ix s) (\<lambda>s'.
     res_bind (require (checks s') (Panic ''account check'')) (\<lambda>_.
     run_chain entry ixs s'))"

text \<open>\<open>Check::success()\<close> and nothing else.\<close>

definition check_success :: "'i \<Rightarrow> 'i \<times> ('s \<Rightarrow> bool)" where
  "check_success ix = (ix, \<lambda>_. True)"

definition succeeded :: "'s result \<Rightarrow> bool" where
  "succeeded r = (case r of Inr _ \<Rightarrow> True | Inl _ \<Rightarrow> False)"

definition gateway_chain ::
    "env \<Rightarrow> (gateway_instruction \<times> (gateway_state \<Rightarrow> bool)) list \<Rightarrow> 'z ledger_scheme \<Rightarrow> 'z ledger_scheme result" where
  "gateway_chain env ixs L =
     res_bind (run_chain (gateway_entry env (lg_view L)) ixs (lg_gateway L)) (\<lambda>g. Inr (L\<lparr>lg_gateway := g\<rparr>))"

text \<open>
  An instruction with checks of the caller's: the result that passed them, and the ledger after it,
  which a failed instruction leaves alone.
\<close>

definition gateway_checked ::
    "env \<Rightarrow> (gateway_state result \<Rightarrow> bool) \<Rightarrow> gateway_instruction \<Rightarrow> 'z ledger_scheme \<Rightarrow>
     (gateway_state result \<times> 'z ledger_scheme) result" where
  "gateway_checked env checks ix L =
     (let r = gateway_entry env (lg_view L) ix (lg_gateway L) in
      res_bind (require (checks r) (Panic ''instruction check'')) (\<lambda>_.
      Inr (r, case r of Inr g \<Rightarrow> L\<lparr>lg_gateway := g\<rparr> | Inl _ \<Rightarrow> L)))"

definition ensure_account_exists_with_lamports :: "pubkey \<Rightarrow> u64 \<Rightarrow> 'z ledger_scheme \<Rightarrow> 'z ledger_scheme" where
  "ensure_account_exists_with_lamports address lamports L =
     (let B = gs_balances (lg_gas L) in
      if B address < lamports then L\<lparr>lg_gas := (lg_gas L)\<lparr>gs_balances := B(address := lamports)\<rparr>\<rparr> else L)"

text \<open>
  \<open>ensure_program_data_account\<close>: the loader's account of a program, recording its upgrade authority
  (\<open>create_program_data_account\<close> of \<open>mollusk-test-utils\<close>).
\<close>

definition ensure_program_data_account ::
    "env \<Rightarrow> pubkey \<Rightarrow> pubkey \<Rightarrow> 'z ledger_scheme \<Rightarrow> (pubkey \<times> 'z ledger_scheme) result" where
  "ensure_program_data_account env program upgrade_authority_address L =
     res_bind (find_key env [program] (loader_upgradeable_id env)) (\<lambda>program_data.
     if program_data_authority (lg_view L) program_data \<noteq> None then Inr (program_data, L)
     else Inr (program_data, L\<lparr>lg_view := (lg_view L)\<lparr>program_data_authority :=
       (program_data_authority (lg_view L))(program_data \<mapsto> Some upgrade_authority_address)\<rparr>\<rparr>))"

section \<open>Signing\<close>

text \<open>\<open>libsecp256k1\<close>: secret keys from bytes, their compressed public keys, signatures with a recovery id.\<close>

record secp_lib =
  secp_secret_parse :: "bytes \<Rightarrow> bytes option"
  secp_public_key :: "bytes \<Rightarrow> secp_pubkey"
  secp_sign :: "hash \<Rightarrow> bytes \<Rightarrow> bytes \<times> u8"

text \<open>The random bytes are an argument.\<close>

definition generate_random_signer :: "secp_lib \<Rightarrow> bytes \<Rightarrow> (bytes \<times> secp_pubkey) result" where
  "generate_random_signer slib secret_key_bytes =
     res_bind (expect (secp_secret_parse slib secret_key_bytes) ''called `Result::unwrap()` on an `Err` value'') (\<lambda>sk.
     Inr (sk, secp_public_key slib sk))"

definition sign_message :: "secp_lib \<Rightarrow> hash \<Rightarrow> bytes \<Rightarrow> ecdsa_signature" where
  "sign_message slib message sk = (let (sig, recovery_id) = secp_sign slib message sk in sig @ [recovery_id])"

definition create_verifier_info ::
    "env \<Rightarrow> secp_lib \<Rightarrow> bytes \<Rightarrow> hash \<Rightarrow> VerifierSetLeaf \<Rightarrow> nat \<Rightarrow> hash list \<Rightarrow> PayloadType \<Rightarrow> SigningVerifierSetInfo" where
  "create_verifier_info env slib sk payload_merkle_root verifier_leaf position verifier_merkle_tree payload_type =
     \<lparr>vi_signature = sign_message slib (prefixed_message_hash_payload_type env payload_type payload_merkle_root) sk,
      vi_leaf = verifier_leaf,
      vi_merkle_proof = merkle_tree_proof env (Hasher env) verifier_merkle_tree [position],
      vi_payload_type = payload_type\<rparr>"

section \<open>The harness\<close>

record GatewayHarnessInfo =
  gh_root :: pubkey
  gh_signers :: "bytes list"
  gh_verifier_set_tracker :: pubkey
  gh_verifier_set_leaves :: "VerifierSetLeaf list"
  gh_verifier_merkle_tree :: "hash list"

record harness =
  hs_payer :: pubkey
  hs_operator :: pubkey
  hs_gateway :: GatewayHarnessInfo

definition default_gateway_info :: GatewayHarnessInfo where
  "default_gateway_info =
     \<lparr>gh_root = replicate 32 0, gh_signers = [], gh_verifier_set_tracker = replicate 32 0,
      gh_verifier_set_leaves = [], gh_verifier_merkle_tree = []\<rparr>"

definition ensure_operators_initialized ::
    "env \<Rightarrow> 'h harness_scheme \<Rightarrow> 'z ledger_scheme \<Rightarrow> 'z ledger_scheme result" where
  "ensure_operators_initialized env h L =
     res_bind (find_key env registry_seeds (operators_id env)) (\<lambda>registry.
     res_bind (find_key env (operator_seeds (hs_operator h)) (operators_id env)) (\<lambda>operator_account.
     if account_exists (op_accounts (lg_operators L)) operator_account then Inr L else
     res_bind (run_chain (operators_entry env)
       [(OperatorsInitializeIx
           \<lparr>oi_payer = acc_signer_mut (hs_payer h), oi_owner = acc_signer (hs_operator h),
            oi_registry = acc_mut registry, oi_system_program = acc (system_program_id env)\<rparr>,
         \<lambda>s. account_exists (op_accounts s) registry),
        (AddOperatorIx
           \<lparr>ao_owner = acc_signer_mut (hs_operator h), ao_operator_to_add = acc (hs_operator h),
            ao_registry = acc_mut registry, ao_operator_account = acc_mut operator_account,
            ao_system_program = acc (system_program_id env)\<rparr>,
         \<lambda>s. account_exists (op_accounts s) operator_account)]
       (lg_operators L)) (\<lambda>ops.
     Inr (L\<lparr>lg_operators := ops\<rparr>))))"

definition ensure_gas_service_initialized ::
    "env \<Rightarrow> system_lib \<Rightarrow> 'h harness_scheme \<Rightarrow> 'z ledger_scheme \<Rightarrow> 'z ledger_scheme result" where
  "ensure_gas_service_initialized env sys h L0 =
     res_bind (ensure_operators_initialized env h L0) (\<lambda>L.
     res_bind (find_key env treasury_seeds (gas_service_id env)) (\<lambda>treasury.
     res_bind (find_key env (operator_seeds (hs_operator h)) (operators_id env)) (\<lambda>operator_account.
     if account_exists (gs_treasuries (lg_gas L)) treasury then Inr L else
     res_bind (run_chain (gas_entry env sys (lg_operators L))
       [(GasInitializeIx
           \<lparr>gi_payer = acc_signer_mut (hs_payer h), gi_operator = acc_signer (hs_operator h),
            gi_operator_pda = acc operator_account, gi_system_program = acc (system_program_id env),
            gi_treasury = acc_mut treasury\<rparr>,
         \<lambda>s. account_exists (gs_treasuries s) treasury)]
       (lg_gas L)) (\<lambda>g.
     Inr (L\<lparr>lg_gas := g\<rparr>)))))"

text \<open>The verifier set the harness installs: two signers of weight 50 and a quorum of 100.\<close>

definition initial_domain_separator :: hash where
  "initial_domain_separator = replicate 32 2"

definition initial_verifier_leaves :: "secp_pubkey \<Rightarrow> secp_pubkey \<Rightarrow> VerifierSetLeaf list" where
  "initial_verifier_leaves pk1 pk2 =
     [\<lparr>vl_nonce = 0, vl_quorum = 100, vl_signer_pubkey = pk1, vl_signer_weight = 50,
       vl_position = 0, vl_set_size = 2, vl_domain_separator = initial_domain_separator\<rparr>,
      \<lparr>vl_nonce = 0, vl_quorum = 100, vl_signer_pubkey = pk2, vl_signer_weight = 50,
       vl_position = 1, vl_set_size = 2, vl_domain_separator = initial_domain_separator\<rparr>]"

definition ensure_gateway_initialized ::
    "env \<Rightarrow> system_lib \<Rightarrow> secp_lib \<Rightarrow> bytes \<Rightarrow> bytes \<Rightarrow> 'h harness_scheme \<Rightarrow> 'z ledger_scheme \<Rightarrow>
     ('h harness_scheme \<times> 'z ledger_scheme) result" where
  "ensure_gateway_initialized env sys slib rnd1 rnd2 h L0 =
     res_bind (ensure_gas_service_initialized env sys h L0) (\<lambda>L.
     res_bind (find_key env gateway_config_seeds (gateway_id env)) (\<lambda>gateway_root_pda.
     if account_exists (gw_accounts (lg_gateway L)) gateway_root_pda then Inr (h, L) else
     res_bind (generate_random_signer slib rnd1) (\<lambda>(secret_key_1, compressed_pubkey_1).
     res_bind (generate_random_signer slib rnd2) (\<lambda>(secret_key_2, compressed_pubkey_2).
     let verifier_leaves = initial_verifier_leaves compressed_pubkey_1 compressed_pubkey_2;
         verifier_merkle_tree = map (verifier_set_leaf_hash env) verifier_leaves in
     res_bind (expect (merkle_tree_root env (Hasher env) verifier_merkle_tree)
                ''called `Option::unwrap()` on a `None` value'') (\<lambda>vs_hash.
     res_bind (find_key env (tracker_seeds vs_hash) (gateway_id env)) (\<lambda>verifier_set_tracker_pda.
     res_bind (ensure_program_data_account env (gateway_id env) (hs_operator h) L) (\<lambda>(program_data, L1).
     res_bind (gateway_chain env
       [(InitializeConfigIx
           \<lparr>ic_payer = acc_signer_mut (hs_payer h), ic_upgrade_authority = acc_signer (hs_operator h),
            ic_program_data = acc program_data, ic_gateway_root_pda = acc_mut gateway_root_pda,
            ic_system_program = acc (system_program_id env),
            ic_verifier_set_tracker_pda = acc_mut verifier_set_tracker_pda\<rparr>
           \<lparr>icp_domain_separator = initial_domain_separator, icp_initial_verifier_set_hash = vs_hash,
            icp_initial_verifier_set_pda = verifier_set_tracker_pda, icp_minimum_rotation_delay = 3600,
            icp_operator = hs_operator h, icp_previous_verifier_retention = u256_of_u64 5\<rparr>,
         \<lambda>s. account_exists (gw_accounts s) gateway_root_pda \<and> account_exists (gw_accounts s) verifier_set_tracker_pda)]
       L1) (\<lambda>L2.
     Inr (h\<lparr>hs_gateway := \<lparr>gh_root = gateway_root_pda, gh_signers = [secret_key_1, secret_key_2],
            gh_verifier_set_tracker = verifier_set_tracker_pda, gh_verifier_set_leaves = verifier_leaves,
            gh_verifier_merkle_tree = verifier_merkle_tree\<rparr>\<rparr>, L2)))))))))"

definition LAMPORTS_PER_SOL :: u64 where
  "LAMPORTS_PER_SOL = 1000000000"

text \<open>A wallet with ten SOL; its unique key is an argument.\<close>

definition get_new_wallet :: "pubkey \<Rightarrow> 'z ledger_scheme \<Rightarrow> pubkey \<times> 'z ledger_scheme" where
  "get_new_wallet wallet L = (wallet, ensure_account_exists_with_lamports wallet (10 * LAMPORTS_PER_SOL) L)"

text \<open>\<open>GatewayTestHarness::new\<close>, from a store with nothing in it; the two unique keys are arguments.\<close>

definition gateway_harness_new ::
    "env \<Rightarrow> system_lib \<Rightarrow> secp_lib \<Rightarrow> bytes \<Rightarrow> bytes \<Rightarrow> pubkey \<Rightarrow> pubkey \<Rightarrow> 'z ledger_scheme \<Rightarrow>
     (harness \<times> 'z ledger_scheme) result" where
  "gateway_harness_new env sys slib rnd1 rnd2 payer operator L =
     ensure_gateway_initialized env sys slib rnd1 rnd2
       \<lparr>hs_payer = payer, hs_operator = operator, hs_gateway = default_gateway_info\<rparr>
       (ensure_account_exists_with_lamports operator (LAMPORTS_PER_SOL * 100)
       (ensure_account_exists_with_lamports payer (LAMPORTS_PER_SOL * 100) L))"

section \<open>Approving messages\<close>

text \<open>The leaves of a batch, with the casts \<open>as u16\<close> of its positions and size.\<close>

definition harness_message_leaves :: "Message list \<Rightarrow> hash \<Rightarrow> MessageLeaf list" where
  "harness_message_leaves messages ds =
     map (\<lambda>(i, msg). \<lparr>ml_message = msg, ml_position = word_of_nat i, ml_set_size = word_of_nat (length messages),
       ml_domain_separator = ds\<rparr>) (zip [0..<length messages] messages)"

definition tracker_hash :: "'h harness_scheme \<Rightarrow> 'z ledger_scheme \<Rightarrow> hash result" where
  "tracker_hash h L =
     res_bind (expect (get_account_as tracker_of (gw_accounts (lg_gateway L)) (gh_verifier_set_tracker (hs_gateway h)))
       ''verifier set tracker should exist'') (\<lambda>tracker. Inr (vt_verifier_set_hash tracker))"

definition session_key :: "env \<Rightarrow> hash \<Rightarrow> PayloadType \<Rightarrow> hash \<Rightarrow> pubkey result" where
  "session_key env payload_merkle_root payload_type vsh =
     find_key env (session_seeds payload_merkle_root payload_type vsh) (gateway_id env)"

definition init_session_ix ::
    "env \<Rightarrow> 'h harness_scheme \<Rightarrow> pubkey \<Rightarrow> hash \<Rightarrow> PayloadType \<Rightarrow> gateway_instruction \<times> (gateway_state \<Rightarrow> bool)" where
  "init_session_ix env h session payload_merkle_root payload_type =
     (InitializePayloadVerificationSessionIx
        \<lparr>ips_payer = acc_signer_mut (hs_payer h), ips_gateway_root_pda = acc (gh_root (hs_gateway h)),
         ips_verification_session_account = acc_mut session,
         ips_verifier_set_tracker_pda = acc (gh_verifier_set_tracker (hs_gateway h)),
         ips_system_program = acc (system_program_id env)\<rparr>
        payload_merkle_root payload_type,
      \<lambda>s. account_exists (gw_accounts s) session)"

definition verify_signature_ix ::
    "'h harness_scheme \<Rightarrow> pubkey \<Rightarrow> hash \<Rightarrow> SigningVerifierSetInfo \<Rightarrow> gateway_instruction" where
  "verify_signature_ix h session payload_merkle_root verifier_info =
     VerifySignatureIx
       \<lparr>vs_gateway_root_pda = acc (gh_root (hs_gateway h)), vs_verification_session_account = acc_mut session,
        vs_verifier_set_tracker_pda = acc (gh_verifier_set_tracker (hs_gateway h))\<rparr>
       payload_merkle_root verifier_info"

text \<open>The signatures of all signers of the current set on a payload root.\<close>

definition verifier_infos ::
    "env \<Rightarrow> secp_lib \<Rightarrow> 'h harness_scheme \<Rightarrow> hash \<Rightarrow> PayloadType \<Rightarrow> SigningVerifierSetInfo list" where
  "verifier_infos env slib h payload_merkle_root payload_type =
     (let pairs = zip (gh_signers (hs_gateway h)) (gh_verifier_set_leaves (hs_gateway h)) in
      map (\<lambda>(idx, (sk, l)). create_verifier_info env slib sk payload_merkle_root l idx
          (gh_verifier_merkle_tree (hs_gateway h)) payload_type)
        (zip [0..<length pairs] pairs))"

definition approve_message_ix ::
    "env \<Rightarrow> 'h harness_scheme \<Rightarrow> pubkey \<Rightarrow> hash \<Rightarrow> MerklizedMessage \<Rightarrow> gateway_instruction result" where
  "approve_message_ix env h session payload_merkle_root mm =
     res_bind (find_key env (incoming_message_seeds (command_id env (ml_message (mm_leaf mm)))) (gateway_id env))
       (\<lambda>incoming_message_pda.
     Inr (ApproveMessageIx
       \<lparr>am_gateway_root_pda = acc (gh_root (hs_gateway h)), am_funder = acc_signer_mut (hs_payer h),
        am_verification_session_account = acc session, am_incoming_message_pda = acc_mut incoming_message_pda,
        am_system_program = acc (system_program_id env)\<rparr>
       mm payload_merkle_root))"

fun collect_results :: "'a result list \<Rightarrow> 'a list result" where
  "collect_results [] = Inr []"
| "collect_results (r # rs) = res_bind r (\<lambda>x. res_bind (collect_results rs) (\<lambda>xs. Inr (x # xs)))"

definition harness_merklized :: "env \<Rightarrow> hash list \<Rightarrow> MessageLeaf list \<Rightarrow> MerklizedMessage list" where
  "harness_merklized env tree leaves =
     map (\<lambda>(position, leaf). \<lparr>mm_leaf = leaf, mm_proof = merkle_tree_proof env (Hasher env) tree [position]\<rparr>)
       (zip [0..<length leaves] leaves)"

definition ensure_approved_incoming_messages ::
    "env \<Rightarrow> secp_lib \<Rightarrow> 'h harness_scheme \<Rightarrow> Message list \<Rightarrow> 'z ledger_scheme \<Rightarrow> 'z ledger_scheme result" where
  "ensure_approved_incoming_messages env slib h messages L =
     res_bind (expect (get_account_as config_of (gw_accounts (lg_gateway L)) (gh_root (hs_gateway h)))
       ''gateway root should exist'') (\<lambda>config.
     let leaves = harness_message_leaves messages (domain_separator config);
         tree = map (message_leaf_hash env) leaves in
     res_bind (expect (merkle_tree_root env (Hasher env) tree)
                ''called `Option::unwrap()` on a `None` value'') (\<lambda>payload_merkle_root.
     res_bind (tracker_hash h L) (\<lambda>vsh.
     res_bind (session_key env payload_merkle_root ApproveMessages vsh) (\<lambda>session.
     let verify_ixs = map (verify_signature_ix h session payload_merkle_root)
           (verifier_infos env slib h payload_merkle_root ApproveMessages) in
     res_bind (collect_results (map (approve_message_ix env h session payload_merkle_root)
                 (harness_merklized env tree leaves))) (\<lambda>approve_ixs.
     gateway_chain env
       (init_session_ix env h session payload_merkle_root ApproveMessages #
        map check_success verify_ixs @ map check_success approve_ixs) L)))))"

section \<open>\<open>GatewayTestHarness\<close>: one instruction at a time\<close>

definition init_payload_verification_session ::
    "env \<Rightarrow> 'h harness_scheme \<Rightarrow> hash \<Rightarrow> PayloadType \<Rightarrow> 'z ledger_scheme \<Rightarrow> (pubkey \<times> 'z ledger_scheme) result" where
  "init_payload_verification_session env h payload_merkle_root payload_type L =
     res_bind (tracker_hash h L) (\<lambda>vsh.
     res_bind (session_key env payload_merkle_root payload_type vsh) (\<lambda>session.
     res_bind (gateway_chain env [init_session_ix env h session payload_merkle_root payload_type] L) (\<lambda>L'.
     Inr (session, L'))))"

definition verify_signature_with_checks ::
    "env \<Rightarrow> 'h harness_scheme \<Rightarrow> hash \<Rightarrow> SigningVerifierSetInfo \<Rightarrow> (gateway_state result \<Rightarrow> bool) \<Rightarrow>
     'z ledger_scheme \<Rightarrow> (gateway_state result \<times> 'z ledger_scheme) result" where
  "verify_signature_with_checks env h payload_merkle_root verifier_info checks L =
     res_bind (tracker_hash h L) (\<lambda>vsh.
     res_bind (session_key env payload_merkle_root (vi_payload_type verifier_info) vsh) (\<lambda>session.
     gateway_checked env checks (verify_signature_ix h session payload_merkle_root verifier_info) L))"

definition harness_verify_signature ::
    "env \<Rightarrow> 'h harness_scheme \<Rightarrow> hash \<Rightarrow> SigningVerifierSetInfo \<Rightarrow> 'z ledger_scheme \<Rightarrow>
     (gateway_state result \<times> 'z ledger_scheme) result" where
  "harness_verify_signature env h payload_merkle_root verifier_info L =
     verify_signature_with_checks env h payload_merkle_root verifier_info succeeded L"

definition verify_all_signatures ::
    "env \<Rightarrow> secp_lib \<Rightarrow> 'h harness_scheme \<Rightarrow> hash \<Rightarrow> PayloadType \<Rightarrow> 'z ledger_scheme \<Rightarrow> 'z ledger_scheme result" where
  "verify_all_signatures env slib h payload_merkle_root payload_type L =
     res_bind (tracker_hash h L) (\<lambda>vsh.
     res_bind (session_key env payload_merkle_root payload_type vsh) (\<lambda>session.
     gateway_chain env (map check_success (map (verify_signature_ix h session payload_merkle_root)
       (verifier_infos env slib h payload_merkle_root payload_type))) L))"

definition rotate_signers_with_checks ::
    "env \<Rightarrow> 'h harness_scheme \<Rightarrow> hash \<Rightarrow> pubkey \<Rightarrow> (gateway_state result \<Rightarrow> bool) \<Rightarrow>
     'z ledger_scheme \<Rightarrow> (gateway_state result \<times> 'z ledger_scheme) result" where
  "rotate_signers_with_checks env h new_verifier_set_hash session checks L =
     res_bind (find_key env (tracker_seeds new_verifier_set_hash) (gateway_id env)) (\<lambda>new_tracker.
     gateway_checked env checks (RotateSignersIx
       \<lparr>rs_gateway_root_pda = acc_mut (gh_root (hs_gateway h)), rs_verification_session_account = acc session,
        rs_verifier_set_tracker_pda = acc (gh_verifier_set_tracker (hs_gateway h)),
        rs_new_verifier_set_tracker = acc_mut new_tracker, rs_payer = acc_signer_mut (hs_payer h),
        rs_system_program = acc (system_program_id env), rs_operator = Some (acc_signer (hs_operator h))\<rparr>
       new_verifier_set_hash) L)"

definition harness_rotate_signers ::
    "env \<Rightarrow> 'h harness_scheme \<Rightarrow> hash \<Rightarrow> pubkey \<Rightarrow> 'z ledger_scheme \<Rightarrow> (gateway_state result \<times> 'z ledger_scheme) result" where
  "harness_rotate_signers env h new_verifier_set_hash session L =
     rotate_signers_with_checks env h new_verifier_set_hash session succeeded L"

definition approve_message_with_checks ::
    "env \<Rightarrow> 'h harness_scheme \<Rightarrow> MerklizedMessage \<Rightarrow> hash \<Rightarrow> pubkey \<Rightarrow> (gateway_state result \<Rightarrow> bool) \<Rightarrow>
     'z ledger_scheme \<Rightarrow> (gateway_state result \<times> 'z ledger_scheme) result" where
  "approve_message_with_checks env h mm payload_merkle_root session checks L =
     res_bind (approve_message_ix env h session payload_merkle_root mm) (\<lambda>ix. gateway_checked env checks ix L)"

definition harness_approve_message ::
    "env \<Rightarrow> 'h harness_scheme \<Rightarrow> MerklizedMessage \<Rightarrow> hash \<Rightarrow> pubkey \<Rightarrow>
     'z ledger_scheme \<Rightarrow> (gateway_state result \<times> 'z ledger_scheme) result" where
  "harness_approve_message env h mm payload_merkle_root session L =
     approve_message_with_checks env h mm payload_merkle_root session succeeded L"

definition transfer_gateway_operatorship ::
    "env \<Rightarrow> 'h harness_scheme \<Rightarrow> pubkey \<Rightarrow> 'z ledger_scheme \<Rightarrow> 'z ledger_scheme result" where
  "transfer_gateway_operatorship env h new_operator L =
     res_bind (find_key env [gateway_id env] (loader_upgradeable_id env)) (\<lambda>program_data.
     gateway_chain env [check_success (TransferOperatorshipIx
       \<lparr>to_gateway_root_pda = acc_mut (gh_root (hs_gateway h)),
        to_operator_or_upgrade_authority = acc_signer (hs_operator h), to_program_data = acc program_data,
        to_new_operator = acc new_operator\<rparr>)] L)"

text \<open>
  A program calls through its signing address, with the bump found for it; any other caller is
  marked as a signer. In the built accounts an optional signing address is a signer.
\<close>

definition harness_call_contract ::
    "env \<Rightarrow> 'h harness_scheme \<Rightarrow> pubkey \<Rightarrow> string \<Rightarrow> string \<Rightarrow> bytes \<Rightarrow> 'z ledger_scheme \<Rightarrow> 'z ledger_scheme result" where
  "harness_call_contract env h caller dest_chain dest_address payload L =
     res_bind (CallContractSigner_find_pda env caller) (\<lambda>(signing_pda, found_bump).
     let executable = lg_executable L caller;
         signing_pda_option = (if executable then Some (acc_signer signing_pda) else None);
         bump = (if executable then found_bump else 0) in
     gateway_chain env [check_success (CallContractIx
       \<lparr>cc_caller = (if signing_pda_option = None then acc_signer caller else acc caller),
        cc_signing_pda = signing_pda_option, cc_gateway_root_pda = acc (gh_root (hs_gateway h))\<rparr>
       dest_chain dest_address payload bump)] L)"

end
