(* ===== verification/Harness_Gateway_Inv.thy ===== *)
theory Harness_Gateway_Inv
  imports Harness_Gateway Gateway_Events
begin

text \<open>
  What the client of the gateway achieves: its instructions succeed. First chains of instructions,
  then the verification of all signatures and the approval of a batch, then the set-up.
\<close>

section \<open>Chains\<close>

lemma run_chain_append:
  "run_chain entry (xs @ ys) s = res_bind (run_chain entry xs s) (run_chain entry ys)"
proof (induction xs arbitrary: s)
  case (Cons x xs)
  then show ?case by (cases x) (auto simp: res_bind_def split: sum.splits)
qed simp

lemma run_chain_check_success [simp]:
  "run_chain entry (check_success ix # ixs) s = res_bind (entry ix s) (run_chain entry ixs)"
  by (simp add: check_success_def)

text \<open>A chain of the gateway's instructions is a run of the gateway.\<close>

lemma run_chain_runs:
  assumes "run_chain (gateway_entry env view) ixs g = Inr g'" and "\<forall>(ix, c) \<in> set ixs. gateway_ix_wf ix"
  shows "runs (gateway_step env) g g'"
  using assms
proof (induction ixs arbitrary: g)
  case (Cons x ixs)
  obtain ix c where x: "x = (ix, c)" by (cases x)
  from Cons.prems(1) obtain g1 where g1: "gateway_entry env view ix g = Inr g1"
    and rest: "run_chain (gateway_entry env view) ixs g1 = Inr g'"
    by (auto simp: x res_inv)
  have "gateway_step env g g1" using Cons.prems(2) g1 by (auto simp: x intro: gateway_ix)
  then have "runs (gateway_step env) g g1" by (rule runs_one)
  moreover have "runs (gateway_step env) g1 g'" using Cons.IH [OF rest] Cons.prems(2) by simp
  ultimately show ?case by (rule runs_trans [rotated])
qed (simp add: runs_refl)

lemma collect_results_Inr:
  "collect_results rs = Inr xs \<longleftrightarrow> length rs = length xs \<and> (\<forall>i < length xs. rs ! i = Inr (xs ! i))"
proof (induction rs arbitrary: xs)
  case (Cons r rs)
  show ?case
    by (cases xs) (auto simp: res_inv Cons.IH nth_Cons split: nat.splits)
qed auto

section \<open>Signatures\<close>

text \<open>What the harness relies on of the library that signs: the runtime recovers the signer's key.\<close>

definition sign_law :: "env \<Rightarrow> secp_lib \<Rightarrow> bool" where
  "sign_law env slib \<longleftrightarrow> (\<forall>bs sk message. secp_secret_parse slib bs = Some sk \<longrightarrow>
     (\<exists>full. parse_compressed_serialize env (secp_public_key slib sk) = Some full \<and>
        secp256k1_recover env message (snd (secp_sign slib message sk)) (fst (secp_sign slib message sk)) = Some (tl full)))"

lemma sign_message_signed_by:
  assumes "sign_law env slib" and "secp_secret_parse slib bs = Some sk"
  shows "signed_by env (secp_public_key slib sk)
    (sign_message slib (prefixed_message_hash_payload_type env pt root) sk) pt root"
proof -
  obtain full where "parse_compressed_serialize env (secp_public_key slib sk) = Some full"
    and "secp256k1_recover env (prefixed_message_hash_payload_type env pt root)
      (snd (secp_sign slib (prefixed_message_hash_payload_type env pt root) sk))
      (fst (secp_sign slib (prefixed_message_hash_payload_type env pt root) sk)) = Some (tl full)"
    using assms unfolding sign_law_def by blast
  then show ?thesis
    by (auto simp: signed_by_def sign_message_def split: prod.splits)
qed

text \<open>
  The verifier set the harness holds: its leaves stand at their positions in the tree, carry the
  domain separator and one quorum, and belong to the signers; together they reach the quorum.
\<close>

definition leaf_of_signer :: "secp_lib \<Rightarrow> nat \<Rightarrow> hash \<Rightarrow> u128 \<Rightarrow> nat \<Rightarrow> bytes \<Rightarrow> VerifierSetLeaf \<Rightarrow> bool" where
  "leaf_of_signer slib n ds q i sk l \<longleftrightarrow>
     unat (vl_position l) = i \<and> unat (vl_set_size l) = n \<and> vl_domain_separator l = ds \<and> vl_quorum l = q \<and>
     vl_signer_pubkey l = secp_public_key slib sk \<and> (\<exists>bs. secp_secret_parse slib bs = Some sk)"

definition verifiers_ready :: "env \<Rightarrow> secp_lib \<Rightarrow> GatewayHarnessInfo \<Rightarrow> hash \<Rightarrow> hash \<Rightarrow> bool" where
  "verifiers_ready env slib gh ds vsh \<longleftrightarrow>
     (let ls = gh_verifier_set_leaves gh; sks = gh_signers gh in
      gh_verifier_merkle_tree gh = map (verifier_set_leaf_hash env) ls \<and>
      merkle_tree_root env (Hasher env) (gh_verifier_merkle_tree gh) = Some vsh \<and>
      length sks = length ls \<and> ls \<noteq> [] \<and> length ls \<le> 256 \<and>
      (\<exists>q. unat q \<le> sum_list (map (\<lambda>l. unat (vl_signer_weight l)) ls) \<and>
        (\<forall>i < length ls. leaf_of_signer slib (length ls) ds q i (sks ! i) (ls ! i))))"

lemma verifier_infos_nth:
  assumes "length (gh_signers (hs_gateway h)) = length (gh_verifier_set_leaves (hs_gateway h))"
  shows "length (verifier_infos env slib h root pt) = length (gh_verifier_set_leaves (hs_gateway h))"
    and "i < length (gh_verifier_set_leaves (hs_gateway h)) \<Longrightarrow> verifier_infos env slib h root pt ! i =
      create_verifier_info env slib (gh_signers (hs_gateway h) ! i) root (gh_verifier_set_leaves (hs_gateway h) ! i) i
        (gh_verifier_merkle_tree (hs_gateway h)) pt"
  using assms by (simp_all add: verifier_infos_def Let_def)

lemma verifier_infos_accepted:
  assumes merkle: "merkle_law env" and sign: "sign_law env slib"
    and ready: "verifiers_ready env slib (hs_gateway h) ds vsh"
    and i: "i < length (gh_verifier_set_leaves (hs_gateway h))"
    and info: "info = verifier_infos env slib h root pt ! i"
  shows "signature_accepted env root vsh info" and "info_position info = i"
    and "vi_payload_type info = pt" and "vl_domain_separator (vi_leaf info) = ds"
    and "vi_leaf info = gh_verifier_set_leaves (hs_gateway h) ! i"
proof -
  let ?gh = "hs_gateway h" and ?ls = "gh_verifier_set_leaves (hs_gateway h)"
  obtain q where len: "length (gh_signers ?gh) = length ?ls"
    and tree: "gh_verifier_merkle_tree ?gh = map (verifier_set_leaf_hash env) ?ls"
    and root: "merkle_tree_root env (Hasher env) (gh_verifier_merkle_tree ?gh) = Some vsh"
    and leaf: "leaf_of_signer slib (length ?ls) ds q i (gh_signers ?gh ! i) (?ls ! i)"
    using ready i by (auto simp: verifiers_ready_def Let_def)
  have info': "info = create_verifier_info env slib (gh_signers ?gh ! i) root (?ls ! i) i (gh_verifier_merkle_tree ?gh) pt"
    by (simp add: info verifier_infos_nth [OF len] i)
  then show pos: "info_position info = i" and "vi_payload_type info = pt" and "vl_domain_separator (vi_leaf info) = ds"
    and l: "vi_leaf info = ?ls ! i"
    using leaf by (simp_all add: create_verifier_info_def leaf_of_signer_def)
  obtain bs where parse: "secp_secret_parse slib bs = Some (gh_signers ?gh ! i)"
    and pk: "vl_signer_pubkey (?ls ! i) = secp_public_key slib (gh_signers ?gh ! i)"
    using leaf by (auto simp: leaf_of_signer_def)
  have "i < length (gh_verifier_merkle_tree ?gh)" using i by (simp add: tree)
  from merkle_lawD [OF merkle root this] obtain p where
    "merkle_proof_from_bytes env (merkle_tree_proof env (Hasher env) (gh_verifier_merkle_tree ?gh) [i]) = Some p"
    "merkle_proof_verify env (Hasher env) p vsh [i] [gh_verifier_merkle_tree ?gh ! i] (length (gh_verifier_merkle_tree ?gh))"
    by blast
  then have "leaf_in_set env vsh info"
    using leaf i by (simp add: leaf_in_set_def info' create_verifier_info_def leaf_of_signer_def tree)
  moreover have "signed_by env (vl_signer_pubkey (vi_leaf info)) (vi_signature info) (vi_payload_type info) root"
    using sign_message_signed_by [OF sign parse] by (simp add: info' create_verifier_info_def pk)
  ultimately show "signature_accepted env root vsh info" by (simp add: signature_accepted_def)
qed

text \<open>All signers together make a fresh session valid.\<close>

lemma verifier_infos_validate:
  assumes merkle: "merkle_law env" and sign: "sign_law env slib"
    and ready: "verifiers_ready env slib (hs_gateway h) ds vsh"
  shows "\<exists>s. process_signatures env root vsh (session_fresh vsh b) (verifier_infos env slib h root pt) = Inr s \<and> is_valid s"
proof -
  let ?ls = "gh_verifier_set_leaves (hs_gateway h)" and ?infos = "verifier_infos env slib h root pt"
  obtain q where len: "length (gh_signers (hs_gateway h)) = length ?ls" and ne: "?ls \<noteq> []" and le: "length ?ls \<le> 256"
    and q: "unat q \<le> sum_list (map (\<lambda>l. unat (vl_signer_weight l)) ?ls)"
    and leaf: "\<And>i. i < length ?ls \<Longrightarrow>
      leaf_of_signer slib (length ?ls) ds q i (gh_signers (hs_gateway h) ! i) (?ls ! i)"
    using ready by (auto simp: verifiers_ready_def Let_def)
  have nth: "length ?infos = length ?ls" by (rule verifier_infos_nth [OF len])
  note acc = verifier_infos_accepted [OF merkle sign ready]
  have leaves: "map vi_leaf ?infos = ?ls"
  proof (rule nth_equalityI)
    show "map vi_leaf ?infos ! i = ?ls ! i" if "i < length (map vi_leaf ?infos)" for i
      using that nth acc(5) [OF _ refl, of i root pt] by simp
  qed (simp add: nth)
  have positions: "map info_position ?infos = [0..<length ?ls]"
  proof (rule nth_equalityI)
    show "map info_position ?infos ! i = [0..<length ?ls] ! i" if "i < length (map info_position ?infos)" for i
      using that nth acc(2) [OF _ refl, of i root pt] by simp
  qed (simp add: nth)
  have quorum: "info_quorum i = unat q" and accepted: "signature_accepted env root vsh i" and pos: "info_position i < 256"
    if i: "i \<in> set ?infos" for i
  proof -
    obtain j where j: "j < length ?ls" "i = ?infos ! j"
      using i nth by (metis in_set_conv_nth)
    show "signature_accepted env root vsh i" by (rule acc(1) [OF j])
    show "info_position i < 256" unfolding acc(2) [OF j] using j(1) le by linarith
    show "info_quorum i = unat q"
      unfolding acc(5) [OF j] using leaf [OF j(1)] unfolding leaf_of_signer_def by (elim conjE) (rule arg_cong)
  qed
  have "\<exists>s. process_signatures env root vsh (session_fresh vsh b) ?infos = Inr s"
  proof (rule process_signatures_ok)
    show "distinct (map info_position ?infos)" by (simp add: positions)
  qed (use accepted pos in auto)
  then obtain s where s: "process_signatures env root vsh (session_fresh vsh b) ?infos = Inr s" by blast
  have "map info_weight ?infos = map (\<lambda>l. unat (vl_signer_weight l)) ?ls"
    by (simp add: leaves [symmetric] o_def)
  moreover have "?infos \<noteq> []" using nth ne by auto
  ultimately have "quorum_reached 0 ?infos"
    using quorum_reached_uniform [of ?infos "unat q" 0] quorum q by simp
  then have "is_valid s" using is_valid_run [OF s] by simp
  with s show ?thesis by blast
qed

section \<open>The chain that verifies them\<close>

text \<open>What every instruction of the batch reads: the configuration and the tracker of the harness.\<close>

definition gateway_in_place :: "env \<Rightarrow> GatewayHarnessInfo \<Rightarrow> GatewayConfig \<Rightarrow> VerifierSetTracker \<Rightarrow> gateway_state \<Rightarrow> bool" where
  "gateway_in_place env gh c t g \<longleftrightarrow>
     load_gateway_config env g (gh_root gh) = Inr c \<and> tracker_at g (gh_verifier_set_tracker gh) t \<and>
     (\<exists>b. try_find_program_address env (tracker_seeds (vt_verifier_set_hash t)) (gateway_id env)
        = Some (gh_verifier_set_tracker gh, b)) \<and>
     assert_valid_epoch c (vt_epoch t) = Inr ()"

lemma gateway_in_place_put:
  "gateway_in_place env gh c t g \<Longrightarrow> k \<noteq> gh_root gh \<Longrightarrow> k \<noteq> gh_verifier_set_tracker gh \<Longrightarrow>
     gateway_in_place env gh c t (put_gw k a g)"
  by (simp add: gateway_in_place_def load_gateway_config_Inr)

lemma gateway_in_place_emit [simp]: "gateway_in_place env gh c t (emit_gw e g) = gateway_in_place env gh c t g"
  by (simp add: gateway_in_place_def load_gateway_config_Inr)

lemma gateway_in_placeD:
  assumes "gateway_in_place env gh c t g"
  shows "config_at g (gh_root gh) c" and "tracker_at g (gh_verifier_set_tracker gh) t"
  using assms by (simp_all add: gateway_in_place_def load_gateway_config_Inr)

lemma put_gw_same [simp]: "put_gw k a (put_gw k b g) = put_gw k a g"
  by (simp add: put_gw_def)

lemma put_gw_id: "gw_accounts g k = Some a \<Longrightarrow> put_gw k a g = g"
  by (simp add: put_gw_def fun_upd_idem)

lemma verify_chain:
  assumes "gateway_in_place env (hs_gateway h) c t g" and "session_at g ses s"
    and "create_program_address env (session_seeds root pt (vt_verifier_set_hash t) @ [[sd_bump s]]) (gateway_id env) = Some ses"
    and "session_hash s = vt_verifier_set_hash t"
    and "\<forall>i \<in> set infos. vi_payload_type i = pt \<and> vl_domain_separator (vi_leaf i) = domain_separator c"
    and "process_signatures env root (vt_verifier_set_hash t) s infos = Inr s'"
  shows "run_chain (gateway_entry env view) (map check_success (map (verify_signature_ix h ses root) infos)) g =
    Inr (put_gw ses (SessionAcc s') g)"
  using assms
proof (induction infos arbitrary: g s)
  case Nil
  then show ?case by (simp add: put_gw_id)
next
  case (Cons i infos)
  obtain s1 where s1: "process_signature env s root (vt_verifier_set_hash t) i = Inr s1"
    and rest: "process_signatures env root (vt_verifier_set_hash t) s1 infos = Inr s'"
    using Cons.prems(6) by (auto simp: res_inv)
  let ?g1 = "put_gw ses (SessionAcc s1) g"
  have ne: "ses \<noteq> gh_root (hs_gateway h)" "ses \<noteq> gh_verifier_set_tracker (hs_gateway h)"
    using gateway_in_placeD [OF Cons.prems(1)] Cons.prems(2) by auto
  have load: "load_acc session_of (gw_accounts g) ses = Inr s"
    "load_acc tracker_of (gw_accounts g) (gh_verifier_set_tracker (hs_gateway h)) = Inr t"
    using Cons.prems(1,2) gateway_in_placeD(2) by (simp_all add: gw_load)
  have canonical: "\<exists>b. check_seeds_canonical env (tracker_seeds (vt_verifier_set_hash t)) (gateway_id env)
      (gh_verifier_set_tracker (hs_gateway h)) = Inr b"
    using Cons.prems(1) by (simp add: gateway_in_place_def res_inv)
  have "gateway_entry env view (verify_signature_ix h ses root i) g = Inr ?g1"
    using Cons.prems(1,3-5) load canonical s1
    by (auto simp: verify_signature_ix_def verify_signature_def gateway_in_place_def acc_defs check_mut_def check_seeds_def)
  moreover have "run_chain (gateway_entry env view) (map check_success (map (verify_signature_ix h ses root) infos)) ?g1 =
      Inr (put_gw ses (SessionAcc s') ?g1)"
    using Cons.prems(1,3-5) ne rest process_signature_facts(5,7) [OF s1]
    by (intro Cons.IH) (auto intro: gateway_in_place_put)
  ultimately show ?case by simp
qed

text \<open>A session for a new root is opened, and the harness's signatures make it valid.\<close>

lemma session_signed:
  assumes law: "pda_law env" "merkle_law env" "sign_law env slib"
    and place: "gateway_in_place env (hs_gateway h) c t g"
    and ready: "verifiers_ready env slib (hs_gateway h) (domain_separator c) (vt_verifier_set_hash t)"
    and ses: "try_find_program_address env (session_seeds root pt (vt_verifier_set_hash t)) (gateway_id env) = Some (ses, sb)"
      "gw_accounts g ses = None"
  obtains s g1 where "run_chain (gateway_entry env view) [init_session_ix env h ses root pt] g = Inr g1"
    and "run_chain (gateway_entry env view)
      (map check_success (map (verify_signature_ix h ses root) (verifier_infos env slib h root pt))) g1 =
      Inr (put_gw ses (SessionAcc s) g)"
    and "is_valid s" and "session_hash s = vt_verifier_set_hash t" and "sd_bump s = sb"
    and "\<forall>k. k \<noteq> ses \<longrightarrow> gw_accounts g1 k = gw_accounts g k"
proof -
  let ?gh = "hs_gateway h" and ?vsh = "vt_verifier_set_hash t" and ?entry = "gateway_entry env view"
  let ?infos = "verifier_infos env slib h root pt"
  let ?g1 = "put_gw ses (SessionAcc (session_fresh ?vsh sb)) g"
  obtain s where s: "process_signatures env root ?vsh (session_fresh ?vsh sb) ?infos = Inr s" and valid: "is_valid s"
    using verifier_infos_validate [OF law(2,3) ready] by blast
  have ne: "ses \<noteq> gh_root ?gh" "ses \<noteq> gh_verifier_set_tracker ?gh"
    using gateway_in_placeD [OF place] ses(2) by auto
  note place1 = gateway_in_place_put [OF place ne]
  obtain b where tracker: "try_find_program_address env (tracker_seeds ?vsh) (gateway_id env) = Some (gh_verifier_set_tracker ?gh, b)"
    using place by (auto simp: gateway_in_place_def)
  have "check_seeds_canonical env (tracker_seeds ?vsh) (gateway_id env) (gh_verifier_set_tracker ?gh) = Inr b"
    "check_seeds_canonical env (session_seeds root pt ?vsh) (gateway_id env) ses = Inr sb"
    "load_acc tracker_of (gw_accounts g) (gh_verifier_set_tracker ?gh) = Inr t"
    using tracker ses(1) gateway_in_placeD(2) [OF place] by (simp_all add: res_inv gw_load)
  then have init: "run_chain ?entry [init_session_ix env h ses root pt] g = Inr ?g1"
    using place ses(2) by (simp add: init_session_ix_def initialize_payload_verification_session_def Let_def gateway_in_place_def
        acc_defs check_signer_def check_mut_def check_vacant_def check_program_def session_fresh_def account_exists_def)
  have infos: "\<forall>i \<in> set ?infos. vi_payload_type i = pt \<and> vl_domain_separator (vi_leaf i) = domain_separator c"
  proof
    fix i assume "i \<in> set ?infos"
    moreover have "length (gh_signers ?gh) = length (gh_verifier_set_leaves ?gh)"
      using ready by (simp add: verifiers_ready_def Let_def)
    ultimately obtain j where j: "j < length (gh_verifier_set_leaves ?gh)" "i = ?infos ! j"
      using verifier_infos_nth(1) by (metis in_set_conv_nth)
    show "vi_payload_type i = pt \<and> vl_domain_separator (vi_leaf i) = domain_separator c"
      using verifier_infos_accepted(3,4) [OF law(2,3) ready j] by blast
  qed
  have "run_chain ?entry (map check_success (map (verify_signature_ix h ses root) ?infos)) ?g1 = Inr (put_gw ses (SessionAcc s) ?g1)"
    by (rule verify_chain [OF place1 _ _ _ infos s]) (simp_all add: pda_lawD [OF law(1) ses(1)])
  then have "run_chain ?entry (map check_success (map (verify_signature_ix h ses root) ?infos)) ?g1 = Inr (put_gw ses (SessionAcc s) g)"
    by (simp only: put_gw_same)
  with init show thesis
    by (rule that) (use process_signatures_run [OF s] valid in simp_all)
qed

section \<open>The chain that approves\<close>

text \<open>A message that is ready to be approved under a root, when no message with its command id was yet.\<close>

definition approvable :: "env \<Rightarrow> gateway_state \<Rightarrow> hash \<Rightarrow> hash \<Rightarrow> MerklizedMessage \<Rightarrow> bool" where
  "approvable env g ds root mm \<longleftrightarrow>
     ml_domain_separator (mm_leaf mm) = ds \<and>
     (\<exists>p. merkle_proof_from_bytes env (mm_proof mm) = Some p \<and>
        merkle_proof_verify env (Hasher env) p root [unat (ml_position (mm_leaf mm))]
          [message_leaf_hash env (mm_leaf mm)] (unat (ml_set_size (mm_leaf mm)))) \<and>
     (\<exists>k b. try_find_program_address env (incoming_message_seeds (command_id env (ml_message (mm_leaf mm))))
        (gateway_id env) = Some (k, b) \<and> gw_accounts g k = None) \<and>
     (\<exists>sb. destination_signing_bump env (ml_message (mm_leaf mm)) = Inr sb)"

abbreviation mm_message :: "MerklizedMessage \<Rightarrow> Message" where
  "mm_message mm \<equiv> ml_message (mm_leaf mm)"

text \<open>What an approval leaves behind, for good: the account of the message and its event.\<close>

definition approved_in :: "env \<Rightarrow> gateway_state \<Rightarrow> Message \<Rightarrow> bool" where
  "approved_in env g m \<longleftrightarrow> (\<exists>k im. message_at g k im \<and> is_approved (im_status im) \<and> message_origin env g k im m)"

lemma approved_in_mono:
  assumes "approved_in env g m" and "\<And>k a. gw_accounts g k = Some a \<Longrightarrow> gw_accounts g' k = Some a"
    and "set (gw_events g) \<subseteq> set (gw_events g')"
  shows "approved_in env g' m"
  using assms unfolding approved_in_def message_origin_def by (meson subsetD)

lemma approve_one:
  assumes "gateway_in_place env (hs_gateway h) c t g" and "session_at g ses s" and "is_valid s"
    and "create_program_address env (session_seeds root ApproveMessages (session_hash s) @ [[sd_bump s]]) (gateway_id env) = Some ses"
    and "approvable env g (domain_separator c) root mm" and "approve_message_ix env h ses root mm = Inr ix"
  shows "\<exists>k b a. try_find_program_address env (incoming_message_seeds (command_id env (mm_message mm))) (gateway_id env)
      = Some (k, b) \<and> gw_accounts g k = None \<and>
    gateway_entry env view ix g = Inr (emit_gw (approved_event env (mm_message mm)) (put_gw k a g)) \<and>
    approved_in env (emit_gw (approved_event env (mm_message mm)) (put_gw k a g)) (mm_message mm)"
proof -
  obtain p k b sb where m: "ml_domain_separator (mm_leaf mm) = domain_separator c"
      "merkle_proof_from_bytes env (mm_proof mm) = Some p"
      "merkle_proof_verify env (Hasher env) p root [unat (ml_position (mm_leaf mm))]
         [message_leaf_hash env (mm_leaf mm)] (unat (ml_set_size (mm_leaf mm)))"
    and find: "try_find_program_address env (incoming_message_seeds (command_id env (mm_message mm))) (gateway_id env) = Some (k, b)"
    and vacant: "gw_accounts g k = None" and sb: "destination_signing_bump env (mm_message mm) = Inr sb"
    using assms(5) unfolding approvable_def by blast
  let ?im = "\<lparr>im_bump = b, signing_pda_bump = sb, im_status = status_approved,
     im_message_hash = message_hash env (mm_message mm), im_payload_hash = payload_hash (mm_message mm)\<rparr>"
  let ?g' = "emit_gw (approved_event env (mm_message mm)) (put_gw k (MessageAcc ?im) g)"
  have load: "load_acc session_of (gw_accounts g) ses = Inr s" using assms(2) by (simp add: gw_load)
  have canonical: "check_seeds_canonical env (incoming_message_seeds (command_id env (mm_message mm))) (gateway_id env) k = Inr b"
    using find by (simp add: res_inv)
  have ix: "ix = ApproveMessageIx \<lparr>am_gateway_root_pda = acc (gh_root (hs_gateway h)), am_funder = acc_signer_mut (hs_payer h),
      am_verification_session_account = acc ses, am_incoming_message_pda = acc_mut k,
      am_system_program = acc (system_program_id env)\<rparr> mm root"
    using assms(6) find by (auto simp: approve_message_ix_def res_inv)
  have "gateway_entry env view ix g = Inr ?g'"
    using assms(1,3,4) m vacant sb load canonical
    by (simp add: ix approve_message_def Let_def gateway_in_place_def acc_defs check_signer_def check_mut_def check_seeds_def
        check_vacant_def check_program_def approved_event_def)
  moreover have "approved_in env ?g' (mm_message mm)"
    unfolding approved_in_def message_origin_def using find sb
    by (intro exI [of _ k] exI [of _ ?im]) simp
  ultimately show ?thesis using find vacant by blast
qed

lemma approvable_put:
  assumes "pda_law env" and "pda_inj env" and "approvable env g ds root mm"
    and "try_find_program_address env (incoming_message_seeds cid) (gateway_id env) = Some (k, b)"
    and "command_id env (mm_message mm) \<noteq> cid"
  shows "approvable env (emit_gw e (put_gw k a g)) ds root mm"
proof -
  have "k' \<noteq> k" if "try_find_program_address env (incoming_message_seeds (command_id env (mm_message mm))) (gateway_id env)
      = Some (k', b')" for k' b'
    using incoming_seeds_unique [OF assms(1,2,4)] pda_lawD [OF assms(1) that] assms(5) by blast
  then show ?thesis using assms(3) unfolding approvable_def by (auto simp: gw_state_simps)
qed

lemma approve_chain:
  assumes "pda_law env" and "pda_inj env"
    and "gateway_in_place env (hs_gateway h) c t g" and "session_at g ses s" and "is_valid s"
    and "create_program_address env (session_seeds root ApproveMessages (session_hash s) @ [[sd_bump s]]) (gateway_id env) = Some ses"
    and "\<forall>mm \<in> set mms. approvable env g (domain_separator c) root mm"
    and "distinct (map (\<lambda>mm. command_id env (mm_message mm)) mms)"
    and "collect_results (map (approve_message_ix env h ses root) mms) = Inr ixs"
  shows "\<exists>g'. run_chain (gateway_entry env view) (map check_success ixs) g = Inr g' \<and>
    gw_events g' = gw_events g @ map (\<lambda>mm. approved_event env (mm_message mm)) mms \<and>
    (\<forall>k a. gw_accounts g k = Some a \<longrightarrow> gw_accounts g' k = Some a) \<and>
    (\<forall>mm \<in> set mms. approved_in env g' (mm_message mm))"
  using assms(3-)
proof (induction mms arbitrary: g ixs)
  case (Cons mm mms)
  obtain ix ixs' where ix: "approve_message_ix env h ses root mm = Inr ix" "ixs = ix # ixs'"
    and rest: "collect_results (map (approve_message_ix env h ses root) mms) = Inr ixs'"
    using Cons.prems(7) by (auto simp: res_inv)
  have this_one: "approvable env g (domain_separator c) root mm" using Cons.prems(5) by simp
  obtain k b a where find: "try_find_program_address env (incoming_message_seeds (command_id env (mm_message mm))) (gateway_id env)
      = Some (k, b)" and vacant: "gw_accounts g k = None"
    and entry: "gateway_entry env view ix g = Inr (emit_gw (approved_event env (mm_message mm)) (put_gw k a g))"
    and approved: "approved_in env (emit_gw (approved_event env (mm_message mm)) (put_gw k a g)) (mm_message mm)"
    using approve_one [OF Cons.prems(1-4) this_one ix(1), of view] by blast
  let ?g1 = "emit_gw (approved_event env (mm_message mm)) (put_gw k a g)"
  have ne: "k \<noteq> gh_root (hs_gateway h)" "k \<noteq> gh_verifier_set_tracker (hs_gateway h)" "k \<noteq> ses"
    using gateway_in_placeD [OF Cons.prems(1)] Cons.prems(2) vacant by auto
  have "approvable env ?g1 (domain_separator c) root mm'" if "mm' \<in> set mms" for mm'
  proof (rule approvable_put [OF assms(1,2) _ find])
    show "command_id env (mm_message mm') \<noteq> command_id env (mm_message mm)"
      using Cons.prems(6) that by (metis (mono_tags) distinct.simps(2) imageI list.set_map list.simps(9))
  qed (use Cons.prems(5) that in simp)
  then obtain g' where g': "run_chain (gateway_entry env view) (map check_success ixs') ?g1 = Inr g'"
    and events: "gw_events g' = gw_events ?g1 @ map (\<lambda>mm. approved_event env (mm_message mm)) mms"
    and keep: "\<And>k' a'. gw_accounts ?g1 k' = Some a' \<Longrightarrow> gw_accounts g' k' = Some a'"
    and all: "\<And>mm'. mm' \<in> set mms \<Longrightarrow> approved_in env g' (mm_message mm')"
    using Cons.IH [of ?g1 ixs'] Cons.prems ne rest gateway_in_place_put by auto
  have "approved_in env g' (mm_message mm)"
    by (rule approved_in_mono [OF approved]) (use keep events in auto)
  moreover have "gw_accounts g' k' = Some a'" if "gw_accounts g k' = Some a'" for k' a'
    using keep [of k' a'] that vacant by (cases "k' = k") auto
  moreover have "run_chain (gateway_entry env view) (map check_success ixs) g = Inr g'"
    by (simp add: ix(2) entry g')
  moreover have "gw_events g' = gw_events g @ map (\<lambda>mm. approved_event env (mm_message mm)) (mm # mms)"
    by (simp add: events)
  ultimately show ?case using all by (intro exI [of _ g']) simp
qed simp

section \<open>A batch\<close>

lemma found_keys_distinct:
  assumes "pda_law env" and "pda_inj env"
    and "try_find_program_address env s pid = Some (k, b)" and "try_find_program_address env s' pid = Some (k', b')"
    and "concat (s @ [[b]]) \<noteq> concat (s' @ [[b']])"
  shows "k \<noteq> k'"
  using pda_injD [OF assms(2) pda_lawD [OF assms(1,3)]] pda_lawD [OF assms(1,4)] assms(5) by blast

lemma session_incoming_seeds [simp]:
  "concat (session_seeds root pt h) \<noteq> concat (incoming_message_seeds cid)"
  "concat (incoming_message_seeds cid) \<noteq> concat (session_seeds root pt h)"
  by (simp_all add: session_seeds_def incoming_message_seeds_def str_bytes_def of_char_u8_inj)

lemma harness_leaves_nth:
  shows "length (harness_message_leaves ms ds) = length ms"
    and "i < length ms \<Longrightarrow> harness_message_leaves ms ds ! i = \<lparr>ml_message = ms ! i, ml_position = word_of_nat i,
      ml_set_size = word_of_nat (length ms), ml_domain_separator = ds\<rparr>"
  by (simp_all add: harness_message_leaves_def)

lemma harness_leaves_ne: "ms \<noteq> [] \<Longrightarrow> map f (harness_message_leaves ms ds) \<noteq> []"
  using harness_leaves_nth(1) [of ms ds] by (cases "harness_message_leaves ms ds") auto

lemma harness_merklized_nth:
  shows "length (harness_merklized env tree ls) = length ls"
    and "i < length ls \<Longrightarrow> harness_merklized env tree ls ! i =
      \<lparr>mm_leaf = ls ! i, mm_proof = merkle_tree_proof env (Hasher env) tree [i]\<rparr>"
  by (simp_all add: harness_merklized_def)

lemma harness_merklized_messages:
  "map mm_message (harness_merklized env tree (harness_message_leaves ms ds)) = ms"
  by (rule nth_equalityI) (simp_all add: harness_merklized_nth harness_leaves_nth)

text \<open>A message no one approved yet, whose addresses are found.\<close>

definition message_fresh :: "env \<Rightarrow> gateway_state \<Rightarrow> Message \<Rightarrow> bool" where
  "message_fresh env g m \<longleftrightarrow>
     (\<exists>k b. try_find_program_address env (incoming_message_seeds (command_id env m)) (gateway_id env) = Some (k, b) \<and>
        gw_accounts g k = None) \<and>
     (\<exists>sb. destination_signing_bump env m = Inr sb)"

lemma harness_merklized_approvable:
  assumes merkle: "merkle_law env" and tree: "tree = map (message_leaf_hash env) (harness_message_leaves ms ds)"
    and root: "merkle_tree_root env (Hasher env) tree = Some root" and small: "length ms < 65536"
    and fresh: "\<forall>m \<in> set ms. message_fresh env g m"
    and mm: "mm \<in> set (harness_merklized env tree (harness_message_leaves ms ds))"
  shows "approvable env g ds root mm"
proof -
  obtain i where i: "i < length ms" and mm': "mm = harness_merklized env tree (harness_message_leaves ms ds) ! i"
    using mm by (auto simp: in_set_conv_nth harness_merklized_nth(1) harness_leaves_nth(1))
  have len: "length tree = length ms" by (simp add: tree harness_leaves_nth(1))
  have parts: "mm = \<lparr>mm_leaf = \<lparr>ml_message = ms ! i, ml_position = word_of_nat i, ml_set_size = word_of_nat (length ms),
      ml_domain_separator = ds\<rparr>, mm_proof = merkle_tree_proof env (Hasher env) tree [i]\<rparr>"
    using i by (simp add: mm' harness_merklized_nth harness_leaves_nth)
  have leaf: "tree ! i = message_leaf_hash env (mm_leaf mm)"
    using i by (simp add: tree parts harness_leaves_nth)
  have "i < length tree" using i len by simp
  from merkle_lawD [OF merkle root this] show ?thesis
    using fresh i small unfolding approvable_def message_fresh_def leaf len
    by (auto simp: parts unat_u16_of_nat)
qed

lemma approve_ixs_collected:
  assumes "\<forall>mm \<in> set mms. \<exists>k b. try_find_program_address env (incoming_message_seeds (command_id env (mm_message mm)))
      (gateway_id env) = Some (k, b)"
  shows "\<exists>ixs. collect_results (map (approve_message_ix env h ses root) mms) = Inr ixs"
  using assms
proof (induction mms)
  case (Cons mm mms)
  then obtain ixs k b where "collect_results (map (approve_message_ix env h ses root) mms) = Inr ixs"
    and "try_find_program_address env (incoming_message_seeds (command_id env (mm_message mm))) (gateway_id env) = Some (k, b)"
    by auto
  moreover from this(2) have "\<exists>ix. approve_message_ix env h ses root mm = Inr ix"
    by (simp add: approve_message_ix_def find_key_def find_program_address_def)
  ultimately show ?case by auto
qed simp

lemma approve_ixs_wf:
  assumes "collect_results (map (approve_message_ix env h ses root) mms) = Inr ixs" and "length root = 32"
  shows "\<forall>(ix, c) \<in> set (map check_success ixs). gateway_ix_wf ix"
  using assms
proof (induction mms arbitrary: ixs)
  case (Cons mm mms)
  then show ?case by (fastforce simp: res_inv approve_message_ix_def check_success_def)
qed simp

text \<open>What a batch leads to: every message approved, nothing that stood there changed.\<close>

definition batch_done :: "env \<Rightarrow> gateway_state \<Rightarrow> Message list \<Rightarrow> gateway_state \<Rightarrow> bool" where
  "batch_done env g ms g' \<longleftrightarrow>
     (\<forall>m \<in> set ms. approved_in env g' m) \<and>
     (\<forall>k a. gw_accounts g k = Some a \<longrightarrow> gw_accounts g' k = Some a) \<and>
     gw_events g' = gw_events g @ map (approved_event env) ms"

lemma batch_approved:
  assumes law: "pda_law env" "pda_inj env" "merkle_law env" "sign_law env slib"
    and place: "gateway_in_place env (hs_gateway h) c t (lg_gateway L)"
    and ready: "verifiers_ready env slib (hs_gateway h) (domain_separator c) (vt_verifier_set_hash t)"
    and root: "merkle_tree_root env (Hasher env)
      (map (message_leaf_hash env) (harness_message_leaves ms (domain_separator c))) = Some root" "length root = 32"
    and small: "length ms < 65536" and dist: "distinct (map (command_id env) ms)"
    and fresh: "\<forall>m \<in> set ms. message_fresh env (lg_gateway L) m"
    and ses: "try_find_program_address env (session_seeds root ApproveMessages (vt_verifier_set_hash t)) (gateway_id env)
      = Some (ses, sb)" "gw_accounts (lg_gateway L) ses = None"
  shows "\<exists>g'. ensure_approved_incoming_messages env slib h ms L = Inr (L\<lparr>lg_gateway := g'\<rparr>) \<and>
    batch_done env (lg_gateway L) ms g' \<and> runs (gateway_step env) (lg_gateway L) g'"
proof -
  let ?gh = "hs_gateway h" and ?g = "lg_gateway L" and ?vsh = "vt_verifier_set_hash t"
  let ?ls = "harness_message_leaves ms (domain_separator c)"
  let ?tree = "map (message_leaf_hash env) ?ls" and ?entry = "gateway_entry env (lg_view L)"
  let ?mms = "harness_merklized env ?tree ?ls" and ?infos = "verifier_infos env slib h root ApproveMessages"
  let ?init = "init_session_ix env h ses root ApproveMessages"
  let ?verify = "map check_success (map (verify_signature_ix h ses root) ?infos)"
  obtain s g1 where init: "run_chain ?entry [?init] ?g = Inr g1" and verify: "run_chain ?entry ?verify g1 = Inr (put_gw ses (SessionAcc s) ?g)"
    and valid: "is_valid s" and sh: "session_hash s = ?vsh" "sd_bump s = sb"
    by (rule session_signed [OF law(1,3,4) place ready ses])
  let ?g2 = "put_gw ses (SessionAcc s) ?g"
  have ne: "ses \<noteq> gh_root ?gh" "ses \<noteq> gh_verifier_set_tracker ?gh"
    using gateway_in_placeD [OF place] ses(2) by auto
  obtain ixs where ixs: "collect_results (map (approve_message_ix env h ses root) ?mms) = Inr ixs"
    using approve_ixs_collected [of ?mms env h ses root] fresh harness_merklized_messages [of env ?tree ms "domain_separator c"]
    unfolding message_fresh_def by (metis (no_types, lifting) imageI list.set_map)
  have create: "create_program_address env (session_seeds root ApproveMessages ?vsh @ [[sb]]) (gateway_id env) = Some ses"
    by (rule pda_lawD [OF law(1) ses(1)])
  have approvable: "approvable env ?g2 (domain_separator c) root mm" if mm: "mm \<in> set ?mms" for mm
  proof (rule harness_merklized_approvable [OF law(3) refl root(1) small _ mm])
    show "\<forall>m \<in> set ms. message_fresh env ?g2 m"
    proof
      fix m assume "m \<in> set ms"
      with fresh obtain k b where k: "try_find_program_address env (incoming_message_seeds (command_id env m)) (gateway_id env) = Some (k, b)"
        and vac: "gw_accounts ?g k = None" and d: "\<exists>sb. destination_signing_bump env m = Inr sb"
        unfolding message_fresh_def by blast
      have "k \<noteq> ses" by (rule found_keys_distinct [OF law(1,2) k ses(1)]) simp
      with k vac d show "message_fresh env ?g2 m" by (auto simp: message_fresh_def)
    qed
  qed
  have cids: "distinct (map (\<lambda>mm. command_id env (mm_message mm)) ?mms)"
    using dist harness_merklized_messages [of env ?tree ms "domain_separator c"] by (metis (no_types, lifting) map_map o_def map_cong)
  have "\<exists>g'. run_chain ?entry (map check_success ixs) ?g2 = Inr g' \<and>
      gw_events g' = gw_events ?g2 @ map (\<lambda>mm. approved_event env (mm_message mm)) ?mms \<and>
      (\<forall>k a. gw_accounts ?g2 k = Some a \<longrightarrow> gw_accounts g' k = Some a) \<and>
      (\<forall>mm \<in> set ?mms. approved_in env g' (mm_message mm))"
  proof (rule approve_chain [OF law(1,2) gateway_in_place_put [OF place ne] _ valid _ _ cids ixs])
    show "session_at ?g2 ses s" by simp
    show "create_program_address env (session_seeds root ApproveMessages (session_hash s) @ [[sd_bump s]]) (gateway_id env) = Some ses"
      using sh create by simp
  qed (use approvable in blast)
  then obtain g' where g': "run_chain ?entry (map check_success ixs) ?g2 = Inr g'"
    and events: "gw_events g' = gw_events ?g @ map (\<lambda>mm. approved_event env (mm_message mm)) ?mms"
    and keep: "\<And>k a. gw_accounts ?g2 k = Some a \<Longrightarrow> gw_accounts g' k = Some a"
    and all: "\<And>mm. mm \<in> set ?mms \<Longrightarrow> approved_in env g' (mm_message mm)"
    by auto
  have chain: "run_chain ?entry (?init # ?verify @ map check_success ixs) ?g = Inr g'"
    using run_chain_append [of ?entry "[?init]" "?verify @ map check_success ixs" ?g] init verify g'
    by (simp add: run_chain_append del: map_map)
  have wf: "\<forall>(ix, chk) \<in> set (?init # ?verify @ map check_success ixs). gateway_ix_wf ix"
    using approve_ixs_wf [OF ixs root(2)] root(2)
    by (auto simp: init_session_ix_def check_success_def verify_signature_ix_def)
  have msgs: "map (\<lambda>mm. approved_event env (mm_message mm)) ?mms = map (approved_event env) ms"
    "mm_message ` set ?mms = set ms"
    using harness_merklized_messages [of env ?tree ms "domain_separator c"]
    by (metis (no_types, lifting) map_map o_def map_cong, metis list.set_map)
  have "batch_done env ?g ms g'"
    unfolding batch_done_def
  proof (intro conjI ballI allI impI)
    show "approved_in env g' m" if "m \<in> set ms" for m
      using that all unfolding msgs(2) [symmetric] by blast
    show "gw_accounts g' k = Some a" if "gw_accounts ?g k = Some a" for k a
      using that keep [of k a] ses(2) by (cases "k = ses") auto
  qed (simp add: events msgs(1))
  moreover have "ensure_approved_incoming_messages env slib h ms L = Inr (L\<lparr>lg_gateway := g'\<rparr>)"
    using gateway_in_placeD [OF place] root(1) ses(1) ixs chain
    by (simp add: ensure_approved_incoming_messages_def get_account_as_def tracker_hash_def session_key_def find_key_def
        find_program_address_def gateway_chain_def Let_def del: map_map)
  ultimately show ?thesis using run_chain_runs [OF chain wf] by blast
qed

text \<open>
  The same with its conditions named: a harness in place, a batch of new messages, and a payload root
  that no session was opened for.
\<close>

definition batch_ready :: "env \<Rightarrow> secp_lib \<Rightarrow> 'h harness_scheme \<Rightarrow> Message list \<Rightarrow> 'z ledger_scheme \<Rightarrow> bool" where
  "batch_ready env slib h ms L \<longleftrightarrow> (\<exists>c t root ses b.
     gateway_in_place env (hs_gateway h) c t (lg_gateway L) \<and>
     verifiers_ready env slib (hs_gateway h) (domain_separator c) (vt_verifier_set_hash t) \<and>
     merkle_tree_root env (Hasher env)
       (map (message_leaf_hash env) (harness_message_leaves ms (domain_separator c))) = Some root \<and> length root = 32 \<and>
     length ms < 65536 \<and> distinct (map (command_id env) ms) \<and> (\<forall>m \<in> set ms. message_fresh env (lg_gateway L) m) \<and>
     try_find_program_address env (session_seeds root ApproveMessages (vt_verifier_set_hash t)) (gateway_id env)
       = Some (ses, b) \<and> gw_accounts (lg_gateway L) ses = None)"

lemma batch_ready_approved:
  assumes "pda_law env" "pda_inj env" "merkle_law env" "sign_law env slib" and "batch_ready env slib h ms L"
  shows "\<exists>g'. ensure_approved_incoming_messages env slib h ms L = Inr (L\<lparr>lg_gateway := g'\<rparr>) \<and>
    batch_done env (lg_gateway L) ms g' \<and> runs (gateway_step env) (lg_gateway L) g'"
proof -
  obtain c t root ses b where "gateway_in_place env (hs_gateway h) c t (lg_gateway L)"
    "verifiers_ready env slib (hs_gateway h) (domain_separator c) (vt_verifier_set_hash t)"
    "merkle_tree_root env (Hasher env)
       (map (message_leaf_hash env) (harness_message_leaves ms (domain_separator c))) = Some root" "length root = 32"
    "length ms < 65536" "distinct (map (command_id env) ms)" "\<forall>m \<in> set ms. message_fresh env (lg_gateway L) m"
    "try_find_program_address env (session_seeds root ApproveMessages (vt_verifier_set_hash t)) (gateway_id env) = Some (ses, b)"
    "gw_accounts (lg_gateway L) ses = None"
    using assms(5) unfolding batch_ready_def by blast
  from batch_approved [OF assms(1-4) this] show ?thesis .
qed

end
