(* ===== verification/Harness_Setup.thy ===== *)
theory Harness_Setup
  imports Harness_Gateway_Inv
begin

text \<open>
  The set-up of the client of the gateway: from an empty ledger, the operators, the gas service and
  the gateway are initialized one after another, and the result is ready to approve messages.
\<close>

section \<open>What the platform promises\<close>

text \<open>A bump is found for at most fifteen seeds of at most 32 bytes.\<close>

definition pda_found_law :: "env \<Rightarrow> bool" where
  "pda_found_law env \<longleftrightarrow> (\<forall>seeds pid. length seeds \<le> 15 \<and> (\<forall>s \<in> set seeds. length s \<le> 32) \<longrightarrow>
     (\<exists>k b. try_find_program_address env seeds pid = Some (k, b)))"

lemma pda_found:
  assumes "pda_found_law env" and "length seeds \<le> 15" and "list_all (\<lambda>s. length s \<le> 32) seeds"
  obtains k b where "try_find_program_address env seeds pid = Some (k, b)"
  using assms unfolding pda_found_law_def list_all_iff by blast

text \<open>A tree with leaves has a root, of 32 bytes, and so has every hash.\<close>

definition merkle_root_law :: "env \<Rightarrow> bool" where
  "merkle_root_law env \<longleftrightarrow> (\<forall>tree. tree \<noteq> [] \<longrightarrow>
     (\<exists>r. merkle_tree_root env (Hasher env) tree = Some r \<and> length r = 32))"

definition hash_length_law :: "env \<Rightarrow> bool" where
  "hash_length_law env \<longleftrightarrow> (\<forall>x. length (keccak env x) = 32)"

text \<open>A payer with one SOL can pay for a small new account.\<close>

definition funds_law :: "system_lib \<Rightarrow> bool" where
  "funds_law sys \<longleftrightarrow> (\<forall>payer k n B. payer \<noteq> k \<and> n \<le> 1024 \<and> LAMPORTS_PER_SOL \<le> B payer \<and> B k = 0 \<longrightarrow>
     (\<exists>B'. sys_create sys payer k n B = Some B'))"

definition platform_laws :: "env \<Rightarrow> secp_lib \<Rightarrow> system_lib \<Rightarrow> bool" where
  "platform_laws env slib sys \<longleftrightarrow> pda_law env \<and> pda_inj env \<and> pda_found_law env \<and> merkle_law env \<and>
     merkle_root_law env \<and> hash_length_law env \<and> sign_law env slib \<and> funds_law sys \<and> length (gateway_id env) \<le> 32"

lemma platform_lawsD:
  assumes "platform_laws env slib sys"
  shows "pda_law env" "pda_inj env" "pda_found_law env" "merkle_law env" "merkle_root_law env"
    "hash_length_law env" "sign_law env slib" "funds_law sys" "length (gateway_id env) \<le> 32"
  using assms by (simp_all add: platform_laws_def)

text \<open>The store of a new context: no account, at some time.\<close>

definition ledger_start :: "i64 \<Rightarrow> ledger" where
  "ledger_start now =
     \<lparr>lg_operators = operators_empty, lg_gas = gas_empty (\<lambda>_. 0), lg_gateway = gateway_empty,
      lg_view = \<lparr>unix_timestamp = now, program_data_authority = (\<lambda>_. None)\<rparr>, lg_executable = (\<lambda>_. False)\<rparr>"

section \<open>Operators and the gas service\<close>

lemma operators_set_up:
  assumes law: "platform_laws env slib sys" and op: "length (hs_operator h) = 32"
    and empty: "lg_operators L = operators_empty"
  shows "\<exists>ops k b. ensure_operators_initialized env h L = Inr (L\<lparr>lg_operators := ops\<rparr>) \<and>
    try_find_program_address env (operator_seeds (hs_operator h)) (operators_id env) = Some (k, b) \<and>
    op_accounts ops k = Some (OperatorAcc \<lparr>oa_bump = b\<rparr>)"
proof -
  note laws = platform_lawsD [OF law]
  obtain rk rb where rk: "try_find_program_address env registry_seeds (operators_id env) = Some (rk, rb)"
    by (rule pda_found [OF laws(3), of registry_seeds "operators_id env"]) (simp_all add: registry_seeds_def)
  obtain k b where k: "try_find_program_address env (operator_seeds (hs_operator h)) (operators_id env) = Some (k, b)"
    by (rule pda_found [OF laws(3), of "operator_seeds (hs_operator h)" "operators_id env"]) (simp_all add: operator_seeds_def op)
  have "concat (registry_seeds @ [[rb]]) \<noteq> concat (operator_seeds (hs_operator h) @ [[b]])"
  proof
    assume "concat (registry_seeds @ [[rb]]) = concat (operator_seeds (hs_operator h) @ [[b]])"
    then have "length (concat (registry_seeds @ [[rb]])) = length (concat (operator_seeds (hs_operator h) @ [[b]]))"
      by (rule arg_cong)
    then show False by (simp add: registry_seeds_def operator_seeds_def op)
  qed
  from found_keys_distinct [OF laws(1,2) rk k this] have ne: "rk \<noteq> k" .
  have canonical: "check_seeds_canonical env registry_seeds (operators_id env) rk = Inr rb"
    "check_seeds_canonical env (operator_seeds (hs_operator h)) (operators_id env) k = Inr b"
    using rk k by (simp_all add: res_inv)
  let ?r = "\<lparr>or_owner = hs_operator h, operator_count = 0, or_bump = rb\<rparr>"
  let ?s1 = "operators_empty\<lparr>op_accounts := [rk \<mapsto> RegistryAcc ?r]\<rparr>"
  let ?s2 = "?s1\<lparr>op_accounts := (op_accounts ?s1)(k \<mapsto> OperatorAcc \<lparr>oa_bump = b\<rparr>,
    rk \<mapsto> RegistryAcc (?r\<lparr>operator_count := 1\<rparr>))\<rparr>"
  have "load_registry env ?s1 (acc_mut rk) = Inr ?r"
    using pda_lawD [OF laws(1) rk] by (simp add: load_registry_Inr acc_defs)
  then have "ensure_operators_initialized env h L = Inr (L\<lparr>lg_operators := ?s2\<rparr>)"
    using ne canonical
    by (simp add: ensure_operators_initialized_def find_key_def find_program_address_def rk k empty account_exists_def
        operators_empty_def operators_initialize_def add_operator_def check_owner_def check_signer_def check_mut_def
        check_vacant_def check_program_def acc_defs checked_add_def)
  then show ?thesis using k ne by (intro exI [of _ ?s2] exI [of _ k] exI [of _ b]) simp
qed

lemma gas_set_up:
  assumes law: "platform_laws env slib sys" and op: "length (hs_operator h) = 32"
    and empty: "lg_operators L = operators_empty" "gs_treasuries (lg_gas L) = Map.empty"
    and funds: "LAMPORTS_PER_SOL \<le> gs_balances (lg_gas L) (hs_payer h)"
    and vacant: "\<And>k b. try_find_program_address env treasury_seeds (gas_service_id env) = Some (k, b) \<Longrightarrow>
      k \<noteq> hs_payer h \<and> gs_balances (lg_gas L) k = 0"
  shows "\<exists>ops g. ensure_gas_service_initialized env sys h L = Inr (L\<lparr>lg_operators := ops, lg_gas := g\<rparr>)"
proof -
  note laws = platform_lawsD [OF law]
  obtain ops k b where ops: "ensure_operators_initialized env h L = Inr (L\<lparr>lg_operators := ops\<rparr>)"
    and k: "try_find_program_address env (operator_seeds (hs_operator h)) (operators_id env) = Some (k, b)"
    and acc: "op_accounts ops k = Some (OperatorAcc \<lparr>oa_bump = b\<rparr>)"
    using operators_set_up [OF law op empty(1)] by blast
  obtain tk tb where tk: "try_find_program_address env treasury_seeds (gas_service_id env) = Some (tk, tb)"
    by (rule pda_found [OF laws(3), of treasury_seeds "gas_service_id env"]) (simp_all add: treasury_seeds_def)
  obtain B where B: "sys_create sys (hs_payer h) tk TREASURY_SPACE (gs_balances (lg_gas L)) = Some B"
    using laws(8) funds vacant [OF tk] unfolding funds_law_def by (fastforce simp: TREASURY_SPACE_def)
  have "check_operator env ops (acc_signer (hs_operator h)) (acc k) = Inr ()"
    using acc pda_lawD [OF laws(1) k] by (simp add: check_operator_Inr acc_defs)
  moreover have "check_seeds_canonical env treasury_seeds (gas_service_id env) tk = Inr tb"
    using tk by (simp add: res_inv)
  ultimately have "ensure_gas_service_initialized env sys h L = Inr (L\<lparr>lg_operators := ops,
      lg_gas := (lg_gas L)\<lparr>gs_treasuries := [tk \<mapsto> \<lparr>tr_bump = tb\<rparr>], gs_balances := B\<rparr>\<rparr>)"
    using B empty(2)
    by (simp add: ensure_gas_service_initialized_def ops find_key_def find_program_address_def k tk account_exists_def
        gas_initialize_def Let_def check_signer_def check_mut_def check_vacant_def check_program_def acc_defs)
  then show ?thesis by blast
qed

section \<open>The gateway\<close>

lemma initial_verifiers_ready:
  assumes "secp_secret_parse slib b1 = Some sk1" and "secp_secret_parse slib b2 = Some sk2"
    and "ls = initial_verifier_leaves (secp_public_key slib sk1) (secp_public_key slib sk2)"
    and "merkle_tree_root env (Hasher env) (map (verifier_set_leaf_hash env) ls) = Some vsh"
  shows "verifiers_ready env slib \<lparr>gh_root = rk, gh_signers = [sk1, sk2], gh_verifier_set_tracker = tk,
    gh_verifier_set_leaves = ls, gh_verifier_merkle_tree = map (verifier_set_leaf_hash env) ls\<rparr>
    initial_domain_separator vsh"
proof -
  have "leaf_of_signer slib (length ls) initial_domain_separator 100 i ([sk1, sk2] ! i) (ls ! i)" if "i < length ls" for i
  proof -
    have "i = 0 \<or> i = 1" using that by (auto simp: assms(3) initial_verifier_leaves_def)
    then show ?thesis
      using assms(1,2) by (auto simp: assms(3) initial_verifier_leaves_def leaf_of_signer_def)
  qed
  moreover have "unat (100 :: u128) \<le> sum_list (map (\<lambda>l. unat (vl_signer_weight l)) ls)"
    and "length ls = 2" by (simp_all add: assms(3) initial_verifier_leaves_def)
  ultimately show ?thesis
    using assms(4) unfolding verifiers_ready_def Let_def
    by (auto intro!: exI [of _ 100])
qed

text \<open>What a set-up harness is: its gateway account is the one of its program, on an empty log.\<close>

definition harness_at_start :: "env \<Rightarrow> secp_lib \<Rightarrow> 'h harness_scheme \<Rightarrow> 'z ledger_scheme \<Rightarrow> bool" where
  "harness_at_start env slib h L \<longleftrightarrow> (\<exists>c t.
     gateway_in_place env (hs_gateway h) c t (lg_gateway L) \<and>
     verifiers_ready env slib (hs_gateway h) (domain_separator c) (vt_verifier_set_hash t) \<and>
     length (vt_verifier_set_hash t) = 32 \<and>
     (\<exists>b. try_find_program_address env gateway_config_seeds (gateway_id env) = Some (gh_root (hs_gateway h), b)) \<and>
     gw_accounts (lg_gateway L) = [gh_root (hs_gateway h) \<mapsto> ConfigAcc c, gh_verifier_set_tracker (hs_gateway h) \<mapsto> TrackerAcc t] \<and>
     gw_events (lg_gateway L) = [] \<and>
     current_epoch c = u256_from_u64 1 \<and> previous_verifier_set_retention c = u256_from_u64 5 \<and>
     gc_operator c = hs_operator h \<and> vt_epoch t = u256_from_u64 1 \<and>
     try_find_program_address env (tracker_seeds (vt_verifier_set_hash t)) (gateway_id env) =
       Some (gh_verifier_set_tracker (hs_gateway h), vt_bump t)) \<and>
   gateway_reachable env (lg_gateway L)"

lemma harness_at_start_cong:
  "hs_gateway h = hs_gateway h' \<Longrightarrow> hs_operator h = hs_operator h' \<Longrightarrow> lg_gateway L = lg_gateway L' \<Longrightarrow>
     harness_at_start env slib h L = harness_at_start env slib h' L'"
  by (simp add: harness_at_start_def)

lemma tracker_root_seeds [simp]:
  "concat (tracker_seeds h) \<noteq> concat gateway_config_seeds" "concat gateway_config_seeds \<noteq> concat (tracker_seeds h)"
  "concat (tracker_seeds h) \<noteq> concat (incoming_message_seeds cid)" "concat gateway_config_seeds \<noteq> concat (incoming_message_seeds cid)"
  "concat (tracker_seeds h) \<noteq> concat (session_seeds r pt h')" "concat gateway_config_seeds \<noteq> concat (session_seeds r pt h')"
  by (simp_all add: tracker_seeds_def gateway_config_seeds_def GATEWAY_SEED_def incoming_message_seeds_def session_seeds_def
      str_bytes_def of_char_u8_inj)

lemma gateway_set_up:
  assumes law: "platform_laws env slib sys" and op: "length (hs_operator h) = 32"
    and gas: "ensure_gas_service_initialized env sys h L0 = Inr L" and empty: "lg_gateway L = gateway_empty"
    and view: "0 \<le> sint (unix_timestamp (lg_view L))" "program_data_authority (lg_view L) = (\<lambda>_. None)"
    and parse: "secp_secret_parse slib b1 = Some sk1" "secp_secret_parse slib b2 = Some sk2"
  shows "\<exists>gh view' g. ensure_gateway_initialized env sys slib b1 b2 h L0 =
      Inr (h\<lparr>hs_gateway := gh\<rparr>, L\<lparr>lg_view := view', lg_gateway := g\<rparr>) \<and>
    unix_timestamp view' = unix_timestamp (lg_view L) \<and>
    (\<forall>k. program_data_authority view' k \<in> {None, Some (Some (hs_operator h))}) \<and>
    harness_at_start env slib (h\<lparr>hs_gateway := gh\<rparr>) (L\<lparr>lg_view := view', lg_gateway := g\<rparr>)"
proof -
  note laws = platform_lawsD [OF law]
  let ?ls = "initial_verifier_leaves (secp_public_key slib sk1) (secp_public_key slib sk2)"
  let ?tree = "map (verifier_set_leaf_hash env) ?ls"
  have "?tree \<noteq> []" by (simp add: initial_verifier_leaves_def)
  with laws(5) obtain vsh where vsh: "merkle_tree_root env (Hasher env) ?tree = Some vsh" and len: "length vsh = 32"
    unfolding merkle_root_law_def by blast
  obtain rk rb where rk: "try_find_program_address env gateway_config_seeds (gateway_id env) = Some (rk, rb)"
    by (rule pda_found [OF laws(3), of gateway_config_seeds "gateway_id env"]) (simp_all add: gateway_config_seeds_def GATEWAY_SEED_def)
  obtain tk tb where tk: "try_find_program_address env (tracker_seeds vsh) (gateway_id env) = Some (tk, tb)"
    by (rule pda_found [OF laws(3), of "tracker_seeds vsh" "gateway_id env"]) (simp_all add: tracker_seeds_def len)
  obtain pk pb where pk: "try_find_program_address env [gateway_id env] (loader_upgradeable_id env) = Some (pk, pb)"
    by (rule pda_found [OF laws(3), of "[gateway_id env]" "loader_upgradeable_id env"]) (simp_all add: laws(9))
  have ne: "tk \<noteq> rk" by (rule found_keys_distinct [OF laws(1,2) tk rk]) simp
  let ?view = "(lg_view L)\<lparr>program_data_authority := (program_data_authority (lg_view L))(pk \<mapsto> Some (hs_operator h))\<rparr>"
  let ?t = "\<lparr>vt_bump = tb, vt_epoch = u256_from_u64 1, vt_verifier_set_hash = vsh\<rparr>"
  let ?c = "\<lparr>current_epoch = u256_from_u64 1, previous_verifier_set_retention = u256_of_u64 5,
    minimum_rotation_delay = 3600, last_rotation_timestamp = unix_timestamp (lg_view L), gc_operator = hs_operator h,
    domain_separator = initial_domain_separator, gc_bump = rb\<rparr>"
  let ?gh = "\<lparr>gh_root = rk, gh_signers = [sk1, sk2], gh_verifier_set_tracker = tk, gh_verifier_set_leaves = ?ls,
    gh_verifier_merkle_tree = ?tree\<rparr>"
  let ?g = "put_gw tk (TrackerAcc ?t) (put_gw rk (ConfigAcc ?c) gateway_empty)"
  let ?params = "\<lparr>icp_domain_separator = initial_domain_separator, icp_initial_verifier_set_hash = vsh,
    icp_initial_verifier_set_pda = tk, icp_minimum_rotation_delay = 3600, icp_operator = hs_operator h,
    icp_previous_verifier_retention = u256_of_u64 5\<rparr>"
  let ?a = "\<lparr>ic_payer = acc_signer_mut (hs_payer h), ic_upgrade_authority = acc_signer (hs_operator h), ic_program_data = acc pk,
    ic_gateway_root_pda = acc_mut rk, ic_system_program = acc (system_program_id env), ic_verifier_set_tracker_pda = acc_mut tk\<rparr>"
  have "check_seeds_canonical env gateway_config_seeds (gateway_id env) rk = Inr rb"
    "check_seeds_canonical env (tracker_seeds vsh) (gateway_id env) tk = Inr tb"
    "load_program_data env ?view (gateway_id env) pk = Inr (Some (hs_operator h))"
    using rk tk pk by (simp_all add: res_inv load_program_data_Inr)
  then have init: "initialize_config env ?view ?a ?params gateway_empty = Inr ?g"
    using ne view(1) by (simp add: initialize_config_def check_signer_def check_mut_def check_vacant_def check_program_def
        acc_defs gateway_empty_def u64_of_i64_def)
  then have chain: "run_chain (gateway_entry env ?view) [(InitializeConfigIx ?a ?params,
      \<lambda>s. account_exists (gw_accounts s) rk \<and> account_exists (gw_accounts s) tk)] gateway_empty = Inr ?g"
    using ne by (simp add: account_exists_def)
  have "ensure_gateway_initialized env sys slib b1 b2 h L0 = Inr (h\<lparr>hs_gateway := ?gh\<rparr>, L\<lparr>lg_view := ?view, lg_gateway := ?g\<rparr>)"
    using chain
    by (simp add: ensure_gateway_initialized_def gas find_key_def find_program_address_def rk tk pk empty account_exists_def
        generate_random_signer_def parse vsh ensure_program_data_account_def view(2) gateway_chain_def Let_def
        gateway_empty_def del: run_chain.simps)
  moreover have "harness_at_start env slib (h\<lparr>hs_gateway := ?gh\<rparr>) (L\<lparr>lg_view := ?view, lg_gateway := ?g\<rparr>)"
  proof -
    have "assert_valid_epoch ?c (vt_epoch ?t) = Inr ()"
      by (simp add: assert_valid_epoch_Inr u256_of_u64_const)
    then have place: "gateway_in_place env ?gh ?c ?t ?g"
      using tk ne pda_lawD [OF laws(1) rk] by (simp add: gateway_in_place_def load_gateway_config_Inr)
    have "runs (gateway_step env) gateway_empty ?g"
      by (rule runs_one, rule gateway_ix [where ix = "InitializeConfigIx ?a ?params" and view = ?view]) (simp_all add: len init)
    then show ?thesis
      using place initial_verifiers_ready [OF parse refl vsh, of rk tk] len rk tk ne
      unfolding harness_at_start_def
      by (intro conjI exI [of _ ?c] exI [of _ ?t]) (auto simp: gateway_empty_def fun_upd_twist u256_of_u64_const)
  qed
  ultimately show ?thesis using view(2) by (intro exI [of _ ?gh] exI [of _ ?view] exI [of _ ?g]) simp
qed

lemma funded_start:
  fixes L :: "'z ledger_scheme" and payer operator :: pubkey
  defines "F \<equiv> ensure_account_exists_with_lamports operator (LAMPORTS_PER_SOL * 100)
       (ensure_account_exists_with_lamports payer (LAMPORTS_PER_SOL * 100) L)"
  assumes "gs_balances (lg_gas L) = (\<lambda>_. 0)"
  shows "lg_operators F = lg_operators L" "gs_treasuries (lg_gas F) = gs_treasuries (lg_gas L)"
    "lg_gateway F = lg_gateway L" "lg_view F = lg_view L"
    "gs_balances (lg_gas F) = (\<lambda>k. if k = payer \<or> k = operator then LAMPORTS_PER_SOL * 100 else 0)"
  using assms(2) by (auto simp: F_def ensure_account_exists_with_lamports_def Let_def LAMPORTS_PER_SOL_def)

lemma harness_new_ready:
  assumes law: "platform_laws env slib sys" and op: "length operator = 32" and now: "0 \<le> sint now"
    and parse: "secp_secret_parse slib rnd1 = Some sk1" "secp_secret_parse slib rnd2 = Some sk2"
    and users: "fst (the (try_find_program_address env treasury_seeds (gas_service_id env))) \<notin> {payer, operator}"
  shows "\<exists>h L. gateway_harness_new env sys slib rnd1 rnd2 payer operator (ledger_start now) = Inr (h, L) \<and>
    harness_at_start env slib h L \<and> 0 \<le> sint (unix_timestamp (lg_view L))"
proof -
  define h where "h = \<lparr>hs_payer = payer, hs_operator = operator, hs_gateway = default_gateway_info\<rparr>"
  define L where "L = ensure_account_exists_with_lamports operator (LAMPORTS_PER_SOL * 100)
       (ensure_account_exists_with_lamports payer (LAMPORTS_PER_SOL * 100) (ledger_start now))"
  have h: "hs_payer h = payer" "length (hs_operator h) = 32" by (simp_all add: h_def op)
  have zero: "gs_balances (lg_gas (ledger_start now)) = (\<lambda>_. 0)" by (simp add: ledger_start_def gas_empty_def)
  note L = funded_start [OF zero, of operator payer, folded L_def, unfolded ledger_start_def gas_empty_def, simplified]
  have funds: "LAMPORTS_PER_SOL \<le> gs_balances (lg_gas L) (hs_payer h)"
    by (simp add: L(5) h(1) LAMPORTS_PER_SOL_def)
  have vacant: "k \<noteq> hs_payer h \<and> gs_balances (lg_gas L) k = 0"
    if "try_find_program_address env treasury_seeds (gas_service_id env) = Some (k, b)" for k b
    using users that by (simp add: L(5) h(1))
  obtain ops g where gas: "ensure_gas_service_initialized env sys h L = Inr (L\<lparr>lg_operators := ops, lg_gas := g\<rparr>)"
    using gas_set_up [OF law h(2) L(1,2) funds] vacant by blast
  let ?L = "L\<lparr>lg_operators := ops, lg_gas := g\<rparr>"
  have "lg_gateway ?L = gateway_empty" "0 \<le> sint (unix_timestamp (lg_view ?L))"
    "program_data_authority (lg_view ?L) = (\<lambda>_. None)"
    by (simp_all add: L now)
  from gateway_set_up [OF law h(2) gas this parse] this(2) obtain gh view' gw
    where "ensure_gateway_initialized env sys slib rnd1 rnd2 h L = Inr (h\<lparr>hs_gateway := gh\<rparr>, ?L\<lparr>lg_view := view', lg_gateway := gw\<rparr>)"
      and "harness_at_start env slib (h\<lparr>hs_gateway := gh\<rparr>) (?L\<lparr>lg_view := view', lg_gateway := gw\<rparr>)"
      and "0 \<le> sint (unix_timestamp view')"
    by auto
  then show ?thesis
    unfolding gateway_harness_new_def h_def [symmetric] L_def [symmetric]
    by (intro exI [of _ "h\<lparr>hs_gateway := gh\<rparr>"] exI [of _ "?L\<lparr>lg_view := view', lg_gateway := gw\<rparr>"]) simp
qed

section \<open>A batch on a harness just set up\<close>

text \<open>A gateway that saw no message yet: configuration, trackers and sessions for rotations only.\<close>

definition no_message_seeds :: "hash \<Rightarrow> bytes list \<Rightarrow> bool" where
  "no_message_seeds vsh seeds \<longleftrightarrow> seeds = gateway_config_seeds \<or> (\<exists>h. seeds = tracker_seeds h) \<or>
     (\<exists>r. length r = 32 \<and> seeds = session_seeds r RotateSigners vsh)"

definition no_message_yet :: "env \<Rightarrow> hash \<Rightarrow> gateway_state \<Rightarrow> bool" where
  "no_message_yet env vsh g \<longleftrightarrow> (\<forall>k. gw_accounts g k \<noteq> None \<longrightarrow>
     (\<exists>seeds b. no_message_seeds vsh seeds \<and> try_find_program_address env seeds (gateway_id env) = Some (k, b)))"

lemma no_message_vacant:
  assumes law: "pda_law env" "pda_inj env" and none: "no_message_yet env vsh g"
    and k: "try_find_program_address env s (gateway_id env) = Some (k, b)"
    and s: "s = incoming_message_seeds cid \<or> (\<exists>r. length r = 32 \<and> s = session_seeds r ApproveMessages vsh)"
  shows "gw_accounts g k = None"
proof (rule ccontr)
  assume "gw_accounts g k \<noteq> None"
  with none obtain seeds b' where no: "no_message_seeds vsh seeds"
    and k': "try_find_program_address env seeds (gateway_id env) = Some (k, b')"
    unfolding no_message_yet_def by blast
  have "concat (seeds @ [[b']]) \<noteq> concat (s @ [[b]])"
    using no s by (auto simp: no_message_seeds_def) (auto simp: session_seeds_def)
  from found_keys_distinct [OF law k' k this] show False by simp
qed

lemma no_message_fresh:
  assumes law: "platform_laws env slib sys" and none: "no_message_yet env vsh g"
  shows "message_fresh env g m"
proof -
  note laws = platform_lawsD [OF law]
  have cid: "length (command_id env m) = 32"
    using laws(6) by (simp add: command_id_def hashv_def hash_length_law_def)
  obtain k b where k: "try_find_program_address env (incoming_message_seeds (command_id env m)) (gateway_id env) = Some (k, b)"
    by (rule pda_found [OF laws(3), of "incoming_message_seeds (command_id env m)" "gateway_id env"])
      (simp_all add: incoming_message_seeds_def cid)
  have "\<exists>sb. destination_signing_bump env m = Inr sb"
  proof (cases "pubkey_from_str env (destination_address m)")
    case (Some dest)
    obtain k' b' where "try_find_program_address env (validate_message_seeds (command_id env m)) dest = Some (k', b')"
      by (rule pda_found [OF laws(3), of "validate_message_seeds (command_id env m)" dest])
        (simp_all add: validate_message_seeds_def cid)
    with Some show ?thesis
      by (simp add: destination_signing_bump_def ValidateMessageSigner_find_pda_def find_program_address_def)
  qed (simp add: destination_signing_bump_def)
  moreover have "gw_accounts g k = None" by (rule no_message_vacant [OF laws(1,2) none k]) blast
  ultimately show ?thesis using k by (simp add: message_fresh_def)
qed

lemma no_message_batch_ready:
  assumes law: "platform_laws env slib sys" and none: "no_message_yet env (vt_verifier_set_hash t) (lg_gateway L)"
    and place: "gateway_in_place env (hs_gateway h) c t (lg_gateway L)"
    and ready: "verifiers_ready env slib (hs_gateway h) (domain_separator c) (vt_verifier_set_hash t)"
    and len: "length (vt_verifier_set_hash t) = 32"
    and ms: "ms \<noteq> []" "length ms < 65536" "distinct (map (command_id env) ms)"
  shows "batch_ready env slib h ms L"
proof -
  note laws = platform_lawsD [OF law]
  have "map (message_leaf_hash env) (harness_message_leaves ms (domain_separator c)) \<noteq> []"
    by (rule harness_leaves_ne [OF ms(1)])
  with laws(5) obtain root where root: "merkle_tree_root env (Hasher env)
      (map (message_leaf_hash env) (harness_message_leaves ms (domain_separator c))) = Some root" "length root = 32"
    unfolding merkle_root_law_def by blast
  obtain ses sb where ses: "try_find_program_address env (session_seeds root ApproveMessages (vt_verifier_set_hash t)) (gateway_id env)
      = Some (ses, sb)"
    by (rule pda_found [OF laws(3), of "session_seeds root ApproveMessages (vt_verifier_set_hash t)" "gateway_id env"])
      (simp_all add: session_seeds_def root(2) len)
  have "gw_accounts (lg_gateway L) ses = None"
    by (rule no_message_vacant [OF laws(1,2) none ses]) (use root(2) in blast)
  then show ?thesis
    unfolding batch_ready_def using place ready root ms(2,3) no_message_fresh [OF law none] ses by blast
qed

lemma batch_ready_at_start:
  assumes law: "platform_laws env slib sys" and start: "harness_at_start env slib h L"
    and ms: "ms \<noteq> []" "length ms < 65536" "distinct (map (command_id env) ms)"
  shows "batch_ready env slib h ms L"
proof -
  let ?gh = "hs_gateway h"
  obtain c t rb where place: "gateway_in_place env ?gh c t (lg_gateway L)"
    and ready: "verifiers_ready env slib ?gh (domain_separator c) (vt_verifier_set_hash t)"
    and len: "length (vt_verifier_set_hash t) = 32"
    and rk: "try_find_program_address env gateway_config_seeds (gateway_id env) = Some (gh_root ?gh, rb)"
    and accs: "gw_accounts (lg_gateway L) = [gh_root ?gh \<mapsto> ConfigAcc c, gh_verifier_set_tracker ?gh \<mapsto> TrackerAcc t]"
    using start unfolding harness_at_start_def by blast
  obtain tb where tk: "try_find_program_address env (tracker_seeds (vt_verifier_set_hash t)) (gateway_id env)
      = Some (gh_verifier_set_tracker ?gh, tb)"
    using place by (auto simp: gateway_in_place_def)
  have "no_message_yet env (vt_verifier_set_hash t) (lg_gateway L)"
    using rk tk by (auto simp: no_message_yet_def no_message_seeds_def accs split: if_splits)
  from no_message_batch_ready [OF law this place ready len ms] show ?thesis .
qed

lemma batch_at_start:
  assumes law: "platform_laws env slib sys" and start: "harness_at_start env slib h L"
    and ms: "ms \<noteq> []" "length ms < 65536" "distinct (map (command_id env) ms)"
  shows "\<exists>g'. ensure_approved_incoming_messages env slib h ms L = Inr (L\<lparr>lg_gateway := g'\<rparr>) \<and>
    batch_done env (lg_gateway L) ms g' \<and> gateway_reachable env g'"
proof -
  have "gateway_reachable env (lg_gateway L)" using start by (simp add: harness_at_start_def)
  with batch_ready_approved [OF platform_lawsD(1,2,4,7) [OF law] batch_ready_at_start [OF assms]]
  show ?thesis by (meson runs_trans)
qed

end
