(* ===== verification/Harness_Props.thy ===== *)
theory Harness_Props
  imports Harness_Setup Gateway_Demo
begin

text \<open>
  The properties of the client: set up from nothing, it approves every batch of messages, each of
  which its destination can then consume, and approves none twice.
\<close>

section \<open>No message twice\<close>

lemma approve_chain_events:
  assumes "collect_results (map (approve_message_ix env h ses root) mms) = Inr ixs"
    and "run_chain (gateway_entry env view) (map check_success ixs) g = Inr g'"
  shows "gw_events g' = gw_events g @ map (\<lambda>mm. approved_event env (mm_message mm)) mms"
  using assms
proof (induction mms arbitrary: ixs g)
  case (Cons mm mms)
  obtain ix ixs' where "approve_message_ix env h ses root mm = Inr ix" and "ixs = ix # ixs'"
    and rest: "collect_results (map (approve_message_ix env h ses root) mms) = Inr ixs'"
    using Cons.prems(1) by (auto simp: res_inv)
  then obtain a where ixs: "ixs = ApproveMessageIx a mm root # ixs'"
    by (auto simp: res_inv approve_message_ix_def)
  obtain g1 where g1: "approve_message env a mm root g = Inr g1"
    and run: "run_chain (gateway_entry env view) (map check_success ixs') g1 = Inr g'"
    using Cons.prems(2) by (auto simp: ixs res_inv)
  have "gw_events g1 = gw_events g @ [approved_event env (mm_message mm)]"
    using g1 by (auto elim!: approve_messageE simp: approved_event_def)
  with Cons.IH [OF rest run] show ?case by simp
qed simp

lemma verify_chain_events:
  assumes "run_chain (gateway_entry env view) (map check_success (map (verify_signature_ix h ses root) infos)) g = Inr g'"
  shows "gw_events g' = gw_events g"
  using assms
proof (induction infos arbitrary: g)
  case (Cons i infos)
  obtain g1 where g1: "gateway_entry env view (verify_signature_ix h ses root i) g = Inr g1"
    and run: "run_chain (gateway_entry env view) (map check_success (map (verify_signature_ix h ses root) infos)) g1 = Inr g'"
    using Cons.prems by (auto simp: res_inv)
  have "gw_events g1 = gw_events g"
    using g1 by (auto simp: verify_signature_ix_def elim!: verify_signatureE)
  with Cons.IH [OF run] show ?case by simp
qed simp

text \<open>What a successful batch ran.\<close>

lemma batch_chainE:
  assumes "ensure_approved_incoming_messages env slib h ms L = Inr L'"
  obtains c :: GatewayConfig and root ses ixs where
    "merkle_tree_root env (Hasher env) (map (message_leaf_hash env) (harness_message_leaves ms (domain_separator c))) = Some root"
    "collect_results (map (approve_message_ix env h ses root) (harness_merklized env
      (map (message_leaf_hash env) (harness_message_leaves ms (domain_separator c)))
      (harness_message_leaves ms (domain_separator c)))) = Inr ixs"
    "gateway_chain env (init_session_ix env h ses root ApproveMessages #
      map check_success (map (verify_signature_ix h ses root) (verifier_infos env slib h root ApproveMessages)) @
      map check_success ixs) L = Inr L'"
  using assms unfolding ensure_approved_incoming_messages_def Let_def res_inv
  by (elim exE conjE) (rule that)

text \<open>Whenever the client reports success, exactly the approvals of the batch were logged.\<close>

lemma batch_logged:
  assumes "ensure_approved_incoming_messages env slib h ms L = Inr L'"
  shows "gw_events (lg_gateway L') = gw_events (lg_gateway L) @ map (approved_event env) ms"
proof -
  obtain c :: GatewayConfig and root ses ixs where
    ixs: "collect_results (map (approve_message_ix env h ses root) (harness_merklized env
      (map (message_leaf_hash env) (harness_message_leaves ms (domain_separator c)))
      (harness_message_leaves ms (domain_separator c)))) = Inr ixs"
    and chain: "gateway_chain env (init_session_ix env h ses root ApproveMessages #
      map check_success (map (verify_signature_ix h ses root) (verifier_infos env slib h root ApproveMessages)) @
      map check_success ixs) L = Inr L'"
    using assms by (rule batch_chainE)
  let ?entry = "gateway_entry env (lg_view L)" and ?init = "init_session_ix env h ses root ApproveMessages"
  let ?verify = "map check_success (map (verify_signature_ix h ses root) (verifier_infos env slib h root ApproveMessages))"
  obtain g g1 g2 where init: "run_chain ?entry [?init] (lg_gateway L) = Inr g1"
    and verify: "run_chain ?entry ?verify g1 = Inr g2" and approve: "run_chain ?entry (map check_success ixs) g2 = Inr g"
    and L': "L' = L\<lparr>lg_gateway := g\<rparr>"
    using chain run_chain_append [of ?entry "[?init]" "?verify @ map check_success ixs" "lg_gateway L"]
    by (auto simp: gateway_chain_def run_chain_append res_inv simp del: map_map run_chain.simps)
  have "gw_events g1 = gw_events (lg_gateway L)"
    using init by (auto simp: init_session_ix_def res_inv elim!: initialize_sessionE)
  moreover have "map (\<lambda>mm. approved_event env (mm_message mm)) (harness_merklized env
      (map (message_leaf_hash env) (harness_message_leaves ms (domain_separator c)))
      (harness_message_leaves ms (domain_separator c))) = map (approved_event env) ms"
    using harness_merklized_messages [of env _ ms "domain_separator c"] by (metis (no_types, lifting) map_map o_def map_cong)
  ultimately show ?thesis
    using verify_chain_events [OF verify] approve_chain_events [OF ixs approve] by (simp add: L')
qed

lemma approved_ids_batch:
  "approved_ids (evs @ map (approved_event env) ms) = approved_ids evs @ map (command_id env) ms"
proof (induction ms rule: rev_induct)
  case (snoc m ms)
  have "approved_ids ((evs @ map (approved_event env) ms) @ [approved_event env m]) =
      (approved_ids evs @ map (command_id env) ms) @ [command_id env m]"
    unfolding ids_snoc(1) snoc by simp
  then show ?case by simp
qed simp

lemma batch_runs:
  assumes law: "merkle_root_law env" and ok: "ensure_approved_incoming_messages env slib h ms L = Inr L'" and ms: "ms \<noteq> []"
  shows "runs (gateway_step env) (lg_gateway L) (lg_gateway L')"
proof -
  obtain c :: GatewayConfig and root ses ixs where
    root: "merkle_tree_root env (Hasher env) (map (message_leaf_hash env) (harness_message_leaves ms (domain_separator c))) = Some root"
    and ixs: "collect_results (map (approve_message_ix env h ses root) (harness_merklized env
      (map (message_leaf_hash env) (harness_message_leaves ms (domain_separator c)))
      (harness_message_leaves ms (domain_separator c)))) = Inr ixs"
    and chain: "gateway_chain env (init_session_ix env h ses root ApproveMessages #
      map check_success (map (verify_signature_ix h ses root) (verifier_infos env slib h root ApproveMessages)) @
      map check_success ixs) L = Inr L'"
    using ok by (rule batch_chainE)
  have "map (message_leaf_hash env) (harness_message_leaves ms (domain_separator c)) \<noteq> []"
    by (rule harness_leaves_ne [OF ms])
  with law root have len: "length root = 32" unfolding merkle_root_law_def by (metis option.inject)
  let ?ixs = "init_session_ix env h ses root ApproveMessages #
      map check_success (map (verify_signature_ix h ses root) (verifier_infos env slib h root ApproveMessages)) @
      map check_success ixs"
  have wf: "\<forall>(ix, chk) \<in> set ?ixs. gateway_ix_wf ix"
    using approve_ixs_wf [OF ixs len] len
    by (auto simp: init_session_ix_def check_success_def verify_signature_ix_def)
  obtain g where "run_chain (gateway_entry env (lg_view L)) ?ixs (lg_gateway L) = Inr g" and "L' = L\<lparr>lg_gateway := g\<rparr>"
    using chain unfolding gateway_chain_def res_inv by blast
  with run_chain_runs [OF _ wf] show ?thesis by simp
qed

section \<open>The properties\<close>

text \<open>
  C3. The client, from an empty ledger: its set-up succeeds and leaves a reachable state of the
  gateway, on which every batch of messages with distinct command ids is approved, all its
  signatures, sessions and proofs being accepted; and each message can be consumed by the program
  its destination address names.
\<close>

theorem client_approves_every_batch:
  assumes law: "platform_laws env slib sys" and op: "length operator = 32" and now: "0 \<le> sint now"
    and parse: "secp_secret_parse slib rnd1 = Some sk1" "secp_secret_parse slib rnd2 = Some sk2"
    and users: "fst (the (try_find_program_address env treasury_seeds (gas_service_id env))) \<notin> {payer, operator}"
  shows "\<exists>h L. gateway_harness_new env sys slib rnd1 rnd2 payer operator (ledger_start now) = Inr (h, L) \<and>
    gateway_reachable env (lg_gateway L) \<and>
    (\<forall>ms. ms \<noteq> [] \<longrightarrow> length ms < 65536 \<longrightarrow> distinct (map (command_id env) ms) \<longrightarrow>
      (\<exists>L'. ensure_approved_incoming_messages env slib h ms L = Inr L' \<and>
        gateway_reachable env (lg_gateway L') \<and> gw_events (lg_gateway L') = map (approved_event env) ms \<and>
        (\<forall>m \<in> set ms. \<exists>k im. message_at (lg_gateway L') k im \<and> message_origin env (lg_gateway L') k im m \<and>
          (\<forall>dest. pubkey_from_str env (destination_address m) = Some dest \<longrightarrow>
            (\<exists>caller b st. try_find_program_address env (validate_message_seeds (command_id env m)) dest = Some (caller, b) \<and>
              validate_message env \<lparr>vm_incoming_message_pda = acc_mut k, vm_caller = acc_signer caller,
                vm_gateway_root_pda = acc (gh_root (hs_gateway h))\<rparr> m (lg_gateway L') = Inr st)))))"
proof -
  note laws = platform_lawsD [OF law]
  obtain h L where new: "gateway_harness_new env sys slib rnd1 rnd2 payer operator (ledger_start now) = Inr (h, L)"
    and start: "harness_at_start env slib h L"
    using harness_new_ready [OF law op now parse users] by blast
  have reach: "gateway_reachable env (lg_gateway L)" and log: "gw_events (lg_gateway L) = []"
    using start unfolding harness_at_start_def by blast+
  obtain c where c: "config_at (lg_gateway L) (gh_root (hs_gateway h)) c"
    using start gateway_in_placeD(1) unfolding harness_at_start_def by blast
  have batch: "\<exists>L''. ensure_approved_incoming_messages env slib h ms L = Inr L'' \<and>
      gateway_reachable env (lg_gateway L'') \<and> gw_events (lg_gateway L'') = map (approved_event env) ms \<and>
      (\<forall>m \<in> set ms. \<exists>k im. message_at (lg_gateway L'') k im \<and> message_origin env (lg_gateway L'') k im m \<and>
        (\<forall>dest. pubkey_from_str env (destination_address m) = Some dest \<longrightarrow>
          (\<exists>caller b st. try_find_program_address env (validate_message_seeds (command_id env m)) dest = Some (caller, b) \<and>
            validate_message env \<lparr>vm_incoming_message_pda = acc_mut k, vm_caller = acc_signer caller,
              vm_gateway_root_pda = acc (gh_root (hs_gateway h))\<rparr> m (lg_gateway L'') = Inr st)))"
    if ms: "ms \<noteq> []" "length ms < 65536" "distinct (map (command_id env) ms)" for ms
  proof -
    obtain g'' where ok: "ensure_approved_incoming_messages env slib h ms L = Inr (L\<lparr>lg_gateway := g''\<rparr>)"
      and fin: "batch_done env (lg_gateway L) ms g''" and reach'': "gateway_reachable env g''"
      using batch_at_start [OF law start ms] by blast
    have c'': "config_at g'' (gh_root (hs_gateway h)) c" and ev: "gw_events g'' = map (approved_event env) ms"
      using fin c log unfolding batch_done_def by auto
    note inv = gateway_full_inv_reachable [OF laws(1,2) reach'']
    have "\<exists>k im. message_at g'' k im \<and> message_origin env g'' k im m \<and>
        (\<forall>dest. pubkey_from_str env (destination_address m) = Some dest \<longrightarrow>
          (\<exists>caller b st. try_find_program_address env (validate_message_seeds (command_id env m)) dest = Some (caller, b) \<and>
            validate_message env \<lparr>vm_incoming_message_pda = acc_mut k, vm_caller = acc_signer caller,
              vm_gateway_root_pda = acc (gh_root (hs_gateway h))\<rparr> m g'' = Inr st))" if "m \<in> set ms" for m
    proof -
      from fin that obtain k im where k: "message_at g'' k im" "is_approved (im_status im)" "message_origin env g'' k im m"
        unfolding batch_done_def approved_in_def by blast
      have "\<exists>caller b st. try_find_program_address env (validate_message_seeds (command_id env m)) dest = Some (caller, b) \<and>
          validate_message env \<lparr>vm_incoming_message_pda = acc_mut k, vm_caller = acc_signer caller,
            vm_gateway_root_pda = acc (gh_root (hs_gateway h))\<rparr> m g'' = Inr st"
        if "pubkey_from_str env (destination_address m) = Some dest" for dest
        by (rule approved_message_validates [OF laws(1) inv k(3,1,2) c'' that]) blast
      with k show ?thesis by blast
    qed
    with ok reach'' ev show ?thesis by (intro exI [of _ "L\<lparr>lg_gateway := g''\<rparr>"]) simp
  qed
  show ?thesis
    by (intro exI [of _ h] exI [of _ L] conjI new reach allI impI batch)
qed

text \<open>
  The client approves no message twice: whatever the harness and the reachable ledger, a batch it
  reports as approved has distinct command ids, none of them approved before, and its approvals are
  exactly what it added to the log.
\<close>

theorem client_batch_is_new:
  assumes "pda_law env" and "pda_inj env" and "merkle_root_law env" and "gateway_reachable env (lg_gateway L)"
    and "ensure_approved_incoming_messages env slib h ms L = Inr L'"
  shows "distinct (map (command_id env) ms) \<and>
    set (map (command_id env) ms) \<inter> set (approved_ids (gw_events (lg_gateway L))) = {} \<and>
    gw_events (lg_gateway L') = gw_events (lg_gateway L) @ map (approved_event env) ms"
proof (cases "ms = []")
  case False
  have "gateway_reachable env (lg_gateway L')"
    by (rule runs_trans [OF batch_runs [OF assms(3,5) False] assms(4)])
  then have "distinct (approved_ids (gw_events (lg_gateway L')))"
    using gateway_full_inv_reachable [OF assms(1,2)] by (simp add: gateway_full_inv_def once_inv_def)
  then show ?thesis
    by (auto simp: batch_logged [OF assms(5)] approved_ids_batch)
qed (use batch_logged [OF assms(5)] in simp)

section \<open>A concrete client\<close>

text \<open>The environment of the gateway's run, with hashes and roots of 32 bytes, and keys that sign themselves.\<close>

definition demo_henv :: env where
  "demo_henv = demo_env\<lparr>keccak := (\<lambda>x. take 32 (x @ replicate 32 0)),
     merkle_tree_root := (\<lambda>_ leaves. if leaves = [] then None else Some (replicate 32 13))\<rparr>"

definition demo_slib :: secp_lib where
  "demo_slib = \<lparr>secp_secret_parse = (\<lambda>bs. if length bs = 32 then Some bs else None), secp_public_key = (\<lambda>sk. 2 # sk),
     secp_sign = (\<lambda>_ sk. (2 # sk, 0))\<rparr>"

lemma demo_platform_laws: "platform_laws demo_henv demo_slib demo_sys"
  by (auto simp: platform_laws_def pda_law_def pda_inj_def pda_found_law_def merkle_law_def merkle_root_law_def
      hash_length_law_def sign_law_def funds_law_def demo_henv_def demo_env_def demo_slib_def demo_sys_def)

lemma demo_signer_keys:
  "secp_secret_parse demo_slib (replicate 32 41) = Some (replicate 32 41)"
  "secp_secret_parse demo_slib (replicate 32 42) = Some (replicate 32 42)"
  "fst (the (try_find_program_address demo_henv treasury_seeds (gas_service_id demo_henv))) \<notin> {replicate 32 20, replicate 32 10}"
proof -
  have "length (fst (the (try_find_program_address demo_henv treasury_seeds (gas_service_id demo_henv)))) = 13"
    by (simp add: demo_henv_def demo_env_def treasury_seeds_def)
  then show "fst (the (try_find_program_address demo_henv treasury_seeds (gas_service_id demo_henv))) \<notin> {replicate 32 20, replicate 32 10}"
    by auto
qed (simp_all add: demo_slib_def)

theorem client_approves_every_batch_witness:
  "\<exists>h L L'. gateway_harness_new demo_henv demo_sys demo_slib (replicate 32 41) (replicate 32 42) (replicate 32 20)
      (replicate 32 10) (ledger_start 1000) = Inr (h, L) \<and>
    ensure_approved_incoming_messages demo_henv demo_slib h [demo_message] L = Inr L' \<and>
    gw_events (lg_gateway L') = [approved_event demo_henv demo_message]"
proof -
  have "length (replicate 32 10 :: pubkey) = 32" "0 \<le> sint (1000 :: i64)" by simp_all
  from client_approves_every_batch [OF demo_platform_laws this demo_signer_keys] show ?thesis
    by (elim exE conjE) (drule spec [of _ "[demo_message]"], elim impE exE conjE, simp, simp, simp,
      intro exI conjI, assumption, assumption, simp)
qed

theorem client_batch_is_new_witness:
  "\<exists>h L L'. ensure_approved_incoming_messages demo_henv demo_slib (h :: harness) [demo_message] (L :: ledger) = Inr L' \<and>
    command_id demo_henv demo_message \<notin> set (approved_ids (gw_events (lg_gateway L)))"
proof -
  have "length (replicate 32 10 :: pubkey) = 32" "0 \<le> sint (1000 :: i64)" by simp_all
  note ready = harness_new_ready [OF demo_platform_laws this demo_signer_keys]
  then obtain h :: harness and L :: ledger where start: "harness_at_start demo_henv demo_slib h L" by blast
  then have reach: "gateway_reachable demo_henv (lg_gateway L)" by (simp add: harness_at_start_def)
  note laws = platform_lawsD [OF demo_platform_laws]
  obtain L' where ok: "ensure_approved_incoming_messages demo_henv demo_slib h [demo_message] L = Inr L'"
    using batch_at_start [OF demo_platform_laws start, of "[demo_message]"] by auto
  have "command_id demo_henv demo_message \<notin> set (approved_ids (gw_events (lg_gateway L)))"
    using client_batch_is_new [OF laws(1,2,5) reach ok] by simp
  with ok show ?thesis by blast
qed

end
