(* ===== verification/Harness_Rotation.thy ===== *)
theory Harness_Rotation
  imports Harness_Props
begin

text \<open>
  The client rotates the verifier set with its own signatures, and still approves messages with the
  set it had, which the gateway retains.
\<close>

section \<open>A rotation\<close>

lemma u256_two: "u256_checked_add (u256_from_u64 1) u256_one = Some (u256_from_u64 2)"
  by (simp add: u256_checked_add_Some)

lemma rotate_seeds [simp]:
  "concat (tracker_seeds h) = concat (tracker_seeds h') \<longleftrightarrow> h = h'"
  "concat (session_seeds r pt h) \<noteq> concat (tracker_seeds h')" "concat (session_seeds r pt h) \<noteq> concat gateway_config_seeds"
  by (simp_all add: tracker_seeds_def session_seeds_def gateway_config_seeds_def GATEWAY_SEED_def str_bytes_def of_char_u8_inj)

text \<open>The operator rotates without waiting: a valid session for the new set is all it needs.\<close>

lemma operator_rotates:
  assumes law: "pda_law env" and place: "gateway_in_place env (hs_gateway h) c t g"
    and s: "session_at g ses s" "is_valid s" "session_hash s = vt_verifier_set_hash t"
    and ses: "try_find_program_address env (session_seeds new RotateSigners (vt_verifier_set_hash t)) (gateway_id env)
      = Some (ses, sd_bump s)"
    and tk: "try_find_program_address env (tracker_seeds (vt_verifier_set_hash t)) (gateway_id env) =
      Some (gh_verifier_set_tracker (hs_gateway h), vt_bump t)"
    and new: "vt_verifier_set_hash t \<noteq> new" and op: "gc_operator c = hs_operator h"
    and nk: "try_find_program_address env (tracker_seeds new) (gateway_id env) = Some (nk, nb)" "gw_accounts g nk = None"
    and now: "0 \<le> sint (unix_timestamp view)" and ep: "u256_checked_add (current_epoch c) u256_one = Some ep"
  shows "rotate_signers env view
      \<lparr>rs_gateway_root_pda = acc_mut (gh_root (hs_gateway h)), rs_verification_session_account = acc ses,
       rs_verifier_set_tracker_pda = acc (gh_verifier_set_tracker (hs_gateway h)),
       rs_new_verifier_set_tracker = acc_mut nk, rs_payer = acc_signer_mut (hs_payer h),
       rs_system_program = acc (system_program_id env), rs_operator = Some (acc_signer (hs_operator h))\<rparr> new g =
    Inr (emit_gw (VerifierSetRotatedEvent ep new)
      (put_gw nk (TrackerAcc \<lparr>vt_bump = nb, vt_epoch = ep, vt_verifier_set_hash = new\<rparr>)
      (put_gw (gh_root (hs_gateway h)) (ConfigAcc (c\<lparr>last_rotation_timestamp := unix_timestamp view,
        current_epoch := ep\<rparr>)) g)))"
proof -
  let ?gh = "hs_gateway h"
  have "load_gateway_config env g (gh_root ?gh) = Inr c" "assert_valid_epoch c (vt_epoch t) = Inr ()"
    "load_acc session_of (gw_accounts g) ses = Inr s" "load_acc tracker_of (gw_accounts g) (gh_verifier_set_tracker ?gh) = Inr t"
    using place s(1) gateway_in_placeD(2) [OF place] by (simp_all add: gateway_in_place_def gw_load)
  moreover have "check_seeds env (session_seeds new RotateSigners (vt_verifier_set_hash t)) (sd_bump s) (gateway_id env) ses = Inr ()"
    "check_seeds env (tracker_seeds (vt_verifier_set_hash t)) (vt_bump t) (gateway_id env) (gh_verifier_set_tracker ?gh) = Inr ()"
    "check_seeds_canonical env (tracker_seeds new) (gateway_id env) nk = Inr nb"
    using pda_lawD [OF law ses] pda_lawD [OF law tk] nk(1) by (simp_all add: check_seeds_def res_inv)
  moreover have "\<not> enforce_rotation_delay (Some (acc_signer (hs_operator h))) c"
    by (simp add: enforce_rotation_delay_def acc_defs op)
  ultimately show ?thesis
    using s nk(2) new now ep by (simp add: rotate_signers_def Let_def acc_defs check_mut_def check_signer_def check_vacant_def
        check_program_def u64_of_i64_def)
qed

text \<open>A session the client opens and signs, whatever its payload.\<close>

lemma client_session:
  assumes law: "pda_law env" "merkle_law env" "sign_law env slib"
    and place: "gateway_in_place env (hs_gateway h) c t (lg_gateway L)"
    and ready: "verifiers_ready env slib (hs_gateway h) (domain_separator c) (vt_verifier_set_hash t)"
    and ses: "try_find_program_address env (session_seeds root pt (vt_verifier_set_hash t)) (gateway_id env) = Some (ses, sb)"
      "gw_accounts (lg_gateway L) ses = None" and len: "length root = 32"
  obtains s L1 where "init_payload_verification_session env h root pt L = Inr (ses, L1)"
    and "verify_all_signatures env slib h root pt L1 = Inr (L\<lparr>lg_gateway := put_gw ses (SessionAcc s) (lg_gateway L)\<rparr>)"
    and "is_valid s" and "session_hash s = vt_verifier_set_hash t" and "sd_bump s = sb"
    and "runs (gateway_step env) (lg_gateway L) (put_gw ses (SessionAcc s) (lg_gateway L))"
proof -
  let ?gh = "hs_gateway h" and ?g = "lg_gateway L" and ?vsh = "vt_verifier_set_hash t" and ?entry = "gateway_entry env (lg_view L)"
  obtain s g1 where init: "run_chain ?entry [init_session_ix env h ses root pt] ?g = Inr g1"
    and verify: "run_chain ?entry (map check_success (map (verify_signature_ix h ses root) (verifier_infos env slib h root pt))) g1 =
      Inr (put_gw ses (SessionAcc s) ?g)"
    and s: "is_valid s" "session_hash s = ?vsh" "sd_bump s = sb" and keep: "\<forall>k. k \<noteq> ses \<longrightarrow> gw_accounts g1 k = gw_accounts ?g k"
    by (rule session_signed [OF law place ready ses, where view = "lg_view L"])
  have "tracker_at ?g (gh_verifier_set_tracker ?gh) t" by (rule gateway_in_placeD(2) [OF place])
  moreover from this ses(2) have "gh_verifier_set_tracker ?gh \<noteq> ses" by auto
  ultimately have hash: "tracker_hash h L = Inr ?vsh" "tracker_hash h (L\<lparr>lg_gateway := g1\<rparr>) = Inr ?vsh"
    using keep by (simp_all add: tracker_hash_def get_account_as_def)
  have key: "session_key env root pt ?vsh = Inr ses" using ses by (simp add: session_key_def find_key_def find_program_address_def)
  have "runs (gateway_step env) ?g g1"
    by (rule run_chain_runs [OF init]) (simp add: init_session_ix_def len)
  moreover have "runs (gateway_step env) g1 (put_gw ses (SessionAcc s) ?g)"
    by (rule run_chain_runs [OF verify]) (auto simp: check_success_def verify_signature_ix_def len)
  ultimately have run: "runs (gateway_step env) ?g (put_gw ses (SessionAcc s) ?g)" by (rule runs_trans [rotated])
  have "init_payload_verification_session env h root pt L = Inr (ses, L\<lparr>lg_gateway := g1\<rparr>)"
    using init by (simp add: init_payload_verification_session_def hash key gateway_chain_def del: run_chain.simps)
  moreover have "verify_all_signatures env slib h root pt (L\<lparr>lg_gateway := g1\<rparr>) =
      Inr (L\<lparr>lg_gateway := put_gw ses (SessionAcc s) ?g\<rparr>)"
    using verify by (simp add: verify_all_signatures_def hash key gateway_chain_def del: run_chain.simps)
  ultimately show thesis using s run by (rule that)
qed

text \<open>The three calls of the client, one after another.\<close>

lemma rotation_at_start:
  assumes law: "platform_laws env slib sys" and start: "harness_at_start env slib h L"
    and now: "0 \<le> sint (unix_timestamp (lg_view L))" and len: "length new = 32" and new: "tracker_hash h L \<noteq> Inr new"
  shows "\<exists>ses L1 L2 g c nk nb. init_payload_verification_session env h new RotateSigners L = Inr (ses, L1) \<and>
    verify_all_signatures env slib h new RotateSigners L1 = Inr L2 \<and>
    harness_rotate_signers env h new ses L2 = Inr (Inr g, L2\<lparr>lg_gateway := g\<rparr>) \<and>
    gateway_reachable env g \<and> gw_events g = [VerifierSetRotatedEvent (u256_from_u64 2) new] \<and>
    config_at g (gh_root (hs_gateway h)) c \<and> current_epoch c = u256_from_u64 2 \<and>
    tracker_at g nk \<lparr>vt_bump = nb, vt_epoch = u256_from_u64 2, vt_verifier_set_hash = new\<rparr> \<and>
    (\<forall>ms. ms \<noteq> [] \<longrightarrow> length ms < 65536 \<longrightarrow> distinct (map (command_id env) ms) \<longrightarrow>
      batch_ready env slib h ms (L2\<lparr>lg_gateway := g\<rparr>))"
proof -
  note laws = platform_lawsD [OF law]
  let ?gh = "hs_gateway h" and ?g = "lg_gateway L"
  obtain c t rb where place: "gateway_in_place env ?gh c t ?g"
    and ready: "verifiers_ready env slib ?gh (domain_separator c) (vt_verifier_set_hash t)"
    and vlen: "length (vt_verifier_set_hash t) = 32"
    and rk: "try_find_program_address env gateway_config_seeds (gateway_id env) = Some (gh_root ?gh, rb)"
    and accs: "gw_accounts ?g = [gh_root ?gh \<mapsto> ConfigAcc c, gh_verifier_set_tracker ?gh \<mapsto> TrackerAcc t]"
    and log: "gw_events ?g = []" and c: "current_epoch c = u256_from_u64 1" "previous_verifier_set_retention c = u256_from_u64 5"
      "gc_operator c = hs_operator h" and t: "vt_epoch t = u256_from_u64 1"
    and tk: "try_find_program_address env (tracker_seeds (vt_verifier_set_hash t)) (gateway_id env) =
      Some (gh_verifier_set_tracker ?gh, vt_bump t)" and reach: "gateway_reachable env ?g"
    using start unfolding harness_at_start_def by blast
  let ?vsh = "vt_verifier_set_hash t"
  have hash: "tracker_hash h L = Inr ?vsh"
    using gateway_in_placeD(2) [OF place] by (simp add: tracker_hash_def get_account_as_def)
  obtain ses sb where ses: "try_find_program_address env (session_seeds new RotateSigners ?vsh) (gateway_id env) = Some (ses, sb)"
    by (rule pda_found [OF laws(3), of "session_seeds new RotateSigners ?vsh" "gateway_id env"]) (simp_all add: session_seeds_def len vlen)
  obtain nk nb where nk: "try_find_program_address env (tracker_seeds new) (gateway_id env) = Some (nk, nb)"
    by (rule pda_found [OF laws(3), of "tracker_seeds new" "gateway_id env"]) (simp_all add: tracker_seeds_def len)
  note ne = found_keys_distinct [OF laws(1,2)]
  have ses_ne: "ses \<noteq> gh_root ?gh" "ses \<noteq> gh_verifier_set_tracker ?gh"
    by (rule ne [OF ses rk], simp) (rule ne [OF ses tk], simp)
  have nk_ne: "nk \<noteq> gh_root ?gh" "nk \<noteq> gh_verifier_set_tracker ?gh" "ses \<noteq> nk"
    using new hash by - (rule ne [OF nk rk], simp, rule ne [OF nk tk], simp, rule ne [OF ses nk], simp)
  have vacant: "gw_accounts ?g ses = None" using ses_ne by (simp add: accs)
  obtain s L1 where step1: "init_payload_verification_session env h new RotateSigners L = Inr (ses, L1)"
    and step2: "verify_all_signatures env slib h new RotateSigners L1 = Inr (L\<lparr>lg_gateway := put_gw ses (SessionAcc s) ?g\<rparr>)"
    and s: "is_valid s" "session_hash s = ?vsh" "sd_bump s = sb"
    and run: "runs (gateway_step env) ?g (put_gw ses (SessionAcc s) ?g)"
    by (rule client_session [OF laws(1,4,7) place ready ses vacant len])
  let ?g2 = "put_gw ses (SessionAcc s) ?g" and ?c = "c\<lparr>last_rotation_timestamp := unix_timestamp (lg_view L), current_epoch := u256_from_u64 2\<rparr>"
  let ?t = "\<lparr>vt_bump = nb, vt_epoch = u256_from_u64 2, vt_verifier_set_hash = new\<rparr>"
  let ?g3 = "emit_gw (VerifierSetRotatedEvent (u256_from_u64 2) new) (put_gw nk (TrackerAcc ?t) (put_gw (gh_root ?gh) (ConfigAcc ?c) ?g2))"
  let ?L2 = "L\<lparr>lg_gateway := ?g2\<rparr>"
  have place2: "gateway_in_place env ?gh c t ?g2" by (rule gateway_in_place_put [OF place ses_ne])
  have "gw_accounts ?g2 nk = None" using nk_ne by (simp add: accs)
  let ?a = "\<lparr>rs_gateway_root_pda = acc_mut (gh_root ?gh), rs_verification_session_account = acc ses,
       rs_verifier_set_tracker_pda = acc (gh_verifier_set_tracker ?gh),
       rs_new_verifier_set_tracker = acc_mut nk, rs_payer = acc_signer_mut (hs_payer h),
       rs_system_program = acc (system_program_id env), rs_operator = Some (acc_signer (hs_operator h))\<rparr>"
  have rotate: "rotate_signers env (lg_view L) ?a new ?g2 = Inr ?g3"
    using \<open>gw_accounts ?g2 nk = None\<close> operator_rotates [OF laws(1) place2 _ s(1,2), of ses new nk nb "lg_view L" "u256_from_u64 2"] ses s(3) tk new hash c nk now u256_two
    by simp
  then have step3: "harness_rotate_signers env h new ses ?L2 = Inr (Inr ?g3, ?L2\<lparr>lg_gateway := ?g3\<rparr>)"
    by (simp add: harness_rotate_signers_def rotate_signers_with_checks_def find_key_def find_program_address_def nk
        gateway_checked_def succeeded_def)
  have "gateway_step env ?g2 ?g3"
    by (rule gateway_ix [of "RotateSignersIx ?a new" env "lg_view L"]) (use len rotate in simp_all)
  then have reach3: "gateway_reachable env ?g3"
    using reach run by (meson runs_trans runs_one)
  have place3: "gateway_in_place env ?gh ?c t ?g3"
    using place2 nk_ne ses_ne c t by (auto simp: gateway_in_place_def load_gateway_config_Inr assert_valid_epoch_Inr)
  have "no_message_yet env ?vsh ?g3"
    using rk tk ses nk len by (auto simp: no_message_yet_def no_message_seeds_def accs split: if_splits)
  then have later: "batch_ready env slib h ms (?L2\<lparr>lg_gateway := ?g3\<rparr>)"
    if "ms \<noteq> []" "length ms < 65536" "distinct (map (command_id env) ms)" for ms
    by (intro no_message_batch_ready [OF law _ _ _ vlen that, where c = ?c]) (use place3 ready in simp_all)
  show ?thesis
    by (rule exI [of _ ses], rule exI [of _ L1], rule exI [of _ ?L2], rule exI [of _ ?g3], rule exI [of _ ?c], rule exI [of _ nk],
        rule exI [of _ nb]) (use step1 step2 step3 reach3 log nk_ne later in auto)
qed

section \<open>The property\<close>

text \<open>
  C23. The client rotates the verifiers: set up from an empty ledger, it opens a session for any other
  verifier set, signs it with its own signers and rotates to it as the operator, at once; the set is
  then registered under epoch two, and the client can still have every batch of messages approved
  with the set it had before.
\<close>

theorem client_rotates_signers:
  assumes law: "platform_laws env slib sys" and op: "length operator = 32" and now: "0 \<le> sint now"
    and parse: "secp_secret_parse slib rnd1 = Some sk1" "secp_secret_parse slib rnd2 = Some sk2"
    and users: "fst (the (try_find_program_address env treasury_seeds (gas_service_id env))) \<notin> {payer, operator}"
  shows "\<exists>h L. gateway_harness_new env sys slib rnd1 rnd2 payer operator (ledger_start now) = Inr (h, L) \<and>
    (\<forall>new. length new = 32 \<longrightarrow> tracker_hash h L \<noteq> Inr new \<longrightarrow>
      (\<exists>ses L1 L2 L3 g c nk nb. init_payload_verification_session env h new RotateSigners L = Inr (ses, L1) \<and>
        verify_all_signatures env slib h new RotateSigners L1 = Inr L2 \<and>
        harness_rotate_signers env h new ses L2 = Inr (Inr g, L3) \<and> lg_gateway L3 = g \<and>
        gateway_reachable env g \<and> gw_events g = [VerifierSetRotatedEvent (u256_from_u64 2) new] \<and>
        config_at g (gh_root (hs_gateway h)) c \<and> current_epoch c = u256_from_u64 2 \<and>
        tracker_at g nk \<lparr>vt_bump = nb, vt_epoch = u256_from_u64 2, vt_verifier_set_hash = new\<rparr> \<and>
        (\<forall>ms. ms \<noteq> [] \<longrightarrow> length ms < 65536 \<longrightarrow> distinct (map (command_id env) ms) \<longrightarrow>
          (\<exists>L4. ensure_approved_incoming_messages env slib h ms L3 = Inr L4 \<and>
            gw_events (lg_gateway L4) = gw_events g @ map (approved_event env) ms))))"
proof -
  note laws = platform_lawsD [OF law]
  obtain h L where new: "gateway_harness_new env sys slib rnd1 rnd2 payer operator (ledger_start now) = Inr (h, L)"
    and start: "harness_at_start env slib h L" and time: "0 \<le> sint (unix_timestamp (lg_view L))"
    using harness_new_ready [OF law op now parse users] by blast
  have later: "\<exists>L4. ensure_approved_incoming_messages env slib h ms L3 = Inr L4 \<and>
      gw_events (lg_gateway L4) = gw_events (lg_gateway L3) @ map (approved_event env) ms" if "batch_ready env slib h ms L3" for ms and L3 :: ledger
    using batch_ready_approved [OF laws(1,2,4,7) that] batch_logged by blast
  show ?thesis
  proof (intro exI [of _ h] exI [of _ L] conjI new allI impI, goal_cases)
    case (1 hash')
    obtain ses L1 L2 g c nk nb where r: "init_payload_verification_session env h hash' RotateSigners L = Inr (ses, L1)"
      "verify_all_signatures env slib h hash' RotateSigners L1 = Inr L2"
      "harness_rotate_signers env h hash' ses L2 = Inr (Inr g, L2\<lparr>lg_gateway := g\<rparr>)" "gateway_reachable env g"
      "gw_events g = [VerifierSetRotatedEvent (u256_from_u64 2) hash']" "config_at g (gh_root (hs_gateway h)) c"
      "current_epoch c = u256_from_u64 2"
      "tracker_at g nk \<lparr>vt_bump = nb, vt_epoch = u256_from_u64 2, vt_verifier_set_hash = hash'\<rparr>"
      and batches: "\<forall>ms. ms \<noteq> [] \<longrightarrow> length ms < 65536 \<longrightarrow> distinct (map (command_id env) ms) \<longrightarrow>
        batch_ready env slib h ms (L2\<lparr>lg_gateway := g\<rparr>)"
      using rotation_at_start [OF law start time 1] by blast
    show ?case
      by (rule exI [of _ ses], rule exI [of _ L1], rule exI [of _ L2], rule exI [of _ "L2\<lparr>lg_gateway := g\<rparr>"], rule exI [of _ g],
          rule exI [of _ c], rule exI [of _ nk], rule exI [of _ nb]) (use r batches later [of _ "L2\<lparr>lg_gateway := g\<rparr>"] in simp)
  qed
qed

theorem client_rotates_signers_witness:
  "\<exists>h L ses L1 L2 L3 g L4. gateway_harness_new demo_henv demo_sys demo_slib (replicate 32 41) (replicate 32 42) (replicate 32 20)
      (replicate 32 10) (ledger_start 1000) = Inr (h, L) \<and>
    init_payload_verification_session demo_henv h (replicate 32 14) RotateSigners L = Inr (ses, L1) \<and>
    verify_all_signatures demo_henv demo_slib h (replicate 32 14) RotateSigners L1 = Inr L2 \<and>
    harness_rotate_signers demo_henv h (replicate 32 14) ses L2 = Inr (Inr g, L3) \<and>
    ensure_approved_incoming_messages demo_henv demo_slib h [demo_message] L3 = Inr L4"
proof -
  have "length (replicate 32 10 :: pubkey) = 32" "0 \<le> sint (1000 :: i64)" by simp_all
  note start = this demo_signer_keys
  obtain h L where new: "gateway_harness_new demo_henv demo_sys demo_slib (replicate 32 41) (replicate 32 42) (replicate 32 20)
      (replicate 32 10) (ledger_start 1000) = Inr (h, L)" and ready: "harness_at_start demo_henv demo_slib h L"
    using harness_new_ready [OF demo_platform_laws start] by blast
  from ready obtain t where t: "tracker_at (lg_gateway L) (gh_verifier_set_tracker (hs_gateway h)) t"
    "merkle_tree_root demo_henv (Hasher demo_henv) (gh_verifier_merkle_tree (hs_gateway h)) = Some (vt_verifier_set_hash t)"
    unfolding harness_at_start_def verifiers_ready_def Let_def by (blast dest: gateway_in_placeD(2))
  then have "vt_verifier_set_hash t = replicate 32 13" by (simp add: demo_henv_def demo_env_def split: if_splits)
  with t(1) have other: "tracker_hash h L \<noteq> Inr (replicate 32 14)" by (simp add: tracker_hash_def get_account_as_def)
  have len: "length (replicate 32 14 :: hash) = 32" by simp
  note rotates = client_rotates_signers [OF demo_platform_laws start, unfolded new sum.inject prod.inject]
  obtain ses L1 L2 L3 g where
    r: "init_payload_verification_session demo_henv h (replicate 32 14) RotateSigners L = Inr (ses, L1)"
      "verify_all_signatures demo_henv demo_slib h (replicate 32 14) RotateSigners L1 = Inr L2"
      "harness_rotate_signers demo_henv h (replicate 32 14) ses L2 = Inr (Inr g, L3)"
    and batches: "\<forall>ms. ms \<noteq> [] \<longrightarrow> length ms < 65536 \<longrightarrow> distinct (map (command_id demo_henv) ms) \<longrightarrow>
      (\<exists>L4. ensure_approved_incoming_messages demo_henv demo_slib h ms L3 = Inr L4 \<and>
        gw_events (lg_gateway L4) = gw_events g @ map (approved_event demo_henv) ms)"
    using rotates len other by (elim exE conjE) (drule spec, drule mp, assumption, drule mp, simp, elim exE conjE, hypsubst, rule that)
  have "\<exists>L4. ensure_approved_incoming_messages demo_henv demo_slib h [demo_message] L3 = Inr L4"
    using batches by (elim allE [of _ "[demo_message]"]) auto
  with new r show ?thesis by blast
qed

end
