(* ===== verification/Harness_Its.thy ===== *)
theory Harness_Its
  imports Harness_Gateway Its_Relay Memo
begin

text \<open>
  A client of the token service: \<open>its.rs\<close> of \<open>helpers/mollusk-harness\<close> with the token helpers of its
  \<open>lib.rs\<close>. It sets the service up on top of the gateway, deploys, registers, mints and sends tokens
  with the service's client library, and relays the hub's messages: it has a message approved and
  then executes it with the accounts the library adds. Each operation checks the accounts it leaves.
\<close>

section \<open>The ledger\<close>

record its_ledger = ledger +
  li_accounts :: "its_account accounts"
  li_tokens :: token_ledger
  li_events :: "its_event list"
  li_epoch :: u64
  li_owner :: "pubkey \<Rightarrow> pubkey"
  li_counters :: "Counter accounts"
  li_memo_log :: "memo_line list"

text \<open>The parts an instruction of the service reads and writes.\<close>

definition its_of :: "its_ledger \<Rightarrow> its_state" where
  "its_of L = \<lparr>its_accounts = li_accounts L, its_tokens = li_tokens L, its_gateway = lg_gateway L, its_gas = lg_gas L,
     its_events = li_events L\<rparr>"

definition with_its :: "its_state \<Rightarrow> its_ledger \<Rightarrow> its_ledger" where
  "with_its st L = L\<lparr>li_accounts := its_accounts st, li_tokens := its_tokens st, lg_gateway := its_gateway st,
     lg_gas := its_gas st, li_events := its_events st\<rparr>"

definition its_view_of :: "its_ledger \<Rightarrow> its_view" where
  "its_view_of L = \<lparr>iv_ledger = lg_view L, clock_epoch = li_epoch L, account_owner = li_owner L\<rparr>"

definition its_chain ::
    "env \<Rightarrow> its_lib \<Rightarrow> (its_instruction \<times> (its_state \<Rightarrow> bool)) list \<Rightarrow> its_ledger \<Rightarrow> its_ledger result" where
  "its_chain env lib ixs L =
     res_bind (run_chain (its_entry env lib (its_view_of L)) ixs (its_of L)) (\<lambda>st. Inr (with_its st L))"

definition its_checked ::
    "env \<Rightarrow> its_lib \<Rightarrow> (its_state result \<Rightarrow> bool) \<Rightarrow> its_instruction \<Rightarrow> its_ledger \<Rightarrow>
     (its_state result \<times> its_ledger) result" where
  "its_checked env lib checks ix L =
     (let r = its_entry env lib (its_view_of L) ix (its_of L) in
      res_bind (require (checks r) (Panic ''instruction check'')) (\<lambda>_.
      Inr (r, case r of Inr st \<Rightarrow> with_its st L | Inl _ \<Rightarrow> L)))"

record its_harness = harness +
  hi_its_root :: pubkey

definition get_its_root :: "its_harness \<Rightarrow> its_ledger \<Rightarrow> InterchainTokenService result" where
  "get_its_root h L = expect (get_account_as its_root_of (li_accounts L) (hi_its_root h)) ''ITS root account should exist''"

section \<open>Set-up\<close>

definition ensure_its_initialized ::
    "env \<Rightarrow> its_lib \<Rightarrow> secp_lib \<Rightarrow> bytes \<Rightarrow> bytes \<Rightarrow> its_harness \<Rightarrow> its_ledger \<Rightarrow> (its_harness \<times> its_ledger) result" where
  "ensure_its_initialized env lib slib rnd1 rnd2 h0 L0 =
     res_bind (ensure_gateway_initialized env (il_sys lib) slib rnd1 rnd2 h0 L0) (\<lambda>(h, L).
     res_bind (its_root_key env) (\<lambda>its_root_pda.
     if account_exists (li_accounts L) its_root_pda then Inr (h, L) else
     let upgrade_authority = hs_operator h in
     res_bind (ensure_program_data_account env (its_id env) upgrade_authority L) (\<lambda>(_, L1).
     res_bind (make_initialize_instruction env upgrade_authority (hs_operator h) ''solana'' ''axelar123'') (\<lambda>init_ix.
     res_bind (user_roles_key env its_root_pda (hs_operator h)) (\<lambda>user_roles_account.
     res_bind (its_chain env lib [(init_ix, \<lambda>s. account_exists (its_accounts s) its_root_pda \<and>
                 account_exists (its_accounts s) user_roles_account)] L1) (\<lambda>L2.
     Inr (h\<lparr>hi_its_root := its_root_pda\<rparr>, L2)))))))"

definition its_harness_new ::
    "env \<Rightarrow> its_lib \<Rightarrow> secp_lib \<Rightarrow> bytes \<Rightarrow> bytes \<Rightarrow> pubkey \<Rightarrow> pubkey \<Rightarrow> its_ledger \<Rightarrow> (its_harness \<times> its_ledger) result" where
  "its_harness_new env lib slib rnd1 rnd2 payer operator L =
     ensure_its_initialized env lib slib rnd1 rnd2
       \<lparr>hs_payer = payer, hs_operator = operator, hs_gateway = default_gateway_info, hi_its_root = replicate 32 0\<rparr>
       (ensure_account_exists_with_lamports operator (LAMPORTS_PER_SOL * 100)
       (ensure_account_exists_with_lamports payer (LAMPORTS_PER_SOL * 100) L))"

definition token_mint_for_id :: "env \<Rightarrow> its_harness \<Rightarrow> hash \<Rightarrow> its_ledger \<Rightarrow> pubkey result" where
  "token_mint_for_id env h token_id L =
     res_bind (token_manager_key env token_id (hi_its_root h)) (\<lambda>token_manager_pda.
     case get_account_as token_manager_of (li_accounts L) token_manager_pda of
       Some tm \<Rightarrow> Inr (token_address tm)
     | None \<Rightarrow> token_mint_key env token_id (hi_its_root h))"

definition expected_destination_token_authority :: "env \<Rightarrow> its_lib \<Rightarrow> pubkey \<Rightarrow> its_ledger \<Rightarrow> pubkey result" where
  "expected_destination_token_authority env lib destination L =
     (if is_bpf_loader_owned env lib (li_owner L destination) then destination_token_authority_pda env destination
      else Inr destination)"

definition ensure_trusted_chain ::
    "env \<Rightarrow> its_lib \<Rightarrow> its_harness \<Rightarrow> string \<Rightarrow> its_ledger \<Rightarrow> its_ledger result" where
  "ensure_trusted_chain env lib h trusted_chain_name L =
     res_bind (get_its_root h L) (\<lambda>before.
     res_bind (make_set_trusted_chain_instruction env (hs_operator h) trusted_chain_name False) (\<lambda>ix.
     res_bind (its_chain env lib [(ix, \<lambda>s. account_exists (its_accounts s) (hi_its_root h))] L) (\<lambda>L'.
     res_bind (get_its_root h L') (\<lambda>after.
     res_bind (require (length (trusted_chains after) = length (trusted_chains before) + 1)
       (Panic ''must have the trusted chain appended'')) (\<lambda>_.
     res_bind (require (trusted_chain_name \<in> set (trusted_chains after))
       (Panic ''must have the trusted chain added'')) (\<lambda>_.
     Inr L'))))))"

definition ensure_transfer_operatorship ::
    "env \<Rightarrow> its_lib \<Rightarrow> its_harness \<Rightarrow> pubkey \<Rightarrow> its_ledger \<Rightarrow> (its_harness \<times> its_ledger) result" where
  "ensure_transfer_operatorship env lib h new_operator L =
     res_bind (make_transfer_operatorship_instruction env (hs_payer h) (hs_operator h) new_operator) (\<lambda>ix.
     res_bind (user_roles_key env (hi_its_root h) (hs_operator h)) (\<lambda>old_operator_account.
     res_bind (expect (get_account_as user_roles_of (li_accounts L) old_operator_account)
       ''old operator roles account should exist before transfer'') (\<lambda>old_its_roles.
     let should_be_closed = (roles old_its_roles = OPERATOR) in
     res_bind (its_chain env lib [check_success ix] L) (\<lambda>L'.
     let old' = get_account_as user_roles_of (li_accounts L') old_operator_account in
     res_bind (if should_be_closed
       then require (old' = None) (Panic ''old operator roles account should be closed'')
       else res_bind (expect old' ''old operator account should still have other roles'') (\<lambda>r.
         require (\<not> has_operator_role r) (Panic ''old operator must not have operator role''))) (\<lambda>_.
     res_bind (user_roles_key env (hi_its_root h) new_operator) (\<lambda>new_operator_account.
     res_bind (expect (get_account_as user_roles_of (li_accounts L') new_operator_account)
       ''new operator roles account should exist'') (\<lambda>its_roles.
     res_bind (require (has_operator_role its_roles) (Panic ''new operator must have operator role'')) (\<lambda>_.
     Inr (h\<lparr>hs_operator := new_operator\<rparr>, L')))))))))"

section \<open>Tokens\<close>

definition mint_owned_by :: "pubkey \<Rightarrow> pubkey \<Rightarrow> its_state \<Rightarrow> bool" where
  "mint_owned_by program k s = (case tl_mints (its_tokens s) k of None \<Rightarrow> False | Some mi \<Rightarrow> mi_program mi = program)"

definition ensure_deploy_local_interchain_token ::
    "env \<Rightarrow> its_lib \<Rightarrow> its_harness \<Rightarrow> pubkey \<Rightarrow> bytes \<Rightarrow> string \<Rightarrow> string \<Rightarrow> u8 \<Rightarrow> u64 \<Rightarrow> pubkey option \<Rightarrow>
     its_ledger \<Rightarrow> (hash \<times> its_ledger) result" where
  "ensure_deploy_local_interchain_token env lib h deployer salt name symbol decimals initial_supply minter L =
     (let token_id = interchain_token_id env (its_network lib) deployer salt in
     res_bind (token_manager_key env token_id (hi_its_root h)) (\<lambda>token_manager_pda.
     if account_exists (li_accounts L) token_manager_pda then Inr (token_id, L) else
     res_bind (make_deploy_interchain_token_instruction env lib (hs_payer h) deployer salt name symbol decimals
                initial_supply minter) (\<lambda>deploy_ix.
     res_bind (its_chain env lib [(deploy_ix, \<lambda>s. account_exists (its_accounts s) token_manager_pda \<and>
         (case deploy_ix of DeployInterchainTokenIx a _ _ _ _ _ \<Rightarrow>
            mint_owned_by (token_2022_id lib) (ai_key (di_token_mint a)) s | _ \<Rightarrow> False))] L) (\<lambda>L'.
     res_bind (expect (get_account_as token_manager_of (li_accounts L') token_manager_pda)
       ''token manager account should exist'') (\<lambda>_.
     Inr (token_id, L'))))))"

text \<open>The return data the second check of the source reads is not modelled.\<close>

definition ensure_register_canonical_token ::
    "env \<Rightarrow> its_lib \<Rightarrow> its_harness \<Rightarrow> pubkey \<Rightarrow> its_ledger \<Rightarrow> (hash \<times> its_ledger) result" where
  "ensure_register_canonical_token env lib h token_mint L =
     (let token_id = canonical_interchain_token_id env (its_network lib) token_mint in
     res_bind (token_manager_key env token_id (hi_its_root h)) (\<lambda>token_manager_pda.
     if account_exists (li_accounts L) token_manager_pda then Inr (token_id, L) else
     res_bind (make_register_canonical_token_instruction env lib (hs_payer h) token_mint (token_2022_id lib)) (\<lambda>ix.
     res_bind (its_chain env lib [(ix, \<lambda>s. case ix of
         RegisterCanonicalIx a \<Rightarrow> account_exists (its_accounts s) (ai_key (rc_token_manager_pda a)) | _ \<Rightarrow> False)] L) (\<lambda>L'.
     Inr (token_id, L')))))"

definition ensure_test_interchain_token :: "env \<Rightarrow> its_lib \<Rightarrow> its_harness \<Rightarrow> its_ledger \<Rightarrow> (hash \<times> its_ledger) result" where
  "ensure_test_interchain_token env lib h L =
     ensure_deploy_local_interchain_token env lib h (hs_operator h) (replicate 32 1) ''Test Token'' ''TTK'' 9 1000000000000
       (Some (hs_operator h)) L"

text \<open>
  \<open>create_spl_token_mint\<close> and \<open>create_token_metadata\<close> store the accounts of a token with no
  extension; the unique key of the mint is an argument.
\<close>

definition create_spl_token_mint ::
    "its_lib \<Rightarrow> pubkey \<Rightarrow> pubkey \<Rightarrow> u8 \<Rightarrow> u64 option \<Rightarrow> its_ledger \<Rightarrow> its_ledger" where
  "create_spl_token_mint lib mint mint_authority decimals supply L =
     L\<lparr>li_tokens := (li_tokens L)\<lparr>tl_mints := (tl_mints (li_tokens L))(mint \<mapsto>
       \<lparr>mi_program = token_2022_id lib, mi_authority = Some mint_authority,
        mi_supply = (case supply of None \<Rightarrow> 1000000000 | Some n \<Rightarrow> n), mi_decimals = decimals, mi_fee_config = None,
        mi_metadata_pointer = None, mi_token_metadata = None\<rparr>)\<rparr>\<rparr>"

definition create_token_metadata :: "its_lib \<Rightarrow> pubkey \<Rightarrow> string \<Rightarrow> string \<Rightarrow> its_ledger \<Rightarrow> its_ledger" where
  "create_token_metadata lib mint name symbol L =
     L\<lparr>li_tokens := (li_tokens L)\<lparr>tl_metadata := (tl_metadata (li_tokens L))(metadata_address lib mint \<mapsto>
       Some \<lparr>md_mint = mint, md_name = name, md_symbol = symbol\<rparr>)\<rparr>\<rparr>"

text \<open>\<open>get_or_create_ata_2022_account\<close>: the instruction of the associated token program is a parameter.\<close>

definition get_ata_2022_data :: "its_lib \<Rightarrow> pubkey \<Rightarrow> pubkey \<Rightarrow> its_ledger \<Rightarrow> token_account result" where
  "get_ata_2022_data lib wallet token_mint L =
     expect (tl_accounts (li_tokens L) (ata_address lib wallet token_mint (token_2022_id lib))) ''ata must exist''"

definition get_or_create_ata_2022_account ::
    "its_lib \<Rightarrow> pubkey \<Rightarrow> pubkey \<Rightarrow> its_ledger \<Rightarrow> ((pubkey \<times> token_account) \<times> its_ledger) result" where
  "get_or_create_ata_2022_account lib wallet token_mint L =
     (let ata = ata_address lib wallet token_mint (token_2022_id lib) in
     res_bind (if tl_accounts (li_tokens L) ata \<noteq> None then Inr L
       else res_bind (spl (spl_create_ata lib wallet token_mint (token_2022_id lib) (li_tokens L))) (\<lambda>T.
            Inr (L\<lparr>li_tokens := T\<rparr>))) (\<lambda>L'.
     res_bind (get_ata_2022_data lib wallet token_mint L') (\<lambda>ata_data.
     Inr ((ata, ata_data), L'))))"

definition ensure_test_registered_canonical_token ::
    "env \<Rightarrow> its_lib \<Rightarrow> its_harness \<Rightarrow> pubkey \<Rightarrow> pubkey \<Rightarrow> its_ledger \<Rightarrow> ((pubkey \<times> hash) \<times> its_ledger) result" where
  "ensure_test_registered_canonical_token env lib h token_mint mint_authority L =
     res_bind (ensure_register_canonical_token env lib h token_mint
       (create_token_metadata lib token_mint ''Canonical Token'' ''CTKN''
       (create_spl_token_mint lib token_mint mint_authority 9 (Some 1000000000000) L))) (\<lambda>(token_id, L').
     Inr ((token_mint, token_id), L'))"

text \<open>\<open>balance + amount\<close> and \<open>balance - amount\<close> are checked in a test build.\<close>

definition ensure_mint_interchain_token ::
    "env \<Rightarrow> its_lib \<Rightarrow> hash \<Rightarrow> u64 \<Rightarrow> pubkey \<Rightarrow> pubkey \<Rightarrow> pubkey \<Rightarrow> its_ledger \<Rightarrow> its_ledger result" where
  "ensure_mint_interchain_token env lib token_id amount minter destination_account program L =
     (let balance = (case tl_accounts (li_tokens L) destination_account of None \<Rightarrow> 0 | Some a \<Rightarrow> ta_amount a) in
     res_bind (make_mint_interchain_token_instruction env token_id amount minter destination_account program) (\<lambda>ix.
     res_bind (its_chain env lib [check_success ix] L) (\<lambda>L'.
     res_bind (expect (tl_accounts (li_tokens L') destination_account)
       ''destination account should exist after minting'') (\<lambda>dest.
     res_bind (expect (checked_add balance amount) ''attempt to add with overflow'') (\<lambda>expected.
     res_bind (require (ta_amount dest = expected)
       (Panic ''destination account balance should increase by minted amount'')) (\<lambda>_.
     Inr L'))))))"

definition ensure_mint_test_interchain_token ::
    "env \<Rightarrow> its_lib \<Rightarrow> its_harness \<Rightarrow> hash \<Rightarrow> u64 \<Rightarrow> pubkey \<Rightarrow> its_ledger \<Rightarrow> its_ledger result" where
  "ensure_mint_test_interchain_token env lib h token_id amount destination_account L =
     ensure_mint_interchain_token env lib token_id amount (hs_operator h) destination_account (token_2022_id lib) L"

definition ensure_outgoing_interchain_transfer ::
    "env \<Rightarrow> its_lib \<Rightarrow> its_harness \<Rightarrow> hash \<Rightarrow> u64 \<Rightarrow> pubkey \<Rightarrow> pubkey \<Rightarrow> pubkey \<Rightarrow> string \<Rightarrow> bytes \<Rightarrow> u64 \<Rightarrow>
     pubkey option \<Rightarrow> bytes list option \<Rightarrow> bytes option \<Rightarrow> its_ledger \<Rightarrow> its_ledger result" where
  "ensure_outgoing_interchain_transfer env lib h token_id amount program payer authority dest_chain dest_address gas_value
       caller_program_id caller_pda_seeds data L =
     res_bind (token_mint_for_id env h token_id L) (\<lambda>token_mint.
     let authority_ata = ata_address lib authority token_mint program in
     res_bind (expect (tl_accounts (li_tokens L) authority_ata) ''authority ata should exist'') (\<lambda>before.
     res_bind (make_interchain_transfer_instruction env lib token_id amount program payer authority dest_chain dest_address
                gas_value caller_program_id caller_pda_seeds data) (\<lambda>ix.
     res_bind (its_chain env lib [check_success ix] L) (\<lambda>L'.
     res_bind (expect (tl_accounts (li_tokens L') authority_ata) ''authority ata should exist'') (\<lambda>after.
     res_bind (expect (checked_sub (ta_amount before) amount) ''attempt to subtract with overflow'') (\<lambda>expected.
     res_bind (require (ta_amount after = expected)
       (Panic ''authority ata balance should decrease by transfer amount'')) (\<lambda>_.
     Inr L')))))))"

definition ensure_outgoing_user_interchain_transfer ::
    "env \<Rightarrow> its_lib \<Rightarrow> its_harness \<Rightarrow> hash \<Rightarrow> u64 \<Rightarrow> pubkey \<Rightarrow> pubkey \<Rightarrow> pubkey \<Rightarrow> string \<Rightarrow> bytes \<Rightarrow> u64 \<Rightarrow>
     its_ledger \<Rightarrow> its_ledger result" where
  "ensure_outgoing_user_interchain_transfer env lib h token_id amount program payer authority dest_chain dest_address
       gas_value L =
     ensure_outgoing_interchain_transfer env lib h token_id amount program payer authority dest_chain dest_address gas_value
       None None None L"

section \<open>Relaying a message of the hub\<close>

text \<open>
  What the relaying functions need beside the state: the service's id in text (\<open>to_string\<close>) and the
  random identifier of the message.
\<close>

definition hub_message :: "env \<Rightarrow> string \<Rightarrow> string \<Rightarrow> InterchainTokenService \<Rightarrow> string \<Rightarrow> bytes \<Rightarrow> Message" where
  "hub_message env id_text rand_message_id s source_chain encoded_payload =
     \<lparr>cc_id = \<lparr>chain = source_chain, cc_id_id = rand_message_id\<rparr>, source_address = its_hub_address s,
      destination_chain = ''solana'', destination_address = id_text, payload_hash = hashv env [encoded_payload]\<rparr>"

text \<open>The accounts of \<open>Execute\<close> for an approved message.\<close>

definition harness_execute_addresses ::
    "env \<Rightarrow> its_lib \<Rightarrow> its_harness \<Rightarrow> Message \<Rightarrow> hash \<Rightarrow> pubkey \<Rightarrow> its_ledger \<Rightarrow> execute_addresses result" where
  "harness_execute_addresses env lib h m token_id token_mint L =
     res_bind (find_key env (incoming_message_seeds (command_id env m)) (gateway_id env)) (\<lambda>incoming_message_pda.
     res_bind (expect (get_account_as message_of (gw_accounts (lg_gateway L)) incoming_message_pda)
       ''incoming message account should exist'') (\<lambda>incoming.
     res_bind (token_manager_key env token_id (hi_its_root h)) (\<lambda>token_manager_pda.
     res_bind (expect (create_program_address env
        [str_bytes ''gtw-validate-msg'', command_id env m, [signing_pda_bump incoming]] (its_id env))
       ''valid signing PDA'') (\<lambda>signing_pda.
     res_bind (find_key env [str_bytes ''__event_authority''] (gateway_id env)) (\<lambda>event_authority.
     Inr \<lparr>xa_incoming = incoming_message_pda, xa_signing = signing_pda, xa_gateway_root = gh_root (hs_gateway h),
       xa_event_authority = event_authority, xa_payer = hs_payer h, xa_its_root = hi_its_root h,
       xa_token_manager = token_manager_pda, xa_token_mint = token_mint,
       xa_token_manager_ata = ata_address lib token_manager_pda token_mint (token_2022_id lib),
       xa_token_program = token_2022_id lib\<rparr>)))))"

text \<open>
  \<open>execute_hub_message_with_checks\<close> and \<open>execute_gmp_link_token_with_checks\<close> differ in the mint they
  name only.
\<close>

definition relay_hub_message ::
    "env \<Rightarrow> its_lib \<Rightarrow> secp_lib \<Rightarrow> string \<Rightarrow> string \<Rightarrow> its_harness \<Rightarrow> hash \<Rightarrow> string \<Rightarrow> HubMessage \<Rightarrow>
     (its_ledger \<Rightarrow> pubkey result) \<Rightarrow> account_info list \<Rightarrow> (its_state result \<Rightarrow> bool) \<Rightarrow> its_ledger \<Rightarrow>
     (its_state result \<times> its_ledger) result" where
  "relay_hub_message env lib slib id_text rnd h token_id source_chain payload mint_of extra_accounts checks L =
     res_bind (expect (hub_to_vec lib payload) ''payload should serialize'') (\<lambda>encoded_payload.
     res_bind (expect (get_account_as its_root_of (li_accounts L) (hi_its_root h)) ''its config should exist'') (\<lambda>s.
     let message = hub_message env id_text rnd s source_chain encoded_payload in
     res_bind (ensure_approved_incoming_messages env slib h [message] L) (\<lambda>L1.
     res_bind (mint_of L1) (\<lambda>token_mint.
     res_bind (harness_execute_addresses env lib h message token_id token_mint L1) (\<lambda>x.
     its_checked env lib checks
       (ItsExecuteIx (execute_accounts env lib x) extra_accounts message encoded_payload) L1)))))"

definition execute_hub_message_with_checks ::
    "env \<Rightarrow> its_lib \<Rightarrow> secp_lib \<Rightarrow> string \<Rightarrow> string \<Rightarrow> its_harness \<Rightarrow> hash \<Rightarrow> string \<Rightarrow> HubMessage \<Rightarrow>
     account_info list \<Rightarrow> (its_state result \<Rightarrow> bool) \<Rightarrow> its_ledger \<Rightarrow> (its_state result \<times> its_ledger) result" where
  "execute_hub_message_with_checks env lib slib id_text rnd h token_id source_chain payload extra_accounts checks L =
     relay_hub_message env lib slib id_text rnd h token_id source_chain payload (token_mint_for_id env h token_id)
       extra_accounts checks L"

definition execute_hub_message ::
    "env \<Rightarrow> its_lib \<Rightarrow> secp_lib \<Rightarrow> string \<Rightarrow> string \<Rightarrow> its_harness \<Rightarrow> hash \<Rightarrow> string \<Rightarrow> HubMessage \<Rightarrow>
     account_info list \<Rightarrow> its_ledger \<Rightarrow> (its_state result \<times> its_ledger) result" where
  "execute_hub_message env lib slib id_text rnd h token_id source_chain payload extra_accounts L =
     execute_hub_message_with_checks env lib slib id_text rnd h token_id source_chain payload extra_accounts succeeded L"

definition execute_gmp_transfer_with_authority ::
    "env \<Rightarrow> its_lib \<Rightarrow> secp_lib \<Rightarrow> string \<Rightarrow> string \<Rightarrow> its_harness \<Rightarrow> hash \<Rightarrow> string \<Rightarrow> string \<Rightarrow> pubkey \<Rightarrow> u64 \<Rightarrow>
     (bytes \<times> account_info list) option \<Rightarrow> pubkey \<Rightarrow> (its_state result \<Rightarrow> bool) \<Rightarrow> its_ledger \<Rightarrow>
     (its_state result \<times> its_ledger) result" where
  "execute_gmp_transfer_with_authority env lib slib id_text rnd h token_id source_chain src_address dest_address amount data
       destination_token_authority checks L =
     (let transfer_payload = \<lparr>it_token_id = token_id, it_source_address = str_bytes src_address,
          it_destination_address = dest_address, it_amount = amount, it_data = map_option fst data\<rparr> in
     res_bind (token_mint_for_id env h token_id L) (\<lambda>token_mint.
     let destination_ata = ata_address lib destination_token_authority token_mint (token_2022_id lib) in
     res_bind (execute_interchain_transfer_extra_accounts env dest_address destination_token_authority destination_ata
                (Some (data \<noteq> None))) (\<lambda>extra.
     execute_hub_message_with_checks env lib slib id_text rnd h token_id source_chain
       (ReceiveFromHub source_chain (InterchainTransferM transfer_payload))
       (extra @ (case data of None \<Rightarrow> [] | Some (_, data_accounts) \<Rightarrow> data_accounts)) checks L)))"

definition execute_gmp_transfer ::
    "env \<Rightarrow> its_lib \<Rightarrow> secp_lib \<Rightarrow> string \<Rightarrow> string \<Rightarrow> its_harness \<Rightarrow> hash \<Rightarrow> string \<Rightarrow> string \<Rightarrow> pubkey \<Rightarrow> u64 \<Rightarrow>
     (bytes \<times> account_info list) option \<Rightarrow> its_ledger \<Rightarrow> (its_state result \<times> its_ledger) result" where
  "execute_gmp_transfer env lib slib id_text rnd h token_id source_chain src_address dest_address amount data L =
     res_bind (expected_destination_token_authority env lib dest_address L) (\<lambda>destination_token_authority.
     execute_gmp_transfer_with_authority env lib slib id_text rnd h token_id source_chain src_address dest_address amount
       data destination_token_authority succeeded L)"

definition execute_gmp_link_token_with_checks ::
    "env \<Rightarrow> its_lib \<Rightarrow> secp_lib \<Rightarrow> string \<Rightarrow> string \<Rightarrow> its_harness \<Rightarrow> hash \<Rightarrow> string \<Rightarrow> pubkey \<Rightarrow> LinkTokenMsg \<Rightarrow>
     account_info list \<Rightarrow> (its_state result \<Rightarrow> bool) \<Rightarrow> its_ledger \<Rightarrow> (its_state result \<times> its_ledger) result" where
  "execute_gmp_link_token_with_checks env lib slib id_text rnd h token_id source_chain token_mint payload extra_accounts
       checks L =
     relay_hub_message env lib slib id_text rnd h token_id source_chain (ReceiveFromHub source_chain (LinkTokenM payload))
       (\<lambda>_. Inr token_mint) extra_accounts checks L"

definition execute_gmp_link_token ::
    "env \<Rightarrow> its_lib \<Rightarrow> secp_lib \<Rightarrow> string \<Rightarrow> string \<Rightarrow> its_harness \<Rightarrow> hash \<Rightarrow> string \<Rightarrow> pubkey \<Rightarrow> LinkTokenMsg \<Rightarrow>
     account_info list \<Rightarrow> its_ledger \<Rightarrow> (its_state result \<times> its_ledger) result" where
  "execute_gmp_link_token env lib slib id_text rnd h token_id source_chain token_mint payload extra_accounts L =
     execute_gmp_link_token_with_checks env lib slib id_text rnd h token_id source_chain token_mint payload extra_accounts
       succeeded L"

section \<open>The memo program\<close>

definition ensure_memo_program_initialized ::
    "env \<Rightarrow> its_lib \<Rightarrow> its_harness \<Rightarrow> its_ledger \<Rightarrow> its_ledger result" where
  "ensure_memo_program_initialized env lib h L =
     res_bind (find_key env counter_seeds (memo_id env)) (\<lambda>counter_pda.
     if account_exists (li_counters L) counter_pda then Inr L else
     res_bind (make_init_ix env (hs_payer h)) (\<lambda>init_ix.
     res_bind (run_chain (memo_entry env lib (its_view_of L)) [check_success init_ix]
       \<lparr>mm_accounts = li_counters L, mm_its = its_of L, mm_log = li_memo_log L\<rparr>) (\<lambda>s.
     let L' = (with_its (mm_its s) L)\<lparr>li_counters := mm_accounts s, li_memo_log := mm_log s\<rparr> in
     res_bind (expect (li_counters L' counter_pda) ''counter account should exist'') (\<lambda>c.
     res_bind (require (ctr_counter c = 0) (Panic ''counter should have default value'')) (\<lambda>_.
     Inr L')))))"

end
