(* ===== verification/Harness_Its_Inv.thy ===== *)
theory Harness_Its_Inv
  imports Harness_Its Harness_Setup
begin

text \<open>
  What the client of the token service achieves: its set-up succeeds, a chain it trusts is recorded,
  and a message of the hub it relays is approved and reaches its handler.
\<close>

lemma its_of_simps [simp]:
  "its_accounts (its_of L) = li_accounts L" "its_tokens (its_of L) = li_tokens L"
  "its_gateway (its_of L) = lg_gateway L" "its_gas (its_of L) = lg_gas L" "its_events (its_of L) = li_events L"
  by (simp_all add: its_of_def)

lemma with_its_simps [simp]:
  "its_of (with_its st L) = st" "lg_view (with_its st L) = lg_view L" "li_owner (with_its st L) = li_owner L"
  "lg_operators (with_its st L) = lg_operators L" "with_its st (L\<lparr>lg_gateway := g\<rparr>) = with_its st L"
  by (simp_all add: its_of_def with_its_def)

lemma its_of_gateway [simp]: "its_of (L\<lparr>lg_gateway := g\<rparr>) = (its_of L)\<lparr>its_gateway := g\<rparr>"
  by (simp add: its_of_def)

section \<open>Relaying\<close>

text \<open>A message just approved, with the accounts the client derives for it.\<close>

lemma harness_addresses_ready:
  assumes law: "pda_law env" and fin: "batch_done env (lg_gateway L) [m] g'"
    and dest: "pubkey_from_str env (destination_address m) = Some (its_id env)"
    and tk: "token_manager_key env tid (hi_its_root h) = Inr tk"
    and ea: "try_find_program_address env [str_bytes ''__event_authority''] (gateway_id env) = Some (ek, eb)"
  obtains x im where "harness_execute_addresses env lib h m tid mk (L\<lparr>lg_gateway := g'\<rparr>) = Inr x"
    and "message_at g' (xa_incoming x) im" and "is_approved (im_status im)" and "message_origin env g' (xa_incoming x) im m"
    and "\<exists>b. try_find_program_address env (validate_message_seeds (command_id env m)) (its_id env) = Some (xa_signing x, b)"
    and "x = \<lparr>xa_incoming = xa_incoming x, xa_signing = xa_signing x, xa_gateway_root = gh_root (hs_gateway h),
      xa_event_authority = ek, xa_payer = hs_payer h, xa_its_root = hi_its_root h, xa_token_manager = tk, xa_token_mint = mk,
      xa_token_manager_ata = ata_address lib tk mk (token_2022_id lib), xa_token_program = token_2022_id lib\<rparr>"
proof -
  obtain k im where k: "message_at g' k im" "is_approved (im_status im)" and org: "message_origin env g' k im m"
    using fin unfolding batch_done_def approved_in_def by auto
  obtain sk where sk: "try_find_program_address env (validate_message_seeds (command_id env m)) (its_id env)
      = Some (sk, signing_pda_bump im)"
    using org dest by (auto simp: message_origin_def destination_signing_bump_def ValidateMessageSigner_find_pda_def
        find_program_address_def res_inv)
  have create: "create_program_address env [str_bytes ''gtw-validate-msg'', command_id env m, [signing_pda_bump im]] (its_id env) = Some sk"
    using pda_lawD [OF law sk] by (simp add: validate_message_seeds_def)
  have find: "try_find_program_address env (incoming_message_seeds (command_id env m)) (gateway_id env) = Some (k, im_bump im)"
    using org by (simp add: message_origin_def)
  let ?x = "\<lparr>xa_incoming = k, xa_signing = sk, xa_gateway_root = gh_root (hs_gateway h), xa_event_authority = ek,
      xa_payer = hs_payer h, xa_its_root = hi_its_root h, xa_token_manager = tk, xa_token_mint = mk,
      xa_token_manager_ata = ata_address lib tk mk (token_2022_id lib), xa_token_program = token_2022_id lib\<rparr>"
  have "harness_execute_addresses env lib h m tid mk (L\<lparr>lg_gateway := g'\<rparr>) = Inr ?x"
    using find k(1) tk create ea
    by (simp add: harness_execute_addresses_def find_key_def find_program_address_def get_account_as_def)
  then show thesis
    using k org sk by (intro that [of ?x im]) auto
qed

text \<open>
  The whole way of a message: with the batch ready and the hub's message decodable, the client's
  message is approved, and what the service is then asked to execute is ready for its handler.
\<close>

lemma relay_ready:
  assumes law: "its_laws env lib" "merkle_law env" "sign_law env slib" and inv: "its_inv env (its_of L)"
    and root: "li_accounts L (hi_its_root h) = Some (ItsRootAcc s)" "\<not> paused s" "sc \<in> set (trusted_chains s)"
    and enc: "hub_to_vec lib (ReceiveFromHub sc inner) = Some enc" "hub_try_from_slice lib enc = Some (ReceiveFromHub sc inner)"
    and m: "m = hub_message env id_text rnd s sc enc" and idt: "pubkey_from_str env id_text = Some (its_id env)"
    and batch: "batch_ready env slib h [m] L"
    and tk: "token_manager_key env tid (hi_its_root h) = Inr tk"
    and ea: "try_find_program_address env [str_bytes ''__event_authority''] (gateway_id env) = Some (ek, eb)"
    and mint: "\<And>g. mint_of (L\<lparr>lg_gateway := g\<rparr>) = Inr mk"
  obtains g' x im where
    "relay_hub_message env lib slib id_text rnd h tid sc (ReceiveFromHub sc inner) mint_of extra checks L =
       its_checked env lib checks (ItsExecuteIx (execute_accounts env lib x) extra m enc) (L\<lparr>lg_gateway := g'\<rparr>)"
    and "its_inv env (its_of (L\<lparr>lg_gateway := g'\<rparr>))"
    and "message_origin env g' (xa_incoming x) im m"
    and "hub_message_ready env lib (its_of (L\<lparr>lg_gateway := g'\<rparr>)) x m enc im s sc inner"
    and "xa_payer x = hs_payer h" and "xa_its_root x = hi_its_root h" and "xa_token_manager x = tk" and "xa_token_mint x = mk"
    and "xa_token_manager_ata x = ata_address lib tk mk (token_2022_id lib)" and "xa_token_program x = token_2022_id lib"
proof -
  note pda = its_lawsD(1,2) [OF law(1)]
  obtain g' where g': "ensure_approved_incoming_messages env slib h [m] L = Inr (L\<lparr>lg_gateway := g'\<rparr>)"
    and fin: "batch_done env (lg_gateway L) [m] g'" and run: "runs (gateway_step env) (lg_gateway L) g'"
    using batch_ready_approved [OF pda law(2,3) batch] by blast
  have dest: "pubkey_from_str env (destination_address m) = Some (its_id env)" using idt by (simp add: m hub_message_def)
  obtain x im where x: "harness_execute_addresses env lib h m tid mk (L\<lparr>lg_gateway := g'\<rparr>) = Inr x"
    and at: "message_at g' (xa_incoming x) im" "is_approved (im_status im)" and org: "message_origin env g' (xa_incoming x) im m"
    and sign: "\<exists>b. try_find_program_address env (validate_message_seeds (command_id env m)) (its_id env) = Some (xa_signing x, b)"
    and parts: "x = \<lparr>xa_incoming = xa_incoming x, xa_signing = xa_signing x, xa_gateway_root = gh_root (hs_gateway h),
      xa_event_authority = ek, xa_payer = hs_payer h, xa_its_root = hi_its_root h, xa_token_manager = tk, xa_token_mint = mk,
      xa_token_manager_ata = ata_address lib tk mk (token_2022_id lib), xa_token_program = token_2022_id lib\<rparr>"
    by (rule harness_addresses_ready [OF pda(1) fin dest tk ea, of lib mk])
  have sel: "xa_gateway_root x = gh_root (hs_gateway h)" "xa_payer x = hs_payer h" "xa_its_root x = hi_its_root h"
    "xa_token_manager x = tk" "xa_token_mint x = mk"
    "xa_token_manager_ata x = ata_address lib tk mk (token_2022_id lib)" "xa_token_program x = token_2022_id lib"
    by (subst parts, simp)+
  obtain c where "config_at (lg_gateway L) (gh_root (hs_gateway h)) c"
    using batch gateway_in_placeD(1) unfolding batch_ready_def by blast
  then have config: "config_at g' (gh_root (hs_gateway h)) c" using fin unfolding batch_done_def by blast
  have inv': "its_inv env (its_of (L\<lparr>lg_gateway := g'\<rparr>))"
    using inv runs_trans [OF run] by (simp add: its_inv_def)
  have "hub_message_ready env lib (its_of (L\<lparr>lg_gateway := g'\<rparr>)) x m enc im s sc inner"
    using at org sign config dest root enc(2)
    by (auto simp: hub_message_ready_def sel message_origin_def m hub_message_def hashv_def)
  moreover have "relay_hub_message env lib slib id_text rnd h tid sc (ReceiveFromHub sc inner) mint_of extra checks L =
       its_checked env lib checks (ItsExecuteIx (execute_accounts env lib x) extra m enc) (L\<lparr>lg_gateway := g'\<rparr>)"
    using g' x root(1) enc(1) mint by (simp add: relay_hub_message_def get_account_as_def m)
  ultimately show thesis using that inv' org sel by blast
qed

text \<open>A link message the client relays is executed.\<close>

lemma client_links:
  assumes law: "its_laws env lib" "merkle_law env" "sign_law env slib" and inv: "its_inv env (its_of L)"
    and root: "li_accounts L (hi_its_root h) = Some (ItsRootAcc s)" "\<not> paused s" "sc \<in> set (trusted_chains s)"
    and enc: "hub_to_vec lib (ReceiveFromHub sc (LinkTokenM p)) = Some enc"
      "hub_try_from_slice lib enc = Some (ReceiveFromHub sc (LinkTokenM p))"
    and idt: "pubkey_from_str env id_text = Some (its_id env)"
    and batch: "batch_ready env slib h [hub_message env id_text rnd s sc enc] L"
    and rk: "its_root_key env = Inr (hi_its_root h)" and tk: "token_manager_key env tid (hi_its_root h) = Inr tk"
    and ea: "try_find_program_address env [str_bytes ''__event_authority''] (gateway_id env) = Some (ek, eb)"
    and p: "p = \<lparr>lm_token_id = tid, lm_token_manager_type = u8_of_type t, lm_source_token_address = src,
        lm_destination_token_address = mk, lm_params = params\<rparr>"
    and new: "li_accounts L tk = None" "t \<noteq> NativeInterchainToken"
    and mint: "length mk = 32" "tl_mints (li_tokens L) mk = Some mi" "mi_program mi = token_2022_id lib"
      "supports_mint_extensions t mi"
    and ata: "init_ata_if_needed lib tk mk (token_2022_id lib) (acc_mut (ata_address lib tk mk (token_2022_id lib))) (li_tokens L) = Inr T"
    and op: "op = None \<and> params = None \<or>
      (\<exists>w k. params = Some w \<and> length w = 32 \<and> user_roles_key env tk w = Inr k \<and> op = Some (w, k))"
    and d: "distinct ([its_id env, hs_payer h, hi_its_root h, tk, mk, ata_address lib tk mk (token_2022_id lib),
      token_2022_id lib, associated_token_program_id lib, system_program_id env] @
      map fst (optional_list op) @ map snd (optional_list op))"
  shows "\<exists>st x im b rb g. (rb = None \<longleftrightarrow> op = None) \<and> execute_gmp_link_token_with_checks env lib slib id_text rnd h tid sc mk p
      (execute_link_token_extra_accounts (map_option fst op) (map_option snd op)) succeeded L = Inr (Inr st, with_its st L) \<and>
    st = linked_state x tid t b op rb T (consumed env x (hub_message env id_text rnd s sc enc) im ((its_of L)\<lparr>its_gateway := g\<rparr>)) \<and>
    xa_token_manager x = tk \<and> xa_token_mint x = mk \<and> xa_token_manager_ata x = ata_address lib tk mk (token_2022_id lib) \<and>
    approved_event env (hub_message env id_text rnd s sc enc) \<in> set (gw_events g)"
proof -
  let ?m = "hub_message env id_text rnd s sc enc"
  let ?extra = "execute_link_token_extra_accounts (map_option fst op) (map_option snd op)"
  obtain g' x im where relay: "relay_hub_message env lib slib id_text rnd h tid sc (ReceiveFromHub sc (LinkTokenM p)) (\<lambda>_. Inr mk) ?extra
       succeeded L = its_checked env lib succeeded (ItsExecuteIx (execute_accounts env lib x) ?extra ?m enc) (L\<lparr>lg_gateway := g'\<rparr>)"
    and inv': "its_inv env (its_of (L\<lparr>lg_gateway := g'\<rparr>))" and org: "message_origin env g' (xa_incoming x) im ?m"
    and ready: "hub_message_ready env lib (its_of (L\<lparr>lg_gateway := g'\<rparr>)) x ?m enc im s sc (LinkTokenM p)"
    and sel: "xa_payer x = hs_payer h" "xa_its_root x = hi_its_root h" "xa_token_manager x = tk" "xa_token_mint x = mk"
      "xa_token_manager_ata x = ata_address lib tk mk (token_2022_id lib)" "xa_token_program x = token_2022_id lib"
    by (rule relay_ready [OF law inv root enc refl idt batch tk ea refl, where extra = ?extra and checks = succeeded])
  let ?L = "L\<lparr>lg_gateway := g'\<rparr>"
  have linkable: "linkable env lib (its_of ?L) x t T"
    using new mint ata by (simp add: linkable_def sel)
  have org': "message_origin env (its_gateway (its_of ?L)) (xa_incoming x) im ?m" using org by simp
  have "\<exists>b rb. (rb = None \<longleftrightarrow> op = None) \<and> its_entry env lib (its_view_of ?L) (ItsExecuteIx (execute_accounts env lib x) ?extra ?m enc) (its_of ?L) =
      Inr (linked_state x tid t b op rb T (consumed env x ?m im (its_of ?L)))"
    by (rule approved_link_of [OF law(1) inv' org' ready _ _ _ linkable])
      (use p rk tk mint(1) op d in \<open>simp_all add: sel execute_keys_def\<close>)
  then obtain b rb where rb: "rb = None \<longleftrightarrow> op = None" and entry: "its_entry env lib (its_view_of ?L) (ItsExecuteIx (execute_accounts env lib x) ?extra ?m enc) (its_of ?L) =
      Inr (linked_state x tid t b op rb T (consumed env x ?m im (its_of ?L)))" by blast
  let ?st = "linked_state x tid t b op rb T (consumed env x ?m im (its_of ?L))"
  have "execute_gmp_link_token_with_checks env lib slib id_text rnd h tid sc mk p ?extra succeeded L = Inr (Inr ?st, with_its ?st L)"
    unfolding execute_gmp_link_token_with_checks_def relay by (simp add: its_checked_def Let_def entry [unfolded its_of_gateway] succeeded_def)
  moreover have "approved_event env ?m \<in> set (gw_events g')" using org by (simp add: message_origin_def)
  ultimately show ?thesis
    using sel rb by (intro exI [of _ ?st] exI [of _ x] exI [of _ im] exI [of _ b] exI [of _ rb] exI [of _ g']) simp
qed

end
