(* ===== verification/Harness_Its_Setup.thy ===== *)
theory Harness_Its_Setup
  imports Harness_Its_Inv
begin

text \<open>
  The set-up of the client of the token service: on a ledger with nothing but tokens, the gateway is
  set up, the service is initialized and a chain is trusted, after which it can relay messages.
\<close>

section \<open>The ledger at the start\<close>

definition its_ledger_start :: "i64 \<Rightarrow> u64 \<Rightarrow> token_ledger \<Rightarrow> (pubkey \<Rightarrow> pubkey) \<Rightarrow> its_ledger" where
  "its_ledger_start now epoch T owner =
     \<lparr>lg_operators = operators_empty, lg_gas = gas_empty (\<lambda>_. 0), lg_gateway = gateway_empty,
      lg_view = \<lparr>unix_timestamp = now, program_data_authority = (\<lambda>_. None)\<rparr>, lg_executable = (\<lambda>_. False),
      li_accounts = Map.empty, li_tokens = T, li_events = [], li_epoch = epoch, li_owner = owner,
      li_counters = Map.empty, li_memo_log = []\<rparr>"

text \<open>A client of a service that runs: the gateway is ready, the client's operator owns the program.\<close>

definition its_client_ready ::
    "env \<Rightarrow> secp_lib \<Rightarrow> its_harness \<Rightarrow> InterchainTokenService \<Rightarrow> its_ledger \<Rightarrow> bool" where
  "its_client_ready env slib h s L \<longleftrightarrow> harness_at_start env slib h L \<and> its_inv env (its_of L) \<and>
     its_root_key env = Inr (hi_its_root h) \<and> li_accounts L (hi_its_root h) = Some (ItsRootAcc s) \<and> \<not> paused s \<and>
     upgrade_authority env (its_view_of L) (hs_operator h)"

lemma with_its_parts [simp]:
  "lg_gateway (with_its st L) = its_gateway st" "li_accounts (with_its st L) = its_accounts st"
  "li_tokens (with_its st L) = its_tokens st" "upgrade_authority env (its_view_of (with_its st L)) w = upgrade_authority env (its_view_of L) w"
  by (simp_all add: with_its_def its_view_of_def upgrade_authority_def)

section \<open>Initialization\<close>

text \<open>What the initialization built by the library writes on a service without accounts.\<close>

lemma initialize_fresh:
  assumes law: "pda_law env" "pda_inj env" and rk: "its_root_key env = Inr rk" and uk: "user_roles_key env rk w = Inr uk"
    and ix: "make_initialize_instruction env payer w c hub = Inr ix" and len: "length w = 32"
    and auth: "upgrade_authority env view payer" and empty: "its_accounts st = Map.empty"
  shows "\<exists>rb b. its_entry env lib view ix st =
    Inr (put_its uk (UserRolesAcc \<lparr>roles = OPERATOR, ur_bump = b\<rparr>) (put_its rk (ItsRootAcc (its_new rb c hub)) st)) \<and> uk \<noteq> rk"
proof -
  obtain k where k: "program_data_key env = Inr k" and ix': "ix = ItsInitializeIx \<lparr>ii_payer = acc_signer_mut payer,
      ii_program_data = acc k, ii_its_root_pda = acc_mut rk, ii_system_program = acc (system_program_id env),
      ii_operator = acc_signer w, ii_user_roles_account = acc_mut uk\<rparr> c hub"
    using ix rk uk by (auto simp: make_initialize_instruction_def res_bind_Inr)
  obtain rb where rb: "try_find_program_address env its_root_seeds (its_id env) = Some (rk, rb)"
    using rk by (auto simp: its_root_key_addr root_addr_def)
  obtain b where b: "roles_addr env rk w uk b" using uk len by (auto simp: user_roles_key_addr)
  have ne: "uk \<noteq> rk" by (rule roles_key_not_root [OF law b rk])
  have "its_entry env lib view ix st =
      Inr (put_its uk (UserRolesAcc \<lparr>roles = OPERATOR, ur_bump = b\<rparr>) (put_its rk (ItsRootAcc (its_new rb c hub)) st))"
    using client_program_data [OF k] auth rb b ne empty
    by (auto simp: its_entry_def its_initialize_def Let_def ix' res_bind_Inr require_Inr check_program_Inr check_payer_Inr
        check_signer_Inr check_mut_Inr check_seeds_canonical_Inr check_vacant_Inr init_user_roles_Inr roles_addr_def)
  with ne show ?thesis by blast
qed

lemma its_set_up:
  fixes h :: its_harness and L0 L :: its_ledger
  assumes law: "platform_laws env slib (il_sys lib)" "its_laws env lib"
    and op: "length (hs_operator h) = 32" and id: "length (its_id env) \<le> 32"
    and keys: "its_root_key env = Inr rk" "user_roles_key env rk (hs_operator h) = Inr uk"
    and gas: "ensure_gas_service_initialized env (il_sys lib) h L0 = Inr L" and empty: "lg_gateway L = gateway_empty"
    and view: "0 \<le> sint (unix_timestamp (lg_view L))" "program_data_authority (lg_view L) = (\<lambda>_. None)"
    and parse: "secp_secret_parse slib b1 = Some sk1" "secp_secret_parse slib b2 = Some sk2"
    and none: "li_accounts L = Map.empty"
  shows "\<exists>gh L' rb. ensure_its_initialized env lib slib b1 b2 h L0 =
      Inr (h\<lparr>hs_gateway := gh, hi_its_root := rk\<rparr>, L') \<and> li_tokens L' = li_tokens L \<and>
    its_client_ready env slib (h\<lparr>hs_gateway := gh, hi_its_root := rk\<rparr>) (its_new rb ''solana'' ''axelar123'') L' \<and>
    (\<forall>k. k \<noteq> rk \<longrightarrow> k \<noteq> uk \<longrightarrow> li_accounts L' k = None)"
proof -
  note laws = platform_lawsD [OF law(1)]
  obtain gh view' g where gw: "ensure_gateway_initialized env (il_sys lib) slib b1 b2 h L0 =
      Inr (h\<lparr>hs_gateway := gh\<rparr>, L\<lparr>lg_view := view', lg_gateway := g\<rparr>)"
    and auth: "\<And>k. program_data_authority view' k \<in> {None, Some (Some (hs_operator h))}"
    and start: "harness_at_start env slib (h\<lparr>hs_gateway := gh\<rparr>) (L\<lparr>lg_view := view', lg_gateway := g\<rparr>)"
    using gateway_set_up [OF law(1) op gas empty view parse] by blast
  obtain pk pb where pk: "try_find_program_address env [its_id env] (loader_upgradeable_id env) = Some (pk, pb)"
    by (rule pda_found [OF laws(3), of "[its_id env]" "loader_upgradeable_id env"]) (simp_all add: id)
  let ?L = "L\<lparr>lg_view := view', lg_gateway := g\<rparr>"
  define L1 where "L1 = ?L\<lparr>lg_view := view'\<lparr>program_data_authority := (program_data_authority view')(pk \<mapsto> Some (hs_operator h))\<rparr>\<rparr>"
  have sel: "li_accounts L1 = Map.empty" "li_tokens L1 = li_tokens L" "lg_gateway L1 = g" "lg_gas L1 = lg_gas L"
    using none by (simp_all add: L1_def)
  have data: "ensure_program_data_account env (its_id env) (hs_operator h) ?L = Inr (pk, L1)"
  proof (cases "program_data_authority view' pk")
    case None then show ?thesis using pk by (simp add: ensure_program_data_account_def find_key_def find_program_address_def L1_def)
  next
    case (Some x)
    with auth [of pk] have "(program_data_authority view')(pk \<mapsto> Some (hs_operator h)) = program_data_authority view'"
      by (simp add: fun_upd_idem)
    then show ?thesis using pk Some by (simp add: ensure_program_data_account_def find_key_def find_program_address_def L1_def)
  qed
  have authority: "upgrade_authority env (its_view_of L1) (hs_operator h)"
    using pk by (simp add: upgrade_authority_def its_view_of_def L1_def)
  obtain ix where ix: "make_initialize_instruction env (hs_operator h) (hs_operator h) ''solana'' ''axelar123'' = Inr ix"
    and users: "its_ix_wf ix" "its_no_pda_signer env ix"
    using keys pk op by (simp add: make_initialize_instruction_def program_data_key_def find_key_def find_program_address_def
        its_ix_wf_def its_users_def its_no_pda_signer_def)
  have none': "its_accounts (its_of L1) = Map.empty" by (simp add: sel)
  obtain rb b where entry: "its_entry env lib (its_view_of L1) ix (its_of L1) =
      Inr (put_its uk (UserRolesAcc \<lparr>roles = OPERATOR, ur_bump = b\<rparr>)
        (put_its rk (ItsRootAcc (its_new rb ''solana'' ''axelar123'')) (its_of L1)))" and ne: "uk \<noteq> rk"
    using initialize_fresh [OF laws(1,2) keys ix op authority none'] by blast
  let ?st = "put_its uk (UserRolesAcc \<lparr>roles = OPERATOR, ur_bump = b\<rparr>)
        (put_its rk (ItsRootAcc (its_new rb ''solana'' ''axelar123'')) (its_of L1))"
  let ?h = "h\<lparr>hs_gateway := gh, hi_its_root := rk\<rparr>"
  have chain: "its_chain env lib [(ix, \<lambda>s. account_exists (its_accounts s) rk \<and> account_exists (its_accounts s) uk)] L1 =
      Inr (with_its ?st L1)"
    using ne by (simp add: its_chain_def entry account_exists_def)
  have run: "ensure_its_initialized env lib slib b1 b2 h L0 = Inr (?h, with_its ?st L1)"
    using chain data ix keys none sel by (simp add: ensure_its_initialized_def gw account_exists_def)
  have reach: "gateway_reachable env g" using start by (simp add: harness_at_start_def)
  have "its_inv env (its_empty (li_tokens L) gateway_empty (lg_gas L))" by (rule its_empty_inv)
  then have "its_inv env (its_of L1)" using reach sel by (simp add: its_inv_def its_empty_def)
  note inv = its_inv_step(1) [OF law(2) this its_ix [OF users(2,1) entry]]
  have "harness_at_start env slib ?h (with_its ?st L1)"
    using start by (rule harness_at_start_cong [THEN iffD1, rotated -1]) (simp_all add: sel)
  with inv have "its_client_ready env slib ?h (its_new rb ''solana'' ''axelar123'') (with_its ?st L1)"
    using authority keys ne by (simp add: its_client_ready_def) (simp add: its_new_def)
  with run show ?thesis
    by (intro exI [of _ gh] exI [of _ "with_its ?st L1"] exI [of _ rb]) (simp add: sel)
qed

lemma its_new_ready:
  assumes law: "platform_laws env slib (il_sys lib)" "its_laws env lib"
    and op: "length operator = 32" and id: "length (its_id env) \<le> 32" and now: "0 \<le> sint now"
    and parse: "secp_secret_parse slib rnd1 = Some sk1" "secp_secret_parse slib rnd2 = Some sk2"
    and users: "fst (the (try_find_program_address env treasury_seeds (gas_service_id env))) \<notin> {payer, operator}"
    and keys: "its_root_key env = Inr rk" "user_roles_key env rk operator = Inr uk"
  shows "\<exists>h L rb. its_harness_new env lib slib rnd1 rnd2 payer operator (its_ledger_start now epoch T owner) = Inr (h, L) \<and>
    its_client_ready env slib h (its_new rb ''solana'' ''axelar123'') L \<and>
    hs_payer h = payer \<and> hs_operator h = operator \<and> hi_its_root h = rk \<and> li_tokens L = T \<and>
    (\<forall>k. k \<noteq> rk \<longrightarrow> k \<noteq> uk \<longrightarrow> li_accounts L k = None)"
proof -
  define h where "h = \<lparr>hs_payer = payer, hs_operator = operator, hs_gateway = default_gateway_info, hi_its_root = replicate 32 0\<rparr>"
  define L where "L = ensure_account_exists_with_lamports operator (LAMPORTS_PER_SOL * 100)
       (ensure_account_exists_with_lamports payer (LAMPORTS_PER_SOL * 100) (its_ledger_start now epoch T owner))"
  have h: "hs_payer h = payer" "hs_operator h = operator" by (simp_all add: h_def)
  have zero: "gs_balances (lg_gas (its_ledger_start now epoch T owner)) = (\<lambda>_. 0)"
    by (simp add: its_ledger_start_def gas_empty_def)
  note L = funded_start [OF zero, of operator payer, folded L_def, unfolded its_ledger_start_def gas_empty_def, simplified]
  have its: "li_accounts L = Map.empty" "li_tokens L = T"
    by (simp_all add: L_def ensure_account_exists_with_lamports_def Let_def its_ledger_start_def)
  have funds: "LAMPORTS_PER_SOL \<le> gs_balances (lg_gas L) (hs_payer h)"
    by (simp add: L(5) h(1) LAMPORTS_PER_SOL_def)
  have vacant: "k \<noteq> hs_payer h \<and> gs_balances (lg_gas L) k = 0"
    if "try_find_program_address env treasury_seeds (gas_service_id env) = Some (k, b)" for k b
    using users that by (simp add: L(5) h(1))
  have op': "length (hs_operator h) = 32" by (simp add: h op)
  obtain ops g where gas: "ensure_gas_service_initialized env (il_sys lib) h L = Inr (L\<lparr>lg_operators := ops, lg_gas := g\<rparr>)"
    using gas_set_up [OF law(1) op' L(1,2) funds] vacant by blast
  let ?L = "L\<lparr>lg_operators := ops, lg_gas := g\<rparr>"
  have "lg_gateway ?L = gateway_empty" "0 \<le> sint (unix_timestamp (lg_view ?L))"
    "program_data_authority (lg_view ?L) = (\<lambda>_. None)" "li_accounts ?L = Map.empty"
    by (simp_all add: L now its)
  from its_set_up [OF law op' id keys(1) keys(2) [folded h(2)] gas this(1-3) parse this(4)]
  obtain gh L' rb where ok: "ensure_its_initialized env lib slib rnd1 rnd2 h L = Inr (h\<lparr>hs_gateway := gh, hi_its_root := rk\<rparr>, L')"
    and ready: "its_client_ready env slib (h\<lparr>hs_gateway := gh, hi_its_root := rk\<rparr>) (its_new rb ''solana'' ''axelar123'') L'"
    and rest: "li_tokens L' = T" "\<forall>k. k \<noteq> rk \<longrightarrow> k \<noteq> uk \<longrightarrow> li_accounts L' k = None"
    by (auto simp: its)
  from ok have "its_harness_new env lib slib rnd1 rnd2 payer operator (its_ledger_start now epoch T owner) =
      Inr (h\<lparr>hs_gateway := gh, hi_its_root := rk\<rparr>, L')"
    by (simp add: its_harness_new_def h_def L_def)
  with ready rest h show ?thesis
    by (intro exI [of _ "h\<lparr>hs_gateway := gh, hi_its_root := rk\<rparr>"] exI [of _ L'] exI [of _ rb]) simp
qed

section \<open>Trusting a chain\<close>

lemma trusted_set_up:
  assumes law: "its_laws env lib" and ready: "its_client_ready env slib h s L" and op: "length (hs_operator h) = 32"
    and sc: "sc \<notin> set (trusted_chains s)" "sc \<noteq> ITS_HUB_CHAIN_NAME"
  shows "\<exists>L'. ensure_trusted_chain env lib h sc L = Inr L' \<and> its_client_ready env slib h (add_trusted_chain sc s) L' \<and>
    li_tokens L' = li_tokens L \<and> (\<forall>k. k \<noteq> hi_its_root h \<longrightarrow> li_accounts L' k = li_accounts L k)"
proof -
  let ?rk = "hi_its_root h"
  have r: "its_inv env (its_of L)" "its_root_key env = Inr ?rk" "li_accounts L ?rk = Some (ItsRootAcc s)" "\<not> paused s"
    "upgrade_authority env (its_view_of L) (hs_operator h)" and start: "harness_at_start env slib h L"
    using ready by (auto simp: its_client_ready_def)
  obtain ix where ix: "make_set_trusted_chain_instruction env (hs_operator h) sc False = Inr ix"
    and wf: "its_ix_wf ix" "its_no_pda_signer env ix"
    using r(2,5) op by (auto simp: make_set_trusted_chain_instruction_def trusted_chain_accounts_def program_data_key_def find_key_def
        find_program_address_def optional_key_def upgrade_authority_def its_ix_wf_def its_users_def its_no_pda_signer_def)
  let ?s = "add_trusted_chain sc s"
  let ?st = "emit_its (TrustedChainSet sc) (put_its ?rk (ItsRootAcc ?s) (its_of L))"
  have entry: "its_entry env lib (its_view_of L) ix (its_of L) = Inr ?st"
    by (rule set_trusted_chain_exact [OF its_inv_pre [OF law r(1)] ix op r(2), THEN iffD2])
      (use r sc in \<open>simp add: chain_admin_def\<close>)
  have "ensure_trusted_chain env lib h sc L = Inr (with_its ?st L)"
    using r(3) sc by (simp add: ensure_trusted_chain_def get_its_root_def get_account_as_def ix its_chain_def entry
        account_exists_def add_trusted_chain_def)
  moreover have "its_client_ready env slib h ?s (with_its ?st L)"
  proof -
    have "harness_at_start env slib h (with_its ?st L)"
      using start by (rule harness_at_start_cong [THEN iffD1, rotated -1]) simp_all
    with its_inv_step(1) [OF law r(1) its_ix [OF wf(2,1) entry]] show ?thesis
      using r by (simp add: its_client_ready_def)
  qed
  ultimately show ?thesis by (intro exI [of _ "with_its ?st L"]) simp
qed

end
