(* ===== verification/Harness_Its_Props.thy ===== *)
theory Harness_Its_Props
  imports Harness_Its_Setup Harness_Props Its_Client_Demo
begin

text \<open>
  The client of the token service from an empty ledger: it sets the gateway and the service up,
  trusts a chain, and links a token of its own on a message of the hub it has approved itself.
\<close>

section \<open>The token to be linked\<close>

text \<open>The associated token program creates the account of an existing mint of its token program.\<close>

definition ata_law :: "its_lib \<Rightarrow> bool" where
  "ata_law lib \<longleftrightarrow> (\<forall>w m T mi. tl_mints T m = Some mi \<and> mi_program mi = token_2022_id lib \<and>
     tl_accounts T (ata_address lib w m (token_2022_id lib)) = None \<longrightarrow>
     (\<exists>T'. spl_create_ata lib w m (token_2022_id lib) T = Some T'))"

lemma ata_lawD:
  assumes "ata_law lib" and "tl_mints T m = Some mi" and "mi_program mi = token_2022_id lib"
    and "tl_accounts T (ata_address lib w m (token_2022_id lib)) = None"
  shows "\<exists>T'. spl_create_ata lib w m (token_2022_id lib) T = Some T'"
  using assms unfolding ata_law_def by blast

lemma created_mint [simp]:
  "tl_accounts (li_tokens (create_spl_token_mint lib mk auth dec supply L)) = tl_accounts (li_tokens L)"
  "lg_gateway (create_spl_token_mint lib mk auth dec supply L) = lg_gateway L"
  "li_accounts (create_spl_token_mint lib mk auth dec supply L) = li_accounts L"
  by (simp_all add: create_spl_token_mint_def)

lemma created_mint_at:
  obtains mi where "tl_mints (li_tokens (create_spl_token_mint lib mk auth dec supply L)) mk = Some mi"
    and "mi_program mi = token_2022_id lib" and "mi_fee_config mi = None"
  by (simp add: create_spl_token_mint_def)

lemma manager_key_not_roles:
  assumes law: "pda_law env" "pda_inj env" and len: "length w = 32"
    and uk: "user_roles_key env r w = Inr uk" and tk: "token_manager_key env tid r = Inr tk"
  shows "tk \<noteq> uk"
proof
  assume eq: "tk = uk"
  obtain b where b: "roles_addr env r w tk b" using uk len eq by (auto simp: user_roles_key_addr)
  obtain tb where "try_find_program_address env (token_manager_seeds tid r) (its_id env) = Some (tk, tb)"
    using tk by (auto simp: token_manager_key_def find_key_Inr)
  from pda_injD [OF law(2) roles_addr_create [OF law(1) b] pda_lawD [OF law(1) this]]
  show False by (simp add: user_roles_seeds_def token_manager_seeds_def str_bytes_def)
qed

section \<open>The property\<close>

text \<open>
  C15. The client of the token service, from an empty ledger: its set-up succeeds, the chain it is
  asked to trust is trusted, and a link message of the hub for a token of that chain, approved by the
  client's own signers and relayed with the accounts the library adds, is executed: the manager of
  exactly this mint, type and token id exists, the operator the message names has its roles, and the
  gateway has the message as executed by the service.
\<close>

theorem client_links_from_nothing:
  assumes law: "platform_laws env slib (il_sys lib)" "destination_law env lib" "ata_law lib"
    and op: "length operator = 32" and id: "length (its_id env) \<le> 32" and now: "0 \<le> sint now"
    and parse: "secp_secret_parse slib rnd1 = Some sk1" "secp_secret_parse slib rnd2 = Some sk2"
    and users: "fst (the (try_find_program_address env treasury_seeds (gas_service_id env))) \<notin> {payer, operator}"
    and keys: "its_root_key env = Inr rk" "user_roles_key env rk operator = Inr uk" "token_manager_key env tid rk = Inr tk"
    and sc: "sc \<noteq> ITS_HUB_CHAIN_NAME" and idt: "pubkey_from_str env id_text = Some (its_id env)"
    and p: "p = \<lparr>lm_token_id = tid, lm_token_manager_type = u8_of_type t, lm_source_token_address = src,
        lm_destination_token_address = mk, lm_params = params\<rparr>"
    and enc: "hub_to_vec lib (ReceiveFromHub sc (LinkTokenM p)) = Some enc"
      "hub_try_from_slice lib enc = Some (ReceiveFromHub sc (LinkTokenM p))"
    and t: "t \<notin> {NativeInterchainToken, LockUnlockFee}" and mk: "length mk = 32"
    and vacant: "tl_accounts T (ata_address lib tk mk (token_2022_id lib)) = None"
    and linked: "op = None \<and> params = None \<or>
      (\<exists>w k. params = Some w \<and> length w = 32 \<and> user_roles_key env tk w = Inr k \<and> op = Some (w, k))"
    and d: "distinct ([its_id env, payer, rk, tk, mk, ata_address lib tk mk (token_2022_id lib),
      token_2022_id lib, associated_token_program_id lib, system_program_id env] @
      map fst (optional_list op) @ map snd (optional_list op))"
  shows "\<exists>h L1 L2 L st b m. its_harness_new env lib slib rnd1 rnd2 payer operator (its_ledger_start now epoch T owner) = Inr (h, L1) \<and>
    ensure_trusted_chain env lib h sc L1 = Inr L2 \<and> L = create_spl_token_mint lib mk auth dec minted L2 \<and>
    execute_gmp_link_token env lib slib id_text rnd h tid sc mk p
      (execute_link_token_extra_accounts (map_option fst op) (map_option snd op)) L = Inr (Inr st, with_its st L) \<and>
    its_accounts st tk = Some (TokenManagerAcc (token_manager_init t tid mk (ata_address lib tk mk (token_2022_id lib)) b)) \<and>
    (\<forall>w k. op = Some (w, k) \<longrightarrow> (\<exists>rb. its_accounts st k = Some (UserRolesAcc \<lparr>roles = LINKED_OPERATOR_ROLES, ur_bump = rb\<rparr>))) \<and>
    payload_hash m = hashv env [enc] \<and> {approved_event env m, executed_event env m (its_id env)} \<subseteq> set (gw_events (its_gateway st))"
proof -
  note laws = platform_lawsD [OF law(1)]
  have its: "its_laws env lib" using laws(1,2) law(2) by (simp add: its_laws_def)
  obtain h L1 rb where new: "its_harness_new env lib slib rnd1 rnd2 payer operator (its_ledger_start now epoch T owner) = Inr (h, L1)"
    and r1: "its_client_ready env slib h (its_new rb ''solana'' ''axelar123'') L1"
    and h: "hs_payer h = payer" "hs_operator h = operator" "hi_its_root h = rk" and T1: "li_tokens L1 = T"
    and free: "\<forall>k. k \<noteq> rk \<longrightarrow> k \<noteq> uk \<longrightarrow> li_accounts L1 k = None"
    using its_new_ready [OF law(1) its op id now parse users keys(1,2)] by blast
  let ?s = "add_trusted_chain sc (its_new rb ''solana'' ''axelar123'')"
  obtain L2 where trust: "ensure_trusted_chain env lib h sc L1 = Inr L2" and r2: "its_client_ready env slib h ?s L2"
    and T2: "li_tokens L2 = T" and acc2: "\<forall>k. k \<noteq> rk \<longrightarrow> li_accounts L2 k = li_accounts L1 k"
    using trusted_set_up [OF its r1 _ _ sc] op T1 by (auto simp: h its_new_def)
  let ?L = "create_spl_token_mint lib mk auth dec minted L2"
  have start: "harness_at_start env slib h ?L"
    using r2 unfolding its_client_ready_def by (elim conjE) (erule harness_at_start_cong [THEN iffD1, rotated -1], simp_all)
  have inv: "its_inv env (its_of ?L)" using r2 by (simp add: its_client_ready_def its_inv_def)
  have root: "li_accounts ?L (hi_its_root h) = Some (ItsRootAcc ?s)" "\<not> paused ?s" "sc \<in> set (trusted_chains ?s)"
    using r2 sc by (auto simp: its_client_ready_def add_trusted_chain_def its_new_def)
  let ?m = "hub_message env id_text rnd ?s sc enc"
  have batch: "batch_ready env slib h [?m] ?L" by (rule batch_ready_at_start [OF law(1) start]) simp_all
  obtain ek eb where ea: "try_find_program_address env [str_bytes ''__event_authority''] (gateway_id env) = Some (ek, eb)"
    by (rule pda_found [OF laws(3), of "[str_bytes ''__event_authority'']" "gateway_id env"]) (simp_all add: str_bytes_def)
  have "tk \<noteq> rk" using d by auto
  then have none: "li_accounts ?L tk = None"
    using free acc2 manager_key_not_roles [OF laws(1,2) op keys(2,3)] by simp
  obtain mi where mi: "tl_mints (li_tokens ?L) mk = Some mi" "mi_program mi = token_2022_id lib" "mi_fee_config mi = None"
    by (rule created_mint_at)
  have ext: "supports_mint_extensions t mi" using t mi(3) by (cases t) (simp_all add: supports_mint_extensions_def)
  let ?ata = "ata_address lib tk mk (token_2022_id lib)"
  have v: "tl_accounts (li_tokens ?L) ?ata = None" using vacant T2 by simp
  obtain T' where "spl_create_ata lib tk mk (token_2022_id lib) (li_tokens ?L) = Some T'"
    using ata_lawD [OF law(3) mi(1,2) v] by blast
  with v have ata: "init_ata_if_needed lib tk mk (token_2022_id lib) (acc_mut ?ata) (li_tokens ?L) = Inr T'"
    by (simp add: init_ata_if_needed_def check_mut_def require_def spl_def)
  have tn: "t \<noteq> NativeInterchainToken" using t by simp
  obtain st x im b ob g where ob: "ob = None \<longleftrightarrow> op = None"
    and run: "execute_gmp_link_token_with_checks env lib slib id_text rnd h tid sc mk p
      (execute_link_token_extra_accounts (map_option fst op) (map_option snd op)) succeeded ?L = Inr (Inr st, with_its st ?L)"
    and st: "st = linked_state x tid t b op ob T' (consumed env x ?m im ((its_of ?L)\<lparr>its_gateway := g\<rparr>))"
    and x: "xa_token_manager x = tk" "xa_token_mint x = mk" "xa_token_manager_ata x = ?ata"
    and ev: "approved_event env ?m \<in> set (gw_events g)"
    using client_links [OF its laws(4,7) inv root enc idt batch keys(1) [folded h(3)] keys(3) [folded h(3)] ea p none tn mk mi(1,2) ext ata
        linked d [folded h(1) h(3)]] by blast
  have "its_accounts st tk = Some (TokenManagerAcc (token_manager_init t tid mk ?ata b))"
    using d by (auto simp: st linked_state_def x put_optional_roles_def optional_list_def split: option.splits)
  moreover have "\<exists>rb. its_accounts st k = Some (UserRolesAcc \<lparr>roles = LINKED_OPERATOR_ROLES, ur_bump = rb\<rparr>)" if "op = Some (w, k)" for w k
    using ob that by (auto simp: st linked_state_def put_optional_roles_def)
  moreover have "{approved_event env ?m, executed_event env ?m (its_id env)} \<subseteq> set (gw_events (its_gateway st))"
    using ev by (auto simp: st linked_state_def put_optional_roles_def consumed_def split: option.splits)
  ultimately show ?thesis
    using new trust run
    by (intro exI [of _ h] exI [of _ L1] exI [of _ L2] exI [of _ ?L] exI [of _ st] exI [of _ b] exI [of _ ?m])
      (simp add: execute_gmp_link_token_def hub_message_def)
qed

section \<open>A concrete client\<close>

definition demo_hlib :: its_lib where
  "demo_hlib = demo_clib\<lparr>hub_to_vec := (\<lambda>_. Some [90])\<rparr>"

definition demo_no_tokens :: token_ledger where
  "demo_no_tokens = \<lparr>tl_mints = Map.empty, tl_accounts = Map.empty, tl_metadata = (\<lambda>_. None)\<rparr>"

lemma demo_hlib_sel [simp]:
  "token_2022_id demo_hlib = [32]" "associated_token_program_id demo_hlib = [33]" "il_sys demo_hlib = demo_sys"
  "ata_address demo_hlib w m p = 41 # w @ m"
  by (simp_all add: demo_hlib_def demo_clib_def demo_ilib_def)

lemma demo_hlib_laws: "destination_law demo_henv demo_hlib" "ata_law demo_hlib"
  by (auto simp: destination_law_def ata_law_def demo_hlib_def demo_clib_def demo_ilib_def runs_refl)

lemma demo_client_derived:
  "its_root_key demo_henv = Inr demo_its_key" "user_roles_key demo_henv r w = Inr (demo_roles_key r w)"
  "token_manager_key demo_henv demo_tid demo_its_key = Inr demo_tm_key"
  by (simp_all add: its_root_key_def user_roles_key_def token_manager_key_def find_key_def find_program_address_def demo_henv_def
      demo_env_def its_root_seeds_def demo_its_key_def user_roles_seeds_def demo_roles_key_def token_manager_seeds_def demo_tm_key_def)

lemma demo_client_distinct:
  "distinct ([[3], replicate 32 20, demo_its_key, demo_tm_key, demo_mint_key, 41 # demo_tm_key @ demo_mint_key, [32], [33], [8]] @
     [demo_heir, demo_roles_key demo_tm_key demo_heir])"
proof -
  have "distinct (map hd ([[3], replicate 32 20, demo_its_key, demo_tm_key, demo_mint_key, 41 # demo_tm_key @ demo_mint_key, [32], [33], [8]] @
     [demo_heir, demo_roles_key demo_tm_key demo_heir]))"
    by (simp add: demo_key_heads demo_more_heads)
  then show ?thesis by (simp only: distinct_map)
qed

theorem client_links_from_nothing_witness:
  "\<exists>h L1 L2 st. its_harness_new demo_henv demo_hlib demo_slib (replicate 32 41) (replicate 32 42) (replicate 32 20)
      (replicate 32 10) (its_ledger_start 1000 0 demo_no_tokens (\<lambda>_. [8])) = Inr (h, L1) \<and>
    ensure_trusted_chain demo_henv demo_hlib h ''eth'' L1 = Inr L2 \<and>
    execute_gmp_link_token demo_henv demo_hlib demo_slib [CHR 0x03] ''id'' h demo_tid ''eth'' demo_mint_key demo_link
      [acc demo_heir, acc_mut (demo_roles_key demo_tm_key demo_heir)]
      (create_spl_token_mint demo_hlib demo_mint_key demo_user 9 None L2) =
      Inr (Inr st, with_its st (create_spl_token_mint demo_hlib demo_mint_key demo_user 9 None L2)) \<and>
    its_accounts st demo_tm_key \<noteq> None"
proof -
  have law: "platform_laws demo_henv demo_slib (il_sys demo_hlib)" using demo_platform_laws by simp
  have start: "length (replicate 32 10 :: pubkey) = 32" "length (its_id demo_henv) \<le> 32" "0 \<le> sint (1000 :: i64)"
    by (simp_all add: demo_henv_def demo_env_def)
  have names: "''eth'' \<noteq> ITS_HUB_CHAIN_NAME" "pubkey_from_str demo_henv [CHR 0x03] = Some (its_id demo_henv)"
    by (simp_all add: ITS_HUB_CHAIN_NAME_def demo_henv_def demo_env_def str_bytes_def)
  have link: "demo_link = \<lparr>lm_token_id = demo_tid, lm_token_manager_type = u8_of_type LockUnlock, lm_source_token_address = [6],
      lm_destination_token_address = demo_mint_key, lm_params = Some demo_heir\<rparr>"
    by (simp add: demo_link_def)
  have enc: "hub_to_vec demo_hlib (ReceiveFromHub ''eth'' (LinkTokenM demo_link)) = Some [90]"
    "hub_try_from_slice demo_hlib [90] = Some (ReceiveFromHub ''eth'' (LinkTokenM demo_link))"
    by (simp_all add: demo_hlib_def demo_clib_def)
  have token: "LockUnlock \<notin> {NativeInterchainToken, LockUnlockFee}" "length demo_mint_key = 32"
    "tl_accounts demo_no_tokens (ata_address demo_hlib demo_tm_key demo_mint_key (token_2022_id demo_hlib)) = None"
    by (simp_all add: demo_mint_key_def demo_no_tokens_def)
  from client_links_from_nothing [OF law demo_hlib_laws start demo_signer_keys demo_client_derived(1,2,3) names link enc token,
      where op = "Some (demo_heir, demo_roles_key demo_tm_key demo_heir)" and rnd = "''id''" and epoch = 0 and owner = "\<lambda>_. [8]"
        and auth = demo_user and dec = 9 and minted = None]
  show ?thesis
    using demo_client_derived(2) demo_client_distinct
    by (auto simp: optional_list_def execute_link_token_extra_accounts_def demo_henv_def demo_env_def)
qed

end
