(* ===== verification/Spec2Isabelle.thy ===== *)
theory Spec2Isabelle
  imports Gateway_Props Executable_Props Operators_Props Gas_Props Governance_Props Governance_Live_Props Its_Props Its_Space Its_Client_Props Memo_Props Harness_Rotation Harness_Its_Props
begin

text \<open>
  A verification of the on-chain programs of Axelar on Solana.

  \<^bold>\<open>The programs and how they interact.\<close> Six Anchor programs and three crates, under \<open>src/\<close>:

  \<^item> The gateway (\<open>programs/solana-axelar-gateway\<close>) keeps the verifier sets. A relayer opens a session
    for a payload root, verifiers' signatures are added one by one, and a session that reached its
    quorum approves the messages under the root or rotates the verifiers. A destination program
    consumes an approved message by a call signed with an address derived for the message.
  \<^item> The executable interface (\<open>executable.rs\<close> and \<open>payload/\<close> of the gateway) is what a destination
    program links: it rebuilds the payload from its data and accounts, checks the hash, and makes
    that call.
  \<^item> The operator registry (\<open>programs/solana-axelar-operators\<close>) names who may take gas from the
    treasury of the gas service (\<open>programs/solana-axelar-gas-service\<close>).
  \<^item> Governance (\<open>programs/solana-axelar-governance\<close>) receives commands as messages of the gateway,
    schedules proposals, and executes them by calling other programs, or itself.
  \<^item> The interchain token service (\<open>programs/solana-axelar-its\<close>) moves tokens: it takes or gives them
    by the type of a token's manager, sends its messages to the hub through the gateway, pays gas to
    the gas service, receives the hub's messages, and calls destination programs.
  \<^item> The memo program (\<open>programs/solana-axelar-memo\<close>) is a client of all three interfaces.
  \<^item> The client harness (\<open>helpers/mollusk-harness\<close>) drives them all from outside: it sets them up,
    signs for the verifiers, has batches of messages approved, rotates the verifiers, deploys,
    registers and sends tokens, and relays the hub's messages to the service.
  \<^item> The crates \<open>solana-axelar-std\<close> (messages, verifier sets, execute data, integers) and
    \<open>governance-gmp\<close> are shared.

  \<^bold>\<open>Conventions.\<close> Integers are words of their width, with checked, saturating and wrapping
  operations written out (\<open>Prelude\<close>); a \<open>Pubkey\<close> or a hash is its list of bytes; a \<open>String\<close> is its
  UTF-8 bytes as characters. \<open>Result\<close> is a sum with the error on the left, and \<open>res_bind\<close> is the
  question mark; panics, such as those of the overflow checks of the release profile, are errors
  too. An account is its key with its signer and writable flags; the accounts a program owns are a
  map from keys to a sum type, one alternative per account type, in place of discriminators. A
  \<open>derive(Accounts)\<close> struct is a record, and its attributes are the first checks of the handler, in
  the order of the fields. The runtime undoes a failed instruction, so an error has no state. A
  program's state has the accounts it owns and the log of its events; a program that calls another
  also has the other's state. Each program is a step relation (\<open>gateway_step\<close>, \<open>operators_step\<close>,
  \<open>gas_step\<close>, \<open>gov_step\<close>, \<open>its_step\<close>, \<open>memo_step\<close>) whose steps are its instructions and what others
  may do beside it; properties are about the states reachable by it.

  \<^bold>\<open>The theories.\<close>

  \<^item> \<open>Prelude\<close>: words, the result type and its inversion rules (\<open>res_inv\<close>), little-endian bytes.
    \<open>Utf8\<close>: the validation of UTF-8 and character boundaries. \<open>Errors\<close>: the error enums.
  \<^item> \<open>Platform\<close>: the parameters, the account checks, and the locales \<open>account_kind\<close> (a typed account
    map), \<open>step_invariant\<close> and \<open>step_monotone\<close> (what every step keeps or extends holds of runs).
  \<^item> \<open>Std_Ints\<close> (\<open>u128.rs\<close>, \<open>u256.rs\<close>), \<open>Std_Types\<close> (\<open>message.rs\<close>, \<open>verifier_set.rs\<close>,
    \<open>execute_data.rs\<close>), \<open>Std_Encoding\<close> (\<open>hasher.rs\<close>, the signed digest, the execute data).
  \<^item> \<open>Gateway_State\<close> (\<open>state/\<close>), \<open>Gateway\<close> (\<open>instructions/\<close>, \<open>lib.rs\<close>); \<open>Gateway_Session\<close>: a session
    counts distinct signed leaves; \<open>Gateway_Inv\<close>, \<open>Gateway_Events\<close>: the invariants of the accounts and
    of the log; \<open>Gateway_Demo\<close>, \<open>Gateway_Props\<close>: a concrete run and the properties.
  \<^item> \<open>Payload\<close> (\<open>payload/\<close>, with the locale \<open>codec\<close>), \<open>Executable\<close> (\<open>executable.rs\<close>, with the locale
    \<open>message_consumer\<close>: a handler that consumes each message it accepts), \<open>Executable_Demo\<close>,
    \<open>Executable_Props\<close>.
  \<^item> \<open>Operators\<close>, \<open>Operators_Props\<close>; \<open>Lamports\<close> (\<open>program_utils.rs\<close>, with the locale
    \<open>lamport_mover\<close>), \<open>Gas_Service\<close>, \<open>Gas_Props\<close>.
  \<^item> \<open>Governance_State\<close> (\<open>state/\<close>, the command of \<open>governance-gmp\<close>), \<open>Governance\<close> (initialization,
    configuration, the withdrawal of tokens and the four instructions that schedule, cancel, approve and revoke
    proposals), \<open>Governance_Exec\<close> (the execution of proposals, the handling of messages, the dispatch), \<open>Governance_Inv\<close> (what each log entry presupposes), \<open>Governance_Demo\<close>,
    \<open>Governance_Props\<close>. \<open>Governance_Client\<close> (\<open>helpers/solana-axelar-governance-test-fixtures\<close>): the calls and instructions
    a client builds; \<open>Governance_Live\<close>: they are accepted, and their effect; \<open>Governance_Live_Props\<close>.
  \<^item> \<open>Its_State\<close> (\<open>state/\<close>, \<open>utils.rs\<close>, \<open>encoding.rs\<close>, \<open>events.rs\<close>), \<open>Its_Tokens\<close> (the token programs
    as parameters, the helpers on mints), \<open>Its_Config\<close> (\<open>instructions/config\<close>,
    \<open>instructions/token_manager\<close>), \<open>Its_Deploy\<close>, \<open>Its_Outbound\<close>, \<open>Its_Inbound\<close> (the other
    instructions and the dispatch). \<open>Its_Inv\<close> states a machine over accounts and roles,
    \<open>Its_Refine\<close> shows that every instruction refines it, \<open>Its_Run\<close> lifts its invariants to runs,
    \<open>Its_Flow\<close> states the flow limiter over a log of transfers, \<open>Its_Space\<close> follows the size of the
    service's account through its reallocations. \<open>Its_Demo\<close>, \<open>Its_Props\<close>.
  \<^item> \<open>Its_Client\<close>: the service's client library, the functions that build its instructions
    (\<open>make_..._instruction\<close>) and the accounts a relayer adds to \<open>execute\<close> (\<open>..._extra_accounts\<close>).
    \<open>Its_Client_Inv\<close>: when exactly a built instruction is accepted, and its effect; \<open>Its_Client_Tokens\<close>: deployments,
    mints and transfers; \<open>Its_Relay\<close>: a relayed message reaches its handler. \<open>Its_Client_Demo\<close>,
    \<open>Its_Client_Props\<close>.
  \<^item> \<open>Its_Contract\<close>: the interface between the service and the programs it delivers to, as the locale
    \<open>token_receiver\<close>. \<open>Memo\<close> (the whole memo program), \<open>Memo_Inv\<close> (its counter), \<open>Memo_Receive\<close> (the
    interpretation of \<open>token_receiver\<close>), \<open>Memo_Demo\<close>, \<open>Memo_Props\<close>.
  \<^item> \<open>Harness_Gateway\<close> (\<open>gateway.rs\<close>, \<open>lib.rs\<close> of the client harness), \<open>Harness_Its\<close> (\<open>its.rs\<close>): the client,
    on a \<open>ledger\<close> with the states of the programs it calls. \<open>Harness_Gateway_Inv\<close>: sessions the client
    signs are valid, batches ready are approved; \<open>Harness_Setup\<close>, \<open>Harness_Its_Setup\<close>: the set-up from an
    empty ledger; \<open>Harness_Its_Inv\<close>: relaying; \<open>Harness_Props\<close>, \<open>Harness_Rotation\<close>, \<open>Harness_Its_Props\<close>.

  \<^bold>\<open>What is shown.\<close> Of the gateway: a message is approved only on a quorum of a registered verifier
  set, approved and executed once, by its destination; sets and epochs are in bijection; a rotation
  respects its delay; what the encoder of the std crate produces is accepted exactly when the weight
  reaches the quorum. Of the payload and the executable interface: both codecs read back what they wrote,
  and a program accepts exactly the payload the message was sent with. Of operators and gas: the
  counter is the number of operators, and the treasury covers what the log says. Of governance:
  commands come from the configured governance only, a timelock is respected, each execution has its
  authorisation earlier in the log, and a withdrawal proposal built by its client is stored, and pays once it is due. Of the token service: the roles change as the abstract machine
  allows, the flow limiter is exact and bounds the net flow, transfers both ways do what
  the hub's message says, only the hub's approved messages are executed, accounts are well-formed and the service's account holds what is written
  to it, settings change by their authorities only. Of its client library: the built instructions are
  accepted exactly under the conditions of the service, since the accounts they derive are never the reason of a failure, what the
  library deploys can be minted with it, and an approved message of the hub, relayed with the accounts the library
  adds, reaches its handler and, for a link, is executed. Of the composition: what the service passes to a
  destination program satisfies that program's checks, and the memo program counts and logs exactly
  what it is sent. Of the client, from an empty ledger: every batch of distinct messages it submits is
  approved and can be executed, none is approved twice, it rotates the verifiers and still approves
  with the retained set, and a link message it relays to the service it has set up creates the manager.

  \<^bold>\<open>Parameters and laws.\<close> Code outside the repository is a field of \<open>env\<close>, \<open>payload_lib\<close>,
  \<open>system_lib\<close>, \<open>governance_lib\<close>, \<open>gov_runtime\<close> or \<open>its_lib\<close>: keccak, secp256k1, the Merkle tree crate,
  derived encodings, the derivation of addresses, the system program and the rent rule, the token programs, Metaplex, destination
  programs and what proposals call. Properties name the laws they need: \<open>pda_law\<close> (the bump found
  makes the address), \<open>pda_inj\<close> (an address determines its concatenated seeds) and \<open>pda_program_inj\<close>
  (and its program), injectivity of a hash where it is a premise of the claim, \<open>merkle_law\<close>,
  \<open>payload_lib_law\<close>, \<open>borsh_metadata_law\<close>, \<open>sys_transfer_law\<close>, \<open>external_law\<close> and \<open>destination_law\<close>
  (called programs use the gateway only through its instructions), \<open>spl_law\<close> (token operations keep
  accounts and their owners) and \<open>create_law\<close> (creating a mint or an account creates it as asked and nothing
  else), \<open>borsh_law\<close> (the lengths of Borsh forms). The client also has \<open>secp_lib\<close> (keys and signatures), and
  its properties name \<open>sign_law\<close> (a signature recovers its key) and \<open>platform_laws\<close>: short seeds have an
  address, a tree with leaves has a root, hashes have 32 bytes, a funded payer can create an account;
  \<open>ata_law\<close> is the same for associated token accounts. Each is shown to hold of the concrete parameters of the witnesses.

  \<^bold>\<open>Bounds.\<close> Calls of governance to itself recurse on the call depth left, five as the
  runtime has it, and a call below the bound is the runtime's error. All other recursion is structural or
  on a length; the one loop of the programs that searches, the truncation of a name, is also run with the
  library's unbounded \<open>while_option\<close> and shown to end.

  \<^bold>\<open>Not modelled.\<close> The accounts of \<open>event_cpi\<close> (an event is an entry of the log); compute
  budget and sizes, except that of the service's account; the rent an \<open>init\<close> takes from its payer, except for the treasury and the
  governance configuration, whose balances the programs move; the refusal of duplicate mutable accounts; log lines, except those
  of the memo program; \<open>Display\<close>, \<open>Debug\<close> and IDL implementations; of the client harness the loading of binaries, the sysvar account, the mint with a transfer fee, the rewriting of stored accounts and the
  lamports of accounts that are not the gas service's; of the governance client the contents of accounts it lists by hand and the
  bytes of instructions, whose decoding is the law \<open>withdrawal_decoded\<close>; the test fixtures (the other crates of \<open>helpers/\<close>, \<open>tests/\<close>), which list accounts by hand,
  and the build tool (\<open>xtask/\<close>), neither deployed.
\<close>

end
